(* ===== verification/Agm_Prelude.thy ===== *)
theory Agm_Prelude
  imports "HOL-Library.Word" "HOL-Library.Monad_Syntax" "HOL-Library.More_List" "HOL-Library.Sublist"
begin

text \<open>
  Shared vocabulary of the development: machine integers, the errno values the C code
  returns, the result type of a C function and the two judgements that all component
  proofs use, and the generic lemmas on lists and stores.

  A C function that reads and writes the service's state is a HOL function that ends in
  \<open>\<dots> \<Rightarrow> 's \<Rightarrow> ('a \<times> 's) option\<close>. \<open>Some (r, s')\<close> is a normal return with the value
  \<open>r\<close> and the new state \<open>s'\<close>; \<open>None\<close> is undefined behaviour of the C program: the
  dereference of a NULL or freed pointer, or a read outside an array. Error returns of the
  C code are ordinary values of \<open>r\<close> (negative errno values), never \<open>None\<close>.
\<close>

section \<open>Machine integers and errno\<close>

type_synonym u8 = "8 word"
type_synonym u16 = "16 word"
type_synonym u32 = "32 word"
type_synonym u64 = "64 word"

abbreviation (input) EPERM :: int where "EPERM \<equiv> 1"
abbreviation (input) EIO :: int where "EIO \<equiv> 5"
abbreviation (input) EAGAIN :: int where "EAGAIN \<equiv> 11"
abbreviation (input) ENOMEM :: int where "ENOMEM \<equiv> 12"
abbreviation (input) EBUSY :: int where "EBUSY \<equiv> 16"
abbreviation (input) ENODEV :: int where "ENODEV \<equiv> 19"
abbreviation (input) EINVAL :: int where "EINVAL \<equiv> 22"
abbreviation (input) ENOSPC :: int where "ENOSPC \<equiv> 28"
abbreviation (input) EPIPE :: int where "EPIPE \<equiv> 32"
abbreviation (input) ENOSYS :: int where "ENOSYS \<equiv> 38"
abbreviation (input) EBADR :: int where "EBADR \<equiv> 53"
abbreviation (input) ENODATA :: int where "ENODATA \<equiv> 61"
abbreviation (input) EADV :: int where "EADV \<equiv> 68"
abbreviation (input) ENOPROTOOPT :: int where "ENOPROTOOPT \<equiv> 92"
abbreviation (input) EOPNOTSUPP :: int where "EOPNOTSUPP \<equiv> 95"
abbreviation (input) ETIMEDOUT :: int where "ETIMEDOUT \<equiv> 110"
abbreviation (input) EALREADY :: int where "EALREADY \<equiv> 114"
abbreviation (input) EINPROGRESS :: int where "EINPROGRESS \<equiv> 115"
abbreviation (input) ECANCELED :: int where "ECANCELED \<equiv> 125"
abbreviation (input) ENOTRECOVERABLE :: int where "ENOTRECOVERABLE \<equiv> 131"

section \<open>Results and the two judgements\<close>

type_synonym ('a, 's) result = "('a \<times> 's) option"

named_theorems agm_defs \<open>definitions that are unfolded by every component proof\<close>
named_theorems runs_rules \<open>specifications of operations as \<open>runs\<close> judgements\<close>

text \<open>
  \<open>runs m Q\<close>: the call returns (no undefined behaviour) and its result satisfies \<open>Q\<close>.
  \<open>posts m Q\<close>: if the call returns, its result satisfies \<open>Q\<close>.
\<close>

definition runs :: "('a, 's) result \<Rightarrow> ('a \<Rightarrow> 's \<Rightarrow> bool) \<Rightarrow> bool" where
  "runs m Q \<longleftrightarrow> (\<exists>r s. m = Some (r, s) \<and> Q r s)"

definition posts :: "('a, 's) result \<Rightarrow> ('a \<Rightarrow> 's \<Rightarrow> bool) \<Rightarrow> bool" where
  "posts m Q \<longleftrightarrow> (\<forall>r s. m = Some (r, s) \<longrightarrow> Q r s)"

lemma runs_Some [simp]: "runs (Some (r, s)) Q \<longleftrightarrow> Q r s"
  by (simp add: runs_def)

lemma runs_None [simp]: "\<not> runs None Q"
  by (simp add: runs_def)

lemma posts_Some [simp]: "posts (Some (r, s)) Q \<longleftrightarrow> Q r s"
  by (simp add: posts_def)

lemma posts_None [simp]: "posts None Q"
  by (simp add: posts_def)

lemma runs_bind:
  assumes "runs m P" and "\<And>r s. P r s \<Longrightarrow> runs (f (r, s)) Q"
  shows "runs (m \<bind> f) Q"
  using assms by (auto simp: runs_def)

lemma posts_bind:
  assumes "posts m P" and "\<And>r s. P r s \<Longrightarrow> posts (f (r, s)) Q"
  shows "posts (m \<bind> f) Q"
  using assms by (cases m) (auto simp: posts_def)

lemma runs_mono: "runs m P \<Longrightarrow> (\<And>r s. P r s \<Longrightarrow> Q r s) \<Longrightarrow> runs m Q"
  by (auto simp: runs_def)

lemma posts_mono: "posts m P \<Longrightarrow> (\<And>r s. P r s \<Longrightarrow> Q r s) \<Longrightarrow> posts m Q"
  by (auto simp: posts_def)

lemma runs_imp_posts: "runs m Q \<Longrightarrow> posts m Q"
  by (auto simp: runs_def posts_def)

lemma runs_conj: "runs m P \<Longrightarrow> posts m Q \<Longrightarrow> runs m (\<lambda>r s. P r s \<and> Q r s)"
  by (auto simp: runs_def posts_def)

lemma runs_not_None: "runs m Q \<Longrightarrow> m \<noteq> None"
  by (auto simp: runs_def)

lemma runs_iff_posts: "runs m Q \<longleftrightarrow> m \<noteq> None \<and> posts m Q"
  by (cases m) (auto simp: runs_def posts_def)

lemma runs_E:
  assumes "runs m Q"
  obtains r s where "m = Some (r, s)" and "Q r s"
  using assms by (auto simp: runs_def)

lemma runs_if [intro]:
  "(b \<Longrightarrow> runs m Q) \<Longrightarrow> (\<not> b \<Longrightarrow> runs m' Q) \<Longrightarrow> runs (if b then m else m') Q"
  by simp

lemma posts_if [intro]:
  "(b \<Longrightarrow> posts m Q) \<Longrightarrow> (\<not> b \<Longrightarrow> posts m' Q) \<Longrightarrow> posts (if b then m else m') Q"
  by simp

section \<open>Stores\<close>

text \<open>
  The service keeps its objects in three stores (the device list, the session pool and
  the graph heap); pointers are keys. The contract of a store is what a read returns after
  a write through a valid pointer. Each store of the model interprets this locale.
\<close>

locale store =
  fixes get :: "'s \<Rightarrow> 'k \<Rightarrow> 'v option"
    and put :: "'k \<Rightarrow> 'v \<Rightarrow> 's \<Rightarrow> 's"
  assumes get_put: "get s k \<noteq> None \<Longrightarrow> get (put k v s) k' = (if k' = k then Some v else get s k')"
    and put_put: "put k v (put k w s) = put k v s"
    and put_get: "get s k = Some v \<Longrightarrow> put k v s = s"
begin

lemma get_put_same: "get s k = Some w \<Longrightarrow> get (put k v s) k = Some v"
  by (simp add: get_put)

lemma get_put_other: "get s k = Some w \<Longrightarrow> k' \<noteq> k \<Longrightarrow> get (put k v s) k' = get s k'"
  by (simp add: get_put)

lemma valid_put: "get s k = Some w \<Longrightarrow> (get (put k v s) k' = None) = (get s k' = None)"
  by (simp add: get_put)

end

section \<open>Lists\<close>

text \<open>The first element of a list that satisfies a predicate, with its position.\<close>

fun find_index :: "('a \<Rightarrow> bool) \<Rightarrow> 'a list \<Rightarrow> nat option" where
  "find_index P [] = None"
| "find_index P (x # xs) = (if P x then Some 0 else map_option Suc (find_index P xs))"

lemma find_index_Some_iff:
  "find_index P xs = Some i \<longleftrightarrow> i < length xs \<and> P (xs ! i) \<and> (\<forall>j<i. \<not> P (xs ! j))"
proof (induction xs arbitrary: i)
  case Nil
  then show ?case by simp
next
  case (Cons x xs)
  show ?case
    by (cases i) (auto simp: Cons.IH less_Suc_eq_0_disj nth_Cons')
qed

lemma find_index_None_iff: "find_index P xs = None \<longleftrightarrow> (\<forall>x\<in>set xs. \<not> P x)"
  by (induction xs) auto

lemma find_index_append:
  "find_index P (xs @ ys) =
    (case find_index P xs of Some i \<Rightarrow> Some i
     | None \<Rightarrow> map_option (\<lambda>j. length xs + j) (find_index P ys))"
  by (induction xs) (cases "find_index P ys"; auto split: option.splits)+

end
