(* ===== verification/Agm_Types.thy ===== *)
theory Agm_Types
  imports Agm_Prelude
begin

text \<open>
  The data of the service, in the order of its headers (\<open>service/inc/agm_api.h\<close>,
  \<open>agm_priv.h\<close>, \<open>device.h\<close>, \<open>graph.h\<close>, \<open>graph_module.h\<close>, \<open>session_obj.h\<close>), the
  interface to the code outside the repository (GSL, tinyalsa, the allocator, sysfs) and
  the global state.

  Structs are records, enums are datatypes. A pointer into one of the three object stores
  is a key: a device is its index in \<open>device_list\<close>, a session its index in the session
  pool, a graph an address of the graph heap; NULL is \<open>None\<close>. A \<open>void *params\<close> with its
  \<open>params_size\<close> is an optional byte list. Mutexes are not modelled: every operation is
  one atomic step. Struct fields carry a one-letter prefix where two structs of the source
  use the same field name.
\<close>

section \<open>agm\_api.h\<close>

record agm_key_value =
  key :: u32
  val :: u32

datatype agm_media_format =
    AGM_FORMAT_INVALID | AGM_FORMAT_PCM_S8 | AGM_FORMAT_PCM_S16_LE | AGM_FORMAT_PCM_S24_LE
  | AGM_FORMAT_PCM_S24_3LE | AGM_FORMAT_PCM_S32_LE | AGM_FORMAT_MP3 | AGM_FORMAT_AAC
  | AGM_FORMAT_FLAC | AGM_FORMAT_ALAC | AGM_FORMAT_APE | AGM_FORMAT_WMASTD
  | AGM_FORMAT_WMAPRO | AGM_FORMAT_VORBIS | AGM_FORMAT_MAX

text \<open>The numeric value of the enumerator: the code compares formats with \<open>>=\<close> and \<open><=\<close>.\<close>

primrec fmt_rank :: "agm_media_format \<Rightarrow> nat" where
  "fmt_rank AGM_FORMAT_INVALID = 0"
| "fmt_rank AGM_FORMAT_PCM_S8 = 1"
| "fmt_rank AGM_FORMAT_PCM_S16_LE = 2"
| "fmt_rank AGM_FORMAT_PCM_S24_LE = 3"
| "fmt_rank AGM_FORMAT_PCM_S24_3LE = 4"
| "fmt_rank AGM_FORMAT_PCM_S32_LE = 5"
| "fmt_rank AGM_FORMAT_MP3 = 6"
| "fmt_rank AGM_FORMAT_AAC = 7"
| "fmt_rank AGM_FORMAT_FLAC = 8"
| "fmt_rank AGM_FORMAT_ALAC = 9"
| "fmt_rank AGM_FORMAT_APE = 10"
| "fmt_rank AGM_FORMAT_WMASTD = 11"
| "fmt_rank AGM_FORMAT_WMAPRO = 12"
| "fmt_rank AGM_FORMAT_VORBIS = 13"
| "fmt_rank AGM_FORMAT_MAX = 14"

lemma fmt_rank_inject: "fmt_rank x = fmt_rank y \<longleftrightarrow> x = y"
  by (cases x; cases y) simp_all

instantiation agm_media_format :: linorder
begin

definition less_eq_agm_media_format :: "agm_media_format \<Rightarrow> agm_media_format \<Rightarrow> bool" where
  [simp]: "less_eq_agm_media_format x y \<longleftrightarrow> fmt_rank x \<le> fmt_rank y"

definition less_agm_media_format :: "agm_media_format \<Rightarrow> agm_media_format \<Rightarrow> bool" where
  [simp]: "less_agm_media_format x y \<longleftrightarrow> fmt_rank x < fmt_rank y"

instance
  by standard (auto simp: fmt_rank_inject)

end

datatype agm_data_mode =
  AGM_DATA_INVALID | AGM_DATA_BLOCKING | AGM_DATA_NON_BLOCKING | AGM_DATA_PUSH_PULL
  | AGM_DATA_MODE_MAX

text \<open>
  \<open>enum direction\<close> starts at 1; a session object fresh from \<open>calloc\<close> holds 0, which is
  neither direction.
\<close>

datatype direction = DIR_UNSET | RX | TX

record agm_media_config =
  rate :: u32
  channels :: u32
  format :: agm_media_format
  data_format :: u32

text \<open>
  The codec union is read through several members and copied as bytes, so it is kept as
  its bytes.
\<close>

record agm_session_config =
  dir :: direction
  is_hostless :: bool
  start_threshold :: u32
  stop_threshold :: u32
  codec :: "u8 list"
  data_mode :: agm_data_mode

record agm_buffer_config =
  bcount :: u32
  bsize :: u64

datatype event_type = AGM_EVENT_DATA_PATH | AGM_EVENT_MODULE | EVENT_TYPE_OTHER nat

record agm_event_reg_cfg =
  er_miid :: u32
  er_event_id :: u32
  er_payload :: "u8 list"
  er_is_register :: u8

record agm_event_cb_params =
  source_module_id :: u32
  event_id :: u32
  event_payload :: "u8 list"

abbreviation (input) AGM_EVENT_EOS_RENDERED :: u32 where "AGM_EVENT_EOS_RENDERED \<equiv> 0"
abbreviation (input) AGM_EVENT_READ_DONE :: u32 where "AGM_EVENT_READ_DONE \<equiv> 1"
abbreviation (input) AGM_EVENT_WRITE_DONE :: u32 where "AGM_EVENT_WRITE_DONE \<equiv> 2"

record agm_tag_config =
  tc_tag :: u32
  tc_kv :: "agm_key_value list"

record agm_buf_info =
  data_buf_fd :: int
  data_buf_size :: int
  pos_buf_fd :: int
  pos_buf_size :: int

record aif_info =
  aif_name :: string
  aif_dir :: u32

section \<open>agm\_priv.h\<close>

text \<open>
  A key vector is a count and an array pointer. The array may be longer than the count
  (after duplicates are removed) and may be NULL.
\<close>

record agm_key_vector_gsl =
  num_kvs :: nat
  kv :: "agm_key_value list option"

record sg_prop =
  prop_id :: u32
  num_values :: nat
  pvalues :: "u32 list option"

record agm_meta_data_gsl =
  gkv :: agm_key_vector_gsl
  ckv :: agm_key_vector_gsl
  sg_props :: sg_prop

section \<open>device.h\<close>

abbreviation (input) CODEC_DMA :: u32 where "CODEC_DMA \<equiv> 0"
abbreviation (input) MI2S :: u32 where "MI2S \<equiv> 1"
abbreviation (input) TDM :: u32 where "TDM \<equiv> 2"
abbreviation (input) AUXPCM :: u32 where "AUXPCM \<equiv> 3"
abbreviation (input) SLIMBUS :: u32 where "SLIMBUS \<equiv> 4"
abbreviation (input) DISPLAY_PORT :: u32 where "DISPLAY_PORT \<equiv> 5"
abbreviation (input) USB_AUDIO :: u32 where "USB_AUDIO \<equiv> 6"
abbreviation (input) PCM_RT_PROXY :: u32 where "PCM_RT_PROXY \<equiv> 7"
abbreviation (input) AUDIO_OUTPUT :: u32 where "AUDIO_OUTPUT \<equiv> 1"
abbreviation (input) AUDIO_INPUT :: u32 where "AUDIO_INPUT \<equiv> 2"

record refcount =
  r_open :: int
  r_prepare :: int
  r_start :: int

datatype device_state = DEV_CLOSED | DEV_OPENED | DEV_PREPARED | DEV_STARTED | DEV_STOPPED

primrec dev_rank :: "device_state \<Rightarrow> nat" where
  "dev_rank DEV_CLOSED = 0"
| "dev_rank DEV_OPENED = 1"
| "dev_rank DEV_PREPARED = 2"
| "dev_rank DEV_STARTED = 3"
| "dev_rank DEV_STOPPED = 4"

lemma dev_rank_inject: "dev_rank x = dev_rank y \<longleftrightarrow> x = y"
  by (cases x; cases y) simp_all

instantiation device_state :: linorder
begin

definition less_eq_device_state :: "device_state \<Rightarrow> device_state \<Rightarrow> bool" where
  [simp]: "less_eq_device_state x y \<longleftrightarrow> dev_rank x \<le> dev_rank y"

definition less_device_state :: "device_state \<Rightarrow> device_state \<Rightarrow> bool" where
  [simp]: "less_device_state x y \<longleftrightarrow> dev_rank x < dev_rank y"

instance
  by standard (auto simp: dev_rank_inject)

end

text \<open>
  \<open>union hw_ep_config\<close> is two words: \<open>lpaif_type\<close> and both \<open>dev_id\<close> members share
  the first word, \<open>intf_idx\<close> is the second.
\<close>

record hw_ep_info =
  intf :: u32
  ep_dir :: u32
  ep_word0 :: u32
  ep_word1 :: u32

record device_obj =
  d_name :: string
  card_id :: u32
  ep_info :: hw_ep_info
  pcm_id :: u32
  pcm :: "nat option"
  pcm_flags :: u32
  d_media_config :: agm_media_config
  d_metadata :: agm_meta_data_gsl
  refcnt :: refcount
  d_state :: device_state
  d_params :: "u8 list option"

section \<open>graph.h and graph\_module.h\<close>

datatype graph_state = CLOSED | OPENED | PREPARED | STARTED | STOPPED

datatype module_t =
    MODULE_PCM_ENCODER | MODULE_PCM_DECODER | MODULE_PCM_CONVERTER | MODULE_SHARED_MEM
  | MODULE_PLACEHOLDER_ENCODER | MODULE_PLACEHOLDER_DECODER | MODULE_STREAM_PAUSE
  | MODULE_STREAM_SPR | MODULE_HW_EP_RX | MODULE_HW_EP_TX

text \<open>The functions that the \<open>configure\<close> pointer of a module can name.\<close>

datatype configure_fn =
    Configure_output_media_format | Configure_placeholder_dec | Configure_shared_mem_ep
  | Configure_spr | Configure_hw_ep

record module_info =
  m_module :: module_t
  m_tag :: u32
  m_mid :: u32
  m_miid :: u32
  is_configured :: bool
  m_dev_obj :: "nat option"
  m_gkv :: "agm_key_vector_gsl option"
  configure :: "configure_fn option"

datatype gsl_data_mode =
  GSL_DATA_MODE_BLOCKING | GSL_DATA_MODE_NON_BLOCKING | GSL_DATA_MODE_PUSH_PULL

record gsl_cmd_configure_read_write_params =
  buff_size :: u32
  num_buffs :: u32
  b_start_threshold :: u32
  b_stop_threshold :: u32
  shmem_ep_tag :: u32
  attributes :: gsl_data_mode

record graph_obj =
  g_state :: graph_state
  graph_handle :: "nat option"
  tagged_mod_list :: "module_info list"
  buf_config :: "gsl_cmd_configure_read_write_params option"
  g_cb :: bool
  g_client_data :: u32
  g_sess_obj :: nat
  spr_miid :: u32
  buf_timestamp :: u64
  is_config_buf_params_done :: bool

section \<open>session\_obj.h\<close>

datatype aif_state =
  AIF_CLOSED | AIF_CLOSE | AIF_OPEN | AIF_OPENED | AIF_STOPPED | AIF_PREPARED | AIF_STARTED

primrec aif_rank :: "aif_state \<Rightarrow> nat" where
  "aif_rank AIF_CLOSED = 0"
| "aif_rank AIF_CLOSE = 1"
| "aif_rank AIF_OPEN = 2"
| "aif_rank AIF_OPENED = 3"
| "aif_rank AIF_STOPPED = 4"
| "aif_rank AIF_PREPARED = 5"
| "aif_rank AIF_STARTED = 6"

lemma aif_rank_inject: "aif_rank x = aif_rank y \<longleftrightarrow> x = y"
  by (cases x; cases y) simp_all

instantiation aif_state :: linorder
begin

definition less_eq_aif_state :: "aif_state \<Rightarrow> aif_state \<Rightarrow> bool" where
  [simp]: "less_eq_aif_state x y \<longleftrightarrow> aif_rank x \<le> aif_rank y"

definition less_aif_state :: "aif_state \<Rightarrow> aif_state \<Rightarrow> bool" where
  [simp]: "less_aif_state x y \<longleftrightarrow> aif_rank x < aif_rank y"

instance
  by standard (auto simp: aif_rank_inject)

end

record aif =
  aif_id :: u32
  a_dev_obj :: "nat option"
  a_state :: aif_state
  sess_aif_meta :: agm_meta_data_gsl
  a_params :: "u8 list option"

datatype session_state =
  SESSION_CLOSED | SESSION_OPENED | SESSION_PREPARED | SESSION_STARTED | SESSION_STOPPED

record session_cb =
  cb_fn :: nat
  cb_evt_type :: event_type
  cb_client_data :: nat

record session_obj =
  sess_id :: u32
  s_state :: session_state
  sess_meta :: agm_meta_data_gsl
  aif_pool :: "aif list"
  cb_pool :: "session_cb list"
  graph :: "nat option"
  stream_config :: agm_session_config
  s_media_config :: agm_media_config
  buffer_config :: agm_buffer_config
  s_params :: "u8 list option"
  loopback_sess_id :: u32
  loopback_state :: bool
  ec_ref_aif_id :: u32
  ec_ref_state :: bool

end
