(* ===== verification/Agm_Env.thy ===== *)
theory Agm_Env
  imports Agm_Types
begin

text \<open>
  What the service calls but does not contain: the allocator, GSL (\<open>gsl_intf.h\<close>),
  tinyalsa, the sysfs node, the client callbacks, and the constants of the platform headers
  (\<open>kvh2xml.h\<close>, the SPF module headers, \<open>ar_osal_error.h\<close>).

  All of it is one parameter \<open>E :: env\<close> of the operations. \<open>ext E h c\<close> is the answer of
  the outside to the call \<open>c\<close> after the calls \<open>h\<close> (newest first); nothing is assumed of
  it, so a theorem that quantifies over \<open>E\<close> holds for every behaviour of GSL, of the PCM
  devices and of the allocator, failures at any point included. \<open>konst E\<close> gives the value
  of a platform constant and \<open>sizeof E\<close> the size of an SPF payload struct. Every call is
  recorded in the field \<open>trace\<close> of the state, so that the order of calls can be stated.
\<close>

section \<open>Calls to the outside\<close>

datatype (plugins only: code) konst =
    STREAM_PCM_ENCODER | STREAM_PCM_DECODER | STREAM_PCM_CONVERTER | STREAM_INPUT_MEDIA_FORMAT
  | TAG_PAUSE | TAG_STREAM_PLACEHOLDER_DECODER | DEVICE_HW_ENDPOINT_RX | DEVICE_HW_ENDPOINT_TX
  | SHMEM_ENDPOINT | CHANNELS | MEDIA_FMT_ID
  | MEDIA_FMT_PCM | MEDIA_FMT_MP3 | MEDIA_FMT_AAC | MEDIA_FMT_FLAC | MEDIA_FMT_ALAC
  | MEDIA_FMT_APE | MEDIA_FMT_WMASTD | MEDIA_FMT_WMAPRO | MEDIA_FMT_VORBIS
  | MEDIA_FMT_ID_PCM | MEDIA_FMT_ID_MP3 | MEDIA_FMT_ID_AAC | MEDIA_FMT_ID_FLAC
  | MEDIA_FMT_ID_ALAC | MEDIA_FMT_ID_WMASTD | MEDIA_FMT_ID_WMAPRO
  | PARAM_ID_HW_EP_MF_CFG | PARAM_ID_PCM_OUTPUT_FORMAT_CFG | PARAM_ID_MEDIA_FORMAT
  | PARAM_ID_SPR_DELAY_PATH_END | PARAM_ID_SPR_SESSION_TIME
  | PCM_CHANNEL_L | PCM_CHANNEL_R | PCM_CHANNEL_C | PCM_CHANNEL_LB | PCM_CHANNEL_RB
  | PCM_CHANNEL_LFE | PCM_CHANNEL_CS | PCM_CHANNEL_LS | PCM_CHANNEL_RS
  | PCM_LITTLE_ENDIAN | PCM_LSB_ALIGNED | PCM_DEINTERLEAVED_UNPACKED | PCM_INTERLEAVED
  | LPAIF | LPAIF_RXTX | LPAIF_WSA | LPAIF_VA | LPAIF_AXI
  | PCM_OUT | PCM_IN
  | PCM_FORMAT_S16_LE | PCM_FORMAT_S32_LE | PCM_FORMAT_S8 | PCM_FORMAT_S24_LE
  | PCM_FORMAT_S24_3LE
  | SB_MAX_CHAN_CNT | GSL_MAX_NUM_OF_ACDB_FILES | ACDB_FILENAME_SIZE | AR_ETIMEOUT

datatype (plugins only: code) cstruct =
    Apm_module_param_data_t | Param_id_codec_dma_intf_cfg_t | Param_id_i2s_intf_cfg_t
  | Param_id_tdm_intf_cfg_t | Param_id_hw_pcm_intf_cfg_t | Param_id_slimbus_cfg_t
  | Param_id_hw_ep_mf_t | Media_format_t | Payload_pcm_output_format_cfg_t
  | Payload_media_fmt_pcm_t | Payload_media_fmt_aac_t | Payload_media_fmt_flac_t
  | Payload_media_fmt_alac_t | Payload_media_fmt_ape_t | Payload_media_fmt_wmastd_t
  | Payload_media_fmt_wmapro_t | Param_id_spr_delay_path_end_t | Param_id_spr_session_time_t
  | Gsl_cmd_register_custom_event | Agm_event_cb_params | Apm_module_register_events_t

text \<open>
  The parameter payloads the service builds: a header with the module instance, the
  parameter and the size, and the fields the code sets in the struct behind it.
\<close>

record param_header =
  h_miid :: u32
  h_param_id :: u32
  h_error_code :: u32
  h_param_size :: u32

record pcm_format_cfg =
  pf_data_format :: u32
  pf_fmt_id :: u32
  pf_payload_size :: u32
  pf_endianness :: u32
  pf_bit_width :: int
  pf_alignment :: u32
  pf_num_channels :: int
  pf_bits_per_sample :: int
  pf_q_factor :: int
  pf_interleaved :: u32
  pf_sample_rate :: u32
  pf_channel_map :: "u8 list"

datatype (plugins only: code) payload =
    Client_blob "u8 list"
  | Header_only param_header
  | Hw_ep_mf param_header u32 int u32 u32
  | Ep_intf_cfg "u8 list" u32 u32
  | Slimbus_cfg "u8 list" u32
  | Pcm_output_fmt param_header pcm_format_cfg
  | Pcm_media_fmt param_header pcm_format_cfg
  | Compressed_fmt param_header u32 u32 u32 "u8 list"
  | Spr_delay param_header u32

record gsl_cmd_properties =
  cp_gkv :: agm_key_vector_gsl
  property_id :: u32
  property_values :: "u32 list option"
  num_property_values :: nat

datatype (plugins only: code) gsl_cmd =
    GSL_CMD_CONFIGURE_WRITE_PARAMS gsl_cmd_configure_read_write_params
  | GSL_CMD_CONFIGURE_READ_PARAMS gsl_cmd_configure_read_write_params
  | GSL_CMD_PREPARE
  | GSL_CMD_START
  | GSL_CMD_STOP "gsl_cmd_properties option"
  | GSL_CMD_ADD_GRAPH agm_key_vector_gsl agm_key_vector_gsl
  | GSL_CMD_CHANGE_GRAPH agm_key_vector_gsl agm_key_vector_gsl
  | GSL_CMD_REMOVE_GRAPH agm_key_vector_gsl
  | GSL_CMD_REGISTER_CUSTOM_EVENT agm_event_reg_cfg
  | GSL_CMD_EOS
  | GSL_CMD_GET_WRITE_BUFF_INFO
  | GSL_CMD_GET_READ_BUFF_INFO
  | GSL_CMD_GET_WRITE_POS_BUFF_INFO
  | GSL_CMD_GET_READ_POS_BUFF_INFO

record pcm_config =
  pc_channels :: u32
  pc_rate :: u32
  pc_format :: u32
  period_size :: nat
  period_count :: nat
  pc_start_threshold :: nat
  pc_stop_threshold :: nat

datatype (plugins only: code) ext_call =
    Calloc nat nat
  | Gsl_init "string list"
  | Gsl_deinit
  | Gsl_get_tags_with_module_info agm_key_vector_gsl bool
  | Gsl_get_tagged_module_info agm_key_vector_gsl u32
  | Gsl_get_tagged_data "agm_key_vector_gsl option" u32 "agm_key_value list" nat
  | Gsl_open agm_key_vector_gsl agm_key_vector_gsl
  | Gsl_close "nat option"
  | Gsl_register_event_cb "nat option" nat
  | Gsl_ioctl "nat option" gsl_cmd
  | Gsl_set_custom_config "nat option" payload nat
  | Gsl_get_custom_config "nat option" payload nat
  | Gsl_set_config "nat option" "agm_key_vector_gsl option" u32 "agm_key_value list"
  | Gsl_set_cal "nat option" agm_key_vector_gsl agm_key_vector_gsl
  | Gsl_write "nat option" u32 "u8 list"
  | Gsl_read "nat option" u32 nat
  | Pcm_open u32 u32 u32 pcm_config
  | Pcm_is_ready "nat option"
  | Pcm_prepare "nat option"
  | Pcm_stop "nat option"
  | Pcm_close "nat option"
  | Sysfs_open
  | Sysfs_write int bool
  | Sysfs_close
  | Proc_asound_pcm
  | Acdb_directory
  | Sleep nat
  | Client_cb nat u32 agm_event_cb_params nat

text \<open>
  The answer to a call: a return code and whatever the call delivers. An operation reads
  only the fields its call defines: \<open>rc\<close> the return code, \<open>rptr\<close> a returned pointer or
  handle, \<open>rtags\<close> and \<open>rmods\<close> the tag and module tables of GSL, \<open>rbytes\<close> a filled
  buffer, \<open>rsize\<close> a size, \<open>rmsw\<close>, \<open>rlsw\<close> and \<open>rtime\<close> time values, \<open>rlines\<close> lines of
  a file or names of a directory.
\<close>

record tag_entry =
  tag_id :: u32
  tag_modules :: "(u32 \<times> u32) list"

record reply =
  rc :: int
  rptr :: "nat option"
  rtags :: "tag_entry list"
  rmods :: "(u32 \<times> u32) list"
  rbytes :: "u8 list"
  rsize :: nat
  rmsw :: u32
  rlsw :: u32
  rtime :: u64
  rlines :: "string list"

record env =
  ext :: "ext_call list \<Rightarrow> ext_call \<Rightarrow> reply"
  konst :: "konst \<Rightarrow> u32"
  sizeof :: "cstruct \<Rightarrow> nat"

section \<open>The global state\<close>

text \<open>
  \<open>device_list\<close> is the array allocated by \<open>parse_snd_card\<close>: its length is the number of
  lines of \<open>/proc/asound/pcm\<close>, entries at and behind \<open>num_audio_intfs\<close> are NULL.
  \<open>sess_pool\<close> is \<open>None\<close> before initialisation and after deinitialisation.
  \<open>graphs\<close> is the heap of graph objects, \<open>next_graph\<close> a fresh address.
  \<open>stream_module_list\<close> and \<open>hw_ep_module\<close> are the two static arrays of
  \<open>graph_module.c\<close>, which the graph code writes to.
\<close>

record agm_state =
  device_list :: "device_obj option list"
  num_audio_intfs :: nat
  sysfs_fd :: bool
  sess_pool :: "session_obj list option"
  graphs :: "nat \<Rightarrow> graph_obj option"
  next_graph :: nat
  stream_module_list :: "module_info list"
  hw_ep_module :: "module_info list"
  agm_initialized :: bool
  trace :: "ext_call list"

type_synonym 'a agm = "agm_state \<Rightarrow> ('a \<times> agm_state) option"

definition xcall :: "env \<Rightarrow> ext_call \<Rightarrow> reply agm" where
  "xcall E c s = Some (ext E (trace s) c, s\<lparr>trace := c # trace s\<rparr>)"

text \<open>\<open>calloc\<close>: whether the allocation succeeded.\<close>

definition calloc_ok :: "env \<Rightarrow> ext_call list \<Rightarrow> nat \<Rightarrow> nat \<Rightarrow> bool" where
  "calloc_ok E h n z \<longleftrightarrow> rptr (ext E h (Calloc n z)) \<noteq> None"

definition calloc :: "env \<Rightarrow> nat \<Rightarrow> nat \<Rightarrow> bool agm" where
  "calloc E n z s = Some (calloc_ok E (trace s) n z, s\<lparr>trace := Calloc n z # trace s\<rparr>)"

text \<open>An environment in which no allocation fails.\<close>

definition alloc_ok :: "env \<Rightarrow> bool" where
  "alloc_ok E \<longleftrightarrow> (\<forall>h n z. calloc_ok E h n z)"

lemma alloc_okD: "alloc_ok E \<Longrightarrow> calloc_ok E h n z"
  by (simp add: alloc_ok_def)

subsection \<open>Access through pointers\<close>

definition dev_at :: "agm_state \<Rightarrow> nat \<Rightarrow> device_obj option" where
  "dev_at s d = (if d < length (device_list s) then device_list s ! d else None)"

definition put_dev :: "nat \<Rightarrow> device_obj \<Rightarrow> agm_state \<Rightarrow> agm_state" where
  "put_dev d x s = s\<lparr>device_list := (device_list s)[d := Some x]\<rparr>"

definition sess_at :: "agm_state \<Rightarrow> nat \<Rightarrow> session_obj option" where
  "sess_at s p =
     (case sess_pool s of None \<Rightarrow> None
      | Some xs \<Rightarrow> if p < length xs then Some (xs ! p) else None)"

definition put_sess :: "nat \<Rightarrow> session_obj \<Rightarrow> agm_state \<Rightarrow> agm_state" where
  "put_sess p x s = s\<lparr>sess_pool := map_option (\<lambda>xs. xs[p := x]) (sess_pool s)\<rparr>"

definition graph_at :: "agm_state \<Rightarrow> nat \<Rightarrow> graph_obj option" where
  "graph_at s g = graphs s g"

definition put_graph :: "nat \<Rightarrow> graph_obj \<Rightarrow> agm_state \<Rightarrow> agm_state" where
  "put_graph g x s = s\<lparr>graphs := (graphs s)(g := Some x)\<rparr>"

interpretation dev: store dev_at put_dev
  by unfold_locales (auto simp: dev_at_def put_dev_def nth_list_update list_update_overwrite
      intro!: agm_state.equality nth_equalityI split: if_splits)

interpretation sess: store sess_at put_sess
  by unfold_locales (auto simp: sess_at_def put_sess_def nth_list_update option.map_comp comp_def
      intro!: agm_state.equality split: option.splits if_splits)

interpretation gph: store graph_at put_graph
  by unfold_locales (auto simp: graph_at_def put_graph_def fun_upd_idem)

text \<open>The three stores are disjoint: a write to one leaves the others alone.\<close>

lemma stores_disjoint [simp]:
  "sess_at (put_dev d x s) = sess_at s" "graph_at (put_dev d x s) = graph_at s"
  "dev_at (put_sess p y s) = dev_at s" "graph_at (put_sess p y s) = graph_at s"
  "dev_at (put_graph g z s) = dev_at s" "sess_at (put_graph g z s) = sess_at s"
  by (auto simp: dev_at_def put_dev_def sess_at_def put_sess_def graph_at_def put_graph_def
      fun_eq_iff)

lemma trace_put [simp]:
  "trace (put_dev d x s) = trace s" "trace (put_sess p y s) = trace s"
  "trace (put_graph g z s) = trace s"
  by (simp_all add: put_dev_def put_sess_def put_graph_def)

lemma at_trace_update [simp]:
  "dev_at (trace_update f s) = dev_at s" "sess_at (trace_update f s) = sess_at s"
  "graph_at (trace_update f s) = graph_at s"
  by (auto simp: dev_at_def sess_at_def graph_at_def fun_eq_iff)

lemma num_audio_intfs_put [simp]:
  "num_audio_intfs (put_dev d x s) = num_audio_intfs s"
  "num_audio_intfs (put_sess p y s) = num_audio_intfs s"
  "num_audio_intfs (put_graph g z s) = num_audio_intfs s"
  by (simp_all add: put_dev_def put_sess_def put_graph_def)

section \<open>Operations that only talk to the outside\<close>

text \<open>
  Many operations change nothing but the trace. \<open>only_trace s s'\<close> says so, and that the
  trace only grew.
\<close>

definition only_trace :: "agm_state \<Rightarrow> agm_state \<Rightarrow> bool" where
  "only_trace s s' \<longleftrightarrow> s' = s\<lparr>trace := trace s'\<rparr> \<and> suffix (trace s) (trace s')"

lemma only_trace_refl [simp, intro]: "only_trace s s"
  by (simp add: only_trace_def)

lemma only_trace_upd [simp]: "only_trace s (s\<lparr>trace := t\<rparr>) \<longleftrightarrow> suffix (trace s) t"
  by (simp add: only_trace_def)

lemma only_trace_trans [trans]:
  assumes "only_trace a b" and "only_trace b c"
  shows "only_trace a c"
proof -
  from assms have "c = b\<lparr>trace := trace c\<rparr>" "b = a\<lparr>trace := trace b\<rparr>"
      "suffix (trace a) (trace c)"
    by (auto simp: only_trace_def intro: suffix_order.trans)
  then have "c = (a\<lparr>trace := trace b\<rparr>)\<lparr>trace := trace c\<rparr>" by metis
  then have "c = a\<lparr>trace := trace c\<rparr>" by simp
  with \<open>suffix (trace a) (trace c)\<close> show ?thesis by (simp add: only_trace_def)
qed

lemma only_trace_step:
  "only_trace (s\<lparr>trace := c # trace s\<rparr>) s' \<Longrightarrow> only_trace s s'"
  by (rule only_trace_trans) (auto intro: suffix_ConsI)

lemma only_traceD:
  assumes "only_trace s s'"
  shows "dev_at s' = dev_at s" "sess_at s' = sess_at s" "graph_at s' = graph_at s"
    "num_audio_intfs s' = num_audio_intfs s" "device_list s' = device_list s"
    "sess_pool s' = sess_pool s" "graphs s' = graphs s" "next_graph s' = next_graph s"
    "stream_module_list s' = stream_module_list s" "hw_ep_module s' = hw_ep_module s"
    "agm_initialized s' = agm_initialized s" "sysfs_fd s' = sysfs_fd s"
proof -
  from assms obtain t where "s' = s\<lparr>trace := t\<rparr>" by (auto simp: only_trace_def)
  then show "dev_at s' = dev_at s" "sess_at s' = sess_at s" "graph_at s' = graph_at s"
    "num_audio_intfs s' = num_audio_intfs s" "device_list s' = device_list s"
    "sess_pool s' = sess_pool s" "graphs s' = graphs s" "next_graph s' = next_graph s"
    "stream_module_list s' = stream_module_list s" "hw_ep_module s' = hw_ep_module s"
    "agm_initialized s' = agm_initialized s" "sysfs_fd s' = sysfs_fd s"
    by simp_all
qed

lemma xcall_runs [runs_rules]:
  "runs (xcall E c s) (\<lambda>r s'. r = ext E (trace s) c \<and> s' = s\<lparr>trace := c # trace s\<rparr>)"
  by (simp add: xcall_def)

lemma calloc_runs [runs_rules]:
  "runs (calloc E n z s)
     (\<lambda>r s'. s' = s\<lparr>trace := Calloc n z # trace s\<rparr> \<and> (alloc_ok E \<longrightarrow> r))"
  by (simp add: calloc_def alloc_ok_def)

lemmas outside_defs = xcall_def calloc_def

end
