(* ===== verification/Agm_Utils.thy ===== *)
theory Agm_Utils
  imports Agm_Env
begin

text \<open>
  \<open>service/src/utils.c\<close>: the table that turns an AR error code of GSL into a Linux errno
  value, and the lookup with its clamp at \<open>AR_ERR_MAX\<close>. \<open>AR_ETIMEOUT\<close> comes from the
  OSAL header; the table has one row per code up to it and one more row.
\<close>

definition ar_err_code_info :: "(int \<times> string) list" where
  "ar_err_code_info =
    [(0, ''AR_EOK''),
     (- ENOTRECOVERABLE, ''AR_EFAILED''),
     (- EINVAL, ''AR_EBADPARAM''),
     (- EOPNOTSUPP, ''AR_EUNSUPPORTED''),
     (- ENOPROTOOPT, ''AR_EVERSION''),
     (- ENOTRECOVERABLE, ''AR_EUNEXPECTED''),
     (- ENOTRECOVERABLE, ''AR_EPANIC''),
     (- ENOSPC, ''AR_ENORESOURCE''),
     (- EBADR, ''AR_EHANDLE''),
     (- EALREADY, ''AR_EALREADY''),
     (- EPERM, ''AR_ENOTREADY''),
     (- EINPROGRESS, ''AR_EPENDING''),
     (- EBUSY, ''AR_EBUSY''),
     (- ECANCELED, ''AR_EABORTED''),
     (- EAGAIN, ''AR_ECONTINUE''),
     (- EAGAIN, ''AR_EIMMEDIATE''),
     (- EAGAIN, ''AR_ENOTIMPL''),
     (- ENODATA, ''AR_ENEEDMORE''),
     (- ENOMEM, ''AR_ENOMEMORY''),
     (- ENODEV, ''AR_ENOTEXIST''),
     (- ENODEV, ''AR_ETERMINATED''),
     (- ETIMEDOUT, ''AR_ETIMEOUT''),
     (- EADV, ''AR_ERR_MAX'')]"

definition AR_ERR_MAX :: "env \<Rightarrow> u32" where
  "AR_ERR_MAX E = konst E AR_ETIMEOUT + 1"

text \<open>A row behind the initialisers of the static array is zero: code 0, name NULL.\<close>

definition ar_err_get_lnx_err_code :: "env \<Rightarrow> u32 \<Rightarrow> int" where
  "ar_err_get_lnx_err_code E error =
     (if error > AR_ERR_MAX E
      then fst (nth_default (0, []) ar_err_code_info (unat (AR_ERR_MAX E)))
      else fst (nth_default (0, []) ar_err_code_info (unat error)))"

definition ar_err_get_err_str :: "env \<Rightarrow> u32 \<Rightarrow> string" where
  "ar_err_get_err_str E error =
     (if error > AR_ERR_MAX E
      then snd (nth_default (0, []) ar_err_code_info (unat (AR_ERR_MAX E)))
      else snd (nth_default (0, []) ar_err_code_info (unat error)))"

text \<open>The callers pass an \<open>int\<close>; the conversion to \<open>uint32_t\<close> wraps.\<close>

definition lnx :: "env \<Rightarrow> int \<Rightarrow> int" where
  "lnx E ret = ar_err_get_lnx_err_code E (word_of_int ret)"

text \<open>What the table relies on: \<open>AR_ETIMEOUT\<close> is the last code, number 21.\<close>

definition ar_osal_ok :: "env \<Rightarrow> bool" where
  "ar_osal_ok E \<longleftrightarrow> konst E AR_ETIMEOUT = 21"

lemma AR_ERR_MAX_ok: "ar_osal_ok E \<Longrightarrow> AR_ERR_MAX E = 22"
  by (simp add: AR_ERR_MAX_def ar_osal_ok_def)

lemma lnx_big:
  assumes "ar_osal_ok E" and "(word_of_int ret :: u32) > 22"
  shows "lnx E ret = - EADV"
  using assms by (simp add: lnx_def ar_err_get_lnx_err_code_def AR_ERR_MAX_ok ar_err_code_info_def
      nth_default_nth)

lemma lnx_0 [simp]: "ar_osal_ok E \<Longrightarrow> lnx E 0 = 0"
  by (simp add: lnx_def ar_err_get_lnx_err_code_def AR_ERR_MAX_ok ar_err_code_info_def
      nth_default_nth)

lemma lnx_table_nonpos: "c \<in> set (map fst (tl ar_err_code_info)) \<Longrightarrow> - 131 \<le> c \<and> c < 0"
  by (auto simp: ar_err_code_info_def)

lemma lnx_small:
  assumes "ar_osal_ok E" and "(word_of_int ret :: u32) \<le> 22" and "(word_of_int ret :: u32) \<noteq> 0"
  shows "lnx E ret \<in> set (map fst (tl ar_err_code_info))"
proof -
  define e :: u32 where "e = word_of_int ret"
  obtain n where n: "unat e = Suc n" "n < length (tl ar_err_code_info)"
  proof -
    have "unat e \<le> 22" using assms(2) by (simp add: e_def word_le_nat_alt)
    moreover have "unat e \<noteq> 0" using assms(3) by (simp add: e_def unat_eq_0)
    ultimately show thesis
      using that [of "unat e - 1"] by (simp add: ar_err_code_info_def)
  qed
  have "lnx E ret = fst (nth_default (0, []) ar_err_code_info (unat e))"
    using assms by (auto simp: lnx_def ar_err_get_lnx_err_code_def AR_ERR_MAX_ok e_def [symmetric]
        not_less [symmetric])
  also have "\<dots> = fst (tl ar_err_code_info ! n)"
    using n by (auto simp: nth_default_def nth_tl)
  finally show ?thesis using n(2) by simp
qed

text \<open>Every nonzero code becomes a negative errno: an error of GSL is never lost.\<close>

lemma lnx_error:
  assumes "ar_osal_ok E" and "(word_of_int ret :: u32) \<noteq> 0"
  shows "- 131 \<le> lnx E ret \<and> lnx E ret < 0"
proof (cases "(word_of_int ret :: u32) \<le> 22")
  case True
  with assms show ?thesis using lnx_small lnx_table_nonpos by blast
next
  case False
  with assms(1) show ?thesis by (simp add: lnx_big not_le)
qed

text \<open>
  A code that was converted already and is converted again becomes \<open>EADV\<close>: a negative
  errno is a large \<open>uint32_t\<close>.
\<close>

lemma lnx_lnx_error:
  assumes "ar_osal_ok E" and "(word_of_int ret :: u32) \<noteq> 0"
  shows "lnx E (lnx E ret) = - EADV"
proof (rule lnx_big [OF assms(1)])
  define c where "c = lnx E ret"
  have c: "- 131 \<le> c" "c < 0" using lnx_error [OF assms] by (auto simp: c_def)
  have "c mod 2 ^ 32 = (c + 2 ^ 32) mod 2 ^ 32" by simp
  also have "\<dots> = c + 2 ^ 32" using c by (intro mod_pos_pos_trivial) auto
  finally have "uint (word_of_int c :: u32) = c + 2 ^ 32" by (simp add: uint_word_of_int)
  with c have "uint (word_of_int c :: u32) > 22" by simp
  then show "(22 :: u32) < word_of_int (lnx E ret)"
    by (simp add: word_less_def c_def)
qed

end
