(* ===== verification/Agm_Metadata.thy ===== *)
theory Agm_Metadata
  imports Agm_Utils
begin

unbundle bit_operations_syntax

text \<open>
  \<open>service/src/metadata.c\<close>: the metadata payload a client sends (graph keys, calibration
  keys, subgraph properties), its copy into the service, the merge of several metadata
  with the removal of duplicate keys, and the update of calibration values.

  The in-place loops of \<open>metadata_remove_dup\<close> are kept as loops over the array and the
  count; \<open>dedup\<close> is the reference they are proved equal to. The payload of
  \<open>metadata_copy\<close> is a list of bytes; a read behind its end is undefined behaviour.
\<close>

section \<open>Removal of duplicates\<close>

text \<open>The innermost loop: shift the rest of the array down by one position.\<close>

function shift_down :: "nat \<Rightarrow> nat \<Rightarrow> 'a list \<Rightarrow> 'a list" where
  "shift_down k count a =
     (if k < count - 1 then shift_down (Suc k) count (a[k := a ! Suc k]) else a)"
  by pat_completeness auto
termination
  by (relation "measure (\<lambda>(k, count, a). count - k)") auto

declare shift_down.simps [simp del]

text \<open>
  The loop over \<open>j\<close>: when the keys at \<open>i\<close> and \<open>j\<close> agree, the element at \<open>j\<close> is
  dropped, \<open>count\<close> decreases and \<open>j\<close> stays (the code decrements and the loop increments
  it).
\<close>

function remove_dup_j :: "('a \<Rightarrow> 'k) \<Rightarrow> nat \<Rightarrow> nat \<Rightarrow> nat \<Rightarrow> 'a list \<Rightarrow> nat \<times> 'a list" where
  "remove_dup_j key_of i j count a =
     (if j < count then
        (if key_of (a ! i) = key_of (a ! j)
         then remove_dup_j key_of i j (count - 1) (shift_down j count a)
         else remove_dup_j key_of i (Suc j) count a)
      else (count, a))"
  by pat_completeness auto
termination
  by (relation "measure (\<lambda>(key_of, i, j, count, a). count - j)") auto

declare remove_dup_j.simps [simp del]

lemma remove_dup_j_count: "fst (remove_dup_j key_of i j count a) \<le> count"
proof (induction key_of i j count a rule: remove_dup_j.induct)
  case (1 key_of i j count a)
  then show ?case
    by (subst remove_dup_j.simps) (auto intro: le_trans)
qed

function remove_dup_i :: "('a \<Rightarrow> 'k) \<Rightarrow> nat \<Rightarrow> nat \<Rightarrow> 'a list \<Rightarrow> nat \<times> 'a list" where
  "remove_dup_i key_of i count a =
     (if i < count then
        (let (count', a') = remove_dup_j key_of i (Suc i) count a
         in remove_dup_i key_of (Suc i) count' a')
      else (count, a))"
  by pat_completeness auto
termination
proof (relation "measure (\<lambda>(key_of, i, count, a). count - i)")
  show "wf (measure (\<lambda>(key_of :: 'a \<Rightarrow> 'k, i, count, a :: 'a list). count - i))" by simp
next
  fix key_of :: "'a \<Rightarrow> 'k" and i count :: nat and a :: "'a list" and x count' a'
  assume less: "i < count" and "x = remove_dup_j key_of i (Suc i) count a" "(count', a') = x"
  then have "count' \<le> count"
    using remove_dup_j_count [of key_of i "Suc i" count a] by (metis fst_conv)
  with less show "((key_of, Suc i, count', a'), key_of, i, count, a)
      \<in> measure (\<lambda>(key_of, i, count, a). count - i)" by simp
qed

declare remove_dup_i.simps [simp del]

text \<open>The reference: the first occurrence of every key, in order.\<close>

fun dedup :: "('a \<Rightarrow> 'k) \<Rightarrow> 'a list \<Rightarrow> 'a list" where
  "dedup key_of [] = []"
| "dedup key_of (x # xs) = x # dedup key_of (filter (\<lambda>y. key_of y \<noteq> key_of x) xs)"

lemma set_dedup: "set (dedup key_of xs) \<subseteq> set xs"
  by (induction key_of xs rule: dedup.induct) auto

lemma key_set_dedup: "key_of ` set (dedup key_of xs) = key_of ` set xs"
  by (induction key_of xs rule: dedup.induct) (auto simp: image_iff)

lemma distinct_dedup: "distinct (map key_of (dedup key_of xs))"
proof (induction key_of xs rule: dedup.induct)
  case (2 key_of x xs)
  have "key_of x \<notin> key_of ` set (dedup key_of (filter (\<lambda>y. key_of y \<noteq> key_of x) xs))"
    using set_dedup [of key_of "filter (\<lambda>y. key_of y \<noteq> key_of x) xs"] by auto
  with 2 show ?case by simp
qed simp

lemma dedup_id: "distinct (map key_of xs) \<Longrightarrow> dedup key_of xs = xs"
proof (induction xs)
  case (Cons x xs)
  then have "filter (\<lambda>y. key_of y \<noteq> key_of x) xs = xs"
    by (intro filter_True) (auto simp: image_iff)
  with Cons show ?case by simp
qed simp

lemma dedup_idem: "dedup key_of (dedup key_of xs) = dedup key_of xs"
  by (rule dedup_id) (rule distinct_dedup)

text \<open>Lookup by key finds the first occurrence, before and after.\<close>

lemma find_filter_neq:
  "k \<noteq> k' \<Longrightarrow> find (\<lambda>y. key_of y = k) (filter (\<lambda>y. key_of y \<noteq> k') xs)
     = find (\<lambda>y. key_of y = k) xs"
  by (induction xs) auto

lemma find_dedup: "find (\<lambda>y. key_of y = k) (dedup key_of xs) = find (\<lambda>y. key_of y = k) xs"
  by (induction key_of xs rule: dedup.induct) (auto simp: find_filter_neq)

subsection \<open>The loops compute the reference\<close>

lemma shift_down_eq:
  assumes "k < count" and "count \<le> length a"
  shows "take (count - 1) (shift_down k count a) = take k a @ take (count - 1 - k) (drop (Suc k) a)
    \<and> length (shift_down k count a) = length a"
  using assms
proof (induction k count a rule: shift_down.induct)
  case (1 k count a)
  show ?case
  proof (cases "k < count - 1")
    case True
    let ?a = "a[k := a ! Suc k]"
    have IH: "take (count - 1) (shift_down (Suc k) count ?a)
        = take (Suc k) ?a @ take (count - 1 - Suc k) (drop (Suc (Suc k)) ?a)
      \<and> length (shift_down (Suc k) count ?a) = length ?a"
      using "1.IH" "1.prems" True by simp
    have k: "Suc k < length a" using True "1.prems" by simp
    have "take (Suc k) ?a = take k a @ [a ! Suc k]"
      using k by (simp add: take_Suc_conv_app_nth)
    moreover have "take (count - 1 - k) (drop (Suc k) a)
        = a ! Suc k # take (count - 1 - Suc k) (drop (Suc (Suc k)) a)"
      using k True by (simp add: Cons_nth_drop_Suc [symmetric] take_Cons' Suc_diff_Suc)
    ultimately show ?thesis using True IH by (simp add: shift_down.simps [of k])
  next
    case False
    then have "shift_down k count a = a" by (simp add: shift_down.simps [of k count a])
    moreover have "k = count - 1" using False "1.prems" by simp
    ultimately show ?thesis by simp
  qed
qed

lemma remove_dup_j_eq:
  assumes "i < j" and "j \<le> count" and "count \<le> length a"
    and "remove_dup_j key_of i j count a = (count', a')"
  shows "take count' a' = take j a @ filter (\<lambda>y. key_of y \<noteq> key_of (a ! i)) (drop j (take count a))
    \<and> j \<le> count' \<and> count' \<le> count \<and> length a' = length a"
  using assms
proof (induction key_of i j count a rule: remove_dup_j.induct)
  case (1 key_of i j count a)
  show ?case
  proof (cases "j < count")
    case False
    then have "remove_dup_j key_of i j count a = (count, a)"
      by (simp add: remove_dup_j.simps [of key_of i j count a])
    with False "1.prems" show ?thesis by simp
  next
    case True
    have drop_j: "drop j (take count a) = a ! j # drop (Suc j) (take count a)"
      using True "1.prems"(3) by (simp add: Cons_nth_drop_Suc [symmetric])
    show ?thesis
    proof (cases "key_of (a ! i) = key_of (a ! j)")
      case same: True
      let ?b = "shift_down j count a"
      have b: "take (count - 1) ?b = take j a @ take (count - 1 - j) (drop (Suc j) a)"
          "length ?b = length a"
        using shift_down_eq [of j count a] True "1.prems"(3) by simp_all
      have eq: "remove_dup_j key_of i j (count - 1) ?b = (count', a')"
        using "1.prems"(4) True same by (simp add: remove_dup_j.simps [of _ _ j count])
      have IH: "take count' a' = take j ?b
          @ filter (\<lambda>y. key_of y \<noteq> key_of (?b ! i)) (drop j (take (count - 1) ?b))
        \<and> j \<le> count' \<and> count' \<le> count - 1 \<and> length a' = length ?b"
        using "1.IH"(1) [OF True same] "1.prems"(1-3) True eq b(2) by simp
      have tj: "take j ?b = take j a"
      proof -
        have "take j ?b = take j (take (count - 1) ?b)" using True by simp
        also have "\<dots> = take j a" using b(1) True "1.prems"(3) by simp
        finally show ?thesis .
      qed
      have bi: "?b ! i = a ! i" using tj "1.prems"(1) by (metis nth_take)
      have dj: "drop j (take (count - 1) ?b) = drop (Suc j) (take count a)"
        using b(1) True "1.prems"(3) by (simp add: drop_take)
      show ?thesis using IH same True dj by (auto simp: tj bi drop_j b(2))
    next
      case diff: False
      have eq: "remove_dup_j key_of i (Suc j) count a = (count', a')"
        using "1.prems"(4) True diff by (simp add: remove_dup_j.simps [of _ _ j count])
      have "take count' a' = take (Suc j) a
          @ filter (\<lambda>y. key_of y \<noteq> key_of (a ! i)) (drop (Suc j) (take count a))
        \<and> Suc j \<le> count' \<and> count' \<le> count \<and> length a' = length a"
        using "1.IH"(2) [OF True diff] "1.prems"(1-3) True eq by simp
      moreover have "take (Suc j) a = take j a @ [a ! j]"
        using True "1.prems"(3) by (simp add: take_Suc_conv_app_nth)
      ultimately show ?thesis using diff by (simp add: drop_j)
    qed
  qed
qed

lemma remove_dup_i_eq:
  assumes "i \<le> count" and "count \<le> length a"
    and "remove_dup_i key_of i count a = (count', a')"
  shows "take count' a' = take i a @ dedup key_of (drop i (take count a))
    \<and> count' \<le> count \<and> length a' = length a"
  using assms
proof (induction key_of i count a rule: remove_dup_i.induct)
  case (1 key_of i count a)
  show ?case
  proof (cases "i < count")
    case False
    then have "remove_dup_i key_of i count a = (count, a)"
      by (simp add: remove_dup_i.simps [of key_of i count a])
    with False "1.prems" show ?thesis by simp
  next
    case True
    obtain c b where cb: "remove_dup_j key_of i (Suc i) count a = (c, b)" by fastforce
    have j: "take c b = take (Suc i) a
        @ filter (\<lambda>y. key_of y \<noteq> key_of (a ! i)) (drop (Suc i) (take count a))"
        "Suc i \<le> c" "c \<le> count" "length b = length a"
      using remove_dup_j_eq [OF _ _ _ cb] True "1.prems"(2) by auto
    have eq: "remove_dup_i key_of (Suc i) c b = (count', a')"
      using "1.prems"(3) True cb by (simp add: remove_dup_i.simps [of _ i])
    have IH: "take count' a' = take (Suc i) b @ dedup key_of (drop (Suc i) (take c b))
        \<and> count' \<le> c \<and> length a' = length b"
      using "1.IH" [OF True refl cb [symmetric] _ _ eq] cb j "1.prems"(2) by simp
    have "take (Suc i) b = take (Suc i) (take c b)" using j(2) by simp
    also have "\<dots> = take (Suc i) a" using j(1) True "1.prems"(2) by simp
    finally have tb: "take (Suc i) b = take i a @ [a ! i]"
      using True "1.prems"(2) by (simp add: take_Suc_conv_app_nth)
    have "drop (Suc i) (take c b)
        = filter (\<lambda>y. key_of y \<noteq> key_of (a ! i)) (drop (Suc i) (take count a))"
      using j(1) True "1.prems"(2) by simp
    moreover have "drop i (take count a) = a ! i # drop (Suc i) (take count a)"
      using True "1.prems"(2) by (simp add: Cons_nth_drop_Suc [symmetric])
    ultimately show ?thesis using IH tb j by simp
  qed
qed


section \<open>Key vectors and metadata\<close>

text \<open>The zeroed struct, as \<open>calloc\<close> and \<open>metadata_free\<close> leave it.\<close>

definition empty_kv :: agm_key_vector_gsl where
  "empty_kv = \<lparr>num_kvs = 0, kv = None\<rparr>"

definition empty_meta :: agm_meta_data_gsl where
  "empty_meta = \<lparr>gkv = empty_kv, ckv = empty_kv,
     sg_props = \<lparr>prop_id = 0, num_values = 0, pvalues = None\<rparr>\<rparr>"

definition metadata_free :: "agm_meta_data_gsl \<Rightarrow> agm_meta_data_gsl" where
  "metadata_free m = empty_meta"

text \<open>
  Reading \<open>n\<close> elements from an array pointer: nothing is read for \<open>n = 0\<close>; otherwise NULL
  or a short array is undefined behaviour.
\<close>

definition read_array :: "nat \<Rightarrow> 'a list option \<Rightarrow> 'a list option" where
  "read_array n p =
     (if n = 0 then Some []
      else case p of None \<Rightarrow> None | Some a \<Rightarrow> if n \<le> length a then Some (take n a) else None)"

abbreviation kvs_read :: "agm_key_vector_gsl \<Rightarrow> agm_key_value list option" where
  "kvs_read v \<equiv> read_array (num_kvs v) (kv v)"

abbreviation props_read :: "sg_prop \<Rightarrow> u32 list option" where
  "props_read p \<equiv> read_array (num_values p) (pvalues p)"

text \<open>The elements a vector denotes where it is readable.\<close>

definition elems :: "nat \<Rightarrow> 'a list option \<Rightarrow> 'a list" where
  "elems n p = (case p of None \<Rightarrow> [] | Some a \<Rightarrow> take n a)"

abbreviation kvs_of :: "agm_key_vector_gsl \<Rightarrow> agm_key_value list" where
  "kvs_of v \<equiv> elems (num_kvs v) (kv v)"

abbreviation props_of :: "sg_prop \<Rightarrow> u32 list" where
  "props_of p \<equiv> elems (num_values p) (pvalues p)"

definition readable :: "nat \<Rightarrow> 'a list option \<Rightarrow> bool" where
  "readable n p \<longleftrightarrow> n = 0 \<or> (\<exists>a. p = Some a \<and> n \<le> length a)"

definition wf_meta :: "agm_meta_data_gsl \<Rightarrow> bool" where
  "wf_meta m \<longleftrightarrow> readable (num_kvs (gkv m)) (kv (gkv m)) \<and> readable (num_kvs (ckv m)) (kv (ckv m))
     \<and> readable (num_values (sg_props m)) (pvalues (sg_props m))"

lemma read_array_readable: "readable n p \<Longrightarrow> read_array n p = Some (elems n p)"
  by (auto simp: readable_def read_array_def elems_def split: option.splits)

lemma read_array_None_iff: "read_array n p = None \<longleftrightarrow> \<not> readable n p"
  by (auto simp: readable_def read_array_def split: option.splits)

lemma wf_empty_meta [simp]: "wf_meta empty_meta"
  by (simp add: wf_meta_def empty_meta_def empty_kv_def readable_def)

subsection \<open>Duplicates in a metadata\<close>

text \<open>With fewer than two elements the loops do not touch the array.\<close>

definition dedup_array :: "('a \<Rightarrow> 'k) \<Rightarrow> nat \<Rightarrow> 'a list option \<Rightarrow> (nat \<times> 'a list option) option" where
  "dedup_array key_of n p =
     (case p of None \<Rightarrow> if n \<le> 1 then Some (n, None) else None
      | Some a \<Rightarrow>
          if n \<le> length a
          then (let (count, a') = remove_dup_i key_of 0 n a in Some (count, Some a'))
          else None)"

definition metadata_remove_dup :: "agm_meta_data_gsl \<Rightarrow> agm_meta_data_gsl option" where
  "metadata_remove_dup m = do {
     (ng, g) \<leftarrow> dedup_array key (num_kvs (gkv m)) (kv (gkv m));
     (nc, c) \<leftarrow> dedup_array key (num_kvs (ckv m)) (kv (ckv m));
     (np, p) \<leftarrow> dedup_array (\<lambda>v. v) (num_values (sg_props m)) (pvalues (sg_props m));
     Some (m\<lparr>gkv := \<lparr>num_kvs = ng, kv = g\<rparr>, ckv := \<lparr>num_kvs = nc, kv = c\<rparr>,
             sg_props := (sg_props m)\<lparr>num_values := np, pvalues := p\<rparr>\<rparr>)
   }"

lemma dedup_array_Some:
  assumes "n \<le> length a"
  obtains count a' where "dedup_array key_of n (Some a) = Some (count, Some a')"
    and "take count a' = dedup key_of (take n a)" and "count \<le> length a'"
proof -
  obtain count a' where eq: "remove_dup_i key_of 0 n a = (count, a')" by fastforce
  with remove_dup_i_eq [of 0 n a key_of count a'] assms
  have "take count a' = dedup key_of (take n a)" "count \<le> length a'" by auto
  with eq assms that [of count a'] show thesis by (simp add: dedup_array_def)
qed

subsection \<open>Calibration values\<close>

text \<open>The inner loop: every entry of the new calibration with the same key overwrites the value.\<close>

primrec update_cal_value :: "agm_key_value list \<Rightarrow> agm_key_value \<Rightarrow> agm_key_value" where
  "update_cal_value [] x = x"
| "update_cal_value (c # cs) x =
     update_cal_value cs (if key x = key c then x\<lparr>val := val c\<rparr> else x)"

definition metadata_update_cal ::
    "agm_meta_data_gsl \<Rightarrow> agm_key_value list \<Rightarrow> agm_meta_data_gsl option" where
  "metadata_update_cal m cal =
     (let n = num_kvs (ckv m) in
      if n = 0 \<or> cal = [] then Some m
      else case kv (ckv m) of None \<Rightarrow> None
      | Some a \<Rightarrow>
          if n \<le> length a
          then Some (m\<lparr>ckv := (ckv m)\<lparr>kv := Some (map (update_cal_value cal) (take n a) @ drop n a)\<rparr>\<rparr>)
          else None)"

lemma key_update_cal_value [simp]: "key (update_cal_value cs x) = key x"
  by (induction cs arbitrary: x) auto

lemma update_cal_value_eq:
  "update_cal_value cs x =
     (case find (\<lambda>c. key c = key x) (rev cs) of None \<Rightarrow> x | Some c \<Rightarrow> x\<lparr>val := val c\<rparr>)"
proof (induction cs rule: rev_induct)
  case (snoc c cs)
  have app: "update_cal_value (cs @ [c]) x =
      (let y = update_cal_value cs x in if key y = key c then y\<lparr>val := val c\<rparr> else y)"
    by (induction cs arbitrary: x) (auto simp: Let_def)
  show ?case
    using snoc by (simp add: app Let_def split: option.splits)
qed simp

section \<open>Merge\<close>

abbreviation (input) SIZEOF_META :: nat where "SIZEOF_META \<equiv> 48"
abbreviation (input) SIZEOF_KV :: nat where "SIZEOF_KV \<equiv> 8"

text \<open>
  The variadic arguments are a list; NULL arguments are skipped. NULL (\<open>None\<close> as the
  returned value) is returned when an allocation fails.
\<close>

definition metadata_merge ::
    "env \<Rightarrow> agm_meta_data_gsl option list \<Rightarrow> agm_meta_data_gsl option agm" where
  "metadata_merge E args s = do {
     let ms = map the (filter (\<lambda>a. a \<noteq> None) args);
     (ok, s) \<leftarrow> calloc E 1 SIZEOF_META s;
     if \<not> ok then Some (None, s) else do {
       let ng = sum_list (map (\<lambda>m. num_kvs (gkv m)) ms);
       let nc = sum_list (map (\<lambda>m. num_kvs (ckv m)) ms);
       let np = sum_list (map (\<lambda>m. num_values (sg_props m)) ms);
       (ok, s) \<leftarrow> calloc E ng SIZEOF_KV s;
       if \<not> ok then Some (None, s) else do {
         (ok, s) \<leftarrow> calloc E nc SIZEOF_KV s;
         if \<not> ok then Some (None, s) else do {
           (ok, s) \<leftarrow> calloc E np 4 s;
           if \<not> ok then Some (None, s) else do {
             gs \<leftarrow> those (map (\<lambda>m. kvs_read (gkv m)) ms);
             cs \<leftarrow> those (map (\<lambda>m. kvs_read (ckv m)) ms);
             ps \<leftarrow> those (map (\<lambda>m. props_read (sg_props m)) ms);
             let pid = (if ms = [] then 0 else prop_id (sg_props (last ms)));
             merged \<leftarrow> metadata_remove_dup
               \<lparr>gkv = \<lparr>num_kvs = ng, kv = Some (concat gs)\<rparr>,
                ckv = \<lparr>num_kvs = nc, kv = Some (concat cs)\<rparr>,
                sg_props = \<lparr>prop_id = pid, num_values = np, pvalues = Some (concat ps)\<rparr>\<rparr>;
             Some (Some merged, s)
           }
         }
       }
     }
   }"

text \<open>Where every argument is readable, the arrays that are merged are the elements in order.\<close>

lemma those_read:
  assumes "\<forall>m\<in>set ms. readable (n m) (p m)"
  shows "those (map (\<lambda>m. read_array (n m) (p m)) ms) = Some (map (\<lambda>m. elems (n m) (p m)) ms)"
  using assms by (induction ms) (auto simp: read_array_readable)

lemma length_elems: "readable n p \<Longrightarrow> length (elems n p) = n"
  by (auto simp: readable_def elems_def split: option.splits)

lemma length_concat_elems:
  assumes "\<forall>m\<in>set ms. readable (n m) (p m)"
  shows "length (concat (map (\<lambda>m. elems (n m) (p m)) ms)) = sum_list (map n ms)"
  using assms by (induction ms) (auto simp: length_elems)

definition merged_ok :: "agm_meta_data_gsl list \<Rightarrow> agm_meta_data_gsl \<Rightarrow> bool" where
  "merged_ok ms m \<longleftrightarrow> wf_meta m
     \<and> kvs_of (gkv m) = dedup key (concat (map (\<lambda>m. kvs_of (gkv m)) ms))
     \<and> kvs_of (ckv m) = dedup key (concat (map (\<lambda>m. kvs_of (ckv m)) ms))
     \<and> props_of (sg_props m) = dedup (\<lambda>v. v) (concat (map (\<lambda>m. props_of (sg_props m)) ms))
     \<and> prop_id (sg_props m) = (if ms = [] then 0 else prop_id (sg_props (last ms)))"

lemma metadata_remove_dup_merged:
  assumes "\<forall>m\<in>set ms. wf_meta m"
  obtains m where "metadata_remove_dup
      \<lparr>gkv = \<lparr>num_kvs = sum_list (map (\<lambda>m. num_kvs (gkv m)) ms),
              kv = Some (concat (map (\<lambda>m. kvs_of (gkv m)) ms))\<rparr>,
       ckv = \<lparr>num_kvs = sum_list (map (\<lambda>m. num_kvs (ckv m)) ms),
              kv = Some (concat (map (\<lambda>m. kvs_of (ckv m)) ms))\<rparr>,
       sg_props = \<lparr>prop_id = if ms = [] then 0 else prop_id (sg_props (last ms)),
         num_values = sum_list (map (\<lambda>m. num_values (sg_props m)) ms),
         pvalues = Some (concat (map (\<lambda>m. props_of (sg_props m)) ms))\<rparr>\<rparr> = Some m"
    and "merged_ok ms m"
proof -
  have len: "length (concat (map (\<lambda>m. kvs_of (gkv m)) ms)) = sum_list (map (\<lambda>m. num_kvs (gkv m)) ms)"
    "length (concat (map (\<lambda>m. kvs_of (ckv m)) ms)) = sum_list (map (\<lambda>m. num_kvs (ckv m)) ms)"
    "length (concat (map (\<lambda>m. props_of (sg_props m)) ms))
       = sum_list (map (\<lambda>m. num_values (sg_props m)) ms)"
    using assms by (auto simp: wf_meta_def intro!: length_concat_elems)
  obtain ng g where g: "dedup_array key (sum_list (map (\<lambda>m. num_kvs (gkv m)) ms))
        (Some (concat (map (\<lambda>m. kvs_of (gkv m)) ms))) = Some (ng, Some g)"
      "take ng g = dedup key (concat (map (\<lambda>m. kvs_of (gkv m)) ms))" "ng \<le> length g"
    using dedup_array_Some [OF order_refl, of key "concat (map (\<lambda>m. kvs_of (gkv m)) ms)"] len(1)
    by auto
  obtain nc c where c: "dedup_array key (sum_list (map (\<lambda>m. num_kvs (ckv m)) ms))
        (Some (concat (map (\<lambda>m. kvs_of (ckv m)) ms))) = Some (nc, Some c)"
      "take nc c = dedup key (concat (map (\<lambda>m. kvs_of (ckv m)) ms))" "nc \<le> length c"
    using dedup_array_Some [OF order_refl, of key "concat (map (\<lambda>m. kvs_of (ckv m)) ms)"] len(2)
    by auto
  obtain np p where p: "dedup_array (\<lambda>v. v) (sum_list (map (\<lambda>m. num_values (sg_props m)) ms))
        (Some (concat (map (\<lambda>m. props_of (sg_props m)) ms))) = Some (np, Some p)"
      "take np p = dedup (\<lambda>v. v) (concat (map (\<lambda>m. props_of (sg_props m)) ms))" "np \<le> length p"
    using dedup_array_Some [OF order_refl, of "\<lambda>v. v" "concat (map (\<lambda>m. props_of (sg_props m)) ms)"]
      len(3) by auto
  show thesis
    by (rule that [of "\<lparr>gkv = \<lparr>num_kvs = ng, kv = Some g\<rparr>, ckv = \<lparr>num_kvs = nc, kv = Some c\<rparr>,
          sg_props = \<lparr>prop_id = if ms = [] then 0 else prop_id (sg_props (last ms)),
            num_values = np, pvalues = Some p\<rparr>\<rparr>"])
      (use g c p in \<open>simp_all add: metadata_remove_dup_def merged_ok_def wf_meta_def elems_def
          readable_def\<close>)
qed

text \<open>
  The specification of the merge: NULL, or the deduplicated concatenation of its arguments;
  and not NULL when the allocations succeed.
\<close>

abbreviation given :: "'a option list \<Rightarrow> 'a list" where
  "given args \<equiv> map the (filter (\<lambda>a. a \<noteq> None) args)"

lemma metadata_merge_runs [runs_rules]:
  assumes "\<forall>m\<in>set (given args). wf_meta m"
  shows "runs (metadata_merge E args s) (\<lambda>r s'. only_trace s s' \<and> (alloc_ok E \<longrightarrow> r \<noteq> None)
    \<and> (\<forall>m. r = Some m \<longrightarrow> merged_ok (given args) m))"
proof -
  define ms where "ms = given args"
  have rd: "\<forall>m\<in>set ms. readable (num_kvs (gkv m)) (kv (gkv m))"
    "\<forall>m\<in>set ms. readable (num_kvs (ckv m)) (kv (ckv m))"
    "\<forall>m\<in>set ms. readable (num_values (sg_props m)) (pvalues (sg_props m))"
    using assms by (auto simp: wf_meta_def ms_def)
  obtain m where m: "metadata_remove_dup
      \<lparr>gkv = \<lparr>num_kvs = sum_list (map (\<lambda>m. num_kvs (gkv m)) ms),
              kv = Some (concat (map (\<lambda>m. kvs_of (gkv m)) ms))\<rparr>,
       ckv = \<lparr>num_kvs = sum_list (map (\<lambda>m. num_kvs (ckv m)) ms),
              kv = Some (concat (map (\<lambda>m. kvs_of (ckv m)) ms))\<rparr>,
       sg_props = \<lparr>prop_id = if ms = [] then 0 else prop_id (sg_props (last ms)),
         num_values = sum_list (map (\<lambda>m. num_values (sg_props m)) ms),
         pvalues = Some (concat (map (\<lambda>m. props_of (sg_props m)) ms))\<rparr>\<rparr> = Some m"
    and ok: "merged_ok ms m"
    using assms unfolding ms_def [symmetric] by (rule metadata_remove_dup_merged)
  show ?thesis
    unfolding metadata_merge_def ms_def [symmetric] Let_def calloc_def
    using m ok by (auto simp: those_read [OF rd(1)] those_read [OF rd(2)] those_read [OF rd(3)]
        suffix_ConsI dest: alloc_okD)
qed

section \<open>The client's payload\<close>

text \<open>A little-endian 32-bit read at a byte offset; outside the payload it is undefined.\<close>

definition le32 :: "u8 \<Rightarrow> u8 \<Rightarrow> u8 \<Rightarrow> u8 \<Rightarrow> u32" where
  "le32 a b c d =
     ucast a OR push_bit 8 (ucast b) OR push_bit 16 (ucast c) OR push_bit 24 (ucast d)"

definition rd32 :: "u8 list \<Rightarrow> nat \<Rightarrow> u32 option" where
  "rd32 bs off =
     (if off + 4 \<le> length bs
      then Some (le32 (bs ! off) (bs ! (off + 1)) (bs ! (off + 2)) (bs ! (off + 3)))
      else None)"

primrec rd_u32s :: "u8 list \<Rightarrow> nat \<Rightarrow> nat \<Rightarrow> u32 list option" where
  "rd_u32s bs off 0 = Some []"
| "rd_u32s bs off (Suc n) = do {
     v \<leftarrow> rd32 bs off; vs \<leftarrow> rd_u32s bs (off + 4) n; Some (v # vs) }"

primrec rd_kvs :: "u8 list \<Rightarrow> nat \<Rightarrow> nat \<Rightarrow> agm_key_value list option" where
  "rd_kvs bs off 0 = Some []"
| "rd_kvs bs off (Suc n) = do {
     k \<leftarrow> rd32 bs off; v \<leftarrow> rd32 bs (off + 4); rest \<leftarrow> rd_kvs bs (off + 8) n;
     Some (\<lparr>key = k, val = v\<rparr> # rest) }"

text \<open>
  \<open>metadata_copy\<close>: the argument \<open>size\<close> is not used by the code, so it is no argument
  here. When the allocation of the graph keys fails the count is already stored.
\<close>

definition metadata_copy ::
    "env \<Rightarrow> agm_meta_data_gsl \<Rightarrow> u8 list \<Rightarrow> (int \<times> agm_meta_data_gsl) agm" where
  "metadata_copy E dest metadata s = do {
     num_gkv \<leftarrow> map_option unat (rd32 metadata 0);
     (ok, s) \<leftarrow> calloc E num_gkv SIZEOF_KV s;
     if \<not> ok then Some ((- ENOMEM, dest\<lparr>gkv := \<lparr>num_kvs = num_gkv, kv = None\<rparr>\<rparr>), s) else do {
       gs \<leftarrow> rd_kvs metadata 4 num_gkv;
       let p_ckv = 4 + num_gkv * SIZEOF_KV;
       num_ckv \<leftarrow> map_option unat (rd32 metadata p_ckv);
       (ok, s) \<leftarrow> calloc E num_ckv SIZEOF_KV s;
       if \<not> ok then Some ((- ENOMEM, metadata_free dest), s) else do {
         cs \<leftarrow> rd_kvs metadata (p_ckv + 4) num_ckv;
         let p_prop = p_ckv + 4 + num_ckv * SIZEOF_KV;
         pid \<leftarrow> rd32 metadata p_prop;
         num_props \<leftarrow> map_option unat (rd32 metadata (p_prop + 4));
         (ok, s) \<leftarrow> calloc E num_props 4 s;
         if \<not> ok then Some ((- ENOMEM, metadata_free dest), s) else do {
           ps \<leftarrow> rd_u32s metadata (p_prop + 8) num_props;
           Some ((0, \<lparr>gkv = \<lparr>num_kvs = num_gkv, kv = Some gs\<rparr>,
                      ckv = \<lparr>num_kvs = num_ckv, kv = Some cs\<rparr>,
                      sg_props = \<lparr>prop_id = pid, num_values = num_props, pvalues = Some ps\<rparr>\<rparr>), s)
         }
       }
     }
   }"

text \<open>The layout the comment of the source documents, as an encoder.\<close>

definition enc32 :: "u32 \<Rightarrow> u8 list" where
  "enc32 w = [ucast w, ucast (drop_bit 8 w), ucast (drop_bit 16 w), ucast (drop_bit 24 w)]"

definition enc_kvs :: "agm_key_value list \<Rightarrow> u8 list" where
  "enc_kvs kvs = concat (map (\<lambda>x. enc32 (key x) @ enc32 (val x)) kvs)"

definition enc_metadata ::
    "agm_key_value list \<Rightarrow> agm_key_value list \<Rightarrow> u32 \<Rightarrow> u32 list \<Rightarrow> u8 list" where
  "enc_metadata gs cs pid ps =
     enc32 (of_nat (length gs)) @ enc_kvs gs @ enc32 (of_nat (length cs)) @ enc_kvs cs
     @ enc32 pid @ enc32 (of_nat (length ps)) @ concat (map enc32 ps)"


lemma length_enc32 [simp]: "length (enc32 w) = 4"
  by (simp add: enc32_def)

lemma length_enc_kvs [simp]: "length (enc_kvs kvs) = 8 * length kvs"
  by (induction kvs) (simp_all add: enc_kvs_def)

lemma le32_enc32:
  "le32 (ucast w) (ucast (drop_bit 8 w)) (ucast (drop_bit 16 w)) (ucast (drop_bit 24 w)) = w"
proof (rule bit_word_eqI)
  fix n assume "n < LENGTH(32)"
  then consider "n < 8" | "8 \<le> n" "n < 16" | "16 \<le> n" "n < 24" | "24 \<le> n" "n < 32"
    by fastforce
  then show "bit (le32 (ucast w) (ucast (drop_bit 8 w)) (ucast (drop_bit 16 w))
      (ucast (drop_bit 24 w))) n = bit w n"
    by cases (auto simp: le32_def bit_simps)
qed

text \<open>Reading back what was written, at any offset.\<close>

lemma rd32_enc32:
  assumes "length pre = off"
  shows "rd32 (pre @ enc32 w @ post) off = Some w"
  using assms by (simp add: rd32_def enc32_def nth_append le32_enc32)

lemma rd_u32s_enc:
  "length pre = off \<Longrightarrow>
   rd_u32s (pre @ concat (map enc32 ps) @ post) off (length ps) = Some ps"
proof (induction ps arbitrary: pre off)
  case (Cons p ps)
  have "rd_u32s ((pre @ enc32 p) @ concat (map enc32 ps) @ post) (off + 4) (length ps) = Some ps"
    using Cons.prems by (intro Cons.IH) simp
  moreover have "rd32 (pre @ enc32 p @ concat (map enc32 ps) @ post) off = Some p"
    using Cons.prems by (rule rd32_enc32)
  ultimately show ?case by simp
qed simp

lemma rd_kvs_enc:
  "length pre = off \<Longrightarrow> rd_kvs (pre @ enc_kvs kvs @ post) off (length kvs) = Some kvs"
proof (induction kvs arbitrary: pre off)
  case (Cons x kvs)
  have "rd_kvs ((pre @ enc32 (key x) @ enc32 (val x)) @ enc_kvs kvs @ post) (off + 8) (length kvs)
      = Some kvs"
    using Cons.prems by (intro Cons.IH) simp
  moreover have "rd32 (pre @ enc32 (key x) @ enc32 (val x) @ enc_kvs kvs @ post) off
      = Some (key x)"
    using Cons.prems by (rule rd32_enc32)
  moreover have "rd32 ((pre @ enc32 (key x)) @ enc32 (val x) @ enc_kvs kvs @ post) (off + 4)
      = Some (val x)"
    using Cons.prems by (intro rd32_enc32) simp
  ultimately show ?case by (simp add: enc_kvs_def)
qed (simp add: enc_kvs_def)

definition meta_of ::
    "agm_key_value list \<Rightarrow> agm_key_value list \<Rightarrow> u32 \<Rightarrow> u32 list \<Rightarrow> agm_meta_data_gsl" where
  "meta_of gs cs pid ps =
     \<lparr>gkv = \<lparr>num_kvs = length gs, kv = Some gs\<rparr>, ckv = \<lparr>num_kvs = length cs, kv = Some cs\<rparr>,
      sg_props = \<lparr>prop_id = pid, num_values = length ps, pvalues = Some ps\<rparr>\<rparr>"

lemma wf_meta_of [simp]: "wf_meta (meta_of gs cs pid ps)"
  by (simp add: meta_of_def wf_meta_def readable_def)

text \<open>The five reads of the code find the five parts of an encoded payload.\<close>

lemma enc_metadata_reads:
  fixes gs cs ps pid tail
  defines "bs \<equiv> enc_metadata gs cs pid ps @ tail"
  shows "rd32 bs 0 = Some (of_nat (length gs))"
    "rd_kvs bs 4 (length gs) = Some gs"
    "rd32 bs (4 + length gs * 8) = Some (of_nat (length cs))"
    "rd_kvs bs (4 + length gs * 8 + 4) (length cs) = Some cs"
    "rd32 bs (4 + length gs * 8 + 4 + length cs * 8) = Some pid"
    "rd32 bs (4 + length gs * 8 + 4 + length cs * 8 + 4) = Some (of_nat (length ps))"
    "rd_u32s bs (4 + length gs * 8 + 4 + length cs * 8 + 8) (length ps) = Some ps"
proof -
  let ?g = "enc32 (of_nat (length gs))" and ?c = "enc32 (of_nat (length cs))"
  let ?p = "enc32 (of_nat (length ps))" and ?ps = "concat (map enc32 ps)"
  show "rd32 bs 0 = Some (of_nat (length gs))"
    using rd32_enc32 [of "[]" 0] by (simp add: bs_def enc_metadata_def)
  show "rd_kvs bs 4 (length gs) = Some gs"
    using rd_kvs_enc [of ?g 4] by (simp add: bs_def enc_metadata_def)
  show "rd32 bs (4 + length gs * 8) = Some (of_nat (length cs))"
    using rd32_enc32 [of "?g @ enc_kvs gs" "4 + length gs * 8"]
    by (simp add: bs_def enc_metadata_def)
  show "rd_kvs bs (4 + length gs * 8 + 4) (length cs) = Some cs"
    using rd_kvs_enc [of "?g @ enc_kvs gs @ ?c" "4 + length gs * 8 + 4"]
    by (simp add: bs_def enc_metadata_def)
  show "rd32 bs (4 + length gs * 8 + 4 + length cs * 8) = Some pid"
    using rd32_enc32 [of "?g @ enc_kvs gs @ ?c @ enc_kvs cs" "4 + length gs * 8 + 4 + length cs * 8"]
    by (simp add: bs_def enc_metadata_def)
  show "rd32 bs (4 + length gs * 8 + 4 + length cs * 8 + 4) = Some (of_nat (length ps))"
    using rd32_enc32 [of "?g @ enc_kvs gs @ ?c @ enc_kvs cs @ enc32 pid"
        "4 + length gs * 8 + 4 + length cs * 8 + 4"]
    by (simp add: bs_def enc_metadata_def)
  show "rd_u32s bs (4 + length gs * 8 + 4 + length cs * 8 + 8) (length ps) = Some ps"
    using rd_u32s_enc [of "?g @ enc_kvs gs @ ?c @ enc_kvs cs @ enc32 pid @ ?p"
        "4 + length gs * 8 + 4 + length cs * 8 + 8"]
    by (simp add: bs_def enc_metadata_def)
qed

text \<open>
  A copy that returns leaves a readable metadata unless the allocation of the graph keys
  failed: then the count is stored without an array.
\<close>

lemma rd_kvs_length: "rd_kvs bs off n = Some xs \<Longrightarrow> length xs = n"
  by (induction n arbitrary: off xs) (auto split: bind_splits)

lemma rd_u32s_length: "rd_u32s bs off n = Some xs \<Longrightarrow> length xs = n"
  by (induction n arbitrary: off xs) (auto split: bind_splits)

lemma metadata_copy_posts:
  "posts (metadata_copy E dest bs s) (\<lambda>(r, m) s'. only_trace s s' \<and> (r = 0 \<longrightarrow> wf_meta m)
     \<and> (r = 0 \<or> r = - ENOMEM) \<and> (alloc_ok E \<longrightarrow> r = 0))"
  unfolding metadata_copy_def Let_def calloc_def posts_def
  by (auto split: bind_splits if_splits simp: wf_meta_def readable_def suffix_ConsI
      dest: rd_kvs_length rd_u32s_length alloc_okD)

end
