(* ===== verification/Agm_Hw_Ep.thy ===== *)
theory Agm_Hw_Ep
  imports Agm_Env
begin

text \<open>
  \<open>service/src/device_hw_ep.c\<close>: the name of a PCM device
  (\<open>INTERFACE-LPAIF-DIRECTION-INDEX\<close> and its variants) parsed into \<open>hw_ep_info\<close>.

  \<open>sscanf_dash\<close> is \<open>sscanf(input, "%20[^-]-%60s", arg, value)\<close>: a conversion that does
  not take place leaves its argument as it was. The code passes \<open>value\<close> as the input and
  as an output; the write trails the read, so the result is the same. A function returns
  the error code and the updated struct, since the code stores fields before it detects
  some errors.
\<close>

section \<open>The C library\<close>

definition c_isspace :: "char \<Rightarrow> bool" where
  "c_isspace c \<longleftrightarrow> (of_char c :: nat) = 32 \<or> 9 \<le> (of_char c :: nat) \<and> (of_char c :: nat) \<le> 13"

definition sscanf_dash :: "string \<Rightarrow> string \<Rightarrow> string \<Rightarrow> string \<times> string" where
  "sscanf_dash input arg value =
     (let a = take 20 (takeWhile (\<lambda>c. c \<noteq> CHR ''-'') input) in
      if a = [] then (arg, value)
      else case drop (length a) input of
             [] \<Rightarrow> (a, value)
           | c # rest \<Rightarrow>
               if c = CHR ''-'' then
                 (let w = take 60 (takeWhile (\<lambda>c. \<not> c_isspace c) (dropWhile c_isspace rest))
                  in if w = [] then (a, value) else (a, w))
               else (a, value))"

definition c_isdigit :: "char \<Rightarrow> bool" where
  "c_isdigit c \<longleftrightarrow> 48 \<le> (of_char c :: nat) \<and> (of_char c :: nat) \<le> 57"

fun atoi_digits :: "string \<Rightarrow> int \<Rightarrow> int" where
  "atoi_digits [] acc = acc"
| "atoi_digits (c # cs) acc =
     (if c_isdigit c then atoi_digits cs (10 * acc + (of_char c - 48)) else acc)"

definition atoi :: "string \<Rightarrow> int" where
  "atoi str =
     (case dropWhile c_isspace str of
        [] \<Rightarrow> 0
      | c # cs \<Rightarrow>
          if c = CHR ''-'' then - atoi_digits cs 0
          else if c = CHR ''+'' then atoi_digits cs 0
          else atoi_digits (c # cs) 0)"

section \<open>The parsing functions\<close>

text \<open>The chains of \<open>strcmp\<close>, in the order of the code; \<open>None\<close> is the final \<open>else\<close>.\<close>

definition codec_idx_of :: "string \<Rightarrow> u32 option" where
  "codec_idx_of n =
     (if n = ''0'' then Some 1
      else if n = ''1'' then Some 2
      else if n = ''2'' then Some 3
      else if n = ''3'' then Some 4
      else if n = ''4'' then Some 5
      else None)"

definition pcm_idx_of :: "string \<Rightarrow> u32 option" where
  "pcm_idx_of n =
     (if n = ''PRIMARY'' then Some 0
      else if n = ''SECONDARY'' then Some 1
      else if n = ''TERTIARY'' then Some 2
      else if n = ''QUATERNARY'' then Some 3
      else if n = ''QUINARY'' then Some 4
      else None)"

definition intf_of :: "string \<Rightarrow> u32 option" where
  "intf_of n =
     (if n = ''SLIM'' then Some SLIMBUS
      else if n = ''DISPLAY_PORT'' then Some DISPLAY_PORT
      else if n = ''USB_AUDIO'' then Some USB_AUDIO
      else if n = ''CODEC_DMA'' then Some CODEC_DMA
      else if n = ''MI2S'' then Some MI2S
      else if n = ''TDM'' then Some TDM
      else if n = ''AUXPCM'' then Some AUXPCM
      else if n = ''PCM_RT_PROXY'' then Some PCM_RT_PROXY
      else None)"

definition dir_of :: "string \<Rightarrow> u32 option" where
  "dir_of n =
     (if n = ''RX'' then Some AUDIO_OUTPUT else if n = ''TX'' then Some AUDIO_INPUT else None)"

definition lpaif_of :: "string \<Rightarrow> konst option" where
  "lpaif_of n =
     (if n = ''LPAIF'' then Some LPAIF
      else if n = ''LPAIF_RXTX'' then Some LPAIF_RXTX
      else if n = ''LPAIF_WSA'' then Some LPAIF_WSA
      else if n = ''LPAIF_VA'' then Some LPAIF_VA
      else if n = ''LPAIF_AXI'' then Some LPAIF_AXI
      else None)"

definition populate_hw_ep_intf_idx :: "hw_ep_info \<Rightarrow> string \<Rightarrow> int \<times> hw_ep_info" where
  "populate_hw_ep_intf_idx hw intf_idx =
     (case (if intf hw = CODEC_DMA then codec_idx_of intf_idx
            else if intf hw = MI2S \<or> intf hw = TDM \<or> intf hw = AUXPCM then pcm_idx_of intf_idx
            else None)
      of None \<Rightarrow> (- EINVAL, hw) | Some i \<Rightarrow> (0, hw\<lparr>ep_word1 := i\<rparr>))"

definition populate_hw_ep_intf :: "hw_ep_info \<Rightarrow> string \<Rightarrow> int \<times> hw_ep_info" where
  "populate_hw_ep_intf hw name =
     (case intf_of name of None \<Rightarrow> (- EINVAL, hw) | Some i \<Rightarrow> (0, hw\<lparr>intf := i\<rparr>))"

definition populate_hw_ep_direction :: "hw_ep_info \<Rightarrow> string \<Rightarrow> int \<times> hw_ep_info" where
  "populate_hw_ep_direction hw name =
     (case dir_of name of None \<Rightarrow> (- EINVAL, hw) | Some d \<Rightarrow> (0, hw\<lparr>ep_dir := d\<rparr>))"

definition populate_pcm_rt_proxy_ep_info :: "hw_ep_info \<Rightarrow> string \<Rightarrow> int \<times> hw_ep_info" where
  "populate_pcm_rt_proxy_ep_info hw value =
     (let (arg, value) = sscanf_dash value [] value;
          (ret, hw) = populate_hw_ep_direction hw arg
      in if ret \<noteq> 0 then (ret, hw)
         else let (arg, value) = sscanf_dash value arg value
              in (ret, hw\<lparr>ep_word0 := word_of_int (atoi arg)\<rparr>))"

definition populate_slim_dp_usb_ep_info :: "hw_ep_info \<Rightarrow> string \<Rightarrow> int \<times> hw_ep_info" where
  "populate_slim_dp_usb_ep_info hw value =
     (let (arg, value, hw, ok) =
            (if intf hw = SLIMBUS then
               (let (arg, value) = sscanf_dash value [] value
                in if arg = ''DEV1'' then (arg, value, hw\<lparr>ep_word0 := 0\<rparr>, True)
                   else if arg = ''DEV2'' then (arg, value, hw\<lparr>ep_word0 := 1\<rparr>, True)
                   else (arg, value, hw, False))
             else ([], value, hw, True))
      in if \<not> ok then (- EINVAL, hw)
         else let (arg, value) = sscanf_dash value arg value
              in populate_hw_ep_direction hw arg)"

definition populate_cdc_dma_i2s_tdm_pcm_ep_info ::
    "env \<Rightarrow> hw_ep_info \<Rightarrow> string \<Rightarrow> int \<times> hw_ep_info" where
  "populate_cdc_dma_i2s_tdm_pcm_ep_info E hw value =
     (let (arg, value) = sscanf_dash value [] value;
          lpaif_type = arg;
          (arg, value) = sscanf_dash value arg value;
          dir_name = arg;
          (arg, value) = sscanf_dash value arg value;
          intf_idx = arg
      in case lpaif_of lpaif_type of None \<Rightarrow> (- EINVAL, hw)
         | Some k \<Rightarrow>
             (let (ret, hw) = populate_hw_ep_direction (hw\<lparr>ep_word0 := konst E k\<rparr>) dir_name
              in if ret \<noteq> 0 then (ret, hw) else populate_hw_ep_intf_idx hw intf_idx))"

text \<open>\<open>populate_device_hw_ep_info\<close> on the name and the struct of the device.\<close>

definition populate_device_hw_ep_info :: "env \<Rightarrow> string \<Rightarrow> hw_ep_info \<Rightarrow> int \<times> hw_ep_info" where
  "populate_device_hw_ep_info E name hw =
     (let (arg, value) = sscanf_dash name [] [];
          (ret, hw) = populate_hw_ep_intf hw arg
      in if ret \<noteq> 0 then (ret, hw)
         else if intf hw \<in> {CODEC_DMA, MI2S, TDM, AUXPCM}
           then populate_cdc_dma_i2s_tdm_pcm_ep_info E hw value
         else if intf hw \<in> {SLIMBUS, DISPLAY_PORT, USB_AUDIO}
           then populate_slim_dp_usb_ep_info hw value
         else if intf hw = PCM_RT_PROXY then populate_pcm_rt_proxy_ep_info hw value
         else (- EINVAL, hw))"

section \<open>Well-formed names\<close>

text \<open>
  A name part: between 1 and 20 characters, no dash, no white space. The scan takes one
  part off the front of a dash-separated name, and the last part is left in \<open>arg\<close>.
\<close>

definition name_part :: "string \<Rightarrow> bool" where
  "name_part p \<longleftrightarrow> p \<noteq> [] \<and> length p \<le> 20 \<and> (\<forall>c\<in>set p. c \<noteq> CHR ''-'' \<and> \<not> c_isspace c)"

lemma takeWhile_part:
  "name_part p \<Longrightarrow> takeWhile (\<lambda>c. c \<noteq> CHR ''-'') (p @ CHR ''-'' # rest) = p"
  by (simp add: name_part_def takeWhile_append2)

lemma dropWhile_id: "xs \<noteq> [] \<Longrightarrow> \<not> P (hd xs) \<Longrightarrow> dropWhile P xs = xs"
  by (cases xs) auto

lemma sscanf_dash_part:
  assumes "name_part p" and "rest \<noteq> []" and "length rest \<le> 60"
    and "\<forall>c\<in>set rest. \<not> c_isspace c"
  shows "sscanf_dash (p @ CHR ''-'' # rest) arg value = (p, rest)"
proof -
  have scan: "dropWhile c_isspace rest = rest" "takeWhile (\<lambda>c. \<not> c_isspace c) rest = rest"
    using assms(2,4) by (auto intro!: dropWhile_id simp: takeWhile_eq_all_conv)
  have "take 20 p = p" "p \<noteq> []" using assms(1) by (simp_all add: name_part_def)
  with assms(2,3) show ?thesis
    by (simp add: sscanf_dash_def takeWhile_part [OF assms(1)] scan Let_def)
qed

lemma sscanf_dash_last:
  assumes "name_part p"
  shows "sscanf_dash p arg value = (p, value)"
proof -
  have scan: "takeWhile (\<lambda>c. c \<noteq> CHR ''-'') p = p"
    using assms by (simp add: name_part_def takeWhile_eq_all_conv)
  have "take 20 p = p" "p \<noteq> []" using assms by (simp_all add: name_part_def)
  then show ?thesis by (simp add: sscanf_dash_def scan Let_def)
qed


section \<open>Parsing the names\<close>

text \<open>A name that one of the tables knows is a well-formed name part.\<close>

definition known_names :: "string list" where
  "known_names = [''0'', ''1'', ''2'', ''3'', ''4'', ''PRIMARY'', ''SECONDARY'', ''TERTIARY'',
     ''QUATERNARY'', ''QUINARY'', ''SLIM'', ''DISPLAY_PORT'', ''USB_AUDIO'', ''CODEC_DMA'', ''MI2S'',
     ''TDM'', ''AUXPCM'', ''PCM_RT_PROXY'', ''RX'', ''TX'', ''LPAIF'', ''LPAIF_RXTX'', ''LPAIF_WSA'',
     ''LPAIF_VA'', ''LPAIF_AXI'', ''DEV1'', ''DEV2'']"

lemma known_name_part: "n \<in> set known_names \<Longrightarrow> name_part n"
proof -
  have "\<forall>n\<in>set known_names. name_part n" by code_simp
  then show "n \<in> set known_names \<Longrightarrow> name_part n" by blast
qed

lemma table_name_part:
  "codec_idx_of n = Some i \<Longrightarrow> name_part n" "pcm_idx_of n = Some i \<Longrightarrow> name_part n"
  "intf_of n = Some i \<Longrightarrow> name_part n" "dir_of n = Some i \<Longrightarrow> name_part n"
  "lpaif_of n = Some k \<Longrightarrow> name_part n"
  unfolding codec_idx_of_def pcm_idx_of_def intf_of_def dir_of_def lpaif_of_def
  by (rule known_name_part, unfold known_names_def list.set insert_iff,
      simp only: HOL.simp_thms option.distinct split: if_split_asm)+

lemma dash_not_space: "\<not> c_isspace (CHR ''-'')"
  by code_simp

lemma name_partD:
  assumes "name_part p"
  shows "p \<noteq> []" "length p \<le> 20" "\<forall>c\<in>set p. \<not> c_isspace c"
  using assms unfolding name_part_def by blast+

lemma scan_two:
  assumes "name_part a" "name_part b"
  shows "sscanf_dash (a @ CHR ''-'' # b) arg v = (a, b)"
  using assms name_partD [OF assms(2)] by (intro sscanf_dash_part) (simp_all add: ball_Un)

lemma scan_three:
  assumes "name_part a" "name_part b" "name_part c"
  shows "sscanf_dash (a @ CHR ''-'' # b @ CHR ''-'' # c) arg v = (a, b @ CHR ''-'' # c)"
  using assms name_partD [OF assms(2)] name_partD [OF assms(3)] dash_not_space
  by (intro sscanf_dash_part) (simp_all add: ball_Un)

lemma scan_four:
  assumes "name_part n" "name_part a" "name_part b" "name_part c" "length a \<le> 18"
  shows "sscanf_dash (n @ CHR ''-'' # a @ CHR ''-'' # b @ CHR ''-'' # c) arg v
    = (n, a @ CHR ''-'' # b @ CHR ''-'' # c)"
  using assms name_partD [OF assms(2)] name_partD [OF assms(3)] name_partD [OF assms(4)]
    dash_not_space
  by (intro sscanf_dash_part) (simp_all add: ball_Un)

lemma populate_cdc:
  assumes "lpaif_of l = Some k" "dir_of d = Some j" "name_part x"
  shows "populate_cdc_dma_i2s_tdm_pcm_ep_info E hw (l @ CHR ''-'' # d @ CHR ''-'' # x)
    = populate_hw_ep_intf_idx (hw\<lparr>ep_word0 := konst E k, ep_dir := j\<rparr>) x"
proof -
  have parts: "name_part l" "name_part d" "name_part x"
    using assms table_name_part by blast+
  note scans = scan_three [OF parts] scan_two [OF parts(2,3)] sscanf_dash_last [OF parts(3)]
  show ?thesis
    using assms by (simp add: populate_cdc_dma_i2s_tdm_pcm_ep_info_def scans
        populate_hw_ep_direction_def)
qed

end
