(* ===== verification/Agm_Device.thy ===== *)
theory Agm_Device
  imports Agm_Metadata Agm_Hw_Ep
begin

text \<open>
  \<open>service/src/device.c\<close>: the PCM devices with their reference counts, the device list
  built from \<open>/proc/asound/pcm\<close>, and the sysfs node that reports a device as in use.

  A device pointer is an index of \<open>device_list\<close>, or \<open>None\<close> for NULL. The reply to
  \<open>Proc_asound_pcm\<close> stands for the file: \<open>rc = 0\<close> when it can be opened, and the lines
  that \<open>fgets\<close> delivers (the code reads the file twice; both passes see the same lines).
\<close>

section \<open>Opening, preparing, starting, stopping, closing\<close>

abbreviation (input) DEFAULT_PERIOD_SIZE :: nat where "DEFAULT_PERIOD_SIZE \<equiv> 960"
abbreviation (input) DEFAULT_PERIOD_COUNT :: nat where "DEFAULT_PERIOD_COUNT \<equiv> 2"
abbreviation (input) C_INT_MAX :: nat where "C_INT_MAX \<equiv> 2147483647"

text \<open>The \<open>int8_t\<close> parameter truncates the PCM id.\<close>

definition update_sysfs_fd :: "env \<Rightarrow> u32 \<Rightarrow> bool \<Rightarrow> unit agm" where
  "update_sysfs_fd E pid on s = do {
     let id8 = sint (ucast pid :: u8);
     if sysfs_fd s then do {
       (r, s) \<leftarrow> xcall E (Sysfs_write id8 on) s;
       Some ((), s)
     } else do {
       (r, s) \<leftarrow> xcall E Sysfs_open s;
       if rc r \<ge> 0 then do {
         (r, s) \<leftarrow> xcall E (Sysfs_write id8 on) (s\<lparr>sysfs_fd := True\<rparr>);
         Some ((), s)
       } else Some ((), s)
     }
   }"

definition agm_to_pcm_format :: "env \<Rightarrow> agm_media_format \<Rightarrow> u32" where
  "agm_to_pcm_format E f =
     (case f of
        AGM_FORMAT_PCM_S32_LE \<Rightarrow> konst E PCM_FORMAT_S32_LE
      | AGM_FORMAT_PCM_S8 \<Rightarrow> konst E PCM_FORMAT_S8
      | AGM_FORMAT_PCM_S24_3LE \<Rightarrow> konst E PCM_FORMAT_S24_3LE
      | AGM_FORMAT_PCM_S24_LE \<Rightarrow> konst E PCM_FORMAT_S24_LE
      | _ \<Rightarrow> konst E PCM_FORMAT_S16_LE)"

abbreviation set_refcnt :: "(refcount \<Rightarrow> refcount) \<Rightarrow> device_obj \<Rightarrow> device_obj" where
  "set_refcnt f dev \<equiv> dev\<lparr>refcnt := f (refcnt dev)\<rparr>"

definition device_pcm_config :: "env \<Rightarrow> device_obj \<Rightarrow> pcm_config" where
  "device_pcm_config E dev =
     \<lparr>pc_channels = channels (d_media_config dev), pc_rate = rate (d_media_config dev),
      pc_format = agm_to_pcm_format E (format (d_media_config dev)),
      period_size = DEFAULT_PERIOD_SIZE, period_count = DEFAULT_PERIOD_COUNT,
      pc_start_threshold = DEFAULT_PERIOD_SIZE div 4, pc_stop_threshold = C_INT_MAX\<rparr>"

definition device_open :: "env \<Rightarrow> nat option \<Rightarrow> int agm" where
  "device_open E dp s =
     (case dp of None \<Rightarrow> Some (- EINVAL, s)
      | Some d \<Rightarrow> do {
          dev \<leftarrow> dev_at s d;
          if r_open (refcnt dev) \<noteq> 0 then
            Some (0, put_dev d (set_refcnt (r_open_update (\<lambda>n. n + 1)) dev) s)
          else do {
            (_, s) \<leftarrow> update_sysfs_fd E (pcm_id dev) True s;
            (h, s) \<leftarrow> xcall E (Pcm_open (card_id dev) (pcm_id dev) (pcm_flags dev)
                                 (device_pcm_config E dev)) s;
            (ready, s) \<leftarrow> (if rptr h = None then Some (False, s)
                           else do { (r, s) \<leftarrow> xcall E (Pcm_is_ready (rptr h)) s;
                                     Some (rc r \<noteq> 0, s) });
            if \<not> ready then do {
              (_, s) \<leftarrow> update_sysfs_fd E (pcm_id dev) False s;
              Some (- EIO, s)
            } else
              Some (0, put_dev d (set_refcnt (r_open_update (\<lambda>n. n + 1))
                         (dev\<lparr>pcm := rptr h, d_state := DEV_OPENED\<rparr>)) s)
          }
        })"

definition device_prepare :: "env \<Rightarrow> nat option \<Rightarrow> int agm" where
  "device_prepare E dp s =
     (case dp of None \<Rightarrow> Some (- EINVAL, s)
      | Some d \<Rightarrow> do {
          dev \<leftarrow> dev_at s d;
          if r_prepare (refcnt dev) \<noteq> 0 then
            Some (0, put_dev d (set_refcnt (r_prepare_update (\<lambda>n. n + 1)) dev) s)
          else do {
            (r, s) \<leftarrow> xcall E (Pcm_prepare (pcm dev)) s;
            if rc r \<noteq> 0 then Some (rc r, s)
            else Some (0, put_dev d (set_refcnt (r_prepare_update (\<lambda>n. n + 1))
                            (dev\<lparr>d_state := DEV_PREPARED\<rparr>)) s)
          }
        })"

definition device_start :: "nat option \<Rightarrow> int agm" where
  "device_start dp s =
     (case dp of None \<Rightarrow> Some (- EINVAL, s)
      | Some d \<Rightarrow> do {
          dev \<leftarrow> dev_at s d;
          if d_state dev < DEV_PREPARED then Some (-1, s)
          else if r_start (refcnt dev) \<noteq> 0 then
            Some (0, put_dev d (set_refcnt (r_start_update (\<lambda>n. n + 1)) dev) s)
          else Some (0, put_dev d (set_refcnt (r_start_update (\<lambda>n. n + 1))
                          (dev\<lparr>d_state := DEV_STARTED\<rparr>)) s)
        })"

definition device_stop :: "env \<Rightarrow> nat option \<Rightarrow> int agm" where
  "device_stop E dp s =
     (case dp of None \<Rightarrow> Some (- EINVAL, s)
      | Some d \<Rightarrow> do {
          dev \<leftarrow> dev_at s d;
          if r_start (refcnt dev) = 0 then Some (0, s)
          else do {
            let dev = set_refcnt (r_start_update (\<lambda>n. n - 1)) dev;
            if r_start (refcnt dev) = 0 then do {
              (r, s) \<leftarrow> xcall E (Pcm_stop (pcm dev)) s;
              Some (rc r, put_dev d (dev\<lparr>d_state := DEV_STOPPED\<rparr>) s)
            } else Some (0, put_dev d dev s)
          }
        })"

definition device_close :: "env \<Rightarrow> nat option \<Rightarrow> int agm" where
  "device_close E dp s =
     (case dp of None \<Rightarrow> Some (- EINVAL, s)
      | Some d \<Rightarrow> do {
          dev \<leftarrow> dev_at s d;
          let dev = set_refcnt (r_open_update (\<lambda>n. n - 1)) dev;
          if r_open (refcnt dev) = 0 then do {
            (_, s) \<leftarrow> update_sysfs_fd E (pcm_id dev) False s;
            (r, s) \<leftarrow> xcall E (Pcm_close (pcm dev)) s;
            Some (rc r, put_dev d (set_refcnt (\<lambda>c. c\<lparr>r_prepare := 0, r_start := 0\<rparr>)
                          (dev\<lparr>d_state := DEV_CLOSED\<rparr>)) s)
          } else Some (0, put_dev d dev s)
        })"

definition device_current_state :: "nat \<Rightarrow> device_state agm" where
  "device_current_state d s = do { dev \<leftarrow> dev_at s d; Some (d_state dev, s) }"

section \<open>Lookup and settings\<close>

text \<open>
  \<open>aif_list\<close> is the client's array and \<open>n\<close> the number of entries it asks for; the result
  is the updated array and the number stored through the pointer. \<open>requested\<close> is a
  \<open>uint32_t\<close>. \<open>strlcpy\<close> keeps at most 27 characters of the name.
\<close>

abbreviation (input) AIF_NAME_MAX_LEN :: nat where "AIF_NAME_MAX_LEN \<equiv> 28"

fun copy_aif_infos :: "agm_state \<Rightarrow> nat \<Rightarrow> nat \<Rightarrow> aif_info list \<Rightarrow> aif_info list option" where
  "copy_aif_infos s copied 0 aif_list = Some aif_list"
| "copy_aif_infos s copied (Suc n) aif_list = do {
     dev \<leftarrow> dev_at s copied;
     if copied < length aif_list then
       copy_aif_infos s (Suc copied) n
         (aif_list[copied := \<lparr>aif_name = take (AIF_NAME_MAX_LEN - 1) (d_name dev),
                              aif_dir = ep_dir (ep_info dev)\<rparr>])
     else None
   }"

definition device_get_aif_info_list ::
    "aif_info list \<Rightarrow> u64 \<Rightarrow> agm_state \<Rightarrow> (int \<times> aif_info list \<times> nat) option" where
  "device_get_aif_info_list aif_list n s =
     (if n = 0 then Some (0, aif_list, num_audio_intfs s)
      else do {
        let requested = unat (ucast n :: u32);
        let copied = min (num_audio_intfs s) requested;
        l \<leftarrow> copy_aif_infos s 0 copied aif_list;
        Some (0, l, copied)
      })"

text \<open>
  The returned pointer is \<open>None\<close> when the entry is NULL; the guard lets the index
  \<open>num_audio_intfs\<close> through.
\<close>

definition device_get_obj :: "u32 \<Rightarrow> (int \<times> nat option) agm" where
  "device_get_obj device_idx s =
     (if unat device_idx > num_audio_intfs s then Some ((- EINVAL, None), s)
      else if unat device_idx < length (device_list s)
      then Some ((0, if device_list s ! unat device_idx = None then None
                     else Some (unat device_idx)), s)
      else None)"

definition device_set_media_config :: "nat option \<Rightarrow> agm_media_config option \<Rightarrow> int agm" where
  "device_set_media_config dp cfg s =
     (case (dp, cfg) of
        (Some d, Some c) \<Rightarrow> do {
          dev \<leftarrow> dev_at s d;
          Some (0, put_dev d (dev\<lparr>d_media_config :=
            \<lparr>rate = rate c, channels = channels c, format = format c,
             data_format = data_format c\<rparr>\<rparr>) s)
        }
      | _ \<Rightarrow> Some (- EINVAL, s))"

definition device_set_metadata :: "env \<Rightarrow> nat option \<Rightarrow> u8 list \<Rightarrow> int agm" where
  "device_set_metadata E dp metadata s = do {
     d \<leftarrow> dp;
     dev \<leftarrow> dev_at s d;
     ((ret, m), s) \<leftarrow> metadata_copy E (metadata_free (d_metadata dev)) metadata s;
     Some (ret, put_dev d (dev\<lparr>d_metadata := m\<rparr>) s)
   }"

definition device_set_params :: "env \<Rightarrow> nat option \<Rightarrow> u8 list \<Rightarrow> int agm" where
  "device_set_params E dp payload s = do {
     d \<leftarrow> dp;
     dev \<leftarrow> dev_at s d;
     (ok, s) \<leftarrow> calloc E 1 (length payload) s;
     if \<not> ok then Some (- EINVAL, put_dev d (dev\<lparr>d_params := None\<rparr>) s)
     else Some (0, put_dev d (dev\<lparr>d_params := Some payload\<rparr>) s)
   }"

section \<open>The device list\<close>

text \<open>
  \<open>sscanf(buffer, "%02u-%02u: %80s", \<dots>)\<close>: at most two digits for each number. What is not
  converted stays zero. A name of 80 characters needs 81 bytes and does not fit the array
  of \<open>MAX_DEV_NAME_LEN\<close>.
\<close>

abbreviation (input) MAX_DEV_NAME_LEN :: nat where "MAX_DEV_NAME_LEN \<equiv> 80"

definition scan_uint2 :: "string \<Rightarrow> (u32 \<times> string) option" where
  "scan_uint2 str =
     (let str = dropWhile c_isspace str; ds = take 2 (takeWhile c_isdigit str)
      in if ds = [] then None
         else Some (word_of_int (atoi_digits ds 0), drop (length ds) str))"

definition scan_lit :: "char \<Rightarrow> string \<Rightarrow> string option" where
  "scan_lit c str = (case str of [] \<Rightarrow> None | x # xs \<Rightarrow> if x = c then Some xs else None)"

definition scan_pcm_line :: "string \<Rightarrow> u32 \<times> u32 \<times> string" where
  "scan_pcm_line buffer =
     (case scan_uint2 buffer of None \<Rightarrow> (0, 0, [])
      | Some (cno, rest) \<Rightarrow>
        (case scan_lit CHR ''-'' rest \<bind> scan_uint2 of None \<Rightarrow> (cno, 0, [])
         | Some (dev, rest) \<Rightarrow>
           (case scan_lit CHR '':'' rest of None \<Rightarrow> (cno, dev, [])
            | Some rest \<Rightarrow>
                (cno, dev, take 80 (takeWhile (\<lambda>c. \<not> c_isspace c) (dropWhile c_isspace rest))))))"

fun c_strstr :: "string \<Rightarrow> string \<Rightarrow> bool" where
  "c_strstr [] pat = (pat = [])"
| "c_strstr (c # cs) pat = (take (length pat) (c # cs) = pat \<or> c_strstr cs pat)"

definition zero_media_config :: agm_media_config where
  "zero_media_config = \<lparr>rate = 0, channels = 0, format = AGM_FORMAT_INVALID, data_format = 0\<rparr>"

definition new_device :: "u32 \<Rightarrow> u32 \<Rightarrow> string \<Rightarrow> u32 \<Rightarrow> hw_ep_info \<Rightarrow> device_obj" where
  "new_device cno dev name flags hw =
     \<lparr>d_name = name, card_id = cno, ep_info = hw, pcm_id = dev, pcm = None, pcm_flags = flags,
      d_media_config = zero_media_config, d_metadata = empty_meta,
      refcnt = \<lparr>r_open = 0, r_prepare = 0, r_start = 0\<rparr>, d_state = DEV_CLOSED, d_params = None\<rparr>"

abbreviation (input) SIZEOF_DEVICE :: nat where "SIZEOF_DEVICE \<equiv> 320"

text \<open>The second pass over the file; \<open>devs\<close> are the devices stored so far.\<close>

fun parse_pcm_lines :: "env \<Rightarrow> string list \<Rightarrow> device_obj list \<Rightarrow> (int \<times> device_obj list) agm" where
  "parse_pcm_lines E [] devs s = Some ((0, devs), s)"
| "parse_pcm_lines E (buffer # lines) devs s = do {
     (ok, s) \<leftarrow> calloc E 1 SIZEOF_DEVICE s;
     if \<not> ok then Some ((- ENOMEM, devs), s)
     else do {
       let (cno, dev, name) = scan_pcm_line buffer;
       if length name \<ge> MAX_DEV_NAME_LEN then None
       else do {
         let flags = (if c_strstr buffer ''playback'' then konst E PCM_OUT else konst E PCM_IN);
         let (ret, hw) = populate_device_hw_ep_info E name
               \<lparr>intf = 0, ep_dir = 0, ep_word0 = 0, ep_word1 = 0\<rparr>;
         if ret \<noteq> 0 then parse_pcm_lines E lines devs s
         else parse_pcm_lines E lines (devs @ [new_device cno dev name flags hw]) s
       }
     }
   }"

text \<open>
  The first pass counts the lines into \<open>num_audio_intfs\<close>, which is not reset before. A
  list that was freed is empty here: every access to it is undefined.
\<close>

definition parse_snd_card :: "env \<Rightarrow> int agm" where
  "parse_snd_card E s = do {
     (f, s) \<leftarrow> xcall E Proc_asound_pcm s;
     if rc f \<noteq> 0 then Some (- ENODEV, s)
     else do {
       let lines = rlines f;
       let n = num_audio_intfs s + length lines;
       let s = s\<lparr>num_audio_intfs := n\<rparr>;
       (ok, s) \<leftarrow> calloc E n 8 s;
       if \<not> ok then Some (- ENOMEM, s\<lparr>device_list := []\<rparr>)
       else do {
         ((ret, devs), s) \<leftarrow> parse_pcm_lines E lines [] s;
         if ret \<noteq> 0 then Some (ret, s\<lparr>device_list := []\<rparr>)
         else if devs = [] then Some (- EAGAIN, s\<lparr>device_list := []\<rparr>)
         else Some (0, s\<lparr>device_list := map Some devs @ replicate (n - length devs) None,
                         num_audio_intfs := length devs\<rparr>)
       }
     }
   }"

text \<open>The loop of \<open>device_init\<close>; the argument is the number of retries left.\<close>

fun device_init_loop :: "env \<Rightarrow> nat \<Rightarrow> int agm" where
  "device_init_loop E retries s = do {
     (ret, s) \<leftarrow> parse_snd_card E s;
     if ret = - EAGAIN then do {
       (_, s) \<leftarrow> xcall E (Sleep 5) s;
       if retries - 1 > 0 then device_init_loop E (retries - 1) s else Some (ret, s)
     } else Some (ret, s)
   }"

declare device_init_loop.simps [simp del]

abbreviation (input) MAX_RETRY :: nat where "MAX_RETRY \<equiv> 20"

definition device_init :: "env \<Rightarrow> int agm" where
  "device_init E s = device_init_loop E MAX_RETRY s"

fun deinit_devices :: "agm_state \<Rightarrow> nat \<Rightarrow> unit option" where
  "deinit_devices s 0 = Some ()"
| "deinit_devices s (Suc n) = do { _ \<leftarrow> dev_at s n; deinit_devices s n }"

definition device_deinit :: "env \<Rightarrow> unit agm" where
  "device_deinit E s = do {
     _ \<leftarrow> deinit_devices s (num_audio_intfs s);
     (_, s) \<leftarrow> (if sysfs_fd s then xcall E Sysfs_close s \<bind> (\<lambda>(r, s). Some ((), s)) else Some ((), s));
     Some ((), s\<lparr>sysfs_fd := False, device_list := []\<rparr>)
   }"


section \<open>What a device operation changes\<close>

text \<open>
  A device operation changes, of the device it works on, the reference counts, the state
  and the PCM handle, and otherwise the sysfs handle and the trace.
\<close>

definition dev_same :: "device_obj \<Rightarrow> device_obj \<Rightarrow> bool" where
  "dev_same x y \<longleftrightarrow> y = x\<lparr>refcnt := refcnt y, d_state := d_state y, pcm := pcm y\<rparr>"

definition dev_frame :: "nat \<Rightarrow> agm_state \<Rightarrow> agm_state \<Rightarrow> bool" where
  "dev_frame d s s' \<longleftrightarrow>
     (\<exists>dev dev'. dev_at s d = Some dev \<and> dev_same dev dev'
        \<and> device_list s' = (device_list s)[d := Some dev'])
     \<and> suffix (trace s) (trace s') \<and> num_audio_intfs s' = num_audio_intfs s
     \<and> sess_pool s' = sess_pool s \<and> graphs s' = graphs s \<and> next_graph s' = next_graph s
     \<and> stream_module_list s' = stream_module_list s \<and> hw_ep_module s' = hw_ep_module s
     \<and> agm_initialized s' = agm_initialized s"

lemma dev_same_refl [simp]: "dev_same x x"
  by (simp add: dev_same_def)

lemma dev_sameD:
  assumes "dev_same x y"
  shows "d_metadata y = d_metadata x" "d_params y = d_params x" "d_media_config y = d_media_config x"
    "ep_info y = ep_info x" "pcm_id y = pcm_id x" "d_name y = d_name x" "pcm_flags y = pcm_flags x"
    "card_id y = card_id x"
proof -
  from assms obtain a b c where "y = x\<lparr>refcnt := a, d_state := b, pcm := c\<rparr>"
    by (auto simp: dev_same_def)
  then show "d_metadata y = d_metadata x" "d_params y = d_params x"
    "d_media_config y = d_media_config x" "ep_info y = ep_info x" "pcm_id y = pcm_id x"
    "d_name y = d_name x" "pcm_flags y = pcm_flags x" "card_id y = card_id x"
    by simp_all
qed

lemma at_sysfs_update [simp]:
  "dev_at (sysfs_fd_update f s) = dev_at s" "sess_at (sysfs_fd_update f s) = sess_at s"
  "graph_at (sysfs_fd_update f s) = graph_at s"
  by (auto simp: dev_at_def sess_at_def graph_at_def fun_eq_iff)

lemma dev_at_cong: "device_list s' = device_list s \<Longrightarrow> dev_at s' = dev_at s"
  by (simp add: dev_at_def fun_eq_iff)

lemma sess_at_cong: "sess_pool s' = sess_pool s \<Longrightarrow> sess_at s' = sess_at s"
  by (simp add: sess_at_def fun_eq_iff)

lemma graph_at_cong: "graphs s' = graphs s \<Longrightarrow> graph_at s' = graph_at s"
  by (simp add: graph_at_def fun_eq_iff)

lemma dev_frameD:
  assumes "dev_frame d s s'"
  shows "sess_at s' = sess_at s" "graph_at s' = graph_at s" "graphs s' = graphs s"
    "num_audio_intfs s' = num_audio_intfs s" "length (device_list s') = length (device_list s)"
    "sess_pool s' = sess_pool s" "next_graph s' = next_graph s" "hw_ep_module s' = hw_ep_module s"
    "stream_module_list s' = stream_module_list s" "agm_initialized s' = agm_initialized s"
    "x \<noteq> d \<Longrightarrow> dev_at s' x = dev_at s x"
    "\<exists>dev dev'. dev_at s d = Some dev \<and> dev_at s' d = Some dev' \<and> dev_same dev dev'"
    "suffix (trace s) (trace s')"
  using assms by (auto simp: dev_frame_def dev_at_def intro: sess_at_cong graph_at_cong
      split: if_splits)

lemma dev_frame_valid: "dev_frame d s s' \<Longrightarrow> (dev_at s' x = None) = (dev_at s x = None)"
  using dev_frameD(11,12) [of d s s'] by (cases "x = d") auto

text \<open>The contract of the five operations, and what it gives their callers.\<close>

locale device_op =
  fixes op :: "nat option \<Rightarrow> int agm"
  assumes null: "op None s = Some (- EINVAL, s)"
    and frame: "dev_at s d \<noteq> None \<Longrightarrow> runs (op (Some d) s) (\<lambda>r s'. dev_frame d s s')"
begin

definition ptr_ok :: "agm_state \<Rightarrow> nat option \<Rightarrow> bool" where
  "ptr_ok s dp \<longleftrightarrow> (\<forall>d. dp = Some d \<longrightarrow> dev_at s d \<noteq> None)"

lemma safe:
  assumes "ptr_ok s dp"
  shows "runs (op dp s) (\<lambda>r s'. (\<forall>d. dp = Some d \<longrightarrow> dev_frame d s s') \<and> (dp = None \<longrightarrow> s' = s))"
  using assms by (cases dp) (auto simp: null ptr_ok_def intro: runs_mono [OF frame])

lemma keeps_others:
  assumes "ptr_ok s dp"
  shows "runs (op dp s) (\<lambda>r s'. sess_at s' = sess_at s \<and> graph_at s' = graph_at s
    \<and> (\<forall>x. (dev_at s' x = None) = (dev_at s x = None)))"
  by (rule runs_mono [OF safe [OF assms]]) (cases dp; auto dest: dev_frameD(1,2) dev_frame_valid)

lemma keeps_metadata:
  assumes "ptr_ok s dp" and "dev_at s x = Some dev"
  shows "posts (op dp s) (\<lambda>r s'. \<exists>dev'. dev_at s' x = Some dev' \<and> dev_same dev dev')"
proof (rule posts_mono [OF runs_imp_posts [OF safe [OF assms(1)]]])
  fix r s' assume a: "(\<forall>d. dp = Some d \<longrightarrow> dev_frame d s s') \<and> (dp = None \<longrightarrow> s' = s)"
  show "\<exists>dev'. dev_at s' x = Some dev' \<and> dev_same dev dev'"
  proof (cases "dp = Some x")
    case True
    with a assms(2) show ?thesis using dev_frameD(12) [of x s s'] by auto
  next
    case False
    with a assms(2) show ?thesis by (cases dp) (auto simp: dev_frameD(11))
  qed
qed

end

text \<open>The sysfs access is invisible but for the trace.\<close>

definition sysfs_only :: "agm_state \<Rightarrow> agm_state \<Rightarrow> bool" where
  "sysfs_only s s' \<longleftrightarrow> device_list s' = device_list s \<and> num_audio_intfs s' = num_audio_intfs s
     \<and> sess_pool s' = sess_pool s \<and> graphs s' = graphs s \<and> next_graph s' = next_graph s
     \<and> stream_module_list s' = stream_module_list s \<and> hw_ep_module s' = hw_ep_module s
     \<and> agm_initialized s' = agm_initialized s
     \<and> (\<exists>t. trace s' = t @ trace s \<and> (\<forall>c\<in>set t. \<exists>i b. c = Sysfs_open \<or> c = Sysfs_write i b))"

lemma update_sysfs_fd_E:
  obtains s' where "update_sysfs_fd E p on s = Some ((), s')" and "sysfs_only s s'"
proof (cases "sysfs_fd s")
  case True
  show thesis
    by (rule that) (use True in \<open>auto simp: update_sysfs_fd_def xcall_def sysfs_only_def\<close>)
next
  case False
  show thesis
  proof (cases "rc (ext E (trace s) Sysfs_open) \<ge> 0")
    case True
    show thesis
      by (rule that) (use False True in \<open>auto simp: update_sysfs_fd_def xcall_def sysfs_only_def\<close>)
  next
    case no: False
    show thesis
      by (rule that) (use False no in \<open>auto simp: update_sysfs_fd_def xcall_def sysfs_only_def\<close>)
  qed
qed

lemma sysfs_onlyD:
  assumes "sysfs_only s s'"
  shows "dev_at s' = dev_at s" "suffix (trace s) (trace s')"
  using assms by (auto simp: sysfs_only_def suffix_def intro: dev_at_cong)

lemma dev_frameI:
  assumes "dev_at s d = Some dev" "dev_same dev dev'" "suffix (trace s) t"
    and "device_list s' = device_list s" "num_audio_intfs s' = num_audio_intfs s"
    "sess_pool s' = sess_pool s" "graphs s' = graphs s" "next_graph s' = next_graph s"
    "stream_module_list s' = stream_module_list s" "hw_ep_module s' = hw_ep_module s"
    "agm_initialized s' = agm_initialized s"
  shows "dev_frame d s (put_dev d dev' (s'\<lparr>trace := t\<rparr>))"
  using assms by (auto simp: dev_frame_def put_dev_def)

text \<open>The exact outcome of opening a closed device, with the trace it leaves.\<close>

lemma device_open_first:
  assumes "dev_at s d = Some dev" "r_open (refcnt dev) = 0"
  obtains s1 h s2 where "sysfs_only s s1"
    and "h = rptr (ext E (trace s1) (Pcm_open (card_id dev) (pcm_id dev) (pcm_flags dev)
           (device_pcm_config E dev)))"
    and "s2 = (if h = None
        then s1\<lparr>trace := Pcm_open (card_id dev) (pcm_id dev) (pcm_flags dev) (device_pcm_config E dev)
          # trace s1\<rparr>
        else s1\<lparr>trace := Pcm_is_ready h # Pcm_open (card_id dev) (pcm_id dev) (pcm_flags dev)
          (device_pcm_config E dev) # trace s1\<rparr>)"
    and "h \<noteq> None \<and> rc (ext E (tl (trace s2)) (Pcm_is_ready h)) \<noteq> 0 \<Longrightarrow>
      device_open E (Some d) s = Some (0, put_dev d (set_refcnt (r_open_update (\<lambda>n. n + 1))
         (dev\<lparr>pcm := h, d_state := DEV_OPENED\<rparr>)) s2)"
    and "\<not> (h \<noteq> None \<and> rc (ext E (tl (trace s2)) (Pcm_is_ready h)) \<noteq> 0) \<Longrightarrow>
      \<exists>s3. device_open E (Some d) s = Some (- EIO, s3) \<and> sysfs_only s2 s3"
proof -
  obtain s1 where s1: "update_sysfs_fd E (pcm_id dev) True s = Some ((), s1)" "sysfs_only s s1"
    by (rule update_sysfs_fd_E)
  let ?c = "Pcm_open (card_id dev) (pcm_id dev) (pcm_flags dev) (device_pcm_config E dev)"
  define h where "h = rptr (ext E (trace s1) ?c)"
  define s2 where "s2 = (if h = None then s1\<lparr>trace := ?c # trace s1\<rparr>
      else s1\<lparr>trace := Pcm_is_ready h # ?c # trace s1\<rparr>)"
  obtain s3 where s3: "update_sysfs_fd E (pcm_id dev) False s2 = Some ((), s3)" "sysfs_only s2 s3"
    by (rule update_sysfs_fd_E)
  show thesis
    by (rule that [OF s1(2) h_def s2_def])
      (use assms s1 s3 in \<open>auto simp: device_open_def xcall_def h_def [symmetric] s2_def
        split: if_splits\<close>)
qed

end
