(* ===== verification/Agm_Graph_Module.thy ===== *)
theory Agm_Graph_Module
  imports Agm_Device
begin

unbundle bit_operations_syntax

text \<open>
  \<open>service/src/graph_module.c\<close>: the functions that configure the modules of a graph, and
  the two static module tables.

  A payload is built in a buffer from \<open>calloc\<close>. Its size is a \<open>size_t\<close> and is computed
  at 64 bits, with the channel count converted from \<open>int\<close>; a fixed part that does not fit
  the buffer is undefined behaviour. The payload handed to GSL is a value of the datatype
  \<open>payload\<close> with the fields the code sets; a field holds the value assigned to it, the
  conversion to the width of the SPF struct is not applied. Reads that serve only a log
  message are not modelled.
\<close>

section \<open>Formats and channel maps\<close>

abbreviation (input) TAG_STREAM_SPR :: u32 where "TAG_STREAM_SPR \<equiv> 0xC0000013"
abbreviation (input) AGM_DATA_FORMAT_FIXED_POINT :: u32 where "AGM_DATA_FORMAT_FIXED_POINT \<equiv> 1"
abbreviation (input) AGM_DATA_FORMAT_RAW_COMPRESSED :: u32
  where "AGM_DATA_FORMAT_RAW_COMPRESSED \<equiv> 6"

definition ALIGN_PAYLOAD :: "u64 \<Rightarrow> u64 \<Rightarrow> u64" where
  "ALIGN_PAYLOAD x a = (x + (a - 1)) AND NOT (a - 1)"

definition GET_BITS_PER_SAMPLE :: "agm_media_format \<Rightarrow> int \<Rightarrow> int" where
  "GET_BITS_PER_SAMPLE f bit_width = (if f = AGM_FORMAT_PCM_S24_LE then 32 else bit_width)"

definition GET_Q_FACTOR :: "agm_media_format \<Rightarrow> int \<Rightarrow> int" where
  "GET_Q_FACTOR f bit_width = (if f = AGM_FORMAT_PCM_S24_LE then 27 else bit_width - 1)"

definition default_channels :: "int \<Rightarrow> konst list" where
  "default_channels n =
     (if n = 1 then [PCM_CHANNEL_C]
      else if n = 2 then [PCM_CHANNEL_L, PCM_CHANNEL_R]
      else if n = 3 then [PCM_CHANNEL_L, PCM_CHANNEL_R, PCM_CHANNEL_C]
      else if n = 4 then [PCM_CHANNEL_L, PCM_CHANNEL_R, PCM_CHANNEL_LB, PCM_CHANNEL_RB]
      else if n = 5 then [PCM_CHANNEL_L, PCM_CHANNEL_R, PCM_CHANNEL_C, PCM_CHANNEL_LB,
        PCM_CHANNEL_RB]
      else if n = 6 then [PCM_CHANNEL_L, PCM_CHANNEL_R, PCM_CHANNEL_C, PCM_CHANNEL_LFE,
        PCM_CHANNEL_LB, PCM_CHANNEL_RB]
      else if n = 7 then [PCM_CHANNEL_L, PCM_CHANNEL_R, PCM_CHANNEL_C, PCM_CHANNEL_LFE,
        PCM_CHANNEL_LB, PCM_CHANNEL_RB, PCM_CHANNEL_CS]
      else if n = 8 then [PCM_CHANNEL_L, PCM_CHANNEL_R, PCM_CHANNEL_C, PCM_CHANNEL_LFE,
        PCM_CHANNEL_LB, PCM_CHANNEL_RB, PCM_CHANNEL_LS, PCM_CHANNEL_RS]
      else [])"

text \<open>
  The writes go through a pointer to the bytes behind the fixed part of the payload; a
  write behind the end of the buffer is undefined.
\<close>

definition get_default_channel_map :: "env \<Rightarrow> u8 list \<Rightarrow> int \<Rightarrow> u8 list option" where
  "get_default_channel_map E channel_map n =
     (let cs = map (\<lambda>k. ucast (konst E k)) (default_channels n) in
      if length cs \<le> length channel_map
      then Some (cs @ drop (length cs) channel_map) else None)"

definition is_format_pcm :: "agm_media_format \<Rightarrow> bool" where
  "is_format_pcm f \<longleftrightarrow> AGM_FORMAT_PCM_S8 \<le> f \<and> f \<le> AGM_FORMAT_PCM_S32_LE"

definition is_format_bypassed :: "agm_media_format \<Rightarrow> bool" where
  "is_format_bypassed f \<longleftrightarrow> f = AGM_FORMAT_VORBIS"

definition get_pcm_bit_width :: "agm_media_format \<Rightarrow> int" where
  "get_pcm_bit_width f =
     (case f of
        AGM_FORMAT_PCM_S24_3LE \<Rightarrow> 24
      | AGM_FORMAT_PCM_S24_LE \<Rightarrow> 24
      | AGM_FORMAT_PCM_S32_LE \<Rightarrow> 32
      | _ \<Rightarrow> 16)"

text \<open>Fields of the codec union at their byte offsets (little endian).\<close>

definition codec_u8 :: "u8 list \<Rightarrow> nat \<Rightarrow> int" where
  "codec_u8 bs off = uint (nth_default 0 bs off)"

definition codec_u16 :: "u8 list \<Rightarrow> nat \<Rightarrow> int" where
  "codec_u16 bs off = uint (nth_default 0 bs off) + 256 * uint (nth_default 0 bs (off + 1))"

definition get_media_bit_width :: "session_obj \<Rightarrow> int" where
  "get_media_bit_width so =
     (let f = format (s_media_config so); c = codec (stream_config so) in
      if is_format_pcm f then get_pcm_bit_width f
      else case f of
             AGM_FORMAT_FLAC \<Rightarrow> codec_u16 c 2
           | AGM_FORMAT_ALAC \<Rightarrow> codec_u8 c 5
           | AGM_FORMAT_APE \<Rightarrow> codec_u16 c 20
           | AGM_FORMAT_WMASTD \<Rightarrow> codec_u16 c 14
           | AGM_FORMAT_WMAPRO \<Rightarrow> codec_u16 c 14
           | _ \<Rightarrow> 16)"

section \<open>Hardware endpoints\<close>

text \<open>The end of every configuration: the call to GSL and the conversion of its error.\<close>

definition set_custom :: "env \<Rightarrow> nat \<Rightarrow> payload \<Rightarrow> nat \<Rightarrow> int agm" where
  "set_custom E g p z s = do {
     gr \<leftarrow> graph_at s g;
     (r, s) \<leftarrow> xcall E (Gsl_set_custom_config (graph_handle gr) p z) s;
     if rc r \<noteq> 0 then Some (lnx E (rc r), s) else Some (0, s)
   }"

definition mk_header :: "module_info \<Rightarrow> u32 \<Rightarrow> u64 \<Rightarrow> param_header" where
  "mk_header md pid z =
     \<lparr>h_miid = m_miid md, h_param_id = pid, h_error_code = 0, h_param_size = ucast z\<rparr>"

definition fixed_size :: "env \<Rightarrow> cstruct list \<Rightarrow> u64" where
  "fixed_size E cs = of_nat (sum_list (map (sizeof E) cs))"

text \<open>
  The tagged data of an endpoint: the payload is allocated and filled by GSL for the
  channel count of the device, then the interface is patched in. The four functions for
  CODEC\_DMA, MI2S, TDM and AUXPCM have the same body up to the struct.
\<close>

definition get_ep_data ::
    "env \<Rightarrow> cstruct \<Rightarrow> module_info \<Rightarrow> device_obj \<Rightarrow> ((int + u8 list) \<times> nat) agm" where
  "get_ep_data E st md dev s = do {
     let sz = unat (ALIGN_PAYLOAD (fixed_size E [Apm_module_param_data_t, st]) 8);
     (ok, s) \<leftarrow> calloc E 1 sz s;
     if \<not> ok then Some ((Inl (- ENOMEM), sz), s)
     else do {
       (ok, s) \<leftarrow> calloc E 1 SIZEOF_KV s;
       if \<not> ok then Some ((Inl (- ENOMEM), sz), s)
       else do {
         (r, s) \<leftarrow> xcall E (Gsl_get_tagged_data (m_gkv md) (m_tag md)
                  [\<lparr>key = konst E CHANNELS, val = channels (d_media_config dev)\<rparr>] sz) s;
         if rc r \<noteq> 0 then Some ((Inl (lnx E (rc r)), sz), s)
         else Some ((Inr (rbytes r), sz), s)
       }
     }
   }"

definition configure_ep_intf :: "env \<Rightarrow> cstruct \<Rightarrow> module_info \<Rightarrow> nat \<Rightarrow> int agm" where
  "configure_ep_intf E st md g s = do {
     d \<leftarrow> m_dev_obj md;
     dev \<leftarrow> dev_at s d;
     ((res, sz), s) \<leftarrow> get_ep_data E st md dev s;
     case res of Inl e \<Rightarrow> Some (e, s)
     | Inr bytes \<Rightarrow> set_custom E g (Ep_intf_cfg bytes (ep_word0 (ep_info dev)) (ep_word1 (ep_info dev))) sz s
   }"

definition configure_codec_dma_ep :: "env \<Rightarrow> module_info \<Rightarrow> nat \<Rightarrow> int agm" where
  "configure_codec_dma_ep E = configure_ep_intf E Param_id_codec_dma_intf_cfg_t"

definition configure_i2s_ep :: "env \<Rightarrow> module_info \<Rightarrow> nat \<Rightarrow> int agm" where
  "configure_i2s_ep E = configure_ep_intf E Param_id_i2s_intf_cfg_t"

definition configure_tdm_ep :: "env \<Rightarrow> module_info \<Rightarrow> nat \<Rightarrow> int agm" where
  "configure_tdm_ep E = configure_ep_intf E Param_id_tdm_intf_cfg_t"

definition configure_aux_pcm_ep :: "env \<Rightarrow> module_info \<Rightarrow> nat \<Rightarrow> int agm" where
  "configure_aux_pcm_ep E = configure_ep_intf E Param_id_hw_pcm_intf_cfg_t"

text \<open>With too many channels the function leaves through \<open>done\<close> with \<open>ret\<close> still zero.\<close>

definition configure_slimbus_ep :: "env \<Rightarrow> module_info \<Rightarrow> nat \<Rightarrow> int agm" where
  "configure_slimbus_ep E md g s = do {
     d \<leftarrow> m_dev_obj md;
     dev \<leftarrow> dev_at s d;
     if channels (d_media_config dev) > konst E SB_MAX_CHAN_CNT then Some (0, s)
     else do {
       ((res, sz), s) \<leftarrow> get_ep_data E Param_id_slimbus_cfg_t md dev s;
       case res of Inl e \<Rightarrow> Some (e, s)
       | Inr bytes \<Rightarrow> set_custom E g (Slimbus_cfg bytes (ep_word0 (ep_info dev))) sz s
     }
   }"

definition configure_hw_ep_media_config :: "env \<Rightarrow> module_info \<Rightarrow> nat \<Rightarrow> int agm" where
  "configure_hw_ep_media_config E md g s = do {
     d \<leftarrow> m_dev_obj md;
     dev \<leftarrow> dev_at s d;
     let mc = d_media_config dev;
     let z = ALIGN_PAYLOAD (fixed_size E [Apm_module_param_data_t, Param_id_hw_ep_mf_t]) 8;
     (ok, s) \<leftarrow> calloc E 1 (unat z) s;
     if \<not> ok then Some (- ENOMEM, s)
     else set_custom E g (Hw_ep_mf (mk_header md (konst E PARAM_ID_HW_EP_MF_CFG) z)
            (rate mc) (get_pcm_bit_width (format mc)) (channels mc) (data_format mc)) (unat z) s
   }"

definition configure_hw_ep :: "env \<Rightarrow> module_info \<Rightarrow> nat \<Rightarrow> int agm" where
  "configure_hw_ep E md g s = do {
     d \<leftarrow> m_dev_obj md;
     dev \<leftarrow> dev_at s d;
     let i = intf (ep_info dev);
     (ret, s) \<leftarrow> (if i = PCM_RT_PROXY then Some (0, s) else configure_hw_ep_media_config E md g s);
     if ret \<noteq> 0 then Some (ret, s)
     else if i = CODEC_DMA then configure_codec_dma_ep E md g s
     else if i = MI2S then configure_i2s_ep E md g s
     else if i = AUXPCM then configure_aux_pcm_ep E md g s
     else if i = TDM then configure_tdm_ep E md g s
     else if i = SLIMBUS then configure_slimbus_ep E md g s
     else Some (0, s)
   }"

section \<open>Stream modules\<close>

text \<open>
  The size of a payload with a channel map. The channel count is an \<open>int\<close> that is
  converted to \<open>size_t\<close>.
\<close>

definition map_payload_size :: "env \<Rightarrow> cstruct list \<Rightarrow> u32 \<Rightarrow> u64" where
  "map_payload_size E cs n = ALIGN_PAYLOAD (fixed_size E cs + scast n) 8"

text \<open>
  Bits per sample and Q factor of the PCM converter; \<open>None\<close> for an unsupported bit width.
\<close>

definition output_sample_format :: "session_obj \<Rightarrow> int \<Rightarrow> (int \<times> int) option" where
  "output_sample_format so bw =
     (let f = format (s_media_config so) in
      if dir (stream_config so) = TX \<and> is_format_pcm f
      then Some (GET_BITS_PER_SAMPLE f bw, GET_Q_FACTOR f bw)
      else if bw = 16 \<or> bw = 32 then Some (bw, bw - 1)
      else if bw = 24 then Some (32, 27)
      else None)"

definition configure_output_media_format :: "env \<Rightarrow> module_info \<Rightarrow> nat \<Rightarrow> int agm" where
  "configure_output_media_format E md g s = do {
     gr \<leftarrow> graph_at s g;
     so \<leftarrow> sess_at s (g_sess_obj gr);
     let cs = [Apm_module_param_data_t, Media_format_t, Payload_pcm_output_format_cfg_t];
     let n = channels (s_media_config so);
     let z = map_payload_size E cs n;
     (ok, s) \<leftarrow> calloc E 1 (unat z) s;
     if \<not> ok then Some (- ENOMEM, s)
     else if z < fixed_size E cs then None
     else do {
       let bw = get_media_bit_width so;
       case output_sample_format so bw of None \<Rightarrow> Some (- EINVAL, s)
       | Some (bps, q) \<Rightarrow> do {
           cm \<leftarrow> get_default_channel_map E (replicate (unat (z - fixed_size E cs)) 0) (sint n);
           set_custom E g (Pcm_output_fmt (mk_header md (konst E PARAM_ID_PCM_OUTPUT_FORMAT_CFG) z)
             \<lparr>pf_data_format = AGM_DATA_FORMAT_FIXED_POINT, pf_fmt_id = konst E MEDIA_FMT_ID_PCM,
              pf_payload_size = ucast (fixed_size E [Payload_pcm_output_format_cfg_t] + scast n),
              pf_endianness = konst E PCM_LITTLE_ENDIAN, pf_bit_width = bw,
              pf_alignment = konst E PCM_LSB_ALIGNED, pf_num_channels = sint n,
              pf_bits_per_sample = bps, pf_q_factor = q,
              pf_interleaved = (if dir (stream_config so) = RX
                then konst E PCM_DEINTERLEAVED_UNPACKED else konst E PCM_INTERLEAVED),
              pf_sample_rate = 0, pf_channel_map = cm\<rparr>) (unat z) s
         }
     }
   }"

text \<open>Return code, size of the format struct and the real format id.\<close>

definition get_media_fmt_id_and_size ::
    "env \<Rightarrow> agm_media_format \<Rightarrow> int \<times> u64 \<times> u32" where
  "get_media_fmt_id_and_size E f =
     (let base = [Apm_module_param_data_t, Media_format_t] in
      if is_format_pcm f
      then (0, fixed_size E (base @ [Payload_media_fmt_pcm_t]), konst E MEDIA_FMT_PCM)
      else case f of
        AGM_FORMAT_MP3 \<Rightarrow> (0, fixed_size E base, konst E MEDIA_FMT_MP3)
      | AGM_FORMAT_AAC \<Rightarrow> (0, fixed_size E (base @ [Payload_media_fmt_aac_t]), konst E MEDIA_FMT_AAC)
      | AGM_FORMAT_FLAC \<Rightarrow>
          (0, fixed_size E (base @ [Payload_media_fmt_flac_t]), konst E MEDIA_FMT_FLAC)
      | AGM_FORMAT_ALAC \<Rightarrow>
          (0, fixed_size E (base @ [Payload_media_fmt_alac_t]), konst E MEDIA_FMT_ALAC)
      | AGM_FORMAT_APE \<Rightarrow> (0, fixed_size E (base @ [Payload_media_fmt_ape_t]), konst E MEDIA_FMT_APE)
      | AGM_FORMAT_WMASTD \<Rightarrow>
          (0, fixed_size E (base @ [Payload_media_fmt_wmastd_t]), konst E MEDIA_FMT_WMASTD)
      | AGM_FORMAT_WMAPRO \<Rightarrow>
          (0, fixed_size E (base @ [Payload_media_fmt_wmapro_t]), konst E MEDIA_FMT_WMAPRO)
      | AGM_FORMAT_VORBIS \<Rightarrow> (0, fixed_size E base, konst E MEDIA_FMT_VORBIS)
      | _ \<Rightarrow> (- EINVAL, fixed_size E base, 0))"

text \<open>
  \<open>set_compressed_media_format\<close>: format id, size and bytes of the payload. \<open>Inl\<close> is the
  default branch; \<open>None\<close> a \<open>memcpy\<close> from behind the codec union.
\<close>

definition set_compressed_media_format ::
    "env \<Rightarrow> agm_media_format \<Rightarrow> session_obj \<Rightarrow> (int + (u32 \<times> u32 \<times> u8 list)) option" where
  "set_compressed_media_format E f so =
     (let blob = (\<lambda>k st. if sizeof E st \<le> length (codec (stream_config so))
            then Some (Inr (konst E k, of_nat (sizeof E st), take (sizeof E st) (codec (stream_config so))))
            else None)
      in case f of
           AGM_FORMAT_MP3 \<Rightarrow> Some (Inr (konst E MEDIA_FMT_ID_MP3, 0, []))
         | AGM_FORMAT_AAC \<Rightarrow> blob MEDIA_FMT_ID_AAC Payload_media_fmt_aac_t
         | AGM_FORMAT_FLAC \<Rightarrow> blob MEDIA_FMT_ID_FLAC Payload_media_fmt_flac_t
         | AGM_FORMAT_ALAC \<Rightarrow> blob MEDIA_FMT_ID_ALAC Payload_media_fmt_alac_t
         | AGM_FORMAT_APE \<Rightarrow> blob MEDIA_FMT_ID_ALAC Payload_media_fmt_ape_t
         | AGM_FORMAT_WMASTD \<Rightarrow> blob MEDIA_FMT_ID_WMASTD Payload_media_fmt_wmastd_t
         | AGM_FORMAT_WMAPRO \<Rightarrow> blob MEDIA_FMT_ID_WMAPRO Payload_media_fmt_wmapro_t
         | _ \<Rightarrow> Some (Inl (- EINVAL)))"

text \<open>The key-value pair of the placeholder decoder is allocated without a check.\<close>

definition configure_placeholder_dec :: "env \<Rightarrow> module_info \<Rightarrow> nat \<Rightarrow> int agm" where
  "configure_placeholder_dec E md g s = do {
     gr \<leftarrow> graph_at s g;
     so \<leftarrow> sess_at s (g_sess_obj gr);
     let (ret, z, real_fmt_id) = get_media_fmt_id_and_size E (format (s_media_config so));
     if ret \<noteq> 0 then Some (0, s)
     else do {
       (ok, s) \<leftarrow> calloc E 1 SIZEOF_KV s;
       if \<not> ok then None
       else do {
         (r, s) \<leftarrow> xcall E (Gsl_set_config (graph_handle gr) (m_gkv md)
                  (konst E TAG_STREAM_PLACEHOLDER_DECODER)
                  [\<lparr>key = konst E MEDIA_FMT_ID, val = real_fmt_id\<rparr>]) s;
         if rc r \<noteq> 0 then Some (lnx E (rc r), s)
         else configure_output_media_format E md g s
       }
     }
   }"

definition configure_compress_shared_mem_ep :: "env \<Rightarrow> module_info \<Rightarrow> nat \<Rightarrow> int agm" where
  "configure_compress_shared_mem_ep E md g s = do {
     gr \<leftarrow> graph_at s g;
     so \<leftarrow> sess_at s (g_sess_obj gr);
     let f = format (s_media_config so);
     if is_format_bypassed f then Some (0, s)
     else do {
       let (ret, z, real_fmt_id) = get_media_fmt_id_and_size E f;
       if ret \<noteq> 0 then Some (0, s)
       else do {
         let z = ALIGN_PAYLOAD z 8;
         (ok, s) \<leftarrow> calloc E 1 (unat z) s;
         if \<not> ok then None
         else do {
           res \<leftarrow> set_compressed_media_format E f so;
           case res of Inl e \<Rightarrow> Some (e, s)
           | Inr (fid, psz, bytes) \<Rightarrow>
               set_custom E g (Compressed_fmt (mk_header md (konst E PARAM_ID_MEDIA_FORMAT) z)
                 AGM_DATA_FORMAT_RAW_COMPRESSED fid psz bytes) (unat z) s
         }
       }
     }
   }"

definition configure_pcm_shared_mem_ep :: "env \<Rightarrow> module_info \<Rightarrow> nat \<Rightarrow> int agm" where
  "configure_pcm_shared_mem_ep E md g s = do {
     gr \<leftarrow> graph_at s g;
     so \<leftarrow> sess_at s (g_sess_obj gr);
     let cs = [Apm_module_param_data_t, Media_format_t, Payload_media_fmt_pcm_t];
     let f = format (s_media_config so);
     let n = channels (s_media_config so);
     let z = map_payload_size E cs n;
     (ok, s) \<leftarrow> calloc E 1 (unat z) s;
     if \<not> ok then Some (- ENOMEM, s)
     else if z < fixed_size E cs then None
     else do {
       let bw = get_media_bit_width so;
       cm \<leftarrow> get_default_channel_map E (replicate (unat (z - fixed_size E cs)) 0) (sint n);
       set_custom E g (Pcm_media_fmt (mk_header md (konst E PARAM_ID_MEDIA_FORMAT) z)
         \<lparr>pf_data_format = AGM_DATA_FORMAT_FIXED_POINT, pf_fmt_id = konst E MEDIA_FMT_ID_PCM,
          pf_payload_size = ucast (fixed_size E [Payload_media_fmt_pcm_t] + scast n),
          pf_endianness = konst E PCM_LITTLE_ENDIAN, pf_bit_width = bw,
          pf_alignment = konst E PCM_LSB_ALIGNED, pf_num_channels = sint n,
          pf_bits_per_sample = GET_BITS_PER_SAMPLE f bw, pf_q_factor = GET_Q_FACTOR f bw,
          pf_interleaved = 0, pf_sample_rate = rate (s_media_config so), pf_channel_map = cm\<rparr>)
         (unat z) s
     }
   }"

definition configure_shared_mem_ep :: "env \<Rightarrow> module_info \<Rightarrow> nat \<Rightarrow> int agm" where
  "configure_shared_mem_ep E md g s = do {
     gr \<leftarrow> graph_at s g;
     so \<leftarrow> sess_at s (g_sess_obj gr);
     if is_format_pcm (format (s_media_config so)) then configure_pcm_shared_mem_ep E md g s
     else configure_compress_shared_mem_ep E md g s
   }"

text \<open>
  The loop of \<open>configure_spr\<close> over the modules of the graph; \<open>ret\<close> is the result of the
  last RX endpoint.
\<close>

primrec spr_loop :: "env \<Rightarrow> nat \<Rightarrow> param_header \<Rightarrow> nat \<Rightarrow> module_info list \<Rightarrow> int \<Rightarrow> int agm" where
  "spr_loop E g h z [] ret s = Some (ret, s)"
| "spr_loop E g h z (m # ms) ret s =
     (if m_tag m = konst E DEVICE_HW_ENDPOINT_RX then do {
        (ret, s) \<leftarrow> set_custom E g (Spr_delay h (m_miid m)) z s;
        spr_loop E g h z ms ret s
      } else spr_loop E g h z ms ret s)"

definition configure_spr :: "env \<Rightarrow> module_info \<Rightarrow> nat \<Rightarrow> int agm" where
  "configure_spr E spr_md g s = do {
     gr \<leftarrow> graph_at s g;
     let s = put_graph g (gr\<lparr>spr_miid := m_miid spr_md\<rparr>) s;
     let z = ALIGN_PAYLOAD (fixed_size E [Apm_module_param_data_t, Param_id_spr_delay_path_end_t]) 8;
     (ok, s) \<leftarrow> calloc E 1 (unat z) s;
     if \<not> ok then Some (- ENOMEM, s)
     else spr_loop E g (mk_header spr_md (konst E PARAM_ID_SPR_DELAY_PATH_END) z) (unat z)
            (tagged_mod_list gr) 0 s
   }"

section \<open>The module tables\<close>

definition mk_module :: "module_t \<Rightarrow> u32 \<Rightarrow> configure_fn option \<Rightarrow> module_info" where
  "mk_module m t c = \<lparr>m_module = m, m_tag = t, m_mid = 0, m_miid = 0, is_configured = False,
     m_dev_obj = None, m_gkv = None, configure = c\<rparr>"

definition stream_modules :: "env \<Rightarrow> module_info list" where
  "stream_modules E =
    [mk_module MODULE_PCM_ENCODER (konst E STREAM_PCM_ENCODER) (Some Configure_output_media_format),
     mk_module MODULE_PCM_DECODER (konst E STREAM_PCM_DECODER) (Some Configure_output_media_format),
     mk_module MODULE_PLACEHOLDER_DECODER (konst E TAG_STREAM_PLACEHOLDER_DECODER)
       (Some Configure_placeholder_dec),
     mk_module MODULE_PCM_CONVERTER (konst E STREAM_PCM_CONVERTER) (Some Configure_output_media_format),
     mk_module MODULE_SHARED_MEM (konst E STREAM_INPUT_MEDIA_FORMAT) (Some Configure_shared_mem_ep),
     mk_module MODULE_STREAM_PAUSE (konst E TAG_PAUSE) None,
     mk_module MODULE_STREAM_SPR TAG_STREAM_SPR (Some Configure_spr)]"

definition hw_ep_modules :: "env \<Rightarrow> module_info list" where
  "hw_ep_modules E =
    [mk_module MODULE_HW_EP_RX (konst E DEVICE_HW_ENDPOINT_RX) (Some Configure_hw_ep),
     mk_module MODULE_HW_EP_TX (konst E DEVICE_HW_ENDPOINT_TX) (Some Configure_hw_ep)]"

text \<open>The call through the function pointer of a module.\<close>

definition configure_call :: "env \<Rightarrow> configure_fn \<Rightarrow> module_info \<Rightarrow> nat \<Rightarrow> int agm" where
  "configure_call E f =
     (case f of
        Configure_output_media_format \<Rightarrow> configure_output_media_format E
      | Configure_placeholder_dec \<Rightarrow> configure_placeholder_dec E
      | Configure_shared_mem_ep \<Rightarrow> configure_shared_mem_ep E
      | Configure_spr \<Rightarrow> configure_spr E
      | Configure_hw_ep \<Rightarrow> configure_hw_ep E)"

end
