(* ===== verification/Agm_Graph.thy ===== *)
theory Agm_Graph
  imports Agm_Graph_Module
begin

unbundle bit_operations_syntax

text \<open>
  \<open>service/src/graph.c\<close>: a graph object wraps a GSL graph handle; it is opened, prepared,
  started, stopped, extended by device legs, and closed.

  A graph pointer is an address of the graph heap, or \<open>None\<close> for NULL. Addresses are not
  reused: an access through the pointer of a closed graph is undefined. The session
  pointer of a graph is never NULL (the only caller passes a session). The entries of a
  graph's module list and of the static tables hold their graph key vector by value.
  Values that C writes through an output pointer are part of the result; \<open>None\<close> there
  means that nothing was written.
\<close>

section \<open>Initialisation\<close>

definition is_acdb_name :: "string \<Rightarrow> bool" where
  "is_acdb_name n \<longleftrightarrow> c_strstr n ''.acdb'' \<or> c_strstr n ''.qwsp''"

text \<open>
  The names of the directory are added to the file list. The guard compares the number of
  files stored in the struct, which is zero until the loop has ended; the array has
  \<open>GSL_MAX_NUM_OF_ACDB_FILES\<close> entries.
\<close>

fun acdb_loop :: "env \<Rightarrow> string \<Rightarrow> string list \<Rightarrow> string list \<Rightarrow> (int \<times> string list) option" where
  "acdb_loop E path [] files = Some (0, files)"
| "acdb_loop E path (n # ns) files =
     (if \<not> is_acdb_name n then acdb_loop E path ns files
      else if konst E GSL_MAX_NUM_OF_ACDB_FILES = 0 then Some (0, files)
      else if length files \<ge> unat (konst E GSL_MAX_NUM_OF_ACDB_FILES) then None
      else let f = path @ ''/'' @ n in
        if length f \<ge> unat (konst E ACDB_FILENAME_SIZE) then Some (- EINVAL, files)
        else acdb_loop E path ns (files @ [f]))"

definition get_acdb_files_from_directory :: "env \<Rightarrow> string \<Rightarrow> (int \<times> string list) agm" where
  "get_acdb_files_from_directory E path s = do {
     (r, s) \<leftarrow> xcall E Acdb_directory s;
     if rc r \<noteq> 0 then Some ((EINVAL, []), s)
     else do { res \<leftarrow> acdb_loop E path (rlines r) []; Some (res, s) }
   }"

text \<open>The two paths are macros of the build.\<close>

definition graph_init :: "env \<Rightarrow> string \<Rightarrow> string \<Rightarrow> int agm" where
  "graph_init E acdb_path delta_path s = do {
     ((ret, files), s) \<leftarrow> get_acdb_files_from_directory E acdb_path s;
     if ret \<noteq> 0 then Some (ret, s)
     else if length delta_path + 1 > unat (konst E ACDB_FILENAME_SIZE) then Some (- EINVAL, s)
     else do {
       (r, s) \<leftarrow> xcall E (Gsl_init files) s;
       if rc r \<noteq> 0 then Some (lnx E (rc r), s) else Some (0, s)
     }
   }"

definition graph_deinit :: "env \<Rightarrow> int agm" where
  "graph_deinit E s = do { (_, s) \<leftarrow> xcall E Gsl_deinit s; Some (0, s) }"

section \<open>Buffers\<close>

definition buffer_params :: "env \<Rightarrow> session_obj \<Rightarrow> gsl_cmd_configure_read_write_params" where
  "buffer_params E so =
     (let mode = data_mode (stream_config so); b = buffer_config so in
      \<lparr>buff_size = (if mode = AGM_DATA_PUSH_PULL then ucast (ucast (bcount b) * bsize b)
                    else ucast (bsize b)),
       num_buffs = (if mode = AGM_DATA_PUSH_PULL then 1 else bcount b),
       b_start_threshold = start_threshold (stream_config so),
       b_stop_threshold = stop_threshold (stream_config so),
       shmem_ep_tag = konst E SHMEM_ENDPOINT,
       attributes = (case mode of
            AGM_DATA_BLOCKING \<Rightarrow> GSL_DATA_MODE_BLOCKING
          | AGM_DATA_NON_BLOCKING \<Rightarrow> GSL_DATA_MODE_NON_BLOCKING
          | AGM_DATA_PUSH_PULL \<Rightarrow> GSL_DATA_MODE_PUSH_PULL
          | _ \<Rightarrow> GSL_DATA_MODE_BLOCKING)\<rparr>)"

definition configure_buffer_params :: "env \<Rightarrow> nat \<Rightarrow> nat \<Rightarrow> int agm" where
  "configure_buffer_params E g sp s = do {
     gr \<leftarrow> graph_at s g;
     so \<leftarrow> sess_at s sp;
     if is_config_buf_params_done gr then Some (0, s)
     else do {
       let bc = buffer_params E so;
       (r, s) \<leftarrow> xcall E (Gsl_ioctl (graph_handle gr)
         (if dir (stream_config so) = RX then GSL_CMD_CONFIGURE_WRITE_PARAMS bc
          else GSL_CMD_CONFIGURE_READ_PARAMS bc)) s;
       let ret = (if rc r \<noteq> 0 then lnx E (rc r) else 0);
       let gr = (if rc r \<noteq> 0 then gr else gr\<lparr>buf_config := Some bc\<rparr>);
       let gr = (if ret = 0 then gr\<lparr>is_config_buf_params_done := True\<rparr> else gr);
       Some (ret, put_graph g gr s)
     }
   }"

section \<open>Events of GSL\<close>

text \<open>\<open>cb\<close> stands for the function stored by \<open>graph_register_cb\<close>.\<close>

definition gsl_callback_func ::
    "env \<Rightarrow> (agm_event_cb_params \<Rightarrow> u32 \<Rightarrow> unit agm) \<Rightarrow> agm_event_cb_params option \<Rightarrow> nat option
      \<Rightarrow> unit agm" where
  "gsl_callback_func E cb ev gp s =
     (case (gp, ev) of
        (Some g, Some p) \<Rightarrow> do {
          (ok, s) \<leftarrow> calloc E 1 (sizeof E Agm_event_cb_params + length (event_payload p)) s;
          if \<not> ok then Some ((), s)
          else do {
            gr \<leftarrow> graph_at s g;
            if g_cb gr then cb p (g_client_data gr) s else Some ((), s)
          }
        }
      | _ \<Rightarrow> Some ((), s))"

section \<open>Tags and modules\<close>

text \<open>The size pass and the data pass through to the client, with the error converted.\<close>

definition graph_get_tags_with_module_info ::
    "env \<Rightarrow> agm_key_vector_gsl \<Rightarrow> bool \<Rightarrow> (int \<times> tag_entry list \<times> nat) agm" where
  "graph_get_tags_with_module_info E v buf s = do {
     (r, s) \<leftarrow> xcall E (Gsl_get_tags_with_module_info v buf) s;
     Some ((lnx E (rc r), rtags r, rsize r), s)
   }"

text \<open>
  The tag table of a graph. The allocation check tests the wrong pointer; when the
  allocation fails, GSL is asked for the size again and the table pointer stays NULL. At
  the end the error is converted a second time.
\<close>

definition get_tags_with_module_info ::
    "env \<Rightarrow> agm_key_vector_gsl \<Rightarrow> (int \<times> tag_entry list option) agm" where
  "get_tags_with_module_info E v s = do {
     (r, s) \<leftarrow> xcall E (Gsl_get_tags_with_module_info v False) s;
     if rc r \<noteq> 0 then Some ((lnx E (lnx E (rc r)), None), s)
     else do {
       (ok, s) \<leftarrow> calloc E 1 (rsize r) s;
       (r, s) \<leftarrow> xcall E (Gsl_get_tags_with_module_info v ok) s;
       let tags = (if ok then Some (rtags r) else None);
       if rc r \<noteq> 0 then Some ((lnx E (lnx E (rc r)), tags), s)
       else Some ((lnx E 0, tags), s)
     }
   }"

abbreviation (input) SIZEOF_MODULE :: nat where "SIZEOF_MODULE \<equiv> 72"

primrec add_to_list :: "env \<Rightarrow> nat \<Rightarrow> int agm" where
  "add_to_list E 0 s = Some (0, s)"
| "add_to_list E (Suc n) s = do {
     (ok, s) \<leftarrow> calloc E 1 24 s;
     if \<not> ok then Some (- ENOMEM, s) else add_to_list E n s
   }"

text \<open>A private copy of the graph keys: \<open>Inl\<close> when an allocation fails.\<close>

definition copy_gkv :: "env \<Rightarrow> agm_key_vector_gsl \<Rightarrow> agm_key_vector_gsl option agm" where
  "copy_gkv E v s = do {
     (ok, s) \<leftarrow> calloc E 1 16 s;
     if \<not> ok then Some (None, s)
     else do {
       (ok, s) \<leftarrow> calloc E (num_kvs v) SIZEOF_KV s;
       if \<not> ok then Some (None, s)
       else do {
         kvs \<leftarrow> kvs_read v;
         Some (Some \<lparr>num_kvs = num_kvs v, kv = Some kvs\<rparr>, s)
       }
     }
   }"

text \<open>
  The tag loop of \<open>graph_open\<close>. \<open>ns\<close> and \<open>nh\<close> are the entries of the two tables that
  were not yet matched, \<open>mods\<close> is the module list built so far. A module whose list node
  cannot be allocated is skipped without an error. \<open>Inl ret\<close> is \<open>goto free_graph_obj\<close>;
  for a tag with several modules \<open>ret\<close> is still zero there.
\<close>

definition set_ids :: "u32 \<times> u32 \<Rightarrow> module_info \<Rightarrow> module_info" where
  "set_ids x m = m\<lparr>m_mid := fst x, m_miid := snd x\<rparr>"

fun tag_loop ::
    "env \<Rightarrow> agm_key_vector_gsl \<Rightarrow> nat option \<Rightarrow> tag_entry list \<Rightarrow> nat list \<Rightarrow> nat list
      \<Rightarrow> module_info list \<Rightarrow> (int + module_info list) agm" where
  "tag_loop E v dp [] ns nh mods s = Some (Inr mods, s)"
| "tag_loop E v dp (t # ts) ns nh mods s =
     (case find (\<lambda>i. m_tag (stream_module_list s ! i) = tag_id t) ns of
        Some i \<Rightarrow>
          if length (tag_modules t) > 1 then Some (Inl 0, s)
          else if tag_modules t = [] then None
          else do {
            let m = set_ids (hd (tag_modules t)) (stream_module_list s ! i);
            (ok, s) \<leftarrow> calloc E 1 SIZEOF_MODULE
                         (s\<lparr>stream_module_list := (stream_module_list s)[i := m]\<rparr>);
            tag_loop E v dp ts (remove1 i ns) nh (if ok then mods @ [m] else mods) s
          }
      | None \<Rightarrow>
          (case dp of None \<Rightarrow> tag_loop E v dp ts ns nh mods s
           | Some d \<Rightarrow>
               (case find (\<lambda>i. m_tag (hw_ep_module s ! i) = tag_id t) nh of
                  None \<Rightarrow> tag_loop E v dp ts ns nh mods s
                | Some i \<Rightarrow>
                    if length (tag_modules t) > 1 then Some (Inl 0, s)
                    else if tag_modules t = [] then None
                    else do {
                      let m = set_ids (hd (tag_modules t)) (hw_ep_module s ! i);
                      (c, s) \<leftarrow> copy_gkv E v (s\<lparr>hw_ep_module := (hw_ep_module s)[i := m]\<rparr>);
                      case c of None \<Rightarrow> Some (Inl (- ENOMEM), s)
                      | Some gk \<Rightarrow> do {
                          let m = m\<lparr>m_gkv := Some gk\<rparr>;
                          (ok, s) \<leftarrow> calloc E 1 SIZEOF_MODULE
                                       (s\<lparr>hw_ep_module := (hw_ep_module s)[i := m]\<rparr>);
                          tag_loop E v dp ts ns (remove1 i nh)
                            (if ok then mods @ [m\<lparr>m_dev_obj := Some d\<rparr>] else mods) s
                        }
                    })))"

section \<open>Open and close\<close>

definition new_graph :: "nat option \<Rightarrow> module_info list \<Rightarrow> nat \<Rightarrow> graph_obj" where
  "new_graph h mods sp =
     \<lparr>g_state = OPENED, graph_handle = h, tagged_mod_list = mods, buf_config = None, g_cb = False,
      g_client_data = 0, g_sess_obj = sp, spr_miid = 0, buf_timestamp = 0,
      is_config_buf_params_done = False\<rparr>"

abbreviation (input) SIZEOF_GRAPH :: nat where "SIZEOF_GRAPH \<equiv> 320"

definition graph_open ::
    "env \<Rightarrow> agm_meta_data_gsl option \<Rightarrow> nat \<Rightarrow> nat option \<Rightarrow> (int \<times> nat option) agm" where
  "graph_open E meta sp dp s =
     (case meta of None \<Rightarrow> Some ((- EINVAL, None), s)
      | Some mt \<Rightarrow> do {
          (ok, s) \<leftarrow> calloc E 1 SIZEOF_GRAPH s;
          if \<not> ok then Some ((- ENOMEM, None), s)
          else do {
            ((ret, tags), s) \<leftarrow> get_tags_with_module_info E (gkv mt) s;
            if ret \<noteq> 0 then Some ((ret, None), s)
            else do {
              tags \<leftarrow> tags;
              (ret, s) \<leftarrow> add_to_list E (length (stream_module_list s)) s;
              if ret \<noteq> 0 then Some ((ret, None), s)
              else do {
                (ret, s) \<leftarrow> add_to_list E (length (hw_ep_module s)) s;
                if ret \<noteq> 0 then Some ((ret, None), s)
                else do {
                  (res, s) \<leftarrow> tag_loop E (gkv mt) dp tags [0..<length (stream_module_list s)]
                                [0..<length (hw_ep_module s)] [] s;
                  case res of Inl e \<Rightarrow> Some ((e, None), s)
                  | Inr mods \<Rightarrow> do {
                      (r, s) \<leftarrow> xcall E (Gsl_open (gkv mt) (ckv mt)) s;
                      if rc r \<noteq> 0 then Some ((lnx E (rc r), None), s)
                      else do {
                        let g = next_graph s;
                        (r2, s) \<leftarrow> xcall E (Gsl_register_event_cb (rptr r) g) s;
                        if rc r2 \<noteq> 0 then do {
                          (_, s) \<leftarrow> xcall E (Gsl_close (rptr r)) s;
                          Some ((lnx E (rc r2), None), s)
                        } else
                          Some ((0, Some g),
                            s\<lparr>graphs := (graphs s)(g := Some (new_graph (rptr r) mods sp)),
                              next_graph := Suc g\<rparr>)
                      }
                    }
                }
              }
            }
          }
        })"

definition graph_close :: "env \<Rightarrow> nat option \<Rightarrow> int agm" where
  "graph_close E gp s =
     (case gp of None \<Rightarrow> Some (- EINVAL, s)
      | Some g \<Rightarrow> do {
          gr \<leftarrow> graph_at s g;
          (r, s) \<leftarrow> xcall E (Gsl_close (graph_handle gr)) s;
          Some (if rc r \<noteq> 0 then lnx E (rc r) else 0, s\<lparr>graphs := (graphs s)(g := None)\<rparr>)
        })"

section \<open>Prepare, start, stop\<close>

definition set_configured :: "nat \<Rightarrow> nat \<Rightarrow> bool \<Rightarrow> agm_state \<Rightarrow> agm_state option" where
  "set_configured g i b s = do {
     gr \<leftarrow> graph_at s g;
     Some (put_graph g (gr\<lparr>tagged_mod_list := (tagged_mod_list gr)
       [i := (tagged_mod_list gr ! i)\<lparr>is_configured := b\<rparr>]\<rparr>) s)
   }"

definition is_hw_ep_tag :: "env \<Rightarrow> u32 \<Rightarrow> bool" where
  "is_hw_ep_tag E t \<longleftrightarrow> t = konst E DEVICE_HW_ENDPOINT_RX \<or> t = konst E DEVICE_HW_ENDPOINT_TX"

text \<open>\<open>mod->dev_obj != NULL && (tag is an endpoint) && mod->dev_obj->refcnt.start > 0\<close>.\<close>

definition device_running :: "env \<Rightarrow> module_info \<Rightarrow> agm_state \<Rightarrow> bool option" where
  "device_running E m s =
     (case m_dev_obj m of None \<Rightarrow> Some False
      | Some d \<Rightarrow>
          if is_hw_ep_tag E (m_tag m)
          then map_option (\<lambda>dev. r_start (refcnt dev) > 0) (dev_at s d)
          else Some False)"

text \<open>
  Whether the module fits the configuration of the session.
\<close>

definition module_mismatch :: "env \<Rightarrow> agm_session_config \<Rightarrow> module_info \<Rightarrow> bool" where
  "module_mismatch E sc m \<longleftrightarrow>
     m_tag m = konst E STREAM_INPUT_MEDIA_FORMAT \<and> is_hostless sc
     \<or> m_tag m = konst E STREAM_PCM_DECODER \<and> dir sc = TX
     \<or> m_tag m = konst E STREAM_PCM_ENCODER \<and> dir sc = RX"

primrec prepare_loop :: "env \<Rightarrow> agm_session_config \<Rightarrow> nat \<Rightarrow> nat list \<Rightarrow> int agm" where
  "prepare_loop E sc g [] s = Some (0, s)"
| "prepare_loop E sc g (i # is) s = do {
     gr \<leftarrow> graph_at s g;
     let m = tagged_mod_list gr ! i;
     if is_configured m then prepare_loop E sc g is s
     else if module_mismatch E sc m then Some (- EINVAL, s)
     else case configure m of None \<Rightarrow> prepare_loop E sc g is s
     | Some f \<Rightarrow> do {
         running \<leftarrow> device_running E m s;
         if running then do {
           s \<leftarrow> set_configured g i True s;
           prepare_loop E sc g is s
         } else do {
           (ret, s) \<leftarrow> configure_call E f m g s;
           if ret \<noteq> 0 then Some (ret, s)
           else do {
             s \<leftarrow> set_configured g i True s;
             prepare_loop E sc g is s
           }
         }
       }
   }"

text \<open>A command to GSL without arguments; the new state is set when it succeeds.\<close>

definition graph_cmd :: "env \<Rightarrow> nat \<Rightarrow> gsl_cmd \<Rightarrow> graph_state \<Rightarrow> int agm" where
  "graph_cmd E g c st s = do {
     gr \<leftarrow> graph_at s g;
     (r, s) \<leftarrow> xcall E (Gsl_ioctl (graph_handle gr) c) s;
     if rc r \<noteq> 0 then Some (lnx E (rc r), s)
     else Some (0, put_graph g (gr\<lparr>g_state := st\<rparr>) s)
   }"

definition graph_prepare :: "env \<Rightarrow> nat option \<Rightarrow> int agm" where
  "graph_prepare E gp s =
     (case gp of None \<Rightarrow> Some (- EINVAL, s)
      | Some g \<Rightarrow> do {
          gr \<leftarrow> graph_at s g;
          so \<leftarrow> sess_at s (g_sess_obj gr);
          let sc = stream_config so;
          if g_state gr = PREPARED then Some (0, s)
          else do {
            (ret, s) \<leftarrow> prepare_loop E sc g [0..<length (tagged_mod_list gr)] s;
            if ret \<noteq> 0 then Some (ret, s)
            else do {
              (ret, s) \<leftarrow> (if \<not> is_hostless sc then configure_buffer_params E g (g_sess_obj gr) s
                            else Some (0, s));
              if ret \<noteq> 0 then Some (ret, s) else graph_cmd E g GSL_CMD_PREPARE PREPARED s
            }
          }
        })"

definition graph_start :: "env \<Rightarrow> nat option \<Rightarrow> int agm" where
  "graph_start E gp s =
     (case gp of None \<Rightarrow> Some (- EINVAL, s)
      | Some g \<Rightarrow> graph_cmd E g GSL_CMD_START STARTED s)"

text \<open>
  With metadata only a part of the graph is stopped and the state stays; without, the
  state becomes \<open>STOPPED\<close> even when GSL reports an error.
\<close>

definition graph_stop :: "env \<Rightarrow> nat option \<Rightarrow> agm_meta_data_gsl option \<Rightarrow> int agm" where
  "graph_stop E gp meta s =
     (case gp of None \<Rightarrow> Some (- EINVAL, s)
      | Some g \<Rightarrow> do {
          gr \<leftarrow> graph_at s g;
          if g_state gr = STOPPED then Some (0, s)
          else if g_state gr \<noteq> STARTED then Some (- EINVAL, s)
          else do {
            (r, s) \<leftarrow> xcall E (Gsl_ioctl (graph_handle gr) (GSL_CMD_STOP (map_option (\<lambda>m.
                  \<lparr>cp_gkv = gkv m, property_id = prop_id (sg_props m),
                   property_values = pvalues (sg_props m),
                   num_property_values = num_values (sg_props m)\<rparr>) meta))) s;
            let s = (if meta = None then put_graph g (gr\<lparr>g_state := STOPPED\<rparr>) s else s);
            Some (if rc r \<noteq> 0 then lnx E (rc r) else 0, s)
          }
        })"

section \<open>Pause, parameters, data\<close>

abbreviation (input) PARAM_ID_SOFT_PAUSE_START :: u32
  where "PARAM_ID_SOFT_PAUSE_START \<equiv> 0x800102e"
abbreviation (input) PARAM_ID_SOFT_PAUSE_RESUME :: u32
  where "PARAM_ID_SOFT_PAUSE_RESUME \<equiv> 0x800102f"

definition graph_pause_resume :: "env \<Rightarrow> nat option \<Rightarrow> bool \<Rightarrow> int agm" where
  "graph_pause_resume E gp pause s =
     (case gp of None \<Rightarrow> Some (- EINVAL, s)
      | Some g \<Rightarrow> do {
          gr \<leftarrow> graph_at s g;
          case find (\<lambda>m. m_tag m = konst E TAG_PAUSE) (tagged_mod_list gr) of None \<Rightarrow> Some (0, s)
          | Some m \<Rightarrow> do {
              let z = unat (ALIGN_PAYLOAD (fixed_size E [Apm_module_param_data_t]) 8);
              (ok, s) \<leftarrow> calloc E 1 z s;
              if \<not> ok then Some (- ENOMEM, s)
              else set_custom E g (Header_only
                \<lparr>h_miid = m_miid m, h_param_id = (if pause then PARAM_ID_SOFT_PAUSE_START
                   else PARAM_ID_SOFT_PAUSE_RESUME), h_error_code = 0, h_param_size = 0\<rparr>) z s
            }
        })"

definition graph_pause :: "env \<Rightarrow> nat option \<Rightarrow> int agm" where
  "graph_pause E gp = graph_pause_resume E gp True"

definition graph_resume :: "env \<Rightarrow> nat option \<Rightarrow> int agm" where
  "graph_resume E gp = graph_pause_resume E gp False"

definition graph_set_config :: "env \<Rightarrow> nat option \<Rightarrow> u8 list \<Rightarrow> int agm" where
  "graph_set_config E gp payload s =
     (case gp of None \<Rightarrow> Some (- EINVAL, s)
      | Some g \<Rightarrow> set_custom E g (Client_blob payload) (length payload) s)"

text \<open>The result carries the buffer that GSL filled.\<close>

definition graph_get_config :: "env \<Rightarrow> nat option \<Rightarrow> u8 list \<Rightarrow> (int \<times> u8 list) agm" where
  "graph_get_config E gp payload s =
     (case gp of None \<Rightarrow> Some ((- EINVAL, payload), s)
      | Some g \<Rightarrow> do {
          gr \<leftarrow> graph_at s g;
          (r, s) \<leftarrow> xcall E (Gsl_get_custom_config (graph_handle gr) (Client_blob payload)
                              (length payload)) s;
          Some ((if rc r \<noteq> 0 then lnx E (rc r) else 0, rbytes r), s)
        })"

definition graph_set_config_with_tag ::
    "env \<Rightarrow> nat option \<Rightarrow> agm_key_vector_gsl option \<Rightarrow> agm_tag_config \<Rightarrow> int agm" where
  "graph_set_config_with_tag E gp v tc s =
     (case gp of None \<Rightarrow> Some (- EINVAL, s)
      | Some g \<Rightarrow> do {
          gr \<leftarrow> graph_at s g;
          (r, s) \<leftarrow> xcall E (Gsl_set_config (graph_handle gr) v (tc_tag tc) (tc_kv tc)) s;
          Some (if rc r \<noteq> 0 then lnx E (rc r) else 0, s)
        })"

definition graph_set_cal :: "env \<Rightarrow> nat option \<Rightarrow> agm_meta_data_gsl \<Rightarrow> int agm" where
  "graph_set_cal E gp m s =
     (case gp of None \<Rightarrow> Some (- EINVAL, s)
      | Some g \<Rightarrow> do {
          gr \<leftarrow> graph_at s g;
          (r, s) \<leftarrow> xcall E (Gsl_set_cal (graph_handle gr) (gkv m) (ckv m)) s;
          Some (if rc r \<noteq> 0 then lnx E (rc r) else 0, s)
        })"

text \<open>The second component is the value stored through \<open>size\<close>.\<close>

definition graph_write :: "env \<Rightarrow> nat option \<Rightarrow> u8 list \<Rightarrow> (int \<times> nat) agm" where
  "graph_write E gp buffer s =
     (case gp of None \<Rightarrow> Some ((- EINVAL, length buffer), s)
      | Some g \<Rightarrow> do {
          gr \<leftarrow> graph_at s g;
          (r, s) \<leftarrow> xcall E (Gsl_write (graph_handle gr) (konst E SHMEM_ENDPOINT) buffer) s;
          if rc r \<noteq> 0 then Some ((lnx E (rc r), length buffer), s)
          else Some ((0, rsize r), s)
        })"

definition graph_read :: "env \<Rightarrow> nat option \<Rightarrow> nat \<Rightarrow> (int \<times> nat \<times> u8 list) agm" where
  "graph_read E gp sz s =
     (case gp of None \<Rightarrow> Some ((- EINVAL, sz, []), s)
      | Some g \<Rightarrow> do {
          gr \<leftarrow> graph_at s g;
          if g_state gr \<noteq> STARTED then Some ((- EINVAL, sz, []), s)
          else do {
            (r, s) \<leftarrow> xcall E (Gsl_read (graph_handle gr) (konst E SHMEM_ENDPOINT) sz) s;
            Some ((if rc r \<noteq> 0 \<or> rsize r = 0 then lnx E (rc r) else 0, rsize r, rbytes r),
                  put_graph g (gr\<lparr>buf_timestamp := rtime r\<rparr>) s)
          }
        })"

section \<open>Adding, changing and removing device legs\<close>

text \<open>The table entry of the endpoint that serves a device.\<close>

definition hw_ep_index :: "device_obj \<Rightarrow> nat" where
  "hw_ep_index dev = (if ep_dir (ep_info dev) = AUDIO_OUTPUT then 0 else 1)"

text \<open>
  Look up the module instance of the device; reset the first module of the graph with this
  instance, or add a new one. \<open>Some ret\<close> leaves the caller with \<open>ret\<close>, \<open>None\<close> continues.
\<close>

definition add_device_module ::
    "env \<Rightarrow> nat \<Rightarrow> agm_meta_data_gsl \<Rightarrow> nat \<Rightarrow> int option agm" where
  "add_device_module E g mt d s = do {
     dev \<leftarrow> dev_at s d;
     let mi = hw_ep_index dev;
     (r, s) \<leftarrow> xcall E (Gsl_get_tagged_module_info (gkv mt) (m_tag (hw_ep_module s ! mi))) s;
     if rc r \<noteq> 0 then Some (Some (lnx E (rc r)), s)
     else if rmods r = [] then None
     else do {
       let m = set_ids (hd (rmods r)) (hw_ep_module s ! mi);
       let s = s\<lparr>hw_ep_module := (hw_ep_module s)[mi := m]\<rparr>;
       gr \<leftarrow> graph_at s g;
       case find_index (\<lambda>x. m_miid x = m_miid m) (tagged_mod_list gr) of
         Some i \<Rightarrow> do { s \<leftarrow> set_configured g i False s; Some (None, s) }
       | None \<Rightarrow> do {
           (c, s) \<leftarrow> copy_gkv E (gkv mt) s;
           case c of None \<Rightarrow> Some (Some (- ENOMEM), s)
           | Some gk \<Rightarrow> do {
               let m = m\<lparr>m_gkv := Some gk\<rparr>;
               (ok, s) \<leftarrow> calloc E 1 SIZEOF_MODULE
                            (s\<lparr>hw_ep_module := (hw_ep_module s)[mi := m]\<rparr>);
               Some (None, if ok then put_graph g (gr\<lparr>tagged_mod_list := tagged_mod_list gr
                              @ [m\<lparr>m_dev_obj := Some d\<rparr>]\<rparr>) s else s)
             }
         }
     }
   }"

primrec add_loop :: "env \<Rightarrow> nat \<Rightarrow> nat list \<Rightarrow> int agm" where
  "add_loop E g [] s = Some (0, s)"
| "add_loop E g (i # is) s = do {
     gr \<leftarrow> graph_at s g;
     let m = tagged_mod_list gr ! i;
     if is_configured m \<and> m_tag m \<noteq> TAG_STREAM_SPR then add_loop E g is s
     else do {
       running \<leftarrow> device_running E m s;
       if running then do { s \<leftarrow> set_configured g i True s; add_loop E g is s }
       else case configure m of None \<Rightarrow> add_loop E g is s
       | Some f \<Rightarrow> do {
           (ret, s) \<leftarrow> configure_call E f m g s;
           if ret \<noteq> 0 then Some (ret, s)
           else do { s \<leftarrow> set_configured g i True s; add_loop E g is s }
         }
     }
   }"

definition graph_add :: "env \<Rightarrow> nat option \<Rightarrow> agm_meta_data_gsl \<Rightarrow> nat option \<Rightarrow> int agm" where
  "graph_add E gp mt dp s =
     (case gp of None \<Rightarrow> Some (- EINVAL, s)
      | Some g \<Rightarrow> do {
          gr \<leftarrow> graph_at s g;
          if g_state gr = CLOSED then Some (- EINVAL, s)
          else do {
            (r, s) \<leftarrow> xcall E (Gsl_ioctl (graph_handle gr) (GSL_CMD_ADD_GRAPH (gkv mt) (ckv mt))) s;
            if rc r \<noteq> 0 then Some (lnx E (rc r), s)
            else do {
              (x, s) \<leftarrow> (case dp of None \<Rightarrow> Some (None, s)
                         | Some d \<Rightarrow> add_device_module E g mt d s);
              case x of Some ret \<Rightarrow> Some (ret, s)
              | None \<Rightarrow> do {
                  gr \<leftarrow> graph_at s g;
                  if g_state gr = STARTED \<or> g_state gr = PREPARED
                  then add_loop E g [0..<length (tagged_mod_list gr)] s
                  else Some (0, s)
                }
            }
          }
        })"

text \<open>
  The device part of \<open>graph_change\<close>: a new endpoint replaces every endpoint of the graph.
  The table entry is not updated here; the new module keeps the table's key vector when
  the copy of the keys fails.
\<close>

definition change_device_module ::
    "env \<Rightarrow> nat \<Rightarrow> agm_meta_data_gsl \<Rightarrow> nat \<Rightarrow> int option agm" where
  "change_device_module E g mt d s = do {
     dev \<leftarrow> dev_at s d;
     let m = hw_ep_module s ! hw_ep_index dev;
     (r, s) \<leftarrow> xcall E (Gsl_get_tagged_module_info (gkv mt) (m_tag m)) s;
     if rc r \<noteq> 0 then Some (Some (lnx E (rc r)), s)
     else do {
       gr \<leftarrow> graph_at s g;
       if rmods r = [] then None
       else case find_index (\<lambda>x. m_miid x = snd (hd (rmods r))) (tagged_mod_list gr) of
         Some i \<Rightarrow> do { s \<leftarrow> set_configured g i False s; Some (None, s) }
       | None \<Rightarrow> do {
           let rest = filter (\<lambda>x. \<not> is_hw_ep_tag E (m_tag x)) (tagged_mod_list gr);
           (ok, s) \<leftarrow> calloc E 1 SIZEOF_MODULE s;
           if \<not> ok then Some (Some (- ENOMEM), put_graph g (gr\<lparr>tagged_mod_list := rest\<rparr>) s)
           else do {
             let m = set_ids (hd (rmods r)) (m\<lparr>m_dev_obj := Some d\<rparr>);
             (c, s) \<leftarrow> copy_gkv E (gkv mt) s;
             case c of
               None \<Rightarrow> Some (Some (- ENOMEM), put_graph g (gr\<lparr>tagged_mod_list := rest @ [m]\<rparr>) s)
             | Some gk \<Rightarrow> Some (None, put_graph g (gr\<lparr>tagged_mod_list :=
                            rest @ [m\<lparr>m_gkv := Some gk\<rparr>]\<rparr>) s)
           }
         }
     }
   }"

primrec change_loop :: "env \<Rightarrow> nat \<Rightarrow> nat list \<Rightarrow> int agm" where
  "change_loop E g [] s = Some (0, s)"
| "change_loop E g (i # is) s = do {
     gr \<leftarrow> graph_at s g;
     let m = tagged_mod_list gr ! i;
     (case (configure m, m_dev_obj m) of
        (Some f, Some d) \<Rightarrow>
          if is_configured m then change_loop E g is s
          else do {
            dev \<leftarrow> dev_at s d;
            if r_start (refcnt dev) \<noteq> 0 then change_loop E g is s
            else do {
              (ret, s) \<leftarrow> configure_call E f m g s;
              if ret \<noteq> 0 then Some (ret, s)
              else do { s \<leftarrow> set_configured g i True s; change_loop E g is s }
            }
          }
      | _ \<Rightarrow> change_loop E g is s)
   }"

definition graph_change :: "env \<Rightarrow> nat option \<Rightarrow> agm_meta_data_gsl \<Rightarrow> nat option \<Rightarrow> int agm" where
  "graph_change E gp mt dp s =
     (case gp of None \<Rightarrow> Some (- EINVAL, s)
      | Some g \<Rightarrow> do {
          _ \<leftarrow> graph_at s g;
          (x, s) \<leftarrow> (case dp of None \<Rightarrow> Some (None, s)
                     | Some d \<Rightarrow> change_device_module E g mt d s);
          case x of Some ret \<Rightarrow> Some (ret, s)
          | None \<Rightarrow> do {
              gr \<leftarrow> graph_at s g;
              (r, s) \<leftarrow> xcall E (Gsl_ioctl (graph_handle gr)
                                  (GSL_CMD_CHANGE_GRAPH (gkv mt) (ckv mt))) s;
              if rc r \<noteq> 0 then Some (lnx E (rc r), s)
              else change_loop E g [0..<length (tagged_mod_list gr)] s
            }
        })"

definition graph_remove :: "env \<Rightarrow> nat option \<Rightarrow> agm_meta_data_gsl \<Rightarrow> int agm" where
  "graph_remove E gp mt s =
     (case gp of None \<Rightarrow> Some (- EINVAL, s)
      | Some g \<Rightarrow> do {
          gr \<leftarrow> graph_at s g;
          (r, s) \<leftarrow> xcall E (Gsl_ioctl (graph_handle gr) (GSL_CMD_REMOVE_GRAPH (gkv mt))) s;
          Some (if rc r \<noteq> 0 then lnx E (rc r) else 0, s)
        })"

section \<open>Callbacks and queries\<close>

definition graph_register_cb :: "nat option \<Rightarrow> bool \<Rightarrow> u32 \<Rightarrow> int agm" where
  "graph_register_cb gp cb client_data s =
     (case gp of None \<Rightarrow> Some (- EINVAL, s)
      | Some g \<Rightarrow>
          if \<not> cb then Some (- EINVAL, s)
          else do {
            gr \<leftarrow> graph_at s g;
            Some (0, put_graph g (gr\<lparr>g_cb := True, g_client_data := client_data\<rparr>) s)
          })"

text \<open>
  The copy of the event configuration advances a struct pointer by
  \<open>sizeof(apm_module_register_events_t)\<close> structs, not bytes: with a payload it writes
  behind the allocation unless the offset fits.
\<close>

definition graph_register_for_events ::
    "env \<Rightarrow> nat option \<Rightarrow> agm_event_reg_cfg option \<Rightarrow> int agm" where
  "graph_register_for_events E gp cfg s =
     (case (gp, cfg) of
        (Some g, Some c) \<Rightarrow> do {
          gr \<leftarrow> graph_at s g;
          if graph_handle gr = None then Some (- EINVAL, s)
          else do {
            let n = length (er_payload c);
            let z = sizeof E Gsl_cmd_register_custom_event;
            (ok, s) \<leftarrow> calloc E 1 (z + n) s;
            if \<not> ok then Some (- ENOMEM, s)
            else if n \<noteq> 0 \<and> sizeof E Apm_module_register_events_t * z + n > z + n then None
            else do {
              (r, s) \<leftarrow> xcall E (Gsl_ioctl (graph_handle gr) (GSL_CMD_REGISTER_CUSTOM_EVENT c)) s;
              Some (if rc r \<noteq> 0 then lnx E (rc r) else 0, put_graph g (gr\<lparr>buf_timestamp := 0\<rparr>) s)
            }
          }
        }
      | _ \<Rightarrow> Some (- EINVAL, s))"

definition graph_get_hw_processed_buff_cnt :: "nat option \<Rightarrow> nat" where
  "graph_get_hw_processed_buff_cnt gp = (case gp of None \<Rightarrow> 0 | Some g \<Rightarrow> 2)"

definition graph_eos :: "env \<Rightarrow> nat option \<Rightarrow> int agm" where
  "graph_eos E gp s =
     (case gp of None \<Rightarrow> Some (- EINVAL, s)
      | Some g \<Rightarrow> do {
          gr \<leftarrow> graph_at s g;
          (r, s) \<leftarrow> xcall E (Gsl_ioctl (graph_handle gr) GSL_CMD_EOS) s;
          Some (lnx E (rc r), s)
        })"

definition graph_get_session_time :: "env \<Rightarrow> nat option \<Rightarrow> (int \<times> u64 option) agm" where
  "graph_get_session_time E gp s =
     (case gp of None \<Rightarrow> Some ((- EINVAL, None), s)
      | Some g \<Rightarrow> do {
          gr \<leftarrow> graph_at s g;
          if g_state gr \<noteq> STARTED then Some ((- EINVAL, None), s)
          else if spr_miid gr = 0 then Some ((0, None), s)
          else do {
            let z = ALIGN_PAYLOAD (fixed_size E [Apm_module_param_data_t,
                      Param_id_spr_session_time_t]) 8;
            (ok, s) \<leftarrow> calloc E 1 (unat z) s;
            if \<not> ok then Some ((0, None), s)
            else do {
              (r, s) \<leftarrow> xcall E (Gsl_get_custom_config (graph_handle gr) (Header_only
                  \<lparr>h_miid = spr_miid gr, h_param_id = konst E PARAM_ID_SPR_SESSION_TIME,
                   h_error_code = 0, h_param_size = ucast z\<rparr>) (unat z)) s;
              if rc r \<noteq> 0 then Some ((lnx E (rc r), None), s)
              else Some ((0, Some (push_bit 32 (ucast (rmsw r)) OR ucast (rlsw r))), s)
            }
          }
        })"

definition graph_get_buffer_timestamp :: "nat option \<Rightarrow> (int \<times> u64 option) agm" where
  "graph_get_buffer_timestamp gp s =
     (case gp of None \<Rightarrow> Some ((- EINVAL, None), s)
      | Some g \<Rightarrow> do {
          gr \<leftarrow> graph_at s g;
          if g_state gr \<noteq> STARTED then Some ((- EINVAL, None), s)
          else Some ((0, Some (buf_timestamp gr)), s)
        })"

text \<open>
  The buffer information of GSL: \<open>rptr\<close> is the file descriptor behind the shared memory
  handle (\<open>None\<close> when the handle is NULL) and \<open>rsize\<close> the size.
\<close>

definition graph_fill_buf_info ::
    "env \<Rightarrow> nat \<Rightarrow> agm_buf_info \<Rightarrow> gsl_cmd \<Rightarrow> bool \<Rightarrow> (int \<times> agm_buf_info) agm" where
  "graph_fill_buf_info E g bi c is_data s = do {
     (ok, s) \<leftarrow> calloc E 1 24 s;
     if \<not> ok then Some ((- ENOMEM, bi), s)
     else do {
       (ok, s) \<leftarrow> calloc E 1 16 s;
       if \<not> ok then Some ((- ENOMEM, bi), s)
       else do {
         gr \<leftarrow> graph_at s g;
         (r, s) \<leftarrow> xcall E (Gsl_ioctl (graph_handle gr) c) s;
         if rc r \<noteq> 0 then Some ((rc r, bi), s)
         else Some ((0, case rptr r of None \<Rightarrow> bi
                        | Some fd \<Rightarrow>
                            if is_data then bi\<lparr>data_buf_fd := int fd, data_buf_size := int (rsize r)\<rparr>
                            else bi\<lparr>pos_buf_fd := int fd, pos_buf_size := int (rsize r)\<rparr>), s)
       }
     }
   }"

definition graph_get_buf_info ::
    "env \<Rightarrow> nat option \<Rightarrow> agm_buf_info \<Rightarrow> u32 \<Rightarrow> (int \<times> agm_buf_info) agm" where
  "graph_get_buf_info E gp bi flag s = do {
     g \<leftarrow> gp;
     gr \<leftarrow> graph_at s g;
     so \<leftarrow> sess_at s (g_sess_obj gr);
     if bcount (buffer_config so) = 0 \<or> bsize (buffer_config so) = 0 then Some ((- EINVAL, bi), s)
     else do {
       (_, s) \<leftarrow> configure_buffer_params E g (g_sess_obj gr) s;
       let rx = (dir (stream_config so) = RX);
       ((ret, bi), s) \<leftarrow>
         (if flag AND 1 \<noteq> 0 then graph_fill_buf_info E g bi
            (if rx then GSL_CMD_GET_WRITE_BUFF_INFO else GSL_CMD_GET_READ_BUFF_INFO) True s
          else Some ((- EINVAL, bi), s));
       (if flag AND 2 \<noteq> 0 then graph_fill_buf_info E g bi
          (if rx then GSL_CMD_GET_WRITE_POS_BUFF_INFO else GSL_CMD_GET_READ_POS_BUFF_INFO) False s
        else Some ((ret, bi), s))
     }
   }"

end
