(* ===== verification/Agm_Session.thy ===== *)
theory Agm_Session
  imports Agm_Graph
begin

text \<open>
  \<open>service/src/session_obj.c\<close>: the session pool, the audio interfaces (AIFs) of a session,
  and the session state machine that drives a graph and its devices.

  A session pointer is an index of the pool (sessions are only appended until the pool is
  freed); an AIF pointer is an index of the session's \<open>aif_pool\<close>. Loops over a list are
  loops over its indices. The pointer \<open>graph\<close> of a session may dangle: an access through
  it is then undefined.
\<close>

section \<open>Loops\<close>

text \<open>A loop that leaves with the first nonzero result.\<close>

primrec each_until :: "('i \<Rightarrow> int agm) \<Rightarrow> 'i list \<Rightarrow> int agm" where
  "each_until f [] s = Some (0, s)"
| "each_until f (i # is) s = do {
     (r, s) \<leftarrow> f i s;
     if r \<noteq> 0 then Some (r, s) else each_until f is s
   }"

text \<open>A loop that goes on; \<open>ret\<close> is the last result of the iterations that did something.\<close>

primrec each_ret :: "('i \<Rightarrow> int option agm) \<Rightarrow> 'i list \<Rightarrow> int \<Rightarrow> int agm" where
  "each_ret f [] ret s = Some (ret, s)"
| "each_ret f (i # is) ret s = do {
     (r, s) \<leftarrow> f i s;
     each_ret f is (case r of None \<Rightarrow> ret | Some x \<Rightarrow> x) s
   }"

section \<open>Audio interfaces\<close>

definition aif_at :: "agm_state \<Rightarrow> nat \<Rightarrow> nat \<Rightarrow> aif option" where
  "aif_at s p i =
     (case sess_at s p of None \<Rightarrow> None
      | Some so \<Rightarrow> if i < length (aif_pool so) then Some (aif_pool so ! i) else None)"

definition put_aif :: "nat \<Rightarrow> nat \<Rightarrow> aif \<Rightarrow> agm_state \<Rightarrow> agm_state" where
  "put_aif p i a s =
     (case sess_at s p of None \<Rightarrow> s
      | Some so \<Rightarrow> put_sess p (so\<lparr>aif_pool := (aif_pool so)[i := a]\<rparr>) s)"

definition set_aif_state :: "nat \<Rightarrow> nat \<Rightarrow> aif_state \<Rightarrow> agm_state \<Rightarrow> agm_state option" where
  "set_aif_state p i st s = do { a \<leftarrow> aif_at s p i; Some (put_aif p i (a\<lparr>a_state := st\<rparr>) s) }"

definition set_sess_state :: "nat \<Rightarrow> session_state \<Rightarrow> agm_state \<Rightarrow> agm_state option" where
  "set_sess_state p st s = do { so \<leftarrow> sess_at s p; Some (put_sess p (so\<lparr>s_state := st\<rparr>) s) }"

abbreviation aif_indices :: "session_obj \<Rightarrow> nat list" where
  "aif_indices so \<equiv> [0..<length (aif_pool so)]"

definition zero_aif :: aif where
  "zero_aif = \<lparr>aif_id = 0, a_dev_obj = None, a_state = AIF_CLOSED, sess_aif_meta = empty_meta,
     a_params = None\<rparr>"

abbreviation (input) SIZEOF_AIF :: nat where "SIZEOF_AIF \<equiv> 96"
abbreviation (input) SIZEOF_SESSION :: nat where "SIZEOF_SESSION \<equiv> 360"

definition aif_obj_get_from_pool :: "session_obj \<Rightarrow> u32 \<Rightarrow> nat option" where
  "aif_obj_get_from_pool so x = find_index (\<lambda>a. aif_id a = x) (aif_pool so)"

text \<open>When the device cannot be found the zeroed object is returned.\<close>

definition aif_obj_create :: "env \<Rightarrow> u32 \<Rightarrow> aif option agm" where
  "aif_obj_create E x s = do {
     (ok, s) \<leftarrow> calloc E 1 SIZEOF_AIF s;
     if \<not> ok then Some (None, s)
     else do {
       ((ret, dp), s) \<leftarrow> device_get_obj x s;
       if ret \<noteq> 0 \<or> dp = None then Some (Some zero_aif, s)
       else Some (Some (zero_aif\<lparr>aif_id := x, a_dev_obj := dp\<rparr>), s)
     }
   }"

definition aif_obj_get :: "env \<Rightarrow> nat \<Rightarrow> u32 \<Rightarrow> (int \<times> nat) agm" where
  "aif_obj_get E p x s = do {
     so \<leftarrow> sess_at s p;
     case aif_obj_get_from_pool so x of Some i \<Rightarrow> Some ((0, i), s)
     | None \<Rightarrow> do {
         (a, s) \<leftarrow> aif_obj_create E x s;
         case a of None \<Rightarrow> Some ((- ENOMEM, 0), s)
         | Some a \<Rightarrow> Some ((0, length (aif_pool so)),
                      put_sess p (so\<lparr>aif_pool := aif_pool so @ [a]\<rparr>) s)
       }
   }"

definition aif_obj_get_count_with_state :: "session_obj \<Rightarrow> aif_state \<Rightarrow> bool \<Rightarrow> nat" where
  "aif_obj_get_count_with_state so st exact =
     length (filter (\<lambda>a. exact \<and> a_state a = st \<or> \<not> exact \<and> st \<le> a_state a) (aif_pool so))"

section \<open>Merged metadata\<close>

definition aif_dev_meta :: "agm_state \<Rightarrow> aif \<Rightarrow> agm_meta_data_gsl option" where
  "aif_dev_meta s a = do { d \<leftarrow> a_dev_obj a; dev \<leftarrow> dev_at s d; Some (d_metadata dev) }"

primrec merge_aifs ::
    "env \<Rightarrow> bool \<Rightarrow> session_obj \<Rightarrow> aif list \<Rightarrow> agm_meta_data_gsl option \<Rightarrow> agm_meta_data_gsl option agm"
    where
  "merge_aifs E with_dev so [] temp s = Some (temp, s)"
| "merge_aifs E with_dev so (a # as) temp s = do {
     (merged, s) \<leftarrow>
       (if with_dev then do {
          dm \<leftarrow> aif_dev_meta s a;
          metadata_merge E [temp, Some (sess_meta so), Some (sess_aif_meta a), Some dm] s
        } else metadata_merge E [temp, Some (sess_meta so), Some (sess_aif_meta a)] s);
     merge_aifs E with_dev so as merged s
   }"

definition session_get_merged_metadata :: "env \<Rightarrow> nat \<Rightarrow> agm_meta_data_gsl option agm" where
  "session_get_merged_metadata E p s = do {
     so \<leftarrow> sess_at s p;
     merge_aifs E True so (aif_pool so) None s
   }"

definition session_get_merged_metadata_without_aif :: "env \<Rightarrow> nat \<Rightarrow> agm_meta_data_gsl option agm" where
  "session_get_merged_metadata_without_aif E p s = do {
     so \<leftarrow> sess_at s p;
     merge_aifs E False so (aif_pool so) None s
   }"

text \<open>\<open>metadata_merge(3, \<dots>)\<close> of session, session-AIF and device, as four callers do it.\<close>

definition merge_sess_aif_dev :: "env \<Rightarrow> nat \<Rightarrow> nat \<Rightarrow> agm_meta_data_gsl option agm" where
  "merge_sess_aif_dev E p i s = do {
     so \<leftarrow> sess_at s p;
     a \<leftarrow> aif_at s p i;
     dm \<leftarrow> aif_dev_meta s a;
     metadata_merge E [Some (sess_meta so), Some (sess_aif_meta a), Some dm] s
   }"

section \<open>The session pool\<close>

definition session_pool_init :: "env \<Rightarrow> int agm" where
  "session_pool_init E s = do {
     (ok, s) \<leftarrow> calloc E 1 56 s;
     if \<not> ok then Some (- ENOMEM, s\<lparr>sess_pool := None\<rparr>) else Some (0, s\<lparr>sess_pool := Some []\<rparr>)
   }"

text \<open>A zeroed session object.\<close>

definition zero_stream_config :: agm_session_config where
  "zero_stream_config = \<lparr>dir = DIR_UNSET, is_hostless = False, start_threshold = 0,
     stop_threshold = 0, codec = replicate 32 0, data_mode = AGM_DATA_INVALID\<rparr>"

definition new_session :: "u32 \<Rightarrow> session_obj" where
  "new_session x =
     \<lparr>sess_id = x, s_state = SESSION_CLOSED, sess_meta = empty_meta, aif_pool = [], cb_pool = [],
      graph = None, stream_config = zero_stream_config, s_media_config = zero_media_config,
      buffer_config = \<lparr>bcount = 0, bsize = 0\<rparr>, s_params = None, loopback_sess_id = 0,
      loopback_state = False, ec_ref_aif_id = 0, ec_ref_state = False\<rparr>"

definition session_obj_create :: "env \<Rightarrow> u32 \<Rightarrow> session_obj option agm" where
  "session_obj_create E x s = do {
     (ok, s) \<leftarrow> calloc E 1 SIZEOF_SESSION s;
     Some (if ok then Some (new_session x) else None, s)
   }"

definition session_obj_retrieve_from_pool :: "u32 \<Rightarrow> agm_state \<Rightarrow> nat option option" where
  "session_obj_retrieve_from_pool x s =
     map_option (\<lambda>pool. find_index (\<lambda>so. sess_id so = x) pool) (sess_pool s)"

definition session_obj_get_from_pool :: "env \<Rightarrow> u32 \<Rightarrow> nat option agm" where
  "session_obj_get_from_pool E x s = do {
     pool \<leftarrow> sess_pool s;
     case find_index (\<lambda>so. sess_id so = x) pool of Some p \<Rightarrow> Some (Some p, s)
     | None \<Rightarrow> do {
         (so, s) \<leftarrow> session_obj_create E x s;
         case so of None \<Rightarrow> Some (None, s)
         | Some so \<Rightarrow> Some (Some (length pool), s\<lparr>sess_pool := Some (pool @ [so])\<rparr>)
       }
   }"

definition session_obj_get :: "env \<Rightarrow> u32 \<Rightarrow> (int \<times> nat option) agm" where
  "session_obj_get E x s = do {
     (tobj, s) \<leftarrow> session_obj_get_from_pool E x s;
     Some ((if tobj = None then - ENOMEM else 0, tobj), s)
   }"

section \<open>Loopback and echo reference\<close>

definition graph_add_or_remove :: "env \<Rightarrow> nat \<Rightarrow> agm_meta_data_gsl \<Rightarrow> bool \<Rightarrow> int agm" where
  "graph_add_or_remove E p m enable s = do {
     so \<leftarrow> sess_at s p;
     if enable then graph_add E (graph so) m None s else graph_remove E (graph so) m s
   }"

definition session_set_loopback :: "env \<Rightarrow> nat \<Rightarrow> u32 \<Rightarrow> bool \<Rightarrow> int agm" where
  "session_set_loopback E p pb_id enable s = do {
     ((ret, pb), s) \<leftarrow> session_obj_get E pb_id s;
     if ret \<noteq> 0 then Some (ret, s)
     else do {
       pb \<leftarrow> pb;
       (cm, s) \<leftarrow> session_get_merged_metadata E p s;
       if cm = None then Some (- ENOMEM, s)
       else do {
         (pm, s) \<leftarrow> session_get_merged_metadata E pb s;
         if pm = None then Some (- ENOMEM, s)
         else do {
           (mm, s) \<leftarrow> metadata_merge E [cm, pm] s;
           case mm of None \<Rightarrow> Some (- ENOMEM, s)
           | Some m \<Rightarrow> graph_add_or_remove E p m enable s
         }
       }
     }
   }"

definition session_set_ec_ref :: "env \<Rightarrow> nat \<Rightarrow> u32 \<Rightarrow> bool \<Rightarrow> int agm" where
  "session_set_ec_ref E p x enable s = do {
     ((ret, dp), s) \<leftarrow> device_get_obj x s;
     if ret \<noteq> 0 then Some (ret, s)
     else do {
       (cm, s) \<leftarrow> session_get_merged_metadata_without_aif E p s;
       if cm = None then Some (- ENOMEM, s)
       else do {
         d \<leftarrow> dp;
         dev \<leftarrow> dev_at s d;
         (mm, s) \<leftarrow> metadata_merge E [cm, Some (d_metadata dev)] s;
         case mm of None \<Rightarrow> Some (- ENOMEM, s)
         | Some m \<Rightarrow> graph_add_or_remove E p m enable s
       }
     }
   }"

section \<open>Connecting and disconnecting an AIF\<close>

text \<open>
  The result is that of \<open>device_close\<close>: the result of the graph operation is overwritten.
\<close>

definition session_disconnect_aif :: "env \<Rightarrow> nat \<Rightarrow> nat \<Rightarrow> nat \<Rightarrow> int agm" where
  "session_disconnect_aif E p i opened_count s = do {
     so \<leftarrow> sess_at s p;
     a \<leftarrow> aif_at s p i;
     (mm, s) \<leftarrow> merge_sess_aif_dev E p i s;
     case mm of None \<Rightarrow> Some (- ENOMEM, s)
     | Some m \<Rightarrow>
         if opened_count = 1 then do {
           dm \<leftarrow> aif_dev_meta s a;
           (ms, s) \<leftarrow> metadata_merge E [Some (sess_aif_meta a), Some dm] s;
           case ms of None \<Rightarrow> Some (- ENOMEM, s)
           | Some msa \<Rightarrow> do {
               (_, s) \<leftarrow> graph_stop E (graph so) (Some (m\<lparr>sg_props := sg_props msa\<rparr>)) s;
               device_close E (a_dev_obj a) s
             }
         } else do {
           (_, s) \<leftarrow> graph_remove E (graph so) m s;
           device_close E (a_dev_obj a) s
         }
   }"

text \<open>The filter of \<open>graph_event_cb\<close>, and the loop over the callbacks.\<close>

abbreviation (input) GSL_EVENT_SRC_MODULE_ID_GSL :: u32
  where "GSL_EVENT_SRC_MODULE_ID_GSL \<equiv> 0x2001"

definition cb_matches :: "agm_event_cb_params \<Rightarrow> session_cb \<Rightarrow> bool" where
  "cb_matches ev cb \<longleftrightarrow>
     cb_evt_type cb = AGM_EVENT_DATA_PATH \<and> source_module_id ev = GSL_EVENT_SRC_MODULE_ID_GSL
       \<and> (event_id ev = AGM_EVENT_EOS_RENDERED \<or> event_id ev = AGM_EVENT_READ_DONE
          \<or> event_id ev = AGM_EVENT_WRITE_DONE)
     \<or> cb_evt_type cb = AGM_EVENT_MODULE \<and> source_module_id ev \<noteq> GSL_EVENT_SRC_MODULE_ID_GSL"

primrec call_cbs :: "env \<Rightarrow> u32 \<Rightarrow> agm_event_cb_params \<Rightarrow> session_cb list \<Rightarrow> unit agm" where
  "call_cbs E x ev [] s = Some ((), s)"
| "call_cbs E x ev (cb # cbs) s =
     (if cb_matches ev cb then do {
        (_, s) \<leftarrow> xcall E (Client_cb (cb_fn cb) x ev (cb_client_data cb)) s;
        call_cbs E x ev cbs s
      } else call_cbs E x ev cbs s)"

definition graph_event_cb :: "env \<Rightarrow> agm_event_cb_params \<Rightarrow> u32 \<Rightarrow> unit agm" where
  "graph_event_cb E ev client_data s = do {
     pp \<leftarrow> session_obj_retrieve_from_pool client_data s;
     case pp of None \<Rightarrow> Some ((), s)
     | Some p \<Rightarrow> do {
         so \<leftarrow> sess_at s p;
         call_cbs E (sess_id so) ev (cb_pool so) s
       }
   }"

text \<open>
  \<open>session_connect_aif\<close> step by step. An outcome is the label the code jumps to, with
  \<open>ret\<close>.
\<close>

datatype connect_outcome = Connected | Goto_close_device int | Goto_graph_cleanup int

text \<open>Step 2.b: open, change or extend the graph.\<close>

definition connect_graph ::
    "env \<Rightarrow> nat \<Rightarrow> agm_meta_data_gsl \<Rightarrow> nat option \<Rightarrow> nat \<Rightarrow> connect_outcome agm" where
  "connect_graph E p m dp opened_count s = do {
     so \<leftarrow> sess_at s p;
     if opened_count = 0 then
       (if s_state so = SESSION_CLOSED then do {
          ((ret, gp), s) \<leftarrow> graph_open E (Some m) p dp s;
          so \<leftarrow> sess_at s p;
          let so = (if gp = None then so else so\<lparr>graph := gp\<rparr>);
          let s = put_sess p so s;
          if ret \<noteq> 0 then Some (Goto_close_device ret, s)
          else do {
            (ret, s) \<leftarrow> graph_register_cb (graph so) True (sess_id so) s;
            if ret \<noteq> 0 then Some (Goto_graph_cleanup ret, s) else Some (Connected, s)
          }
        } else do {
          (ret, s) \<leftarrow> graph_change E (graph so) m dp s;
          if ret \<noteq> 0 then Some (Goto_close_device ret, s) else Some (Connected, s)
        })
     else do {
       (ret, s) \<leftarrow> graph_add E (graph so) m dp s;
       if ret \<noteq> 0 then Some (Goto_close_device ret, s) else Some (Connected, s)
     }
   }"

text \<open>Step 2.c: cached parameters of the session, of the session-AIF pair, of the device.\<close>

definition set_cached_sess_params :: "env \<Rightarrow> nat \<Rightarrow> connect_outcome agm" where
  "set_cached_sess_params E p s = do {
     so \<leftarrow> sess_at s p;
     case s_params so of None \<Rightarrow> Some (Connected, s)
     | Some bs \<Rightarrow>
         if s_state so \<noteq> SESSION_CLOSED then Some (Connected, s)
         else do {
           (ret, s) \<leftarrow> graph_set_config E (graph so) bs s;
           if ret \<noteq> 0 then Some (Goto_graph_cleanup ret, s)
           else do {
             so \<leftarrow> sess_at s p;
             Some (Connected, put_sess p (so\<lparr>s_params := None\<rparr>) s)
           }
         }
   }"

definition set_cached_aif_params :: "env \<Rightarrow> nat \<Rightarrow> nat \<Rightarrow> connect_outcome agm" where
  "set_cached_aif_params E p i s = do {
     so \<leftarrow> sess_at s p;
     a \<leftarrow> aif_at s p i;
     case a_params a of None \<Rightarrow> Some (Connected, s)
     | Some bs \<Rightarrow> do {
         (ret, s) \<leftarrow> graph_set_config E (graph so) bs s;
         if ret \<noteq> 0 then Some (Goto_graph_cleanup ret, s)
         else do {
           a \<leftarrow> aif_at s p i;
           Some (Connected, put_aif p i (a\<lparr>a_params := None\<rparr>) s)
         }
       }
   }"

definition set_cached_dev_params :: "env \<Rightarrow> nat \<Rightarrow> nat \<Rightarrow> connect_outcome agm" where
  "set_cached_dev_params E p d s = do {
     so \<leftarrow> sess_at s p;
     dev \<leftarrow> dev_at s d;
     case d_params dev of None \<Rightarrow> Some (Connected, s)
     | Some bs \<Rightarrow>
         if d_state dev \<noteq> DEV_OPENED then Some (Connected, s)
         else do {
           (ret, s) \<leftarrow> graph_set_config E (graph so) bs s;
           if ret \<noteq> 0 then Some (Goto_graph_cleanup ret, s)
           else do {
             dev \<leftarrow> dev_at s d;
             Some (Connected, put_dev d (dev\<lparr>d_params := None\<rparr>) s)
           }
         }
   }"

definition and_then ::
    "connect_outcome agm \<Rightarrow> connect_outcome agm \<Rightarrow> connect_outcome agm" where
  "and_then f g s = do {
     (out, s) \<leftarrow> f s;
     case out of Connected \<Rightarrow> g s | _ \<Rightarrow> Some (out, s)
   }"

definition connect_body ::
    "env \<Rightarrow> nat \<Rightarrow> nat \<Rightarrow> nat \<Rightarrow> agm_meta_data_gsl \<Rightarrow> nat \<Rightarrow> connect_outcome agm" where
  "connect_body E p i d m opened_count =
     and_then (connect_graph E p m (Some d) opened_count)
       (and_then (set_cached_sess_params E p)
         (and_then (set_cached_aif_params E p i) (set_cached_dev_params E p d)))"

text \<open>
  The labels at the end. The cleanup closes or removes the graph; the pointer of the
  session is not reset.
\<close>

definition connect_exit ::
    "env \<Rightarrow> nat \<Rightarrow> nat \<Rightarrow> agm_meta_data_gsl \<Rightarrow> nat \<Rightarrow> connect_outcome \<Rightarrow> int agm" where
  "connect_exit E p d m opened_count out s =
     (case out of Connected \<Rightarrow> Some (0, s)
      | Goto_close_device ret \<Rightarrow> do {
          (_, s) \<leftarrow> device_close E (Some d) s;
          Some (ret, s)
        }
      | Goto_graph_cleanup ret \<Rightarrow> do {
          so \<leftarrow> sess_at s p;
          (_, s) \<leftarrow> (if opened_count = 0 then graph_close E (graph so) s
                      else graph_remove E (graph so) m s);
          (_, s) \<leftarrow> device_close E (Some d) s;
          Some (ret, s)
        })"

definition session_connect_aif :: "env \<Rightarrow> nat \<Rightarrow> nat \<Rightarrow> nat \<Rightarrow> int agm" where
  "session_connect_aif E p i opened_count s = do {
     a \<leftarrow> aif_at s p i;
     (mm, s) \<leftarrow> merge_sess_aif_dev E p i s;
     case mm of None \<Rightarrow> Some (- ENOMEM, s)
     | Some m \<Rightarrow> do {
         d \<leftarrow> a_dev_obj a;
         (ret, s) \<leftarrow> device_open E (Some d) s;
         if ret \<noteq> 0 then Some (ret, s)
         else do {
           (out, s) \<leftarrow> connect_body E p i d m opened_count s;
           connect_exit E p d m opened_count out s
         }
       }
   }"

section \<open>Opening a session\<close>

definition session_open_with_first_device :: "env \<Rightarrow> nat \<Rightarrow> int agm" where
  "session_open_with_first_device E p s = do {
     so \<leftarrow> sess_at s p;
     case find_index (\<lambda>a. a_state a = AIF_OPEN) (aif_pool so) of None \<Rightarrow> Some (- EPIPE, s)
     | Some i \<Rightarrow> do {
         (ret, s) \<leftarrow> session_connect_aif E p i 0 s;
         if ret \<noteq> 0 then Some (ret, s)
         else do { s \<leftarrow> set_aif_state p i AIF_OPENED s; Some (0, s) }
       }
   }"

primrec connect_loop :: "env \<Rightarrow> nat \<Rightarrow> nat list \<Rightarrow> nat \<Rightarrow> int agm" where
  "connect_loop E p [] opened_count s = Some (0, s)"
| "connect_loop E p (i # is) opened_count s = do {
     a \<leftarrow> aif_at s p i;
     if a_state a = AIF_OPEN then do {
       (ret, s) \<leftarrow> session_connect_aif E p i opened_count s;
       if ret \<noteq> 0 then Some (ret, s)
       else do {
         s \<leftarrow> set_aif_state p i AIF_OPENED s;
         connect_loop E p is (opened_count + 1) s
       }
     } else connect_loop E p is opened_count s
   }"

definition unwind_aif :: "env \<Rightarrow> nat \<Rightarrow> nat \<Rightarrow> int option agm" where
  "unwind_aif E p i s = do {
     a \<leftarrow> aif_at s p i;
     if a_state a = AIF_OPENED then do {
       (ret, s) \<leftarrow> session_disconnect_aif E p i 1 s;
       s \<leftarrow> set_aif_state p i AIF_OPEN s;
       Some (Some ret, s)
     } else Some (None, s)
   }"

text \<open>When a device fails, all are disconnected and the result of \<open>graph_close\<close> is returned.\<close>

definition session_connect_reminder_devices :: "env \<Rightarrow> nat \<Rightarrow> int agm" where
  "session_connect_reminder_devices E p s = do {
     so \<leftarrow> sess_at s p;
     (ret, s) \<leftarrow> connect_loop E p (aif_indices so) 1 s;
     if ret = 0 then Some (0, s)
     else do {
       (_, s) \<leftarrow> each_ret (unwind_aif E p) (aif_indices so) ret s;
       so \<leftarrow> sess_at s p;
       (ret, s) \<leftarrow> graph_close E (graph so) s;
       so \<leftarrow> sess_at s p;
       Some (ret, put_sess p (so\<lparr>graph := None\<rparr>) s)
     }
   }"

section \<open>Prepare, start, stop, close\<close>

definition aif_prepare :: "env \<Rightarrow> nat \<Rightarrow> nat \<Rightarrow> int agm" where
  "aif_prepare E p i s = do {
     a \<leftarrow> aif_at s p i;
     if a_state a = AIF_OPENED \<or> a_state a = AIF_STOPPED then do {
       (ret, s) \<leftarrow> device_prepare E (a_dev_obj a) s;
       if ret \<noteq> 0 then Some (ret, s)
       else do { s \<leftarrow> set_aif_state p i AIF_PREPARED s; Some (0, s) }
     } else Some (0, s)
   }"

definition session_prepare :: "env \<Rightarrow> nat \<Rightarrow> int agm" where
  "session_prepare E p s = do {
     so \<leftarrow> sess_at s p;
     let d = dir (stream_config so);
     if aif_obj_get_count_with_state so AIF_OPENED False = 0 then Some (-1, s)
     else do {
       (ret, s) \<leftarrow> (if d = TX \<and> s_state so \<noteq> SESSION_STARTED then graph_prepare E (graph so) s
                     else Some (0, s));
       if ret \<noteq> 0 then Some (ret, s)
       else do {
         (ret, s) \<leftarrow> each_until (aif_prepare E p) (aif_indices so) s;
         if ret \<noteq> 0 then Some (ret, s)
         else do {
           (ret, s) \<leftarrow> (if d = RX \<and> s_state so \<noteq> SESSION_STARTED then graph_prepare E (graph so) s
                         else Some (0, s));
           if ret \<noteq> 0 then Some (ret, s)
           else do { s \<leftarrow> set_sess_state p SESSION_PREPARED s; Some (0, s) }
         }
       }
     }
   }"

text \<open>The checks before a capture session starts.\<close>

definition check_loopback :: "env \<Rightarrow> nat \<Rightarrow> int agm" where
  "check_loopback E p s = do {
     so \<leftarrow> sess_at s p;
     if \<not> loopback_state so then Some (0, s)
     else do {
       ((ret, pb), s) \<leftarrow> session_obj_get E (loopback_sess_id so) s;
       if ret \<noteq> 0 then Some (ret, s)
       else do {
         pb \<leftarrow> pb;
         po \<leftarrow> sess_at s pb;
         if s_state po \<noteq> SESSION_STARTED then Some (- EINVAL, s) else Some (0, s)
       }
     }
   }"

definition check_ec_ref :: "nat \<Rightarrow> int agm" where
  "check_ec_ref p s = do {
     so \<leftarrow> sess_at s p;
     if \<not> ec_ref_state so then Some (0, s)
     else do {
       ((ret, dp), s) \<leftarrow> device_get_obj (ec_ref_aif_id so) s;
       if ret \<noteq> 0 then Some (ret, s)
       else do {
         d \<leftarrow> dp;
         dev \<leftarrow> dev_at s d;
         if d_state dev \<noteq> DEV_STARTED then Some (- EINVAL, s) else Some (0, s)
       }
     }
   }"

definition aif_start :: "nat \<Rightarrow> nat \<Rightarrow> int agm" where
  "aif_start p i s = do {
     a \<leftarrow> aif_at s p i;
     if a_state a = AIF_OPENED \<or> a_state a = AIF_PREPARED \<or> a_state a = AIF_STOPPED then do {
       (ret, s) \<leftarrow> device_start (a_dev_obj a) s;
       if ret \<noteq> 0 then Some (ret, s)
       else do { s \<leftarrow> set_aif_state p i AIF_STARTED s; Some (0, s) }
     } else Some (0, s)
   }"

text \<open>One iteration of a loop that stops the started AIFs and moves them to \<open>st\<close>.\<close>

definition aif_stop :: "env \<Rightarrow> nat \<Rightarrow> aif_state \<Rightarrow> nat \<Rightarrow> int option agm" where
  "aif_stop E p st i s = do {
     a \<leftarrow> aif_at s p i;
     if a_state a = AIF_STARTED then do {
       (ret, s) \<leftarrow> device_stop E (a_dev_obj a) s;
       s \<leftarrow> set_aif_state p i st s;
       Some (Some ret, s)
     } else Some (None, s)
   }"

definition start_unwind :: "env \<Rightarrow> nat \<Rightarrow> session_obj \<Rightarrow> int \<Rightarrow> int agm" where
  "start_unwind E p so ret s = do {
     (_, s) \<leftarrow> (if dir (stream_config so) = TX then graph_stop E (graph so) None s else Some (0, s));
     (_, s) \<leftarrow> each_ret (aif_stop E p AIF_OPENED) (aif_indices so) 0 s;
     Some (ret, s)
   }"

definition session_start :: "env \<Rightarrow> nat \<Rightarrow> int agm" where
  "session_start E p s = do {
     so \<leftarrow> sess_at s p;
     let d = dir (stream_config so);
     if aif_obj_get_count_with_state so AIF_OPENED False = 0 then Some (- EINVAL, s)
     else do {
       (ret, s) \<leftarrow>
         (if d = TX then do {
            (ret, s) \<leftarrow> check_loopback E p s;
            if ret \<noteq> 0 then Some (ret, s)
            else do {
              (ret, s) \<leftarrow> check_ec_ref p s;
              if ret \<noteq> 0 then Some (ret, s) else graph_start E (graph so) s
            }
          } else Some (0, s));
       if ret \<noteq> 0 then Some (ret, s)
       else do {
         (ret, s) \<leftarrow> each_until (aif_start p) (aif_indices so) s;
         if ret \<noteq> 0 then start_unwind E p so ret s
         else do {
           (ret, s) \<leftarrow> (if d = RX then graph_start E (graph so) s else Some (0, s));
           if ret \<noteq> 0 then start_unwind E p so ret s
           else do { s \<leftarrow> set_sess_state p SESSION_STARTED s; Some (0, s) }
         }
       }
     }
   }"

definition session_stop :: "env \<Rightarrow> nat \<Rightarrow> int agm" where
  "session_stop E p s = do {
     so \<leftarrow> sess_at s p;
     let d = dir (stream_config so);
     if s_state so \<noteq> SESSION_STARTED then Some (- EINVAL, s)
     else do {
       (ret, s) \<leftarrow> (if d = RX then graph_stop E (graph so) None s else Some (0, s));
       if ret \<noteq> 0 then Some (ret, s)
       else do {
         (ret, s) \<leftarrow> each_ret (aif_stop E p AIF_STOPPED) (aif_indices so) ret s;
         (ret, s) \<leftarrow> (if d = TX then graph_stop E (graph so) None s else Some (ret, s));
         s \<leftarrow> set_sess_state p SESSION_STOPPED s;
         Some (ret, s)
       }
     }
   }"

definition aif_close :: "env \<Rightarrow> nat \<Rightarrow> nat \<Rightarrow> int option agm" where
  "aif_close E p i s = do {
     a \<leftarrow> aif_at s p i;
     if AIF_OPENED \<le> a_state a then do {
       (ret, s) \<leftarrow> device_close E (a_dev_obj a) s;
       s \<leftarrow> set_aif_state p i AIF_CLOSED s;
       Some (Some ret, s)
     } else Some (None, s)
   }"

definition session_close :: "env \<Rightarrow> nat \<Rightarrow> int agm" where
  "session_close E p s = do {
     so \<leftarrow> sess_at s p;
     if s_state so = SESSION_CLOSED then Some (- EALREADY, s)
     else do {
       (_, s) \<leftarrow> (if s_state so = SESSION_STARTED then graph_stop E (graph so) None s
                   else Some (0, s));
       (ret, s) \<leftarrow> graph_close E (graph so) s;
       so \<leftarrow> sess_at s p;
       (ret, s) \<leftarrow> each_ret (aif_close E p) (aif_indices so) ret (put_sess p (so\<lparr>graph := None\<rparr>) s);
       s \<leftarrow> set_sess_state p SESSION_CLOSED s;
       Some (ret, s)
     }
   }"

section \<open>Initialisation\<close>

text \<open>
  Every session is closed and freed; a session that is closed reports an error that is only
  logged.
\<close>

definition session_pool_free :: "env \<Rightarrow> unit agm" where
  "session_pool_free E s = do {
     pool \<leftarrow> sess_pool s;
     (_, s) \<leftarrow> each_ret (\<lambda>p s. do { (r, s) \<leftarrow> session_close E p s; Some (Some r, s) })
                 [0..<length pool] 0 s;
     Some ((), s\<lparr>sess_pool := None\<rparr>)
   }"

definition session_obj_deinit :: "env \<Rightarrow> int agm" where
  "session_obj_deinit E s = do {
     (_, s) \<leftarrow> session_pool_free E s;
     (_, s) \<leftarrow> device_deinit E s;
     (_, s) \<leftarrow> graph_deinit E s;
     Some (0, s)
   }"

definition session_obj_init :: "env \<Rightarrow> string \<Rightarrow> string \<Rightarrow> int agm" where
  "session_obj_init E acdb_path delta_path s = do {
     (ret, s) \<leftarrow> device_init E s;
     if ret \<noteq> 0 then Some (ret, s)
     else do {
       (ret, s) \<leftarrow> graph_init E acdb_path delta_path s;
       if ret \<noteq> 0 then do { (_, s) \<leftarrow> device_deinit E s; Some (ret, s) }
       else do {
         (ret, s) \<leftarrow> session_pool_init E s;
         if ret \<noteq> 0 then do {
           (_, s) \<leftarrow> graph_deinit E s;
           (_, s) \<leftarrow> device_deinit E s;
           Some (ret, s)
         } else Some (0, s)
       }
     }
   }"

end
