(* ===== verification/Agm_Device_Inv.thy ===== *)
theory Agm_Device_Inv
  imports Agm_Device
begin

text \<open>
  The reference counts of the devices. \<open>dev_inv\<close> relates the three counts to the state of
  a device; \<open>pcm_balance\<close> counts, over the calls made to tinyalsa, the PCM handles that
  were opened and found ready and not closed. Over every sequence of device operations in
  which a device is prepared and closed only while it is open, the invariant holds and the
  balance is the number of open devices.
\<close>

section \<open>The five operations meet the contract\<close>

lemma dev_frame_put:
  assumes "dev_at s d = Some dev" "dev_same dev dev'"
  shows "dev_frame d s (put_dev d dev' s)"
    "suffix (trace s) t \<Longrightarrow> dev_frame d s (put_dev d dev' (s\<lparr>trace := t\<rparr>))"
  using assms by (auto simp: dev_frame_def put_dev_def)

lemma dev_frame_same:
  assumes "dev_at s d = Some dev" "suffix (trace s) (trace s')" "device_list s' = device_list s"
    and "num_audio_intfs s' = num_audio_intfs s" "sess_pool s' = sess_pool s" "graphs s' = graphs s"
    "next_graph s' = next_graph s" "stream_module_list s' = stream_module_list s"
    "hw_ep_module s' = hw_ep_module s" "agm_initialized s' = agm_initialized s"
  shows "dev_frame d s s'"
proof -
  from assms(1) have "(device_list s)[d := Some dev] = device_list s"
    by (auto simp: dev_at_def list_update_same_conv split: if_splits)
  with assms show ?thesis using dev_same_refl [of dev] unfolding dev_frame_def by metis
qed

lemma dev_same_upd [simp]:
  "dev_same dev (dev\<lparr>refcnt := a\<rparr>)" "dev_same dev (dev\<lparr>d_state := b\<rparr>)"
  "dev_same dev (dev\<lparr>refcnt := a, d_state := b\<rparr>)" "dev_same dev (dev\<lparr>d_state := b, refcnt := a\<rparr>)"
  "dev_same dev (dev\<lparr>pcm := h, d_state := b, refcnt := a\<rparr>)"
  by (simp_all add: dev_same_def)

lemmas dev_frame_rules = dev_frame_put dev_frame_same

interpretation dopen: device_op "device_open E" for E
proof
  fix s d assume "dev_at s d \<noteq> None"
  then obtain dev where dev: "dev_at s d = Some dev" by blast
  show "runs (device_open E (Some d) s) (\<lambda>r s'. dev_frame d s s')"
  proof (cases "r_open (refcnt dev) = 0")
    case False
    with dev show ?thesis
      by (simp add: device_open_def dev_frame_put)
  next
    case True
    show ?thesis
    proof (rule device_open_first [OF dev True, of E])
      fix s1 s2 :: agm_state and h
      let ?c = "Pcm_open (card_id dev) (pcm_id dev) (pcm_flags dev) (device_pcm_config E dev)"
      let ?ready = "h \<noteq> None \<and> rc (ext E (tl (trace s2)) (Pcm_is_ready h)) \<noteq> 0"
      assume s1: "sysfs_only s s1"
        and s2: "s2 = (if h = None then s1\<lparr>trace := ?c # trace s1\<rparr>
          else s1\<lparr>trace := Pcm_is_ready h # ?c # trace s1\<rparr>)"
        and ok: "?ready \<Longrightarrow> device_open E (Some d) s = Some (0, put_dev d
          (set_refcnt (r_open_update (\<lambda>n. n + 1)) (dev\<lparr>pcm := h, d_state := DEV_OPENED\<rparr>)) s2)"
        and bad: "\<not> ?ready \<Longrightarrow> \<exists>s3. device_open E (Some d) s = Some (- EIO, s3) \<and> sysfs_only s2 s3"
      have f2: "suffix (trace s) (trace s2)" "s2 = s1\<lparr>trace := trace s2\<rparr>"
        using s2 sysfs_onlyD(2) [OF s1] by (auto simp: suffix_def)
      show ?thesis
      proof (cases ?ready)
        case r: True
        have "dev_frame d s (put_dev d (set_refcnt (r_open_update (\<lambda>n. n + 1))
            (dev\<lparr>pcm := h, d_state := DEV_OPENED\<rparr>)) (s1\<lparr>trace := trace s2\<rparr>))"
          by (rule dev_frameI [OF dev _ f2(1)]) (use s1 in \<open>auto simp: sysfs_only_def\<close>)
        then show ?thesis using ok [OF r] f2(2) by simp
      next
        case r: False
        with bad obtain s3 where s3: "device_open E (Some d) s = Some (- EIO, s3)" "sysfs_only s2 s3"
          by blast
        have "suffix (trace s) (trace s3)"
          using f2(1) sysfs_onlyD(2) [OF s3(2)] by (rule suffix_order.trans)
        then have "dev_frame d s s3"
          using s3(2) s1 s2 by (intro dev_frame_same [OF dev]) (auto simp: sysfs_only_def)
        then show ?thesis using s3 by simp
      qed
    qed
  qed
qed (simp add: device_open_def)

interpretation dprepare: device_op "device_prepare E" for E
  by unfold_locales (auto simp: device_prepare_def xcall_def suffix_ConsI intro!: dev_frame_rules)

interpretation dstart: device_op device_start
  by unfold_locales (auto simp: device_start_def intro!: dev_frame_rules)

interpretation dstop: device_op "device_stop E" for E
  by unfold_locales (auto simp: device_stop_def xcall_def suffix_ConsI Let_def
      intro!: dev_frame_rules)

text \<open>The exact outcome of the last close.\<close>

lemma device_close_last:
  assumes "dev_at s d = Some dev" "r_open (refcnt dev) = 1"
  obtains s1 where "sysfs_only s s1"
    and "device_close E (Some d) s =
      Some (rc (ext E (trace s1) (Pcm_close (pcm dev))),
        put_dev d (dev\<lparr>d_state := DEV_CLOSED, refcnt := \<lparr>r_open = 0, r_prepare = 0, r_start = 0\<rparr>\<rparr>)
          (s1\<lparr>trace := Pcm_close (pcm dev) # trace s1\<rparr>))"
proof -
  obtain s1 where s1: "update_sysfs_fd E (pcm_id dev) False s = Some ((), s1)" "sysfs_only s s1"
    by (rule update_sysfs_fd_E)
  show thesis
    by (rule that [OF s1(2)])
      (use assms s1 in \<open>cases "refcnt dev"; simp add: device_close_def xcall_def Let_def\<close>)
qed

interpretation dclose: device_op "device_close E" for E
proof
  fix s d assume "dev_at s d \<noteq> None"
  then obtain dev where dev: "dev_at s d = Some dev" by blast
  show "runs (device_close E (Some d) s) (\<lambda>r s'. dev_frame d s s')"
  proof (cases "r_open (refcnt dev) = 1")
    case False
    with dev show ?thesis
      by (simp add: device_close_def Let_def dev_frame_put)
  next
    case True
    obtain s1 where s1: "sysfs_only s s1" and eq: "device_close E (Some d) s =
        Some (rc (ext E (trace s1) (Pcm_close (pcm dev))),
          put_dev d (dev\<lparr>d_state := DEV_CLOSED, refcnt := \<lparr>r_open = 0, r_prepare = 0, r_start = 0\<rparr>\<rparr>)
            (s1\<lparr>trace := Pcm_close (pcm dev) # trace s1\<rparr>))"
      by (rule device_close_last [OF dev True])
    show ?thesis
      unfolding eq runs_Some
      by (rule dev_frameI [OF dev])
        (use s1 sysfs_onlyD(2) [OF s1] in \<open>auto simp: sysfs_only_def suffix_ConsI\<close>)
  qed
qed (simp add: device_close_def)

section \<open>The invariant of one device\<close>

definition dev_inv :: "device_obj \<Rightarrow> bool" where
  "dev_inv dev \<longleftrightarrow> 0 \<le> r_open (refcnt dev) \<and> 0 \<le> r_prepare (refcnt dev) \<and> 0 \<le> r_start (refcnt dev)
     \<and> (r_open (refcnt dev) = 0 \<longleftrightarrow> d_state dev = DEV_CLOSED)
     \<and> (r_prepare (refcnt dev) > 0 \<longleftrightarrow> DEV_PREPARED \<le> d_state dev)
     \<and> (r_start (refcnt dev) > 0 \<longleftrightarrow> d_state dev = DEV_STARTED)
     \<and> (r_open (refcnt dev) > 0 \<longrightarrow> pcm dev \<noteq> None)"

definition is_open :: "device_obj \<Rightarrow> int" where
  "is_open dev = of_bool (r_open (refcnt dev) \<noteq> 0)"

text \<open>Ready PCM handles minus closed ones, over the calls (newest first).\<close>

fun pcm_balance :: "env \<Rightarrow> ext_call list \<Rightarrow> int" where
  "pcm_balance E [] = 0"
| "pcm_balance E (c # t) =
     (case c of Pcm_is_ready h \<Rightarrow> of_bool (rc (ext E t c) \<noteq> 0)
      | Pcm_close h \<Rightarrow> - 1 | _ \<Rightarrow> 0) + pcm_balance E t"

lemma pcm_balance_sysfs: "sysfs_only s s' \<Longrightarrow> pcm_balance E (trace s') = pcm_balance E (trace s)"
proof -
  have "(\<forall>c\<in>set t. \<exists>i b. c = Sysfs_open \<or> c = Sysfs_write i b) \<Longrightarrow>
      pcm_balance E (t @ u) = pcm_balance E u" for t u
  proof (induction t)
    case (Cons c t)
    then have IH: "pcm_balance E (t @ u) = pcm_balance E u" by simp
    from Cons.prems consider "c = Sysfs_open" | i b where "c = Sysfs_write i b" by auto
    then show ?case by cases (simp_all add: IH)
  qed simp
  then show "sysfs_only s s' \<Longrightarrow> ?thesis" by (auto simp: sysfs_only_def)
qed

text \<open>
  One operation on the device \<open>d\<close> that keeps the invariant and changes the balance by the
  change of the number of open devices.
\<close>

definition dev_balanced :: "env \<Rightarrow> nat \<Rightarrow> agm_state \<Rightarrow> agm_state \<Rightarrow> bool" where
  "dev_balanced E d s s' \<longleftrightarrow>
     (\<exists>dev dev'. dev_at s d = Some dev \<and> device_list s' = (device_list s)[d := Some dev']
        \<and> dev_inv dev' \<and> pcm_balance E (trace s') - pcm_balance E (trace s) = is_open dev' - is_open dev)"

lemma dev_balancedI:
  assumes "dev_at s d = Some dev" "dev_inv dev'" "device_list s' = device_list s"
    and "pcm_balance E (trace s') - pcm_balance E (trace s) = is_open dev' - is_open dev"
  shows "dev_balanced E d s (put_dev d dev' s')"
  unfolding dev_balanced_def using assms by (auto simp: put_dev_def)

lemma dev_balanced_same:
  assumes "dev_at s d = Some dev" "dev_inv dev" "device_list s' = device_list s"
    and "pcm_balance E (trace s') = pcm_balance E (trace s)"
  shows "dev_balanced E d s s'"
proof -
  from assms(1) have "(device_list s)[d := Some dev] = device_list s"
    by (auto simp: dev_at_def list_update_same_conv split: if_splits)
  with assms show ?thesis unfolding dev_balanced_def by (intro exI [of _ dev]) simp
qed

lemma dev_balanced_trace:
  assumes "dev_at s d = Some dev" "dev_inv dev"
  shows "dev_balanced E d s s"
    "pcm_balance E t = pcm_balance E (trace s) \<Longrightarrow> dev_balanced E d s (s\<lparr>trace := t\<rparr>)"
  using assms by (auto intro!: dev_balanced_same)

lemma device_open_balanced:
  assumes "dev_at s d = Some dev" "dev_inv dev"
  shows "posts (device_open E (Some d) s) (\<lambda>r s'. dev_balanced E d s s')"
proof (cases "r_open (refcnt dev) = 0")
  case False
  with assms show ?thesis
    by (auto simp: device_open_def dev_inv_def is_open_def intro!: dev_balancedI)
next
  case True
  have inv: "dev_inv (set_refcnt (r_open_update (\<lambda>n. n + 1)) (dev\<lparr>pcm := h, d_state := DEV_OPENED\<rparr>))"
    if "h \<noteq> None" for h
    using assms(2) True that by (auto simp: dev_inv_def)
  show ?thesis
  proof (rule device_open_first [OF assms(1) True, of E])
    fix s1 s2 :: agm_state and h
    let ?c = "Pcm_open (card_id dev) (pcm_id dev) (pcm_flags dev) (device_pcm_config E dev)"
    let ?ready = "h \<noteq> None \<and> rc (ext E (tl (trace s2)) (Pcm_is_ready h)) \<noteq> 0"
    assume s1: "sysfs_only s s1"
      and h: "h = rptr (ext E (trace s1) ?c)"
      and s2: "s2 = (if h = None then s1\<lparr>trace := ?c # trace s1\<rparr>
        else s1\<lparr>trace := Pcm_is_ready h # ?c # trace s1\<rparr>)"
      and ok: "?ready \<Longrightarrow> device_open E (Some d) s = Some (0, put_dev d
        (set_refcnt (r_open_update (\<lambda>n. n + 1)) (dev\<lparr>pcm := h, d_state := DEV_OPENED\<rparr>)) s2)"
      and bad: "\<not> ?ready \<Longrightarrow> \<exists>s3. device_open E (Some d) s = Some (- EIO, s3) \<and> sysfs_only s2 s3"
    note b1 = pcm_balance_sysfs [OF s1, of E]
    have l: "device_list s2 = device_list s" using s1 s2 by (auto simp: sysfs_only_def)
    have b2: "pcm_balance E (trace s2) - pcm_balance E (trace s) = of_bool ?ready"
      using s2 b1 by (auto simp: of_bool_def)
    show ?thesis
    proof (cases ?ready)
      case r: True
      then have "h \<noteq> None" and b3: "pcm_balance E (trace s2) - pcm_balance E (trace s) = 1"
        using b2 by simp_all
      then have "dev_balanced E d s (put_dev d (set_refcnt (r_open_update (\<lambda>n. n + 1))
          (dev\<lparr>pcm := h, d_state := DEV_OPENED\<rparr>)) s2)"
        using True by (intro dev_balancedI [OF assms(1) inv l]) (simp_all add: is_open_def)
      then show ?thesis using ok [OF r] by simp
    next
      case r: False
      with bad obtain s3 where s3: "device_open E (Some d) s = Some (- EIO, s3)" "sysfs_only s2 s3"
        by blast
      have b3: "pcm_balance E (trace s3) = pcm_balance E (trace s)"
        using b2 r pcm_balance_sysfs [OF s3(2), of E] by (simp only: of_bool_eq(1))
      have "dev_balanced E d s s3"
        using s3(2) l b3 by (intro dev_balanced_same [OF assms]) (simp_all add: sysfs_only_def)
      then show ?thesis using s3 by simp
    qed
  qed
qed

lemma device_prepare_balanced:
  assumes "dev_at s d = Some dev" "dev_inv dev" "r_open (refcnt dev) > 0"
  shows "posts (device_prepare E (Some d) s) (\<lambda>r s'. dev_balanced E d s s')"
proof (cases "r_prepare (refcnt dev) = 0")
  case True
  with assms have "d_state dev = DEV_OPENED"
    by (cases "d_state dev") (auto simp: dev_inv_def)
  with True assms show ?thesis
    by (auto simp: device_prepare_def xcall_def is_open_def dev_inv_def
        intro!: dev_balancedI dev_balanced_trace)
next
  case False
  with assms show ?thesis
    by (auto simp: device_prepare_def is_open_def dev_inv_def intro!: dev_balancedI)
qed

lemma device_start_balanced:
  assumes "dev_at s d = Some dev" "dev_inv dev"
  shows "posts (device_start (Some d) s) (\<lambda>r s'. dev_balanced E d s s')"
  using assms
  by (cases "d_state dev") (auto simp: device_start_def is_open_def dev_inv_def
      intro!: dev_balancedI dev_balanced_trace)

lemma device_stop_balanced:
  assumes "dev_at s d = Some dev" "dev_inv dev"
  shows "posts (device_stop E (Some d) s) (\<lambda>r s'. dev_balanced E d s s')"
proof (cases "r_start (refcnt dev) = 0")
  case True
  with assms show ?thesis by (simp add: device_stop_def dev_balanced_trace)
next
  case False
  with assms have "d_state dev = DEV_STARTED" "r_open (refcnt dev) > 0" "r_start (refcnt dev) > 0"
      "r_prepare (refcnt dev) > 0"
    by (cases "d_state dev"; auto simp: dev_inv_def)+
  with assms False show ?thesis
    by (auto simp: device_stop_def xcall_def Let_def is_open_def dev_inv_def intro!: dev_balancedI)
qed

lemma device_close_balanced:
  assumes "dev_at s d = Some dev" "dev_inv dev" "r_open (refcnt dev) > 0"
  shows "posts (device_close E (Some d) s) (\<lambda>r s'. dev_balanced E d s s')"
proof (cases "r_open (refcnt dev) = 1")
  case False
  with assms show ?thesis
    by (auto simp: device_close_def Let_def is_open_def dev_inv_def intro!: dev_balancedI)
next
  case True
  show ?thesis
  proof (rule device_close_last [OF assms(1) True, of E])
    fix s1 :: agm_state
    let ?dev = "dev\<lparr>d_state := DEV_CLOSED, refcnt := \<lparr>r_open = 0, r_prepare = 0, r_start = 0\<rparr>\<rparr>"
    let ?s = "s1\<lparr>trace := Pcm_close (pcm dev) # trace s1\<rparr>"
    assume s1: "sysfs_only s s1" and r: "device_close E (Some d) s =
        Some (rc (ext E (trace s1) (Pcm_close (pcm dev))), put_dev d ?dev ?s)"
    have "dev_balanced E d s (put_dev d ?dev ?s)"
      using s1 True pcm_balance_sysfs [OF s1, of E]
      by (intro dev_balancedI [OF assms(1)]) (auto simp: dev_inv_def is_open_def sysfs_only_def)
    then show ?thesis using r by simp
  qed
qed

section \<open>Sequences of device operations\<close>

definition devs_inv :: "env \<Rightarrow> agm_state \<Rightarrow> bool" where
  "devs_inv E s \<longleftrightarrow> (\<forall>d dev. dev_at s d = Some dev \<longrightarrow> dev_inv dev)"

definition open_devices :: "agm_state \<Rightarrow> int" where
  "open_devices s = (\<Sum>x\<leftarrow>device_list s. case x of None \<Rightarrow> 0 | Some dev \<Rightarrow> is_open dev)"

lemma sum_list_update_int:
  "d < length xs \<Longrightarrow> (\<Sum>x\<leftarrow>xs[d := y]. f x) = (\<Sum>x\<leftarrow>xs. f x) - f (xs ! d) + (f y :: int)"
  by (induction xs arbitrary: d) (auto split: nat.splits)

lemma dev_balanced_inv:
  assumes "dev_balanced E d s s'" "devs_inv E s"
  shows "devs_inv E s'"
    "pcm_balance E (trace s') - open_devices s' = pcm_balance E (trace s) - open_devices s"
proof -
  from assms(1) obtain dev dev' where d: "dev_at s d = Some dev" "dev_inv dev'"
      "device_list s' = (device_list s)[d := Some dev']"
      "pcm_balance E (trace s') - pcm_balance E (trace s) = is_open dev' - is_open dev"
    by (auto simp: dev_balanced_def)
  from d(1) have l: "d < length (device_list s)" "device_list s ! d = Some dev"
    by (auto simp: dev_at_def split: if_splits)
  show "devs_inv E s'"
    using assms(2) d(2,3) l by (auto simp: devs_inv_def dev_at_def nth_list_update split: if_splits)
  show "pcm_balance E (trace s') - open_devices s' = pcm_balance E (trace s) - open_devices s"
    using d(3,4) l by (simp add: open_devices_def sum_list_update_int)
qed

text \<open>
  The operations as steps. The service prepares a device only after it opened it, and
  closes it only as often as it opened it: these are the two guards.
\<close>

inductive dev_step :: "env \<Rightarrow> agm_state \<Rightarrow> agm_state \<Rightarrow> bool" for E where
  step_open: "dev_at s d = Some dev \<Longrightarrow> device_open E (Some d) s = Some (r, s') \<Longrightarrow> dev_step E s s'"
| step_prepare: "dev_at s d = Some dev \<Longrightarrow> r_open (refcnt dev) > 0 \<Longrightarrow>
    device_prepare E (Some d) s = Some (r, s') \<Longrightarrow> dev_step E s s'"
| step_start: "dev_at s d = Some dev \<Longrightarrow> device_start (Some d) s = Some (r, s') \<Longrightarrow> dev_step E s s'"
| step_stop: "dev_at s d = Some dev \<Longrightarrow> device_stop E (Some d) s = Some (r, s') \<Longrightarrow> dev_step E s s'"
| step_close: "dev_at s d = Some dev \<Longrightarrow> r_open (refcnt dev) > 0 \<Longrightarrow>
    device_close E (Some d) s = Some (r, s') \<Longrightarrow> dev_step E s s'"

inductive dev_run :: "env \<Rightarrow> agm_state \<Rightarrow> agm_state \<Rightarrow> bool" for E where
  run_refl: "dev_run E s s"
| run_step: "dev_run E s s' \<Longrightarrow> dev_step E s' s'' \<Longrightarrow> dev_run E s s''"

lemmas balanced_ops = device_open_balanced device_prepare_balanced device_start_balanced
  device_stop_balanced device_close_balanced

lemma dev_step_balanced:
  assumes "dev_step E s s'" "devs_inv E s"
  shows "\<exists>d. dev_balanced E d s s'"
  using assms
  by cases (use assms(2) balanced_ops in \<open>fastforce simp: posts_def devs_inv_def\<close>)+

lemma dev_run_inv:
  assumes "dev_run E s s'" "devs_inv E s"
  shows "devs_inv E s' \<and>
    pcm_balance E (trace s') - open_devices s' = pcm_balance E (trace s) - open_devices s"
  using assms
proof induction
  case (run_step s s' s'')
  then show ?case using dev_step_balanced [of E s' s''] dev_balanced_inv [of E _ s' s''] by auto
qed simp

end
