(* ===== verification/Agm_Frames.thy ===== *)
theory Agm_Frames
  imports Agm_Session Agm_Device_Inv
begin

text \<open>
  What an operation leaves alone. A frame is a reflexive and transitive relation between
  the states before and after; the rules that carry a frame through the control flow of an
  operation are proved once, in the locale \<open>frame_logic\<close>, and instantiated for the frames
  of the development. \<open>gframe\<close> is the frame of every operation of \<open>graph.c\<close> and
  \<open>graph_module.c\<close>: the devices and the sessions stay as they are, and no PCM device is
  opened or closed.
\<close>

section \<open>Frames through control flow\<close>

named_theorems frame_intros \<open>rules that carry a frame through an operation\<close>

lemma posts_deref: "(\<And>x. m = Some x \<Longrightarrow> posts (f x) Q) \<Longrightarrow> posts (m \<bind> f) Q"
  by (cases m) (auto simp: posts_def)

lemma posts_case_option:
  "(x = None \<Longrightarrow> posts a Q) \<Longrightarrow> (\<And>y. x = Some y \<Longrightarrow> posts (b y) Q)
    \<Longrightarrow> posts (case x of None \<Rightarrow> a | Some y \<Rightarrow> b y) Q"
  by (cases x) auto

lemma posts_case_sum:
  "(\<And>y. x = Inl y \<Longrightarrow> posts (a y) Q) \<Longrightarrow> (\<And>y. x = Inr y \<Longrightarrow> posts (b y) Q)
    \<Longrightarrow> posts (case x of Inl y \<Rightarrow> a y | Inr y \<Rightarrow> b y) Q"
  by (cases x) auto

lemma posts_pair: "posts (f a b) Q \<Longrightarrow> posts (case (a, b) of (x, y) \<Rightarrow> f x y) Q"
  by simp

lemma posts_case_prod:
  "(\<And>y z. x = (y, z) \<Longrightarrow> posts (a y z) Q) \<Longrightarrow> posts (case x of (y, z) \<Rightarrow> a y z) Q"
  "(\<And>y z. x = (y, z) \<Longrightarrow> posts (b y z s) Q) \<Longrightarrow> posts ((case x of (y, z) \<Rightarrow> b y z) s) Q"
  by (cases x, auto)+

lemma posts_SomeI: "Q r s \<Longrightarrow> posts (Some (r, s)) Q"
  by simp

lemma posts_NoneI: "posts None Q"
  by simp

lemma posts_LetI: "posts (f x) Q \<Longrightarrow> posts (let y = x in f y) Q"
  by simp

lemmas posts_flow = posts_if posts_case_option posts_case_sum posts_pair posts_case_prod
  posts_SomeI posts_NoneI posts_LetI

locale frame_logic =
  fixes F :: "agm_state \<Rightarrow> agm_state \<Rightarrow> bool"
  assumes refl: "F s s"
    and trans: "F a b \<Longrightarrow> F b c \<Longrightarrow> F a c"
begin

definition keeps :: "'a agm \<Rightarrow> bool" where
  "keeps m \<longleftrightarrow> (\<forall>s. posts (m s) (\<lambda>r s'. F s s'))"

lemma keepsI: "(\<And>s. posts (m s) (\<lambda>r s'. F s s')) \<Longrightarrow> keeps m"
  by (simp add: keeps_def)

lemma keepsD: "keeps m \<Longrightarrow> posts (m s) (\<lambda>r s'. F s s')"
  by (simp add: keeps_def)

lemma call: "keeps m \<Longrightarrow> F s0 s \<Longrightarrow> posts (m s) (\<lambda>r s'. F s0 s')"
  by (erule posts_mono [OF keepsD]) (rule trans)

lemma bind:
  "posts m (\<lambda>r s'. F s0 s') \<Longrightarrow> (\<And>r s'. F s0 s' \<Longrightarrow> posts (f (r, s')) (\<lambda>r s'. F s0 s'))
    \<Longrightarrow> posts (m \<bind> f) (\<lambda>r s'. F s0 s')"
  by (rule posts_bind)

lemma if_state: "(b \<Longrightarrow> F s0 s) \<Longrightarrow> (\<not> b \<Longrightarrow> F s0 s') \<Longrightarrow> F s0 (if b then s else s')"
  by simp

lemma keeps_each_until:
  assumes "\<And>i. keeps (f i)"
  shows "keeps (each_until f is)"
proof (rule keepsI)
  show "posts (each_until f is s) (\<lambda>r s'. F s s')" for s
  proof (induction "is" arbitrary: s)
    case (Cons i "is")
    have "posts (each_until f is s') (\<lambda>r s''. F s s'')" if "F s s'" for s'
      using that by (rule posts_mono [OF Cons.IH trans])
    then show ?case
      by (auto intro!: posts_bind [OF keepsD [OF assms]])
  qed (simp add: refl)
qed

lemma keeps_each_ret:
  assumes "\<And>i. keeps (f i)"
  shows "keeps (each_ret f is ret)"
proof (rule keepsI)
  show "posts (each_ret f is ret s) (\<lambda>r s'. F s s')" for s
  proof (induction "is" arbitrary: s ret)
    case (Cons i "is")
    have "posts (each_ret f is x s') (\<lambda>r s''. F s s'')" if "F s s'" for s' x
      using that by (rule posts_mono [OF Cons.IH trans])
    then show ?case
      by (auto intro!: posts_bind [OF keepsD [OF assms]])
  qed (simp add: refl)
qed

lemmas flow = posts_flow bind posts_deref

end

section \<open>The frame of the graph operations\<close>

text \<open>A call that does not go to a PCM device.\<close>

definition quiet :: "ext_call \<Rightarrow> bool" where
  "quiet c \<longleftrightarrow> (case c of Pcm_open a b f g \<Rightarrow> False | Pcm_is_ready h \<Rightarrow> False | Pcm_prepare h \<Rightarrow> False
     | Pcm_stop h \<Rightarrow> False | Pcm_close h \<Rightarrow> False | _ \<Rightarrow> True)"

definition grew_quietly :: "ext_call list \<Rightarrow> ext_call list \<Rightarrow> bool" where
  "grew_quietly h h' \<longleftrightarrow> (\<exists>t. h' = t @ h \<and> (\<forall>c\<in>set t. quiet c))"

definition gframe :: "agm_state \<Rightarrow> agm_state \<Rightarrow> bool" where
  "gframe s s' \<longleftrightarrow> device_list s' = device_list s \<and> num_audio_intfs s' = num_audio_intfs s
     \<and> sess_pool s' = sess_pool s \<and> sysfs_fd s' = sysfs_fd s
     \<and> agm_initialized s' = agm_initialized s \<and> grew_quietly (trace s) (trace s')"

lemma grew_quietly_refl [simp]: "grew_quietly h h"
  by (simp add: grew_quietly_def)

lemma grew_quietly_trans: "grew_quietly a b \<Longrightarrow> grew_quietly b c \<Longrightarrow> grew_quietly a c"
  unfolding grew_quietly_def by (metis Un_iff append.assoc set_append)

lemma grew_quietly_Cons: "grew_quietly a b \<Longrightarrow> quiet c \<Longrightarrow> grew_quietly a (c # b)"
  unfolding grew_quietly_def by (metis append_Cons set_ConsD)

interpretation gf: frame_logic gframe
  by unfold_locales (auto simp: gframe_def intro: grew_quietly_trans)

lemma quiet_calls [simp]:
  "quiet (Calloc n z)" "quiet (Gsl_init a)" "quiet Gsl_deinit"
  "quiet (Gsl_get_tags_with_module_info b c)"
  "quiet (Gsl_get_tagged_module_info b d)" "quiet (Gsl_get_tagged_data e d f n)" "quiet (Gsl_open b b')"
  "quiet (Gsl_close h)" "quiet (Gsl_register_event_cb h n)" "quiet (Gsl_ioctl h k)"
  "quiet (Gsl_set_custom_config h p n)" "quiet (Gsl_get_custom_config h p n)"
  "quiet (Gsl_set_config h e d f)" "quiet (Gsl_set_cal h b b')" "quiet (Gsl_write h d g)"
  "quiet (Gsl_read h d n)" "quiet Acdb_directory" "quiet (Client_cb i d j m)"
  by (simp_all add: quiet_def)

lemma gframe_xcall: "quiet c \<Longrightarrow> gframe s0 s \<Longrightarrow> posts (xcall E c s) (\<lambda>r s'. gframe s0 s')"
  by (simp add: xcall_def gframe_def grew_quietly_Cons)

lemma gframe_calloc: "gframe s0 s \<Longrightarrow> posts (calloc E n z s) (\<lambda>r s'. gframe s0 s')"
  by (simp add: calloc_def gframe_def grew_quietly_Cons)

lemma gframe_upd:
  "gframe s0 s \<Longrightarrow> gframe s0 (put_graph g x s)"
  "gframe s0 s \<Longrightarrow> gframe s0 (s\<lparr>stream_module_list := l\<rparr>)"
  "gframe s0 s \<Longrightarrow> gframe s0 (s\<lparr>hw_ep_module := l\<rparr>)"
  "gframe s0 s \<Longrightarrow> gframe s0 (s\<lparr>graphs := gs\<rparr>)"
  "gframe s0 s \<Longrightarrow> gframe s0 (s\<lparr>graphs := gs, next_graph := n\<rparr>)"
  by (simp_all add: gframe_def put_graph_def)

lemmas gframe_steps = gf.flow gf.if_state gframe_upd gframe_xcall gframe_calloc quiet_calls

lemma gframe_metadata_merge [frame_intros]:
  "gframe s0 s \<Longrightarrow> posts (metadata_merge E args s) (\<lambda>r s'. gframe s0 s')"
  unfolding metadata_merge_def Let_def
  by (rule gframe_steps | assumption)+

lemma gframe_set_custom [frame_intros]:
  "gframe s0 s \<Longrightarrow> posts (set_custom E g p z s) (\<lambda>r s'. gframe s0 s')"
  unfolding set_custom_def
  by (rule gframe_steps | assumption)+

lemma gframe_get_ep_data [frame_intros]:
  "gframe s0 s \<Longrightarrow> posts (get_ep_data E st md dev s) (\<lambda>r s'. gframe s0 s')"
  unfolding get_ep_data_def
  by (rule gframe_steps | assumption)+

lemma gframe_configure_ep_intf [frame_intros]:
  "gframe s0 s \<Longrightarrow> posts (configure_ep_intf E st md g s) (\<lambda>r s'. gframe s0 s')"
  unfolding configure_ep_intf_def
  by (assumption | rule gframe_steps frame_intros)+

lemma gframe_configure_slimbus_ep [frame_intros]:
  "gframe s0 s \<Longrightarrow> posts (configure_slimbus_ep E md g s) (\<lambda>r s'. gframe s0 s')"
  unfolding configure_slimbus_ep_def
  by (assumption | rule gframe_steps frame_intros)+

lemma gframe_configure_hw_ep_media_config [frame_intros]:
  "gframe s0 s \<Longrightarrow> posts (configure_hw_ep_media_config E md g s) (\<lambda>r s'. gframe s0 s')"
  unfolding configure_hw_ep_media_config_def
  by (assumption | rule gframe_steps frame_intros)+

lemma gframe_configure_hw_ep [frame_intros]:
  "gframe s0 s \<Longrightarrow> posts (configure_hw_ep E md g s) (\<lambda>r s'. gframe s0 s')"
  unfolding configure_hw_ep_def configure_codec_dma_ep_def configure_i2s_ep_def
    configure_aux_pcm_ep_def configure_tdm_ep_def
  by (assumption | rule gframe_steps frame_intros)+

lemma gframe_configure_output_media_format [frame_intros]:
  "gframe s0 s \<Longrightarrow> posts (configure_output_media_format E md g s) (\<lambda>r s'. gframe s0 s')"
  unfolding configure_output_media_format_def
  by (assumption | rule gframe_steps frame_intros)+

lemma gframe_configure_placeholder_dec [frame_intros]:
  "gframe s0 s \<Longrightarrow> posts (configure_placeholder_dec E md g s) (\<lambda>r s'. gframe s0 s')"
  unfolding configure_placeholder_dec_def
  by (assumption | rule gframe_steps frame_intros)+

lemma gframe_configure_compress_shared_mem_ep [frame_intros]:
  "gframe s0 s \<Longrightarrow> posts (configure_compress_shared_mem_ep E md g s) (\<lambda>r s'. gframe s0 s')"
  unfolding configure_compress_shared_mem_ep_def
  by (assumption | rule gframe_steps frame_intros)+

lemma gframe_configure_pcm_shared_mem_ep [frame_intros]:
  "gframe s0 s \<Longrightarrow> posts (configure_pcm_shared_mem_ep E md g s) (\<lambda>r s'. gframe s0 s')"
  unfolding configure_pcm_shared_mem_ep_def
  by (assumption | rule gframe_steps frame_intros)+

lemma gframe_configure_shared_mem_ep [frame_intros]:
  "gframe s0 s \<Longrightarrow> posts (configure_shared_mem_ep E md g s) (\<lambda>r s'. gframe s0 s')"
  unfolding configure_shared_mem_ep_def
  by (assumption | rule gframe_steps frame_intros)+

lemma gframe_spr_loop [frame_intros]:
  "gframe s0 s \<Longrightarrow> posts (spr_loop E g h z ms ret s) (\<lambda>r s'. gframe s0 s')"
proof (induction ms arbitrary: ret s)
  case (Cons m ms)
  show ?case
    unfolding spr_loop.simps
    by (assumption | rule gframe_steps frame_intros Cons.IH Cons.prems)+
qed (simp add: spr_loop.simps)

lemma gframe_configure_spr [frame_intros]:
  "gframe s0 s \<Longrightarrow> posts (configure_spr E md g s) (\<lambda>r s'. gframe s0 s')"
  unfolding configure_spr_def
  by (assumption | rule gframe_steps frame_intros)+

lemma gframe_configure_call [frame_intros]:
  "gframe s0 s \<Longrightarrow> posts (configure_call E f md g s) (\<lambda>r s'. gframe s0 s')"
  by (cases f) (simp_all add: configure_call_def frame_intros)

lemma gframe_get_acdb_files_from_directory [frame_intros]:
  "gframe s0 s \<Longrightarrow> posts (get_acdb_files_from_directory E path s) (\<lambda>r s'. gframe s0 s')"
  unfolding get_acdb_files_from_directory_def
  by (assumption | rule gframe_steps frame_intros)+

lemma gframe_graph_init [frame_intros]:
  "gframe s0 s \<Longrightarrow> posts (graph_init E path dpath s) (\<lambda>r s'. gframe s0 s')"
  unfolding graph_init_def
  by (assumption | rule gframe_steps frame_intros)+

lemma gframe_graph_deinit [frame_intros]:
  "gframe s0 s \<Longrightarrow> posts (graph_deinit E s) (\<lambda>r s'. gframe s0 s')"
  unfolding graph_deinit_def
  by (assumption | rule gframe_steps frame_intros)+

lemma gframe_configure_buffer_params [frame_intros]:
  "gframe s0 s \<Longrightarrow> posts (configure_buffer_params E g sp s) (\<lambda>r s'. gframe s0 s')"
  unfolding configure_buffer_params_def
  by (assumption | rule gframe_steps frame_intros)+

lemma gframe_graph_get_tags_with_module_info [frame_intros]:
  "gframe s0 s \<Longrightarrow> posts (graph_get_tags_with_module_info E v b s) (\<lambda>r s'. gframe s0 s')"
  unfolding graph_get_tags_with_module_info_def
  by (assumption | rule gframe_steps frame_intros)+

lemma gframe_get_tags_with_module_info [frame_intros]:
  "gframe s0 s \<Longrightarrow> posts (get_tags_with_module_info E v s) (\<lambda>r s'. gframe s0 s')"
  unfolding get_tags_with_module_info_def
  by (assumption | rule gframe_steps frame_intros)+

lemma gframe_add_to_list [frame_intros]:
  "gframe s0 s \<Longrightarrow> posts (add_to_list E n s) (\<lambda>r s'. gframe s0 s')"
proof (induction n arbitrary: s)
  case (Suc n)
  show ?case
    unfolding add_to_list.simps
    by (assumption | rule gframe_steps Suc.IH Suc.prems)+
qed simp

lemma gframe_copy_gkv [frame_intros]:
  "gframe s0 s \<Longrightarrow> posts (copy_gkv E v s) (\<lambda>r s'. gframe s0 s')"
  unfolding copy_gkv_def
  by (assumption | rule gframe_steps frame_intros)+

lemma gframe_tag_loop [frame_intros]:
  "gframe s0 s \<Longrightarrow> posts (tag_loop E v dp ts ns nh mods s) (\<lambda>r s'. gframe s0 s')"
proof (induction ts arbitrary: ns nh mods s)
  case (Cons t ts)
  show ?case
    unfolding tag_loop.simps
    by (assumption | rule gframe_steps frame_intros Cons.IH Cons.prems)+
qed simp

lemma gframe_graph_open [frame_intros]:
  "gframe s0 s \<Longrightarrow> posts (graph_open E mt sp dp s) (\<lambda>r s'. gframe s0 s')"
  unfolding graph_open_def
  by (assumption | rule gframe_steps frame_intros)+

lemma gframe_graph_close [frame_intros]:
  "gframe s0 s \<Longrightarrow> posts (graph_close E gp s) (\<lambda>r s'. gframe s0 s')"
  unfolding graph_close_def
  by (assumption | rule gframe_steps frame_intros)+

lemma gframe_set_configured:
  "set_configured g i b s = Some s' \<Longrightarrow> gframe s0 s \<Longrightarrow> gframe s0 s'"
  by (auto simp: set_configured_def gframe_upd split: bind_splits)

lemma gframe_prepare_loop [frame_intros]:
  "gframe s0 s \<Longrightarrow> posts (prepare_loop E sc g is s) (\<lambda>r s'. gframe s0 s')"
proof (induction "is" arbitrary: s)
  case (Cons i "is")
  show ?case
    unfolding prepare_loop.simps
    by (assumption | erule gframe_set_configured | rule gframe_steps frame_intros Cons.IH Cons.prems)+
qed simp

lemma gframe_graph_cmd [frame_intros]:
  "gframe s0 s \<Longrightarrow> posts (graph_cmd E g c st s) (\<lambda>r s'. gframe s0 s')"
  unfolding graph_cmd_def
  by (assumption | rule gframe_steps frame_intros)+

lemma gframe_graph_prepare [frame_intros]:
  "gframe s0 s \<Longrightarrow> posts (graph_prepare E gp s) (\<lambda>r s'. gframe s0 s')"
  unfolding graph_prepare_def
  by (assumption | rule gframe_steps frame_intros)+

lemma gframe_graph_start [frame_intros]:
  "gframe s0 s \<Longrightarrow> posts (graph_start E gp s) (\<lambda>r s'. gframe s0 s')"
  unfolding graph_start_def
  by (assumption | rule gframe_steps frame_intros)+

lemma gframe_graph_stop [frame_intros]:
  "gframe s0 s \<Longrightarrow> posts (graph_stop E gp mt s) (\<lambda>r s'. gframe s0 s')"
  unfolding graph_stop_def
  by (assumption | rule gframe_steps frame_intros)+

lemma gframe_graph_pause_resume [frame_intros]:
  "gframe s0 s \<Longrightarrow> posts (graph_pause_resume E gp b s) (\<lambda>r s'. gframe s0 s')"
  unfolding graph_pause_resume_def
  by (assumption | rule gframe_steps frame_intros)+

lemma gframe_graph_pause [frame_intros]:
  "gframe s0 s \<Longrightarrow> posts (graph_pause E gp s) (\<lambda>r s'. gframe s0 s')"
  unfolding graph_pause_def
  by (assumption | rule gframe_steps frame_intros)+

lemma gframe_graph_resume [frame_intros]:
  "gframe s0 s \<Longrightarrow> posts (graph_resume E gp s) (\<lambda>r s'. gframe s0 s')"
  unfolding graph_resume_def
  by (assumption | rule gframe_steps frame_intros)+

lemma gframe_graph_set_config [frame_intros]:
  "gframe s0 s \<Longrightarrow> posts (graph_set_config E gp bs s) (\<lambda>r s'. gframe s0 s')"
  unfolding graph_set_config_def
  by (assumption | rule gframe_steps frame_intros)+

lemma gframe_graph_get_config [frame_intros]:
  "gframe s0 s \<Longrightarrow> posts (graph_get_config E gp bs s) (\<lambda>r s'. gframe s0 s')"
  unfolding graph_get_config_def
  by (assumption | rule gframe_steps frame_intros)+

lemma gframe_graph_set_config_with_tag [frame_intros]:
  "gframe s0 s \<Longrightarrow> posts (graph_set_config_with_tag E gp v tc s) (\<lambda>r s'. gframe s0 s')"
  unfolding graph_set_config_with_tag_def
  by (assumption | rule gframe_steps frame_intros)+

lemma gframe_graph_set_cal [frame_intros]:
  "gframe s0 s \<Longrightarrow> posts (graph_set_cal E gp m s) (\<lambda>r s'. gframe s0 s')"
  unfolding graph_set_cal_def
  by (assumption | rule gframe_steps frame_intros)+

lemma gframe_graph_write [frame_intros]:
  "gframe s0 s \<Longrightarrow> posts (graph_write E gp bs s) (\<lambda>r s'. gframe s0 s')"
  unfolding graph_write_def
  by (assumption | rule gframe_steps frame_intros)+

lemma gframe_graph_read [frame_intros]:
  "gframe s0 s \<Longrightarrow> posts (graph_read E gp n s) (\<lambda>r s'. gframe s0 s')"
  unfolding graph_read_def
  by (assumption | rule gframe_steps frame_intros)+

lemma gframe_add_device_module [frame_intros]:
  "gframe s0 s \<Longrightarrow> posts (add_device_module E g mt d s) (\<lambda>r s'. gframe s0 s')"
  unfolding add_device_module_def
  by (assumption | erule gframe_set_configured | rule gframe_steps frame_intros)+

lemma gframe_change_device_module [frame_intros]:
  "gframe s0 s \<Longrightarrow> posts (change_device_module E g mt d s) (\<lambda>r s'. gframe s0 s')"
  unfolding change_device_module_def
  by (assumption | erule gframe_set_configured | rule gframe_steps frame_intros)+

lemma gframe_add_loop [frame_intros]:
  "gframe s0 s \<Longrightarrow> posts (add_loop E g is s) (\<lambda>r s'. gframe s0 s')"
proof (induction "is" arbitrary: s)
  case (Cons i "is")
  show ?case
    unfolding add_loop.simps
    by (assumption | erule gframe_set_configured | rule gframe_steps frame_intros Cons.IH Cons.prems)+
qed simp

lemma gframe_change_loop [frame_intros]:
  "gframe s0 s \<Longrightarrow> posts (change_loop E g is s) (\<lambda>r s'. gframe s0 s')"
proof (induction "is" arbitrary: s)
  case (Cons i "is")
  show ?case
    unfolding change_loop.simps
    by (assumption | erule gframe_set_configured | rule gframe_steps frame_intros Cons.IH Cons.prems)+
qed simp

lemma gframe_graph_add [frame_intros]:
  "gframe s0 s \<Longrightarrow> posts (graph_add E gp mt dp s) (\<lambda>r s'. gframe s0 s')"
  unfolding graph_add_def
  by (assumption | rule gframe_steps frame_intros)+

lemma gframe_graph_change [frame_intros]:
  "gframe s0 s \<Longrightarrow> posts (graph_change E gp mt dp s) (\<lambda>r s'. gframe s0 s')"
  unfolding graph_change_def
  by (assumption | rule gframe_steps frame_intros)+

lemma gframe_graph_remove [frame_intros]:
  "gframe s0 s \<Longrightarrow> posts (graph_remove E gp mt s) (\<lambda>r s'. gframe s0 s')"
  unfolding graph_remove_def
  by (assumption | rule gframe_steps frame_intros)+

lemma gframe_graph_register_cb [frame_intros]:
  "gframe s0 s \<Longrightarrow> posts (graph_register_cb gp b x s) (\<lambda>r s'. gframe s0 s')"
  unfolding graph_register_cb_def
  by (assumption | rule gframe_steps frame_intros)+

lemma gframe_graph_register_for_events [frame_intros]:
  "gframe s0 s \<Longrightarrow> posts (graph_register_for_events E gp cfg s) (\<lambda>r s'. gframe s0 s')"
  unfolding graph_register_for_events_def
  by (assumption | rule gframe_steps frame_intros)+

lemma gframe_graph_eos [frame_intros]:
  "gframe s0 s \<Longrightarrow> posts (graph_eos E gp s) (\<lambda>r s'. gframe s0 s')"
  unfolding graph_eos_def
  by (assumption | rule gframe_steps frame_intros)+

lemma gframe_graph_get_session_time [frame_intros]:
  "gframe s0 s \<Longrightarrow> posts (graph_get_session_time E gp s) (\<lambda>r s'. gframe s0 s')"
  unfolding graph_get_session_time_def
  by (assumption | rule gframe_steps frame_intros)+

lemma gframe_graph_get_buffer_timestamp [frame_intros]:
  "gframe s0 s \<Longrightarrow> posts (graph_get_buffer_timestamp gp s) (\<lambda>r s'. gframe s0 s')"
  unfolding graph_get_buffer_timestamp_def
  by (assumption | rule gframe_steps frame_intros)+

lemma gframe_graph_fill_buf_info [frame_intros]:
  "gframe s0 s \<Longrightarrow> posts (graph_fill_buf_info E g bi c b s) (\<lambda>r s'. gframe s0 s')"
  unfolding graph_fill_buf_info_def
  by (assumption | rule gframe_steps frame_intros)+

lemma gframe_graph_get_buf_info [frame_intros]:
  "gframe s0 s \<Longrightarrow> posts (graph_get_buf_info E gp bi fl s) (\<lambda>r s'. gframe s0 s')"
  unfolding graph_get_buf_info_def
  by (assumption | rule gframe_steps frame_intros)+

end
