(* ===== verification/Agm_Session_Api.thy ===== *)
theory Agm_Session_Api
  imports Agm_Session
begin

text \<open>
  The entry points of \<open>service/src/session_obj.c\<close> and of \<open>service/src/agm.c\<close>.

  Each entry point is one atomic step: the locks that the code takes around it are not
  modelled. A client handle is a session pointer, \<open>None\<close> for zero. A callback is a number
  that names the client's function.
\<close>

section \<open>Metadata and parameters\<close>

definition session_obj_set_sess_metadata :: "env \<Rightarrow> nat \<Rightarrow> u8 list \<Rightarrow> int agm" where
  "session_obj_set_sess_metadata E p metadata s = do {
     so \<leftarrow> sess_at s p;
     ((ret, m), s) \<leftarrow> metadata_copy E (metadata_free (sess_meta so)) metadata s;
     Some (ret, put_sess p (so\<lparr>sess_meta := m\<rparr>) s)
   }"

definition session_obj_set_sess_params :: "env \<Rightarrow> nat \<Rightarrow> u8 list \<Rightarrow> int agm" where
  "session_obj_set_sess_params E p payload s = do {
     so \<leftarrow> sess_at s p;
     (ok, s) \<leftarrow> calloc E 1 (length payload) s;
     if \<not> ok then Some (- EINVAL, put_sess p (so\<lparr>s_params := None\<rparr>) s)
     else if s_state so = SESSION_CLOSED
     then Some (0, put_sess p (so\<lparr>s_params := Some payload\<rparr>) s)
     else do {
       (ret, s) \<leftarrow> graph_set_config E (graph so) payload s;
       Some (ret, put_sess p (so\<lparr>s_params := None\<rparr>) s)
     }
   }"

definition session_obj_set_sess_aif_params :: "env \<Rightarrow> nat \<Rightarrow> u32 \<Rightarrow> u8 list \<Rightarrow> int agm" where
  "session_obj_set_sess_aif_params E p x payload s = do {
     ((ret, i), s) \<leftarrow> aif_obj_get E p x s;
     if ret \<noteq> 0 then Some (ret, s)
     else do {
       so \<leftarrow> sess_at s p;
       a \<leftarrow> aif_at s p i;
       (ok, s) \<leftarrow> calloc E 1 (length payload) s;
       if \<not> ok then Some (- EINVAL, put_aif p i (a\<lparr>a_params := None\<rparr>) s)
       else if s_state so \<noteq> SESSION_CLOSED \<and> AIF_OPENED \<le> a_state a then do {
         (ret, s) \<leftarrow> graph_set_config E (graph so) payload s;
         Some (ret, put_aif p i (a\<lparr>a_params := None\<rparr>) s)
       } else Some (0, put_aif p i (a\<lparr>a_params := Some payload\<rparr>) s)
     }
   }"

definition session_obj_set_sess_aif_params_with_tag ::
    "env \<Rightarrow> nat \<Rightarrow> u32 \<Rightarrow> agm_tag_config \<Rightarrow> int agm" where
  "session_obj_set_sess_aif_params_with_tag E p x tc s = do {
     ((ret, i), s) \<leftarrow> aif_obj_get E p x s;
     if ret \<noteq> 0 then Some (ret, s)
     else do {
       so \<leftarrow> sess_at s p;
       a \<leftarrow> aif_at s p i;
       if s_state so = SESSION_CLOSED \<and> a_state a < AIF_OPENED then Some (- EINVAL, s)
       else do {
         (mm, s) \<leftarrow> merge_sess_aif_dev E p i s;
         case mm of None \<Rightarrow> Some (- ENOMEM, s)
         | Some m \<Rightarrow> graph_set_config_with_tag E (graph so) (Some (gkv m)) tc s
       }
     }
   }"

text \<open>The calibration keys are updated in all three metadata before they are merged.\<close>

definition session_obj_set_sess_aif_cal ::
    "env \<Rightarrow> nat \<Rightarrow> u32 \<Rightarrow> agm_key_value list \<Rightarrow> int agm" where
  "session_obj_set_sess_aif_cal E p x cal s = do {
     ((ret, i), s) \<leftarrow> aif_obj_get E p x s;
     if ret \<noteq> 0 then Some (ret, s)
     else do {
       so \<leftarrow> sess_at s p;
       a \<leftarrow> aif_at s p i;
       if s_state so = SESSION_CLOSED \<or> a_state a < AIF_OPENED then Some (- EINVAL, s)
       else do {
         sm \<leftarrow> metadata_update_cal (sess_meta so) cal;
         am \<leftarrow> metadata_update_cal (sess_aif_meta a) cal;
         d \<leftarrow> a_dev_obj a;
         dev \<leftarrow> dev_at s d;
         dm \<leftarrow> metadata_update_cal (d_metadata dev) cal;
         let s = put_dev d (dev\<lparr>d_metadata := dm\<rparr>)
                   (put_aif p i (a\<lparr>sess_aif_meta := am\<rparr>) (put_sess p (so\<lparr>sess_meta := sm\<rparr>) s));
         (mm, s) \<leftarrow> merge_sess_aif_dev E p i s;
         case mm of None \<Rightarrow> Some (- ENOMEM, s)
         | Some m \<Rightarrow> graph_set_cal E (graph so) m s
       }
     }
   }"

definition session_obj_set_sess_aif_metadata :: "env \<Rightarrow> nat \<Rightarrow> u32 \<Rightarrow> u8 list \<Rightarrow> int agm" where
  "session_obj_set_sess_aif_metadata E p x metadata s = do {
     ((ret, i), s) \<leftarrow> aif_obj_get E p x s;
     if ret \<noteq> 0 then Some (ret, s)
     else do {
       a \<leftarrow> aif_at s p i;
       ((ret, m), s) \<leftarrow> metadata_copy E (metadata_free (sess_aif_meta a)) metadata s;
       Some (ret, put_aif p i (a\<lparr>sess_aif_meta := m\<rparr>) s)
     }
   }"

definition session_obj_get_sess_params :: "env \<Rightarrow> nat \<Rightarrow> u8 list \<Rightarrow> (int \<times> u8 list) agm" where
  "session_obj_get_sess_params E p payload s = do {
     so \<leftarrow> sess_at s p;
     if s_state so \<noteq> SESSION_CLOSED then graph_get_config E (graph so) payload s
     else Some ((0, payload), s)
   }"

text \<open>\<open>None\<close> in the second component: nothing was written through the pointers.\<close>

definition session_obj_get_tag_with_module_info ::
    "env \<Rightarrow> nat \<Rightarrow> u32 \<Rightarrow> bool \<Rightarrow> (int \<times> (tag_entry list \<times> nat) option) agm" where
  "session_obj_get_tag_with_module_info E p x buf s = do {
     ((ret, i), s) \<leftarrow> aif_obj_get E p x s;
     if ret \<noteq> 0 then Some ((ret, None), s)
     else do {
       (mm, s) \<leftarrow> merge_sess_aif_dev E p i s;
       case mm of None \<Rightarrow> Some ((- ENOMEM, None), s)
       | Some m \<Rightarrow> do {
           ((ret, tags, n), s) \<leftarrow> graph_get_tags_with_module_info E (gkv m) buf s;
           Some ((ret, Some (tags, n)), s)
         }
     }
   }"

section \<open>Callbacks\<close>

definition session_obj_register_cb ::
    "env \<Rightarrow> nat \<Rightarrow> nat option \<Rightarrow> event_type \<Rightarrow> nat \<Rightarrow> int agm" where
  "session_obj_register_cb E p cb evt_type client_data s = do {
     so \<leftarrow> sess_at s p;
     (ok, s) \<leftarrow> calloc E 1 40 s;
     if \<not> ok then Some (- ENOMEM, s)
     else case cb of
       Some f \<Rightarrow> Some (0, put_sess p (so\<lparr>cb_pool := cb_pool so
          @ [\<lparr>cb_fn = f, cb_evt_type = evt_type, cb_client_data = client_data\<rparr>]\<rparr>) s)
     | None \<Rightarrow> Some (0, put_sess p (so\<lparr>cb_pool :=
          filter (\<lambda>c. \<not> (cb_evt_type c = evt_type \<and> cb_client_data c = client_data)) (cb_pool so)\<rparr>) s)
   }"

definition session_obj_register_for_events ::
    "env \<Rightarrow> nat \<Rightarrow> agm_event_reg_cfg option \<Rightarrow> int agm" where
  "session_obj_register_for_events E p cfg s = do {
     so \<leftarrow> sess_at s p;
     if s_state so = SESSION_CLOSED then Some (- EINVAL, s)
     else graph_register_for_events E (graph so) cfg s
   }"

section \<open>The session state machine\<close>

text \<open>Connect the AIF, then prepare and start as far as the session is; unwind on an error.\<close>

definition connect_aif_to :: "env \<Rightarrow> nat \<Rightarrow> nat \<Rightarrow> nat \<Rightarrow> session_state \<Rightarrow> int agm" where
  "connect_aif_to E p i opened_count st s = do {
     (ret, s) \<leftarrow> session_connect_aif E p i opened_count s;
     if ret \<noteq> 0 then Some (ret, s)
     else do {
       s \<leftarrow> set_aif_state p i AIF_OPENED s;
       if st = SESSION_OPENED then Some (0, s)
       else do {
         (ret, s) \<leftarrow> session_prepare E p s;
         (ret, s) \<leftarrow> (if ret = 0 \<and> st = SESSION_STARTED then session_start E p s else Some (ret, s));
         if ret = 0 then Some (0, s)
         else do {
           (_, s) \<leftarrow> session_disconnect_aif E p i (opened_count + 1) s;
           Some (ret, s)
         }
       }
     }
   }"

definition session_obj_sess_aif_connect :: "env \<Rightarrow> nat \<Rightarrow> u32 \<Rightarrow> bool \<Rightarrow> int agm" where
  "session_obj_sess_aif_connect E p x conn s = do {
     ((ret, i), s) \<leftarrow> aif_obj_get E p x s;
     if ret \<noteq> 0 then Some (ret, s)
     else do {
       so \<leftarrow> sess_at s p;
       a \<leftarrow> aif_at s p i;
       if conn \<and> AIF_OPENED < a_state a \<or> \<not> conn \<and> a_state a < AIF_OPEN then Some (- EALREADY, s)
       else do {
         let opened_count = aif_obj_get_count_with_state so AIF_OPENED False;
         if conn then
           (if s_state so = SESSION_CLOSED
            then do { s \<leftarrow> set_aif_state p i AIF_OPEN s; Some (0, s) }
            else connect_aif_to E p i opened_count (s_state so) s)
         else do {
           s \<leftarrow> set_aif_state p i AIF_CLOSE s;
           (ret, s) \<leftarrow> (if s_state so = SESSION_CLOSED then Some (0, s)
                         else session_disconnect_aif E p i opened_count s);
           if ret \<noteq> 0 then Some (ret, s)
           else do { s \<leftarrow> set_aif_state p i AIF_CLOSED s; Some (0, s) }
         }
       }
     }
   }"

text \<open>
  Opening a closed session \<open>so\<close> at \<open>p\<close>; the handle is stored only when it is opened. A
  failure of the loopback or of the echo reference returns without closing anything.
\<close>

definition open_session :: "env \<Rightarrow> nat \<Rightarrow> session_obj \<Rightarrow> (int \<times> nat option) agm" where
  "open_session E p so s = do {
     (ret, s) \<leftarrow> session_open_with_first_device E p s;
     if ret \<noteq> 0 then Some ((ret, None), s)
     else do {
       (ret, s) \<leftarrow> session_connect_reminder_devices E p s;
       if ret \<noteq> 0 then Some ((ret, None), s)
       else do {
         (ret, s) \<leftarrow> (if loopback_state so
            then session_set_loopback E p (loopback_sess_id so) True s else Some (0, s));
         if ret \<noteq> 0 then Some ((ret, None), s)
         else do {
           (ret, s) \<leftarrow> (if ec_ref_state so
              then session_set_ec_ref E p (ec_ref_aif_id so) True s else Some (0, s));
           if ret \<noteq> 0 then Some ((ret, None), s)
           else do { s \<leftarrow> set_sess_state p SESSION_OPENED s; Some ((0, Some p), s) }
         }
       }
     }
   }"

definition session_obj_open :: "env \<Rightarrow> u32 \<Rightarrow> (int \<times> nat option) agm" where
  "session_obj_open E x s = do {
     ((ret, pp), s) \<leftarrow> session_obj_get E x s;
     if ret \<noteq> 0 then Some ((ret, None), s)
     else do {
       p \<leftarrow> pp;
       so \<leftarrow> sess_at s p;
       if s_state so \<noteq> SESSION_CLOSED then Some ((- EALREADY, None), s)
       else open_session E p so s
     }
   }"

definition session_obj_set_config ::
    "nat \<Rightarrow> agm_session_config \<Rightarrow> agm_media_config \<Rightarrow> agm_buffer_config \<Rightarrow> int agm" where
  "session_obj_set_config p sc mc bc s = do {
     so \<leftarrow> sess_at s p;
     Some (0, put_sess p (so\<lparr>stream_config := sc, s_media_config := mc, buffer_config := bc\<rparr>) s)
   }"

definition session_obj_prepare :: "env \<Rightarrow> nat \<Rightarrow> int agm" where
  "session_obj_prepare E p = session_prepare E p"

definition session_obj_start :: "env \<Rightarrow> nat \<Rightarrow> int agm" where
  "session_obj_start E p = session_start E p"

definition session_obj_stop :: "env \<Rightarrow> nat \<Rightarrow> int agm" where
  "session_obj_stop E p = session_stop E p"

definition session_obj_close :: "env \<Rightarrow> nat \<Rightarrow> int agm" where
  "session_obj_close E p = session_close E p"

definition session_obj_pause :: "env \<Rightarrow> nat \<Rightarrow> int agm" where
  "session_obj_pause E p s = do {
     so \<leftarrow> sess_at s p;
     if s_state so \<noteq> SESSION_STARTED then Some (- EINVAL, s) else graph_pause E (graph so) s
   }"

text \<open>There is no check of the state here.\<close>

definition session_obj_resume :: "env \<Rightarrow> nat \<Rightarrow> int agm" where
  "session_obj_resume E p s = do {
     so \<leftarrow> sess_at s p;
     graph_resume E (graph so) s
   }"

section \<open>Data and queries\<close>

definition session_obj_read :: "env \<Rightarrow> nat \<Rightarrow> nat \<Rightarrow> (int \<times> nat \<times> u8 list) agm" where
  "session_obj_read E p n s = do {
     so \<leftarrow> sess_at s p;
     if s_state so = SESSION_CLOSED then Some ((- EINVAL, n, []), s)
     else graph_read E (graph so) n s
   }"

definition session_obj_write :: "env \<Rightarrow> nat \<Rightarrow> u8 list \<Rightarrow> (int \<times> nat) agm" where
  "session_obj_write E p buff s = do {
     so \<leftarrow> sess_at s p;
     if s_state so = SESSION_CLOSED then Some ((- EINVAL, length buff), s)
     else graph_write E (graph so) buff s
   }"

text \<open>The error code is converted to \<open>size_t\<close>.\<close>

definition session_obj_hw_processed_buff_cnt :: "nat \<Rightarrow> u64 agm" where
  "session_obj_hw_processed_buff_cnt p s = do {
     so \<leftarrow> sess_at s p;
     if s_state so = SESSION_CLOSED then Some (word_of_int (- EINVAL), s)
     else Some (of_nat (graph_get_hw_processed_buff_cnt (graph so)), s)
   }"

definition session_obj_set_loopback :: "env \<Rightarrow> nat \<Rightarrow> u32 \<Rightarrow> bool \<Rightarrow> int agm" where
  "session_obj_set_loopback E p x st s = do {
     so \<leftarrow> sess_at s p;
     if x = loopback_sess_id so \<and> st = loopback_state so then Some (- EALREADY, s)
     else do {
       (ret, s) \<leftarrow> (if s_state so = SESSION_CLOSED then Some (0, s)
                     else session_set_loopback E p (if st then x else loopback_sess_id so) st s);
       if ret \<noteq> 0 then Some (ret, s)
       else do {
         so \<leftarrow> sess_at s p;
         Some (0, put_sess p (so\<lparr>loopback_sess_id := x, loopback_state := st\<rparr>) s)
       }
     }
   }"

definition session_obj_set_ec_ref :: "env \<Rightarrow> nat \<Rightarrow> u32 \<Rightarrow> bool \<Rightarrow> int agm" where
  "session_obj_set_ec_ref E p x st s = do {
     so \<leftarrow> sess_at s p;
     if x = ec_ref_aif_id so \<and> st = ec_ref_state so then Some (- EALREADY, s)
     else do {
       (ret, s) \<leftarrow> (if s_state so = SESSION_CLOSED then Some (0, s)
                     else session_set_ec_ref E p (if st then x else ec_ref_aif_id so) st s);
       if ret \<noteq> 0 then Some (ret, s)
       else do {
         so \<leftarrow> sess_at s p;
         Some (0, put_sess p (so\<lparr>ec_ref_aif_id := x, ec_ref_state := st\<rparr>) s)
       }
     }
   }"

definition session_obj_eos :: "env \<Rightarrow> nat \<Rightarrow> int agm" where
  "session_obj_eos E p s = do {
     so \<leftarrow> sess_at s p;
     if s_state so = SESSION_CLOSED then Some (- EINVAL, s) else graph_eos E (graph so) s
   }"

definition session_obj_get_timestamp :: "env \<Rightarrow> nat \<Rightarrow> (int \<times> u64 option) agm" where
  "session_obj_get_timestamp E p s = do {
     so \<leftarrow> sess_at s p;
     if s_state so = SESSION_CLOSED then Some ((- EINVAL, None), s)
     else graph_get_session_time E (graph so) s
   }"

definition session_obj_buffer_timestamp :: "nat \<Rightarrow> (int \<times> u64 option) agm" where
  "session_obj_buffer_timestamp p s = do {
     so \<leftarrow> sess_at s p;
     if s_state so \<noteq> SESSION_STARTED then Some ((- EINVAL, None), s)
     else graph_get_buffer_timestamp (graph so) s
   }"

definition session_obj_get_sess_buf_info ::
    "env \<Rightarrow> nat \<Rightarrow> agm_buf_info \<Rightarrow> u32 \<Rightarrow> (int \<times> agm_buf_info) agm" where
  "session_obj_get_sess_buf_info E p bi flag s = do {
     so \<leftarrow> sess_at s p;
     if s_state so = SESSION_CLOSED then Some ((- EINVAL, bi), s)
     else graph_get_buf_info E (graph so) bi flag s
   }"

section \<open>agm.c\<close>

text \<open>The ATS thread and its initialisation are outside the model.\<close>

definition agm_init :: "env \<Rightarrow> string \<Rightarrow> string \<Rightarrow> int agm" where
  "agm_init E acdb_path delta_path s =
     (if agm_initialized s then Some (0, s)
      else do {
        (ret, s) \<leftarrow> session_obj_init E acdb_path delta_path s;
        if ret \<noteq> 0 then Some (ret, s) else Some (0, s\<lparr>agm_initialized := True\<rparr>)
      })"

definition agm_deinit :: "env \<Rightarrow> int agm" where
  "agm_deinit E s =
     (if agm_initialized s then do {
        (_, s) \<leftarrow> session_obj_deinit E s;
        Some (0, s\<lparr>agm_initialized := False\<rparr>)
      } else Some (0, s))"

definition agm_get_aif_info_list ::
    "aif_info list option \<Rightarrow> u64 option \<Rightarrow> agm_state \<Rightarrow> (int \<times> aif_info list option \<times> nat option) option"
    where
  "agm_get_aif_info_list l n s =
     (case n of None \<Rightarrow> Some (- EINVAL, l, None)
      | Some k \<Rightarrow>
          if k \<noteq> 0 \<and> l = None then Some (- EINVAL, l, None)
          else do {
            (ret, l', m) \<leftarrow> device_get_aif_info_list (case l of None \<Rightarrow> [] | Some xs \<Rightarrow> xs) k s;
            Some (ret, if l = None then None else Some l', Some m)
          })"

text \<open>The functions that take an AIF id: look up the device, then call.\<close>

definition with_device :: "u32 \<Rightarrow> (nat option \<Rightarrow> int agm) \<Rightarrow> int agm" where
  "with_device x f s = do {
     ((ret, dp), s) \<leftarrow> device_get_obj x s;
     if ret \<noteq> 0 then Some (ret, s) else f dp s
   }"

definition agm_aif_set_metadata :: "env \<Rightarrow> u32 \<Rightarrow> u8 list \<Rightarrow> int agm" where
  "agm_aif_set_metadata E x metadata = with_device x (\<lambda>dp. device_set_metadata E dp metadata)"

definition agm_aif_set_media_config :: "u32 \<Rightarrow> agm_media_config option \<Rightarrow> int agm" where
  "agm_aif_set_media_config x mc = with_device x (\<lambda>dp. device_set_media_config dp mc)"

definition agm_aif_set_params :: "env \<Rightarrow> u32 \<Rightarrow> u8 list \<Rightarrow> int agm" where
  "agm_aif_set_params E x payload = with_device x (\<lambda>dp. device_set_params E dp payload)"

text \<open>The functions that take a session id: look up or create the session, then call.\<close>

definition with_session :: "env \<Rightarrow> u32 \<Rightarrow> (int \<Rightarrow> 'a) \<Rightarrow> (nat \<Rightarrow> 'a agm) \<Rightarrow> 'a agm" where
  "with_session E x err f s = do {
     ((ret, pp), s) \<leftarrow> session_obj_get E x s;
     if ret \<noteq> 0 then Some (err ret, s) else do { p \<leftarrow> pp; f p s }
   }"

definition agm_session_set_metadata :: "env \<Rightarrow> u32 \<Rightarrow> u8 list \<Rightarrow> int agm" where
  "agm_session_set_metadata E x metadata =
     with_session E x (\<lambda>r. r) (\<lambda>p. session_obj_set_sess_metadata E p metadata)"

definition agm_session_aif_set_metadata :: "env \<Rightarrow> u32 \<Rightarrow> u32 \<Rightarrow> u8 list \<Rightarrow> int agm" where
  "agm_session_aif_set_metadata E x aid metadata =
     with_session E x (\<lambda>r. r) (\<lambda>p. session_obj_set_sess_aif_metadata E p aid metadata)"

definition agm_session_aif_get_tag_module_info ::
    "env \<Rightarrow> u32 \<Rightarrow> u32 \<Rightarrow> bool \<Rightarrow> (int \<times> (tag_entry list \<times> nat) option) agm" where
  "agm_session_aif_get_tag_module_info E x aid buf =
     with_session E x (\<lambda>r. (r, None)) (\<lambda>p. session_obj_get_tag_with_module_info E p aid buf)"

definition agm_session_aif_set_cal :: "env \<Rightarrow> u32 \<Rightarrow> u32 \<Rightarrow> agm_key_value list \<Rightarrow> int agm" where
  "agm_session_aif_set_cal E x aid cal =
     with_session E x (\<lambda>r. r) (\<lambda>p. session_obj_set_sess_aif_cal E p aid cal)"

definition agm_session_aif_set_params :: "env \<Rightarrow> u32 \<Rightarrow> u32 \<Rightarrow> u8 list \<Rightarrow> int agm" where
  "agm_session_aif_set_params E x aid payload =
     with_session E x (\<lambda>r. r) (\<lambda>p. session_obj_set_sess_aif_params E p aid payload)"

definition agm_session_get_params :: "env \<Rightarrow> u32 \<Rightarrow> u8 list \<Rightarrow> (int \<times> u8 list) agm" where
  "agm_session_get_params E x payload =
     with_session E x (\<lambda>r. (r, payload)) (\<lambda>p. session_obj_get_sess_params E p payload)"

definition agm_session_set_params :: "env \<Rightarrow> u32 \<Rightarrow> u8 list \<Rightarrow> int agm" where
  "agm_session_set_params E x payload =
     with_session E x (\<lambda>r. r) (\<lambda>p. session_obj_set_sess_params E p payload)"

definition agm_set_params_with_tag :: "env \<Rightarrow> u32 \<Rightarrow> u32 \<Rightarrow> agm_tag_config \<Rightarrow> int agm" where
  "agm_set_params_with_tag E x aid tc =
     with_session E x (\<lambda>r. r) (\<lambda>p. session_obj_set_sess_aif_params_with_tag E p aid tc)"

definition agm_session_register_cb ::
    "env \<Rightarrow> u32 \<Rightarrow> nat option \<Rightarrow> event_type \<Rightarrow> nat \<Rightarrow> int agm" where
  "agm_session_register_cb E x cb evt_type client_data =
     with_session E x (\<lambda>r. r) (\<lambda>p. session_obj_register_cb E p cb evt_type client_data)"

definition agm_session_register_for_events ::
    "env \<Rightarrow> u32 \<Rightarrow> agm_event_reg_cfg option \<Rightarrow> int agm" where
  "agm_session_register_for_events E x cfg s =
     (if cfg = None then Some (- EINVAL, s)
      else with_session E x (\<lambda>r. r) (\<lambda>p. session_obj_register_for_events E p cfg) s)"

definition agm_session_aif_connect :: "env \<Rightarrow> u32 \<Rightarrow> u32 \<Rightarrow> bool \<Rightarrow> int agm" where
  "agm_session_aif_connect E x aid conn =
     with_session E x (\<lambda>r. r) (\<lambda>p. session_obj_sess_aif_connect E p aid conn)"

definition agm_session_set_loopback :: "env \<Rightarrow> u32 \<Rightarrow> u32 \<Rightarrow> bool \<Rightarrow> int agm" where
  "agm_session_set_loopback E x pb st =
     with_session E x (\<lambda>r. r) (\<lambda>p. session_obj_set_loopback E p pb st)"

definition agm_session_set_ec_ref :: "env \<Rightarrow> u32 \<Rightarrow> u32 \<Rightarrow> bool \<Rightarrow> int agm" where
  "agm_session_set_ec_ref E x aid st =
     with_session E x (\<lambda>r. r) (\<lambda>p. session_obj_set_ec_ref E p aid st)"

definition agm_session_get_buf_info ::
    "env \<Rightarrow> u32 \<Rightarrow> agm_buf_info \<Rightarrow> u32 \<Rightarrow> (int \<times> agm_buf_info) agm" where
  "agm_session_get_buf_info E x bi flag =
     with_session E x (\<lambda>r. (r, bi)) (\<lambda>p. session_obj_get_sess_buf_info E p bi flag)"

text \<open>\<open>ts\<close> tells whether the client passed a pointer for the result.\<close>

definition agm_get_buffer_timestamp :: "env \<Rightarrow> u32 \<Rightarrow> bool \<Rightarrow> (int \<times> u64 option) agm" where
  "agm_get_buffer_timestamp E x ts =
     with_session E x (\<lambda>r. (r, None))
       (\<lambda>p s. if \<not> ts then Some ((- EINVAL, None), s) else session_obj_buffer_timestamp p s)"

text \<open>The functions that take a handle.\<close>

definition with_handle :: "nat option \<Rightarrow> 'a \<Rightarrow> (nat \<Rightarrow> 'a agm) \<Rightarrow> 'a agm" where
  "with_handle h err f s = (case h of None \<Rightarrow> Some (err, s) | Some p \<Rightarrow> f p s)"

definition agm_session_open :: "env \<Rightarrow> u32 \<Rightarrow> bool \<Rightarrow> (int \<times> nat option) agm" where
  "agm_session_open E x hndl s =
     (if \<not> hndl then Some ((- EINVAL, None), s) else session_obj_open E x s)"

definition agm_session_set_config ::
    "nat option \<Rightarrow> agm_session_config \<Rightarrow> agm_media_config \<Rightarrow> agm_buffer_config \<Rightarrow> int agm" where
  "agm_session_set_config h sc mc bc =
     with_handle h (- EINVAL) (\<lambda>p. session_obj_set_config p sc mc bc)"

definition agm_session_prepare :: "env \<Rightarrow> nat option \<Rightarrow> int agm" where
  "agm_session_prepare E h = with_handle h (- EINVAL) (session_obj_prepare E)"

definition agm_session_start :: "env \<Rightarrow> nat option \<Rightarrow> int agm" where
  "agm_session_start E h = with_handle h (- EINVAL) (session_obj_start E)"

definition agm_session_stop :: "env \<Rightarrow> nat option \<Rightarrow> int agm" where
  "agm_session_stop E h = with_handle h (- EINVAL) (session_obj_stop E)"

definition agm_session_close :: "env \<Rightarrow> nat option \<Rightarrow> int agm" where
  "agm_session_close E h = with_handle h (- EINVAL) (session_obj_close E)"

definition agm_session_pause :: "env \<Rightarrow> nat option \<Rightarrow> int agm" where
  "agm_session_pause E h = with_handle h (- EINVAL) (session_obj_pause E)"

definition agm_session_resume :: "env \<Rightarrow> nat option \<Rightarrow> int agm" where
  "agm_session_resume E h = with_handle h (- EINVAL) (session_obj_resume E)"

definition agm_session_write :: "env \<Rightarrow> nat option \<Rightarrow> u8 list \<Rightarrow> (int \<times> nat) agm" where
  "agm_session_write E h buff =
     with_handle h (- EINVAL, length buff) (\<lambda>p. session_obj_write E p buff)"

definition agm_session_read :: "env \<Rightarrow> nat option \<Rightarrow> nat \<Rightarrow> (int \<times> nat \<times> u8 list) agm" where
  "agm_session_read E h n = with_handle h (- EINVAL, n, []) (\<lambda>p. session_obj_read E p n)"

definition agm_get_hw_processed_buff_cnt :: "nat option \<Rightarrow> u64 agm" where
  "agm_get_hw_processed_buff_cnt h =
     with_handle h (word_of_int (- EINVAL)) session_obj_hw_processed_buff_cnt"

definition agm_session_eos :: "env \<Rightarrow> nat option \<Rightarrow> int agm" where
  "agm_session_eos E h = with_handle h (- EINVAL) (session_obj_eos E)"

definition agm_get_session_time :: "env \<Rightarrow> nat option \<Rightarrow> bool \<Rightarrow> (int \<times> u64 option) agm" where
  "agm_get_session_time E h ts s =
     (if h = None \<or> \<not> ts then Some ((- EINVAL, None), s)
      else with_handle h (- EINVAL, None) (session_obj_get_timestamp E) s)"

definition agm_register_service_crash_callback :: int where
  "agm_register_service_crash_callback = - ENOSYS"

end
