(* ===== verification/Agm_Resources.thy ===== *)
theory Agm_Resources
  imports Agm_Frames Agm_Session_Api
begin

text \<open>
  The devices and the sessions together. An AIF that is opened, prepared, started or stopped
  holds one open reference of its device. \<open>res_inv\<close> says that the open counts of all
  devices are exactly these references (up to a debt \<open>\<delta>\<close> in the middle of an operation),
  that every device satisfies its invariant, and that the PCM handles opened and not closed
  are the open devices. The session operations keep it, so that closing the sessions gives
  every PCM handle back.
\<close>

section \<open>What the invariant depends on\<close>

definition aif_skel :: "aif \<Rightarrow> u32 \<times> aif_state \<times> nat option" where
  "aif_skel a = (aif_id a, a_state a, a_dev_obj a)"

definition sess_skel :: "session_obj \<Rightarrow> u32 \<times> session_state \<times> (u32 \<times> aif_state \<times> nat option) list" where
  "sess_skel so = (sess_id so, s_state so, map aif_skel (aif_pool so))"

definition skel :: "agm_state \<Rightarrow> (u32 \<times> session_state \<times> (u32 \<times> aif_state \<times> nat option) list) list option"
  where "skel s = map_option (map sess_skel) (sess_pool s)"

definition dev_counts :: "device_obj \<Rightarrow> refcount \<times> device_state \<times> nat option" where
  "dev_counts dev = (refcnt dev, d_state dev, pcm dev)"

definition dskel :: "agm_state \<Rightarrow> (refcount \<times> device_state \<times> nat option) option list" where
  "dskel s = map (map_option dev_counts) (device_list s)"

definition cframe :: "agm_state \<Rightarrow> agm_state \<Rightarrow> bool" where
  "cframe s s' \<longleftrightarrow> skel s' = skel s \<and> dskel s' = dskel s \<and> grew_quietly (trace s) (trace s')"

interpretation cf: frame_logic cframe
  by unfold_locales (auto simp: cframe_def intro: grew_quietly_trans)

lemma gframe_cframe: "gframe s s' \<Longrightarrow> cframe s s'"
  by (simp add: gframe_def cframe_def skel_def dskel_def)

lemma cframe_of_gframe:
  assumes "posts m (\<lambda>r s'. gframe s s')" "cframe s0 s"
  shows "posts m (\<lambda>r s'. cframe s0 s')"
  using assms(1) by (rule posts_mono) (rule cf.trans [OF assms(2) gframe_cframe])

lemmas cframe_graph_ops = frame_intros [OF gf.refl, THEN cframe_of_gframe]

lemma sess_at_Some_iff:
  "sess_at s p = Some so \<longleftrightarrow> (\<exists>pool. sess_pool s = Some pool \<and> p < length pool \<and> pool ! p = so)"
  by (auto simp: sess_at_def split: option.splits if_splits)

lemma skel_put_sess:
  assumes "sess_at s p = Some so" "sess_skel so' = sess_skel so"
  shows "skel (put_sess p so' s) = skel s"
  using assms by (auto simp: sess_at_Some_iff skel_def put_sess_def map_update list_update_same_conv)

lemma dskel_put_sess [simp]: "dskel (put_sess p so s) = dskel s"
  by (simp add: dskel_def put_sess_def)

lemma skel_put_dev [simp]: "skel (put_dev d dev s) = skel s"
  by (simp add: skel_def put_dev_def)

lemma dskel_put_dev:
  assumes "dev_at s d = Some dev" "dev_counts dev' = dev_counts dev"
  shows "dskel (put_dev d dev' s) = dskel s"
  using assms by (auto simp: dev_at_def dskel_def put_dev_def map_update list_update_same_conv
      split: if_splits)

lemma cframe_put_sess:
  "cframe s0 s \<Longrightarrow> sess_at s p = Some so \<Longrightarrow> sess_skel so' = sess_skel so
    \<Longrightarrow> cframe s0 (put_sess p so' s)"
  by (simp add: cframe_def skel_put_sess)

lemma cframe_put_dev:
  "cframe s0 s \<Longrightarrow> dev_at s d = Some dev \<Longrightarrow> dev_counts dev' = dev_counts dev
    \<Longrightarrow> cframe s0 (put_dev d dev' s)"
  by (simp add: cframe_def dskel_put_dev)

lemma aif_at_Some_iff:
  "aif_at s p i = Some a \<longleftrightarrow>
    (\<exists>so. sess_at s p = Some so \<and> i < length (aif_pool so) \<and> aif_pool so ! i = a)"
  by (auto simp: aif_at_def split: option.splits if_splits)

lemma cframe_put_aif:
  assumes "cframe s0 s" "aif_at s p i = Some a" "aif_skel a' = aif_skel a"
  shows "cframe s0 (put_aif p i a' s)"
proof -
  from assms(2) obtain so where so: "sess_at s p = Some so" "i < length (aif_pool so)"
      "aif_pool so ! i = a"
    by (auto simp: aif_at_Some_iff)
  have "sess_skel (so\<lparr>aif_pool := (aif_pool so)[i := a']\<rparr>) = sess_skel so"
    using so(2,3) assms(3) by (auto simp: sess_skel_def map_update list_update_same_conv)
  from cframe_put_sess [OF assms(1) so(1) this] so(1) show ?thesis
    by (simp add: put_aif_def)
qed

section \<open>The invariant\<close>

definition aif_holds :: "nat \<Rightarrow> u32 \<times> aif_state \<times> nat option \<Rightarrow> bool" where
  "aif_holds d a \<longleftrightarrow> AIF_OPENED \<le> fst (snd a) \<and> snd (snd a) = Some d"

definition refs_of ::
    "(u32 \<times> session_state \<times> (u32 \<times> aif_state \<times> nat option) list) list option \<Rightarrow> nat \<Rightarrow> int" where
  "refs_of sk d = (case sk of None \<Rightarrow> 0
     | Some pool \<Rightarrow> (\<Sum>so\<leftarrow>pool. \<Sum>a\<leftarrow>snd (snd so). of_bool (aif_holds d a)))"

definition aif_refs :: "agm_state \<Rightarrow> nat \<Rightarrow> int" where
  "aif_refs s d = refs_of (skel s) d"

definition res_inv :: "env \<Rightarrow> int \<Rightarrow> (nat \<Rightarrow> int) \<Rightarrow> agm_state \<Rightarrow> bool" where
  "res_inv E k \<delta> s \<longleftrightarrow> devs_inv E s \<and> pcm_balance E (trace s) - open_devices s = k
     \<and> (\<forall>d dev. dev_at s d = Some dev \<longrightarrow> r_open (refcnt dev) = aif_refs s d + \<delta> d)"

lemma pcm_balance_quiet: "grew_quietly h h' \<Longrightarrow> pcm_balance E h' = pcm_balance E h"
proof -
  have "quiet c \<Longrightarrow> pcm_balance E (c # u) = pcm_balance E u" for c u
    by (cases c) (simp_all add: quiet_def)
  then have "\<forall>c\<in>set t. quiet c \<Longrightarrow> pcm_balance E (t @ u) = pcm_balance E u" for t u
    by (induction t) (auto simp del: pcm_balance.simps(2))
  then show "grew_quietly h h' \<Longrightarrow> ?thesis" by (auto simp: grew_quietly_def)
qed

lemma dskel_dev_at:
  assumes "dskel s' = dskel s"
  shows "map_option dev_counts (dev_at s' d) = map_option dev_counts (dev_at s d)"
proof -
  from assms have "length (device_list s') = length (device_list s)"
    unfolding dskel_def by (metis length_map)
  moreover have "map_option dev_counts (device_list s' ! d) = map_option dev_counts (device_list s ! d)"
    if "d < length (device_list s)"
    using assms that calculation unfolding dskel_def by (metis nth_map)
  ultimately show ?thesis by (simp add: dev_at_def)
qed

lemma open_devices_dskel:
  "open_devices s = (\<Sum>x\<leftarrow>dskel s. case x of None \<Rightarrow> 0 | Some (r, st, h) \<Rightarrow> of_bool (r_open r \<noteq> 0))"
  unfolding open_devices_def dskel_def map_map
  by (intro arg_cong [where f = sum_list] map_cong) (auto simp: is_open_def dev_counts_def split: option.splits)

lemma dev_inv_counts: "dev_counts x = dev_counts y \<Longrightarrow> dev_inv x = dev_inv y"
  by (simp add: dev_counts_def dev_inv_def)

lemma dskel_back:
  assumes "dskel s' = dskel s" "dev_at s' d = Some dev'"
  obtains dev where "dev_at s d = Some dev" "dev_counts dev = dev_counts dev'"
  using dskel_dev_at [OF assms(1), of d] assms(2) by (cases "dev_at s d") auto

lemma res_inv_cframe:
  assumes "cframe s s'" "res_inv E k \<delta> s"
  shows "res_inv E k \<delta> s'"
proof -
  have sk: "skel s' = skel s" "dskel s' = dskel s" "pcm_balance E (trace s') = pcm_balance E (trace s)"
    using assms(1) by (auto simp: cframe_def pcm_balance_quiet)
  have "dev_inv dev' \<and> r_open (refcnt dev') = aif_refs s' d + \<delta> d" if "dev_at s' d = Some dev'" for d dev'
  proof (rule dskel_back [OF sk(2) that])
    fix dev assume dev: "dev_at s d = Some dev" "dev_counts dev = dev_counts dev'"
    have "dev_inv dev" "r_open (refcnt dev) = aif_refs s d + \<delta> d"
      using assms(2) dev(1) by (simp_all add: res_inv_def devs_inv_def)
    moreover have "refcnt dev' = refcnt dev" "aif_refs s' d = aif_refs s d"
      using dev(2) sk(1) by (simp_all add: dev_counts_def aif_refs_def)
    ultimately show ?thesis using dev_inv_counts [OF dev(2)] by simp
  qed
  then show ?thesis
    using assms(2) sk(3) by (simp add: res_inv_def devs_inv_def open_devices_dskel sk(2))
qed

section \<open>AIF states\<close>

text \<open>Replacing one AIF moves its reference from the pool to the debt.\<close>

lemma refs_of_update:
  assumes "p < length pool" "i < length (snd (snd (pool ! p)))"
  shows "refs_of (Some (pool[p := (x, st, (snd (snd (pool ! p)))[i := a])])) d =
    refs_of (Some pool) d - of_bool (aif_holds d (snd (snd (pool ! p)) ! i)) + of_bool (aif_holds d a)"
  using assms by (simp add: refs_of_def sum_list_update_int)

lemma skel_put_aif:
  assumes "aif_at s p i = Some a" "skel s = Some pool"
  shows "skel (put_aif p i a' s) = Some (pool[p := (fst (pool ! p), fst (snd (pool ! p)),
      (snd (snd (pool ! p)))[i := aif_skel a'])])"
    "p < length pool" "i < length (snd (snd (pool ! p)))" "snd (snd (pool ! p)) ! i = aif_skel a"
proof -
  from assms(1) obtain so where so: "sess_at s p = Some so" "i < length (aif_pool so)"
      "aif_pool so ! i = a"
    by (auto simp: aif_at_Some_iff)
  then obtain ss where ss: "sess_pool s = Some ss" "p < length ss" "ss ! p = so"
    by (auto simp: sess_at_Some_iff)
  from assms(2) ss(1) have pool: "pool = map sess_skel ss" by (simp add: skel_def)
  show "p < length pool" "i < length (snd (snd (pool ! p)))" "snd (snd (pool ! p)) ! i = aif_skel a"
    using so ss pool by (simp_all add: sess_skel_def)
  show "skel (put_aif p i a' s) = Some (pool[p := (fst (pool ! p), fst (snd (pool ! p)),
      (snd (snd (pool ! p)))[i := aif_skel a'])])"
    using so ss pool by (simp add: put_aif_def skel_def put_sess_def map_update sess_skel_def)
qed

lemma aif_refs_put_aif:
  assumes "aif_at s p i = Some a"
  shows "aif_refs (put_aif p i a' s) d =
    aif_refs s d - of_bool (aif_holds d (aif_skel a)) + of_bool (aif_holds d (aif_skel a'))"
proof -
  from assms obtain pool where pool: "skel s = Some pool"
    by (auto simp: aif_at_Some_iff sess_at_Some_iff skel_def)
  note sk = skel_put_aif [OF assms pool]
  show ?thesis
    unfolding aif_refs_def sk(1) pool using refs_of_update [OF sk(2,3)] sk(4) by simp
qed

lemma put_aif_frame:
  "device_list (put_aif p i a s) = device_list s" "trace (put_aif p i a s) = trace s"
  by (simp_all add: put_aif_def put_sess_def split: option.splits)

lemma res_inv_put_aif:
  assumes "res_inv E k \<delta> s" "aif_at s p i = Some a"
    and "\<And>d. \<delta>' d = \<delta> d + of_bool (aif_holds d (aif_skel a)) - of_bool (aif_holds d (aif_skel a'))"
  shows "res_inv E k \<delta>' (put_aif p i a' s)"
  using assms(1) by (auto simp: res_inv_def devs_inv_def dev_at_cong [OF put_aif_frame(1)]
      put_aif_frame(2) open_devices_def put_aif_frame(1) aif_refs_put_aif [OF assms(2)] assms(3))

text \<open>An opened AIF holds at least one reference.\<close>

lemma sum_list_nonneg_int: "(\<And>x. x \<in> set xs \<Longrightarrow> 0 \<le> (f x :: int)) \<Longrightarrow> 0 \<le> (\<Sum>x\<leftarrow>xs. f x)"
  by (induction xs) auto

lemma aif_refs_nonneg: "0 \<le> aif_refs s d"
  by (auto simp: aif_refs_def refs_of_def intro!: sum_list_nonneg_int split: option.splits)

lemma aif_refs_pos:
  assumes "aif_at s p i = Some a" "aif_holds d (aif_skel a)"
  shows "1 \<le> aif_refs s d"
  using aif_refs_put_aif [OF assms(1), of "a\<lparr>a_state := AIF_CLOSED\<rparr>" d] assms(2)
    aif_refs_nonneg [of "put_aif p i (a\<lparr>a_state := AIF_CLOSED\<rparr>) s" d]
  by (simp add: aif_holds_def aif_skel_def)

lemma aif_holds_upd [simp]:
  "aif_holds d (aif_skel (a\<lparr>a_state := st\<rparr>)) \<longleftrightarrow> AIF_OPENED \<le> st \<and> a_dev_obj a = Some d"
  by (simp add: aif_holds_def aif_skel_def)

lemma aif_at_pool: "sess_pool s' = sess_pool s \<Longrightarrow> aif_at s' p i = aif_at s p i"
  by (simp add: aif_at_def sess_at_def)

section \<open>Device operations\<close>

text \<open>A balanced operation on \<open>d\<close> that changes its open count by \<open>n\<close> and no session.\<close>

lemma res_inv_device:
  assumes "res_inv E k \<delta> s" "dev_balanced E d s s'" "sess_pool s' = sess_pool s"
    and "dev_at s d = Some dev" "dev_at s' d = Some dev'"
    and "r_open (refcnt dev') = r_open (refcnt dev) + n"
  shows "res_inv E k (\<delta>(d := \<delta> d + n)) s'"
proof -
  have inv: "devs_inv E s" "pcm_balance E (trace s) - open_devices s = k"
    using assms(1) by (auto simp: res_inv_def)
  have refs: "aif_refs s' x = aif_refs s x" for x
    using assms(3) by (simp add: aif_refs_def skel_def)
  have other: "dev_at s' x = dev_at s x" if "x \<noteq> d" for x
    using assms(2) that by (auto simp: dev_balanced_def dev_at_def)
  have "r_open (refcnt y) = aif_refs s' x + (\<delta>(d := \<delta> d + n)) x" if "dev_at s' x = Some y" for x y
    using assms(1,4,5,6) that other [of x] by (cases "x = d") (auto simp: res_inv_def refs)
  with dev_balanced_inv [OF assms(2) inv(1)] inv(2) show ?thesis by (simp add: res_inv_def)
qed

lemma device_frame_pool:
  assumes "dev_frame d s s'"
  shows "sess_pool s' = sess_pool s" "\<exists>dev dev'. dev_at s d = Some dev \<and> dev_at s' d = Some dev'"
  using dev_frameD(6,12) [OF assms] by auto

text \<open>What the operations return and do to the open count.\<close>

lemma device_open_count:
  assumes "dev_at s d = Some dev"
  shows "posts (device_open E (Some d) s) (\<lambda>r s'. \<exists>dev'. dev_at s' d = Some dev'
    \<and> r_open (refcnt dev') = r_open (refcnt dev) + of_bool (r = 0))"
proof (cases "r_open (refcnt dev) = 0")
  case False
  with assms show ?thesis by (simp add: device_open_def dev.get_put_same)
next
  case True
  show ?thesis
  proof (rule device_open_first [OF assms True, of E])
    fix s1 s2 :: agm_state and h
    let ?c = "Pcm_open (card_id dev) (pcm_id dev) (pcm_flags dev) (device_pcm_config E dev)"
    let ?ready = "h \<noteq> None \<and> rc (ext E (tl (trace s2)) (Pcm_is_ready h)) \<noteq> 0"
    assume s1: "sysfs_only s s1"
      and s2: "s2 = (if h = None then s1\<lparr>trace := ?c # trace s1\<rparr>
        else s1\<lparr>trace := Pcm_is_ready h # ?c # trace s1\<rparr>)"
      and ok: "?ready \<Longrightarrow> device_open E (Some d) s = Some (0, put_dev d
        (set_refcnt (r_open_update (\<lambda>n. n + 1)) (dev\<lparr>pcm := h, d_state := DEV_OPENED\<rparr>)) s2)"
      and bad: "\<not> ?ready \<Longrightarrow> \<exists>s3. device_open E (Some d) s = Some (- EIO, s3) \<and> sysfs_only s2 s3"
    have at2: "dev_at s2 d = Some dev"
      using assms s1 s2 sysfs_onlyD(1) [OF s1] by simp
    show ?thesis
    proof (cases ?ready)
      case True
      then show ?thesis using ok [OF True] at2 by (simp add: dev.get_put_same)
    next
      case False
      with bad obtain s3 where "device_open E (Some d) s = Some (- EIO, s3)" "sysfs_only s2 s3"
        by blast
      then show ?thesis using at2 sysfs_onlyD(1) [of s2 s3] by simp
    qed
  qed
qed

lemma device_prepare_count:
  assumes "dev_at s d = Some dev"
  shows "posts (device_prepare E (Some d) s) (\<lambda>r s'. \<exists>dev'. dev_at s' d = Some dev'
    \<and> r_open (refcnt dev') = r_open (refcnt dev))"
  using assms by (auto simp: device_prepare_def xcall_def dev.get_put_same)

lemma device_start_count:
  assumes "dev_at s d = Some dev"
  shows "posts (device_start (Some d) s) (\<lambda>r s'. \<exists>dev'. dev_at s' d = Some dev'
    \<and> r_open (refcnt dev') = r_open (refcnt dev))"
  using assms by (auto simp: device_start_def dev.get_put_same)

lemma device_stop_count:
  assumes "dev_at s d = Some dev"
  shows "posts (device_stop E (Some d) s) (\<lambda>r s'. \<exists>dev'. dev_at s' d = Some dev'
    \<and> r_open (refcnt dev') = r_open (refcnt dev))"
  using assms by (auto simp: device_stop_def xcall_def Let_def dev.get_put_same)

lemma device_close_count:
  assumes "dev_at s d = Some dev"
  shows "posts (device_close E (Some d) s) (\<lambda>r s'. \<exists>dev'. dev_at s' d = Some dev'
    \<and> r_open (refcnt dev') = r_open (refcnt dev) - 1)"
proof (cases "r_open (refcnt dev) = 1")
  case False
  with assms show ?thesis by (simp add: device_close_def Let_def dev.get_put_same)
next
  case True
  obtain s1 where s1: "sysfs_only s s1" and eq: "device_close E (Some d) s =
      Some (rc (ext E (trace s1) (Pcm_close (pcm dev))),
        put_dev d (dev\<lparr>d_state := DEV_CLOSED, refcnt := \<lparr>r_open = 0, r_prepare = 0, r_start = 0\<rparr>\<rparr>)
          (s1\<lparr>trace := Pcm_close (pcm dev) # trace s1\<rparr>))"
    by (rule device_close_last [OF assms True])
  from s1 assms have "dev_at s1 d = Some dev" by (simp add: sysfs_onlyD(1))
  then show ?thesis using eq True by (simp add: dev.get_put_same)
qed

text \<open>
  The contract of a device operation towards the sessions: it keeps the sessions, and the
  invariant with the debt of its device changed by \<open>n r\<close>, where \<open>r\<close> is its result. An
  operation may rely on its device being open.
\<close>

locale counted_device_op = device_op +
  fixes E :: env and n :: "int \<Rightarrow> int" and needs_open :: bool
  assumes op_null_dev: "dev_at s d = None \<Longrightarrow> op (Some d) s = None"
    and op_balanced: "dev_at s d = Some dev \<Longrightarrow> dev_inv dev \<Longrightarrow>
      (needs_open \<Longrightarrow> r_open (refcnt dev) > 0) \<Longrightarrow> posts (op (Some d) s) (\<lambda>r s'. dev_balanced E d s s')"
    and op_count: "dev_at s d = Some dev \<Longrightarrow>
      posts (op (Some d) s) (\<lambda>r s'. \<exists>dev'. dev_at s' d = Some dev'
        \<and> r_open (refcnt dev') = r_open (refcnt dev) + n r)"
begin

lemma keeps_pool: "posts (op dp s) (\<lambda>r s'. sess_pool s' = sess_pool s)"
proof (cases dp)
  case (Some d)
  show ?thesis
  proof (cases "dev_at s d = None")
    case False
    from frame [OF this] show ?thesis
      unfolding Some by (rule posts_mono [OF runs_imp_posts]) (rule device_frame_pool(1))
  qed (simp add: Some op_null_dev)
qed (simp add: null)

lemma counted:
  assumes "res_inv E k \<delta> s" "needs_open \<Longrightarrow> aif_refs s d + \<delta> d > 0"
  shows "posts (op (Some d) s) (\<lambda>r s'. res_inv E k (\<delta>(d := \<delta> d + n r)) s')"
proof (cases "dev_at s d")
  case (Some dev)
  have inv: "dev_inv dev" "r_open (refcnt dev) = aif_refs s d + \<delta> d"
    using assms(1) Some by (auto simp: res_inv_def devs_inv_def)
  have "posts (op (Some d) s) (\<lambda>r s'. dev_balanced E d s s')"
    using op_balanced [OF Some inv(1)] inv(2) assms(2) by simp
  moreover note keeps_pool [of "Some d" s] op_count [OF Some]
  ultimately show ?thesis
    unfolding posts_def using res_inv_device [OF assms(1) _ _ Some] by blast
qed (simp add: op_null_dev)

text \<open>The operation on the device of an AIF that holds it.\<close>

lemma on_held_aif:
  assumes "res_inv E k (\<lambda>d. 0) s" "aif_at s p i = Some a" "AIF_OPENED \<le> a_state a"
  shows "posts (op (a_dev_obj a) s) (\<lambda>r s'. res_inv E k (\<lambda>d. if a_dev_obj a = Some d then n r else 0) s'
    \<and> aif_at s' p i = Some a)"
proof -
  have at: "posts (op (a_dev_obj a) s) (\<lambda>r s'. aif_at s' p i = Some a)"
    by (rule posts_mono [OF keeps_pool]) (simp add: aif_at_pool assms(2))
  have "posts (op (a_dev_obj a) s) (\<lambda>r s'. res_inv E k (\<lambda>d. if a_dev_obj a = Some d then n r else 0) s')"
  proof (cases "a_dev_obj a")
    case None
    then show ?thesis using assms(1) by (simp add: null)
  next
    case (Some d)
    have "1 \<le> aif_refs s d"
      using assms(2,3) Some by (intro aif_refs_pos) (auto simp: aif_holds_def aif_skel_def)
    then have "posts (op (Some d) s) (\<lambda>r s'. res_inv E k ((\<lambda>d. 0)(d := 0 + n r)) s')"
      using assms(1) by (intro counted) simp_all
    moreover have "(\<lambda>d. 0)(d := 0 + m) = (\<lambda>x. if Some d = Some x then m else 0)" for m :: int
      by (auto simp: fun_eq_iff)
    ultimately show ?thesis unfolding Some by simp
  qed
  with at show ?thesis by (auto simp: posts_def)
qed

end

interpretation copen: counted_device_op "device_open E" E "\<lambda>r. of_bool (r = 0)" False for E
  by unfold_locales (simp_all add: device_open_balanced device_open_count, simp add: device_open_def)

interpretation cprepare: counted_device_op "device_prepare E" E "\<lambda>r. 0" True for E
  by unfold_locales (simp_all add: device_prepare_balanced device_prepare_count,
      simp add: device_prepare_def)

interpretation cstart: counted_device_op device_start E "\<lambda>r. 0" False for E
  by unfold_locales (simp_all add: device_start_balanced device_start_count,
      simp add: device_start_def)

interpretation cstop: counted_device_op "device_stop E" E "\<lambda>r. 0" False for E
  by unfold_locales (simp_all add: device_stop_balanced device_stop_count, simp add: device_stop_def)

interpretation cclose: counted_device_op "device_close E" E "\<lambda>r. - 1" True for E
  by unfold_locales (simp_all add: device_close_balanced device_close_count,
      simp add: device_close_def)

section \<open>Session operations\<close>

abbreviation (input) no_debt :: "nat \<Rightarrow> int" where "no_debt \<equiv> \<lambda>d. 0"

abbreviation inv0 :: "env \<Rightarrow> int \<Rightarrow> agm_state \<Rightarrow> bool" where
  "inv0 E k s \<equiv> res_inv E k no_debt s"

lemma each_until_inv:
  assumes "\<And>i s. I s \<Longrightarrow> posts (f i s) (\<lambda>r s'. I s')" and "I s"
  shows "posts (each_until f is s) (\<lambda>r s'. I s')"
  using assms(2)
proof (induction "is" arbitrary: s)
  case (Cons i "is")
  then show ?case by (auto intro!: posts_bind [OF assms(1)])
qed simp

lemma each_ret_inv:
  assumes "\<And>i s. I s \<Longrightarrow> posts (f i s) (\<lambda>r s'. I s')" and "I s"
  shows "posts (each_ret f is ret s) (\<lambda>r s'. I s')"
  using assms(2)
proof (induction "is" arbitrary: ret s)
  case (Cons i "is")
  then show ?case by (auto intro!: posts_bind [OF assms(1)])
qed simp

text \<open>
  A device operation that leaves the open count, followed by a change of the AIF's state
  among the states that hold a reference.
\<close>

lemma held_step:
  assumes "inv0 E k s" "aif_at s p i = Some a" "AIF_OPENED \<le> a_state a" "AIF_OPENED \<le> st"
  shows "posts (do { s \<leftarrow> set_aif_state p i st s; Some (x, s) }) (\<lambda>r s'. inv0 E k s')"
proof -
  have "inv0 E k (put_aif p i (a\<lparr>a_state := st\<rparr>) s)"
    using assms(1,2) by (rule res_inv_put_aif) (use assms(3,4) in \<open>simp add: aif_holds_def aif_skel_def\<close>)
  with assms(2) show ?thesis by (simp add: set_aif_state_def)
qed

text \<open>Closing the device of an AIF that held it, and dropping its reference.\<close>

lemma drop_step:
  assumes "res_inv E k (\<lambda>d. if a_dev_obj a = Some d then - 1 else 0) s" "aif_at s p i = Some a"
    and "AIF_OPENED \<le> a_state a" "st < AIF_OPENED"
  shows "posts (do { s \<leftarrow> set_aif_state p i st s; Some (x, s) }) (\<lambda>r s'. inv0 E k s')"
proof -
  have "inv0 E k (put_aif p i (a\<lparr>a_state := st\<rparr>) s)"
    using assms(1,2) by (rule res_inv_put_aif) (use assms(3,4) in \<open>auto simp: aif_holds_def aif_skel_def\<close>)
  with assms(2) show ?thesis by (simp add: set_aif_state_def)
qed

lemma aif_prepare_inv:
  assumes "inv0 E k s"
  shows "posts (aif_prepare E p i s) (\<lambda>r s'. inv0 E k s')"
  unfolding aif_prepare_def
  by (intro posts_deref posts_if posts_bind [OF cprepare.on_held_aif [OF assms]])
    (auto simp: assms intro!: held_step)

lemma aif_start_inv:
  assumes "inv0 E k s"
  shows "posts (aif_start p i s) (\<lambda>r s'. inv0 E k s')"
  unfolding aif_start_def
  by (intro posts_deref posts_if posts_bind [OF cstart.on_held_aif [OF assms]])
    (auto simp: assms intro!: held_step)

lemma aif_stop_inv:
  assumes "inv0 E k s" "AIF_OPENED \<le> st"
  shows "posts (aif_stop E p st i s) (\<lambda>r s'. inv0 E k s')"
  unfolding aif_stop_def
  by (intro posts_deref posts_if posts_bind [OF cstop.on_held_aif [OF assms(1)]])
    (use assms in \<open>auto intro!: held_step\<close>)

lemma aif_close_inv:
  assumes "inv0 E k s"
  shows "posts (aif_close E p i s) (\<lambda>r s'. inv0 E k s')"
  unfolding aif_close_def
  by (intro posts_deref posts_if posts_bind [OF cclose.on_held_aif [OF assms]])
    (auto simp: assms intro!: drop_step)

subsection \<open>The invariant through an operation\<close>

lemma inv_of_gframe:
  "posts m (\<lambda>r s'. gframe s s') \<Longrightarrow> res_inv E k \<delta> s \<Longrightarrow> posts m (\<lambda>r s'. res_inv E k \<delta> s')"
  by (erule posts_mono) (rule res_inv_cframe [OF gframe_cframe])

lemmas inv_graph_ops = frame_intros [OF gf.refl, THEN inv_of_gframe]

lemma inv_bind:
  "posts m (\<lambda>r s'. res_inv E k \<delta> s') \<Longrightarrow>
    (\<And>r s'. res_inv E k \<delta> s' \<Longrightarrow> posts (f (r, s')) (\<lambda>r s'. res_inv E k \<delta>' s'))
    \<Longrightarrow> posts (m \<bind> f) (\<lambda>r s'. res_inv E k \<delta>' s')"
  by (rule posts_bind)

lemma refs_of_pool:
  "aif_refs s d = (case sess_pool s of None \<Rightarrow> 0
     | Some pool \<Rightarrow> \<Sum>so\<leftarrow>pool. \<Sum>a\<leftarrow>aif_pool so. of_bool (aif_holds d (aif_skel a)))"
  by (simp add: aif_refs_def refs_of_def skel_def sess_skel_def comp_def split: option.splits)

lemma aif_refs_put_sess:
  assumes "sess_at s p = Some so" "aif_pool so' = aif_pool so"
  shows "aif_refs (put_sess p so' s) d = aif_refs s d"
  using assms by (auto simp: refs_of_pool put_sess_def sess_at_Some_iff sum_list_update_int)

lemma res_inv_put_sess:
  assumes "res_inv E k \<delta> s" "sess_at s p = Some so" "aif_pool so' = aif_pool so"
  shows "res_inv E k \<delta> (put_sess p so' s)"
proof -
  have "open_devices (put_sess p so' s) = open_devices s"
    by (simp add: open_devices_def put_sess_def)
  with assms(1) show ?thesis
    by (simp add: res_inv_def devs_inv_def aif_refs_put_sess [OF assms(2,3)])
qed

lemma inv_set_sess_state:
  "res_inv E k \<delta> s \<Longrightarrow> posts (do { s \<leftarrow> set_sess_state p st s; Some (x, s) }) (\<lambda>r s'. res_inv E k \<delta> s')"
  unfolding set_sess_state_def
  by (auto intro!: posts_deref res_inv_put_sess split: bind_splits)

text \<open>A lookup may append a fresh session, which has no AIF.\<close>

lemma inv_session_obj_get:
  assumes "res_inv E k \<delta> s"
  shows "posts (session_obj_get E x s) (\<lambda>r s'. res_inv E k \<delta> s')"
proof -
  have new: "res_inv E k \<delta> (s'\<lparr>sess_pool := Some (pool @ [new_session x])\<rparr>)"
    if "sess_pool s' = Some pool" "res_inv E k \<delta> s'" for s' pool
  proof -
    let ?s = "s'\<lparr>sess_pool := Some (pool @ [new_session x])\<rparr>"
    have "aif_refs ?s d = aif_refs s' d" for d
      using that(1) by (simp add: refs_of_pool new_session_def)
    moreover have "dev_at ?s = dev_at s'" "open_devices ?s = open_devices s'"
      by (simp_all add: dev_at_def open_devices_def fun_eq_iff)
    ultimately show ?thesis using that(2) by (simp add: res_inv_def devs_inv_def)
  qed
  have pool: "sess_pool s' = sess_pool s" "res_inv E k \<delta> s'"
    if "calloc E n z s = Some (ok, s')" for n z ok s'
    using gframe_calloc [of s s E n z] that assms res_inv_cframe [OF gframe_cframe]
    by (auto simp: posts_def gf.refl gframe_def)
  show ?thesis
    unfolding session_obj_get_def session_obj_get_from_pool_def session_obj_create_def
    using assms by (auto simp: posts_def new pool split: bind_splits option.splits if_splits)
qed

lemma inv_device_get_obj:
  "res_inv E k \<delta> s \<Longrightarrow> posts (device_get_obj x s) (\<lambda>r s'. res_inv E k \<delta> s')"
  by (auto simp: device_get_obj_def)

lemmas inv_steps = posts_flow inv_bind posts_deref inv_graph_ops inv_set_sess_state
  inv_session_obj_get inv_device_get_obj each_until_inv each_ret_inv aif_prepare_inv aif_start_inv
  aif_stop_inv aif_close_inv res_inv_put_sess

lemma inv_session_prepare:
  "inv0 E k s \<Longrightarrow> posts (session_prepare E p s) (\<lambda>r s'. inv0 E k s')"
  unfolding session_prepare_def
  by (assumption | rule inv_steps)+

lemma inv_check_loopback:
  "res_inv E k \<delta> s \<Longrightarrow> posts (check_loopback E p s) (\<lambda>r s'. res_inv E k \<delta> s')"
  unfolding check_loopback_def
  by (assumption | rule inv_steps)+

lemma inv_check_ec_ref: "res_inv E k \<delta> s \<Longrightarrow> posts (check_ec_ref p s) (\<lambda>r s'. res_inv E k \<delta> s')"
  unfolding check_ec_ref_def
  by (assumption | rule inv_steps)+

lemma inv_start_unwind:
  "inv0 E k s \<Longrightarrow> posts (start_unwind E p so ret s) (\<lambda>r s'. inv0 E k s')"
  unfolding start_unwind_def
  by (assumption | rule inv_steps | simp)+

lemma inv_session_start: "inv0 E k s \<Longrightarrow> posts (session_start E p s) (\<lambda>r s'. inv0 E k s')"
  unfolding session_start_def
  by (assumption | rule inv_steps inv_check_loopback inv_check_ec_ref inv_start_unwind)+

lemma inv_session_stop: "inv0 E k s \<Longrightarrow> posts (session_stop E p s) (\<lambda>r s'. inv0 E k s')"
  unfolding session_stop_def
  by (assumption | rule inv_steps | simp; fail)+

lemma inv_session_close: "inv0 E k s \<Longrightarrow> posts (session_close E p s) (\<lambda>r s'. inv0 E k s')"
  unfolding session_close_def
  by (assumption | rule inv_steps | simp; fail)+

subsection \<open>Connecting and disconnecting\<close>

lemma calloc_posts_ok: "alloc_ok E \<Longrightarrow> posts (calloc E n z s) (\<lambda>r s'. r)"
  by (simp add: calloc_def alloc_okD)

lemma merge_alloc_ok:
  assumes "alloc_ok E"
  shows "posts (metadata_merge E args s) (\<lambda>r s'. r \<noteq> None)"
  unfolding metadata_merge_def Let_def
  by (rule posts_pair posts_if posts_SomeI posts_bind [OF calloc_posts_ok [OF assms]] posts_deref
      | (simp; fail))+

lemma gframe_merge_sess_aif_dev [frame_intros]:
  "gframe s0 s \<Longrightarrow> posts (merge_sess_aif_dev E p i s) (\<lambda>r s'. gframe s0 s')"
  unfolding merge_sess_aif_dev_def
  by (assumption | rule gframe_steps gframe_metadata_merge)+

lemma merge_sess_aif_dev_alloc_ok:
  "alloc_ok E \<Longrightarrow> posts (merge_sess_aif_dev E p i s) (\<lambda>r s'. r \<noteq> None)"
  unfolding merge_sess_aif_dev_def
  by (rule posts_deref merge_alloc_ok | assumption)+

text \<open>The calls of a step that only needs its frame and a fact about its result.\<close>

lemma posts_both:
  "posts m P \<Longrightarrow> posts m Q \<Longrightarrow> posts m (\<lambda>r s. P r s \<and> Q r s)"
  by (simp add: posts_def)

lemma aif_at_gframe: "gframe s s' \<Longrightarrow> aif_at s' p i = aif_at s p i"
  by (rule aif_at_pool) (simp add: gframe_def)

lemma aif_refs_gframe: "gframe s s' \<Longrightarrow> aif_refs s' d = aif_refs s d"
  by (simp add: gframe_def aif_refs_def skel_def)

lemma close_after_gframe:
  assumes "gframe s0 s" "res_inv E k \<delta> s0" "aif_refs s0 d + \<delta> d > 0"
  shows "posts (device_close E (Some d) s)
    (\<lambda>r s'. res_inv E k (\<delta>(d := \<delta> d - 1)) s' \<and> sess_pool s' = sess_pool s0)"
proof (rule posts_both)
  show "posts (device_close E (Some d) s) (\<lambda>r s'. res_inv E k (\<delta>(d := \<delta> d - 1)) s')"
    using cclose.counted [OF res_inv_cframe [OF gframe_cframe [OF assms(1)] assms(2)], of d]
      assms(3) aif_refs_gframe [OF assms(1)] by simp
  show "posts (device_close E (Some d) s) (\<lambda>r s'. sess_pool s' = sess_pool s0)"
    using assms(1) by (intro posts_mono [OF cclose.keeps_pool]) (simp add: gframe_def)
qed

lemma session_disconnect_aif_inv:
  assumes "alloc_ok E" "res_inv E k \<delta> s" "aif_at s p i = Some a" "a_dev_obj a = Some d"
    and "aif_refs s d + \<delta> d > 0"
  shows "posts (session_disconnect_aif E p i n s)
    (\<lambda>r s'. res_inv E k (\<delta>(d := \<delta> d - 1)) s' \<and> sess_pool s' = sess_pool s)"
  unfolding session_disconnect_aif_def assms(3)
proof (simp only: bind.simps, rule posts_deref)
  fix so
  let ?Q = "\<lambda>r s'. res_inv E k (\<delta>(d := \<delta> d - 1)) s' \<and> sess_pool s' = sess_pool s"
  have close: "posts (device_close E (Some d) s') ?Q" if "gframe s s'" for s'
    using that assms(2,5) by (rule close_after_gframe)
  have stop: "posts (graph_stop E gp m s' \<bind> (\<lambda>(_, s). device_close E (Some d) s)) ?Q"
    if "gframe s s'" for gp m s'
    using that by (auto intro!: posts_bind [OF gframe_graph_stop] close)
  have remove: "posts (graph_remove E gp m s' \<bind> (\<lambda>(_, s). device_close E (Some d) s)) ?Q"
    if "gframe s s'" for gp m s'
    using that by (auto intro!: posts_bind [OF gframe_graph_remove] close)
  have merge: "posts (metadata_merge E args s') (\<lambda>r s''. gframe s s'' \<and> r \<noteq> None)"
    if "gframe s s'" for args s'
    using gframe_metadata_merge [OF that] merge_alloc_ok [OF assms(1)] by (rule posts_both)
  have "posts (merge_sess_aif_dev E p i s) (\<lambda>r s'. gframe s s' \<and> r \<noteq> None)"
    using gframe_merge_sess_aif_dev [OF gf.refl] merge_sess_aif_dev_alloc_ok [OF assms(1)]
    by (rule posts_both)
  then show "posts (merge_sess_aif_dev E p i s \<bind> (\<lambda>(mm, s). case mm of None \<Rightarrow> Some (- ENOMEM, s)
     | Some m \<Rightarrow>
         if n = 1 then do {
           dm \<leftarrow> aif_dev_meta s a;
           (ms, s) \<leftarrow> metadata_merge E [Some (sess_aif_meta a), Some dm] s;
           case ms of None \<Rightarrow> Some (- ENOMEM, s)
           | Some msa \<Rightarrow> do {
               (_, s) \<leftarrow> graph_stop E (graph so) (Some (m\<lparr>sg_props := sg_props msa\<rparr>)) s;
               device_close E (a_dev_obj a) s
             }
         } else do {
           (_, s) \<leftarrow> graph_remove E (graph so) m s;
           device_close E (a_dev_obj a) s
         })) ?Q"
    unfolding assms(4)
    by (rule posts_bind) (elim conjE | assumption | rule posts_pair posts_if posts_case_option stop
        remove posts_bind [OF merge] posts_deref | simp; fail)+
qed

text \<open>The steps of \<open>session_connect_aif\<close> behind \<open>device_open\<close> change no count.\<close>

lemmas cframe_steps = posts_flow cf.bind posts_deref cframe_graph_ops

lemma cframe_connect_graph:
  "cframe s0 s \<Longrightarrow> posts (connect_graph E p m dp n s) (\<lambda>r s'. cframe s0 s')"
  unfolding connect_graph_def
  by (assumption | rule cframe_steps cframe_put_sess | (simp add: sess_skel_def; fail))+

lemma cframe_set_cached_sess_params:
  "cframe s0 s \<Longrightarrow> posts (set_cached_sess_params E p s) (\<lambda>r s'. cframe s0 s')"
  unfolding set_cached_sess_params_def
  by (assumption | rule cframe_steps cframe_put_sess | (simp add: sess_skel_def; fail))+

lemma cframe_set_cached_aif_params:
  "cframe s0 s \<Longrightarrow> posts (set_cached_aif_params E p i s) (\<lambda>r s'. cframe s0 s')"
  unfolding set_cached_aif_params_def
  by (assumption | rule cframe_steps cframe_put_aif | (simp add: aif_skel_def; fail))+

lemma cframe_set_cached_dev_params:
  "cframe s0 s \<Longrightarrow> posts (set_cached_dev_params E p d s) (\<lambda>r s'. cframe s0 s')"
  unfolding set_cached_dev_params_def
  by (assumption | rule cframe_steps cframe_put_dev | (simp add: dev_counts_def; fail))+

text \<open>A jump to a label carries an error.\<close>

definition is_error :: "connect_outcome \<Rightarrow> bool" where
  "is_error out \<longleftrightarrow> (case out of Connected \<Rightarrow> True | Goto_close_device r \<Rightarrow> r \<noteq> 0
     | Goto_graph_cleanup r \<Rightarrow> r \<noteq> 0)"

lemma posts_any: "(\<And>r s'. posts (f (r, s')) Q) \<Longrightarrow> posts (m \<bind> f) Q"
  by (cases m) (auto simp: posts_def)

lemmas error_steps = posts_pair posts_if posts_case_option posts_SomeI posts_LetI posts_any posts_deref
  posts_case_prod(2)

lemma is_error_connect_graph: "posts (connect_graph E p m dp n s) (\<lambda>r s'. is_error r)"
  unfolding connect_graph_def
  by (rule error_steps | (simp add: is_error_def; fail))+

lemma is_error_set_cached:
  "posts (set_cached_sess_params E p s) (\<lambda>r s'. is_error r)"
  "posts (set_cached_aif_params E p i s) (\<lambda>r s'. is_error r)"
  "posts (set_cached_dev_params E p d s) (\<lambda>r s'. is_error r)"
  unfolding set_cached_sess_params_def set_cached_aif_params_def set_cached_dev_params_def
  by (rule error_steps | (simp add: is_error_def; fail))+

lemma and_then_posts:
  assumes "cframe s0 s" "\<And>s. cframe s0 s \<Longrightarrow> posts (f s) (\<lambda>r s'. cframe s0 s')"
    and "\<And>s. posts (f s) (\<lambda>r s'. is_error r)"
    and "\<And>s. cframe s0 s \<Longrightarrow> posts (g s) (\<lambda>r s'. cframe s0 s' \<and> is_error r)"
  shows "posts (and_then f g s) (\<lambda>r s'. cframe s0 s' \<and> is_error r)"
  unfolding and_then_def
  by (rule posts_bind [OF posts_both [OF assms(2) [OF assms(1)] assms(3)]])
    (auto intro: assms(4) split: connect_outcome.split)

lemma connect_body_posts:
  "posts (connect_body E p i d m n s) (\<lambda>out s'. cframe s s' \<and> is_error out)"
  unfolding connect_body_def
  by (intro and_then_posts cframe_connect_graph is_error_connect_graph cframe_set_cached_sess_params
      cframe_set_cached_aif_params is_error_set_cached cf.refl
      posts_both [OF cframe_set_cached_dev_params is_error_set_cached(3)])

text \<open>One open reference of \<open>d\<close> that no AIF holds yet.\<close>

definition owes :: "nat \<Rightarrow> nat \<Rightarrow> int" where
  "owes d = (\<lambda>x. if x = d then 1 else 0)"

lemma close_owed:
  assumes "res_inv E k (owes d) s"
  shows "posts (device_close E (Some d) s) (\<lambda>r s'. skel s' = skel s \<and> inv0 E k s')"
proof (rule posts_both)
  show "posts (device_close E (Some d) s) (\<lambda>r s'. skel s' = skel s)"
    by (rule posts_mono [OF cclose.keeps_pool]) (simp add: skel_def)
  have "(owes d)(d := owes d d + - 1) = no_debt" by (auto simp: owes_def)
  with cclose.counted [OF assms, of d] aif_refs_nonneg [of s d]
  show "posts (device_close E (Some d) s) (\<lambda>r s'. inv0 E k s')" by (simp add: owes_def)
qed

lemma open_owes:
  assumes "inv0 E k s"
  shows "posts (device_open E (Some d) s) (\<lambda>r s'. skel s' = skel s
    \<and> res_inv E k (if r = 0 then owes d else no_debt) s')"
proof (rule posts_both)
  show "posts (device_open E (Some d) s) (\<lambda>r s'. skel s' = skel s)"
    by (rule posts_mono [OF copen.keeps_pool]) (simp add: skel_def)
  have "no_debt(d := 0 + of_bool (r = 0)) = (if r = 0 then owes d else no_debt)" for r :: int
    by (auto simp: owes_def)
  with copen.counted [OF assms, of d]
  show "posts (device_open E (Some d) s) (\<lambda>r s'. res_inv E k (if r = 0 then owes d else no_debt) s')"
    by simp
qed

text \<open>
  The postcondition of a connect: a success leaves one reference to be taken by the AIF, a
  failure has closed the device again; the sessions are as before.
\<close>

definition connect_post :: "env \<Rightarrow> int \<Rightarrow> nat \<Rightarrow> agm_state \<Rightarrow> int \<Rightarrow> agm_state \<Rightarrow> bool" where
  "connect_post E k d s r s' \<longleftrightarrow> skel s' = skel s
     \<and> res_inv E k (if r = 0 then owes d else no_debt) s'"

lemma res_inv_gframe: "gframe s s' \<Longrightarrow> res_inv E k \<delta> s \<Longrightarrow> res_inv E k \<delta> s'"
  by (rule res_inv_cframe [OF gframe_cframe])

lemma skel_gframe: "gframe s s' \<Longrightarrow> skel s' = skel s"
  by (simp add: gframe_def skel_def)

lemma connect_exit_posts:
  assumes "skel s' = skel s" "res_inv E k (owes d) s'" "is_error out"
  shows "posts (connect_exit E p d m n out s') (connect_post E k d s)"
proof -
  have closing: "posts (do { (_, s) \<leftarrow> device_close E (Some d) s''; Some (ret, s) })
      (connect_post E k d s)" if "skel s'' = skel s" "res_inv E k (owes d) s''" "ret \<noteq> 0" for ret s''
    by (rule posts_bind [OF close_owed [OF that(2)]]) (use that in \<open>auto simp: connect_post_def\<close>)
  have clean: "posts (if n = 0 then graph_close E gp s' else graph_remove E gp m s')
      (\<lambda>r s''. gframe s' s'')" for gp
    by (intro posts_if gframe_graph_close gframe_graph_remove gf.refl)
  show ?thesis
  proof (cases out)
    case (Goto_graph_cleanup ret)
    with assms(3) have "ret \<noteq> 0" by (simp add: is_error_def)
    then show ?thesis
      unfolding Goto_graph_cleanup connect_exit_def connect_outcome.case
      by (intro posts_deref posts_bind [OF clean])
        (auto intro!: closing res_inv_gframe [OF _ assms(2)] simp: skel_gframe assms(1))
  qed (use assms closing in \<open>auto simp: is_error_def connect_exit_def connect_post_def\<close>)
qed

lemma session_connect_aif_inv:
  assumes "inv0 E k s" "aif_at s p i = Some a" "a_dev_obj a = Some d"
  shows "posts (session_connect_aif E p i n s) (connect_post E k d s)"
proof -
  have same: "connect_post E k d s r s'" if "gframe s s'" "r \<noteq> 0" for r s'
    using that res_inv_gframe [OF that(1) assms(1)] by (simp add: connect_post_def skel_gframe)
  have body: "posts (connect_body E p i d m n s2 \<bind> (\<lambda>(out, s). connect_exit E p d m n out s))
      (connect_post E k d s)" if "skel s2 = skel s" "res_inv E k (owes d) s2" for m s2
    by (rule posts_bind [OF connect_body_posts])
      (use that res_inv_cframe [OF _ that(2)] in \<open>auto simp: cframe_def intro: connect_exit_posts\<close>)
  have opened: "posts (do { (ret, s) \<leftarrow> device_open E (Some d) s';
        if ret \<noteq> 0 then Some (ret, s)
        else do { (out, s) \<leftarrow> connect_body E p i d m n s; connect_exit E p d m n out s } })
      (connect_post E k d s)" if "gframe s s'" for m s'
    by (rule posts_bind [OF open_owes [OF res_inv_gframe [OF that assms(1)]]])
      (auto simp: skel_gframe [OF that] connect_post_def intro: body)
  show ?thesis
    unfolding session_connect_aif_def
    by (simp only: assms(2,3) bind.simps, rule posts_bind [OF gframe_merge_sess_aif_dev [OF gf.refl]],
        rule posts_pair, rule posts_case_option)
      (use same [where r = "- ENOMEM"] opened in auto)
qed

end
