(* ===== verification/Agm_Lifecycle.thy ===== *)
theory Agm_Lifecycle
  imports Agm_Resources
begin

text \<open>
  The session life cycle on top of the reference counts. \<open>oframe p\<close> is the frame of an
  operation on the session \<open>p\<close>: other sessions keep their state and their AIFs, sessions
  may be appended, and \<open>p\<close> does not fall back to closed. \<open>svc_inv\<close> adds to the counts
  that a closed session holds no device. The entry points keep it under the conditions
  stated with the step relation, and shutting the service down gives every PCM handle back.
\<close>

section \<open>The frame of an operation on one session\<close>

abbreviation (input) sk_state :: "u32 \<times> session_state \<times> (u32 \<times> aif_state \<times> nat option) list \<Rightarrow> session_state"
  where "sk_state x \<equiv> fst (snd x)"

abbreviation (input) sk_aifs ::
    "u32 \<times> session_state \<times> (u32 \<times> aif_state \<times> nat option) list \<Rightarrow> (u32 \<times> aif_state \<times> nat option) list"
  where "sk_aifs x \<equiv> snd (snd x)"

definition oframe :: "nat \<Rightarrow> agm_state \<Rightarrow> agm_state \<Rightarrow> bool" where
  "oframe p s s' \<longleftrightarrow>
     (case skel s of None \<Rightarrow> skel s' = None
      | Some xs \<Rightarrow> (\<exists>ys. skel s' = Some ys \<and> length xs \<le> length ys
          \<and> (\<forall>q<length xs. q \<noteq> p \<longrightarrow> ys ! q = xs ! q)
          \<and> (\<forall>q<length ys. length xs \<le> q \<longrightarrow> q \<noteq> p \<longrightarrow>
                sk_state (ys ! q) = SESSION_CLOSED \<and> sk_aifs (ys ! q) = [])
          \<and> (p < length xs \<longrightarrow> fst (ys ! p) = fst (xs ! p)
              \<and> map fst (sk_aifs (ys ! p)) = map fst (sk_aifs (xs ! p))
              \<and> map (snd \<circ> snd) (sk_aifs (ys ! p)) = map (snd \<circ> snd) (sk_aifs (xs ! p))
              \<and> (sk_state (xs ! p) \<noteq> SESSION_CLOSED \<longrightarrow> sk_state (ys ! p) \<noteq> SESSION_CLOSED))))"

lemma oframe_same: "skel s' = skel s \<Longrightarrow> oframe p s s'"
  by (simp add: oframe_def split: option.splits)

lemma oframe_trans:
  assumes "oframe p a b" "oframe p b c"
  shows "oframe p a c"
proof (cases "skel a")
  case None
  with assms show ?thesis by (simp add: oframe_def)
next
  case (Some xs)
  from assms(1) Some obtain ys where ys: "skel b = Some ys" "length xs \<le> length ys"
      "\<And>q. q < length xs \<Longrightarrow> q \<noteq> p \<Longrightarrow> ys ! q = xs ! q"
      "\<And>q. q < length ys \<Longrightarrow> length xs \<le> q \<Longrightarrow> q \<noteq> p \<Longrightarrow>
        sk_state (ys ! q) = SESSION_CLOSED \<and> sk_aifs (ys ! q) = []"
      "p < length xs \<Longrightarrow> fst (ys ! p) = fst (xs ! p)
        \<and> map fst (sk_aifs (ys ! p)) = map fst (sk_aifs (xs ! p))
        \<and> map (snd \<circ> snd) (sk_aifs (ys ! p)) = map (snd \<circ> snd) (sk_aifs (xs ! p))
        \<and> (sk_state (xs ! p) \<noteq> SESSION_CLOSED \<longrightarrow> sk_state (ys ! p) \<noteq> SESSION_CLOSED)"
    by (auto simp: oframe_def)
  from assms(2) ys(1) obtain zs where zs: "skel c = Some zs" "length ys \<le> length zs"
      "\<And>q. q < length ys \<Longrightarrow> q \<noteq> p \<Longrightarrow> zs ! q = ys ! q"
      "\<And>q. q < length zs \<Longrightarrow> length ys \<le> q \<Longrightarrow> q \<noteq> p \<Longrightarrow>
        sk_state (zs ! q) = SESSION_CLOSED \<and> sk_aifs (zs ! q) = []"
      "p < length ys \<Longrightarrow> fst (zs ! p) = fst (ys ! p)
        \<and> map fst (sk_aifs (zs ! p)) = map fst (sk_aifs (ys ! p))
        \<and> map (snd \<circ> snd) (sk_aifs (zs ! p)) = map (snd \<circ> snd) (sk_aifs (ys ! p))
        \<and> (sk_state (ys ! p) \<noteq> SESSION_CLOSED \<longrightarrow> sk_state (zs ! p) \<noteq> SESSION_CLOSED)"
    by (auto simp: oframe_def)
  have fresh: "sk_state (zs ! q) = SESSION_CLOSED \<and> sk_aifs (zs ! q) = []"
    if "q < length zs" "length xs \<le> q" "q \<noteq> p" for q
    using that ys(4) zs(3,4) by (cases "q < length ys") auto
  show ?thesis
    unfolding oframe_def Some option.case
    using ys(2,3,5) zs(1,2,3,5) fresh by (intro exI [of _ zs]) auto
qed

interpretation ofr: frame_logic "oframe p" for p
  by unfold_locales (auto intro: oframe_same oframe_trans)

lemma oframe_pool: "sess_pool s' = sess_pool s \<Longrightarrow> oframe p s0 s \<Longrightarrow> oframe p s0 s'"
  by (erule ofr.trans) (auto intro: oframe_same simp: skel_def)

lemma oframe_of_gframe:
  "posts m (\<lambda>r s'. gframe s s') \<Longrightarrow> oframe p s0 s \<Longrightarrow> posts m (\<lambda>r s'. oframe p s0 s')"
  by (erule posts_mono) (auto simp: gframe_def intro: oframe_pool)

lemmas oframe_graph_ops = frame_intros [OF gf.refl, THEN oframe_of_gframe]

lemma oframe_of_pool:
  "posts m (\<lambda>r s'. sess_pool s' = sess_pool s) \<Longrightarrow> oframe p s0 s \<Longrightarrow> posts m (\<lambda>r s'. oframe p s0 s')"
  by (erule posts_mono) (auto intro: oframe_pool)

lemmas oframe_device_ops = copen.keeps_pool [THEN oframe_of_pool]
  cprepare.keeps_pool [THEN oframe_of_pool] cstart.keeps_pool [THEN oframe_of_pool]
  cstop.keeps_pool [THEN oframe_of_pool] cclose.keeps_pool [THEN oframe_of_pool]

lemma oframe_set_aif_state:
  assumes "set_aif_state p i st s = Some s'" "oframe p s0 s"
  shows "oframe p s0 s'"
proof (rule ofr.trans [OF assms(2)])
  from assms(1) obtain a where a: "aif_at s p i = Some a" "s' = put_aif p i (a\<lparr>a_state := st\<rparr>) s"
    by (auto simp: set_aif_state_def split: bind_splits)
  then obtain xs where xs: "skel s = Some xs"
    by (auto simp: aif_at_Some_iff sess_at_Some_iff skel_def)
  note sk = skel_put_aif [OF a(1) xs]
  have "(map fst (sk_aifs (xs ! p)))[i := aif_id a] = map fst (sk_aifs (xs ! p))"
    "(map (snd \<circ> snd) (sk_aifs (xs ! p)))[i := a_dev_obj a] = map (snd \<circ> snd) (sk_aifs (xs ! p))"
    using sk(3,4) by (auto simp: list_update_same_conv aif_skel_def)
  then show "oframe p s s'"
    unfolding a(2) oframe_def xs option.case sk(1)
    using sk(2) by (auto simp: map_update aif_skel_def nth_list_update)
qed

lemma oframe_set_sess_state:
  assumes "set_sess_state p st s = Some s'" "st \<noteq> SESSION_CLOSED" "oframe p s0 s"
  shows "oframe p s0 s'"
proof (rule ofr.trans [OF assms(3)])
  from assms(1) obtain so where so: "sess_at s p = Some so" "s' = put_sess p (so\<lparr>s_state := st\<rparr>) s"
    by (auto simp: set_sess_state_def split: bind_splits)
  then show "oframe p s s'"
    using assms(2) by (auto simp: oframe_def sess_at_Some_iff skel_def put_sess_def sess_skel_def
        nth_list_update)
qed

lemma oframe_put_sess:
  "oframe p s0 s \<Longrightarrow> sess_at s q = Some so \<Longrightarrow> sess_skel so' = sess_skel so \<Longrightarrow>
    oframe p s0 (put_sess q so' s)"
  by (erule ofr.trans) (auto intro!: oframe_same simp: skel_put_sess)

lemma oframe_session_obj_get:
  assumes "oframe p s0 s"
  shows "posts (session_obj_get E x s) (\<lambda>r s'. oframe p s0 s')"
proof -
  have new: "oframe p s0 (s'\<lparr>sess_pool := Some (pool @ [new_session x])\<rparr>)"
    if "sess_pool s' = Some pool" "oframe p s0 s'" for s' pool
    using that(2)
  proof (rule ofr.trans)
    show "oframe p s' (s'\<lparr>sess_pool := Some (pool @ [new_session x])\<rparr>)"
      using that(1) by (auto simp: oframe_def skel_def nth_append sess_skel_def new_session_def)
  qed
  have pool: "sess_pool s' = sess_pool s" "oframe p s0 s'"
    if "calloc E n z s = Some (ok, s')" for n z ok s'
    using gframe_calloc [of s s E n z] that assms
    by (auto simp: posts_def gf.refl gframe_def intro: oframe_pool)
  show ?thesis
    unfolding session_obj_get_def session_obj_get_from_pool_def session_obj_create_def
    using assms by (auto simp: posts_def new pool split: bind_splits option.splits if_splits)
qed

lemma oframe_device_get_obj:
  "oframe p s0 s \<Longrightarrow> posts (device_get_obj x s) (\<lambda>r s'. oframe p s0 s')"
  by (auto simp: device_get_obj_def)

lemmas oframe_steps = posts_flow ofr.bind posts_deref oframe_graph_ops oframe_device_ops
  oframe_session_obj_get oframe_device_get_obj each_until_inv each_ret_inv

lemma oframe_aif_prepare: "oframe p s0 s \<Longrightarrow> posts (aif_prepare E p i s) (\<lambda>r s'. oframe p s0 s')"
  unfolding aif_prepare_def
  by (assumption | erule oframe_set_aif_state | rule oframe_steps)+

lemma oframe_aif_start: "oframe p s0 s \<Longrightarrow> posts (aif_start p i s) (\<lambda>r s'. oframe p s0 s')"
  unfolding aif_start_def
  by (assumption | erule oframe_set_aif_state | rule oframe_steps)+

lemma oframe_aif_stop: "oframe p s0 s \<Longrightarrow> posts (aif_stop E p st i s) (\<lambda>r s'. oframe p s0 s')"
  unfolding aif_stop_def
  by (assumption | erule oframe_set_aif_state | rule oframe_steps)+

lemma oframe_aif_close: "oframe p s0 s \<Longrightarrow> posts (aif_close E p i s) (\<lambda>r s'. oframe p s0 s')"
  unfolding aif_close_def
  by (assumption | erule oframe_set_aif_state | rule oframe_steps)+

lemma oframe_session_prepare:
  "oframe p s0 s \<Longrightarrow> posts (session_prepare E p s) (\<lambda>r s'. oframe p s0 s')"
  unfolding session_prepare_def
  by (assumption | erule oframe_set_sess_state | rule oframe_steps oframe_aif_prepare | simp; fail)+

lemma oframe_start_unwind:
  "oframe p s0 s \<Longrightarrow> posts (start_unwind E p so ret s) (\<lambda>r s'. oframe p s0 s')"
  unfolding start_unwind_def
  by (assumption | rule oframe_steps oframe_aif_stop)+

lemma oframe_check_loopback:
  "oframe p s0 s \<Longrightarrow> posts (check_loopback E q s) (\<lambda>r s'. oframe p s0 s')"
  unfolding check_loopback_def
  by (assumption | rule oframe_steps)+

lemma oframe_check_ec_ref: "oframe p s0 s \<Longrightarrow> posts (check_ec_ref q s) (\<lambda>r s'. oframe p s0 s')"
  unfolding check_ec_ref_def
  by (assumption | rule oframe_steps)+

lemma oframe_session_start:
  "oframe p s0 s \<Longrightarrow> posts (session_start E p s) (\<lambda>r s'. oframe p s0 s')"
  unfolding session_start_def
  by (assumption | erule oframe_set_sess_state | rule oframe_steps oframe_aif_start
      oframe_start_unwind oframe_check_loopback oframe_check_ec_ref | simp; fail)+

lemma oframe_session_stop:
  "oframe p s0 s \<Longrightarrow> posts (session_stop E p s) (\<lambda>r s'. oframe p s0 s')"
  unfolding session_stop_def
  by (assumption | erule oframe_set_sess_state | rule oframe_steps oframe_aif_stop | simp; fail)+

section \<open>A closed session holds no device\<close>

definition closed_sk :: "u32 \<times> session_state \<times> (u32 \<times> aif_state \<times> nat option) list \<Rightarrow> bool" where
  "closed_sk x \<longleftrightarrow> (sk_state x = SESSION_CLOSED \<longrightarrow> (\<forall>a\<in>set (sk_aifs x). fst (snd a) < AIF_OPENED))"

definition closed_ok :: "agm_state \<Rightarrow> bool" where
  "closed_ok s \<longleftrightarrow> (\<forall>xs. skel s = Some xs \<longrightarrow> (\<forall>x\<in>set xs. closed_sk x))"

definition svc_inv :: "env \<Rightarrow> int \<Rightarrow> agm_state \<Rightarrow> bool" where
  "svc_inv E k s \<longleftrightarrow> inv0 E k s \<and> closed_ok s"

lemma skel_nth:
  assumes "sess_at s p = Some so" "skel s = Some xs"
  shows "p < length xs" "xs ! p = sess_skel so"
  using assms by (auto simp: sess_at_Some_iff skel_def)

lemma sess_at_skel: "sess_at s p = Some so \<Longrightarrow> \<exists>xs. skel s = Some xs"
  by (auto simp: sess_at_Some_iff skel_def)

lemma closed_ok_iff: "closed_ok s \<longleftrightarrow> (\<forall>q x. sess_at s q = Some x \<longrightarrow> closed_sk (sess_skel x))"
  by (fastforce simp: closed_ok_def skel_def sess_at_Some_iff in_set_conv_nth)

lemma oframe_back:
  assumes "oframe p s s'" "q \<noteq> p" "sess_at s' q = Some y"
  shows "(\<exists>x. sess_at s q = Some x \<and> sess_skel y = sess_skel x) \<or> s_state y = SESSION_CLOSED \<and> aif_pool y = []"
proof -
  from assms(3) obtain ys where ys: "skel s' = Some ys" using sess_at_skel by blast
  note y = skel_nth [OF assms(3) ys]
  from assms(1) ys obtain xs where xs: "skel s = Some xs" by (cases "skel s") (auto simp: oframe_def)
  show ?thesis
  proof (cases "q < length xs")
    case True
    with xs obtain x where "sess_at s q = Some x" "xs ! q = sess_skel x"
      by (auto simp: skel_def sess_at_def)
    moreover have "ys ! q = xs ! q" using assms(1,2) xs ys True by (auto simp: oframe_def)
    ultimately show ?thesis using y by simp
  next
    case False
    with assms(1,2) xs ys y show ?thesis by (auto simp: oframe_def sess_skel_def)
  qed
qed

lemma closed_ok_oframe:
  assumes "oframe p s s'" "closed_ok s"
    and "\<And>so'. sess_at s' p = Some so' \<Longrightarrow> closed_sk (sess_skel so')"
  shows "closed_ok s'"
  unfolding closed_ok_iff
proof (intro allI impI)
  fix q y assume y: "sess_at s' q = Some y"
  show "closed_sk (sess_skel y)"
  proof (cases "q = p")
    case False
    from oframe_back [OF assms(1) this y] assms(2) show ?thesis
      by (auto simp: closed_ok_iff) (simp add: closed_sk_def sess_skel_def)
  qed (use y assms(3) in simp)
qed

lemma oframe_state:
  assumes "oframe p s s'" "sess_at s p = Some so" "sess_at s' p = Some so'"
  shows "s_state so \<noteq> SESSION_CLOSED \<Longrightarrow> s_state so' \<noteq> SESSION_CLOSED"
    "length (aif_pool so') = length (aif_pool so)" "sess_id so' = sess_id so"
proof -
  from assms(2) obtain xs where xs: "skel s = Some xs" using sess_at_skel by blast
  note x = skel_nth [OF assms(2) xs]
  from assms(1) xs obtain ys where ys: "skel s' = Some ys" by (auto simp: oframe_def)
  note y = skel_nth [OF assms(3) ys]
  have eq: "fst (ys ! p) = fst (xs ! p)" "map fst (sk_aifs (ys ! p)) = map fst (sk_aifs (xs ! p))"
    "sk_state (xs ! p) \<noteq> SESSION_CLOSED \<longrightarrow> sk_state (ys ! p) \<noteq> SESSION_CLOSED"
    using assms(1) xs ys x(1) by (auto simp: oframe_def)
  show "s_state so \<noteq> SESSION_CLOSED \<Longrightarrow> s_state so' \<noteq> SESSION_CLOSED" "sess_id so' = sess_id so"
    using eq(1,3) x(2) y(2) by (simp_all add: sess_skel_def)
  show "length (aif_pool so') = length (aif_pool so)"
    using arg_cong [OF eq(2), of length] x(2) y(2) by (simp add: sess_skel_def)
qed

lemma closed_ok_running:
  assumes "oframe p s s'" "closed_ok s" "sess_at s p = Some so" "s_state so \<noteq> SESSION_CLOSED"
  shows "closed_ok s'"
  using assms(1,2)
proof (rule closed_ok_oframe)
  fix so' assume "sess_at s' p = Some so'"
  then show "closed_sk (sess_skel so')"
    using oframe_state(1) [OF assms(1,3) _ assms(4)] by (simp add: closed_sk_def sess_skel_def)
qed

lemma closed_no_aifs:
  assumes "closed_ok s" "sess_at s p = Some so" "s_state so = SESSION_CLOSED"
  shows "aif_obj_get_count_with_state so AIF_OPENED False = 0"
    "\<And>i a. aif_at s p i = Some a \<Longrightarrow> a_state a < AIF_OPENED"
proof -
  from assms(2) obtain xs where xs: "skel s = Some xs" using sess_at_skel by blast
  note x = skel_nth [OF assms(2) xs]
  have "closed_sk (sess_skel so)"
    using assms(1) xs x nth_mem [OF x(1)] by (simp add: closed_ok_def)
  then have lt: "\<forall>a\<in>set (aif_pool so). a_state a < AIF_OPENED"
    using assms(3) by (auto simp: closed_sk_def sess_skel_def aif_skel_def)
  then show "aif_obj_get_count_with_state so AIF_OPENED False = 0"
    by (auto simp: aif_obj_get_count_with_state_def filter_empty_conv)
  show "a_state a < AIF_OPENED" if "aif_at s p i = Some a" for i a
    using that lt assms(2) by (auto simp: aif_at_Some_iff)
qed

text \<open>Operations on a session that do nothing when it is closed.\<close>

lemma svc_inv_running:
  assumes "svc_inv E k s" "\<And>so. sess_at s p = Some so \<Longrightarrow> s_state so = SESSION_CLOSED \<Longrightarrow>
      posts m (\<lambda>r s'. s' = s)" "sess_at s p = None \<Longrightarrow> m = None"
    and "posts m (\<lambda>r s'. inv0 E k s')" "posts m (\<lambda>r s'. oframe p s s')"
  shows "posts m (\<lambda>r s'. svc_inv E k s')"
proof (cases "sess_at s p")
  case (Some so)
  show ?thesis
  proof (cases "s_state so = SESSION_CLOSED")
    case True
    from assms(2) [OF Some True] show ?thesis by (rule posts_mono) (simp add: assms(1))
  next
    case False
    from posts_both [OF assms(4,5)] show ?thesis
      by (rule posts_mono)
        (use assms(1) closed_ok_running [OF _ _ Some False] in \<open>auto simp: svc_inv_def\<close>)
  qed
qed (simp add: assms(3))

lemma svc_session_prepare:
  assumes "svc_inv E k s"
  shows "posts (session_prepare E p s) (\<lambda>r s'. svc_inv E k s')"
proof (rule svc_inv_running [OF assms _ _ inv_session_prepare oframe_session_prepare [OF ofr.refl]])
  show "inv0 E k s" using assms by (simp add: svc_inv_def)
qed (use assms in \<open>auto simp: svc_inv_def session_prepare_def closed_no_aifs(1)\<close>)

lemma svc_session_start:
  assumes "svc_inv E k s"
  shows "posts (session_start E p s) (\<lambda>r s'. svc_inv E k s')"
proof (rule svc_inv_running [OF assms _ _ inv_session_start oframe_session_start [OF ofr.refl]])
  show "inv0 E k s" using assms by (simp add: svc_inv_def)
qed (use assms in \<open>auto simp: svc_inv_def session_start_def closed_no_aifs(1)\<close>)

lemma svc_session_stop:
  assumes "svc_inv E k s"
  shows "posts (session_stop E p s) (\<lambda>r s'. svc_inv E k s')"
proof (rule svc_inv_running [OF assms _ _ inv_session_stop oframe_session_stop [OF ofr.refl]])
  show "inv0 E k s" using assms by (simp add: svc_inv_def)
qed (use assms in \<open>auto simp: svc_inv_def session_stop_def closed_no_aifs(1)\<close>)

section \<open>Closing\<close>

text \<open>
  A loop whose iterations establish \<open>P i\<close> each, keep what earlier ones established, and
  keep an invariant.
\<close>

lemma each_ret_all:
  assumes "\<And>i s. I s \<Longrightarrow> posts (f i s) (\<lambda>r s'. I s' \<and> P i s' \<and> (\<forall>j. P j s \<longrightarrow> P j s'))" and "I s"
  shows "posts (each_ret f is ret s) (\<lambda>r s'. I s' \<and> (\<forall>i\<in>set is. P i s') \<and> (\<forall>j. P j s \<longrightarrow> P j s'))"
  using assms(2)
proof (induction "is" arbitrary: ret s)
  case (Cons i "is")
  show ?case
    unfolding each_ret.simps
  proof (rule posts_bind [OF assms(1) [OF Cons.prems]])
    fix r s' assume s': "I s' \<and> P i s' \<and> (\<forall>j. P j s \<longrightarrow> P j s')"
    then show "posts (case (r, s') of (r, s) \<Rightarrow> each_ret f is (case r of None \<Rightarrow> ret | Some x \<Rightarrow> x) s)
        (\<lambda>r s'. I s' \<and> (\<forall>i\<in>set (i # is). P i s') \<and> (\<forall>j. P j s \<longrightarrow> P j s'))"
      unfolding prod.case by (intro posts_mono [OF Cons.IH]) auto
  qed
qed simp

definition aif_below :: "nat \<Rightarrow> nat \<Rightarrow> agm_state \<Rightarrow> bool" where
  "aif_below p i s \<longleftrightarrow> (\<forall>a. aif_at s p i = Some a \<longrightarrow> a_state a < AIF_OPENED)"

lemma sess_at_put_sess:
  "sess_at s p \<noteq> None \<Longrightarrow> sess_at (put_sess p so s) q = (if q = p then Some so else sess_at s q)"
  by (rule sess.get_put)

lemma aif_at_put_aif:
  assumes "aif_at s p i = Some a"
  shows "aif_at (put_aif p i a' s) q j = (if q = p \<and> j = i then Some a' else aif_at s q j)"
proof -
  from assms obtain so where so: "sess_at s p = Some so" "i < length (aif_pool so)"
    by (auto simp: aif_at_Some_iff)
  then show ?thesis by (auto simp: put_aif_def aif_at_def sess_at_put_sess nth_list_update)
qed

lemma aif_at_set_aif_state:
  assumes "set_aif_state p i st s = Some s'"
  shows "aif_at s' q j = (if q = p \<and> j = i then map_option (a_state_update (\<lambda>_. st)) (aif_at s p i)
    else aif_at s q j)"
  using assms by (auto simp: set_aif_state_def aif_at_put_aif split: bind_splits)

lemma aif_close_below:
  "posts (aif_close E p i s) (\<lambda>r s'. aif_below p i s' \<and> (\<forall>j. aif_below p j s \<longrightarrow> aif_below p j s'))"
proof -
  have close: "posts (device_close E dp s) (\<lambda>r s'. \<forall>j. aif_at s' p j = aif_at s p j)" for dp
    by (rule posts_mono [OF cclose.keeps_pool]) (auto intro: aif_at_pool)
  show ?thesis
    unfolding aif_close_def
  proof (rule posts_deref, rule posts_if)
    fix a assume a: "aif_at s p i = Some a" "AIF_OPENED \<le> a_state a"
    show "posts (do { (ret, s) \<leftarrow> device_close E (a_dev_obj a) s; s \<leftarrow> set_aif_state p i AIF_CLOSED s;
        Some (Some ret, s) }) (\<lambda>r s'. aif_below p i s' \<and> (\<forall>j. aif_below p j s \<longrightarrow> aif_below p j s'))"
      by (rule posts_bind [OF close], rule posts_pair, rule posts_deref)
        (auto simp: aif_below_def aif_at_set_aif_state)
  qed (auto simp: aif_below_def)
qed

text \<open>The loop of \<open>session_close\<close>: afterwards no AIF of the session holds a device.\<close>

lemma aif_close_loop:
  assumes "oframe p s0 s" "inv0 E k s"
  shows "posts (each_ret (aif_close E p) is ret s)
    (\<lambda>r s'. (oframe p s0 s' \<and> inv0 E k s') \<and> (\<forall>i\<in>set is. aif_below p i s'))"
proof -
  let ?I = "\<lambda>s. oframe p s0 s \<and> inv0 E k s"
  have step: "posts (aif_close E p i s) (\<lambda>r s'. ?I s' \<and> aif_below p i s'
      \<and> (\<forall>j. aif_below p j s \<longrightarrow> aif_below p j s'))" if "?I s" for i s
    using that by (intro posts_both [OF posts_both [OF oframe_aif_close aif_close_inv]
        aif_close_below]) auto
  have "posts (each_ret (aif_close E p) is ret s) (\<lambda>r s'. ?I s'
      \<and> (\<forall>i\<in>set is. aif_below p i s') \<and> (\<forall>j. aif_below p j s \<longrightarrow> aif_below p j s'))"
    by (rule each_ret_all [where I = ?I, OF step]) (use assms in simp_all)
  then show ?thesis by (rule posts_mono) auto
qed

definition closed_post :: "env \<Rightarrow> int \<Rightarrow> nat \<Rightarrow> agm_state \<Rightarrow> agm_state \<Rightarrow> bool" where
  "closed_post E k p s s' \<longleftrightarrow> svc_inv E k s'
     \<and> (\<exists>so'. sess_at s' p = Some so' \<and> s_state so' = SESSION_CLOSED)
     \<and> (\<forall>q y. q \<noteq> p \<longrightarrow> sess_at s' q = Some y \<longrightarrow>
          (\<exists>x. sess_at s q = Some x \<and> sess_skel y = sess_skel x) \<or> s_state y = SESSION_CLOSED)"

lemma oframe_exists:
  assumes "oframe p s s'" "sess_at s q = Some x"
  obtains y where "sess_at s' q = Some y"
proof -
  from assms(2) obtain xs where xs: "skel s = Some xs" using sess_at_skel by blast
  note x = skel_nth [OF assms(2) xs]
  from assms(1) xs x obtain ys where "skel s' = Some ys" "q < length ys"
    by (fastforce simp: oframe_def)
  then show thesis using that by (auto simp: skel_def sess_at_def)
qed

lemma close_final:
  assumes "oframe p s s4" "inv0 E k s4" "closed_ok s" "sess_at s p = Some so"
    and "\<forall>i<length (aif_pool so). aif_below p i s4"
  shows "posts (do { s \<leftarrow> set_sess_state p SESSION_CLOSED s4; Some (ret, s) })
    (\<lambda>r s'. closed_post E k p s s')"
proof -
  obtain so4 where so4: "sess_at s4 p = Some so4" using oframe_exists [OF assms(1,4)] by blast
  let ?so = "so4\<lparr>s_state := SESSION_CLOSED\<rparr>" and ?s = "put_sess p (so4\<lparr>s_state := SESSION_CLOSED\<rparr>) s4"
  have len: "length (aif_pool so4) = length (aif_pool so)" by (rule oframe_state(2) [OF assms(1,4) so4])
  have below: "\<forall>a\<in>set (aif_pool so4). a_state a < AIF_OPENED"
    using assms(5) so4 len by (auto simp: in_set_conv_nth aif_below_def aif_at_Some_iff)
  have at: "sess_at ?s q = (if q = p then Some ?so else sess_at s4 q)" for q
    using so4 by (simp add: sess_at_put_sess)
  have "closed_sk (sess_skel y)" if "sess_at ?s q = Some y" for q y
  proof (cases "q = p")
    case True
    with that below show ?thesis by (auto simp: at closed_sk_def sess_skel_def aif_skel_def)
  next
    case False
    with that have "sess_at s4 q = Some y" by (simp add: at)
    from oframe_back [OF assms(1) False this] assms(3) show ?thesis
      by (auto simp: closed_ok_iff) (simp add: closed_sk_def sess_skel_def)
  qed
  then have "closed_ok ?s" by (auto simp: closed_ok_iff)
  moreover have "inv0 E k ?s" using assms(2) so4 by (rule res_inv_put_sess) simp
  moreover have "(\<exists>x. sess_at s q = Some x \<and> sess_skel y = sess_skel x) \<or> s_state y = SESSION_CLOSED"
    if "q \<noteq> p" "sess_at ?s q = Some y" for q y
    using oframe_back [OF assms(1) that(1)] that by (auto simp: at)
  ultimately show ?thesis
    using so4 by (simp add: set_sess_state_def closed_post_def svc_inv_def at)
qed

lemma close_tail:
  assumes "svc_inv E k s" "sess_at s p = Some so" "oframe p s s2" "inv0 E k s2"
  shows "posts (do { so \<leftarrow> sess_at s2 p;
      (ret, s) \<leftarrow> each_ret (aif_close E p) (aif_indices so) ret (put_sess p (so\<lparr>graph := None\<rparr>) s2);
      s \<leftarrow> set_sess_state p SESSION_CLOSED s; Some (ret, s) }) (\<lambda>r s'. closed_post E k p s s')"
proof (rule posts_deref)
  fix so2 assume so2: "sess_at s2 p = Some so2"
  let ?s = "put_sess p (so2\<lparr>graph := None\<rparr>) s2"
  have len: "length (aif_pool so2) = length (aif_pool so)" by (rule oframe_state(2) [OF assms(3,2) so2])
  have "oframe p s ?s" using assms(3) so2 by (rule oframe_put_sess) (simp add: sess_skel_def)
  moreover have "inv0 E k ?s" using assms(4) so2 by (rule res_inv_put_sess) simp
  ultimately have loop: "posts (each_ret (aif_close E p) (aif_indices so2) ret ?s) (\<lambda>r s'.
      (oframe p s s' \<and> inv0 E k s') \<and> (\<forall>i\<in>set (aif_indices so2). aif_below p i s'))"
    by (rule aif_close_loop)
  show "posts (do { (ret, s) \<leftarrow> each_ret (aif_close E p) (aif_indices so2) ret ?s;
      s \<leftarrow> set_sess_state p SESSION_CLOSED s; Some (ret, s) }) (\<lambda>r s'. closed_post E k p s s')"
    by (rule posts_bind [OF loop], rule posts_pair, rule close_final)
      (use assms(1,2) len in \<open>auto simp: svc_inv_def\<close>)
qed

lemma svc_session_close:
  assumes "svc_inv E k s"
  shows "posts (session_close E p s) (\<lambda>r s'. closed_post E k p s s')"
  unfolding session_close_def
proof (rule posts_deref, rule posts_if)
  fix so assume so: "sess_at s p = Some so" "s_state so \<noteq> SESSION_CLOSED"
  let ?J = "\<lambda>s'. oframe p s s' \<and> inv0 E k s'"
  have J: "?J s" using assms by (simp add: svc_inv_def ofr.refl)
  have stop: "posts (if b then graph_stop E gp None s' else Some (0, s')) (\<lambda>r. ?J)" if "?J s'" for b gp s'
    using that by (intro posts_both) (assumption | rule oframe_steps inv_steps | simp; fail)+
  have close: "posts (graph_close E gp s') (\<lambda>r. ?J)" if "?J s'" for gp s'
    using that by (intro posts_both) (assumption | rule oframe_steps inv_steps | simp; fail)+
  show "posts (do {
       (_, s) \<leftarrow> (if s_state so = SESSION_STARTED then graph_stop E (graph so) None s
                   else Some (0, s));
       (ret, s) \<leftarrow> graph_close E (graph so) s;
       so \<leftarrow> sess_at s p;
       (ret, s) \<leftarrow> each_ret (aif_close E p) (aif_indices so) ret (put_sess p (so\<lparr>graph := None\<rparr>) s);
       s \<leftarrow> set_sess_state p SESSION_CLOSED s;
       Some (ret, s) }) (\<lambda>r s'. closed_post E k p s s')"
    by (rule posts_bind [OF stop [OF J]], rule posts_pair, erule posts_bind [OF close],
        rule posts_pair, rule close_tail [OF assms so(1)]) simp_all
qed (use assms in \<open>auto simp: closed_post_def\<close>)

section \<open>Shutting down\<close>

definition closed_at :: "nat \<Rightarrow> agm_state \<Rightarrow> bool" where
  "closed_at q s \<longleftrightarrow> (\<forall>x. sess_at s q = Some x \<longrightarrow> s_state x = SESSION_CLOSED)"

lemma closed_post_closed_at:
  assumes "closed_post E k p s s'"
  shows "closed_at p s'" "closed_at q s \<Longrightarrow> closed_at q s'"
proof -
  show p: "closed_at p s'" using assms by (auto simp: closed_post_def closed_at_def)
  show "closed_at q s'" if "closed_at q s"
  proof (cases "q = p")
    case False
    with assms that show ?thesis
      by (fastforce simp: closed_post_def closed_at_def sess_skel_def)
  qed (simp add: p)
qed

lemma svc_close_all:
  assumes "svc_inv E k s" "sess_pool s = Some pool"
  shows "posts (each_ret (\<lambda>p s. do { (r, s) \<leftarrow> session_close E p s; Some (Some r, s) })
      [0..<length pool] ret s) (\<lambda>r s'. svc_inv E k s' \<and> (\<forall>q. closed_at q s'))"
    (is "posts (each_ret ?f _ _ _) _")
proof -
  have step: "posts (?f p s) (\<lambda>r s'. svc_inv E k s' \<and> closed_at p s'
      \<and> (\<forall>q. closed_at q s \<longrightarrow> closed_at q s'))" if "svc_inv E k s" for p s
    by (rule posts_bind [OF svc_session_close [OF that]])
      (auto simp: closed_post_closed_at, simp add: closed_post_def)
  have loop: "posts (each_ret ?f [0..<length pool] ret s) (\<lambda>r s'. svc_inv E k s'
      \<and> (\<forall>q\<in>set [0..<length pool]. closed_at q s') \<and> (\<forall>q. closed_at q s \<longrightarrow> closed_at q s'))"
    by (rule each_ret_all [where I = "svc_inv E k", OF step]) (use assms(1) in simp_all)
  have all: "\<forall>q. closed_at q s'" if "\<forall>q\<in>set [0..<length pool]. closed_at q s'"
      "\<forall>q. closed_at q s \<longrightarrow> closed_at q s'" for s'
  proof
    fix q
    have "closed_at q s" if "\<not> q < length pool"
      using that assms(2) by (simp add: closed_at_def sess_at_def)
    with that show "closed_at q s'" by (cases "q < length pool") simp_all
  qed
  show ?thesis by (rule posts_mono [OF loop]) (use all in blast)
qed

lemma sum_list_zero_int: "(\<And>x. x \<in> set xs \<Longrightarrow> f x = (0 :: int)) \<Longrightarrow> (\<Sum>x\<leftarrow>xs. f x) = 0"
  by (induction xs) auto

lemma all_closed_refs:
  assumes "closed_ok s" "\<forall>q. closed_at q s"
  shows "aif_refs s d = 0"
proof (cases "sess_pool s")
  case (Some pool)
  have "(\<Sum>a\<leftarrow>aif_pool so. of_bool (aif_holds d (aif_skel a))) = (0 :: int)" if "so \<in> set pool" for so
  proof -
    from that Some obtain q where "sess_at s q = Some so"
      by (auto simp: sess_at_Some_iff in_set_conv_nth)
    with assms have "\<forall>a\<in>set (aif_pool so). a_state a < AIF_OPENED"
      by (fastforce simp: closed_ok_iff closed_at_def closed_sk_def sess_skel_def aif_skel_def)
    then show ?thesis
      by (intro sum_list_zero_int) (auto simp: aif_holds_def aif_skel_def not_le [symmetric])
  qed
  then show ?thesis
    unfolding refs_of_pool Some option.case by (rule sum_list_zero_int)
qed (simp add: refs_of_pool)

lemma no_refs_closed:
  assumes "inv0 E k s" "\<And>d. aif_refs s d = 0"
  shows "open_devices s = 0" "pcm_balance E (trace s) = k"
proof -
  have "r_open (refcnt dev) = 0" if "Some dev \<in> set (device_list s)" for dev
  proof -
    from that obtain d where "dev_at s d = Some dev"
      unfolding in_set_conv_nth dev_at_def by (metis (full_types))
    with assms show ?thesis by (simp add: res_inv_def)
  qed
  then show "open_devices s = 0"
    unfolding open_devices_def by (intro sum_list_zero_int) (auto simp: is_open_def split: option.splits)
  with assms(1) show "pcm_balance E (trace s) = k" by (simp add: res_inv_def)
qed

lemma session_pool_free_posts:
  assumes "svc_inv E k s"
  shows "posts (session_pool_free E s) (\<lambda>r s'. pcm_balance E (trace s') = k \<and> open_devices s' = 0
    \<and> sess_pool s' = None)"
  unfolding session_pool_free_def
proof (rule posts_deref)
  fix pool assume pool: "sess_pool s = Some pool"
  show "posts (do { (_, s) \<leftarrow> each_ret (\<lambda>p s. do { (r, s) \<leftarrow> session_close E p s; Some (Some r, s) })
      [0..<length pool] 0 s; Some ((), s\<lparr>sess_pool := None\<rparr>) })
    (\<lambda>r s'. pcm_balance E (trace s') = k \<and> open_devices s' = 0 \<and> sess_pool s' = None)"
    by (rule posts_bind [OF svc_close_all [OF assms pool]])
      (use no_refs_closed [OF _ all_closed_refs] in \<open>auto simp: svc_inv_def open_devices_def\<close>)
qed

lemma agm_deinit_posts:
  assumes "svc_inv E k s" "agm_initialized s"
  shows "posts (agm_deinit E s) (\<lambda>r s'. r = 0 \<and> pcm_balance E (trace s') = k \<and> sess_pool s' = None
    \<and> device_list s' = [] \<and> \<not> agm_initialized s')"
proof -
  let ?P = "\<lambda>s'. pcm_balance E (trace s') = k \<and> sess_pool s' = None"
  have dev: "posts (device_deinit E s') (\<lambda>r s''. ?P s'' \<and> device_list s'' = [])" if "?P s'" for s'
    using that unfolding device_deinit_def
    by (intro posts_deref) (auto simp: xcall_def split: if_splits)
  have gph: "posts (graph_deinit E s') (\<lambda>r s''. ?P s'' \<and> device_list s'' = [])"
    if "?P s' \<and> device_list s' = []" for s'
    using that by (simp add: graph_deinit_def xcall_def)
  show ?thesis
    using assms(2) unfolding agm_deinit_def session_obj_deinit_def Option.bind_assoc
    by (auto intro!: posts_bind [OF session_pool_free_posts [OF assms(1)]]
        posts_bind [OF dev] posts_bind [OF gph] simp del: bind_eq_Some_conv)
qed

end
