(* ===== verification/Agm_Service.thy ===== *)
theory Agm_Service
  imports Agm_Lifecycle
begin

text \<open>
  The whole service: every call of the API as a request, the conditions under which the
  code keeps its device references balanced, and the invariant over all sequences of
  requests. Shutting the service down after any such sequence closes every PCM handle that
  was opened.
\<close>

section \<open>Requests that change no reference\<close>

lemma svc_inv_cframe: "cframe s s' \<Longrightarrow> svc_inv E k s \<Longrightarrow> svc_inv E k s'"
  using res_inv_cframe [of s s' E k] by (auto simp: svc_inv_def closed_ok_def cframe_def)

lemma svc_inv_gframe: "svc_inv E k s \<Longrightarrow> gframe s s' \<Longrightarrow> svc_inv E k s'"
  by (rule svc_inv_cframe [OF gframe_cframe])

text \<open>
  The writes of an entry point: the object was read before some calls to the outside, and
  is written back after them.
\<close>

lemma sess_at_gframe: "gframe s s' \<Longrightarrow> sess_at s' p = sess_at s p"
  by (simp add: gframe_def sess_at_def)

lemma dev_at_gframe: "gframe s s' \<Longrightarrow> dev_at s' d = dev_at s d"
  by (simp add: gframe_def dev_at_def)

lemma svc_write_sess:
  assumes "svc_inv E k s" "gframe s s'" "sess_at s p = Some so" "sess_skel so' = sess_skel so"
  shows "svc_inv E k (put_sess p so' s')"
  by (rule svc_inv_cframe [OF cframe_put_sess svc_inv_gframe [OF assms(1,2)], OF cf.refl])
    (simp_all add: assms sess_at_gframe [OF assms(2)])

lemma svc_write_aif:
  assumes "svc_inv E k s" "gframe s s'" "aif_at s p i = Some a" "aif_skel a' = aif_skel a"
  shows "svc_inv E k (put_aif p i a' s')"
  by (rule svc_inv_cframe [OF cframe_put_aif svc_inv_gframe [OF assms(1,2)], OF cf.refl])
    (simp_all add: assms aif_at_gframe [OF assms(2)])

lemma svc_write_dev:
  assumes "svc_inv E k s" "gframe s s'" "dev_at s d = Some dev" "dev_counts dev' = dev_counts dev"
  shows "svc_inv E k (put_dev d dev' s')"
  by (rule svc_inv_cframe [OF cframe_put_dev svc_inv_gframe [OF assms(1,2)], OF cf.refl])
    (simp_all add: assms dev_at_gframe [OF assms(2)])

lemma gframe_metadata_copy [frame_intros]:
  "gframe s0 s \<Longrightarrow> posts (metadata_copy E m bs s) (\<lambda>r s'. gframe s0 s')"
  unfolding metadata_copy_def
  by (assumption | rule gframe_steps)+

text \<open>A call to the outside in the middle of an entry point, and its end.\<close>

lemma svc_call:
  "posts m (\<lambda>r s'. gframe s s') \<Longrightarrow> (\<And>r s'. gframe s s' \<Longrightarrow> posts (f (r, s')) Q)
    \<Longrightarrow> posts (m \<bind> f) Q"
  by (rule posts_bind)

lemma svc_last:
  "posts m (\<lambda>r s'. gframe s s') \<Longrightarrow> svc_inv E k s \<Longrightarrow> posts m (\<lambda>r s'. svc_inv E k s')"
  by (erule posts_mono) (rule svc_inv_gframe)

lemmas svc_steps = posts_flow svc_call posts_deref svc_write_sess svc_write_aif svc_write_dev
  svc_inv_gframe gf.refl gframe_calloc frame_intros

lemma svc_set_sess_metadata:
  "svc_inv E k s \<Longrightarrow> posts (session_obj_set_sess_metadata E p bs s) (\<lambda>r s'. svc_inv E k s')"
  unfolding session_obj_set_sess_metadata_def
  by (assumption | rule svc_steps | (simp add: sess_skel_def; fail))+

lemma svc_set_sess_params:
  "svc_inv E k s \<Longrightarrow> posts (session_obj_set_sess_params E p bs s) (\<lambda>r s'. svc_inv E k s')"
  unfolding session_obj_set_sess_params_def
  by (assumption | rule svc_steps | (simp add: sess_skel_def; fail))+

lemma svc_device_set_metadata:
  "svc_inv E k s \<Longrightarrow> posts (device_set_metadata E dp bs s) (\<lambda>r s'. svc_inv E k s')"
  unfolding device_set_metadata_def
  by (assumption | rule svc_steps | (simp add: dev_counts_def; fail))+

lemma svc_device_set_params:
  "svc_inv E k s \<Longrightarrow> posts (device_set_params E dp bs s) (\<lambda>r s'. svc_inv E k s')"
  unfolding device_set_params_def
  by (assumption | rule svc_steps | (simp add: dev_counts_def; fail))+

lemma svc_device_set_media_config:
  "svc_inv E k s \<Longrightarrow> posts (device_set_media_config dp c s) (\<lambda>r s'. svc_inv E k s')"
  unfolding device_set_media_config_def prod.case
  by (assumption | rule svc_steps | (simp add: dev_counts_def; fail))+

lemma svc_register_cb:
  "svc_inv E k s \<Longrightarrow> posts (session_obj_register_cb E p cb t d s) (\<lambda>r s'. svc_inv E k s')"
  unfolding session_obj_register_cb_def
  by (assumption | rule svc_steps | (simp add: sess_skel_def; fail))+

lemma svc_set_config:
  "svc_inv E k s \<Longrightarrow> posts (session_obj_set_config p sc mc bc s) (\<lambda>r s'. svc_inv E k s')"
  unfolding session_obj_set_config_def
  by (assumption | rule svc_steps | (simp add: sess_skel_def; fail))+

text \<open>Entry points that only call the graph.\<close>

lemma gframe_register_for_events [frame_intros]:
  "gframe s0 s \<Longrightarrow> posts (session_obj_register_for_events E p cfg s) (\<lambda>r s'. gframe s0 s')"
  unfolding session_obj_register_for_events_def
  by (assumption | rule gframe_steps frame_intros)+

lemma gframe_get_sess_params [frame_intros]:
  "gframe s0 s \<Longrightarrow> posts (session_obj_get_sess_params E p bs s) (\<lambda>r s'. gframe s0 s')"
  unfolding session_obj_get_sess_params_def
  by (assumption | rule gframe_steps frame_intros)+

lemma gframe_session_pause [frame_intros]:
  "gframe s0 s \<Longrightarrow> posts (session_obj_pause E p s) (\<lambda>r s'. gframe s0 s')"
  unfolding session_obj_pause_def
  by (assumption | rule gframe_steps frame_intros)+

lemma gframe_session_resume [frame_intros]:
  "gframe s0 s \<Longrightarrow> posts (session_obj_resume E p s) (\<lambda>r s'. gframe s0 s')"
  unfolding session_obj_resume_def
  by (assumption | rule gframe_steps frame_intros)+

lemma gframe_session_read [frame_intros]:
  "gframe s0 s \<Longrightarrow> posts (session_obj_read E p n s) (\<lambda>r s'. gframe s0 s')"
  unfolding session_obj_read_def
  by (assumption | rule gframe_steps frame_intros)+

lemma gframe_session_write [frame_intros]:
  "gframe s0 s \<Longrightarrow> posts (session_obj_write E p bs s) (\<lambda>r s'. gframe s0 s')"
  unfolding session_obj_write_def
  by (assumption | rule gframe_steps frame_intros)+

lemma gframe_session_eos [frame_intros]:
  "gframe s0 s \<Longrightarrow> posts (session_obj_eos E p s) (\<lambda>r s'. gframe s0 s')"
  unfolding session_obj_eos_def
  by (assumption | rule gframe_steps frame_intros)+

lemma gframe_session_timestamp [frame_intros]:
  "gframe s0 s \<Longrightarrow> posts (session_obj_get_timestamp E p s) (\<lambda>r s'. gframe s0 s')"
  unfolding session_obj_get_timestamp_def
  by (assumption | rule gframe_steps frame_intros)+

lemma gframe_session_buf_info [frame_intros]:
  "gframe s0 s \<Longrightarrow> posts (session_obj_get_sess_buf_info E p bi f s) (\<lambda>r s'. gframe s0 s')"
  unfolding session_obj_get_sess_buf_info_def
  by (assumption | rule gframe_steps frame_intros)+

section \<open>Objects that a request creates\<close>

text \<open>A lookup may append a session; it is closed and has no AIF.\<close>

lemma closed_ok_everywhere:
  assumes "\<And>p. oframe p s s'" "closed_ok s"
  shows "closed_ok s'"
  by (rule closed_ok_oframe [OF assms(1) [of "case sess_pool s' of None \<Rightarrow> 0 | Some xs \<Rightarrow> length xs"] assms(2)])
    (simp add: sess_at_def split: option.splits)

lemma svc_session_obj_get:
  assumes "svc_inv E k s"
  shows "posts (session_obj_get E x s) (\<lambda>r s'. svc_inv E k s')"
proof -
  have "posts (session_obj_get E x s) (\<lambda>r s'. inv0 E k s')"
    using assms by (intro inv_session_obj_get) (simp add: svc_inv_def)
  moreover have "posts (session_obj_get E x s) (\<lambda>r s'. oframe p s s')" for p
    by (rule oframe_session_obj_get) (rule ofr.refl)
  ultimately show ?thesis
    using assms closed_ok_everywhere [of s] by (simp add: posts_def svc_inv_def)
qed

text \<open>
  A lookup of an AIF may append one in the state closed. The result says where the AIF comes
  from.
\<close>

definition aif_found :: "nat \<Rightarrow> u32 \<Rightarrow> agm_state \<Rightarrow> nat \<Rightarrow> agm_state \<Rightarrow> bool" where
  "aif_found p x s i s' \<longleftrightarrow> (\<exists>a. aif_at s' p i = Some a
     \<and> (aif_at s p i = Some a \<and> aif_id a = x \<or> a_state a = AIF_CLOSED))"

lemma svc_append_aif:
  assumes "svc_inv E k s" "sess_at s p = Some so" "a_state a = AIF_CLOSED"
  shows "svc_inv E k (put_sess p (so\<lparr>aif_pool := aif_pool so @ [a]\<rparr>) s)" (is "svc_inv E k ?s")
proof -
  have refs: "aif_refs ?s d = aif_refs s d" for d
    using assms(2,3) by (auto simp: refs_of_pool put_sess_def sess_at_Some_iff sum_list_update_int
        aif_holds_def aif_skel_def)
  have "open_devices ?s = open_devices s" by (simp add: open_devices_def put_sess_def)
  with assms(1) have "inv0 E k ?s" by (simp add: svc_inv_def res_inv_def devs_inv_def refs)
  moreover have "closed_sk (sess_skel y)" if "sess_at ?s q = Some y" for q y
  proof (cases "q = p")
    case True
    have "closed_sk (sess_skel so)" using assms(1,2) by (simp add: svc_inv_def closed_ok_iff)
    with True that assms(2,3) show ?thesis
      by (auto simp: sess_at_put_sess closed_sk_def sess_skel_def aif_skel_def)
  next
    case False
    with that assms(1,2) show ?thesis by (simp add: sess_at_put_sess svc_inv_def closed_ok_iff)
  qed
  ultimately show ?thesis by (simp add: svc_inv_def closed_ok_iff)
qed

lemma svc_aif_obj_get:
  assumes "svc_inv E k s" "sess_at s p = Some so"
  shows "posts (aif_obj_get E p x s) (\<lambda>r s'. svc_inv E k s'
    \<and> (\<exists>so'. sess_at s' p = Some so' \<and> s_state so' = s_state so)
    \<and> (fst r = 0 \<longrightarrow> aif_found p x s (snd r) s'))"
proof (cases "aif_obj_get_from_pool so x")
  case (Some i)
  then have "aif_at s p i = Some (aif_pool so ! i)" "aif_id (aif_pool so ! i) = x"
    using assms(2) by (auto simp: aif_obj_get_from_pool_def find_index_Some_iff aif_at_Some_iff)
  with Some assms show ?thesis by (simp add: aif_obj_get_def aif_found_def)
next
  case None
  have create: "posts (aif_obj_create E x s) (\<lambda>r s'. gframe s s' \<and> (\<forall>a. r = Some a \<longrightarrow> a_state a = AIF_CLOSED))"
    unfolding aif_obj_create_def device_get_obj_def
    by (auto intro!: posts_bind [OF gframe_calloc [OF gf.refl]] simp: zero_aif_def)
  let ?Q = "\<lambda>r s'. svc_inv E k s' \<and> (\<exists>so'. sess_at s' p = Some so' \<and> s_state so' = s_state so)
    \<and> (fst r = 0 \<longrightarrow> aif_found p x s (snd r) s')"
  show "posts (aif_obj_get E p x s) ?Q"
    unfolding aif_obj_get_def assms(2) bind.simps None option.case
  proof (rule posts_bind [OF create], unfold prod.case, rule posts_case_option)
    fix r :: "aif option" and s' assume g: "gframe s s' \<and> (\<forall>a. r = Some a \<longrightarrow> a_state a = AIF_CLOSED)"
    then have s': "sess_at s' p = Some so" "svc_inv E k s'"
      using assms svc_inv_gframe by (auto simp: sess_at_gframe)
    then show "posts (Some ((- ENOMEM, 0), s')) ?Q" by simp
    fix a :: aif assume a: "r = Some a"
    let ?s = "put_sess p (so\<lparr>aif_pool := aif_pool so @ [a]\<rparr>) s'"
    have "sess_at ?s p = Some (so\<lparr>aif_pool := aif_pool so @ [a]\<rparr>)"
      using s'(1) by (simp add: sess_at_put_sess)
    moreover from this have "aif_at ?s p (length (aif_pool so)) = Some a"
      by (simp add: aif_at_def)
    ultimately show "posts (Some ((0, length (aif_pool so)), ?s)) ?Q"
      using g a svc_append_aif [OF s'(2,1)] by (simp add: aif_found_def)
  qed
qed

lemma svc_get_aif:
  assumes "svc_inv E k s" "\<And>r s'. svc_inv E k s' \<Longrightarrow> posts (f (r, s')) Q"
  shows "posts (aif_obj_get E p x s \<bind> f) Q"
proof (cases "sess_at s p")
  case (Some so)
  show ?thesis
    by (rule posts_bind [OF svc_aif_obj_get [OF assms(1) Some]]) (auto intro: assms(2))
qed (simp add: aif_obj_get_def)

lemma svc_set_sess_aif_params:
  "svc_inv E k s \<Longrightarrow> posts (session_obj_set_sess_aif_params E p x bs s) (\<lambda>r s'. svc_inv E k s')"
  unfolding session_obj_set_sess_aif_params_def
  by (assumption | rule svc_get_aif | rule svc_steps | (simp add: aif_skel_def; fail))+

lemma svc_set_sess_aif_metadata:
  "svc_inv E k s \<Longrightarrow> posts (session_obj_set_sess_aif_metadata E p x bs s) (\<lambda>r s'. svc_inv E k s')"
  unfolding session_obj_set_sess_aif_metadata_def
  by (assumption | rule svc_get_aif | rule svc_steps | (simp add: aif_skel_def; fail))+

lemma svc_set_sess_aif_params_with_tag:
  "svc_inv E k s \<Longrightarrow>
    posts (session_obj_set_sess_aif_params_with_tag E p x tc s) (\<lambda>r s'. svc_inv E k s')"
  unfolding session_obj_set_sess_aif_params_with_tag_def
  by (assumption | rule svc_get_aif | rule svc_steps svc_last)+

lemma svc_get_tag_with_module_info:
  "svc_inv E k s \<Longrightarrow>
    posts (session_obj_get_tag_with_module_info E p x b s) (\<lambda>r s'. svc_inv E k s')"
  unfolding session_obj_get_tag_with_module_info_def
  by (assumption | rule svc_get_aif | rule svc_steps svc_last)+

text \<open>The calibration keys are written to three objects before the graph is called.\<close>

lemma aif_at_put_sess:
  assumes "sess_at s p = Some so" "aif_pool so' = aif_pool so"
  shows "aif_at (put_sess p so' s) q i = aif_at s q i"
  using assms by (simp add: aif_at_def sess_at_put_sess)

lemma dev_at_put_aif: "dev_at (put_aif p i a s) d = dev_at s d"
  by (simp add: dev_at_def put_aif_frame(1))

lemma svc_set_cal_writes:
  assumes "svc_inv E k s" "sess_at s p = Some so" "aif_at s p i = Some a" "dev_at s d = Some dev"
  shows "svc_inv E k (put_dev d (dev\<lparr>d_metadata := dm\<rparr>)
    (put_aif p i (a\<lparr>sess_aif_meta := am\<rparr>) (put_sess p (so\<lparr>sess_meta := sm\<rparr>) s)))"
proof -
  have "svc_inv E k (put_sess p (so\<lparr>sess_meta := sm\<rparr>) s)"
    by (rule svc_write_sess [OF assms(1) gf.refl assms(2)]) (simp add: sess_skel_def)
  then have "svc_inv E k (put_aif p i (a\<lparr>sess_aif_meta := am\<rparr>) (put_sess p (so\<lparr>sess_meta := sm\<rparr>) s))"
    by (rule svc_write_aif [OF _ gf.refl, where a = a])
      (simp_all add: aif_at_put_sess [OF assms(2)] assms(3) aif_skel_def)
  then show ?thesis
    by (rule svc_write_dev [OF _ gf.refl, where dev = dev])
      (simp_all add: dev_at_put_aif assms(4) dev_counts_def)
qed

lemma gframe_merged_cal:
  "gframe s0 s \<Longrightarrow> posts (do {
      (mm, s) \<leftarrow> merge_sess_aif_dev E p i s;
      case mm of None \<Rightarrow> Some (- ENOMEM, s) | Some m \<Rightarrow> graph_set_cal E gp m s }) (\<lambda>r s'. gframe s0 s')"
  by (assumption | rule gframe_steps frame_intros)+

lemma svc_set_sess_aif_cal:
  "svc_inv E k s \<Longrightarrow> posts (session_obj_set_sess_aif_cal E p x cal s) (\<lambda>r s'. svc_inv E k s')"
  unfolding session_obj_set_sess_aif_cal_def
  by (rule svc_get_aif, assumption)
    (assumption | rule posts_pair posts_case_prod posts_if posts_SomeI posts_deref posts_LetI
      svc_last [OF gframe_merged_cal [OF gf.refl] svc_set_cal_writes])+

text \<open>Loopback and echo reference look up a session or a device and call the graph.\<close>

lemma gframe_merge_aifs [frame_intros]:
  "gframe s0 s \<Longrightarrow> posts (merge_aifs E b so as temp s) (\<lambda>r s'. gframe s0 s')"
proof (induction as arbitrary: temp s)
  case (Cons a as)
  show ?case
    unfolding merge_aifs.simps
    by (insert Cons.prems, (assumption | rule gframe_steps gframe_metadata_merge Cons.IH)+)
qed simp

lemma gframe_merged_metadata [frame_intros]:
  "gframe s0 s \<Longrightarrow> posts (session_get_merged_metadata E p s) (\<lambda>r s'. gframe s0 s')"
  "gframe s0 s \<Longrightarrow> posts (session_get_merged_metadata_without_aif E p s) (\<lambda>r s'. gframe s0 s')"
  unfolding session_get_merged_metadata_def session_get_merged_metadata_without_aif_def
  by (assumption | rule gframe_steps frame_intros)+

lemma gframe_graph_add_or_remove [frame_intros]:
  "gframe s0 s \<Longrightarrow> posts (graph_add_or_remove E p m b s) (\<lambda>r s'. gframe s0 s')"
  unfolding graph_add_or_remove_def
  by (assumption | rule gframe_steps frame_intros)+

lemma gframe_device_get_obj [frame_intros]:
  "gframe s0 s \<Longrightarrow> posts (device_get_obj x s) (\<lambda>r s'. gframe s0 s')"
  by (auto simp: device_get_obj_def)

lemma gframe_session_set_ec_ref [frame_intros]:
  "gframe s0 s \<Longrightarrow> posts (session_set_ec_ref E p x b s) (\<lambda>r s'. gframe s0 s')"
  unfolding session_set_ec_ref_def
  by (assumption | rule gframe_steps frame_intros)+

lemma svc_get_session:
  assumes "svc_inv E k s" "\<And>r s'. svc_inv E k s' \<Longrightarrow> posts (f (r, s')) Q"
  shows "posts (session_obj_get E x s \<bind> f) Q"
  by (rule posts_bind [OF svc_session_obj_get [OF assms(1)]]) (rule assms(2))

lemma svc_session_set_loopback:
  "svc_inv E k s \<Longrightarrow> posts (session_set_loopback E p x b s) (\<lambda>r s'. svc_inv E k s')"
  unfolding session_set_loopback_def
  by (assumption | rule svc_get_session | rule svc_steps svc_last frame_intros)+

lemma svc_set_loopback:
  "svc_inv E k s \<Longrightarrow> posts (session_obj_set_loopback E p x st s) (\<lambda>r s'. svc_inv E k s')"
  unfolding session_obj_set_loopback_def
  by (assumption | rule posts_bind [where P = "\<lambda>r s'. svc_inv E k s'"] svc_session_set_loopback
      posts_if posts_pair posts_SomeI posts_deref svc_write_sess gf.refl | (simp add: sess_skel_def; fail))+

lemma svc_set_ec_ref:
  "svc_inv E k s \<Longrightarrow> posts (session_obj_set_ec_ref E p x st s) (\<lambda>r s'. svc_inv E k s')"
  unfolding session_obj_set_ec_ref_def
  by (assumption | rule posts_bind [where P = "\<lambda>r s'. svc_inv E k s'"] svc_last frame_intros
      posts_if posts_pair posts_SomeI posts_deref svc_write_sess gf.refl | (simp add: sess_skel_def; fail))+

section \<open>Opening and connecting\<close>

text \<open>What an operation on the session \<open>p\<close> may assume and has to keep.\<close>

abbreviation works_on :: "env \<Rightarrow> int \<Rightarrow> nat \<Rightarrow> agm_state \<Rightarrow> agm_state \<Rightarrow> bool" where
  "works_on E k p s0 s \<equiv> oframe p s0 s \<and> inv0 E k s"

lemma skel_aif_at:
  assumes "skel s' = skel s" "aif_at s p i = Some a"
  obtains a' where "aif_at s' p i = Some a'" "aif_skel a' = aif_skel a"
proof -
  from assms(2) obtain so xs where so: "sess_at s p = Some so" "i < length (aif_pool so)"
      "aif_pool so ! i = a" "skel s = Some xs"
    using sess_at_skel by (fastforce simp: aif_at_Some_iff)
  note x = skel_nth [OF so(1,4)]
  from assms(1) so(4) obtain ys where ys: "sess_pool s' = Some ys" "map sess_skel ys = xs"
    by (auto simp: skel_def)
  with x have so': "sess_at s' p = Some (ys ! p)" "sess_skel (ys ! p) = sess_skel so"
    by (auto simp: sess_at_def)
  let ?so = "ys ! p"
  from so'(2) have eq: "map aif_skel (aif_pool ?so) = map aif_skel (aif_pool so)" by (simp add: sess_skel_def)
  then have len: "length (aif_pool ?so) = length (aif_pool so)" by (rule map_eq_imp_length_eq)
  with so(2,3) have "aif_skel (aif_pool ?so ! i) = aif_skel a"
    using arg_cong [OF eq, of "\<lambda>l. l ! i"] by simp
  with so(2) len so' that [of "aif_pool ?so ! i"] show thesis by (simp add: aif_at_Some_iff)
qed

text \<open>An AIF that is not open is connected and then marked as opened.\<close>

lemma take_reference:
  assumes "res_inv E k (owes d) s" "aif_at s p i = Some a" "a_dev_obj a = Some d"
    and "a_state a < AIF_OPENED"
  shows "posts (do { s \<leftarrow> set_aif_state p i AIF_OPENED s; Some (x, s) }) (\<lambda>r s'. inv0 E k s')"
proof -
  have "inv0 E k (put_aif p i (a\<lparr>a_state := AIF_OPENED\<rparr>) s)"
    using assms(1,2) by (rule res_inv_put_aif)
      (use assms(3,4) in \<open>auto simp: aif_holds_def aif_skel_def owes_def not_le [symmetric]\<close>)
  with assms(2) show ?thesis by (simp add: set_aif_state_def)
qed

lemma connect_and_open:
  assumes "works_on E k p s0 s" "aif_at s p i = Some a" "a_state a < AIF_OPENED"
    and "\<And>r s'. works_on E k p s0 s' \<Longrightarrow> skel s' = skel s \<Longrightarrow> r \<noteq> 0 \<Longrightarrow> posts (Some (err r, s')) Q"
    and "\<And>s' s''. works_on E k p s0 s'' \<Longrightarrow> skel s' = skel s \<Longrightarrow>
      set_aif_state p i AIF_OPENED s' = Some s'' \<Longrightarrow> posts (g s'') Q"
  shows "posts (do { (ret, s) \<leftarrow> session_connect_aif E p i n s;
      if ret \<noteq> 0 then Some (err ret, s) else do { s \<leftarrow> set_aif_state p i AIF_OPENED s; g s } }) Q"
proof (cases "a_dev_obj a")
  case None
  then have "merge_sess_aif_dev E p i s = None"
    using assms(2) by (simp add: merge_sess_aif_dev_def aif_dev_meta_def split: bind_splits)
  then show ?thesis using assms(2) by (simp add: session_connect_aif_def)
next
  case (Some d)
  have inv: "inv0 E k s" using assms(1) by simp
  show ?thesis
  proof (rule posts_bind [OF session_connect_aif_inv [OF inv assms(2) Some]], unfold prod.case, rule posts_if)
    fix r s' assume "connect_post E k d s r s'" and r: "r \<noteq> 0"
    then have "skel s' = skel s" "inv0 E k s'" by (auto simp: connect_post_def)
    with assms(1) r show "posts (Some (err r, s')) Q"
      by (intro assms(4)) (auto intro: ofr.trans oframe_same)
  next
    fix r s' assume "connect_post E k d s r s'" and r: "\<not> r \<noteq> 0"
    then have s': "skel s' = skel s" "res_inv E k (owes d) s'" by (auto simp: connect_post_def)
    obtain a' where at: "aif_at s' p i = Some a'" "aif_skel a' = aif_skel a"
      using skel_aif_at [OF s'(1) assms(2)] by blast
    then have "a_dev_obj a' = a_dev_obj a" "a_state a' = a_state a" by (simp_all add: aif_skel_def)
    with at Some assms(3) have a': "aif_at s' p i = Some a'" "a_dev_obj a' = Some d"
        "a_state a' < AIF_OPENED" by simp_all
    have opened: "works_on E k p s0 s''" if "set_aif_state p i AIF_OPENED s' = Some s''" for s''
    proof
      have "oframe p s0 s'" using assms(1) s'(1) by (blast intro: ofr.trans oframe_same)
      with that show "oframe p s0 s''" by (rule oframe_set_aif_state)
      show "inv0 E k s''" using take_reference [OF s'(2) a', of "()"] that by simp
    qed
    show "posts (do { s \<leftarrow> set_aif_state p i AIF_OPENED s'; g s }) Q"
      by (rule posts_deref) (use opened s'(1) in \<open>auto intro: assms(5)\<close>)
  qed
qed

text \<open>While a session is being opened none of its AIFs is beyond opened.\<close>

definition aifs_upto :: "nat \<Rightarrow> agm_state \<Rightarrow> bool" where
  "aifs_upto p s \<longleftrightarrow> (\<forall>i a. aif_at s p i = Some a \<longrightarrow> a_state a \<le> AIF_OPENED)"

lemma aifs_upto_skel: "skel s' = skel s \<Longrightarrow> aifs_upto p s \<Longrightarrow> aifs_upto p s'"
  unfolding aifs_upto_def
  by (metis skel_aif_at [of s s'] aif_skel_def fst_conv snd_conv)

lemma aifs_upto_set:
  "set_aif_state p i st s = Some s' \<Longrightarrow> st \<le> AIF_OPENED \<Longrightarrow> aifs_upto p s \<Longrightarrow> aifs_upto p s'"
  unfolding aifs_upto_def by (auto simp: aif_at_set_aif_state split: if_splits)

abbreviation being_opened :: "env \<Rightarrow> int \<Rightarrow> nat \<Rightarrow> agm_state \<Rightarrow> agm_state \<Rightarrow> bool" where
  "being_opened E k p s0 s \<equiv> works_on E k p s0 s \<and> aifs_upto p s"

lemma connect_loop_posts:
  assumes "being_opened E k p s0 s"
  shows "posts (connect_loop E p is n s) (\<lambda>r s'. being_opened E k p s0 s')"
  using assms
proof (induction "is" arbitrary: n s)
  case (Cons i "is")
  have step: "posts (do { (ret, s) \<leftarrow> session_connect_aif E p i n s; if ret \<noteq> 0 then Some (ret, s)
      else do { s \<leftarrow> set_aif_state p i AIF_OPENED s; connect_loop E p is (n + 1) s } })
      (\<lambda>r s'. being_opened E k p s0 s')" if a: "aif_at s p i = Some a" "a_state a = AIF_OPEN" for a
  proof (rule connect_and_open [where err = "\<lambda>r. r"])
    show "posts (connect_loop E p is (n + 1) s'') (\<lambda>r s'. being_opened E k p s0 s')"
      if "works_on E k p s0 s''" "skel s' = skel s" "set_aif_state p i AIF_OPENED s' = Some s''" for s' s''
      by (rule Cons.IH) (use that Cons.prems aifs_upto_set [OF that(3)] aifs_upto_skel [OF that(2)] in simp)
  qed (use a Cons.prems aifs_upto_skel in auto)
  show ?case
    unfolding connect_loop.simps
    by (intro posts_deref posts_if) (use step Cons in auto)
qed simp

text \<open>Disconnecting an AIF that was opened.\<close>

lemma disconnect_held:
  assumes "alloc_ok E" "inv0 E k s" "aif_at s p i = Some a" "AIF_OPENED \<le> a_state a"
  shows "posts (session_disconnect_aif E p i n s)
    (\<lambda>r s'. res_inv E k (\<lambda>d. if a_dev_obj a = Some d then - 1 else 0) s' \<and> sess_pool s' = sess_pool s)"
proof (cases "a_dev_obj a")
  case None
  then have "merge_sess_aif_dev E p i s = None"
    using assms(3) by (simp add: merge_sess_aif_dev_def aif_dev_meta_def split: bind_splits)
  then show ?thesis using assms(3) by (simp add: session_disconnect_aif_def split: bind_splits)
next
  case (Some d)
  have "1 \<le> aif_refs s d"
    using assms(3,4) Some by (intro aif_refs_pos) (auto simp: aif_holds_def aif_skel_def)
  then have "posts (session_disconnect_aif E p i n s)
      (\<lambda>r s'. res_inv E k ((\<lambda>d. 0)(d := 0 - 1)) s' \<and> sess_pool s' = sess_pool s)"
    by (intro session_disconnect_aif_inv [OF assms(1,2,3) Some]) simp
  moreover have "((\<lambda>d. 0)(d := 0 - 1)) = (\<lambda>x. if a_dev_obj a = Some x then - 1 else (0 :: int))"
    by (auto simp: Some)
  ultimately show ?thesis by simp
qed

lemma unwind_aif_posts:
  assumes "alloc_ok E" "being_opened E k p s0 s"
  shows "posts (unwind_aif E p i s) (\<lambda>r s'. being_opened E k p s0 s' \<and> aif_below p i s'
    \<and> (\<forall>j. aif_below p j s \<longrightarrow> aif_below p j s'))"
  unfolding unwind_aif_def
proof (rule posts_deref, rule posts_if)
  fix a assume a: "aif_at s p i = Some a" "a_state a = AIF_OPENED"
  have inv: "inv0 E k s" using assms(2) by simp
  show "posts (do { (ret, s) \<leftarrow> session_disconnect_aif E p i 1 s; s \<leftarrow> set_aif_state p i AIF_OPEN s;
      Some (Some ret, s) }) (\<lambda>r s'. being_opened E k p s0 s' \<and> aif_below p i s'
      \<and> (\<forall>j. aif_below p j s \<longrightarrow> aif_below p j s'))"
  proof (rule posts_bind [OF disconnect_held [OF assms(1) inv a(1)]], simp add: a(2), unfold prod.case)
    fix r s' assume s': "res_inv E k (\<lambda>d. if a_dev_obj a = Some d then - 1 else 0) s'
        \<and> sess_pool s' = sess_pool s"
    then have at: "aif_at s' q j = aif_at s q j" for q j by (intro aif_at_pool) simp
    have sk: "skel s' = skel s" using s' by (simp add: skel_def)
    have inv': "posts (do { s \<leftarrow> set_aif_state p i AIF_OPEN s'; Some (x, s) }) (\<lambda>r s''. inv0 E k s'')" for x :: unit
      by (rule drop_step [OF conjunct1 [OF s'] trans [OF at a(1)]]) (simp_all add: a(2))
    show "posts (do { s \<leftarrow> set_aif_state p i AIF_OPEN s'; Some (Some r, s) })
      (\<lambda>r s'. being_opened E k p s0 s' \<and> aif_below p i s' \<and> (\<forall>j. aif_below p j s \<longrightarrow> aif_below p j s'))"
    proof (rule posts_deref, rule posts_SomeI)
      fix s'' assume s'': "set_aif_state p i AIF_OPEN s' = Some s''"
      have "inv0 E k s''" using inv' [of "()"] s'' by simp
      moreover have "oframe p s0 s''"
        using s'' assms(2) sk by (blast intro: oframe_set_aif_state ofr.trans oframe_same)
      moreover have "aifs_upto p s''"
        by (rule aifs_upto_set [OF s'']) (use assms(2) aifs_upto_skel [OF sk] in auto)
      moreover have "aif_below p j s''" if "aif_below p j s \<or> j = i" for j
        using that s'' by (auto simp: aif_below_def aif_at_set_aif_state at)
      ultimately show "being_opened E k p s0 s'' \<and> aif_below p i s'' \<and> (\<forall>j. aif_below p j s \<longrightarrow> aif_below p j s'')"
        by blast
    qed
  qed
next
  fix a assume "aif_at s p i = Some a" "a_state a \<noteq> AIF_OPENED"
  with assms(2) have "aif_below p i s"
    unfolding aif_below_def aifs_upto_def by (metis option.inject order_less_le)
  with assms(2) show "posts (Some (None, s)) (\<lambda>r s'. being_opened E k p s0 s' \<and> aif_below p i s'
      \<and> (\<forall>j. aif_below p j s \<longrightarrow> aif_below p j s'))" by simp
qed

definition all_below :: "nat \<Rightarrow> agm_state \<Rightarrow> bool" where
  "all_below p s \<longleftrightarrow> (\<forall>i. aif_below p i s)"

lemma all_below_closed_sk:
  "sess_at s p = Some so \<Longrightarrow> all_below p s \<Longrightarrow> closed_sk (sess_skel so)"
  by (auto simp: all_below_def aif_below_def closed_sk_def sess_skel_def aif_skel_def in_set_conv_nth
      aif_at_Some_iff)

lemma works_on_gframe: "gframe s s' \<Longrightarrow> works_on E k p s0 s \<Longrightarrow> works_on E k p s0 s'"
  using res_inv_gframe [of s s'] by (auto simp: gframe_def intro: oframe_pool)

lemma all_below_gframe: "gframe s s' \<Longrightarrow> all_below p s \<Longrightarrow> all_below p s'"
  by (simp add: all_below_def aif_below_def aif_at_gframe)

lemma close_unwound:
  assumes "works_on E k p s0 s" "all_below p s"
  shows "posts (do { so \<leftarrow> sess_at s p; (ret, s) \<leftarrow> graph_close E (graph so) s; so \<leftarrow> sess_at s p;
      Some (ret, put_sess p (so\<lparr>graph := None\<rparr>) s) }) (\<lambda>r s'. works_on E k p s0 s' \<and> all_below p s')"
proof (rule posts_deref, rule svc_call [OF gframe_graph_close [OF gf.refl]], rule posts_pair, rule posts_deref,
    rule posts_SomeI)
  fix so2 s2 assume g: "gframe s s2" and so2: "sess_at s2 p = Some so2"
  let ?s = "put_sess p (so2\<lparr>graph := None\<rparr>) s2"
  have w: "works_on E k p s0 s2" "all_below p s2"
    using works_on_gframe [OF g assms(1)] all_below_gframe [OF g assms(2)] by auto
  have "oframe p s0 ?s" using w so2 by (intro oframe_put_sess) (auto simp: sess_skel_def)
  moreover have "inv0 E k ?s" using w so2 by (intro res_inv_put_sess) auto
  moreover have "all_below p ?s" using w(2) so2 by (simp add: all_below_def aif_below_def aif_at_put_sess)
  ultimately show "works_on E k p s0 ?s \<and> all_below p ?s" by simp
qed

lemma reminder_posts:
  assumes "alloc_ok E" "being_opened E k p s0 s" "sess_at s0 p = Some so0"
  shows "posts (session_connect_reminder_devices E p s)
    (\<lambda>r s'. works_on E k p s0 s' \<and> (r \<noteq> 0 \<longrightarrow> all_below p s'))"
  unfolding session_connect_reminder_devices_def
proof (rule posts_deref, rule posts_bind [OF connect_loop_posts [OF assms(2)]], rule posts_pair, rule posts_if)
  fix so r s1 assume so: "sess_at s p = Some so" and s1: "being_opened E k p s0 s1"
  have len: "length (aif_pool so) = length (aif_pool so0)"
    using oframe_state(2) [OF _ assms(3) so] assms(2) by blast
  have loop: "posts (each_ret (unwind_aif E p) (aif_indices so) r s1)
      (\<lambda>r s'. being_opened E k p s0 s' \<and> (\<forall>i\<in>set (aif_indices so). aif_below p i s')
        \<and> (\<forall>j. aif_below p j s1 \<longrightarrow> aif_below p j s'))"
    by (rule each_ret_all [where I = "being_opened E k p s0", OF unwind_aif_posts [OF assms(1)]])
      (use s1 in simp_all)
  have all: "all_below p s2"
    if "being_opened E k p s0 s2" "\<forall>i\<in>set (aif_indices so). aif_below p i s2" for s2
    unfolding all_below_def
  proof
    fix i
    have "aif_at s2 p i = None" if "\<not> i < length (aif_pool so)"
      using that oframe_state(2) [OF _ assms(3), of s2] \<open>being_opened E k p s0 s2\<close> len
      by (cases "sess_at s2 p") (auto simp: aif_at_def)
    with that(2) show "aif_below p i s2" by (cases "i < length (aif_pool so)") (auto simp: aif_below_def)
  qed
  show "posts (do { (_, s) \<leftarrow> each_ret (unwind_aif E p) (aif_indices so) r s1; so \<leftarrow> sess_at s p;
      (ret, s) \<leftarrow> graph_close E (graph so) s; so \<leftarrow> sess_at s p;
      Some (ret, put_sess p (so\<lparr>graph := None\<rparr>) s) }) (\<lambda>r s'. works_on E k p s0 s' \<and> (r \<noteq> 0 \<longrightarrow> all_below p s'))"
    by (rule posts_bind [OF loop], rule posts_pair, rule posts_mono [OF close_unwound]) (use all in auto)
qed simp

lemma first_device_posts:
  assumes "being_opened E k p s0 s"
  shows "posts (session_open_with_first_device E p s)
    (\<lambda>r s'. (r = 0 \<longrightarrow> being_opened E k p s0 s') \<and> (r \<noteq> 0 \<longrightarrow> works_on E k p s0 s' \<and> skel s' = skel s))"
    (is "posts _ ?Q")
  unfolding session_open_with_first_device_def
proof (rule posts_deref, rule posts_case_option)
  fix so i assume so: "sess_at s p = Some so" and "find_index (\<lambda>a. a_state a = AIF_OPEN) (aif_pool so) = Some i"
  then have a: "aif_at s p i = Some (aif_pool so ! i)" "a_state (aif_pool so ! i) = AIF_OPEN"
    by (auto simp: find_index_Some_iff aif_at_Some_iff)
  show "posts (do { (ret, s) \<leftarrow> session_connect_aif E p i 0 s; if ret \<noteq> 0 then Some (ret, s)
      else do { s \<leftarrow> set_aif_state p i AIF_OPENED s; Some (0, s) } }) ?Q"
  proof (rule connect_and_open [where err = "\<lambda>r. r"])
    show "posts (Some (0, s'')) ?Q" if "works_on E k p s0 s''" "skel s' = skel s"
        "set_aif_state p i AIF_OPENED s' = Some s''" for s' s''
      using that assms aifs_upto_set [OF that(3)] aifs_upto_skel [OF that(2)] by simp
  qed (use assms a in auto)
qed (use assms in simp)

lemma session_obj_get_found:
  "posts (session_obj_get E x s) (\<lambda>(r, pp) s'. \<forall>p so. pp = Some p \<longrightarrow> sess_at s' p = Some so \<longrightarrow>
     sess_at s p = Some so \<and> sess_id so = x \<or> so = new_session x)"
  unfolding session_obj_get_def session_obj_get_from_pool_def session_obj_create_def calloc_def
  by (auto simp: posts_def sess_at_def nth_append find_index_Some_iff
      split: bind_splits option.splits if_splits)

lemma works_on_session_set_loopback:
  assumes "works_on E k p s0 s"
  shows "posts (session_set_loopback E q x b s) (\<lambda>r s'. works_on E k p s0 s')"
proof -
  have get: "posts (session_obj_get E x s) (\<lambda>r s'. works_on E k p s0 s')"
    using assms by (intro posts_both oframe_session_obj_get inv_session_obj_get) auto
  have rest: "posts m (\<lambda>r s'. gframe s1 s') \<Longrightarrow> works_on E k p s0 s1 \<Longrightarrow>
      posts m (\<lambda>r s'. works_on E k p s0 s')" for m :: "(int \<times> agm_state) option" and s1
    by (erule posts_mono) (rule works_on_gframe)
  show ?thesis
    unfolding session_set_loopback_def
    by (rule posts_bind [OF get])
      (assumption | rule rest | rule posts_pair posts_case_prod posts_if posts_deref gframe_steps frame_intros gf.refl)+
qed

lemma opened_ok:
  assumes "svc_inv E k s0" "works_on E k p s0 s"
  shows "posts (do { s \<leftarrow> set_sess_state p SESSION_OPENED s; Some (x, s) }) (\<lambda>r s'. svc_inv E k s')"
proof (rule posts_deref, rule posts_SomeI)
  fix s' assume s': "set_sess_state p SESSION_OPENED s = Some s'"
  have "oframe p s0 s'" using assms(2) by (intro oframe_set_sess_state [OF s']) auto
  moreover have "s_state so = SESSION_OPENED" if "sess_at s' p = Some so" for so
    using s' that by (auto simp: set_sess_state_def sess_at_put_sess split: bind_splits)
  ultimately have "closed_ok s'"
    using assms(1) by (intro closed_ok_oframe [of p s0 s']) (auto simp: svc_inv_def closed_sk_def sess_skel_def)
  moreover have "inv0 E k s'" using inv_set_sess_state [of E k _ s p SESSION_OPENED "()"] assms(2) s' by simp
  ultimately show "svc_inv E k s'" by (simp add: svc_inv_def)
qed

text \<open>
  The open sequence of \<open>session_obj_open\<close> after the lookup. It keeps the invariant when it
  succeeds, and when it fails without a loopback or echo reference to set up.
\<close>

definition side_paths :: "session_obj \<Rightarrow> bool" where
  "side_paths so \<longleftrightarrow> loopback_state so \<or> ec_ref_state so"

lemma not_opened_ok:
  assumes "svc_inv E k s0" "works_on E k p s0 s" "all_below p s"
  shows "svc_inv E k s"
  using assms closed_ok_oframe [of p s0 s] all_below_closed_sk [of s p] by (auto simp: svc_inv_def)

lemma svc_inv_skel:
  "svc_inv E k s0 \<Longrightarrow> skel s = skel s0 \<Longrightarrow> inv0 E k s \<Longrightarrow> svc_inv E k s"
  by (simp add: svc_inv_def closed_ok_def)

lemma svc_open_session:
  fixes E p so
  defines "set_loop \<equiv> \<lambda>s. if loopback_state so then session_set_loopback E p (loopback_sess_id so) True s
      else Some (0, s)"
    and "set_ec \<equiv> \<lambda>s. if ec_ref_state so then session_set_ec_ref E p (ec_ref_aif_id so) True s else Some (0, s)"
  assumes ok: "alloc_ok E" and inv: "svc_inv E k s" and so: "sess_at s p = Some so" "s_state so = SESSION_CLOSED"
  shows "posts (open_session E p so s) (\<lambda>r s'. fst r = 0 \<or> \<not> side_paths so \<longrightarrow> svc_inv E k s')"
    (is "posts _ ?Q")
proof -
  have start: "being_opened E k p s s"
    using inv closed_no_aifs(2) [OF _ so] by (auto simp: svc_inv_def ofr.refl aifs_upto_def less_imp_le)
  have side: "posts (set_loop s') (\<lambda>r s''. works_on E k p s s'' \<and> (r \<noteq> 0 \<longrightarrow> side_paths so))"
      "posts (set_ec s') (\<lambda>r s''. works_on E k p s s'' \<and> (r \<noteq> 0 \<longrightarrow> side_paths so))"
    if "works_on E k p s s'" for s'
  proof -
    show "posts (set_loop s') (\<lambda>r s''. works_on E k p s s'' \<and> (r \<noteq> 0 \<longrightarrow> side_paths so))"
      unfolding set_loop_def
      by (rule posts_if, rule posts_mono [OF works_on_session_set_loopback [OF that]])
        (use that in \<open>auto simp: side_paths_def\<close>)
    show "posts (set_ec s') (\<lambda>r s''. works_on E k p s s'' \<and> (r \<noteq> 0 \<longrightarrow> side_paths so))"
      unfolding set_ec_def
      by (rule posts_if, rule posts_mono [OF gframe_session_set_ec_ref [OF gf.refl]])
        (use that works_on_gframe in \<open>auto simp: side_paths_def\<close>)
  qed
  have opened: "posts (do { s \<leftarrow> set_sess_state p SESSION_OPENED s'; Some ((0, Some p), s) }) ?Q"
    if "works_on E k p s s'" for s'
    by (rule posts_mono [OF opened_ok [OF inv that]]) simp
  have ec: "posts (do { (ret, s) \<leftarrow> set_ec s'; if ret \<noteq> 0 then Some ((ret, None), s)
      else do { s \<leftarrow> set_sess_state p SESSION_OPENED s; Some ((0, Some p), s) } }) ?Q"
    if "works_on E k p s s'" for s'
    by (rule posts_bind [OF side(2) [OF that]], rule posts_pair, rule posts_if)
      (use opened in auto)
  have loop: "posts (do { (ret, s) \<leftarrow> set_loop s'; if ret \<noteq> 0 then Some ((ret, None), s) else do {
      (ret, s) \<leftarrow> set_ec s; if ret \<noteq> 0 then Some ((ret, None), s)
      else do { s \<leftarrow> set_sess_state p SESSION_OPENED s; Some ((0, Some p), s) } } }) ?Q"
    if "works_on E k p s s'" for s'
    by (rule posts_bind [OF side(1) [OF that]], rule posts_pair, rule posts_if)
      (use ec in auto)
  have reminder: "posts (do { (ret, s) \<leftarrow> session_connect_reminder_devices E p s';
      if ret \<noteq> 0 then Some ((ret, None), s) else do { (ret, s) \<leftarrow> set_loop s;
      if ret \<noteq> 0 then Some ((ret, None), s) else do {
      (ret, s) \<leftarrow> set_ec s; if ret \<noteq> 0 then Some ((ret, None), s)
      else do { s \<leftarrow> set_sess_state p SESSION_OPENED s; Some ((0, Some p), s) } } } }) ?Q"
    if "being_opened E k p s s'" for s'
    by (rule posts_bind [OF reminder_posts [OF ok that so(1)]], rule posts_pair, rule posts_if)
      (use loop not_opened_ok [OF inv] in auto)
  show ?thesis
    unfolding open_session_def
    by (rule posts_bind [OF first_device_posts [OF start]], rule posts_pair, rule posts_if)
      (use reminder [unfolded set_loop_def set_ec_def] svc_inv_skel [OF inv] in auto)
qed

lemma svc_session_obj_open:
  assumes "alloc_ok E" "svc_inv E k s"
  shows "posts (session_obj_open E x s) (\<lambda>r s'.
    fst r = 0 \<or> (\<forall>p so. sess_at s p = Some so \<longrightarrow> sess_id so = x \<longrightarrow> \<not> side_paths so) \<longrightarrow> svc_inv E k s')"
    (is "posts _ ?Q")
  unfolding session_obj_open_def
proof (rule posts_bind [OF posts_both [OF svc_session_obj_get [OF assms(2)] session_obj_get_found]],
    unfold prod.case, rule posts_case_prod(2), intro posts_if posts_deref)
  fix r s' ret pp p so
  assume "svc_inv E k s' \<and> (case r of (r, pp) \<Rightarrow> \<lambda>s'. \<forall>p so. pp = Some p \<longrightarrow> sess_at s' p = Some so \<longrightarrow>
     sess_at s p = Some so \<and> sess_id so = x \<or> so = new_session x) s'"
    and r: "r = (ret, pp)" "pp = Some p" "sess_at s' p = Some so" "\<not> s_state so \<noteq> SESSION_CLOSED"
  then have inv: "svc_inv E k s'" and "sess_at s p = Some so \<and> sess_id so = x \<or> so = new_session x"
    by auto
  then have "\<not> side_paths so" if "\<forall>p so. sess_at s p = Some so \<longrightarrow> sess_id so = x \<longrightarrow> \<not> side_paths so"
    using that by (auto simp: side_paths_def new_session_def)
  then show "posts (open_session E p so s') ?Q"
    using r by (intro posts_mono [OF svc_open_session [OF assms(1) inv]]) auto
qed auto

lemma running_ok:
  assumes "svc_inv E k s" "works_on E k p s s'" "sess_at s p = Some so" "s_state so \<noteq> SESSION_CLOSED"
  shows "svc_inv E k s'"
  using assms closed_ok_running [of p s s' so] by (auto simp: svc_inv_def)

lemma works_on_prepare_start:
  assumes "works_on E k p s0 s"
  shows "posts (session_prepare E p s) (\<lambda>r s'. works_on E k p s0 s')"
    "posts (session_start E p s) (\<lambda>r s'. works_on E k p s0 s')"
  using assms by (intro posts_both oframe_session_prepare inv_session_prepare oframe_session_start
      inv_session_start; simp)+

lemma svc_connect_aif_to:
  assumes inv: "svc_inv E k s" and so: "sess_at s p = Some so" "s_state so \<noteq> SESSION_CLOSED"
    and a: "aif_at s p i = Some a" "a_state a < AIF_OPENED"
  shows "posts (connect_aif_to E p i n st s) (\<lambda>r s'. r = 0 \<or> st = SESSION_OPENED \<longrightarrow> svc_inv E k s')"
    (is "posts _ ?Q")
  unfolding connect_aif_to_def
proof (rule connect_and_open [where err = "\<lambda>r. r"])
  have ok: "svc_inv E k s'" if "works_on E k p s s'" for s'
    by (rule running_ok [OF inv that so])
  show "works_on E k p s s" using inv by (simp add: svc_inv_def ofr.refl)
  show "posts (Some (r, s')) ?Q" if "works_on E k p s s'" for r s'
    using ok [OF that] by simp
  fix s1 assume s1: "works_on E k p s s1"
  have start: "posts (if b then session_start E p s' else Some (ret, s')) (\<lambda>r s''. works_on E k p s s'')"
    if "works_on E k p s s'" for b ret s'
    using that works_on_prepare_start(2) by auto
  show "posts (if st = SESSION_OPENED then Some (0, s1) else do {
      (ret, s) \<leftarrow> session_prepare E p s1;
      (ret, s) \<leftarrow> (if ret = 0 \<and> st = SESSION_STARTED then session_start E p s else Some (ret, s));
      if ret = 0 then Some (0, s) else do {
        (_, s) \<leftarrow> session_disconnect_aif E p i (n + 1) s; Some (ret, s) } }) ?Q"
    by (rule posts_if, use ok [OF s1] in simp, rule posts_bind [OF works_on_prepare_start(1) [OF s1]],
        rule posts_pair, erule posts_bind [OF start], rule posts_pair, rule posts_if)
      (auto intro: ok posts_any)
qed (use a in simp_all)

text \<open>Changing the state of an AIF of a session without a device operation.\<close>

lemma works_on_set_aif_state:
  assumes "works_on E k p s0 s" "set_aif_state p i st s = Some s'" "aif_at s p i = Some a"
    and "AIF_OPENED \<le> a_state a \<longleftrightarrow> AIF_OPENED \<le> st"
  shows "works_on E k p s0 s'"
proof
  show "oframe p s0 s'" using assms(1,2) by (blast intro: oframe_set_aif_state)
  have s': "s' = put_aif p i (a\<lparr>a_state := st\<rparr>) s" using assms(2,3) by (simp add: set_aif_state_def)
  show "inv0 E k s'"
    unfolding s' using assms(1,3)
    by (intro res_inv_put_aif [where a = a]) (use assms(4) in \<open>auto simp: aif_holds_def aif_skel_def\<close>)
qed

lemma svc_set_low_state:
  assumes "svc_inv E k s" "set_aif_state p i st s = Some s'" "aif_at s p i = Some a"
    and "a_state a < AIF_OPENED" "st < AIF_OPENED"
  shows "svc_inv E k s'"
proof -
  have w: "works_on E k p s s'"
    by (rule works_on_set_aif_state [OF _ assms(2,3)])
      (use assms(1,4,5) in \<open>auto simp: svc_inv_def ofr.refl not_le [symmetric]\<close>)
  have "closed_sk (sess_skel y)" if "sess_at s' p = Some y" for y
  proof -
    from assms(3) obtain so where so: "sess_at s p = Some so" by (auto simp: aif_at_Some_iff)
    have "s' = put_sess p (so\<lparr>aif_pool := (aif_pool so)[i := a\<lparr>a_state := st\<rparr>]\<rparr>) s"
      using assms(2,3) so by (simp add: set_aif_state_def put_aif_def)
    then have y: "y = so\<lparr>aif_pool := (aif_pool so)[i := a\<lparr>a_state := st\<rparr>]\<rparr>"
      using that so by (simp add: sess_at_put_sess)
    have "closed_sk (sess_skel so)" using assms(1) so by (simp add: svc_inv_def closed_ok_iff)
    with y assms(5) show ?thesis
      by (auto simp: closed_sk_def sess_skel_def aif_skel_def dest!: set_update_subset_insert [THEN subsetD])
  qed
  with assms(1) w show ?thesis using closed_ok_oframe [of p s s'] by (auto simp: svc_inv_def)
qed

text \<open>Disconnecting: the AIF is marked first, so that its reference is owed until the device is closed.\<close>

lemma owed_disconnect:
  assumes "alloc_ok E" "works_on E k p s0 s" "aif_at s p i = Some a" "AIF_OPENED \<le> a_state a"
    and "set_aif_state p i AIF_CLOSE s = Some s1"
  shows "posts (session_disconnect_aif E p i n s1) (\<lambda>r s'. works_on E k p s0 s' \<and> sess_pool s' = sess_pool s1)"
proof -
  have s1: "s1 = put_aif p i (a\<lparr>a_state := AIF_CLOSE\<rparr>) s" using assms(3,5) by (simp add: set_aif_state_def)
  have at: "aif_at s1 p i = Some (a\<lparr>a_state := AIF_CLOSE\<rparr>)"
    using assms(3,5) by (simp add: aif_at_set_aif_state)
  have o: "oframe p s0 s1" using assms(2,5) by (blast intro: oframe_set_aif_state)
  have inv: "posts (session_disconnect_aif E p i n s1) (\<lambda>r s'. inv0 E k s' \<and> sess_pool s' = sess_pool s1)"
  proof (cases "a_dev_obj a")
    case None
    then have "merge_sess_aif_dev E p i s1 = None"
      using at by (simp add: merge_sess_aif_dev_def aif_dev_meta_def split: bind_splits)
    then show ?thesis using at by (simp add: session_disconnect_aif_def split: bind_splits)
  next
    case (Some d)
    have "res_inv E k (owes d) s1"
      unfolding s1 using assms(2,3)
      by (intro res_inv_put_aif [where a = a]) (use assms(4) Some in \<open>auto simp: aif_holds_def aif_skel_def owes_def\<close>)
    from session_disconnect_aif_inv [OF assms(1) this at, of d n] Some aif_refs_nonneg [of s1 d]
    have "posts (session_disconnect_aif E p i n s1)
        (\<lambda>r s'. res_inv E k ((owes d)(d := owes d d - 1)) s' \<and> sess_pool s' = sess_pool s1)"
      by (simp add: owes_def)
    moreover have "(owes d)(d := owes d d - 1) = (\<lambda>d. 0)" by (auto simp: owes_def)
    ultimately show ?thesis by simp
  qed
  show ?thesis by (rule posts_mono [OF inv]) (use o in \<open>auto intro: oframe_pool\<close>)
qed

lemma svc_disconnect:
  assumes ok: "alloc_ok E" and inv: "svc_inv E k s" and so: "sess_at s p = Some so"
    and a: "aif_at s p i = Some a" and held: "s_state so \<noteq> SESSION_CLOSED \<Longrightarrow> AIF_OPENED \<le> a_state a"
  shows "posts (do { s \<leftarrow> set_aif_state p i AIF_CLOSE s;
      (ret, s) \<leftarrow> (if s_state so = SESSION_CLOSED then Some (0, s) else session_disconnect_aif E p i n s);
      if ret \<noteq> 0 then Some (ret, s) else do { s \<leftarrow> set_aif_state p i AIF_CLOSED s; Some (0, s) } })
    (\<lambda>r s'. svc_inv E k s')"
proof (rule posts_deref)
  fix s1 assume s1: "set_aif_state p i AIF_CLOSE s = Some s1"
  have at1: "aif_at s1 p i = Some (a\<lparr>a_state := AIF_CLOSE\<rparr>)" using a s1 by (simp add: aif_at_set_aif_state)
  have last: "posts (if ret \<noteq> 0 then Some (ret, s2) else do { s \<leftarrow> set_aif_state p i AIF_CLOSED s2; Some (0, s) })
      (\<lambda>r s'. svc_inv E k s')"
    if "svc_inv E k s2" "aif_at s2 p i = Some (a\<lparr>a_state := AIF_CLOSE\<rparr>)" for ret s2
    using that by (intro posts_if posts_deref posts_SomeI) (auto intro: svc_set_low_state)
  show "posts (do {
      (ret, s) \<leftarrow> (if s_state so = SESSION_CLOSED then Some (0, s1) else session_disconnect_aif E p i n s1);
      if ret \<noteq> 0 then Some (ret, s) else do { s \<leftarrow> set_aif_state p i AIF_CLOSED s; Some (0, s) } })
    (\<lambda>r s'. svc_inv E k s')"
  proof (cases "s_state so = SESSION_CLOSED")
    case True
    have "a_state a < AIF_OPENED" using closed_no_aifs(2) [OF _ so True a] inv by (simp add: svc_inv_def)
    then have "svc_inv E k s1" by (intro svc_set_low_state [OF inv s1 a]) simp_all
    with True at1 last [of s1 0] show ?thesis by simp
  next
    case False
    have w: "works_on E k p s s" using inv by (simp add: svc_inv_def ofr.refl)
    have dis: "posts (session_disconnect_aif E p i n s1) (\<lambda>r s'. svc_inv E k s' \<and> aif_at s' p i = aif_at s1 p i)"
      by (rule posts_mono [OF owed_disconnect [OF ok w a held [OF False] s1]])
        (use running_ok [OF inv _ so False] in \<open>auto intro: aif_at_pool\<close>)
    show ?thesis
      unfolding if_not_P [OF False] by (rule posts_bind [OF dis], rule posts_pair, rule last) (simp_all add: at1)
  qed
qed

text \<open>
  The connect request. It is \<open>careful\<close> when an AIF that is opened already is not connected
  again, an AIF that was never opened is not disconnected from a session that is open, and a
  connect to a session beyond opened succeeds.
\<close>

definition careful_connect :: "agm_state \<Rightarrow> nat \<Rightarrow> u32 \<Rightarrow> bool \<Rightarrow> int \<Rightarrow> bool" where
  "careful_connect s p x conn r \<longleftrightarrow>
     (\<forall>so i a. sess_at s p = Some so \<longrightarrow> s_state so \<noteq> SESSION_CLOSED \<longrightarrow>
        aif_at s p i = Some a \<longrightarrow> aif_id a = x \<longrightarrow> a_state a \<noteq> (if conn then AIF_OPENED else AIF_OPEN))
     \<and> (\<forall>so. sess_at s p = Some so \<longrightarrow> conn \<longrightarrow> s_state so \<notin> {SESSION_CLOSED, SESSION_OPENED} \<longrightarrow> r = 0)"

lemma aif_state_cases:
  "(st :: aif_state) \<le> AIF_OPENED \<Longrightarrow> st \<noteq> AIF_OPENED \<Longrightarrow> st < AIF_OPENED"
  "AIF_OPEN \<le> st \<Longrightarrow> st \<noteq> AIF_OPEN \<Longrightarrow> AIF_OPENED \<le> st"
  by (cases st; simp)+

lemma svc_connect_branch:
  assumes "svc_inv E k s" "sess_at s p = Some so" "aif_at s p i = Some a" "\<not> AIF_OPENED < a_state a"
    and "s_state so \<noteq> SESSION_CLOSED \<Longrightarrow> a_state a \<noteq> AIF_OPENED"
  shows "posts (if s_state so = SESSION_CLOSED then do { s \<leftarrow> set_aif_state p i AIF_OPEN s; Some (0, s) }
      else connect_aif_to E p i n (s_state so) s)
    (\<lambda>r s'. (s_state so \<notin> {SESSION_CLOSED, SESSION_OPENED} \<longrightarrow> r = 0) \<longrightarrow> svc_inv E k s')"
proof (cases "s_state so = SESSION_CLOSED")
  case True
  have "a_state a < AIF_OPENED" using closed_no_aifs(2) [OF _ assms(2) True assms(3)] assms(1) by (simp add: svc_inv_def)
  then show ?thesis
    unfolding if_P [OF True] by (intro posts_deref posts_SomeI) (auto intro: svc_set_low_state [OF assms(1) _ assms(3)])
next
  case False
  have "a_state a < AIF_OPENED" using assms(4,5) False by (intro aif_state_cases(1)) (simp_all add: not_less)
  then show ?thesis
    unfolding if_not_P [OF False]
    by (intro posts_mono [OF svc_connect_aif_to [OF assms(1,2) False assms(3)]]) (use False in auto)
qed

lemma svc_connect_found:
  assumes "alloc_ok E" and inv: "svc_inv E k s" and so: "sess_at s p = Some so" and a: "aif_at s p i = Some a"
    and care: "s_state so \<noteq> SESSION_CLOSED \<Longrightarrow> a_state a \<noteq> (if conn then AIF_OPENED else AIF_OPEN)"
  shows "posts (if conn \<and> AIF_OPENED < a_state a \<or> \<not> conn \<and> a_state a < AIF_OPEN then Some (- EALREADY, s)
        else if conn then (if s_state so = SESSION_CLOSED then do { s \<leftarrow> set_aif_state p i AIF_OPEN s; Some (0, s) }
          else connect_aif_to E p i n (s_state so) s)
        else do { s \<leftarrow> set_aif_state p i AIF_CLOSE s;
           (ret, s) \<leftarrow> (if s_state so = SESSION_CLOSED then Some (0, s) else session_disconnect_aif E p i n s);
           if ret \<noteq> 0 then Some (ret, s) else do { s \<leftarrow> set_aif_state p i AIF_CLOSED s; Some (0, s) } })
    (\<lambda>r s'. (conn \<longrightarrow> s_state so \<notin> {SESSION_CLOSED, SESSION_OPENED} \<longrightarrow> r = 0) \<longrightarrow> svc_inv E k s')"
    (is "posts (if ?already then _ else _) ?Q")
proof (cases "?already \<or> \<not> conn")
  case False
  then have "posts (if s_state so = SESSION_CLOSED then do { s \<leftarrow> set_aif_state p i AIF_OPEN s; Some (0, s) }
      else connect_aif_to E p i n (s_state so) s)
      (\<lambda>r s'. (s_state so \<notin> {SESSION_CLOSED, SESSION_OPENED} \<longrightarrow> r = 0) \<longrightarrow> svc_inv E k s')"
    using care by (intro svc_connect_branch [OF inv so a]) auto
  with False show ?thesis by simp
next
  case True
  have dis: "posts (do { s \<leftarrow> set_aif_state p i AIF_CLOSE s;
       (ret, s) \<leftarrow> (if s_state so = SESSION_CLOSED then Some (0, s) else session_disconnect_aif E p i n s);
       if ret \<noteq> 0 then Some (ret, s) else do { s \<leftarrow> set_aif_state p i AIF_CLOSED s; Some (0, s) } })
      (\<lambda>r s'. svc_inv E k s')" if "\<not> ?already" "\<not> conn"
    by (rule svc_disconnect [OF assms(1) inv so a], rule aif_state_cases(2)) (use that care in \<open>auto simp: not_less\<close>)
  show ?thesis
  proof (cases ?already)
    case False
    with True have "\<not> conn" by blast
    from dis [OF False this] False this show ?thesis by (simp split del: if_split)
  qed (simp add: inv)
qed

lemma svc_sess_aif_connect:
  assumes "alloc_ok E" "svc_inv E k s"
  shows "posts (session_obj_sess_aif_connect E p x conn s)
    (\<lambda>r s'. careful_connect s p x conn r \<longrightarrow> svc_inv E k s')" (is "posts _ ?Q")
proof (cases "sess_at s p")
  case (Some so0)
  show ?thesis
    unfolding session_obj_sess_aif_connect_def Let_def
  proof (rule posts_bind [OF svc_aif_obj_get [OF assms(2) Some]], unfold prod.case,
      rule posts_case_prod(2), rule posts_if, simp, intro posts_deref)
    fix r s1 ret i so a
    assume post: "svc_inv E k s1 \<and> (\<exists>so'. sess_at s1 p = Some so' \<and> s_state so' = s_state so0)
        \<and> (fst r = 0 \<longrightarrow> aif_found p x s (snd r) s1)"
      and r: "r = (ret, i)" "\<not> ret \<noteq> 0" and so: "sess_at s1 p = Some so" and a: "aif_at s1 p i = Some a"
    have inv: "svc_inv E k s1" and st: "s_state so = s_state so0" and found: "aif_found p x s i s1"
      using post r so by auto
    have care: "s_state so \<noteq> SESSION_CLOSED \<Longrightarrow> a_state a \<noteq> (if conn then AIF_OPENED else AIF_OPEN)"
        "conn \<longrightarrow> s_state so \<notin> {SESSION_CLOSED, SESSION_OPENED} \<longrightarrow> r = 0"
      if "careful_connect s p x conn r" for r
      using that found a Some st by (auto simp: careful_connect_def aif_found_def)
    let ?n = "aif_obj_get_count_with_state so AIF_OPENED False"
    show "posts (if conn \<and> AIF_OPENED < a_state a \<or> \<not> conn \<and> a_state a < AIF_OPEN then Some (- EALREADY, s1)
        else if conn then (if s_state so = SESSION_CLOSED then do { s \<leftarrow> set_aif_state p i AIF_OPEN s1; Some (0, s) }
          else connect_aif_to E p i ?n (s_state so) s1)
        else do { s \<leftarrow> set_aif_state p i AIF_CLOSE s1;
           (ret, s) \<leftarrow> (if s_state so = SESSION_CLOSED then Some (0, s) else session_disconnect_aif E p i ?n s);
           if ret \<noteq> 0 then Some (ret, s) else do { s \<leftarrow> set_aif_state p i AIF_CLOSED s; Some (0, s) } }) ?Q"
    proof (cases "\<exists>r. careful_connect s p x conn r")
      case True
      then show ?thesis
        by (intro posts_mono [OF svc_connect_found [OF assms(1) inv so a]]) (use care in blast)+
    qed (simp add: posts_def)
  qed
qed (simp add: session_obj_sess_aif_connect_def aif_obj_get_def)

section \<open>Requests\<close>

text \<open>
  The functions of \<open>agm.c\<close> that a client can call between \<open>agm_init\<close> and
  \<open>agm_deinit\<close>, and the events that GSL delivers. \<open>serve\<close> runs one of them and keeps its
  return code.
\<close>

datatype (plugins only: code) request =
    Aif_set_metadata u32 "u8 list"
  | Aif_set_media_config u32 "agm_media_config option"
  | Aif_set_params u32 "u8 list"
  | Session_set_metadata u32 "u8 list"
  | Session_aif_set_metadata u32 u32 "u8 list"
  | Session_aif_get_tag_module_info u32 u32 bool
  | Session_aif_set_cal u32 u32 "agm_key_value list"
  | Session_aif_set_params u32 u32 "u8 list"
  | Session_get_params u32 "u8 list"
  | Session_set_params u32 "u8 list"
  | Set_params_with_tag u32 u32 agm_tag_config
  | Session_register_cb u32 "nat option" event_type nat
  | Session_register_for_events u32 "agm_event_reg_cfg option"
  | Session_aif_connect u32 u32 bool
  | Session_set_loopback u32 u32 bool
  | Session_set_ec_ref u32 u32 bool
  | Session_get_buf_info u32 agm_buf_info u32
  | Get_buffer_timestamp u32 bool
  | Session_open u32 bool
  | Session_set_config "nat option" agm_session_config agm_media_config agm_buffer_config
  | Session_prepare "nat option"
  | Session_start "nat option"
  | Session_stop "nat option"
  | Session_close "nat option"
  | Session_pause "nat option"
  | Session_resume "nat option"
  | Session_write "nat option" "u8 list"
  | Session_read "nat option" nat
  | Session_eos "nat option"
  | Get_session_time "nat option" bool
  | Graph_event agm_event_cb_params u32

definition code_of :: "('a \<Rightarrow> int) \<Rightarrow> 'a agm \<Rightarrow> int agm" where
  "code_of f m s = do { (r, s) \<leftarrow> m s; Some (f r, s) }"

fun serve :: "env \<Rightarrow> request \<Rightarrow> int agm" where
  "serve E (Aif_set_metadata a m) = agm_aif_set_metadata E a m"
| "serve E (Aif_set_media_config a c) = agm_aif_set_media_config a c"
| "serve E (Aif_set_params a m) = agm_aif_set_params E a m"
| "serve E (Session_set_metadata x m) = agm_session_set_metadata E x m"
| "serve E (Session_aif_set_metadata x a m) = agm_session_aif_set_metadata E x a m"
| "serve E (Session_aif_get_tag_module_info x a b) =
     code_of fst (agm_session_aif_get_tag_module_info E x a b)"
| "serve E (Session_aif_set_cal x a c) = agm_session_aif_set_cal E x a c"
| "serve E (Session_aif_set_params x a m) = agm_session_aif_set_params E x a m"
| "serve E (Session_get_params x m) = code_of fst (agm_session_get_params E x m)"
| "serve E (Session_set_params x m) = agm_session_set_params E x m"
| "serve E (Set_params_with_tag x a c) = agm_set_params_with_tag E x a c"
| "serve E (Session_register_cb x cb t d) = agm_session_register_cb E x cb t d"
| "serve E (Session_register_for_events x c) = agm_session_register_for_events E x c"
| "serve E (Session_aif_connect x a b) = agm_session_aif_connect E x a b"
| "serve E (Session_set_loopback x y b) = agm_session_set_loopback E x y b"
| "serve E (Session_set_ec_ref x a b) = agm_session_set_ec_ref E x a b"
| "serve E (Session_get_buf_info x i f) = code_of fst (agm_session_get_buf_info E x i f)"
| "serve E (Get_buffer_timestamp x b) = code_of fst (agm_get_buffer_timestamp E x b)"
| "serve E (Session_open x b) = code_of fst (agm_session_open E x b)"
| "serve E (Session_set_config h sc mc bc) = agm_session_set_config h sc mc bc"
| "serve E (Session_prepare h) = agm_session_prepare E h"
| "serve E (Session_start h) = agm_session_start E h"
| "serve E (Session_stop h) = agm_session_stop E h"
| "serve E (Session_close h) = agm_session_close E h"
| "serve E (Session_pause h) = agm_session_pause E h"
| "serve E (Session_resume h) = agm_session_resume E h"
| "serve E (Session_write h bs) = code_of fst (agm_session_write E h bs)"
| "serve E (Session_read h n) = code_of fst (agm_session_read E h n)"
| "serve E (Session_eos h) = agm_session_eos E h"
| "serve E (Get_session_time h b) = code_of fst (agm_get_session_time E h b)"
| "serve E (Graph_event ev c) = code_of (\<lambda>_. 0) (graph_event_cb E ev c)"

text \<open>
  The requests for which the code keeps the references balanced: an open of a session with
  a loopback or an echo reference succeeds, and a connect is careful.
\<close>

definition by_id :: "agm_state \<Rightarrow> u32 \<Rightarrow> nat \<Rightarrow> session_obj \<Rightarrow> bool" where
  "by_id s x p so \<longleftrightarrow> sess_at s p = Some so \<and> sess_id so = x"

definition careful :: "agm_state \<Rightarrow> request \<Rightarrow> int \<Rightarrow> bool" where
  "careful s q r \<longleftrightarrow> (case q of
       Session_open x b \<Rightarrow> r = 0 \<or> (\<forall>p so. by_id s x p so \<longrightarrow> \<not> side_paths so)
     | Session_aif_connect x a b \<Rightarrow> \<forall>p so. by_id s x p so \<longrightarrow> careful_connect s p a b r
     | _ \<Rightarrow> True)"

lemma svc_code_of: "posts (m s) (\<lambda>r s'. svc_inv E k s') \<Longrightarrow> posts (code_of f m s) (\<lambda>r s'. svc_inv E k s')"
  unfolding code_of_def by (erule posts_bind) simp

lemma svc_with_session:
  assumes "svc_inv E k s" "\<And>p s'. svc_inv E k s' \<Longrightarrow> posts (f p s') (\<lambda>r s''. svc_inv E k s'')"
  shows "posts (with_session E x err f s) (\<lambda>r s'. svc_inv E k s')"
  unfolding with_session_def
  by (rule svc_get_session [OF assms(1)])
    (use assms(2) in \<open>auto intro!: posts_deref posts_case_prod(2) posts_if\<close>)

lemma svc_with_device:
  assumes "svc_inv E k s" "\<And>dp. posts (f dp s) (\<lambda>r s''. svc_inv E k s'')"
  shows "posts (with_device x f s) (\<lambda>r s'. svc_inv E k s')"
  using assms by (simp add: with_device_def device_get_obj_def)

lemma svc_with_handle:
  assumes "svc_inv E k s" "\<And>p. posts (f p s) (\<lambda>r s''. svc_inv E k s'')"
  shows "posts (with_handle h err f s) (\<lambda>r s'. svc_inv E k s')"
  using assms by (simp add: with_handle_def split: option.split)

lemma careful_connect_cong:
  "sess_at s' p = sess_at s p \<Longrightarrow> careful_connect s' p x conn r = careful_connect s p x conn r"
  by (simp add: careful_connect_def aif_at_def)

lemma careful_connect_new:
  "sess_at s p = Some (new_session x) \<Longrightarrow> careful_connect s p y conn r"
  by (simp add: careful_connect_def aif_at_def new_session_def)

lemma svc_aif_connect:
  assumes "alloc_ok E" "svc_inv E k s"
  shows "posts (agm_session_aif_connect E x a b s)
    (\<lambda>r s'. careful s (Session_aif_connect x a b) r \<longrightarrow> svc_inv E k s')"
  unfolding agm_session_aif_connect_def with_session_def
proof (rule posts_bind [OF posts_both [OF svc_session_obj_get [OF assms(2)] session_obj_get_found]],
    unfold prod.case, rule posts_case_prod(2), intro posts_if posts_deref)
  fix r s' ret pp p
  assume post: "svc_inv E k s' \<and> (case r of (r, pp) \<Rightarrow> \<lambda>s'. \<forall>p so. pp = Some p \<longrightarrow> sess_at s' p = Some so \<longrightarrow>
     sess_at s p = Some so \<and> sess_id so = x \<or> so = new_session x) s'" and r: "r = (ret, pp)" "pp = Some p"
  then have inv: "svc_inv E k s'" by simp
  have care: "careful_connect s' p a b r'" if "careful s (Session_aif_connect x a b) r'" for r'
  proof (cases "sess_at s' p")
    case (Some so)
    with post r have "sess_at s p = Some so \<and> sess_id so = x \<or> so = new_session x" by auto
    then show ?thesis
      using that Some careful_connect_cong [of s' p s] careful_connect_new [of s' p x]
      by (auto simp: careful_def by_id_def)
  qed (simp add: careful_connect_def)
  show "posts (session_obj_sess_aif_connect E p a b s')
      (\<lambda>r s'. careful s (Session_aif_connect x a b) r \<longrightarrow> svc_inv E k s')"
    by (rule posts_mono [OF svc_sess_aif_connect [OF assms(1) inv]]) (use care in blast)
qed auto

lemma svc_open:
  assumes "alloc_ok E" "svc_inv E k s"
  shows "posts (serve E (Session_open x b) s) (\<lambda>r s'. careful s (Session_open x b) r \<longrightarrow> svc_inv E k s')"
proof -
  have "posts (agm_session_open E x b s) (\<lambda>r s'. careful s (Session_open x b) (fst r) \<longrightarrow> svc_inv E k s')"
    unfolding agm_session_open_def
    by (rule posts_if, simp add: assms(2), rule posts_mono [OF svc_session_obj_open [OF assms]])
      (auto simp: careful_def by_id_def)
  then show ?thesis unfolding serve.simps code_of_def by (rule posts_bind) simp
qed

lemma gframe_graph_event_cb:
  "gframe s0 s \<Longrightarrow> posts (graph_event_cb E ev c s) (\<lambda>r s'. gframe s0 s')"
proof -
  have calls: "gframe s0 s \<Longrightarrow> posts (call_cbs E x ev cbs s) (\<lambda>r s'. gframe s0 s')" for x cbs s
    by (induction cbs arbitrary: s)
      (auto intro!: posts_bind [OF gframe_xcall] simp: posts_if)
  then show "gframe s0 s \<Longrightarrow> ?thesis"
    unfolding graph_event_cb_def by (intro posts_deref posts_case_option) auto
qed

lemmas svc_ops = svc_set_sess_metadata svc_set_sess_params svc_device_set_metadata svc_device_set_params
  svc_device_set_media_config svc_register_cb svc_set_config svc_set_sess_aif_params
  svc_set_sess_aif_metadata svc_set_sess_aif_params_with_tag svc_get_tag_with_module_info
  svc_set_sess_aif_cal svc_set_loopback svc_set_ec_ref

lemma closed_post_inv: "closed_post E k p s s' \<Longrightarrow> svc_inv E k s'"
  by (simp only: closed_post_def)

lemma svc_state_machine:
  assumes "svc_inv E k s"
  shows "posts (session_obj_prepare E p s) (\<lambda>r s'. svc_inv E k s')"
    "posts (session_obj_start E p s) (\<lambda>r s'. svc_inv E k s')"
    "posts (session_obj_stop E p s) (\<lambda>r s'. svc_inv E k s')"
    "posts (session_obj_close E p s) (\<lambda>r s'. svc_inv E k s')"
  using assms svc_session_prepare svc_session_start svc_session_stop
    posts_mono [OF svc_session_close closed_post_inv]
  by (simp_all add: session_obj_prepare_def session_obj_start_def session_obj_stop_def
      session_obj_close_def)

lemma svc_get_session_time:
  "svc_inv E k s \<Longrightarrow> posts (agm_get_session_time E h ts s) (\<lambda>r s'. svc_inv E k s')"
  unfolding agm_get_session_time_def
  by (assumption | rule posts_if posts_SomeI svc_with_handle svc_last frame_intros gf.refl)+

lemma svc_buffer_timestamp:
  "svc_inv E k s \<Longrightarrow> posts (session_obj_buffer_timestamp p s) (\<lambda>r s'. svc_inv E k s')"
  unfolding session_obj_buffer_timestamp_def
  by (assumption | rule svc_steps svc_last frame_intros)+

lemmas request_defs = agm_aif_set_metadata_def agm_aif_set_media_config_def agm_aif_set_params_def
  agm_session_set_metadata_def agm_session_aif_set_metadata_def agm_session_aif_get_tag_module_info_def
  agm_session_aif_set_cal_def agm_session_aif_set_params_def agm_session_get_params_def
  agm_session_set_params_def agm_set_params_with_tag_def agm_session_register_cb_def
  agm_session_register_for_events_def agm_session_set_loopback_def agm_session_set_ec_ref_def
  agm_session_get_buf_info_def agm_get_buffer_timestamp_def agm_session_set_config_def
  agm_session_prepare_def agm_session_start_def agm_session_stop_def agm_session_close_def
  agm_session_pause_def agm_session_resume_def agm_session_write_def agm_session_read_def
  agm_session_eos_def agm_get_session_time_def

lemma svc_other_request:
  assumes "svc_inv E k s" "\<And>x a b. q \<noteq> Session_aif_connect x a b" "\<And>x b. q \<noteq> Session_open x b"
  shows "posts (serve E q s) (\<lambda>r s'. svc_inv E k s')"
proof (cases q)
  case (Session_aif_connect x a b)
  with assms(2) show ?thesis by blast
next
  case (Session_open x b)
  with assms(3) show ?thesis by blast
qed (insert assms(1), simp_all only: serve.simps request_defs,
  (assumption | rule svc_code_of svc_with_session svc_with_device svc_with_handle svc_ops
    svc_state_machine svc_buffer_timestamp svc_get_session_time posts_if posts_SomeI svc_last gframe_graph_event_cb
    frame_intros gf.refl)+)

text \<open>Every careful request keeps the invariant.\<close>

lemma serve_svc_inv:
  assumes "alloc_ok E" "svc_inv E k s"
  shows "posts (serve E q s) (\<lambda>r s'. careful s q r \<longrightarrow> svc_inv E k s')"
proof (cases "(\<exists>x a b. q = Session_aif_connect x a b) \<or> (\<exists>x b. q = Session_open x b)")
  case True
  then show ?thesis using svc_aif_connect [OF assms] svc_open [OF assms] by auto
next
  case False
  then show ?thesis by (intro posts_mono [OF svc_other_request [OF assms(2)]]) auto
qed

section \<open>Initialisation\<close>

text \<open>A device as the initialisation leaves it.\<close>

definition idle :: "device_obj \<Rightarrow> bool" where
  "idle dev \<longleftrightarrow> refcnt dev = \<lparr>r_open = 0, r_prepare = 0, r_start = 0\<rparr> \<and> d_state dev = DEV_CLOSED"

lemma idle_new_device [simp]: "idle (new_device cno d name flags hw)"
  by (simp add: idle_def new_device_def)

lemma parse_pcm_lines_posts:
  assumes "\<forall>dev\<in>set devs. idle dev" "gframe s0 s"
  shows "posts (parse_pcm_lines E lines devs s) (\<lambda>r s'. gframe s0 s' \<and> (\<forall>dev\<in>set (snd r). idle dev))"
  using assms
proof (induction lines arbitrary: devs s)
  case (Cons buffer lines)
  show ?case
    unfolding parse_pcm_lines.simps Let_def
    by (rule posts_bind [OF gframe_calloc [OF Cons.prems(2)]])
      (use Cons.prems(1) in \<open>auto intro!: posts_if posts_case_prod Cons.IH\<close>)
qed simp

definition fresh_devices :: "env \<Rightarrow> int \<Rightarrow> agm_state \<Rightarrow> bool" where
  "fresh_devices E k s \<longleftrightarrow> (\<forall>d dev. dev_at s d = Some dev \<longrightarrow> idle dev) \<and> pcm_balance E (trace s) = k"

lemma parse_snd_card_posts:
  assumes "pcm_balance E (trace s) = k"
  shows "posts (parse_snd_card E s) (\<lambda>r s'. pcm_balance E (trace s') = k \<and> (r = 0 \<longrightarrow> fresh_devices E k s'))"
proof -
  let ?P = "\<lambda>s'. pcm_balance E (trace s') = k"
  have lines: "posts (parse_pcm_lines E lines [] s1) (\<lambda>r s'. ?P s' \<and> (\<forall>dev\<in>set (snd r). idle dev))"
    if "?P s1" for lines s1
    by (rule posts_mono [OF parse_pcm_lines_posts [OF _ gf.refl]])
      (use that pcm_balance_quiet in \<open>auto simp: gframe_def\<close>)
  show ?thesis
    unfolding parse_snd_card_def xcall_def calloc_def bind.simps prod.case Let_def
    by (intro posts_if posts_SomeI posts_bind [OF lines])
      (use assms in \<open>auto simp: fresh_devices_def dev_at_def nth_append all_set_conv_all_nth split: if_splits\<close>)
qed

lemma device_init_loop_posts:
  assumes "pcm_balance E (trace s) = k"
  shows "posts (device_init_loop E n s) (\<lambda>r s'. r = 0 \<longrightarrow> fresh_devices E k s')"
  using assms
proof (induction n arbitrary: s rule: less_induct)
  case (less n)
  show ?case
    unfolding device_init_loop.simps [of E n s] xcall_def bind.simps prod.case
  proof (rule posts_bind [OF parse_snd_card_posts [OF less.prems]], unfold prod.case, intro posts_if)
    fix r s' assume "pcm_balance E (trace s') = k \<and> (r = 0 \<longrightarrow> fresh_devices E k s')" "0 < n - 1"
    then show "posts (device_init_loop E (n - 1) (s'\<lparr>trace := Sleep 5 # trace s'\<rparr>))
        (\<lambda>r s'. r = 0 \<longrightarrow> fresh_devices E k s')"
      by (intro less.IH) auto
  qed auto
qed

text \<open>A successful initialisation establishes the invariant.\<close>

lemma fresh_svc_inv:
  assumes "fresh_devices E k s" "sess_pool s = Some []"
  shows "svc_inv E k s"
proof -
  have idle: "idle dev" if "dev_at s d = Some dev" for d dev using assms(1) that by (simp add: fresh_devices_def)
  have refs: "aif_refs s d = 0" for d using assms(2) by (simp add: refs_of_pool)
  have "open_devices s = 0"
    unfolding open_devices_def
  proof (rule sum_list_zero_int)
    fix x assume "x \<in> set (device_list s)"
    then obtain d where "d < length (device_list s)" "x = device_list s ! d" by (auto simp: in_set_conv_nth)
    then show "(case x of None \<Rightarrow> 0 | Some dev \<Rightarrow> is_open dev) = 0"
      using idle [of d] by (auto simp: dev_at_def is_open_def idle_def split: option.splits)
  qed
  moreover have "devs_inv E s" using idle by (auto simp: devs_inv_def idle_def dev_inv_def)
  ultimately show ?thesis
    using assms idle by (auto simp: svc_inv_def res_inv_def refs closed_ok_def skel_def fresh_devices_def idle_def)
qed

lemma agm_init_posts:
  assumes "\<not> agm_initialized s"
  shows "posts (agm_init E a d s) (\<lambda>r s'. r = 0 \<longrightarrow> svc_inv E (pcm_balance E (trace s)) s' \<and> agm_initialized s')"
proof -
  let ?k = "pcm_balance E (trace s)"
  have dev: "posts (device_init E s) (\<lambda>r s'. r = 0 \<longrightarrow> fresh_devices E ?k s')"
    unfolding device_init_def by (rule device_init_loop_posts) simp
  have keep: "fresh_devices E ?k s2" if "gframe s1 s2" "fresh_devices E ?k s1" for s1 s2
    using that pcm_balance_quiet [of "trace s1" "trace s2" E] dev_at_gframe [OF that(1)]
    by (simp add: fresh_devices_def gframe_def)
  have pool: "svc_inv E ?k (s2\<lparr>trace := Calloc 1 56 # trace s2, sess_pool := Some []\<rparr>)"
    if "gframe s1 s2" "fresh_devices E ?k s1" for s1 s2
  proof (rule fresh_svc_inv)
    have "dev_at (s2\<lparr>trace := Calloc 1 56 # trace s2, sess_pool := Some []\<rparr>) = dev_at s2"
      by (simp add: dev_at_def fun_eq_iff)
    with keep [OF that]
    show "fresh_devices E ?k (s2\<lparr>trace := Calloc 1 56 # trace s2, sess_pool := Some []\<rparr>)"
      by (simp add: fresh_devices_def)
  qed simp
  have "posts (session_obj_init E a d s) (\<lambda>r s'. r = 0 \<longrightarrow> svc_inv E ?k s')"
    unfolding session_obj_init_def session_pool_init_def calloc_def
    by (rule posts_bind [OF dev], rule posts_pair, rule posts_if, simp,
        rule posts_bind [OF gframe_graph_init [OF gf.refl]])
      (use pool in \<open>auto intro!: posts_if posts_any\<close>)
  moreover have "svc_inv E ?k (s1\<lparr>agm_initialized := True\<rparr>)" if "svc_inv E ?k s1" for s1
    by (rule svc_inv_cframe [OF _ that]) (simp add: cframe_def skel_def dskel_def)
  ultimately show ?thesis
    using assms unfolding agm_init_def by (auto elim!: posts_bind)
qed

section \<open>Runs of the service\<close>

inductive svc_run :: "env \<Rightarrow> agm_state \<Rightarrow> agm_state \<Rightarrow> bool" for E where
  run_none: "svc_run E s s"
| run_request: "svc_run E s s' \<Longrightarrow> serve E q s' = Some (r, s'') \<Longrightarrow> careful s' q r \<Longrightarrow> svc_run E s s''"

lemma svc_run_inv:
  assumes "svc_run E s s'" "alloc_ok E" "svc_inv E k s"
  shows "svc_inv E k s'"
  using assms
proof induction
  case (run_request s s' q r s'')
  then show ?case using serve_svc_inv [of E k s' q] by (simp add: posts_def)
qed

end
