(* ===== verification/Agm_Session_Props.thy ===== *)
theory Agm_Session_Props
  imports Agm_Service
begin

text \<open>
  What the operations of the session state machine do to the session, exactly and on every
  branch: the session after \<open>session_prepare\<close>, \<open>session_start\<close>, \<open>session_stop\<close> and
  \<open>session_close\<close> is a function of the session before. The loops over the AIFs are
  refined to maps over the AIF list; a loop that fails has mapped a prefix. Then the lookup
  in the pool, the registration of callbacks and the dispatch of events to them.
\<close>

section \<open>The session an operation leaves alone\<close>

abbreviation is_sess :: "nat \<Rightarrow> session_obj \<Rightarrow> agm_state \<Rightarrow> bool" where
  "is_sess p so s \<equiv> sess_at s p = Some so"

lemma is_sess_gframe: "posts m (\<lambda>r s'. gframe s s') \<Longrightarrow> is_sess p so s \<Longrightarrow> posts m (\<lambda>r s'. is_sess p so s')"
  by (erule posts_mono) (simp add: sess_at_gframe)

lemma is_sess_pool:
  "posts m (\<lambda>r s'. sess_pool s' = sess_pool s) \<Longrightarrow> is_sess p so s \<Longrightarrow> posts m (\<lambda>r s'. is_sess p so s')"
  by (erule posts_mono) (simp add: sess_at_def)

lemma is_sess_session_obj_get:
  assumes "is_sess p so s"
  shows "posts (session_obj_get E x s) (\<lambda>r s'. is_sess p so s')"
  unfolding session_obj_get_def session_obj_get_from_pool_def session_obj_create_def calloc_def
  using assms by (auto simp: posts_def sess_at_def nth_append split: bind_splits option.splits if_splits)

lemmas is_sess_graph_ops = frame_intros [OF gf.refl, THEN is_sess_gframe]

lemmas is_sess_device_ops = cprepare.keeps_pool [THEN is_sess_pool] cstart.keeps_pool [THEN is_sess_pool]
  cstop.keeps_pool [THEN is_sess_pool] cclose.keeps_pool [THEN is_sess_pool]

lemma is_sess_bind:
  "posts m (\<lambda>r s'. is_sess p so s') \<Longrightarrow> (\<And>r s'. is_sess p so s' \<Longrightarrow> posts (f (r, s')) Q) \<Longrightarrow> posts (m \<bind> f) Q"
  by (rule posts_bind)

lemma is_sess_deref: "is_sess p so s \<Longrightarrow> posts (f so) Q \<Longrightarrow> posts (sess_at s p \<bind> f) Q"
  by simp

lemmas is_sess_ops = is_sess_graph_ops is_sess_device_ops is_sess_session_obj_get

lemmas is_sess_steps = posts_flow is_sess_bind is_sess_deref posts_deref is_sess_ops

lemma is_sess_checks:
  assumes "is_sess p so s"
  shows "posts (check_loopback E q s) (\<lambda>r s'. is_sess p so s')"
    "posts (check_ec_ref q s) (\<lambda>r s'. is_sess p so s')"
  unfolding check_loopback_def check_ec_ref_def
  by (insert assms) (assumption | rule is_sess_steps)+

section \<open>Loops over the AIFs as maps\<close>

definition map_upto :: "('a \<Rightarrow> 'a) \<Rightarrow> nat \<Rightarrow> 'a list \<Rightarrow> 'a list" where
  "map_upto g k xs = map g (take k xs) @ drop k xs"

lemma length_map_upto [simp]: "length (map_upto g k xs) = length xs"
  by (simp add: map_upto_def)

lemma map_upto_0 [simp]: "map_upto g 0 xs = xs"
  by (simp add: map_upto_def)

lemma map_upto_all [simp]: "map_upto g (length xs) xs = map g xs"
  by (simp add: map_upto_def)

lemma nth_map_upto [simp]: "k < length xs \<Longrightarrow> map_upto g k xs ! k = xs ! k"
  by (simp add: map_upto_def nth_append)

lemma map_upto_Suc: "k < length xs \<Longrightarrow> (map_upto g k xs)[k := g (xs ! k)] = map_upto g (Suc k) xs"
  by (simp add: map_upto_def list_update_append take_Suc_conv_app_nth Cons_nth_drop_Suc [symmetric])

text \<open>One iteration: the AIF \<open>i\<close> is replaced by its image, or nothing changes.\<close>

definition maps_aif :: "(aif \<Rightarrow> aif) \<Rightarrow> nat \<Rightarrow> nat \<Rightarrow> agm_state \<Rightarrow> agm_state \<Rightarrow> bool" where
  "maps_aif g p i s s' \<longleftrightarrow> (\<forall>so. is_sess p so s \<longrightarrow> i < length (aif_pool so) \<longrightarrow>
     is_sess p (so\<lparr>aif_pool := (aif_pool so)[i := g (aif_pool so ! i)]\<rparr>) s')"

lemma maps_aif_set:
  assumes "set_aif_state p i st s1 = Some s'" "sess_pool s1 = sess_pool s" "aif_at s p i = Some a"
    and "g a = a\<lparr>a_state := st\<rparr>"
  shows "maps_aif g p i s s'"
proof -
  have "aif_at s1 p i = Some a" using assms(2,3) by (simp add: aif_at_def sess_at_def)
  with assms(1) have s': "s' = put_aif p i (a\<lparr>a_state := st\<rparr>) s1" by (simp add: set_aif_state_def)
  have "sess_at s1 p = sess_at s p" using assms(2) by (simp add: sess_at_def)
  with assms(3,4) show ?thesis by (auto simp: maps_aif_def s' put_aif_def sess_at_put_sess aif_at_def split: if_splits)
qed

lemma maps_aif_id:
  assumes "aif_at s p i = Some a" "g a = a"
  shows "maps_aif g p i s s"
  using assms by (auto simp: maps_aif_def aif_at_def split: if_splits)

lemma each_until_maps:
  assumes "\<And>i s. posts (f i s) (\<lambda>r s'. if r = 0 then maps_aif g p i s s' else sess_at s' p = sess_at s p)"
    and "is_sess p so s"
  shows "posts (each_until f (aif_indices so) s) (\<lambda>r s'. \<exists>k \<le> length (aif_pool so).
    (r = 0 \<longrightarrow> k = length (aif_pool so)) \<and> is_sess p (so\<lparr>aif_pool := map_upto g k (aif_pool so)\<rparr>) s')"
proof -
  let ?n = "length (aif_pool so)" and ?so = "\<lambda>k. so\<lparr>aif_pool := map_upto g k (aif_pool so)\<rparr>"
  have "posts (each_until f [j..<?n] s) (\<lambda>r s'. \<exists>k \<le> ?n. (r = 0 \<longrightarrow> k = ?n) \<and> is_sess p (?so k) s')"
    if "is_sess p (?so j) s" "j \<le> ?n" for j s
    using that
  proof (induction "?n - j" arbitrary: j s)
    case 0
    then have "j = ?n" by simp
    with "0.prems" show ?case by auto
  next
    case (Suc m)
    then have j: "j < ?n" by simp
    show ?case
      unfolding upt_conv_Cons [OF j] each_until.simps
    proof (rule posts_bind [OF assms(1)], unfold prod.case, rule posts_if)
      fix r s' assume s': "if r = 0 then maps_aif g p j s s' else sess_at s' p = sess_at s p"
      show "posts (Some (r, s')) (\<lambda>r s'. \<exists>k \<le> ?n. (r = 0 \<longrightarrow> k = ?n) \<and> is_sess p (?so k) s')" if "r \<noteq> 0"
        using s' that Suc.prems by auto
      show "posts (each_until f [Suc j..<?n] s') (\<lambda>r s'. \<exists>k \<le> ?n. (r = 0 \<longrightarrow> k = ?n) \<and> is_sess p (?so k) s')"
        if "\<not> r \<noteq> 0"
        using s' that Suc.prems Suc.hyps j by (intro Suc.hyps(1)) (auto simp: maps_aif_def map_upto_Suc)
    qed
  qed
  from this [where j = 0 and s = s] assms(2) show ?thesis by simp
qed

lemma each_ret_maps:
  assumes "\<And>i s. posts (f i s) (\<lambda>r s'. maps_aif g p i s s')" and "is_sess p so s"
  shows "posts (each_ret f (aif_indices so) ret s) (\<lambda>r s'. is_sess p (so\<lparr>aif_pool := map g (aif_pool so)\<rparr>) s')"
proof -
  let ?n = "length (aif_pool so)" and ?so = "\<lambda>k. so\<lparr>aif_pool := map_upto g k (aif_pool so)\<rparr>"
  have "posts (each_ret f [j..<?n] ret s) (\<lambda>r s'. is_sess p (?so ?n) s')"
    if "is_sess p (?so j) s" "j \<le> ?n" for j s ret
    using that
  proof (induction "?n - j" arbitrary: j s ret)
    case (Suc m)
    then have j: "j < ?n" by simp
    show ?case
      unfolding upt_conv_Cons [OF j] each_ret.simps
    proof (rule posts_bind [OF assms(1)], unfold prod.case)
      fix r s' assume "maps_aif g p j s s'"
      then show "posts (each_ret f [Suc j..<?n] (case r of None \<Rightarrow> ret | Some x \<Rightarrow> x) s')
          (\<lambda>r s'. is_sess p (?so ?n) s')"
        using Suc.prems Suc.hyps j by (intro Suc.hyps(1)) (auto simp: maps_aif_def map_upto_Suc)
    qed
  qed simp
  from this [where j = 0 and s = s] assms(2) show ?thesis by simp
qed


section \<open>The state machine\<close>

definition prepared_aif :: "aif \<Rightarrow> aif" where
  "prepared_aif a = (if a_state a \<in> {AIF_OPENED, AIF_STOPPED} then a\<lparr>a_state := AIF_PREPARED\<rparr> else a)"

definition started_aif :: "aif \<Rightarrow> aif" where
  "started_aif a = (if a_state a \<in> {AIF_OPENED, AIF_PREPARED, AIF_STOPPED} then a\<lparr>a_state := AIF_STARTED\<rparr>
     else a)"

definition stopped_aif :: "aif_state \<Rightarrow> aif \<Rightarrow> aif" where
  "stopped_aif st a = (if a_state a = AIF_STARTED then a\<lparr>a_state := st\<rparr> else a)"

definition closed_aif :: "aif \<Rightarrow> aif" where
  "closed_aif a = (if AIF_OPENED \<le> a_state a then a\<lparr>a_state := AIF_CLOSED\<rparr> else a)"

text \<open>
  The shape all iterations share: where the guard holds, a device operation and a change of
  the state of the AIF.
\<close>

lemma dev_then_set:
  assumes "posts (op s) (\<lambda>r s'. sess_pool s' = sess_pool s)" "aif_at s p i = Some a" "g a = a\<lparr>a_state := st\<rparr>"
  shows "posts (op s \<bind> (\<lambda>(r, s). if r \<noteq> 0 then Some (r, s) else set_aif_state p i st s \<bind> (\<lambda>s. Some (0, s))))
    (\<lambda>r s'. if r = 0 then maps_aif g p i s s' else sess_at s' p = sess_at s p)"
    "posts (op s \<bind> (\<lambda>(r, s). set_aif_state p i st s \<bind> (\<lambda>s. Some (Some r, s)))) (\<lambda>r s'. maps_aif g p i s s')"
  using assms by (auto intro!: posts_bind [OF assms(1)] posts_deref maps_aif_set simp: sess_at_def)

lemma aif_prepare_maps:
  "posts (aif_prepare E p i s) (\<lambda>r s'. if r = 0 then maps_aif prepared_aif p i s s' else sess_at s' p = sess_at s p)"
  unfolding aif_prepare_def
  by (rule posts_deref, rule posts_if, rule dev_then_set(1) [OF cprepare.keeps_pool])
    (auto simp: prepared_aif_def intro!: maps_aif_id)

lemma aif_start_maps:
  "posts (aif_start p i s) (\<lambda>r s'. if r = 0 then maps_aif started_aif p i s s' else sess_at s' p = sess_at s p)"
  unfolding aif_start_def
  by (rule posts_deref, rule posts_if, rule dev_then_set(1) [OF cstart.keeps_pool])
    (auto simp: started_aif_def intro!: maps_aif_id)

lemma aif_stop_maps: "posts (aif_stop E p st i s) (\<lambda>r s'. maps_aif (stopped_aif st) p i s s')"
  unfolding aif_stop_def
  by (rule posts_deref, rule posts_if, rule dev_then_set(2) [OF cstop.keeps_pool])
    (auto simp: stopped_aif_def intro!: maps_aif_id)

lemma aif_close_maps: "posts (aif_close E p i s) (\<lambda>r s'. maps_aif closed_aif p i s s')"
  unfolding aif_close_def
  by (rule posts_deref, rule posts_if, rule dev_then_set(2) [OF cclose.keeps_pool])
    (auto simp: closed_aif_def intro!: maps_aif_id)

lemma set_sess_state_posts:
  "is_sess p so s \<Longrightarrow> Q r (put_sess p (so\<lparr>s_state := st\<rparr>) s) \<Longrightarrow>
    posts (set_sess_state p st s \<bind> (\<lambda>s. Some (r, s))) Q"
  by (simp add: set_sess_state_def)

lemma is_sess_put: "is_sess p so s \<Longrightarrow> is_sess p so' (put_sess p so' s)"
  by (simp add: sess_at_put_sess)

subsection \<open>Prepare\<close>

definition prepare_post :: "session_obj \<Rightarrow> int \<Rightarrow> session_obj \<Rightarrow> bool" where
  "prepare_post so r so' \<longleftrightarrow>
     (if aif_obj_get_count_with_state so AIF_OPENED False = 0 then r = -1 \<and> so' = so
      else if r = 0 then so' = so\<lparr>aif_pool := map prepared_aif (aif_pool so), s_state := SESSION_PREPARED\<rparr>
      else \<exists>k \<le> length (aif_pool so). so' = so\<lparr>aif_pool := map_upto prepared_aif k (aif_pool so)\<rparr>)"

text \<open>A call that may fail, and a loop that may fail, in front of the rest of an operation.\<close>

lemma call_or_fail:
  assumes "posts m (\<lambda>r s'. is_sess p so s')"
    and "\<And>r s'. r \<noteq> 0 \<Longrightarrow> is_sess p so s' \<Longrightarrow> posts (x r s') Q" "\<And>s'. is_sess p so s' \<Longrightarrow> posts (h 0 s') Q"
  shows "posts (m \<bind> (\<lambda>(r :: int, s). if r \<noteq> 0 then x r s else h r s)) Q"
  by (rule posts_bind [OF assms(1)]) (use assms(2,3) in auto)

lemma loop_or_fail:
  assumes "\<And>i s. posts (f i s) (\<lambda>r s'. if r = 0 then maps_aif g p i s s' else sess_at s' p = sess_at s p)"
    and "is_sess p so s"
    and "\<And>k r s'. k \<le> length (aif_pool so) \<Longrightarrow> r \<noteq> 0 \<Longrightarrow>
      is_sess p (so\<lparr>aif_pool := map_upto g k (aif_pool so)\<rparr>) s' \<Longrightarrow> posts (x r s') Q"
    and "\<And>s'. is_sess p (so\<lparr>aif_pool := map g (aif_pool so)\<rparr>) s' \<Longrightarrow> posts (h 0 s') Q"
  shows "posts (each_until f (aif_indices so) s \<bind> (\<lambda>(r, s). if r \<noteq> 0 then x r s else h r s)) Q"
  by (rule posts_bind [OF each_until_maps [OF assms(1,2)]]) (use assms(3,4) in auto)

lemma graph_call_if:
  "is_sess p so s \<Longrightarrow> posts (if b then graph_prepare E gp s else Some (0, s)) (\<lambda>r s'. is_sess p so s')"
  "is_sess p so s \<Longrightarrow> posts (if b then graph_start E gp s else Some (0, s)) (\<lambda>r s'. is_sess p so s')"
  "is_sess p so s \<Longrightarrow> posts (if b then graph_stop E gp m s else Some (r, s)) (\<lambda>r s'. is_sess p so s')"
  by (assumption | rule is_sess_steps)+

lemma session_prepare_posts:
  assumes so: "is_sess p so s"
  shows "posts (session_prepare E p s) (\<lambda>r s'. \<exists>so'. is_sess p so' s' \<and> prepare_post so r so')"
  unfolding session_prepare_def so bind.simps Let_def
proof (rule posts_if, simp add: so prepare_post_def, rule call_or_fail [OF graph_call_if(1) [OF so]], goal_cases)
  case (1 r s')
  then show ?case by (auto simp: prepare_post_def intro!: exI [of _ 0])
next
  case some: (2 s1)
  show ?case
  proof (rule loop_or_fail [OF aif_prepare_maps some(2)], goal_cases)
    case (1 k r s')
    with some(1) show ?case by (auto simp: prepare_post_def)
  next
    case (2 s2)
    show ?case
    proof (rule call_or_fail [OF graph_call_if(1) [OF 2]], goal_cases)
      case (1 r s')
      with some(1) show ?case by (auto simp: prepare_post_def intro!: exI [of _ "length (aif_pool so)"])
    next
      case (2 s3)
      with some(1) show ?case by (auto simp: prepare_post_def sess_at_put_sess intro!: set_sess_state_posts [OF 2])
    qed
  qed
qed

subsection \<open>Start\<close>

text \<open>
  A start that fails leaves the session as it was, when it fails before the devices, or
  with no AIF started.
\<close>

definition start_post :: "session_obj \<Rightarrow> int \<Rightarrow> session_obj \<Rightarrow> bool" where
  "start_post so r so' \<longleftrightarrow>
     (if r = 0 then aif_obj_get_count_with_state so AIF_OPENED False \<noteq> 0
        \<and> so' = so\<lparr>aif_pool := map started_aif (aif_pool so), s_state := SESSION_STARTED\<rparr>
      else so' = so \<or> (\<exists>k \<le> length (aif_pool so).
        so' = so\<lparr>aif_pool := map (stopped_aif AIF_OPENED) (map_upto started_aif k (aif_pool so))\<rparr>))"

lemma start_unwind_posts:
  assumes s: "is_sess p (so\<lparr>aif_pool := as\<rparr>) s" and "length as = length (aif_pool so)"
  shows "posts (start_unwind E p so ret s)
    (\<lambda>r s'. r = ret \<and> is_sess p (so\<lparr>aif_pool := map (stopped_aif AIF_OPENED) as\<rparr>) s')"
  unfolding start_unwind_def
proof (rule is_sess_bind [OF graph_call_if(3) [OF s]], unfold prod.case)
  fix s1 assume s1: "is_sess p (so\<lparr>aif_pool := as\<rparr>) s1"
  have len: "aif_indices so = aif_indices (so\<lparr>aif_pool := as\<rparr>)" using assms(2) by simp
  show "posts (each_ret (aif_stop E p AIF_OPENED) (aif_indices so) 0 s1 \<bind> (\<lambda>(_, s). Some (ret, s)))
      (\<lambda>r s'. r = ret \<and> is_sess p (so\<lparr>aif_pool := map (stopped_aif AIF_OPENED) as\<rparr>) s')"
    unfolding len by (rule posts_bind [OF each_ret_maps [OF aif_stop_maps s1]]) simp
qed

lemma session_start_posts:
  assumes so: "is_sess p so s"
  shows "posts (session_start E p s) (\<lambda>r s'. \<exists>so'. is_sess p so' s' \<and> start_post so r so')"
  unfolding session_start_def so bind.simps Let_def
proof (rule posts_if, simp add: so start_post_def, rule call_or_fail [where so = so and p = p], goal_cases)
  case 1
  show ?case
    by (insert so) (assumption | rule posts_if is_sess_checks call_or_fail is_sess_steps)+
next
  case (2 r s')
  then show ?case by (auto simp: start_post_def)
next
  case some: (3 s1)
  show ?case
  proof (rule loop_or_fail [OF aif_start_maps some(2)], goal_cases)
    case (1 k r s')
    show ?case
      by (rule posts_mono [OF start_unwind_posts [OF 1(3)]]) (use 1 in \<open>auto simp: start_post_def\<close>)
  next
    case (2 s2)
    show ?case
    proof (rule call_or_fail [OF graph_call_if(2) [OF 2]], goal_cases)
      case (1 r s')
      show ?case
        by (rule posts_mono [OF start_unwind_posts [OF 1(2)]])
          (use 1 in \<open>auto simp: start_post_def intro!: exI [of _ "length (aif_pool so)"]\<close>)
    next
      case (2 s3)
      with some(1) show ?case by (auto simp: start_post_def sess_at_put_sess intro!: set_sess_state_posts [OF 2])
    qed
  qed
qed

subsection \<open>Stop and close\<close>

definition stop_post :: "session_obj \<Rightarrow> int \<Rightarrow> session_obj \<Rightarrow> bool" where
  "stop_post so r so' \<longleftrightarrow>
     (if s_state so \<noteq> SESSION_STARTED then r = - EINVAL \<and> so' = so
      else so' = so\<lparr>aif_pool := map (stopped_aif AIF_STOPPED) (aif_pool so), s_state := SESSION_STOPPED\<rparr>
        \<or> dir (stream_config so) = RX \<and> r \<noteq> 0 \<and> so' = so)"

lemma may_stop:
  assumes "is_sess p so s"
  shows "posts (if b then graph_stop E gp m s else Some (0, s)) (\<lambda>r s'. is_sess p so s' \<and> (r \<noteq> 0 \<longrightarrow> b))"
proof (cases b)
  case True
  then show ?thesis using graph_call_if(3) [OF assms, of True E gp m] by simp
qed (use assms in simp)

lemma session_stop_posts:
  assumes so: "is_sess p so s"
  shows "posts (session_stop E p s) (\<lambda>r s'. \<exists>so'. is_sess p so' s' \<and> stop_post so r so')"
  unfolding session_stop_def so bind.simps Let_def
proof (rule posts_if, simp add: so stop_post_def, rule posts_bind [OF may_stop [OF so]], unfold prod.case,
    rule posts_if, goal_cases)
  case (1 r s')
  then show ?case by (auto simp: stop_post_def)
next
  case (2 r s1)
  then have s1: "is_sess p so s1" by simp
  show ?case
  proof (rule is_sess_bind [OF each_ret_maps [OF aif_stop_maps s1]], unfold prod.case,
      rule is_sess_bind [OF graph_call_if(3)], assumption, unfold prod.case, goal_cases)
    case (1 r2 s2 r3 s3)
    with 2(1) show ?case by (auto simp: stop_post_def sess_at_put_sess intro!: set_sess_state_posts [OF 1(2)])
  qed
qed

definition close_post :: "session_obj \<Rightarrow> int \<Rightarrow> session_obj \<Rightarrow> bool" where
  "close_post so r so' \<longleftrightarrow>
     (if s_state so = SESSION_CLOSED then r = - EALREADY \<and> so' = so
      else so' = so\<lparr>graph := None, aif_pool := map closed_aif (aif_pool so), s_state := SESSION_CLOSED\<rparr>)"

lemma session_close_posts:
  assumes so: "is_sess p so s"
  shows "posts (session_close E p s) (\<lambda>r s'. \<exists>so'. is_sess p so' s' \<and> close_post so r so')"
  unfolding session_close_def so bind.simps Let_def
proof (rule posts_if, simp add: so close_post_def, rule is_sess_bind [OF graph_call_if(3) [OF so]], unfold prod.case,
    rule is_sess_bind [OF gframe_graph_close [OF gf.refl, THEN is_sess_gframe]], assumption, unfold prod.case,
    rule is_sess_deref, assumption, goal_cases)
  case (1 r1 s1 r2 s2)
  let ?so = "so\<lparr>graph := None\<rparr>"
  have s2: "is_sess p ?so (put_sess p ?so s2)" using 1(3) by (rule is_sess_put)
  have len: "aif_indices so = aif_indices ?so" by simp
  show ?case
    unfolding len
  proof (rule is_sess_bind [OF each_ret_maps [OF aif_close_maps s2]], unfold prod.case, goal_cases)
    case (1 r3 s3)
    with \<open>s_state so \<noteq> SESSION_CLOSED\<close> show ?case
      by (auto simp: close_post_def sess_at_put_sess intro!: set_sess_state_posts [OF 1])
  qed
qed

section \<open>The order of the calls\<close>

text \<open>The trace grew by calls of one kind only (newest first).\<close>

definition grew_by :: "(ext_call \<Rightarrow> bool) \<Rightarrow> ext_call list \<Rightarrow> ext_call list \<Rightarrow> bool" where
  "grew_by P h h' \<longleftrightarrow> (\<exists>t. h' = t @ h \<and> list_all P t)"

lemma grew_by_refl [simp]: "grew_by P h h"
  by (simp add: grew_by_def)

lemma grew_by_Cons: "grew_by P h h' \<Longrightarrow> P c \<Longrightarrow> grew_by P h (c # h')"
  unfolding grew_by_def by (metis append_Cons list.pred_inject(2))

lemma grew_by_trans: "grew_by P a b \<Longrightarrow> grew_by P b c \<Longrightarrow> grew_by P a c"
  unfolding grew_by_def by (metis append.assoc list_all_append)

interpretation gb: frame_logic "\<lambda>s s'. grew_by P (trace s) (trace s')" for P
  by unfold_locales (auto intro: grew_by_trans)

lemma gframe_grew: "gframe s s' \<Longrightarrow> grew_by quiet (trace s) (trace s')"
  by (auto simp: gframe_def grew_quietly_def grew_by_def list_all_iff)

definition is_pcm_prepare :: "ext_call \<Rightarrow> bool" where
  "is_pcm_prepare c \<longleftrightarrow> (\<exists>h. c = Pcm_prepare h)"

definition is_pcm_stop :: "ext_call \<Rightarrow> bool" where
  "is_pcm_stop c \<longleftrightarrow> (\<exists>h. c = Pcm_stop h)"

lemma trace_put_aif [simp]: "trace (put_aif p i a s) = trace s"
  by (simp add: put_aif_def split: option.splits)

lemma aif_ops_grew:
  "gb.keeps is_pcm_prepare (aif_prepare E p i)" "gb.keeps is_pcm_stop (aif_stop E p st i)"
  unfolding gb.keeps_def aif_prepare_def aif_stop_def device_prepare_def device_stop_def xcall_def Let_def
    set_aif_state_def posts_def
  by (auto simp: grew_by_Cons is_pcm_prepare_def is_pcm_stop_def split: bind_splits option.splits if_splits)

text \<open>
  Two steps in a row, the first growing the trace by \<open>P\<close> and the second by \<open>R\<close>; either
  may be missing.
\<close>

definition in_order :: "(ext_call \<Rightarrow> bool) \<Rightarrow> (ext_call \<Rightarrow> bool) \<Rightarrow> ext_call list \<Rightarrow> ext_call list \<Rightarrow> bool" where
  "in_order P R h h' \<longleftrightarrow> (\<exists>h1. grew_by P h h1 \<and> grew_by R h1 h')"

lemma in_order1: "grew_by P h h' \<Longrightarrow> in_order P R h h'"
  using grew_by_refl unfolding in_order_def by blast

lemma in_order2: "grew_by P h h1 \<Longrightarrow> grew_by R h1 h' \<Longrightarrow> in_order P R h h'"
  unfolding in_order_def by blast

lemma graph_calls_grew:
  "posts (graph_prepare E gp s) (\<lambda>r s'. grew_by quiet (trace s) (trace s'))"
  "posts (graph_stop E gp m s) (\<lambda>r s'. grew_by quiet (trace s) (trace s'))"
  by (rule posts_mono [OF gframe_graph_prepare [OF gf.refl]], erule gframe_grew)
    (rule posts_mono [OF gframe_graph_stop [OF gf.refl]], erule gframe_grew)

lemmas loops_grew = gb.keepsD [OF gb.keeps_each_until [OF aif_ops_grew(1)]]
  gb.keepsD [OF gb.keeps_each_ret [OF aif_ops_grew(2)]]

lemma may_call_grew:
  "posts (m s) (\<lambda>r s'. grew_by P (trace s) (trace s')) \<Longrightarrow>
    posts (if b then m s else Some (r, s)) (\<lambda>r s'. grew_by P (trace s) (trace s'))"
  by simp

lemma set_sess_state_grew:
  "posts m (\<lambda>r s'. grew_by P h (trace s')) \<Longrightarrow>
    posts (m \<bind> (\<lambda>(r, s). set_sess_state p st s \<bind> (\<lambda>s. Some (r, s)))) (\<lambda>r s'. grew_by P h (trace s'))"
  "posts m (\<lambda>r s'. grew_by P h (trace s')) \<Longrightarrow>
    posts (m \<bind> (\<lambda>(r, s). if r \<noteq> 0 then Some (r, s) else set_sess_state p st s \<bind> (\<lambda>s. Some (0, s))))
      (\<lambda>r s'. grew_by P h (trace s'))"
  by (auto simp: posts_def set_sess_state_def split: bind_splits if_splits)

lemma then_grew:
  assumes "posts m (\<lambda>r s'. grew_by R (trace s) (trace s'))" "grew_by P h (trace s)"
  shows "posts m (\<lambda>r s'. in_order P R h (trace s'))"
  using assms(1) by (rule posts_mono) (rule in_order2 [OF assms(2)])

lemma two_phases:
  assumes "posts m (\<lambda>r s'. grew_by P h (trace s'))"
    and "\<And>r s. posts (m' r s) (\<lambda>r s'. grew_by R (trace s) (trace s'))"
  shows "posts (m \<bind> (\<lambda>(r, s). m' r s)) (\<lambda>r s'. in_order P R h (trace s'))"
  by (rule posts_bind [OF assms(1)], unfold prod.case, rule then_grew [OF assms(2)])

lemma may_fail_grew:
  "posts (m s) (\<lambda>r s'. grew_by R (trace s) (trace s')) \<Longrightarrow>
    posts (if b then Some (r, s) else m s) (\<lambda>r s'. grew_by R (trace s) (trace s'))"
  by simp

lemmas by_dir = bind.simps Let_def direction.distinct simp_thms if_False if_True prod.case

lemma session_prepare_order:
  assumes so: "is_sess p so s"
  shows "posts (session_prepare E p s) (\<lambda>r s'.
    (dir (stream_config so) = RX \<longrightarrow> in_order is_pcm_prepare quiet (trace s) (trace s')) \<and>
    (dir (stream_config so) = TX \<longrightarrow> in_order quiet is_pcm_prepare (trace s) (trace s')))"
proof (cases "dir (stream_config so)")
  case RX
  show ?thesis
    by (simp only: session_prepare_def so RX by_dir, rule posts_if, simp add: in_order1, rule two_phases [OF loops_grew(1)])
      (rule may_fail_grew, rule set_sess_state_grew(2) [OF may_call_grew [OF graph_calls_grew(1)]])
next
  case TX
  show ?thesis
    by (simp only: session_prepare_def so TX by_dir, rule posts_if, simp add: in_order1, rule two_phases [OF may_call_grew [OF graph_calls_grew(1)]])
      (rule may_fail_grew, rule set_sess_state_grew(2) [OF loops_grew(1)])
qed (simp add: posts_def)

lemma session_stop_order:
  assumes so: "is_sess p so s"
  shows "posts (session_stop E p s) (\<lambda>r s'.
    (dir (stream_config so) = RX \<longrightarrow> in_order quiet is_pcm_stop (trace s) (trace s')) \<and>
    (dir (stream_config so) = TX \<longrightarrow> in_order is_pcm_stop quiet (trace s) (trace s')))"
proof (cases "dir (stream_config so)")
  case RX
  show ?thesis
    by (simp only: session_stop_def so RX by_dir, rule posts_if, simp add: in_order1, rule two_phases [OF graph_calls_grew(2)])
      (rule may_fail_grew, rule set_sess_state_grew(1) [OF loops_grew(2)])
next
  case TX
  show ?thesis
    by (simp only: session_stop_def so TX by_dir, rule posts_if, simp add: in_order1, rule two_phases [OF loops_grew(2)])
      (rule set_sess_state_grew(1) [OF graph_calls_grew(2)])
qed (simp add: posts_def)

section \<open>The pool and the callbacks\<close>

text \<open>
  The lookup by id finds the session it created before, appends at most one session and
  changes no other; ids stay distinct.
\<close>

definition ids_distinct :: "agm_state \<Rightarrow> bool" where
  "ids_distinct s \<longleftrightarrow> (\<forall>pool. sess_pool s = Some pool \<longrightarrow> distinct (map sess_id pool))"

lemma find_index_snoc:
  "find_index P xs = None \<Longrightarrow> P x \<Longrightarrow> find_index P (xs @ [x]) = Some (length xs)"
  by (simp add: find_index_append)

lemma session_obj_get_spec:
  assumes get: "session_obj_get E x s = Some ((r, pp), s')"
  shows "(pp = None \<longrightarrow> r = - ENOMEM \<and> sess_pool s' = sess_pool s)
    \<and> (\<forall>p. pp = Some p \<longrightarrow> r = 0 \<and> session_obj_get E x s' = Some ((0, Some p), s')
        \<and> (\<exists>so. is_sess p so s' \<and> sess_id so = x))
    \<and> (\<forall>q so. is_sess q so s \<longrightarrow> is_sess q so s') \<and> (ids_distinct s \<longrightarrow> ids_distinct s')"
proof -
  from get obtain pool where pool: "sess_pool s = Some pool"
    by (cases "sess_pool s") (simp_all add: session_obj_get_def session_obj_get_from_pool_def)
  show ?thesis
  proof (cases "find_index (\<lambda>so. sess_id so = x) pool")
    case (Some p)
    with get pool have "s' = s" "r = 0" "pp = Some p"
      by (auto simp: session_obj_get_def session_obj_get_from_pool_def)
    moreover from Some have "p < length pool" "sess_id (pool ! p) = x" by (simp_all add: find_index_Some_iff)
    ultimately show ?thesis
      using Some pool by (simp add: session_obj_get_def session_obj_get_from_pool_def sess_at_def)
  next
    case None
    let ?t = "Calloc 1 SIZEOF_SESSION # trace s"
    have id: "sess_id (new_session x) = x" by (simp add: new_session_def)
    show ?thesis
    proof (cases "calloc_ok E (trace s) 1 SIZEOF_SESSION")
      case True
      with None get pool have s': "r = 0" "pp = Some (length pool)"
          "s' = s\<lparr>trace := ?t, sess_pool := Some (pool @ [new_session x])\<rparr>"
        by (auto simp: session_obj_get_def session_obj_get_from_pool_def session_obj_create_def calloc_def)
      have new: "find_index (\<lambda>so. sess_id so = x) (pool @ [new_session x]) = Some (length pool)"
        using None id by (rule find_index_snoc)
      have "x \<notin> sess_id ` set pool" using None by (auto simp: find_index_None_iff)
      with new id pool show ?thesis
        by (auto simp: s' session_obj_get_def session_obj_get_from_pool_def sess_at_def nth_append ids_distinct_def)
    next
      case False
      with None get pool show ?thesis
        by (auto simp: session_obj_get_def session_obj_get_from_pool_def session_obj_create_def calloc_def
            sess_at_def ids_distinct_def)
    qed
  qed
qed

text \<open>The client calls an event gives rise to, newest first.\<close>

lemma call_cbs_trace:
  "call_cbs E x ev cbs s = Some ((), s\<lparr>trace :=
     rev (map (\<lambda>cb. Client_cb (cb_fn cb) x ev (cb_client_data cb)) (filter (cb_matches ev) cbs)) @ trace s\<rparr>)"
  by (induction cbs arbitrary: s) (simp_all add: xcall_def)

end
