(* ===== verification/Agm_Service_Props.thy ===== *)
theory Agm_Service_Props
  imports Agm_Session_Props
begin

text \<open>
  No request resets the flag that \<open>agm_init\<close> sets: what \<open>agm_deinit\<close> finds is what
  \<open>agm_init\<close> left.
\<close>

abbreviation up :: "bool \<Rightarrow> agm_state \<Rightarrow> bool" where
  "up b s \<equiv> agm_initialized s = b"

lemma up_gframe: "posts m (\<lambda>r s'. gframe s s') \<Longrightarrow> up b s \<Longrightarrow> posts m (\<lambda>r s'. up b s')"
  by (erule posts_mono) (simp add: gframe_def)

lemma up_put [intro]:
  "up b s \<Longrightarrow> up b (put_sess p x s)" "up b s \<Longrightarrow> up b (put_dev d y s)" "up b s \<Longrightarrow> up b (put_aif p i a s)"
  "up b s \<Longrightarrow> up b (s\<lparr>sess_pool := q\<rparr>)"
  by (simp_all add: put_sess_def put_dev_def put_aif_def split: option.splits)

lemma up_bind: "posts m (\<lambda>r s'. up b s') \<Longrightarrow> (\<And>r s'. up b s' \<Longrightarrow> posts (f (r, s')) Q) \<Longrightarrow> posts (m \<bind> f) Q"
  by (rule posts_bind)

lemma up_calloc: "up b s \<Longrightarrow> posts (calloc E n z s) (\<lambda>r s'. up b s')"
  by (simp add: calloc_def)

lemma up_set:
  "(\<And>s'. up b s' \<Longrightarrow> posts (f s') Q) \<Longrightarrow> up b s \<Longrightarrow> posts (set_aif_state p i st s \<bind> f) Q"
  "(\<And>s'. up b s' \<Longrightarrow> posts (f s') Q) \<Longrightarrow> up b s \<Longrightarrow> posts (set_sess_state p sst s \<bind> f) Q"
  unfolding set_aif_state_def set_sess_state_def
  by (auto intro!: posts_deref simp: put_aif_def put_sess_def split: bind_splits option.splits)

context counted_device_op
begin

lemma keeps_initialized: "up b s \<Longrightarrow> posts (op dp s) (\<lambda>r s'. up b s')"
proof (cases dp)
  case (Some d)
  assume b: "up b s"
  show ?thesis
  proof (cases "dev_at s d = None")
    case False
    from frame [OF this] show ?thesis
      unfolding Some by (rule posts_mono [OF runs_imp_posts]) (use b in \<open>simp add: dev_frame_def\<close>)
  qed (simp add: Some op_null_dev)
qed (simp add: null)

end

lemmas up_device_ops = copen.keeps_initialized cprepare.keeps_initialized cstart.keeps_initialized
  cstop.keeps_initialized cclose.keeps_initialized

lemmas up_graph_ops = frame_intros [OF gf.refl, THEN up_gframe]

lemmas up_steps = posts_flow up_set up_bind posts_deref up_put up_calloc up_device_ops up_graph_ops
  each_until_inv each_ret_inv

lemma up_get:
  "up b s \<Longrightarrow> posts (session_obj_get E x s) (\<lambda>r s'. up b s')"
  "up b s \<Longrightarrow> posts (aif_obj_get E p x s) (\<lambda>r s'. up b s')"
  unfolding session_obj_get_def session_obj_get_from_pool_def session_obj_create_def
    aif_obj_get_def aif_obj_create_def
  by (assumption | rule up_steps)+

lemma up_connect:
  "up b s \<Longrightarrow> posts (connect_graph E p m dp n s) (\<lambda>r s'. up b s')"
  "up b s \<Longrightarrow> posts (set_cached_sess_params E p s) (\<lambda>r s'. up b s')"
  "up b s \<Longrightarrow> posts (set_cached_aif_params E p i s) (\<lambda>r s'. up b s')"
  "up b s \<Longrightarrow> posts (set_cached_dev_params E p d s) (\<lambda>r s'. up b s')"
  unfolding connect_graph_def set_cached_sess_params_def set_cached_aif_params_def set_cached_dev_params_def Let_def
  by (assumption | rule up_steps)+

lemma posts_case_outcome:
  "(x = Connected \<Longrightarrow> posts a Q) \<Longrightarrow> (\<And>r. x = Goto_close_device r \<Longrightarrow> posts (b r) Q)
    \<Longrightarrow> (\<And>r. x = Goto_graph_cleanup r \<Longrightarrow> posts (c r) Q)
    \<Longrightarrow> posts (case x of Connected \<Rightarrow> a | Goto_close_device r \<Rightarrow> b r | Goto_graph_cleanup r \<Rightarrow> c r) Q"
  by (cases x) auto

lemma up_connect_aif:
  "up b s \<Longrightarrow> posts (connect_exit E p d m n out s) (\<lambda>r s'. up b s')"
  "up b s \<Longrightarrow> posts (connect_body E p i d m n s) (\<lambda>r s'. up b s')"
  unfolding connect_exit_def connect_body_def and_then_def
  by (assumption | rule posts_case_outcome up_connect up_steps)+

lemma up_session_connect_aif: "up b s \<Longrightarrow> posts (session_connect_aif E p i n s) (\<lambda>r s'. up b s')"
  unfolding session_connect_aif_def
  by (assumption | rule up_connect_aif up_steps)+

lemma up_session_disconnect_aif: "up b s \<Longrightarrow> posts (session_disconnect_aif E p i n s) (\<lambda>r s'. up b s')"
  unfolding session_disconnect_aif_def
  by (assumption | rule up_steps)+

lemma up_aif_ops:
  "up b s \<Longrightarrow> posts (aif_prepare E p i s) (\<lambda>r s'. up b s')" "up b s \<Longrightarrow> posts (aif_start p i s) (\<lambda>r s'. up b s')"
  "up b s \<Longrightarrow> posts (aif_stop E p st i s) (\<lambda>r s'. up b s')" "up b s \<Longrightarrow> posts (aif_close E p i s) (\<lambda>r s'. up b s')"
  "up b s \<Longrightarrow> posts (unwind_aif E p i s) (\<lambda>r s'. up b s')"
  unfolding aif_prepare_def aif_start_def aif_stop_def aif_close_def unwind_aif_def
  by (assumption | rule up_session_disconnect_aif up_steps)+

lemma up_checks:
  "up b s \<Longrightarrow> posts (check_loopback E p s) (\<lambda>r s'. up b s')" "up b s \<Longrightarrow> posts (check_ec_ref p s) (\<lambda>r s'. up b s')"
  unfolding check_loopback_def check_ec_ref_def
  by (assumption | rule up_get up_steps)+

lemma up_state_machine:
  "up b s \<Longrightarrow> posts (session_prepare E p s) (\<lambda>r s'. up b s')"
  "up b s \<Longrightarrow> posts (session_start E p s) (\<lambda>r s'. up b s')"
  "up b s \<Longrightarrow> posts (session_stop E p s) (\<lambda>r s'. up b s')"
  "up b s \<Longrightarrow> posts (session_close E p s) (\<lambda>r s'. up b s')"
  unfolding session_prepare_def session_start_def start_unwind_def session_stop_def session_close_def Let_def
  by (assumption | rule up_checks up_aif_ops up_steps)+

lemma up_connect_loop: "up b s \<Longrightarrow> posts (connect_loop E p is n s) (\<lambda>r s'. up b s')"
proof (induction "is" arbitrary: n s)
  case (Cons i "is")
  show ?case
    unfolding connect_loop.simps
    by (insert Cons.prems) (assumption | rule Cons.IH up_session_connect_aif up_steps)+
qed simp

lemma up_side_paths:
  "up b s \<Longrightarrow> posts (session_set_loopback E p x e s) (\<lambda>r s'. up b s')"
  unfolding session_set_loopback_def
  by (assumption | rule up_get up_steps)+

lemma up_open:
  "up b s \<Longrightarrow> posts (session_open_with_first_device E p s) (\<lambda>r s'. up b s')"
  "up b s \<Longrightarrow> posts (session_connect_reminder_devices E p s) (\<lambda>r s'. up b s')"
  unfolding session_open_with_first_device_def session_connect_reminder_devices_def
  by (assumption | rule up_session_connect_aif up_connect_loop up_aif_ops up_steps)+

lemma up_session_obj_open: "up b s \<Longrightarrow> posts (session_obj_open E x s) (\<lambda>r s'. up b s')"
  unfolding session_obj_open_def open_session_def
  by (assumption | rule up_get up_open up_side_paths up_steps)+

lemma up_aif_connect: "up b s \<Longrightarrow> posts (session_obj_sess_aif_connect E p x c s) (\<lambda>r s'. up b s')"
  unfolding session_obj_sess_aif_connect_def connect_aif_to_def Let_def
  by (assumption | rule up_get up_session_connect_aif up_session_disconnect_aif up_state_machine up_steps)+

lemma up_setters:
  "up b s \<Longrightarrow> posts (session_obj_set_sess_metadata E p m s) (\<lambda>r s'. up b s')"
  "up b s \<Longrightarrow> posts (session_obj_set_sess_params E p m s) (\<lambda>r s'. up b s')"
  "up b s \<Longrightarrow> posts (session_obj_set_sess_aif_params E p x m s) (\<lambda>r s'. up b s')"
  "up b s \<Longrightarrow> posts (session_obj_set_sess_aif_params_with_tag E p x tc s) (\<lambda>r s'. up b s')"
  "up b s \<Longrightarrow> posts (session_obj_set_sess_aif_cal E p x cal s) (\<lambda>r s'. up b s')"
  "up b s \<Longrightarrow> posts (session_obj_set_sess_aif_metadata E p x m s) (\<lambda>r s'. up b s')"
  "up b s \<Longrightarrow> posts (session_obj_get_tag_with_module_info E p x bf s) (\<lambda>r s'. up b s')"
  "up b s \<Longrightarrow> posts (session_obj_register_cb E p cb ty cd s) (\<lambda>r s'. up b s')"
  "up b s \<Longrightarrow> posts (session_obj_set_config p sc mc bc s) (\<lambda>r s'. up b s')"
  "up b s \<Longrightarrow> posts (session_obj_set_loopback E p y st s) (\<lambda>r s'. up b s')"
  "up b s \<Longrightarrow> posts (session_obj_set_ec_ref E p y st s) (\<lambda>r s'. up b s')"
  "up b s \<Longrightarrow> posts (session_obj_buffer_timestamp p s) (\<lambda>r s'. up b s')"
  "up b s \<Longrightarrow> posts (device_set_metadata E dp m s) (\<lambda>r s'. up b s')"
  "up b s \<Longrightarrow> posts (device_set_media_config dp mo s) (\<lambda>r s'. up b s')"
  "up b s \<Longrightarrow> posts (device_set_params E dp m s) (\<lambda>r s'. up b s')"
  unfolding session_obj_set_sess_metadata_def session_obj_set_sess_params_def session_obj_set_sess_aif_params_def
    session_obj_set_sess_aif_params_with_tag_def session_obj_set_sess_aif_cal_def
    session_obj_set_sess_aif_metadata_def session_obj_get_tag_with_module_info_def session_obj_register_cb_def
    session_obj_set_config_def session_obj_set_loopback_def session_obj_set_ec_ref_def
    session_obj_buffer_timestamp_def device_set_metadata_def device_set_media_config_def device_set_params_def Let_def
  by (assumption | rule up_get up_side_paths up_steps)+

lemma up_dispatch:
  "up b s \<Longrightarrow> (\<And>p s. up b s \<Longrightarrow> posts (f p s) (\<lambda>r s'. up b s')) \<Longrightarrow> posts (with_session E x err f s) (\<lambda>r s'. up b s')"
  "up b s \<Longrightarrow> (\<And>p s. up b s \<Longrightarrow> posts (g p s) (\<lambda>r s'. up b s')) \<Longrightarrow> posts (with_device y g s) (\<lambda>r s'. up b s')"
  "up b s \<Longrightarrow> (\<And>p s. up b s \<Longrightarrow> posts (h p s) (\<lambda>r s'. up b s')) \<Longrightarrow> posts (with_handle hn e h s) (\<lambda>r s'. up b s')"
  "posts (m s) (\<lambda>r s'. up b s') \<Longrightarrow> posts (code_of fc m s) (\<lambda>r s'. up b s')"
  unfolding with_session_def with_device_def with_handle_def code_of_def
  by (assumption | rule up_get up_steps)+

lemma up_api:
  "up b s \<Longrightarrow> posts (agm_session_open E x h s) (\<lambda>r s'. up b s')"
  "up b s \<Longrightarrow> posts (agm_get_session_time E hn h s) (\<lambda>r s'. up b s')"
  "up b s \<Longrightarrow> posts (agm_session_register_for_events E x cfg s) (\<lambda>r s'. up b s')"
  "up b s \<Longrightarrow> posts (agm_get_buffer_timestamp E x h s) (\<lambda>r s'. up b s')"
  "up b s \<Longrightarrow> posts (session_obj_prepare E p s) (\<lambda>r s'. up b s')"
  "up b s \<Longrightarrow> posts (session_obj_start E p s) (\<lambda>r s'. up b s')"
  "up b s \<Longrightarrow> posts (session_obj_stop E p s) (\<lambda>r s'. up b s')"
  "up b s \<Longrightarrow> posts (session_obj_close E p s) (\<lambda>r s'. up b s')"
  "up b s \<Longrightarrow> posts (graph_event_cb E ev y s) (\<lambda>r s'. up b s')"
  unfolding agm_session_open_def agm_get_session_time_def agm_session_register_for_events_def
    agm_get_buffer_timestamp_def session_obj_prepare_def session_obj_start_def session_obj_stop_def session_obj_close_def
  by (assumption | rule up_dispatch up_setters up_session_obj_open up_state_machine
      gframe_graph_event_cb [OF gf.refl, THEN up_gframe] up_steps)+

lemmas plain_request_defs = agm_aif_set_metadata_def agm_aif_set_media_config_def agm_aif_set_params_def
  agm_session_set_metadata_def agm_session_aif_set_metadata_def agm_session_aif_get_tag_module_info_def
  agm_session_aif_set_cal_def agm_session_aif_set_params_def agm_session_get_params_def
  agm_session_set_params_def agm_set_params_with_tag_def agm_session_register_cb_def
  agm_session_set_loopback_def agm_session_set_ec_ref_def agm_session_get_buf_info_def
  agm_session_set_config_def agm_session_prepare_def agm_session_start_def agm_session_stop_def
  agm_session_close_def agm_session_pause_def agm_session_resume_def agm_session_write_def
  agm_session_read_def agm_session_eos_def agm_session_aif_connect_def

lemma serve_up: "up b s \<Longrightarrow> posts (serve E q s) (\<lambda>r s'. up b s')"
  by (cases q; simp only: serve.simps plain_request_defs)
    (assumption | rule up_dispatch up_api up_setters up_aif_connect up_graph_ops)+

lemma svc_run_up: "svc_run E s s' \<Longrightarrow> agm_initialized s' = agm_initialized s"
proof (induction rule: svc_run.induct)
  case (run_request s s' q r s'')
  then show ?case using serve_up [of s' "agm_initialized s" E q] by (simp add: posts_def)
qed simp

end
