(* ===== verification/Agm_Sample.thy ===== *)
theory Agm_Sample
  imports Agm_Device_Inv
begin

text \<open>
  A concrete environment, device, session and state, for the applications of the theorems
  to concrete inputs. In the environment every call succeeds: allocations deliver memory,
  PCM devices are ready, GSL returns no error, \<open>AR_ETIMEOUT\<close> has the value of the OSAL
  header.
\<close>

definition ok_reply :: reply where
  "ok_reply = \<lparr>rc = 0, rptr = Some 1, rtags = [], rmods = [], rbytes = [], rsize = 64,
     rmsw = 0, rlsw = 0, rtime = 0, rlines = [''00-03: MI2S-LPAIF-RX-PRIMARY : : playback 1'']\<rparr>"

definition sample_env :: env where
  "sample_env = \<lparr>ext = (\<lambda>h c. case c of Pcm_is_ready p \<Rightarrow> ok_reply\<lparr>rc := 1\<rparr> | _ \<Rightarrow> ok_reply),
     konst = (\<lambda>k. case k of AR_ETIMEOUT \<Rightarrow> 21 | ACDB_FILENAME_SIZE \<Rightarrow> 256 | _ \<Rightarrow> 0), sizeof = (\<lambda>c. 64)\<rparr>"

definition sample_device :: device_obj where
  "sample_device = new_device 0 3 ''MI2S-LPAIF-RX-PRIMARY'' 0
     \<lparr>intf = MI2S, ep_dir = AUDIO_OUTPUT, ep_word0 = 0, ep_word1 = 0\<rparr>"

definition sample_state :: agm_state where
  "sample_state = \<lparr>device_list = [Some sample_device], num_audio_intfs = 1, sysfs_fd = True,
     sess_pool = None, graphs = (\<lambda>g. None), next_graph = 0, stream_module_list = [],
     hw_ep_module = [], agm_initialized = False, trace = []\<rparr>"

lemma sample_ar_osal_ok [simp]: "ar_osal_ok sample_env"
  by (simp add: ar_osal_ok_def sample_env_def)

lemma sample_alloc_ok [simp]: "alloc_ok sample_env"
  by (simp add: alloc_ok_def calloc_ok_def sample_env_def ok_reply_def)

lemma sample_calloc_ok [simp]: "calloc_ok sample_env h n z"
  by (rule alloc_okD) simp

lemma sample_ext [simp]:
  "rc (ext sample_env h c) = (case c of Pcm_is_ready p \<Rightarrow> 1 | _ \<Rightarrow> 0)"
  "rptr (ext sample_env h c) = Some 1"
  "rlines (ext sample_env h c) = [''00-03: MI2S-LPAIF-RX-PRIMARY : : playback 1'']"
  "rtags (ext sample_env h c) = []" "rmods (ext sample_env h c) = []"
  by (simp_all add: sample_env_def ok_reply_def split: ext_call.splits)

lemma sample_konst [simp]: "konst sample_env k = (case k of AR_ETIMEOUT \<Rightarrow> 21 | ACDB_FILENAME_SIZE \<Rightarrow> 256 | _ \<Rightarrow> 0)"
  by (simp add: sample_env_def)

lemma sample_dev_at: "dev_at sample_state 0 = Some sample_device"
  by (simp add: sample_state_def dev_at_def)

end
