(* ===== verification/Agm_Props_Session.thy ===== *)
theory Agm_Props_Session
  imports Agm_Session_Props Agm_Sample
begin

text \<open>
  The properties of the session state machine, of the session pool and of the callbacks.
\<close>

section \<open>A running session\<close>

text \<open>A playback session with one AIF on one device, in given states.\<close>

definition sample_session :: "session_state \<Rightarrow> aif_state \<Rightarrow> session_obj" where
  "sample_session st ast = (new_session 5)\<lparr>s_state := st,
     aif_pool := [zero_aif\<lparr>a_dev_obj := Some 0, a_state := ast\<rparr>], graph := Some 0,
     stream_config := zero_stream_config\<lparr>dir := RX, is_hostless := True\<rparr>\<rparr>"

definition sample_run :: "session_state \<Rightarrow> aif_state \<Rightarrow> device_state \<Rightarrow> graph_state \<Rightarrow> agm_state" where
  "sample_run st ast dst gst = sample_state
     \<lparr>device_list := [Some (sample_device\<lparr>d_state := dst, pcm := Some 1,
        refcnt := \<lparr>r_open = 1, r_prepare = of_bool (dst \<ge> DEV_PREPARED), r_start = of_bool (dst = DEV_STARTED)\<rparr>\<rparr>)],
      sess_pool := Some [sample_session st ast], graphs := [0 \<mapsto> new_graph (Some 1) [] 0\<lparr>g_state := gst\<rparr>]\<rparr>"

lemma sample_run_at [simp]:
  "sess_at (sample_run st ast dst gst) 0 = Some (sample_session st ast)"
  "sess_pool (sample_run st ast dst gst) = Some [sample_session st ast]"
  "aif_pool (sample_session st ast) = [zero_aif\<lparr>a_dev_obj := Some 0, a_state := ast\<rparr>]"
  "s_state (sample_session st ast) = st" "dir (stream_config (sample_session st ast)) = RX"
  "graph (sample_session st ast) = Some 0" "sess_id (sample_session st ast) = 5"
  "graph_at (sample_run st ast dst gst) 0 = Some (new_graph (Some 1) [] 0\<lparr>g_state := gst\<rparr>)"
  by (simp_all add: sample_run_def sample_session_def sess_at_def graph_at_def new_session_def)

lemma sample_run_dev [simp]:
  "dev_at (sample_run st ast dst gst) 0 = Some (sample_device\<lparr>d_state := dst, pcm := Some 1,
        refcnt := \<lparr>r_open = 1, r_prepare = of_bool (dst \<ge> DEV_PREPARED), r_start = of_bool (dst = DEV_STARTED)\<rparr>\<rparr>)"
  by (simp add: sample_run_def dev_at_def)

section \<open>The state machine\<close>

text \<open>
  A session is prepared only when it has an open AIF. On success it is in the state
  \<open>SESSION_PREPARED\<close> and every AIF that was opened or stopped is prepared, the others are
  untouched; on failure the session keeps its state and a prefix of its AIFs is prepared.
  Nothing else of the session changes.
\<close>

theorem session_prepare_outcome:
  assumes "session_prepare E p s = Some (r, s')" "sess_at s p = Some so"
  shows "\<exists>so'. sess_at s' p = Some so' \<and>
    (if aif_obj_get_count_with_state so AIF_OPENED False = 0 then r = -1 \<and> so' = so
     else if r = 0 then so' = so\<lparr>aif_pool := map prepared_aif (aif_pool so), s_state := SESSION_PREPARED\<rparr>
     else \<exists>k \<le> length (aif_pool so). so' = so\<lparr>aif_pool := map_upto prepared_aif k (aif_pool so)\<rparr>)"
  using session_prepare_posts [OF assms(2), of E] assms(1) by (simp add: posts_def prepare_post_def)

lemmas run_session = aif_at_def put_aif_def set_aif_state_def set_sess_state_def sess_at_put_sess
  aif_obj_get_count_with_state_def

lemmas unfold_sample = sample_run_def sample_state_def sample_session_def new_session_def sess_at_def dev_at_def
  graph_at_def put_dev_def put_sess_def put_graph_def zero_stream_config_def new_graph_def

theorem session_prepare_outcome_witness:
  "\<exists>s'. session_prepare sample_env 0 (sample_run SESSION_OPENED AIF_OPENED DEV_PREPARED PREPARED) = Some (0, s')
     \<and> sess_at s' 0 = Some ((sample_session SESSION_OPENED AIF_OPENED)\<lparr>s_state := SESSION_PREPARED,
         aif_pool := [zero_aif\<lparr>a_dev_obj := Some 0, a_state := AIF_PREPARED\<rparr>]\<rparr>)"
proof -
  obtain s' where s': "session_prepare sample_env 0 (sample_run SESSION_OPENED AIF_OPENED DEV_PREPARED PREPARED) = Some (0, s')"
    by (simp add: session_prepare_def run_session aif_prepare_def device_prepare_def graph_prepare_def new_graph_def
        sess_at_put_sess)
  from session_prepare_outcome [OF this sample_run_at(1)] s' show ?thesis
    by (simp add: aif_obj_get_count_with_state_def prepared_aif_def)
qed



text \<open>
  C18: only a started session can be stopped. Unless the graph of a playback session refuses
  to stop, the session is in the state \<open>SESSION_STOPPED\<close> afterwards and every started AIF
  is stopped, also when a device reports an error.
\<close>

theorem session_stop_outcome:
  assumes "session_stop E p s = Some (r, s')" "sess_at s p = Some so"
  shows "\<exists>so'. sess_at s' p = Some so' \<and>
    (if s_state so \<noteq> SESSION_STARTED then r = - EINVAL \<and> so' = so
     else so' = so\<lparr>aif_pool := map (stopped_aif AIF_STOPPED) (aif_pool so), s_state := SESSION_STOPPED\<rparr>
       \<or> dir (stream_config so) = RX \<and> r \<noteq> 0 \<and> so' = so)"
  using session_stop_posts [OF assms(2), of E] assms(1) by (simp add: posts_def stop_post_def)

theorem session_stop_outcome_witness:
  "\<exists>s'. session_stop sample_env 0 (sample_run SESSION_STARTED AIF_STARTED DEV_STARTED STARTED) = Some (0, s')
     \<and> sess_at s' 0 = Some ((sample_session SESSION_STARTED AIF_STARTED)\<lparr>s_state := SESSION_STOPPED,
         aif_pool := [zero_aif\<lparr>a_dev_obj := Some 0, a_state := AIF_STOPPED\<rparr>]\<rparr>)"
proof -
  obtain s' where s': "session_stop sample_env 0 (sample_run SESSION_STARTED AIF_STARTED DEV_STARTED STARTED) = Some (0, s')"
    by (simp add: session_stop_def run_session aif_stop_def device_stop_def graph_stop_def new_graph_def xcall_def Let_def)
  from session_stop_outcome [OF this sample_run_at(1)] s' show ?thesis
    by (simp add: stopped_aif_def)
qed



section \<open>The order of graph and device\<close>

text \<open>
  C19: in a playback session the PCM devices are prepared before the graph, in a capture
  session the graph before the devices: the calls of \<open>session_prepare\<close> are calls to the PCM
  devices followed by calls to GSL, or the other way round, and never interleaved.
\<close>

theorem prepare_in_order:
  assumes "session_prepare E p s = Some (r, s')" "sess_at s p = Some so"
  shows "\<exists>pcm_calls gsl_calls. list_all is_pcm_prepare pcm_calls \<and> list_all quiet gsl_calls
    \<and> (dir (stream_config so) = RX \<longrightarrow> trace s' = gsl_calls @ pcm_calls @ trace s)
    \<and> (dir (stream_config so) = TX \<longrightarrow> trace s' = pcm_calls @ gsl_calls @ trace s)"
  using session_prepare_order [OF assms(2), of E] assms(1)
  by (cases "dir (stream_config so)") (auto simp: posts_def in_order_def grew_by_def intro: exI [of _ "[]"])

theorem prepare_in_order_witness:
  "\<exists>s'. session_prepare sample_env 0 (sample_run SESSION_OPENED AIF_OPENED DEV_OPENED OPENED) = Some (0, s')
     \<and> (\<exists>pcm_calls gsl_calls. list_all is_pcm_prepare pcm_calls \<and> list_all quiet gsl_calls
          \<and> trace s' = gsl_calls @ pcm_calls)"
proof -
  let ?s = "sample_run SESSION_OPENED AIF_OPENED DEV_OPENED OPENED"
  obtain s' where s': "session_prepare sample_env 0 ?s = Some (0, s')"
    by (simp add: session_prepare_def run_session aif_prepare_def device_prepare_def graph_prepare_def
        xcall_def graph_cmd_def unfold_sample Let_def)
  have "trace ?s = []" by (simp add: sample_run_def sample_state_def)
  with prepare_in_order [OF s' sample_run_at(1)] s' show ?thesis by auto
qed

text \<open>
  C20: in a playback session the graph is stopped before the PCM devices, in a capture
  session the devices before the graph.
\<close>

theorem stop_in_order:
  assumes "session_stop E p s = Some (r, s')" "sess_at s p = Some so"
  shows "\<exists>pcm_calls gsl_calls. list_all is_pcm_stop pcm_calls \<and> list_all quiet gsl_calls
    \<and> (dir (stream_config so) = RX \<longrightarrow> trace s' = pcm_calls @ gsl_calls @ trace s)
    \<and> (dir (stream_config so) = TX \<longrightarrow> trace s' = gsl_calls @ pcm_calls @ trace s)"
  using session_stop_order [OF assms(2), of E] assms(1)
  by (cases "dir (stream_config so)") (auto simp: posts_def in_order_def grew_by_def intro: exI [of _ "[]"])

theorem stop_in_order_witness:
  "\<exists>s'. session_stop sample_env 0 (sample_run SESSION_STARTED AIF_STARTED DEV_STARTED STARTED) = Some (0, s')
     \<and> (\<exists>pcm_calls gsl_calls. list_all is_pcm_stop pcm_calls \<and> list_all quiet gsl_calls
          \<and> trace s' = pcm_calls @ gsl_calls)"
proof -
  let ?s = "sample_run SESSION_STARTED AIF_STARTED DEV_STARTED STARTED"
  obtain s' where s': "session_stop sample_env 0 ?s = Some (0, s')"
    by (simp add: session_stop_def run_session aif_stop_def device_stop_def graph_stop_def new_graph_def xcall_def Let_def)
  have "trace ?s = []" by (simp add: sample_run_def sample_state_def)
  with stop_in_order [OF s' sample_run_at(1)] s' show ?thesis by auto
qed

section \<open>The pool and the callbacks\<close>

text \<open>
  The lookup of a session by id creates a session on first use and finds the same one
  ever after; it fails only for want of memory. No other session is changed, and the ids in
  the pool stay distinct.
\<close>

theorem session_lookup:
  assumes "session_obj_get E x s = Some ((r, pp), s')"
  shows "(pp = None \<longrightarrow> r = - ENOMEM \<and> sess_pool s' = sess_pool s)
    \<and> (\<forall>p. pp = Some p \<longrightarrow> r = 0 \<and> session_obj_get E x s' = Some ((0, Some p), s')
        \<and> (\<exists>so. sess_at s' p = Some so \<and> sess_id so = x))
    \<and> (\<forall>q so. sess_at s q = Some so \<longrightarrow> sess_at s' q = Some so) \<and> (ids_distinct s \<longrightarrow> ids_distinct s')"
  using assms by (rule session_obj_get_spec)

theorem session_lookup_witness:
  "\<exists>s'. session_obj_get sample_env 9 (sample_run SESSION_OPENED AIF_OPENED DEV_OPENED OPENED) = Some ((0, Some 1), s')
     \<and> session_obj_get sample_env 9 s' = Some ((0, Some 1), s') \<and> ids_distinct s'"
proof -
  let ?s = "sample_run SESSION_OPENED AIF_OPENED DEV_OPENED OPENED"
  obtain s' where s': "session_obj_get sample_env 9 ?s = Some ((0, Some 1), s')"
    by (simp add: session_obj_get_def session_obj_get_from_pool_def session_obj_create_def calloc_def)
  have "ids_distinct ?s" by (simp add: ids_distinct_def)
  with session_lookup [OF s'] s' show ?thesis by auto
qed

text \<open>
  An event of a graph reaches exactly the callbacks of its session that are registered
  for its kind, each once, in the order of registration; an event for an unknown session is
  dropped.
\<close>

theorem events_dispatched:
  assumes "sess_pool s = Some pool"
  shows "graph_event_cb E ev x s = Some ((), s\<lparr>trace :=
    (case find_index (\<lambda>so. sess_id so = x) pool of None \<Rightarrow> []
     | Some p \<Rightarrow> rev (map (\<lambda>cb. Client_cb (cb_fn cb) x ev (cb_client_data cb))
                   (filter (cb_matches ev) (cb_pool (pool ! p))))) @ trace s\<rparr>)"
proof (cases "find_index (\<lambda>so. sess_id so = x) pool")
  case None
  with assms show ?thesis by (simp add: graph_event_cb_def session_obj_retrieve_from_pool_def)
next
  case (Some p)
  then have "p < length pool" "sess_id (pool ! p) = x" by (simp_all add: find_index_Some_iff)
  with Some assms show ?thesis
    by (simp add: graph_event_cb_def session_obj_retrieve_from_pool_def sess_at_def call_cbs_trace)
qed

theorem events_dispatched_witness:
  "\<exists>s'. graph_event_cb sample_env \<lparr>source_module_id = 7, event_id = 0, event_payload = []\<rparr> 9 sample_state
     = None \<and> graph_event_cb sample_env \<lparr>source_module_id = 7, event_id = 0, event_payload = []\<rparr> 5
     (sample_run SESSION_OPENED AIF_OPENED DEV_OPENED OPENED) = Some ((), s')"
  using events_dispatched [OF sample_run_at(2), of sample_env _ 5]
  by (simp add: graph_event_cb_def session_obj_retrieve_from_pool_def sample_state_def)

text \<open>
  Registering a callback and unregistering it (by passing NULL with the same event type
  and client data) restores the callbacks of the session, when no callback with that type
  and data was registered before.
\<close>

theorem register_unregister:
  assumes "alloc_ok E" "sess_at s p = Some so"
    and "\<forall>c\<in>set (cb_pool so). \<not> (cb_evt_type c = ty \<and> cb_client_data c = cd)"
  shows "\<exists>s1 s2. session_obj_register_cb E p (Some f) ty cd s = Some (0, s1)
    \<and> (\<exists>so1. sess_at s1 p = Some so1
         \<and> cb_pool so1 = cb_pool so @ [\<lparr>cb_fn = f, cb_evt_type = ty, cb_client_data = cd\<rparr>])
    \<and> session_obj_register_cb E p None ty cd s1 = Some (0, s2) \<and> sess_at s2 p = Some so"
proof -
  have "filter (\<lambda>c. \<not> (cb_evt_type c = ty \<and> cb_client_data c = cd)) (cb_pool so) = cb_pool so"
    using assms(3) by (intro filter_True) auto
  with assms(1,2) show ?thesis
    by (simp add: session_obj_register_cb_def calloc_def alloc_okD sess_at_put_sess)
qed

theorem register_unregister_witness:
  "\<exists>s1 s2. session_obj_register_cb sample_env 0 (Some 3) AGM_EVENT_MODULE 4
       (sample_run SESSION_OPENED AIF_OPENED DEV_OPENED OPENED) = Some (0, s1)
     \<and> session_obj_register_cb sample_env 0 None AGM_EVENT_MODULE 4 s1 = Some (0, s2)
     \<and> sess_at s2 0 = Some (sample_session SESSION_OPENED AIF_OPENED)"
proof -
  have "cb_pool (sample_session SESSION_OPENED AIF_OPENED) = []" by (simp add: sample_session_def new_session_def)
  then show ?thesis
    using register_unregister [OF sample_alloc_ok sample_run_at(1) [of SESSION_OPENED AIF_OPENED DEV_OPENED OPENED],
        of AGM_EVENT_MODULE 4 3] by auto
qed

end
