(* ===== verification/Agm_Props_Data.thy ===== *)
theory Agm_Props_Data
  imports Agm_Sample
begin

text \<open>
  The properties of the data the service handles: error codes, metadata, PCM device names,
  and the device list.
\<close>

section \<open>Error codes\<close>

text \<open>
  The conversion of a GSL result to errno loses no error: the converted value is zero
  exactly for the code zero, and otherwise a negative errno of at least -131.
\<close>

theorem gsl_error_never_lost:
  assumes "ar_osal_ok E"
  shows "(lnx E ret = 0 \<longleftrightarrow> (word_of_int ret :: u32) = 0) \<and> - 131 \<le> lnx E ret \<and> lnx E ret \<le> 0"
proof (cases "(word_of_int ret :: u32) = 0")
  case True
  then have "lnx E ret = lnx E 0" by (simp add: lnx_def)
  with True assms show ?thesis by simp
next
  case False
  with lnx_error [OF assms False] show ?thesis by simp
qed

theorem gsl_error_never_lost_witness:
  "ar_osal_ok sample_env \<and> lnx sample_env 18 \<noteq> 0 \<and> - 131 \<le> lnx sample_env 18 \<and> lnx sample_env 18 \<le> 0"
  using gsl_error_never_lost [OF sample_ar_osal_ok, of 18] by simp

section \<open>Metadata\<close>

lemma dedup_array_readable:
  assumes "readable n p"
  obtains n' p' where "dedup_array key_of n p = Some (n', p')" "readable n' p'"
    and "elems n' p' = dedup key_of (elems n p)"
proof (cases p)
  case None
  with assms that [of 0 None] show thesis by (simp add: readable_def dedup_array_def elems_def)
next
  case (Some a)
  show thesis
  proof (cases "n \<le> length a")
    case True
    then obtain count a' where "dedup_array key_of n (Some a) = Some (count, Some a')"
        "take count a' = dedup key_of (take n a)" "count \<le> length a'"
      by (rule dedup_array_Some)
    with Some that [of count "Some a'"] show thesis by (simp add: elems_def readable_def)
  next
    case False
    with assms Some show thesis by (simp add: readable_def)
  qed
qed

text \<open>
  C21: the in-place removal of duplicates returns on every readable metadata, and computes
  the reference \<open>dedup\<close> on all three arrays: the keys become distinct, and a lookup by key
  gives what it gave before.
\<close>

theorem remove_dup_is_dedup:
  assumes "wf_meta m"
  shows "\<exists>m'. metadata_remove_dup m = Some m' \<and> wf_meta m'
    \<and> kvs_of (gkv m') = dedup key (kvs_of (gkv m)) \<and> kvs_of (ckv m') = dedup key (kvs_of (ckv m))
    \<and> props_of (sg_props m') = dedup (\<lambda>v. v) (props_of (sg_props m))
    \<and> distinct (map key (kvs_of (gkv m'))) \<and> distinct (map key (kvs_of (ckv m')))
    \<and> (\<forall>k. find (\<lambda>x. key x = k) (kvs_of (gkv m')) = find (\<lambda>x. key x = k) (kvs_of (gkv m)))
    \<and> (\<forall>k. find (\<lambda>x. key x = k) (kvs_of (ckv m')) = find (\<lambda>x. key x = k) (kvs_of (ckv m)))"
proof -
  have rd: "readable (num_kvs (gkv m)) (kv (gkv m))" "readable (num_kvs (ckv m)) (kv (ckv m))"
    "readable (num_values (sg_props m)) (pvalues (sg_props m))"
    using assms by (simp_all add: wf_meta_def)
  obtain ng g where g: "dedup_array key (num_kvs (gkv m)) (kv (gkv m)) = Some (ng, g)"
      "readable ng g" "elems ng g = dedup key (kvs_of (gkv m))"
    using dedup_array_readable [OF rd(1)] .
  obtain nc c where c: "dedup_array key (num_kvs (ckv m)) (kv (ckv m)) = Some (nc, c)"
      "readable nc c" "elems nc c = dedup key (kvs_of (ckv m))"
    using dedup_array_readable [OF rd(2)] .
  obtain np p where p: "dedup_array (\<lambda>v. v) (num_values (sg_props m)) (pvalues (sg_props m)) = Some (np, p)"
      "readable np p" "elems np p = dedup (\<lambda>v. v) (props_of (sg_props m))"
    using dedup_array_readable [OF rd(3)] .
  show ?thesis
    using g c p by (simp add: metadata_remove_dup_def wf_meta_def distinct_dedup find_dedup)
qed

definition sample_kvs :: "agm_key_value list" where
  "sample_kvs = [\<lparr>key = 1, val = 10\<rparr>, \<lparr>key = 2, val = 20\<rparr>, \<lparr>key = 1, val = 30\<rparr>]"

theorem remove_dup_is_dedup_witness:
  "\<exists>m'. metadata_remove_dup (meta_of sample_kvs [] 7 [5, 5]) = Some m'
     \<and> kvs_of (gkv m') = [\<lparr>key = 1, val = 10\<rparr>, \<lparr>key = 2, val = 20\<rparr>] \<and> props_of (sg_props m') = [5]"
proof -
  have "kvs_of (gkv (meta_of sample_kvs [] 7 [5, 5])) = sample_kvs"
    "props_of (sg_props (meta_of sample_kvs [] 7 [5, 5])) = [5, 5]"
    by (simp_all add: meta_of_def elems_def)
  then show ?thesis
    using remove_dup_is_dedup [OF wf_meta_of [of sample_kvs "[]" 7 "[5, 5]"]] by (auto simp: sample_kvs_def)
qed

text \<open>
  The merge of readable metadata returns for every behaviour of the allocator. It
  yields NULL only when an allocation failed; otherwise the result holds, in each of the
  three arrays, the first occurrence of every key over all arguments in order, and the
  property id of the last argument.
\<close>

theorem metadata_merge_correct:
  assumes "\<forall>m\<in>set (given args). wf_meta m"
  shows "runs (metadata_merge E args s) (\<lambda>r s'. only_trace s s' \<and> (alloc_ok E \<longrightarrow> r \<noteq> None)
    \<and> (\<forall>m. r = Some m \<longrightarrow> merged_ok (given args) m))"
  using assms by (rule metadata_merge_runs)

theorem metadata_merge_correct_witness:
  "runs (metadata_merge sample_env [None, Some (meta_of sample_kvs [] 7 [5])] sample_state)
     (\<lambda>r s'. \<exists>m. r = Some m \<and> map val (kvs_of (gkv m)) = [10, 20] \<and> prop_id (sg_props m) = 7)"
proof -
  have "kvs_of (gkv (meta_of sample_kvs [] 7 [5])) = sample_kvs" "prop_id (sg_props (meta_of sample_kvs [] 7 [5])) = 7"
    by (simp_all add: meta_of_def elems_def)
  then show ?thesis
    using metadata_merge_correct [of "[None, Some (meta_of sample_kvs [] 7 [5])]" sample_env sample_state]
    by (auto elim!: runs_mono simp: merged_ok_def sample_kvs_def)
qed

text \<open>
  C22: the copy of a client's payload reads back exactly what the documented layout encodes,
  also when bytes follow it.
\<close>

theorem metadata_copy_roundtrip:
  assumes "alloc_ok E" "length gs < 2 ^ 32" "length cs < 2 ^ 32" "length ps < 2 ^ 32"
  shows "\<exists>s'. metadata_copy E dest (enc_metadata gs cs pid ps @ tail) s = Some ((0, meta_of gs cs pid ps), s')
    \<and> only_trace s s'"
proof -
  have len: "unat (of_nat (length gs) :: u32) = length gs" "unat (of_nat (length cs) :: u32) = length cs"
    "unat (of_nat (length ps) :: u32) = length ps"
    using assms(2-4) by (simp_all add: unat_of_nat)
  note reads = enc_metadata_reads [where gs = gs and cs = cs and pid = pid and ps = ps and tail = tail]
  show ?thesis
    using alloc_okD [OF assms(1)]
    by (simp add: metadata_copy_def reads [simplified] len calloc_def Let_def meta_of_def suffix_ConsI)
qed

theorem metadata_copy_roundtrip_witness:
  "\<exists>s'. metadata_copy sample_env empty_meta (enc_metadata sample_kvs [] 7 [5]) sample_state
     = Some ((0, meta_of sample_kvs [] 7 [5]), s')"
  using metadata_copy_roundtrip [OF sample_alloc_ok, of sample_kvs "[]" "[5]" empty_meta 7 "[]" sample_state]
  by (auto simp: sample_kvs_def)

lemma rd32_bound: "rd32 bs off = Some w \<Longrightarrow> off + 4 \<le> length bs"
  by (simp add: rd32_def split: if_splits)

lemma rd_u32s_bound: "rd_u32s bs off n = Some ps \<Longrightarrow> off \<le> length bs \<longrightarrow> off + 4 * n \<le> length bs"
proof (induction n arbitrary: off ps)
  case (Suc n)
  then obtain w ws where w: "rd32 bs off = Some w" "rd_u32s bs (off + 4) n = Some ws" by (auto split: bind_splits)
  from Suc.IH [OF w(2)] rd32_bound [OF w(1)] show ?case by simp
qed simp

text \<open>
  A successful copy has read a payload of at least the length its counts announce: the
  counts come from the payload itself and the size the client passed is never consulted, so
  that a shorter payload makes the copy read outside the buffer (the model's undefined
  result).
\<close>

theorem metadata_copy_reads_inside:
  assumes "metadata_copy E dest bs s = Some ((0, m), s')"
  shows "16 + 8 * num_kvs (gkv m) + 8 * num_kvs (ckv m) + 4 * num_values (sg_props m) \<le> length bs"
  using assms unfolding metadata_copy_def calloc_def Let_def
  by (auto split: bind_splits if_splits dest!: rd32_bound rd_u32s_bound)

theorem metadata_copy_reads_inside_witness:
  "metadata_copy sample_env empty_meta (replicate 16 0) sample_state \<noteq> None \<and> 16 \<le> length (replicate 16 (0 :: u8))"
proof -
  have "metadata_copy sample_env empty_meta (replicate 16 0) sample_state
      = Some ((0, meta_of [] [] 0 []), sample_state\<lparr>trace := [Calloc 0 4, Calloc 0 8, Calloc 0 8]\<rparr>)"
    by (simp add: metadata_copy_def rd32_def le32_def calloc_def meta_of_def sample_state_def numeral_nat)
  from this metadata_copy_reads_inside [OF this] show ?thesis by (simp add: meta_of_def)
qed

text \<open>
  The calibration update returns on readable metadata, changes no key and nothing but
  the calibration vector, and gives every calibration key the value of the last entry of
  the new calibration with that key; keys without an entry keep their value.
\<close>

theorem update_cal_correct:
  assumes "wf_meta m"
  shows "\<exists>m'. metadata_update_cal m cal = Some m' \<and> wf_meta m' \<and> gkv m' = gkv m \<and> sg_props m' = sg_props m
    \<and> kvs_of (ckv m') = map (\<lambda>x. case find (\<lambda>c. key c = key x) (rev cal) of None \<Rightarrow> x
        | Some c \<Rightarrow> x\<lparr>val := val c\<rparr>) (kvs_of (ckv m))"
proof -
  have upd: "update_cal_value cal = (\<lambda>x. case find (\<lambda>c. key c = key x) (rev cal) of None \<Rightarrow> x
        | Some c \<Rightarrow> x\<lparr>val := val c\<rparr>)" by (rule ext) (rule update_cal_value_eq)
  have "update_cal_value [] = (\<lambda>x. x)" by (rule ext) simp
  with assms show ?thesis
    unfolding upd [symmetric]
    by (auto simp: metadata_update_cal_def Let_def wf_meta_def readable_def elems_def split: option.splits)
qed

theorem update_cal_correct_witness:
  "\<exists>m'. metadata_update_cal (meta_of [] sample_kvs 7 []) [\<lparr>key = 2, val = 5\<rparr>] = Some m'
     \<and> map val (kvs_of (ckv m')) = [10, 5, 30]"
  using update_cal_correct [OF wf_meta_of [of "[]" sample_kvs 7 "[]"], of "[\<lparr>key = 2, val = 5\<rparr>]"]
  by (auto simp: meta_of_def elems_def sample_kvs_def)

section \<open>PCM device names\<close>

lemma lpaif_short: "lpaif_of l = Some k \<Longrightarrow> length l \<le> 18"
  by (auto simp: lpaif_of_def split: if_splits)

lemma populate_four_parts:
  assumes "intf_of n = Some i" "i \<in> {CODEC_DMA, MI2S, TDM, AUXPCM}" "lpaif_of l = Some k" "dir_of d = Some j"
    and "(if i = CODEC_DMA then codec_idx_of x else pcm_idx_of x) = Some y"
  shows "populate_device_hw_ep_info E (n @ CHR ''-'' # l @ CHR ''-'' # d @ CHR ''-'' # x) hw
    = (0, hw\<lparr>intf := i, ep_dir := j, ep_word0 := konst E k, ep_word1 := y\<rparr>)"
proof -
  have parts: "name_part n" "name_part l" "name_part d" "name_part x"
    using assms table_name_part by (auto split: if_splits)
  have scan: "sscanf_dash (n @ CHR ''-'' # l @ CHR ''-'' # d @ CHR ''-'' # x) [] []
      = (n, l @ CHR ''-'' # d @ CHR ''-'' # x)"
    using parts lpaif_short [OF assms(3)] by (rule scan_four)
  have "populate_device_hw_ep_info E (n @ CHR ''-'' # l @ CHR ''-'' # d @ CHR ''-'' # x) hw
      = populate_cdc_dma_i2s_tdm_pcm_ep_info E (hw\<lparr>intf := i\<rparr>) (l @ CHR ''-'' # d @ CHR ''-'' # x)"
    using assms(1,2) by (simp add: populate_device_hw_ep_info_def scan populate_hw_ep_intf_def)
  also have "\<dots> = populate_hw_ep_intf_idx (hw\<lparr>intf := i, ep_word0 := konst E k, ep_dir := j\<rparr>) x"
    using populate_cdc [OF assms(3,4) parts(4)] by simp
  also have "\<dots> = (0, hw\<lparr>intf := i, ep_dir := j, ep_word0 := konst E k, ep_word1 := y\<rparr>)"
    using assms(2,5) by (auto simp: populate_hw_ep_intf_idx_def split: if_splits)
  finally show ?thesis .
qed

text \<open>
  A name \<open>INTERFACE-LPAIF-DIRECTION-INDEX\<close> made of the documented words is parsed
  into the interface, the LPAIF type, the direction and the index of that interface.
\<close>

theorem pcm_name_parsed:
  assumes "intf_of n = Some i" "i \<in> {CODEC_DMA, MI2S, TDM, AUXPCM}" "lpaif_of l = Some k" "dir_of d = Some j"
    and "(if i = CODEC_DMA then codec_idx_of x else pcm_idx_of x) = Some y"
  shows "populate_device_hw_ep_info E (n @ CHR ''-'' # l @ CHR ''-'' # d @ CHR ''-'' # x) hw
    = (0, hw\<lparr>intf := i, ep_dir := j, ep_word0 := konst E k, ep_word1 := y\<rparr>)"
  using assms by (rule populate_four_parts)

theorem pcm_name_parsed_witness:
  "populate_device_hw_ep_info sample_env ''MI2S-LPAIF-RX-PRIMARY'' \<lparr>intf = 9, ep_dir = 9, ep_word0 = 9, ep_word1 = 9\<rparr>
     = (0, \<lparr>intf = 1, ep_dir = 1, ep_word0 = 0, ep_word1 = 0\<rparr>)"
  using pcm_name_parsed [of "''MI2S''" 1 "''LPAIF''" LPAIF "''RX''" 1 "''PRIMARY''" 0 sample_env
      "\<lparr>intf = 9, ep_dir = 9, ep_word0 = 9, ep_word1 = 9\<rparr>"]
  by (simp add: intf_of_def lpaif_of_def dir_of_def pcm_idx_of_def sample_env_def)

lemma direction_result:
  "populate_hw_ep_direction hw n = (r, hw') \<Longrightarrow>
    r = 0 \<and> ep_dir hw' \<in> {AUDIO_OUTPUT, AUDIO_INPUT} \<and> intf hw' = intf hw \<or> r = - EINVAL"
  by (auto simp: populate_hw_ep_direction_def dir_of_def split: option.splits if_splits)

lemma ep_info_result:
  "populate_cdc_dma_i2s_tdm_pcm_ep_info E hw v = (r, hw') \<Longrightarrow>
    r = 0 \<and> ep_dir hw' \<in> {AUDIO_OUTPUT, AUDIO_INPUT} \<and> intf hw' = intf hw \<or> r = - EINVAL"
  "populate_slim_dp_usb_ep_info hw v = (r, hw') \<Longrightarrow>
    r = 0 \<and> ep_dir hw' \<in> {AUDIO_OUTPUT, AUDIO_INPUT} \<and> intf hw' = intf hw \<or> r = - EINVAL"
  "populate_pcm_rt_proxy_ep_info hw v = (r, hw') \<Longrightarrow>
    r = 0 \<and> ep_dir hw' \<in> {AUDIO_OUTPUT, AUDIO_INPUT} \<and> intf hw' = intf hw \<or> r = - EINVAL"
  by (auto simp: populate_cdc_dma_i2s_tdm_pcm_ep_info_def populate_slim_dp_usb_ep_info_def
      populate_pcm_rt_proxy_ep_info_def populate_hw_ep_intf_idx_def Let_def dest!: direction_result
      split: prod.splits option.splits if_splits)

text \<open>
  Whatever the name, the parser either succeeds with a known interface and a direction
  that is input or output, or returns \<open>-EINVAL\<close>.
\<close>

theorem pcm_name_result:
  "case populate_device_hw_ep_info E name hw of (r, hw') \<Rightarrow>
     r = 0 \<and> ep_dir hw' \<in> {AUDIO_OUTPUT, AUDIO_INPUT} \<and> intf hw' \<le> PCM_RT_PROXY \<or> r = - EINVAL"
proof -
  have known: "i \<le> PCM_RT_PROXY" if "intf_of n = Some i" for n i
    using that by (auto simp: intf_of_def split: if_splits)
  show ?thesis
    by (auto simp: populate_device_hw_ep_info_def populate_hw_ep_intf_def dest!: ep_info_result
        dest: known split: prod.splits option.splits if_splits)
qed

section \<open>The device list\<close>



lemma copy_aif_infos_spec:
  assumes "\<forall>i<k + n. dev_at s i \<noteq> None" "k + n \<le> length l"
  shows "\<exists>l'. copy_aif_infos s k n l = Some l' \<and> length l' = length l
    \<and> (\<forall>i. k \<le> i \<longrightarrow> i < k + n \<longrightarrow> l' ! i = \<lparr>aif_name = take 27 (d_name (the (dev_at s i))),
          aif_dir = ep_dir (ep_info (the (dev_at s i)))\<rparr>)
    \<and> (\<forall>i. i < k \<or> k + n \<le> i \<longrightarrow> l' ! i = l ! i)"
  using assms
proof (induction n arbitrary: k l)
  case (Suc n)
  from Suc.prems obtain dev where dev: "dev_at s k = Some dev" by fastforce
  let ?e = "\<lparr>aif_name = take 27 (d_name dev), aif_dir = ep_dir (ep_info dev)\<rparr>"
  from Suc.IH [of "Suc k" "l[k := ?e]"] Suc.prems obtain l' where
    l': "copy_aif_infos s (Suc k) n (l[k := ?e]) = Some l'" "length l' = length l"
      "\<forall>i. Suc k \<le> i \<longrightarrow> i < Suc k + n \<longrightarrow> l' ! i = \<lparr>aif_name = take 27 (d_name (the (dev_at s i))),
          aif_dir = ep_dir (ep_info (the (dev_at s i)))\<rparr>"
      "\<forall>i. i < Suc k \<or> Suc k + n \<le> i \<longrightarrow> l' ! i = l[k := ?e] ! i"
    by auto
  have "l' ! k = ?e" using l'(4) Suc.prems(2) by simp
  with l' dev Suc.prems(2) show ?case by (auto simp: le_eq_less_or_eq [of k] Suc_le_eq)
qed simp

text \<open>
  The list of audio interfaces is copied into the client's array without writing past
  the number of entries the client asked for: the entries up to the smaller of both counts
  are the names and directions of the devices, the others stay as they were.
\<close>

theorem aif_info_list_in_bounds:
  assumes "n \<noteq> 0" "\<forall>i<num_audio_intfs s. dev_at s i \<noteq> None"
    and "unat (ucast n :: u32) \<le> length l"
  shows "\<exists>l'. device_get_aif_info_list l n s = Some (0, l', min (num_audio_intfs s) (unat (ucast n :: u32)))
    \<and> length l' = length l
    \<and> (\<forall>i < min (num_audio_intfs s) (unat (ucast n :: u32)).
         l' ! i = \<lparr>aif_name = take 27 (d_name (the (dev_at s i))), aif_dir = ep_dir (ep_info (the (dev_at s i)))\<rparr>)
    \<and> (\<forall>i \<ge> min (num_audio_intfs s) (unat (ucast n :: u32)). l' ! i = l ! i)"
proof -
  let ?m = "min (num_audio_intfs s) (unat (ucast n :: u32))"
  have "\<forall>i<0 + ?m. dev_at s i \<noteq> None" "0 + ?m \<le> length l" using assms(2,3) by (auto intro: min.coboundedI2)
  from copy_aif_infos_spec [OF this]
  obtain l' where "copy_aif_infos s 0 ?m l = Some l'" "length l' = length l"
      "\<forall>i. 0 \<le> i \<longrightarrow> i < 0 + ?m \<longrightarrow> l' ! i = \<lparr>aif_name = take 27 (d_name (the (dev_at s i))),
          aif_dir = ep_dir (ep_info (the (dev_at s i)))\<rparr>"
      "\<forall>i. i < 0 \<or> 0 + ?m \<le> i \<longrightarrow> l' ! i = l ! i"
    by auto
  with assms(1) show ?thesis by (simp add: device_get_aif_info_list_def Let_def)
qed

theorem aif_info_list_in_bounds_witness:
  "\<exists>l'. device_get_aif_info_list (replicate 2 \<lparr>aif_name = ''x'', aif_dir = 0\<rparr>) 2 sample_state = Some (0, l', 1)
     \<and> l' ! 0 = \<lparr>aif_name = ''MI2S-LPAIF-RX-PRIMARY'', aif_dir = 1\<rparr> \<and> l' ! 1 = \<lparr>aif_name = ''x'', aif_dir = 0\<rparr>"
proof -
  have "num_audio_intfs sample_state = 1" by (simp add: sample_state_def)
  then show ?thesis
    using aif_info_list_in_bounds [of 2 sample_state "replicate 2 \<lparr>aif_name = ''x'', aif_dir = 0\<rparr>"] sample_dev_at
    by (auto simp: sample_device_def new_device_def)
qed

definition proc_reads :: "ext_call list \<Rightarrow> nat" where
  "proc_reads h = length (filter (\<lambda>c. c = Proc_asound_pcm) h)"

definition short_names :: "env \<Rightarrow> bool" where
  "short_names E \<longleftrightarrow> (\<forall>h. \<forall>l\<in>set (rlines (ext E h Proc_asound_pcm)). length (snd (snd (scan_pcm_line l))) < 80)"

definition listed :: "agm_state \<Rightarrow> bool" where
  "listed s \<longleftrightarrow> 0 < num_audio_intfs s \<and> num_audio_intfs s \<le> length (device_list s)
     \<and> (\<forall>i<length (device_list s). device_list s ! i = None \<longleftrightarrow> num_audio_intfs s \<le> i)
     \<and> (\<forall>i dev. dev_at s i = Some dev \<longrightarrow> d_state dev = DEV_CLOSED \<and> r_open (refcnt dev) = 0)"

lemma parse_pcm_lines_runs:
  assumes "\<forall>l\<in>set lines. length (snd (snd (scan_pcm_line l))) < 80"
    and "\<forall>dev\<in>set devs. d_state dev = DEV_CLOSED \<and> r_open (refcnt dev) = 0"
  shows "runs (parse_pcm_lines E lines devs s) (\<lambda>(r, devs') s'. r \<le> 0 \<and> r \<noteq> - EAGAIN
    \<and> proc_reads (trace s') = proc_reads (trace s) \<and> length devs' \<le> length devs + length lines
    \<and> (\<forall>dev\<in>set devs'. d_state dev = DEV_CLOSED \<and> r_open (refcnt dev) = 0))"
  using assms
proof (induction lines arbitrary: devs s)
  case (Cons l lines)
  obtain cno dev name where l: "scan_pcm_line l = (cno, dev, name)" by (cases "scan_pcm_line l")
  have name: "length name < 80" using Cons.prems(1) l by simp
  have prem: "\<forall>l\<in>set lines. length (snd (snd (scan_pcm_line l))) < 80" using Cons.prems(1) by simp
  obtain r hw where r: "populate_device_hw_ep_info E name \<lparr>intf = 0, ep_dir = 0, ep_word0 = 0, ep_word1 = 0\<rparr> = (r, hw)"
    by fastforce
  let ?s = "s\<lparr>trace := Calloc 1 SIZEOF_DEVICE # trace s\<rparr>"
  have IH: "runs (parse_pcm_lines E lines devs' ?s) (\<lambda>(r, devs'') s'. r \<le> 0 \<and> r \<noteq> - EAGAIN
    \<and> proc_reads (trace s') = proc_reads (trace s) \<and> length devs'' \<le> length devs + length (l # lines)
    \<and> (\<forall>dev\<in>set devs''. d_state dev = DEV_CLOSED \<and> r_open (refcnt dev) = 0))"
    if "length devs' \<le> Suc (length devs)" "\<forall>dev\<in>set devs'. d_state dev = DEV_CLOSED \<and> r_open (refcnt dev) = 0" for devs'
    using Cons.IH [OF prem that(2), of ?s] by (rule runs_mono) (use that(1) in \<open>auto simp: proc_reads_def\<close>)
  show ?case
  proof (cases "calloc_ok E (trace s) 1 SIZEOF_DEVICE")
    case True
    then show ?thesis
      using name IH [of devs] IH [of "devs @ [new_device cno dev name (konst E PCM_OUT) hw]"]
        IH [of "devs @ [new_device cno dev name (konst E PCM_IN) hw]"] Cons.prems(2)
      by (auto simp: calloc_def l r Let_def new_device_def)
  next
    case False
    then show ?thesis using Cons.prems(2) by (simp add: calloc_def proc_reads_def)
  qed
qed simp

lemma listed_devices:
  assumes "devs \<noteq> []" "length devs \<le> n" "\<forall>dev\<in>set devs. d_state dev = DEV_CLOSED \<and> r_open (refcnt dev) = 0"
  shows "listed (s\<lparr>device_list := map Some devs @ replicate (n - length devs) None, num_audio_intfs := length devs\<rparr>)"
  using assms by (auto simp: listed_def dev_at_def nth_append split: if_splits)

lemma parse_snd_card_runs:
  assumes "short_names E"
  shows "runs (parse_snd_card E s) (\<lambda>r s'. proc_reads (trace s') = Suc (proc_reads (trace s)) \<and> (r = 0 \<longrightarrow> listed s'))"
proof -
  let ?f = "ext E (trace s) Proc_asound_pcm"
  let ?n = "num_audio_intfs s + length (rlines ?f)"
  let ?s = "s\<lparr>num_audio_intfs := ?n, trace := Calloc ?n 8 # Proc_asound_pcm # trace s\<rparr>"
  have "\<forall>l\<in>set (rlines ?f). length (snd (snd (scan_pcm_line l))) < 80" using assms by (auto simp: short_names_def)
  from parse_pcm_lines_runs [OF this, of "[]" E ?s] obtain r devs s' where
    p: "parse_pcm_lines E (rlines ?f) [] ?s = Some ((r, devs), s')" "proc_reads (trace s') = Suc (proc_reads (trace s))"
      "length devs \<le> length (rlines ?f)" "\<forall>dev\<in>set devs. d_state dev = DEV_CLOSED \<and> r_open (refcnt dev) = 0"
    by (auto elim!: runs_E simp: proc_reads_def)
  show ?thesis
  proof (cases "rc ?f = 0 \<and> calloc_ok E (Proc_asound_pcm # trace s) ?n 8")
    case True
    then have "parse_snd_card E s = (if r \<noteq> 0 then Some (r, s'\<lparr>device_list := []\<rparr>)
        else if devs = [] then Some (- EAGAIN, s'\<lparr>device_list := []\<rparr>)
        else Some (0, s'\<lparr>device_list := map Some devs @ replicate (?n - length devs) None,
                         num_audio_intfs := length devs\<rparr>))"
      using p(1) by (simp add: parse_snd_card_def xcall_def calloc_def Let_def)
    then show ?thesis using p listed_devices [of devs ?n s'] by simp
  next
    case False
    then show ?thesis by (auto simp: parse_snd_card_def xcall_def calloc_def Let_def proc_reads_def)
  qed
qed

lemma device_init_loop_runs:
  assumes "short_names E"
  shows "runs (device_init_loop E n s) (\<lambda>r s'. proc_reads (trace s) < proc_reads (trace s')
    \<and> proc_reads (trace s') \<le> proc_reads (trace s) + max 1 n
    \<and> (r = - EAGAIN \<longrightarrow> proc_reads (trace s') = proc_reads (trace s) + max 1 n) \<and> (r = 0 \<longrightarrow> listed s'))"
proof (induction n arbitrary: s rule: less_induct)
  case (less n)
  obtain r s1 where p: "parse_snd_card E s = Some (r, s1)" "proc_reads (trace s1) = Suc (proc_reads (trace s))"
      "r = 0 \<longrightarrow> listed s1"
    using parse_snd_card_runs [OF assms, of s] by (auto elim!: runs_E)
  let ?s = "s1\<lparr>trace := Sleep 5 # trace s1\<rparr>"
  have step: "device_init_loop E n s = (if r = - EAGAIN then if n - 1 > 0 then device_init_loop E (n - 1) ?s
      else Some (r, ?s) else Some (r, s1))"
    by (simp add: device_init_loop.simps [of E n s] p(1) xcall_def)
  show ?case
  proof (cases "r = - EAGAIN \<and> n - 1 > 0")
    case True
    then have "max 1 n = Suc (max 1 (n - 1))" "n - 1 < n" by auto
    with True p(2) show ?thesis
      unfolding step using less.IH [of "n - 1" ?s] by (auto elim!: runs_mono simp: proc_reads_def)
  next
    case False
    with p(2,3) show ?thesis unfolding step by (auto simp: proc_reads_def)
  qed
qed

text \<open>
  C34: initialisation always ends: it reads \<open>/proc/asound/pcm\<close> at least once and at most 20
  times, also when no known device ever appears, and it returns as long as no line of the
  file has a name of 80 or more characters. On success the list holds at least one device,
  every device is closed, and the entries up to \<open>num_audio_intfs\<close> are exactly the devices.
\<close>

theorem device_init_ends:
  assumes "short_names E"
  shows "runs (device_init E s) (\<lambda>r s'. proc_reads (trace s) < proc_reads (trace s')
    \<and> proc_reads (trace s') \<le> proc_reads (trace s) + 20
    \<and> (r = - EAGAIN \<longrightarrow> proc_reads (trace s') = proc_reads (trace s) + 20) \<and> (r = 0 \<longrightarrow> listed s'))"
  using device_init_loop_runs [OF assms, of 20 s] by (simp add: device_init_def)

theorem device_init_ends_witness:
  "short_names sample_env \<and> runs (device_init sample_env sample_state) (\<lambda>r s'. proc_reads (trace s') \<le> 20)"
proof -
  have short: "short_names sample_env"
    unfolding short_names_def sample_ext by (simp, code_simp)
  have "proc_reads (trace sample_state) = 0" by (simp add: sample_state_def proc_reads_def)
  with device_init_ends [OF short, of sample_state] short show ?thesis by (auto elim!: runs_mono)
qed

section \<open>Devices\<close>



text \<open>
  A device that cannot be opened is left as it was: \<open>device_open\<close> fails only with
  \<open>-EIO\<close>, and then neither the list of devices nor the reference counts changed. A device
  that is already open is opened again without any call to the outside.
\<close>

theorem device_open_outcomes:
  assumes "dev_at s d = Some dev"
  shows "\<exists>r s'. device_open E (Some d) s = Some (r, s')
    \<and> (r = 0 \<longrightarrow> (\<exists>dev'. dev_at s' d = Some dev' \<and> r_open (refcnt dev') = r_open (refcnt dev) + 1))
    \<and> (r \<noteq> 0 \<longrightarrow> r = - EIO \<and> device_list s' = device_list s)
    \<and> (r_open (refcnt dev) \<noteq> 0 \<longrightarrow> r = 0 \<and> trace s' = trace s)"
proof (cases "r_open (refcnt dev) = 0")
  case False
  with assms show ?thesis by (simp add: device_open_def dev.get_put)
next
  case True
  show ?thesis
  proof (rule device_open_first [OF assms True, of E], goal_cases)
    case (1 s1 h s2)
    have dl: "device_list s2 = device_list s" using 1(1) by (simp add: 1(3) sysfs_only_def)
    have at: "dev_at s2 d = Some dev" unfolding dev_at_cong [OF dl] by (rule assms)
    show ?case
    proof (cases "h \<noteq> None \<and> rc (ext E (tl (trace s2)) (Pcm_is_ready h)) \<noteq> 0")
      case ok: True
      from 1(4) [OF ok] at True show ?thesis by (simp add: dev.get_put)
    next
      case False
      from 1(5) [OF False] dl True show ?thesis by (auto simp: sysfs_only_def)
    qed
  qed
qed

theorem device_open_outcomes_witness:
  "\<exists>r s'. device_open sample_env (Some 0) sample_state = Some (r, s') \<and> r = 0"
  using device_open_outcomes [OF sample_dev_at, of sample_env]
  by (simp add: device_open_def sample_state_def dev_at_def sample_device_def new_device_def
        update_sysfs_fd_def xcall_def)

end
