(* ===== verification/Agm_Sample_Init.thy ===== *)
theory Agm_Sample_Init
  imports Agm_Session_Api Agm_Props_Data
begin

text \<open>
  A concrete start of the service: \<open>agm_init\<close> on a machine with one PCM device, from the first read of
  \<open>/proc/asound/pcm\<close> on. The witnesses about whole runs begin here.
\<close>

definition start_state :: agm_state where
  "start_state = sample_state\<lparr>device_list := [], num_audio_intfs := 0\<rparr>"

lemma sample_init:
  obtains s1 where "agm_init sample_env ''/acdb'' ''/delta'' start_state = Some (0, s1)" "sess_pool s1 = Some []"
    "device_list s1 = [Some sample_device]" "agm_initialized s1" "sysfs_fd s1" "num_audio_intfs s1 = 1"
proof -
  have name: "scan_pcm_line ''00-03: MI2S-LPAIF-RX-PRIMARY : : playback 1'' = (0, 3, ''MI2S-LPAIF-RX-PRIMARY'')"
    by code_simp
  have hw: "populate_device_hw_ep_info sample_env ''MI2S-LPAIF-RX-PRIMARY''
      \<lparr>intf = 0, ep_dir = 0, ep_word0 = 0, ep_word1 = 0\<rparr> = (0, \<lparr>intf = 1, ep_dir = 1, ep_word0 = 0, ep_word1 = 0\<rparr>)"
    using populate_four_parts [of "''MI2S''" 1 "''LPAIF''" LPAIF "''RX''" 1 "''PRIMARY''" 0 sample_env]
    by (simp add: intf_of_def lpaif_of_def dir_of_def pcm_idx_of_def sample_env_def)
  have "\<exists>s1. agm_init sample_env ''/acdb'' ''/delta'' start_state = Some (0, s1) \<and> sess_pool s1 = Some []
      \<and> device_list s1 = [Some sample_device] \<and> agm_initialized s1 \<and> sysfs_fd s1 \<and> num_audio_intfs s1 = 1"
    by (simp add: agm_init_def session_obj_init_def device_init_def device_init_loop.simps parse_snd_card_def
        xcall_def calloc_def name hw graph_init_def get_acdb_files_from_directory_def session_pool_init_def start_state_def
        sample_state_def is_acdb_name_def Let_def sample_device_def)
  then show thesis using that by blast
qed

end
