(* ===== verification/Agm_Props_Graph.thy ===== *)
theory Agm_Props_Graph
  imports Agm_Props_Session
begin

unbundle bit_operations_syntax

text \<open>
  The properties of graphs and of the payloads the graph modules send: error codes, sizes,
  channel maps, and the GSL handles that are opened and closed.
\<close>

section \<open>The calls an operation makes\<close>

lemma grew_xcall: "P c \<Longrightarrow> grew_by P h (trace s) \<Longrightarrow> posts (xcall E c s) (\<lambda>r s'. grew_by P h (trace s'))"
  by (simp add: xcall_def grew_by_Cons)

lemma grew_calloc:
  "P (Calloc n z) \<Longrightarrow> grew_by P h (trace s) \<Longrightarrow> posts (calloc E n z s) (\<lambda>r s'. grew_by P h (trace s'))"
  by (simp add: calloc_def grew_by_Cons)

lemma grew_bind:
  "posts m (\<lambda>r s'. grew_by P h (trace s')) \<Longrightarrow>
    (\<And>r s'. grew_by P h (trace s') \<Longrightarrow> posts (f (r, s')) (\<lambda>r s'. grew_by P h (trace s')))
    \<Longrightarrow> posts (m \<bind> f) (\<lambda>r s'. grew_by P h (trace s'))"
  by (rule posts_bind)

lemma grew_put:
  "grew_by P h (trace s) \<Longrightarrow> grew_by P h (trace (put_graph g x s))"
  "grew_by P h (trace s) \<Longrightarrow> grew_by P h (trace (s\<lparr>stream_module_list := l\<rparr>))"
  "grew_by P h (trace s) \<Longrightarrow> grew_by P h (trace (s\<lparr>hw_ep_module := l\<rparr>))"
  by simp_all

lemmas grew_steps = posts_flow grew_bind posts_deref grew_put grew_xcall grew_calloc

section \<open>Payloads\<close>

text \<open>The payloads the service itself builds have a size that is a multiple of 8.\<close>

definition sized :: "ext_call \<Rightarrow> bool" where
  "sized c \<longleftrightarrow> (case c of Gsl_set_custom_config h p z \<Rightarrow> 8 dvd z | _ \<Rightarrow> True)"

lemma sized_calls [simp]:
  "sized (Calloc n z)" "sized (Gsl_get_tagged_data e d f n)" "sized (Gsl_set_config h e d f)"
  "8 dvd n \<Longrightarrow> sized (Gsl_set_custom_config h p n)"
  by (simp_all add: sized_def)

lemma clear_low_bits: "y AND NOT (mask k) = push_bit k (drop_bit k y)" for y :: u64
  by (rule bit_word_eqI) (auto simp: bit_simps)

lemma align_8:
  fixes x :: u64
  shows "8 dvd unat (ALIGN_PAYLOAD x 8)"
    and "unat x \<le> 2 ^ 64 - 8 \<Longrightarrow> unat x \<le> unat (ALIGN_PAYLOAD x 8) \<and> unat (ALIGN_PAYLOAD x 8) < unat x + 8"
proof -
  have "(8 :: u64) - 1 = mask 3" by (simp add: mask_eq_exp_minus_1)
  then have eq: "ALIGN_PAYLOAD x 8 = push_bit 3 (drop_bit 3 (x + mask 3))"
    unfolding ALIGN_PAYLOAD_def by (simp only: clear_low_bits)
  have "(mask 3 :: u64) = 7" by (simp add: mask_eq_exp_minus_1)
  moreover have "unat (push_bit 3 (drop_bit 3 y)) = 8 * (unat y div 8)" for y :: u64
  proof -
    have "8 * (unat y div 8) < 2 ^ 64"
      using unsigned_less [of y, where 'a = nat] by (simp add: le_less_trans [OF times_div_less_eq_dividend])
    then show ?thesis
      unfolding unsigned_push_bit_eq unsigned_drop_bit_eq push_bit_eq_mult [where 'a = nat]
        drop_bit_eq_div [where 'a = nat]
      by (simp add: take_bit_nat_eq_self mult.commute)
  qed
  ultimately have u: "unat (ALIGN_PAYLOAD x 8) = 8 * (unat (x + 7) div 8)" by (simp add: eq)
  show "8 dvd unat (ALIGN_PAYLOAD x 8)" unfolding u by simp
  show "unat x \<le> unat (ALIGN_PAYLOAD x 8) \<and> unat (ALIGN_PAYLOAD x 8) < unat x + 8" if "unat x \<le> 2 ^ 64 - 8"
  proof -
    have "unat (x + 7) = unat x + 7" using that by (simp add: unat_word_ariths)
    then show ?thesis unfolding u by presburger
  qed
qed

lemma sized_set_custom:
  "8 dvd z \<Longrightarrow> grew_by sized h (trace s) \<Longrightarrow> posts (set_custom E g p z s) (\<lambda>r s'. grew_by sized h (trace s'))"
  unfolding set_custom_def by (assumption | rule grew_steps sized_calls)+

lemma sized_get_ep_data:
  "grew_by sized h (trace s) \<Longrightarrow> posts (get_ep_data E st md dev s)
     (\<lambda>r s'. 8 dvd snd r \<and> grew_by sized h (trace s'))"
  unfolding get_ep_data_def calloc_def xcall_def Let_def
  by (auto simp: align_8(1) grew_by_Cons split: if_splits)

lemma sized_ep_data_bind:
  assumes "grew_by sized h (trace s)"
    and "\<And>r z s'. 8 dvd z \<Longrightarrow> grew_by sized h (trace s') \<Longrightarrow> posts (f r z s') Q"
  shows "posts (get_ep_data E st md dev s \<bind> (\<lambda>((r, z), s). f r z s)) Q"
  by (rule posts_bind [OF sized_get_ep_data [OF assms(1)]]) (use assms(2) in auto)

lemma sized_ep:
  "grew_by sized h (trace s) \<Longrightarrow> posts (configure_ep_intf E st md g s) (\<lambda>r s'. grew_by sized h (trace s'))"
  "grew_by sized h (trace s) \<Longrightarrow> posts (configure_slimbus_ep E md g s) (\<lambda>r s'. grew_by sized h (trace s'))"
  "grew_by sized h (trace s) \<Longrightarrow> posts (configure_hw_ep_media_config E md g s) (\<lambda>r s'. grew_by sized h (trace s'))"
  unfolding configure_ep_intf_def configure_slimbus_ep_def configure_hw_ep_media_config_def Let_def
  by (assumption | rule sized_ep_data_bind sized_set_custom align_8(1) grew_steps sized_calls)+

lemma sized_hw_ep:
  "grew_by sized h (trace s) \<Longrightarrow> posts (configure_hw_ep E md g s) (\<lambda>r s'. grew_by sized h (trace s'))"
  unfolding configure_hw_ep_def configure_codec_dma_ep_def configure_i2s_ep_def configure_aux_pcm_ep_def
    configure_tdm_ep_def Let_def
  by (assumption | rule sized_ep grew_steps)+

lemma sized_stream:
  "grew_by sized h (trace s) \<Longrightarrow> posts (configure_output_media_format E md g s) (\<lambda>r s'. grew_by sized h (trace s'))"
  "grew_by sized h (trace s) \<Longrightarrow> posts (configure_pcm_shared_mem_ep E md g s) (\<lambda>r s'. grew_by sized h (trace s'))"
  "grew_by sized h (trace s) \<Longrightarrow> posts (configure_compress_shared_mem_ep E md g s) (\<lambda>r s'. grew_by sized h (trace s'))"
  unfolding configure_output_media_format_def configure_pcm_shared_mem_ep_def configure_compress_shared_mem_ep_def
    Let_def map_payload_size_def
  by (assumption | rule sized_set_custom align_8(1) grew_steps sized_calls)+

lemma sized_spr_loop:
  assumes "8 dvd z"
  shows "grew_by sized h (trace s) \<Longrightarrow> posts (spr_loop E g hh z ms ret s) (\<lambda>r s'. grew_by sized h (trace s'))"
proof (induction ms arbitrary: ret s)
  case (Cons m ms)
  show ?case
    unfolding spr_loop.simps
    by (insert Cons.prems assms) (assumption | rule Cons.IH sized_set_custom grew_steps)+
qed simp

lemma sized_others:
  "grew_by sized h (trace s) \<Longrightarrow> posts (configure_placeholder_dec E md g s) (\<lambda>r s'. grew_by sized h (trace s'))"
  "grew_by sized h (trace s) \<Longrightarrow> posts (configure_shared_mem_ep E md g s) (\<lambda>r s'. grew_by sized h (trace s'))"
  "grew_by sized h (trace s) \<Longrightarrow> posts (configure_spr E md g s) (\<lambda>r s'. grew_by sized h (trace s'))"
  unfolding configure_placeholder_dec_def configure_shared_mem_ep_def configure_spr_def Let_def
  by (assumption | rule sized_stream sized_spr_loop align_8(1) grew_steps sized_calls)+

text \<open>
  C37: every parameter payload that a module of a graph sends to GSL has a size that is a
  multiple of 8, for every module, format and channel count.
\<close>

theorem payloads_aligned:
  assumes "configure_call E f md g s = Some (r, s')"
  shows "\<exists>t. trace s' = t @ trace s \<and> (\<forall>h p z. Gsl_set_custom_config h p z \<in> set t \<longrightarrow> 8 dvd z)"
proof -
  have "posts (configure_call E f md g s) (\<lambda>r s'. grew_by sized (trace s) (trace s'))"
    by (cases f) (simp_all add: configure_call_def sized_hw_ep sized_stream sized_others)
  with assms show ?thesis by (fastforce simp: posts_def grew_by_def list_all_iff sized_def)
qed

theorem payloads_aligned_witness:
  "\<exists>s' t. configure_call sample_env Configure_hw_ep (mk_module MODULE_HW_EP_RX 0 None\<lparr>m_dev_obj := Some 0\<rparr>) 0
       (sample_run SESSION_OPENED AIF_OPENED DEV_OPENED OPENED) = Some (0, s')
     \<and> trace s' = t \<and> (\<forall>h p z. Gsl_set_custom_config h p z \<in> set t \<longrightarrow> 8 dvd z)"
proof -
  let ?s = "sample_run SESSION_OPENED AIF_OPENED DEV_OPENED OPENED"
  let ?m = "mk_module MODULE_HW_EP_RX 0 None\<lparr>m_dev_obj := Some 0\<rparr>"
  obtain s' where s': "configure_call sample_env Configure_hw_ep ?m 0 ?s = Some (0, s')"
    by (simp add: configure_call_def configure_hw_ep_def configure_hw_ep_media_config_def mk_module_def sample_device_def
        new_device_def configure_i2s_ep_def configure_ep_intf_def get_ep_data_def calloc_def xcall_def set_custom_def Let_def)
  have "trace ?s = []" by (simp add: sample_run_def sample_state_def)
  with payloads_aligned [OF s'] s' show ?thesis by auto
qed

section \<open>Channel maps\<close>

lemma default_channels_length: "length (default_channels n) = (if 1 \<le> n \<and> n \<le> 8 then nat n else 0)"
  by (auto simp: default_channels_def)

lemma default_channels_none: "\<not> (1 \<le> n \<and> n \<le> 8) \<Longrightarrow> default_channels n = []"
  using default_channels_length [of n] by (simp split: if_splits)

text \<open>
  The channel map that is written behind a PCM format fits the payload: for every
  channel count that is not negative as an \<open>int\<close>, and a fixed part of less than 2 GB, the
  payload has room for the map of that count, and the map has one entry per channel for 1
  to 8 channels (for other counts it stays zero).
\<close>

theorem channel_map_fits:
  fixes n :: u32
  assumes "0 \<le> sint n" "sum_list (map (sizeof E) cs) < 2 ^ 31"
  defines "room \<equiv> unat (map_payload_size E cs n - fixed_size E cs)"
  shows "fixed_size E cs \<le> map_payload_size E cs n \<and> nat (sint n) \<le> room
    \<and> (\<exists>cm. get_default_channel_map E (replicate room 0) (sint n) = Some cm \<and> length cm = room
        \<and> take (nat (sint n)) cm = (if 1 \<le> sint n \<and> sint n \<le> 8
             then map (\<lambda>k. ucast (konst E k)) (default_channels (sint n)) else replicate (nat (sint n)) 0))"
proof -
  let ?f = "sum_list (map (sizeof E) cs)"
  have n: "sint n < 2 ^ 31" using sint_lt [of n] by simp
  have f: "unat (fixed_size E cs) = ?f" using assms(2) by (simp add: fixed_size_def unat_of_nat)
  have sn: "uint (scast n :: u64) = sint n"
    unfolding scast_eq uint_word_of_int by (rule mod_pos_pos_trivial) (use n assms(1) in simp_all)
  have "int (unat (fixed_size E cs)) = uint (fixed_size E cs)" by simp
  with f have "uint (fixed_size E cs) = int ?f" by simp
  then have "uint (fixed_size E cs + scast n) = int ?f + sint n"
    using n assms by (simp add: uint_word_ariths sn)
  then have x: "unat (fixed_size E cs + scast n) = ?f + nat (sint n)" using assms(1) by (simp add: unat_eq_nat_uint)
  then have z: "?f + nat (sint n) \<le> unat (map_payload_size E cs n)"
    using align_8(2) [of "fixed_size E cs + scast n"] n assms(1,2) by (simp add: map_payload_size_def)
  then have le: "fixed_size E cs \<le> map_payload_size E cs n" by (simp add: word_le_nat_alt f)
  then have room: "room = unat (map_payload_size E cs n) - ?f" by (simp add: room_def unat_sub f)
  with z have fits: "nat (sint n) \<le> room" by simp
  then show ?thesis
    using le assms(1) by (auto simp: get_default_channel_map_def default_channels_length default_channels_none Let_def)
qed

theorem channel_map_fits_witness:
  "get_default_channel_map sample_env (replicate (unat (map_payload_size sample_env [Media_format_t] 2
      - fixed_size sample_env [Media_format_t])) 0) 2 \<noteq> None"
  using channel_map_fits [of 2 sample_env "[Media_format_t]"] by (auto simp: sample_env_def)

section \<open>GSL handles\<close>

text \<open>GSL graphs opened minus closed, over the calls (newest first).\<close>

fun gsl_balance :: "env \<Rightarrow> ext_call list \<Rightarrow> int" where
  "gsl_balance E [] = 0"
| "gsl_balance E (c # t) =
     (case c of Gsl_open a b \<Rightarrow> of_bool (rc (ext E t c) = 0) | Gsl_close h \<Rightarrow> - 1 | _ \<Rightarrow> 0) + gsl_balance E t"

definition no_handle :: "ext_call \<Rightarrow> bool" where
  "no_handle c \<longleftrightarrow> (case c of Gsl_open a b \<Rightarrow> False | Gsl_close h \<Rightarrow> False | _ \<Rightarrow> True)"

lemma gsl_balance_grew: "grew_by no_handle h h' \<Longrightarrow> gsl_balance E h' = gsl_balance E h"
proof -
  have "list_all no_handle t \<Longrightarrow> gsl_balance E (t @ h) = gsl_balance E h" for t
    by (induction t) (auto simp: no_handle_def split: ext_call.splits)
  then show "grew_by no_handle h h' \<Longrightarrow> gsl_balance E h' = gsl_balance E h" by (auto simp: grew_by_def)
qed

text \<open>What happens before the GSL graph is opened: no handle is touched, and no graph object.\<close>

definition before_open :: "agm_state \<Rightarrow> agm_state \<Rightarrow> bool" where
  "before_open s s' \<longleftrightarrow> graphs s' = graphs s \<and> next_graph s' = next_graph s \<and> grew_by no_handle (trace s) (trace s')"

interpretation bo: frame_logic before_open
  by unfold_locales (auto simp: before_open_def intro: grew_by_trans)

lemma before_open_steps:
  "no_handle c \<Longrightarrow> before_open s0 s \<Longrightarrow> posts (xcall E c s) (\<lambda>r s'. before_open s0 s')"
  "before_open s0 s \<Longrightarrow> posts (calloc E n z s) (\<lambda>r s'. before_open s0 s')"
  "before_open s0 s \<Longrightarrow> before_open s0 (s\<lparr>stream_module_list := l\<rparr>)"
  "before_open s0 s \<Longrightarrow> before_open s0 (s\<lparr>hw_ep_module := l\<rparr>)"
  by (simp_all add: xcall_def calloc_def before_open_def grew_by_Cons no_handle_def)

lemma no_handle_tags: "no_handle (Gsl_get_tags_with_module_info v b)"
  by (simp add: no_handle_def)

lemmas bo_steps = bo.flow bo.if_state before_open_steps no_handle_tags

lemma bo_get_tags: "before_open s0 s \<Longrightarrow> posts (get_tags_with_module_info E v s) (\<lambda>r s'. before_open s0 s')"
  unfolding get_tags_with_module_info_def by (assumption | rule bo_steps)+

lemma bo_add_to_list: "before_open s0 s \<Longrightarrow> posts (add_to_list E n s) (\<lambda>r s'. before_open s0 s')"
proof (induction n arbitrary: s)
  case (Suc n)
  show ?case unfolding add_to_list.simps by (insert Suc.prems) (assumption | rule Suc.IH bo_steps)+
qed simp

lemma bo_copy_gkv: "before_open s0 s \<Longrightarrow> posts (copy_gkv E v s) (\<lambda>r s'. before_open s0 s')"
  unfolding copy_gkv_def by (assumption | rule bo_steps)+

lemma bo_tag_loop: "before_open s0 s \<Longrightarrow> posts (tag_loop E v dp ts ns nh mods s) (\<lambda>r s'. before_open s0 s')"
proof (induction ts arbitrary: ns nh mods s)
  case (Cons t ts)
  show ?case
    unfolding tag_loop.simps by (insert Cons.prems) (assumption | rule Cons.IH bo_copy_gkv bo_steps)+
qed simp



section \<open>Error codes of the tag table\<close>

text \<open>
  \<open>get_tags_with_module_info\<close> always returns, and its result is zero exactly when GSL
  reported no error; but since the error is converted to errno twice, every error of GSL
  reaches the caller as \<open>-EADV\<close>, whatever it was.
\<close>

theorem tag_errors_become_EADV:
  assumes "ar_osal_ok E" "\<And>h b. rc (ext E h (Gsl_get_tags_with_module_info v b)) \<in> {0..<2 ^ 32}"
  shows "runs (get_tags_with_module_info E v s) (\<lambda>(r, tags) s'. (r = 0 \<or> r = - EADV)
    \<and> (rc (ext E (trace s) (Gsl_get_tags_with_module_info v False)) \<noteq> 0 \<longrightarrow> r = - EADV \<and> tags = None))"
proof -
  have twice: "lnx E (lnx E (rc (ext E h (Gsl_get_tags_with_module_info v b)))) = - EADV"
    if "rc (ext E h (Gsl_get_tags_with_module_info v b)) \<noteq> 0" for h b
  proof (rule lnx_lnx_error [OF assms(1)])
    let ?c = "rc (ext E h (Gsl_get_tags_with_module_info v b))"
    have "uint (word_of_int ?c :: u32) = ?c"
      unfolding uint_word_of_int using assms(2) [of h b] by (intro mod_pos_pos_trivial) simp_all
    with that show "(word_of_int ?c :: u32) \<noteq> 0" by auto
  qed
  show ?thesis
    using assms(1) by (simp add: get_tags_with_module_info_def xcall_def calloc_def twice Let_def)
qed

text \<open>An environment in which GSL reports \<open>AR_ENOMEMORY\<close> for the tags.\<close>

definition no_tags_env :: env where
  "no_tags_env = sample_env\<lparr>ext := (\<lambda>h c. ok_reply\<lparr>rc := 18\<rparr>)\<rparr>"

theorem tag_errors_become_EADV_witness:
  "runs (get_tags_with_module_info no_tags_env empty_kv sample_state) (\<lambda>(r, tags) s'. r = - 68)"
proof -
  have "ar_osal_ok no_tags_env" by (simp add: ar_osal_ok_def no_tags_env_def)
  moreover have "rc (ext no_tags_env h (Gsl_get_tags_with_module_info empty_kv b)) = 18" for h b
    by (simp add: no_tags_env_def)
  ultimately show ?thesis
    using tag_errors_become_EADV [of no_tags_env empty_kv sample_state] by (auto elim!: runs_mono)
qed

end
