(* ===== verification/Agm_List.thy ===== *)
theory Agm_List
  imports Agm_Prelude
begin

text \<open>
  \<open>service/inc/agm_list.h\<close>: the intrusive doubly linked list behind the session pool, the
  AIFs and callbacks of a session, and the modules of a graph. The rest of the development
  uses HOL lists for these; here is why that is sound.

  A node is an address; the heap maps it to its \<open>next\<close> and \<open>prev\<close> pointers. A list is a
  ring through its head. \<open>ring h a xs\<close> relates a heap to the items \<open>xs\<close> of the list with
  head \<open>a\<close>; every operation of the header is refined to an operation on \<open>xs\<close>.
\<close>

section \<open>The operations\<close>

record listnode =
  next_ptr :: nat
  prev_ptr :: nat

type_synonym list_heap = "nat \<Rightarrow> listnode"

definition set_next :: "nat \<Rightarrow> nat \<Rightarrow> list_heap \<Rightarrow> list_heap" where
  "set_next n x h = h(n := (h n)\<lparr>next_ptr := x\<rparr>)"

definition set_prev :: "nat \<Rightarrow> nat \<Rightarrow> list_heap \<Rightarrow> list_heap" where
  "set_prev n x h = h(n := (h n)\<lparr>prev_ptr := x\<rparr>)"

definition list_init :: "nat \<Rightarrow> list_heap \<Rightarrow> list_heap" where
  "list_init n h = set_prev n n (set_next n n h)"

text \<open>The four assignments of each insertion, in the order of the code.\<close>

definition list_add_tail :: "nat \<Rightarrow> nat \<Rightarrow> list_heap \<Rightarrow> list_heap" where
  "list_add_tail head item h =
     (let h = set_next item head h;
          h = set_prev item (prev_ptr (h head)) h;
          h = set_next (prev_ptr (h head)) item h
      in set_prev head item h)"

definition list_add_head :: "nat \<Rightarrow> nat \<Rightarrow> list_heap \<Rightarrow> list_heap" where
  "list_add_head head item h =
     (let h = set_next item (next_ptr (h head)) h;
          h = set_prev item head h;
          h = set_prev (next_ptr (h head)) item h
      in set_next head item h)"

definition list_remove :: "nat \<Rightarrow> list_heap \<Rightarrow> list_heap" where
  "list_remove item h =
     (let h = set_prev (next_ptr (h item)) (prev_ptr (h item)) h
      in set_next (prev_ptr (h item)) (next_ptr (h item)) h)"

definition list_empty :: "nat \<Rightarrow> list_heap \<Rightarrow> bool" where
  "list_empty a h \<longleftrightarrow> a = next_ptr (h a)"

text \<open>
  The loops. \<open>list_for_each\<close> collects the nodes it visits; \<open>list_for_each_safe\<close> runs a
  body that may change the heap, having read the next node before. Nothing bounds the loops
  on a heap that is not a ring: they may not return (\<open>None\<close>).
\<close>

partial_function (option) list_for_each :: "nat \<Rightarrow> nat \<Rightarrow> list_heap \<Rightarrow> nat list option" where
  "list_for_each a node h =
     (if node = a then Some []
      else do { ns \<leftarrow> list_for_each a (next_ptr (h node)) h; Some (node # ns) })"

partial_function (option) list_for_each_safe ::
    "(nat \<Rightarrow> list_heap \<Rightarrow> list_heap) \<Rightarrow> nat \<Rightarrow> nat \<Rightarrow> nat \<Rightarrow> list_heap \<Rightarrow> list_heap option" where
  "list_for_each_safe body a node n h =
     (if node = a then Some h
      else let h' = body node h in list_for_each_safe body a n (next_ptr (h' n)) h')"

section \<open>Rings\<close>

fun chain :: "list_heap \<Rightarrow> nat list \<Rightarrow> bool" where
  "chain h (x # y # zs) \<longleftrightarrow> next_ptr (h x) = y \<and> prev_ptr (h y) = x \<and> chain h (y # zs)"
| "chain h _ \<longleftrightarrow> True"

definition ring :: "list_heap \<Rightarrow> nat \<Rightarrow> nat list \<Rightarrow> bool" where
  "ring h a xs \<longleftrightarrow> distinct (a # xs) \<and> chain h (a # xs @ [a])"

lemma chain_append: "chain h (xs @ y # ys) \<longleftrightarrow> chain h (xs @ [y]) \<and> chain h (y # ys)"
  by (induction h xs rule: chain.induct) (auto simp: Cons_eq_append_conv neq_Nil_conv)

lemma chain_snoc2: "chain h (xs @ [y, z]) \<longleftrightarrow> chain h (xs @ [y]) \<and> next_ptr (h y) = z \<and> prev_ptr (h z) = y"
  using chain_append [of h xs y "[z]"] by simp

text \<open>A chain reads the \<open>next\<close> of all nodes but the last and the \<open>prev\<close> of all but the first.\<close>

lemma chain_cong:
  "(\<And>x. x \<in> set (butlast xs) \<Longrightarrow> next_ptr (h' x) = next_ptr (h x)) \<Longrightarrow>
   (\<And>x. x \<in> set (tl xs) \<Longrightarrow> prev_ptr (h' x) = prev_ptr (h x)) \<Longrightarrow> chain h' xs = chain h xs"
  by (induction h xs rule: chain.induct) auto

lemma ptr_set [simp]:
  "next_ptr (set_next n x h m) = (if m = n then x else next_ptr (h m))"
  "prev_ptr (set_prev n x h m) = (if m = n then x else prev_ptr (h m))"
  "next_ptr (set_prev n x h m) = next_ptr (h m)" "prev_ptr (set_next n x h m) = prev_ptr (h m)"
  by (simp_all add: set_next_def set_prev_def)

section \<open>Refinement\<close>

lemma ring_init: "ring (list_init a h) a []"
  by (simp add: ring_def list_init_def)

lemma ring_empty_iff: "ring h a xs \<Longrightarrow> list_empty a h \<longleftrightarrow> xs = []"
  by (cases xs) (auto simp: ring_def list_empty_def)

text \<open>The last node before the head, and the first one behind it.\<close>

lemma ring_last: "ring h a xs \<Longrightarrow> prev_ptr (h a) = last (a # xs)"
proof (induction xs rule: rev_induct)
  case (snoc x xs)
  then show ?case using chain_snoc2 [of h "a # xs" x a] by (simp add: ring_def)
qed (simp add: ring_def)

lemma ring_first: "ring h a xs \<Longrightarrow> next_ptr (h a) = hd (xs @ [a])"
  by (cases xs) (auto simp: ring_def)

text \<open>
  A node is put between two neighbours of a chain, or taken out. In a ring every node is
  the source of one \<open>next\<close> and of one \<open>prev\<close> pointer.
\<close>

lemma tl_split: "tl (us @ p # zs) = tl (us @ [p]) @ zs"
  by (cases us) auto

lemma butlast_split: "zs \<noteq> [] \<Longrightarrow> butlast (us @ p # zs) = us @ p # butlast zs"
  by (simp add: butlast_append)

lemma distinct_ends:
  assumes "distinct (butlast (us @ p # q # vs))" "distinct (tl (us @ p # q # vs))"
  shows "p \<notin> set us" "p \<notin> set (butlast (q # vs))" "q \<notin> set (tl (us @ [p]))" "q \<notin> set vs"
proof -
  have "distinct (us @ p # butlast (q # vs))" "distinct (tl (us @ [p]) @ q # vs)"
    using assms by (simp_all only: butlast_split [of "q # vs" us p, OF list.distinct(2)] tl_split [of us p "q # vs"])
  then show "p \<notin> set us" "p \<notin> set (butlast (q # vs))" "q \<notin> set (tl (us @ [p]))" "q \<notin> set vs"
    by auto
qed

lemma distinct_without:
  assumes "distinct (butlast (us @ p # x # q # vs))" "distinct (tl (us @ p # x # q # vs))"
  shows "distinct (butlast (us @ p # q # vs))" "distinct (tl (us @ p # q # vs))"
proof -
  have "distinct (us @ p # x # butlast (q # vs))" "distinct (tl (us @ [p]) @ x # q # vs)"
    using assms by (simp_all only: butlast_split [of "x # q # vs" us p, OF list.distinct(2)]
        tl_split [of us p "x # q # vs"]) simp
  then have "distinct (us @ p # butlast (q # vs))" "distinct (tl (us @ [p]) @ q # vs)" by auto
  then show "distinct (butlast (us @ p # q # vs))" "distinct (tl (us @ p # q # vs))"
    by (simp_all only: butlast_split [of "q # vs" us p, OF list.distinct(2)] tl_split [of us p "q # vs"])
qed

lemma chain_insert:
  assumes "chain h (us @ p # q # vs)" "distinct (butlast (us @ p # q # vs))" "distinct (tl (us @ p # q # vs))"
    and "x \<notin> set (us @ p # q # vs)"
    and nx: "\<And>m. next_ptr (h' m) = (if m = p then x else if m = x then q else next_ptr (h m))"
    and pv: "\<And>m. prev_ptr (h' m) = (if m = q then x else if m = x then p else prev_ptr (h m))"
  shows "chain h' (us @ p # x # q # vs)"
proof -
  note d = distinct_ends [OF assms(2,3)]
  have c: "chain h (us @ [p])" "chain h (q # vs)" using assms(1) by (auto simp: chain_append [of h us p "q # vs"])
  have "chain h' (us @ [p]) = chain h (us @ [p])"
  proof (rule chain_cong)
    show "next_ptr (h' m) = next_ptr (h m)" if "m \<in> set (butlast (us @ [p]))" for m
      using that d(1) assms(4) by (auto simp: nx)
    show "prev_ptr (h' m) = prev_ptr (h m)" if "m \<in> set (tl (us @ [p]))" for m
      using that d(3) assms(4) by (cases us) (auto simp: pv)
  qed
  moreover have "chain h' (q # vs) = chain h (q # vs)"
  proof (rule chain_cong)
    show "next_ptr (h' m) = next_ptr (h m)" if "m \<in> set (butlast (q # vs))" for m
      using that d(2) assms(4) in_set_butlastD [OF that] by (auto simp: nx)
    show "prev_ptr (h' m) = prev_ptr (h m)" if "m \<in> set (tl (q # vs))" for m
      using that d(4) assms(4) by (auto simp: pv)
  qed
  ultimately show ?thesis
    using c assms(4) by (auto simp: chain_append [of h' us p "x # q # vs"] nx pv)
qed

lemma chain_delete:
  assumes "chain h (us @ p # x # q # vs)" "distinct (butlast (us @ p # x # q # vs))" "distinct (tl (us @ p # x # q # vs))"
    and nx: "\<And>m. next_ptr (h' m) = (if m = p then q else next_ptr (h m))"
    and pv: "\<And>m. prev_ptr (h' m) = (if m = q then p else prev_ptr (h m))"
  shows "chain h' (us @ p # q # vs)"
proof -
  note d = distinct_ends [OF distinct_without [OF assms(2,3)]]
  have c: "chain h (us @ [p])" "chain h (q # vs)" using assms(1) by (auto simp: chain_append [of h us p "x # q # vs"])
  have "chain h' (us @ [p]) = chain h (us @ [p])"
    by (rule chain_cong) (use d in \<open>auto simp: nx pv\<close>)
  moreover have "chain h' (q # vs) = chain h (q # vs)"
    by (rule chain_cong) (use d in \<open>auto simp: nx pv\<close>)
  ultimately show ?thesis using c by (auto simp: chain_append [of h' us p "q # vs"] nx pv)
qed

lemma ring_distinct: "ring h a xs \<Longrightarrow> distinct (butlast (a # xs @ [a])) \<and> distinct (tl (a # xs @ [a]))"
  by (auto simp: ring_def)

lemma ring_add_tail:
  assumes r: "ring h a xs" and x: "x \<notin> set (a # xs)"
  shows "ring (list_add_tail a x h) a (xs @ [x])"
proof -
  obtain us p where us: "a # xs = us @ [p]" by (metis append_butlast_last_id list.distinct(1))
  have l: "prev_ptr (h a) = p" using ring_last [OF r] us by simp
  have L: "a # xs @ [a] = us @ p # a # []" using us by simp
  have "x \<notin> set (us @ [p])" using x unfolding us .
  then have "p \<noteq> x" "a \<noteq> x" using x by auto
  then have "chain (list_add_tail a x h) (us @ p # x # a # [])"
    using r ring_distinct [OF r] x unfolding ring_def L
    by (intro chain_insert [of h]) (auto simp: list_add_tail_def Let_def l simp flip: L)
  then have "chain (list_add_tail a x h) ((us @ [p]) @ [x, a])" by simp
  then show ?thesis using r x unfolding us [symmetric] by (simp add: ring_def)
qed

lemma ring_add_head:
  assumes r: "ring h a xs" and x: "x \<notin> set (a # xs)"
  shows "ring (list_add_head a x h) a (x # xs)"
proof -
  obtain q vs where vs: "xs @ [a] = q # vs" by (cases "xs @ [a]") auto
  have f: "next_ptr (h a) = q" using ring_first [OF r] vs by simp
  have "x \<notin> set (xs @ [a])" using x by auto
  then have "q \<noteq> x" "a \<noteq> x" using x unfolding vs by auto
  then have "chain (list_add_head a x h) ([] @ a # x # q # vs)"
    using r ring_distinct [OF r] x unfolding ring_def vs
    by (intro chain_insert [of h]) (auto simp: list_add_head_def Let_def f simp flip: vs)
  then show ?thesis using r x by (simp add: ring_def flip: vs)
qed

lemma ring_remove:
  assumes r: "ring h a (ys @ x # zs)"
  shows "ring (list_remove x h) a (ys @ zs)"
proof -
  obtain us p where us: "a # ys = us @ [p]" by (metis append_butlast_last_id list.distinct(1))
  obtain q vs where vs: "zs @ [a] = q # vs" by (cases "zs @ [a]") auto
  have L: "a # (ys @ x # zs) @ [a] = us @ p # x # q # vs"
    using us vs by (metis append.assoc append_Cons append_Nil)
  have c: "chain h (us @ p # x # q # vs)" using r by (simp only: ring_def L)
  then have ptrs: "next_ptr (h p) = x" "prev_ptr (h x) = p" "next_ptr (h x) = q" "prev_ptr (h q) = x"
    by (auto simp: chain_append [of h us p "x # q # vs"])
  have "x \<notin> set (us @ [p])" "x \<notin> set (q # vs)" using r by (auto simp: ring_def simp flip: us vs)
  then have "p \<noteq> x" "q \<noteq> x" by auto
  then have "chain (list_remove x h) (us @ p # q # vs)"
    using ring_distinct [OF r, unfolded L] ptrs
    by (intro chain_delete [OF c]) (auto simp: list_remove_def Let_def)
  moreover have "us @ p # q # vs = a # (ys @ zs) @ [a]"
    using us vs by (metis append.assoc append_Cons append_Nil)
  ultimately show ?thesis using r by (simp add: ring_def)
qed

text \<open>An operation on one list leaves the nodes of another alone.\<close>

lemma ring_frame:
  assumes "ring h b zs" "\<And>m. m \<in> set (b # zs) \<Longrightarrow> h' m = h m"
  shows "ring h' b zs"
proof -
  have "chain h' (b # zs @ [b]) = chain h (b # zs @ [b])"
    by (rule chain_cong) (use assms(2) in \<open>auto dest: in_set_butlastD\<close>)
  with assms(1) show ?thesis by (simp add: ring_def)
qed

subsection \<open>Loops\<close>

lemma for_each_chain:
  "chain h (x # xs @ [a]) \<Longrightarrow> a \<notin> set xs \<Longrightarrow> list_for_each a (next_ptr (h x)) h = Some xs"
proof (induction xs arbitrary: x)
  case Nil
  then show ?case by (simp add: list_for_each.simps [of a a])
next
  case (Cons y ys)
  then show ?case by (simp add: list_for_each.simps [of a y])
qed

lemma ring_for_each: "ring h a xs \<Longrightarrow> list_for_each a (next_ptr (h a)) h = Some xs"
  by (rule for_each_chain) (auto simp: ring_def)

text \<open>
  The loop that empties a list: every node is removed before the next one is visited, as
  the pools of the service are freed.
\<close>

lemma ring_drain:
  "ring h a xs \<Longrightarrow> \<exists>h'. list_for_each_safe list_remove a (next_ptr (h a)) (next_ptr (h (next_ptr (h a)))) h = Some h'
     \<and> ring h' a []"
proof (induction xs arbitrary: h)
  case Nil
  then have "next_ptr (h a) = a" by (simp add: ring_def)
  with Nil show ?case by (simp add: list_for_each_safe.simps [of _ a a])
next
  case (Cons x xs)
  let ?h = "list_remove x h"
  have r: "ring ?h a xs" using ring_remove [of h a "[]" x xs] Cons.prems by simp
  have x: "next_ptr (h a) = x" "x \<noteq> a" using Cons.prems by (auto simp: ring_def)
  have n: "next_ptr (h x) = hd (xs @ [a])" using Cons.prems by (cases xs) (auto simp: ring_def)
  then have "next_ptr (?h a) = next_ptr (h x)" using ring_first [OF r] by simp
  with Cons.IH [OF r] x show ?case by (simp add: list_for_each_safe.simps [of _ a x] Let_def)
qed

section \<open>The list as an abstract data type\<close>

text \<open>
  What the clients of the list rely on: a relation between the heap and the items, kept by
  the operations. Everything else follows from it.
\<close>

locale item_list =
  fixes rep :: "'h \<Rightarrow> 'n \<Rightarrow> 'n list \<Rightarrow> bool"
    and init :: "'n \<Rightarrow> 'h \<Rightarrow> 'h"
    and add_tail :: "'n \<Rightarrow> 'n \<Rightarrow> 'h \<Rightarrow> 'h"
    and add_head :: "'n \<Rightarrow> 'n \<Rightarrow> 'h \<Rightarrow> 'h"
    and remove :: "'n \<Rightarrow> 'h \<Rightarrow> 'h"
    and items :: "'n \<Rightarrow> 'h \<Rightarrow> 'n list option"
  assumes rep_init: "rep (init a h) a []"
    and rep_add_tail: "rep h a xs \<Longrightarrow> x \<notin> set (a # xs) \<Longrightarrow> rep (add_tail a x h) a (xs @ [x])"
    and rep_add_head: "rep h a xs \<Longrightarrow> x \<notin> set (a # xs) \<Longrightarrow> rep (add_head a x h) a (x # xs)"
    and rep_remove: "rep h a (ys @ x # zs) \<Longrightarrow> rep (remove x h) a (ys @ zs)"
    and rep_items: "rep h a xs \<Longrightarrow> items a h = Some xs"
    and rep_distinct: "rep h a xs \<Longrightarrow> distinct (a # xs)"
begin

lemma rep_unique: "rep h a xs \<Longrightarrow> rep h a ys \<Longrightarrow> xs = ys"
  using rep_items [of h a xs] rep_items [of h a ys] by simp

lemma remove_member:
  assumes "rep h a xs" "x \<in> set xs"
  shows "rep (remove x h) a (remove1 x xs)"
proof -
  obtain ys zs where xs: "xs = ys @ x # zs" "x \<notin> set ys" using assms(2) by (metis split_list_first)
  then have "remove1 x xs = ys @ zs" by (simp add: remove1_append)
  with assms(1) xs rep_remove show ?thesis by metis
qed

lemma add_tail_remove:
  assumes "rep h a xs" "x \<notin> set (a # xs)"
  shows "items a (remove x (add_tail a x h)) = Some xs"
  using rep_remove [of "add_tail a x h" a xs x "[]"] rep_add_tail [OF assms] by (simp add: rep_items)

end

interpretation agm: item_list ring list_init list_add_tail list_add_head list_remove
    "\<lambda>a h. list_for_each a (next_ptr (h a)) h"
proof
  show "distinct (a # xs)" if "ring h a xs" for h a xs using that by (simp add: ring_def)
qed (fact ring_init ring_add_tail ring_add_head ring_remove ring_for_each)+

section \<open>Sequences of operations\<close>

datatype list_op = Add_tail nat | Add_head nat | Remove nat

fun run_op :: "nat \<Rightarrow> list_op \<Rightarrow> list_heap \<Rightarrow> list_heap" where
  "run_op a (Add_tail x) h = list_add_tail a x h"
| "run_op a (Add_head x) h = list_add_head a x h"
| "run_op a (Remove x) h = list_remove x h"

text \<open>The specification: the same on a list of items; \<open>None\<close> where the caller must not call.\<close>

fun spec_op :: "nat \<Rightarrow> list_op \<Rightarrow> nat list \<Rightarrow> nat list option" where
  "spec_op a (Add_tail x) xs = (if x \<in> set (a # xs) then None else Some (xs @ [x]))"
| "spec_op a (Add_head x) xs = (if x \<in> set (a # xs) then None else Some (x # xs))"
| "spec_op a (Remove x) xs = (if x \<in> set xs then Some (remove1 x xs) else None)"

fun spec_ops :: "nat \<Rightarrow> list_op list \<Rightarrow> nat list \<Rightarrow> nat list option" where
  "spec_ops a [] xs = Some xs"
| "spec_ops a (c # cs) xs = spec_op a c xs \<bind> spec_ops a cs"

lemma run_op_ring: "ring h a xs \<Longrightarrow> spec_op a c xs = Some ys \<Longrightarrow> ring (run_op a c h) a ys"
  by (cases c) (auto simp: ring_add_tail ring_add_head agm.remove_member split: if_splits)

lemma run_ops_ring: "ring h a xs \<Longrightarrow> spec_ops a cs xs = Some ys \<Longrightarrow> ring (fold (run_op a) cs h) a ys"
proof (induction cs arbitrary: h xs)
  case (Cons c cs)
  then obtain zs where "spec_op a c xs = Some zs" "spec_ops a cs zs = Some ys" by (auto split: bind_splits)
  with Cons.IH [OF run_op_ring [OF Cons.prems(1)]] show ?case by simp
qed simp



end
