(* ===== verification/Agm_Card_Def.thy ===== *)
theory Agm_Card_Def
  imports Agm_Device
begin

text \<open>
  \<open>snd_parser/src/snd-card-parser.c\<close>: the definitions of sound cards that the tinyalsa
  plugins look up. The handlers that expat calls build a card definition from the XML file;
  \<open>snd_card_def_get_card\<close> parses the file on the first use of a card and counts the
  references to the parsed definitions, and the getters read devices and properties.

  A card definition is reached through its address, a device through its card, its list and
  its position there (devices are only removed together with their card). The outside is
  \<open>C :: card_env\<close>: which allocations succeed, the id file of the card under \<open>/proc\<close>, and
  the definition file with what expat reports for it. Each of them is asked with the number
  of questions before it, so nothing is assumed of their answers. The read-write lock is
  part of the state; a lock that cannot be taken blocks for ever, which is \<open>None\<close> like
  undefined behaviour.
\<close>

section \<open>Data\<close>

datatype snd_node_type =
  SND_NODE_TYPE_PCM | SND_NODE_TYPE_MIXER | SND_NODE_TYPE_COMPR | SND_NODE_TYPE_MAX

abbreviation (input) SND_NODE_DEV_TYPE_HW :: int where "SND_NODE_DEV_TYPE_HW \<equiv> 0"
abbreviation (input) SND_NODE_DEV_TYPE_PLUGIN :: int where "SND_NODE_DEV_TYPE_PLUGIN \<equiv> 1"
abbreviation (input) BUF_SIZE :: nat where "BUF_SIZE \<equiv> 1024"

record snd_prop_val_pair =
  pv_prop :: string
  pv_val :: string

record snd_dev_def =
  dd_node_type :: snd_node_type
  dd_device :: u32
  dd_type :: int
  dd_name :: "string option"
  dd_so_name :: "string option"
  dd_prop_val_list :: "snd_prop_val_pair list"

record snd_dev_def_card =
  cd_card :: u32
  cd_type :: int
  cd_name :: "string option"
  cd_refcnt :: int
  pcm_devs_list :: "snd_dev_def list"
  mixer_devs_list :: "snd_dev_def list"
  compr_devs_list :: "snd_dev_def list"

datatype snd_card_defs_xml_tags_t =
  TAG_ROOT | TAG_CARD | TAG_DEVICE | TAG_PLUGIN | TAG_DEV_PROPS

text \<open>
  \<open>data_buf\<close> holds the bytes written since the last reset; the array has \<open>BUF_SIZE\<close> of
  them. \<open>cur_dev_def\<close> points into a list of \<open>cur_card_def\<close>. \<open>ud_tick\<close> counts the
  allocations of the parser.
\<close>

record xml_userdata =
  data_buf :: string
  offs :: nat
  ud_card :: u32
  ud_card_name :: "string option"
  cur_card_def :: "snd_dev_def_card option"
  cur_dev_def :: "(snd_node_type \<times> nat) option"
  card_found :: bool
  card_parsed :: bool
  current_tag :: snd_card_defs_xml_tags_t
  ud_tick :: nat

text \<open>The list of a card for a type of node, as the getters choose it.\<close>

definition devs_list :: "snd_node_type \<Rightarrow> snd_dev_def_card \<Rightarrow> snd_dev_def list" where
  "devs_list t cd =
     (if t = SND_NODE_TYPE_PCM then pcm_devs_list cd
      else if t = SND_NODE_TYPE_COMPR then compr_devs_list cd
      else mixer_devs_list cd)"

definition set_devs_list ::
    "snd_node_type \<Rightarrow> snd_dev_def list \<Rightarrow> snd_dev_def_card \<Rightarrow> snd_dev_def_card" where
  "set_devs_list t ds cd =
     (if t = SND_NODE_TYPE_PCM then cd\<lparr>pcm_devs_list := ds\<rparr>
      else if t = SND_NODE_TYPE_COMPR then cd\<lparr>compr_devs_list := ds\<rparr>
      else cd\<lparr>mixer_devs_list := ds\<rparr>)"

text \<open>A C string ends at the first NUL.\<close>

definition c_str :: "string \<Rightarrow> string" where
  "c_str str = takeWhile (\<lambda>c. of_char c \<noteq> (0 :: nat)) str"

text \<open>\<open>!strncmp(a, b, strlen(a))\<close>: the string \<open>a\<close> is a prefix of \<open>b\<close>.\<close>

definition strn_eq :: "string \<Rightarrow> string \<Rightarrow> bool" where
  "strn_eq a b \<longleftrightarrow> take (length a) b = a"

section \<open>The handlers of the XML parser\<close>

definition snd_reset_data_buf :: "xml_userdata \<Rightarrow> xml_userdata" where
  "snd_reset_data_buf data = data\<lparr>offs := 0, data_buf := []\<rparr>"

definition ud_calloc :: "(nat \<Rightarrow> bool) \<Rightarrow> xml_userdata \<Rightarrow> bool \<times> xml_userdata" where
  "ud_calloc A data = (A (ud_tick data), data\<lparr>ud_tick := Suc (ud_tick data)\<rparr>)"

text \<open>A write through \<open>data->cur_dev_def\<close>, which the callers have checked for NULL.\<close>

definition upd_cur_dev ::
    "(snd_dev_def \<Rightarrow> snd_dev_def) \<Rightarrow> xml_userdata \<Rightarrow> xml_userdata option" where
  "upd_cur_dev f data = do {
     cd \<leftarrow> cur_card_def data;
     (t, i) \<leftarrow> cur_dev_def data;
     if i < length (devs_list t cd)
     then Some (data\<lparr>cur_card_def := Some
       (set_devs_list t ((devs_list t cd)[i := f (devs_list t cd ! i)]) cd)\<rparr>)
     else None
   }"

definition snd_dev_set_type :: "int \<Rightarrow> xml_userdata \<Rightarrow> xml_userdata option" where
  "snd_dev_set_type ty data =
     (if cur_dev_def data \<noteq> None then upd_cur_dev (\<lambda>d. d\<lparr>dd_type := ty\<rparr>) data else Some data)"

definition is_device_tag :: "string \<Rightarrow> bool" where
  "is_device_tag tag_name \<longleftrightarrow>
     tag_name = ''pcm-device'' \<or> tag_name = ''compress-device'' \<or> tag_name = ''mixer''"

definition new_dev_def :: "snd_node_type \<Rightarrow> snd_dev_def" where
  "new_dev_def t = \<lparr>dd_node_type = t, dd_device = 0, dd_type = SND_NODE_DEV_TYPE_HW,
     dd_name = None, dd_so_name = None, dd_prop_val_list = []\<rparr>"

text \<open>The \<open>node_type\<close> that is \<open>-1\<close> in the C code is \<open>None\<close>.\<close>

definition snd_dev_def_init ::
    "(nat \<Rightarrow> bool) \<Rightarrow> xml_userdata \<Rightarrow> string \<Rightarrow> snd_node_type option \<Rightarrow> xml_userdata" where
  "snd_dev_def_init A data tag_name node_type =
     (case cur_card_def data of None \<Rightarrow> data
      | Some cd \<Rightarrow>
        (case node_type of None \<Rightarrow> data
         | Some t \<Rightarrow>
            if t = SND_NODE_TYPE_MAX then data
            else if \<not> is_device_tag tag_name then data
            else let (ok, data) = ud_calloc A data in
              if \<not> ok then data
              else data\<lparr>cur_card_def := Some (set_devs_list t (devs_list t cd @ [new_dev_def t]) cd),
                        cur_dev_def := Some (t, length (devs_list t cd))\<rparr>))"

definition snd_start_tag ::
    "(nat \<Rightarrow> bool) \<Rightarrow> string \<Rightarrow> xml_userdata \<Rightarrow> xml_userdata option" where
  "snd_start_tag A tag_name data =
     (if card_parsed data then Some data
      else do {
        let data = snd_reset_data_buf data;
        let data = (if tag_name = ''card'' then data\<lparr>current_tag := TAG_CARD\<rparr> else data);
        (node_type, data) \<leftarrow>
          (if tag_name = ''pcm-device'' then
             Some (Some SND_NODE_TYPE_PCM, data\<lparr>current_tag := TAG_DEVICE\<rparr>)
           else if tag_name = ''compress-device'' then
             Some (Some SND_NODE_TYPE_COMPR, data\<lparr>current_tag := TAG_DEVICE\<rparr>)
           else if tag_name = ''mixer'' then
             Some (Some SND_NODE_TYPE_MIXER, data\<lparr>current_tag := TAG_DEVICE\<rparr>)
           else if c_strstr tag_name ''plugin'' then do {
             data \<leftarrow> snd_dev_set_type SND_NODE_DEV_TYPE_PLUGIN data;
             Some (None, data\<lparr>current_tag := TAG_PLUGIN\<rparr>)
           }
           else if tag_name = ''props'' then Some (None, data\<lparr>current_tag := TAG_DEV_PROPS\<rparr>)
           else Some (None, data));
        if current_tag data \<noteq> TAG_CARD \<and> \<not> card_found data then Some data
        else Some (snd_dev_def_init A data tag_name node_type)
      })"

text \<open>
  \<open>len + data->offs >= sizeof(data->data_buf)\<close>: the text is dropped, but the offset grows.
\<close>

definition snd_data_handler :: "string \<Rightarrow> xml_userdata \<Rightarrow> xml_userdata" where
  "snd_data_handler str data =
     (if length str + offs data \<ge> BUF_SIZE then data\<lparr>offs := offs data + length str\<rparr>
      else data\<lparr>data_buf := take (offs data) (data_buf data) @ str, offs := offs data + length str\<rparr>)"

definition new_card_def :: snd_dev_def_card where
  "new_card_def = \<lparr>cd_card = 0, cd_type = 0, cd_name = None, cd_refcnt = 0,
     pcm_devs_list = [], mixer_devs_list = [], compr_devs_list = []\<rparr>"

text \<open>Whether the function returned a card; it is then \<open>cur_card_def\<close>.\<close>

definition snd_parse_initialize_card_def ::
    "(nat \<Rightarrow> bool) \<Rightarrow> xml_userdata \<Rightarrow> bool \<times> xml_userdata" where
  "snd_parse_initialize_card_def A data =
     (if cur_card_def data \<noteq> None then (True, data)
      else let (ok, data) = ud_calloc A data in
        if \<not> ok then (False, data)
        else (True, data\<lparr>card_found := True, cur_card_def := Some new_card_def\<rparr>))"

text \<open>\<open>strtok_r\<close> with the separators comma and blank.\<close>

definition is_sep :: "char \<Rightarrow> bool" where
  "is_sep c \<longleftrightarrow> c = CHR '','' \<or> c = CHR '' ''"

function tokens :: "string \<Rightarrow> string list" where
  "tokens str =
     (case dropWhile is_sep str of
        [] \<Rightarrow> []
      | c # cs \<Rightarrow> takeWhile (\<lambda>x. \<not> is_sep x) (c # cs) # tokens (dropWhile (\<lambda>x. \<not> is_sep x) (c # cs)))"
  by pat_completeness auto
termination
proof (relation "measure length", simp, unfold in_measure)
  fix str and c :: char and cs assume *: "dropWhile is_sep str = c # cs"
  then have "\<not> is_sep c" by (metis hd_dropWhile list.distinct(1) list.sel(1))
  then have "length (dropWhile (\<lambda>x. \<not> is_sep x) (c # cs)) < length (c # cs)"
    by (simp add: le_imp_less_Suc length_dropWhile_le)
  also have "length (c # cs) \<le> length str" using * length_dropWhile_le [of is_sep str] by simp
  finally show "length (dropWhile (\<lambda>x. \<not> is_sep x) (c # cs)) < length str" .
qed

declare tokens.simps [simp del]

definition set_card_name :: "(nat \<Rightarrow> bool) \<Rightarrow> string \<Rightarrow> xml_userdata \<Rightarrow> xml_userdata" where
  "set_card_name A nm data =
     (let (ok, data) = ud_calloc A data in
      data\<lparr>cur_card_def :=
        map_option (\<lambda>cd. cd\<lparr>cd_name := (if ok then Some nm else None)\<rparr>) (cur_card_def data)\<rparr>)"

definition snd_parse_card_properties ::
    "(nat \<Rightarrow> bool) \<Rightarrow> string \<Rightarrow> xml_userdata \<Rightarrow> xml_userdata" where
  "snd_parse_card_properties A tag_name data =
     (let buf = c_str (data_buf data) in
      if tag_name = ''id'' then
        (let crd = word_of_int (atoi buf) in
         if crd = ud_card data then
           (let (ok, data) = snd_parse_initialize_card_def A data in
            if ok then data\<lparr>cur_card_def :=
              map_option (\<lambda>cd. cd\<lparr>cd_card := crd\<rparr>) (cur_card_def data)\<rparr> else data)
         else data)
      else if tag_name = ''name'' then
        (if cur_card_def data = None then
           (case ud_card_name data of None \<Rightarrow> data
            | Some cname \<Rightarrow>
              (case find (strn_eq cname) (tokens buf) of None \<Rightarrow> data
               | Some token \<Rightarrow>
                  (let (ok, data) = snd_parse_initialize_card_def A data in
                   if \<not> ok then data else set_card_name A token data)))
         else set_card_name A buf data)
      else data)"

definition snd_parse_plugin_properties ::
    "(nat \<Rightarrow> bool) \<Rightarrow> string \<Rightarrow> xml_userdata \<Rightarrow> xml_userdata option" where
  "snd_parse_plugin_properties A tag_name data =
     (if cur_dev_def data = None then Some data
      else if tag_name = ''so-name'' then
        (let (ok, data) = ud_calloc A data in
         upd_cur_dev (\<lambda>d. d\<lparr>dd_so_name := (if ok then Some (c_str (data_buf data)) else None)\<rparr>) data)
      else Some data)"

definition snd_parse_device_properties ::
    "(nat \<Rightarrow> bool) \<Rightarrow> string \<Rightarrow> xml_userdata \<Rightarrow> xml_userdata option" where
  "snd_parse_device_properties A tag_name data =
     (if is_device_tag tag_name then Some data
      else if cur_dev_def data = None then Some data
      else if tag_name = ''id'' then
        upd_cur_dev (\<lambda>d. d\<lparr>dd_device := word_of_int (atoi (c_str (data_buf data)))\<rparr>) data
      else if tag_name = ''name'' then
        (let (ok, data) = ud_calloc A data in
         upd_cur_dev (\<lambda>d. d\<lparr>dd_name := (if ok then Some (c_str (data_buf data)) else None)\<rparr>) data)
      else Some data)"

definition snd_parse_device_custom_properties ::
    "(nat \<Rightarrow> bool) \<Rightarrow> string \<Rightarrow> xml_userdata \<Rightarrow> xml_userdata option" where
  "snd_parse_device_custom_properties A tag_name data =
     (if tag_name = ''props'' then Some data
      else if cur_dev_def data = None then Some data
      else if c_str (data_buf data) = [] \<or> tag_name = [] then Some data
      else
        (let (ok, data) = ud_calloc A data in
         if \<not> ok then Some data
         else let (ok, data) = ud_calloc A data in
         if \<not> ok then Some data
         else let (ok, data) = ud_calloc A data in
         if \<not> ok then Some data
         else upd_cur_dev (\<lambda>d. d\<lparr>dd_prop_val_list := dd_prop_val_list d
                @ [\<lparr>pv_prop = tag_name, pv_val = c_str (data_buf data)\<rparr>]\<rparr>) data))"

text \<open>
  \<open>data->data_buf[data->offs] = '\0'\<close> comes first: with an offset of \<open>BUF_SIZE\<close> or more
  it is a write outside the array.
\<close>

definition snd_process_data_buf ::
    "(nat \<Rightarrow> bool) \<Rightarrow> string \<Rightarrow> xml_userdata \<Rightarrow> xml_userdata option" where
  "snd_process_data_buf A tag_name data =
     (if offs data = 0 then Some data
      else if offs data \<ge> BUF_SIZE then None
      else if card_parsed data then Some data
      else if current_tag data = TAG_ROOT then Some data
      else if current_tag data = TAG_CARD then Some (snd_parse_card_properties A tag_name data)
      else if current_tag data = TAG_PLUGIN then snd_parse_plugin_properties A tag_name data
      else if current_tag data = TAG_DEVICE then snd_parse_device_properties A tag_name data
      else snd_parse_device_custom_properties A tag_name data)"

definition snd_end_tag ::
    "(nat \<Rightarrow> bool) \<Rightarrow> string \<Rightarrow> xml_userdata \<Rightarrow> xml_userdata option" where
  "snd_end_tag A tag_name data =
     (if card_parsed data then Some data
      else if current_tag data \<noteq> TAG_CARD \<and> \<not> card_found data then Some data
      else do {
        data \<leftarrow> snd_process_data_buf A tag_name data;
        let data = snd_reset_data_buf data;
        Some (if is_device_tag tag_name then data\<lparr>current_tag := TAG_CARD\<rparr>
              else if c_strstr tag_name ''plugin'' \<or> tag_name = ''props''
                then data\<lparr>current_tag := TAG_DEVICE\<rparr>
              else if tag_name = ''card'' then
                (if card_found data then data\<lparr>current_tag := TAG_ROOT, card_parsed := True\<rparr>
                 else data\<lparr>current_tag := TAG_ROOT\<rparr>)
              else data)
      })"

text \<open>What expat reports, in the order of the document.\<close>

datatype xml_event = Start_tag string | End_tag string | Char_data string

fun handle_event :: "(nat \<Rightarrow> bool) \<Rightarrow> xml_event \<Rightarrow> xml_userdata \<Rightarrow> xml_userdata option" where
  "handle_event A (Start_tag t) data = snd_start_tag A t data"
| "handle_event A (End_tag t) data = snd_end_tag A t data"
| "handle_event A (Char_data str) data = Some (snd_data_handler str data)"

fun handle_events :: "(nat \<Rightarrow> bool) \<Rightarrow> xml_event list \<Rightarrow> xml_userdata \<Rightarrow> xml_userdata option" where
  "handle_events A [] data = Some data"
| "handle_events A (e # es) data = do { data \<leftarrow> handle_event A e data; handle_events A es data }"

section \<open>The cards in use\<close>

text \<open>
  The rounds of the parse loop: no buffer, a failed read, or a chunk of some bytes with the
  events that expat reports for it and whether it finds an error. The loop ends with the
  chunk of zero bytes.
\<close>

datatype xml_step = No_buffer | Read_failed | Chunk nat "xml_event list" bool

datatype def_file = No_file | No_parser | Steps "xml_step list"

datatype proc_file = No_entry | Open_failed | Empty_file | Id_line string

record card_env =
  ce_alloc :: "nat \<Rightarrow> bool"
  ce_proc :: "nat \<Rightarrow> u32 \<Rightarrow> proc_file"
  ce_file :: "nat \<Rightarrow> def_file"

record card_state =
  snd_card_list :: "(nat \<times> snd_dev_def_card) list"
  snd_card_list_init :: bool
  next_card :: nat
  readers :: nat
  writer :: bool
  tick :: nat

definition wr_lock :: "card_state \<Rightarrow> card_state option" where
  "wr_lock s = (if readers s = 0 \<and> \<not> writer s then Some (s\<lparr>writer := True\<rparr>) else None)"

definition rd_lock :: "card_state \<Rightarrow> card_state option" where
  "rd_lock s = (if \<not> writer s then Some (s\<lparr>readers := Suc (readers s)\<rparr>) else None)"

definition rw_unlock :: "card_state \<Rightarrow> card_state" where
  "rw_unlock s = (if writer s then s\<lparr>writer := False\<rparr> else s\<lparr>readers := readers s - 1\<rparr>)"

text \<open>
  The name of the card from \<open>/proc/asound/card<n>/id\<close>. The first result is false when the
  function returns NULL here. A file that cannot be opened passes the test \<open>file < 0\<close> and
  \<open>fgets\<close> reads from NULL; a line that starts with a NUL makes the code write in front of
  the buffer.
\<close>

definition read_card_id ::
    "card_env \<Rightarrow> u32 \<Rightarrow> card_state \<Rightarrow> ((bool \<times> string option \<times> u32), card_state) result" where
  "read_card_id C crd s =
     (case ce_proc C (tick s) crd of
        No_entry \<Rightarrow> Some ((True, None, crd), s\<lparr>tick := tick s + 1\<rparr>)
      | f \<Rightarrow>
        if \<not> ce_alloc C (tick s) then Some ((False, None, crd), s\<lparr>tick := tick s + 1\<rparr>)
        else (case f of
            Empty_file \<Rightarrow> Some ((True, None, crd), s\<lparr>tick := tick s + 1\<rparr>)
          | Id_line l \<Rightarrow>
              (if c_str l = [] then None
               else Some ((True, Some (butlast (c_str l)), - 1), s\<lparr>tick := tick s + 1\<rparr>))
          | _ \<Rightarrow> None))"

fun find_card ::
    "string option \<Rightarrow> u32 \<Rightarrow> (nat \<times> snd_dev_def_card) list \<Rightarrow> nat option option" where
  "find_card nm crd [] = Some None"
| "find_card nm crd ((a, cd) # cs) =
     (case nm of
        Some n \<Rightarrow>
          (case cd_name cd of None \<Rightarrow> None
           | Some cn \<Rightarrow> if strn_eq n cn then Some (Some a) else find_card nm crd cs)
      | None \<Rightarrow> if cd_card cd = crd then Some (Some a) else find_card nm crd cs)"

definition upd_card ::
    "nat \<Rightarrow> (snd_dev_def_card \<Rightarrow> snd_dev_def_card) \<Rightarrow> (nat \<times> snd_dev_def_card) list
      \<Rightarrow> (nat \<times> snd_dev_def_card) list" where
  "upd_card a f cs = map (\<lambda>(b, cd). (b, if b = a then f cd else cd)) cs"

text \<open>The parse loop; the flag of the result is false when it is left through \<open>goto ret\<close>.\<close>

fun parse_loop ::
    "(nat \<Rightarrow> bool) \<Rightarrow> xml_step list \<Rightarrow> xml_userdata \<Rightarrow> (bool \<times> xml_userdata) option" where
  "parse_loop A [] data = None"
| "parse_loop A (No_buffer # st) data = Some (False, data)"
| "parse_loop A (Read_failed # st) data = Some (False, data)"
| "parse_loop A (Chunk bytes_read es err # st) data = do {
     data \<leftarrow> handle_events A es data;
     if err then Some (False, data)
     else if bytes_read = 0 then Some (True, data)
     else parse_loop A st data
   }"

definition init_userdata :: "u32 \<Rightarrow> string option \<Rightarrow> nat \<Rightarrow> xml_userdata" where
  "init_userdata crd nm n = \<lparr>data_buf = [], offs = 0, ud_card = crd, ud_card_name = nm,
     cur_card_def = None, cur_dev_def = None, card_found = False, card_parsed = False,
     current_tag = TAG_ROOT, ud_tick = n\<rparr>"

text \<open>
  The variable \<open>card_def\<close> still holds the last card of the list when the parse fails, and
  that is what the function then returns.
\<close>

definition snd_card_def_get_card ::
    "card_env \<Rightarrow> u32 \<Rightarrow> card_state \<Rightarrow> (nat option, card_state) result" where
  "snd_card_def_get_card C crd s = do {
     ((ok, nm, crd), s) \<leftarrow> read_card_id C crd s;
     if \<not> ok then Some (None, s)
     else do {
       s \<leftarrow> wr_lock s;
       let s = (if snd_card_list_init s then s
                else s\<lparr>snd_card_list := [], snd_card_list_init := True\<rparr>);
       found \<leftarrow> find_card nm crd (snd_card_list s);
       case found of
         Some a \<Rightarrow>
           Some (Some a, rw_unlock (s\<lparr>snd_card_list :=
             upd_card a (\<lambda>cd. cd\<lparr>cd_refcnt := cd_refcnt cd + 1\<rparr>) (snd_card_list s)\<rparr>))
       | None \<Rightarrow>
           let last_card = (if snd_card_list s = [] then None
                            else Some (fst (last (snd_card_list s)))) in
           (case ce_file C (tick s) of
              Steps st \<Rightarrow> do {
                (done, data) \<leftarrow> parse_loop (ce_alloc C) st (init_userdata crd nm (tick s));
                let s = s\<lparr>tick := ud_tick data\<rparr>;
                if \<not> done then Some (last_card, rw_unlock s)
                else case cur_card_def data of
                    None \<Rightarrow> Some (None, rw_unlock s)
                  | Some cd \<Rightarrow> Some (Some (next_card s), rw_unlock (s\<lparr>
                      snd_card_list := snd_card_list s
                        @ [(next_card s, cd\<lparr>cd_refcnt := cd_refcnt cd + 1\<rparr>)],
                      next_card := Suc (next_card s)\<rparr>))
              }
            | _ \<Rightarrow> Some (None, rw_unlock (s\<lparr>tick := tick s + 1\<rparr>)))
     }
   }"

text \<open>\<open>snd_free_card_def\<close> releases the devices, their properties and the card.\<close>

fun put_loop :: "nat \<Rightarrow> (nat \<times> snd_dev_def_card) list \<Rightarrow> (nat \<times> snd_dev_def_card) list" where
  "put_loop a [] = []"
| "put_loop a ((b, cd) # cs) =
     (if b = a then
        (let cd = cd\<lparr>cd_refcnt := cd_refcnt cd - 1\<rparr> in
         if cd_refcnt cd = 0 then put_loop a cs else (b, cd) # put_loop a cs)
      else (b, cd) # put_loop a cs)"

definition snd_card_def_put_card :: "nat option \<Rightarrow> card_state \<Rightarrow> (unit, card_state) result" where
  "snd_card_def_put_card cn s =
     (case cn of None \<Rightarrow> Some ((), s)
      | Some a \<Rightarrow> do {
          s \<leftarrow> wr_lock s;
          if \<not> snd_card_list_init s then None
          else Some ((), rw_unlock (s\<lparr>snd_card_list := put_loop a (snd_card_list s)\<rparr>))
        })"

section \<open>The getters\<close>

text \<open>A device node: the card, the list and the position. A pointer to a freed card is undefined.\<close>

type_synonym dev_node = "nat \<times> snd_node_type \<times> nat"

definition card_at :: "card_state \<Rightarrow> nat \<Rightarrow> snd_dev_def_card option" where
  "card_at s a = map_of (snd_card_list s) a"

definition dev_def_at :: "card_state \<Rightarrow> dev_node \<Rightarrow> snd_dev_def option" where
  "dev_def_at s n = (case n of (a, t, i) \<Rightarrow> do {
     cd \<leftarrow> card_at s a;
     if i < length (devs_list t cd) then Some (devs_list t cd ! i) else None
   })"

definition snd_card_def_get_node ::
    "nat option \<Rightarrow> u32 \<Rightarrow> snd_node_type \<Rightarrow> card_state \<Rightarrow> (dev_node option, card_state) result" where
  "snd_card_def_get_node cn dev t s =
     (case cn of None \<Rightarrow> Some (None, s)
      | Some a \<Rightarrow>
        if t = SND_NODE_TYPE_MAX then Some (None, s)
        else do {
          s \<leftarrow> rd_lock s;
          cd \<leftarrow> card_at s a;
          Some (map_option (\<lambda>i. (a, t, i)) (find_index (\<lambda>d. dd_device d = dev) (devs_list t cd)),
            rw_unlock s)
        })"

definition snd_card_def_get_num_node ::
    "nat option \<Rightarrow> snd_node_type \<Rightarrow> card_state \<Rightarrow> (int, card_state) result" where
  "snd_card_def_get_num_node cn t s =
     (case cn of None \<Rightarrow> Some (0, s)
      | Some a \<Rightarrow>
        if t = SND_NODE_TYPE_MAX then Some (0, s)
        else do {
          s \<leftarrow> rd_lock s;
          cd \<leftarrow> card_at s a;
          Some (int (length (devs_list t cd)), rw_unlock s)
        })"

text \<open>
  The copy loop: \<open>i\<close> entries are written, \<open>arr\<close> is the array of the client. A write behind
  its end is undefined.
\<close>

fun copy_nodes ::
    "nat \<Rightarrow> int \<Rightarrow> dev_node list \<Rightarrow> dev_node option list \<Rightarrow> dev_node option list option" where
  "copy_nodes i n [] arr = Some arr"
| "copy_nodes i n (d # ds) arr =
     (if i < length arr then
        (let arr = arr[i := Some d] in
         if int (Suc i) = n then Some arr else copy_nodes (Suc i) n ds arr)
      else None)"

text \<open>The return with \<open>-EINVAL\<close> after the count leaves the read lock taken.\<close>

definition snd_card_def_get_nodes_for_type ::
    "nat option \<Rightarrow> snd_node_type \<Rightarrow> int \<Rightarrow> dev_node option list \<Rightarrow> card_state
      \<Rightarrow> (int \<times> dev_node option list, card_state) result" where
  "snd_card_def_get_nodes_for_type cn t num_nodes arr s =
     (case cn of None \<Rightarrow> Some ((- EINVAL, arr), s)
      | Some a \<Rightarrow>
        if t = SND_NODE_TYPE_MAX then Some ((- EINVAL, arr), s)
        else do {
          s \<leftarrow> rd_lock s;
          cd \<leftarrow> card_at s a;
          let num_devs = length (devs_list t cd);
          if num_nodes > int num_devs then Some ((- EINVAL, arr), s)
          else do {
            arr \<leftarrow> copy_nodes 0 num_nodes (map (\<lambda>i. (a, t, i)) [0..<num_devs]) arr;
            Some ((0, arr), rw_unlock s)
          }
        })"

text \<open>The value read, if there is one: the caller's variable is left alone otherwise.\<close>

definition snd_card_def_get_int ::
    "dev_node option \<Rightarrow> string \<Rightarrow> card_state \<Rightarrow> (int \<times> int option, card_state) result" where
  "snd_card_def_get_int nd prop s =
     (case nd of None \<Rightarrow> Some ((- EINVAL, None), s)
      | Some n \<Rightarrow> do {
          s \<leftarrow> rd_lock s;
          d \<leftarrow> dev_def_at s n;
          Some (if prop = ''type'' then (0, Some (dd_type d))
                else if prop = ''id'' then (0, Some (sint (dd_device d)))
                else case find (\<lambda>pv. pv_prop pv = prop) (dd_prop_val_list d) of
                    Some pv \<Rightarrow> (0, Some (atoi (pv_val pv)))
                  | None \<Rightarrow> (- EINVAL, None), rw_unlock s)
        })"

definition snd_card_def_get_str ::
    "dev_node option \<Rightarrow> string \<Rightarrow> card_state \<Rightarrow> (int \<times> string option, card_state) result" where
  "snd_card_def_get_str nd prop s =
     (case nd of None \<Rightarrow> Some ((- EINVAL, None), s)
      | Some n \<Rightarrow> do {
          s \<leftarrow> rd_lock s;
          d \<leftarrow> dev_def_at s n;
          Some (if prop = ''so-name'' then (0, dd_so_name d)
                else if prop = ''name'' then (0, dd_name d)
                else case find (\<lambda>pv. pv_prop pv = prop) (dd_prop_val_list d) of
                    Some pv \<Rightarrow> (0, Some (pv_val pv))
                  | None \<Rightarrow> (- EINVAL, None), rw_unlock s)
        })"

end
