(* ===== verification/Agm_Card_Parse.thy ===== *)
theory Agm_Card_Parse
  imports Agm_Card_Def
begin

text \<open>
  The handlers of the card definition parser on whole documents. A document of the layout
  of \<open>card-defs.xml\<close> is a list of cards with their devices; \<open>doc_events\<close> is what expat
  reports for it and \<open>doc_meant\<close> the definition that it gives for a card. The lemmas follow
  the document from the simple elements up, with one state predicate for each place in it.
\<close>

section \<open>Documents\<close>

text \<open>A device and a card of the file; the texts are as they stand in the file.\<close>

record xdev =
  x_type :: snd_node_type
  x_id :: string
  x_name :: string
  x_plugin :: "(string \<times> string) option"
  x_props :: "(string \<times> string) list"

record xcard =
  xc_id :: string
  xc_name :: string
  xc_devs :: "xdev list"

definition dev_tag :: "snd_node_type \<Rightarrow> string" where
  "dev_tag t = (if t = SND_NODE_TYPE_PCM then ''pcm-device''
     else if t = SND_NODE_TYPE_COMPR then ''compress-device'' else ''mixer'')"

text \<open>The events of a document, with the white space \<open>w\<close> in front of every tag.\<close>

definition leaf :: "string \<Rightarrow> string \<Rightarrow> string \<Rightarrow> xml_event list" where
  "leaf w t str = [Char_data w, Start_tag t, Char_data str, End_tag t]"

definition elem :: "string \<Rightarrow> string \<Rightarrow> xml_event list \<Rightarrow> xml_event list" where
  "elem w t es = [Char_data w, Start_tag t] @ es @ [Char_data w, End_tag t]"

definition dev_body :: "string \<Rightarrow> xdev \<Rightarrow> xml_event list" where
  "dev_body w d = leaf w ''id'' (x_id d) @ leaf w ''name'' (x_name d)
     @ (case x_plugin d of None \<Rightarrow> [] | Some (t, so) \<Rightarrow> elem w t (leaf w ''so-name'' so))
     @ elem w ''props'' (concat (map (\<lambda>(p, v). leaf w p v) (x_props d)))"

definition dev_events :: "string \<Rightarrow> xdev \<Rightarrow> xml_event list" where
  "dev_events w d = elem w (dev_tag (x_type d)) (dev_body w d)"

definition card_events :: "string \<Rightarrow> xcard \<Rightarrow> xml_event list" where
  "card_events w c = elem w ''card'' (leaf w ''id'' (xc_id c) @ leaf w ''name'' (xc_name c)
     @ concat (map (dev_events w) (xc_devs c)))"

definition doc_events :: "string \<Rightarrow> xcard list \<Rightarrow> xml_event list" where
  "doc_events w cs = elem w ''defs'' (concat (map (card_events w) cs))"

text \<open>What the layout asks of the texts and of the names of custom properties.\<close>

definition text_ok :: "string \<Rightarrow> bool" where
  "text_ok str \<longleftrightarrow> str \<noteq> [] \<and> length str < BUF_SIZE \<and> c_str str = str"

definition plain_tag :: "string \<Rightarrow> bool" where
  "plain_tag t \<longleftrightarrow> t \<noteq> [] \<and> t \<noteq> ''card'' \<and> \<not> is_device_tag t \<and> \<not> c_strstr t ''plugin'' \<and> t \<noteq> ''props''"

definition plugin_tag :: "string \<Rightarrow> bool" where
  "plugin_tag t \<longleftrightarrow> c_strstr t ''plugin'' \<and> \<not> is_device_tag t \<and> t \<noteq> ''card''"

definition xdev_ok :: "xdev \<Rightarrow> bool" where
  "xdev_ok d \<longleftrightarrow> x_type d \<noteq> SND_NODE_TYPE_MAX \<and> text_ok (x_id d) \<and> text_ok (x_name d)
     \<and> (case x_plugin d of None \<Rightarrow> True | Some (t, so) \<Rightarrow> plugin_tag t \<and> text_ok so)
     \<and> list_all (\<lambda>(p, v). plain_tag p \<and> text_ok v) (x_props d)"

definition xcard_ok :: "xcard \<Rightarrow> bool" where
  "xcard_ok c \<longleftrightarrow> text_ok (xc_id c) \<and> text_ok (xc_name c) \<and> list_all xdev_ok (xc_devs c)"

text \<open>The definition that a document gives for a card.\<close>

definition dev_meant :: "xdev \<Rightarrow> snd_dev_def" where
  "dev_meant d = \<lparr>dd_node_type = x_type d, dd_device = word_of_int (atoi (x_id d)),
     dd_type = (if x_plugin d = None then SND_NODE_DEV_TYPE_HW else SND_NODE_DEV_TYPE_PLUGIN),
     dd_name = Some (x_name d), dd_so_name = map_option snd (x_plugin d),
     dd_prop_val_list = map (\<lambda>(p, v). \<lparr>pv_prop = p, pv_val = v\<rparr>) (x_props d)\<rparr>"

definition devs_meant :: "snd_node_type \<Rightarrow> xcard \<Rightarrow> snd_dev_def list" where
  "devs_meant t c = map dev_meant (filter (\<lambda>d. x_type d = t) (xc_devs c))"

definition id_of :: "xcard \<Rightarrow> u32" where
  "id_of c = word_of_int (atoi (xc_id c))"

text \<open>The number and the name under which a card is found, if it is.\<close>

definition card_match :: "u32 \<Rightarrow> string option \<Rightarrow> xcard \<Rightarrow> (u32 \<times> string) option" where
  "card_match crd nm c =
     (if id_of c = crd then Some (crd, xc_name c)
      else map_option (\<lambda>tok. (0, tok))
        (case nm of None \<Rightarrow> None | Some n \<Rightarrow> find (strn_eq n) (tokens (xc_name c))))"

definition card_meant :: "u32 \<times> string \<Rightarrow> xcard \<Rightarrow> snd_dev_def_card" where
  "card_meant m c = \<lparr>cd_card = fst m, cd_type = 0, cd_name = Some (snd m), cd_refcnt = 0,
     pcm_devs_list = devs_meant SND_NODE_TYPE_PCM c,
     mixer_devs_list = devs_meant SND_NODE_TYPE_MIXER c,
     compr_devs_list = devs_meant SND_NODE_TYPE_COMPR c\<rparr>"

fun doc_meant :: "u32 \<Rightarrow> string option \<Rightarrow> xcard list \<Rightarrow> snd_dev_def_card option" where
  "doc_meant crd nm [] = None"
| "doc_meant crd nm (c # cs) =
     (case card_match crd nm c of Some m \<Rightarrow> Some (card_meant m c) | None \<Rightarrow> doc_meant crd nm cs)"

section \<open>Sequences of events\<close>

definition leads ::
    "(nat \<Rightarrow> bool) \<Rightarrow> xml_event list \<Rightarrow> xml_userdata \<Rightarrow> (xml_userdata \<Rightarrow> bool) \<Rightarrow> bool" where
  "leads A es data P \<longleftrightarrow> (\<exists>data'. handle_events A es data = Some data' \<and> P data')"

lemma leads_Nil [simp]: "leads A [] data P \<longleftrightarrow> P data"
  by (simp add: leads_def)

lemma leads_Cons: "leads A (e # es) data P \<longleftrightarrow> leads A [e] data (\<lambda>d. leads A es d P)"
  by (cases "handle_event A e data") (auto simp: leads_def)

lemma handle_events_append:
  "handle_events A (xs @ ys) data = handle_events A xs data \<bind> handle_events A ys"
proof (induction xs arbitrary: data)
  case (Cons e xs)
  then show ?case by (cases "handle_event A e data") simp_all
qed simp

lemma leads_append: "leads A (xs @ ys) data P \<longleftrightarrow> leads A xs data (\<lambda>d. leads A ys d P)"
  by (cases "handle_events A xs data") (auto simp: leads_def handle_events_append)

lemma leads_mono: "leads A es data P \<Longrightarrow> (\<And>d. P d \<Longrightarrow> Q d) \<Longrightarrow> leads A es data Q"
  by (auto simp: leads_def)

lemma leads_one [simp]:
  "leads A [e] data P \<longleftrightarrow> (\<exists>d. handle_event A e data = Some d \<and> P d)"
  by (cases "handle_event A e data") (auto simp: leads_def)

lemma leads_seq:
  "leads A xs data P \<Longrightarrow> (\<And>d. P d \<Longrightarrow> leads A ys d Q) \<Longrightarrow> leads A (xs @ ys) data Q"
  unfolding leads_append by (rule leads_mono)

text \<open>A loop over the parts of a document, with a state that follows the parts.\<close>

lemma leads_concat:
  assumes "\<And>x st d. x \<in> set xs \<Longrightarrow> I st d \<Longrightarrow> leads A (f x) d (I (g st x))" "I st data"
  shows "leads A (concat (map f xs)) data (I (foldl g st xs))"
  using assms
proof (induction xs arbitrary: st data)
  case (Cons x xs)
  have "leads A (f x) data (I (g st x))" using Cons.prems by simp
  then show ?case
    using Cons.prems(1) by (auto intro!: leads_seq [of A "f x"] Cons.IH)
qed simp

section \<open>Cards that are passed over\<close>

text \<open>Once the card is parsed, the rest of the file is ignored.\<close>

lemma rest_ignored:
  "card_parsed data \<Longrightarrow>
    leads A es data (\<lambda>d. card_parsed d \<and> cur_card_def d = cur_card_def data)"
proof (induction es arbitrary: data)
  case (Cons e es)
  then have "leads A [e] data (\<lambda>d. card_parsed d \<and> cur_card_def d = cur_card_def data)"
    by (cases e) (simp_all add: snd_start_tag_def snd_end_tag_def snd_data_handler_def)
  then show ?case
    unfolding leads_Cons [of A e es] by (rule leads_mono) (use Cons.IH in \<open>fastforce elim: leads_mono\<close>)
qed simp

text \<open>The state between cards, and inside a card that does not match.\<close>

definition waiting :: "u32 \<Rightarrow> string option \<Rightarrow> xml_userdata \<Rightarrow> bool" where
  "waiting crd nm data \<longleftrightarrow> \<not> card_found data \<and> \<not> card_parsed data \<and> cur_card_def data = None
     \<and> cur_dev_def data = None \<and> ud_card data = crd \<and> ud_card_name data = nm"

lemma waiting_upd [simp]:
  "waiting crd nm (current_tag_update f data) \<longleftrightarrow> waiting crd nm data"
  "waiting crd nm (offs_update g data) \<longleftrightarrow> waiting crd nm data"
  "waiting crd nm (data_buf_update h data) \<longleftrightarrow> waiting crd nm data"
  by (simp_all add: waiting_def)

lemma data_handler_frame [simp]:
  "current_tag (snd_data_handler str data) = current_tag data"
  "card_found (snd_data_handler str data) = card_found data"
  "card_parsed (snd_data_handler str data) = card_parsed data"
  "cur_card_def (snd_data_handler str data) = cur_card_def data"
  "cur_dev_def (snd_data_handler str data) = cur_dev_def data"
  "ud_card (snd_data_handler str data) = ud_card data"
  "ud_card_name (snd_data_handler str data) = ud_card_name data"
  by (simp_all add: snd_data_handler_def)

lemma passed_over:
  assumes "waiting crd nm data" "current_tag data \<noteq> TAG_CARD" "Start_tag ''card'' \<notin> set es"
  shows "leads A es data (\<lambda>d. waiting crd nm d \<and> current_tag d \<noteq> TAG_CARD)"
  using assms
proof (induction es arbitrary: data)
  case (Cons e es)
  then have "leads A [e] data (\<lambda>d. waiting crd nm d \<and> current_tag d \<noteq> TAG_CARD)"
    by (cases e) (auto simp: snd_start_tag_def snd_end_tag_def snd_reset_data_buf_def
        snd_dev_set_type_def Let_def waiting_def)
  then show ?case
    unfolding leads_Cons [of A e es] by (rule leads_mono) (use Cons in auto)
qed simp

section \<open>The card that matches\<close>

lemma devs_list_set [simp]:
  "devs_list t (set_devs_list t ds cd) = ds"
  "set_devs_list t ds (set_devs_list t ds' cd) = set_devs_list t ds cd"
  by (simp_all add: devs_list_def set_devs_list_def)

text \<open>Inside the card, and inside its last device \<open>x\<close> in the list of the type \<open>t\<close>.\<close>

definition in_card :: "snd_dev_def_card \<Rightarrow> xml_userdata \<Rightarrow> bool" where
  "in_card cd data \<longleftrightarrow> current_tag data = TAG_CARD \<and> card_found data \<and> \<not> card_parsed data
     \<and> cur_card_def data = Some cd \<and> offs data = 0"

definition in_dev ::
    "snd_card_defs_xml_tags_t \<Rightarrow> snd_node_type \<Rightarrow> snd_dev_def list \<Rightarrow> snd_dev_def_card
      \<Rightarrow> snd_dev_def \<Rightarrow> xml_userdata \<Rightarrow> bool" where
  "in_dev tg t ds cd x data \<longleftrightarrow> current_tag data = tg \<and> card_found data \<and> \<not> card_parsed data
     \<and> cur_card_def data = Some (set_devs_list t (ds @ [x]) cd) \<and> cur_dev_def data = Some (t, length ds)"

text \<open>The same between two tags, where the buffer is empty.\<close>

definition at_dev ::
    "snd_card_defs_xml_tags_t \<Rightarrow> snd_node_type \<Rightarrow> snd_dev_def list \<Rightarrow> snd_dev_def_card
      \<Rightarrow> snd_dev_def \<Rightarrow> xml_userdata \<Rightarrow> bool" where
  "at_dev tg t ds cd x data \<longleftrightarrow> in_dev tg t ds cd x data \<and> offs data = 0"

lemma in_dev_upd [simp]:
  "in_dev tg t ds cd x (offs_update g data) \<longleftrightarrow> in_dev tg t ds cd x data"
  "in_dev tg t ds cd x (data_buf_update h data) \<longleftrightarrow> in_dev tg t ds cd x data"
  "in_dev tg t ds cd x (ud_tick_update k data) \<longleftrightarrow> in_dev tg t ds cd x data"
  "in_dev tg t ds cd x (snd_data_handler str data) \<longleftrightarrow> in_dev tg t ds cd x data"
  "in_dev tg t ds cd x (snd_reset_data_buf data) \<longleftrightarrow> in_dev tg t ds cd x data"
  by (simp_all add: in_dev_def snd_reset_data_buf_def)

lemma in_dev_tag: "in_dev tg t ds cd x data \<Longrightarrow> in_dev tg' t ds cd x (data\<lparr>current_tag := tg'\<rparr>)"
  by (simp add: in_dev_def)

lemma upd_cur_dev_in_dev:
  "in_dev tg t ds cd x data \<Longrightarrow>
    \<exists>d. upd_cur_dev f data = Some d \<and> in_dev tg t ds cd (f x) d"
  by (auto simp: upd_cur_dev_def in_dev_def)

text \<open>What the end of a simple element does to the device.\<close>

definition leaf_effect ::
    "snd_card_defs_xml_tags_t \<Rightarrow> string \<Rightarrow> string \<Rightarrow> snd_dev_def \<Rightarrow> snd_dev_def" where
  "leaf_effect tg p str x =
     (if tg = TAG_PLUGIN then (if p = ''so-name'' then x\<lparr>dd_so_name := Some str\<rparr> else x)
      else if tg = TAG_DEVICE then
        (if p = ''id'' then x\<lparr>dd_device := word_of_int (atoi str)\<rparr>
         else if p = ''name'' then x\<lparr>dd_name := Some str\<rparr> else x)
      else x\<lparr>dd_prop_val_list := dd_prop_val_list x @ [\<lparr>pv_prop = p, pv_val = str\<rparr>]\<rparr>)"

lemma start_plain:
  assumes "in_dev tg t ds cd x data" "plain_tag p"
  shows "snd_start_tag A p data = Some (snd_reset_data_buf data)"
  using assms
  by (auto simp: snd_start_tag_def plain_tag_def in_dev_def snd_reset_data_buf_def is_device_tag_def
      snd_dev_def_init_def)

lemma process_leaf:
  assumes "current_tag data = tg" "tg \<in> {TAG_DEVICE, TAG_PLUGIN, TAG_DEV_PROPS}"
    "cur_dev_def data \<noteq> None" "\<not> card_parsed data" "plain_tag p" "text_ok str" "\<forall>n. A n"
    "offs data = length str" "data_buf data = str"
  shows "snd_process_data_buf A p data = Some data \<and> (\<forall>x. leaf_effect tg p str x = x)
    \<or> snd_process_data_buf A p data = upd_cur_dev (leaf_effect tg p str) data
    \<or> (\<exists>k. snd_process_data_buf A p data = upd_cur_dev (leaf_effect tg p str) (data\<lparr>ud_tick := k\<rparr>))"
proof -
  have step: "snd_process_data_buf A p data =
      (if tg = TAG_PLUGIN then snd_parse_plugin_properties A p data
       else if tg = TAG_DEVICE then snd_parse_device_properties A p data
       else snd_parse_device_custom_properties A p data)"
    using assms by (auto simp: snd_process_data_buf_def text_ok_def)
  have str: "c_str str = str" "str \<noteq> []" and p: "p \<noteq> []" "p \<noteq> ''props''" "\<not> is_device_tag p"
    using assms(5,6) by (simp_all add: text_ok_def plain_tag_def)
  note [simp] = str p assms(3,9) assms(7) [rule_format] leaf_effect_def [abs_def]
  consider "tg = TAG_PLUGIN" | "tg = TAG_DEVICE" | "tg = TAG_DEV_PROPS" using assms(2) by blast
  then show ?thesis
  proof cases
    case 1
    then show ?thesis
      unfolding step snd_parse_plugin_properties_def ud_calloc_def Let_def
      by (cases "p = ''so-name''") auto
  next
    case 2
    then show ?thesis
      unfolding step snd_parse_device_properties_def ud_calloc_def Let_def
      by (cases "p = ''id''"; cases "p = ''name''") (auto simp: is_device_tag_def)
  next
    case 3
    then show ?thesis
      unfolding step snd_parse_device_custom_properties_def ud_calloc_def Let_def
      by auto
  qed
qed

lemma end_plain:
  assumes "in_dev tg t ds cd x data" "plain_tag p" "text_ok str" "\<forall>n. A n"
    "tg \<in> {TAG_DEVICE, TAG_PLUGIN, TAG_DEV_PROPS}" "offs data = length str" "data_buf data = str"
  shows "\<exists>d. snd_end_tag A p data = Some d \<and> at_dev tg t ds cd (leaf_effect tg p str x) d"
proof -
  have "\<exists>d. snd_process_data_buf A p data = Some d \<and> in_dev tg t ds cd (leaf_effect tg p str x) d"
  proof -
    have "current_tag data = tg" "cur_dev_def data \<noteq> None" "\<not> card_parsed data"
      using assms(1) by (auto simp: in_dev_def)
    note cases = process_leaf [OF this(1) assms(5) this(2,3) assms(2,3,4,6,7)]
    have "in_dev tg t ds cd x (data\<lparr>ud_tick := k\<rparr>)" for k using assms(1) by simp
    note u = upd_cur_dev_in_dev [OF this] upd_cur_dev_in_dev [OF assms(1)]
    show ?thesis using cases u assms(1) by (elim disjE conjE exE) auto
  qed
  then show ?thesis
    using assms(1,2)
    by (auto simp: snd_end_tag_def plain_tag_def at_dev_def in_dev_def snd_reset_data_buf_def)
qed

lemma leaf_in_dev:
  assumes "at_dev tg t ds cd x data" "plain_tag p" "text_ok str" "\<forall>n. A n"
    "tg \<in> {TAG_DEVICE, TAG_PLUGIN, TAG_DEV_PROPS}"
  shows "leads A (leaf w p str) data (at_dev tg t ds cd (leaf_effect tg p str x))"
proof -
  let ?d = "snd_data_handler str (snd_reset_data_buf (snd_data_handler w data))"
  have "offs ?d = length str" "data_buf ?d = str"
    using assms(3) by (auto simp: snd_data_handler_def snd_reset_data_buf_def text_ok_def)
  then have "\<exists>d. snd_end_tag A p ?d = Some d \<and> at_dev tg t ds cd (leaf_effect tg p str x) d"
    by (intro end_plain) (use assms in \<open>auto simp: at_dev_def\<close>)
  then show ?thesis
    using start_plain [of tg t ds cd x "snd_data_handler w data" p A] assms(1,2)
    by (auto simp: leaf_def leads_def at_dev_def)
qed

text \<open>White space in front of an end tag reaches \<open>snd_process_data_buf\<close>, which ignores it.\<close>

definition quiet_end :: "snd_card_defs_xml_tags_t \<Rightarrow> string \<Rightarrow> bool" where
  "quiet_end tg p \<longleftrightarrow> tg = TAG_PLUGIN \<and> plugin_tag p \<or> tg = TAG_DEVICE \<and> is_device_tag p
     \<or> tg = TAG_DEV_PROPS \<and> p = ''props'' \<or> tg = TAG_CARD \<and> p = ''card''"

lemma plugin_tag_not_so_name: "plugin_tag p \<Longrightarrow> p \<noteq> ''so-name''"
  by (auto simp: plugin_tag_def)

lemma process_quiet:
  assumes "quiet_end (current_tag data) p" "offs data < BUF_SIZE"
  shows "snd_process_data_buf A p data = Some data"
proof (cases "current_tag data")
  case TAG_PLUGIN
  with assms show ?thesis
    by (simp add: quiet_end_def snd_process_data_buf_def snd_parse_plugin_properties_def plugin_tag_not_so_name)
next
  case TAG_DEVICE
  with assms show ?thesis
    by (simp add: quiet_end_def snd_process_data_buf_def snd_parse_device_properties_def)
qed (use assms in \<open>simp_all add: quiet_end_def snd_process_data_buf_def
  snd_parse_device_custom_properties_def snd_parse_card_properties_def Let_def\<close>)

lemma offs_data: "offs (snd_data_handler str data) = offs data + length str"
  by (simp add: snd_data_handler_def)

lemma reset_frame [simp]:
  "card_found (snd_reset_data_buf data) = card_found data"
  "card_parsed (snd_reset_data_buf data) = card_parsed data"
  "cur_card_def (snd_reset_data_buf data) = cur_card_def data"
  "cur_dev_def (snd_reset_data_buf data) = cur_dev_def data"
  "current_tag (snd_reset_data_buf data) = current_tag data"
  "offs (snd_reset_data_buf data) = 0"
  "ud_card (snd_reset_data_buf data) = ud_card data"
  "ud_card_name (snd_reset_data_buf data) = ud_card_name data"
  by (simp_all add: snd_reset_data_buf_def)

lemma in_devD:
  assumes "in_dev tg t ds cd x data"
  shows "card_found data" "\<not> card_parsed data" "cur_dev_def data \<noteq> None" "current_tag data = tg"
  using assms by (simp_all add: in_dev_def)

lemma dev_def_init_None [simp]: "snd_dev_def_init A data p None = data"
  by (simp add: snd_dev_def_init_def split: option.split)

lemma start_props:
  assumes "at_dev TAG_DEVICE t ds cd x data"
  shows "leads A [Char_data w, Start_tag ''props''] data (at_dev TAG_DEV_PROPS t ds cd x)"
  using assms in_devD [of TAG_DEVICE t ds cd x data]
  by (simp add: leads_def at_dev_def snd_start_tag_def in_dev_tag [of TAG_DEVICE])

lemma start_plugin:
  assumes "at_dev TAG_DEVICE t ds cd x data" "plugin_tag p"
  shows "leads A [Char_data w, Start_tag p] data
      (at_dev TAG_PLUGIN t ds cd (x\<lparr>dd_type := SND_NODE_DEV_TYPE_PLUGIN\<rparr>))"
proof -
  let ?d = "snd_reset_data_buf (snd_data_handler w data)"
  have "in_dev TAG_DEVICE t ds cd x ?d" using assms(1) by (simp add: at_dev_def)
  from upd_cur_dev_in_dev [OF this, of "\<lambda>d. d\<lparr>dd_type := SND_NODE_DEV_TYPE_PLUGIN\<rparr>"] obtain e where
    e: "upd_cur_dev (\<lambda>d. d\<lparr>dd_type := SND_NODE_DEV_TYPE_PLUGIN\<rparr>) ?d = Some e"
    "in_dev TAG_DEVICE t ds cd (x\<lparr>dd_type := SND_NODE_DEV_TYPE_PLUGIN\<rparr>) e" by blast
  have "offs e = 0" using e(1) by (auto simp: upd_cur_dev_def bind_eq_Some_conv split: if_splits)
  with e in_devD [OF e(2)] assms show ?thesis
    using in_devD [of TAG_DEVICE t ds cd x data]
    by (auto simp: leads_def at_dev_def snd_start_tag_def snd_dev_set_type_def plugin_tag_def
        is_device_tag_def in_dev_tag [of TAG_DEVICE])
qed

lemma end_inner:
  assumes "at_dev tg t ds cd x data" "length w < BUF_SIZE"
    "tg = TAG_DEV_PROPS \<and> p = ''props'' \<or> tg = TAG_PLUGIN \<and> plugin_tag p"
  shows "leads A [Char_data w, End_tag p] data (at_dev TAG_DEVICE t ds cd x)"
proof -
  have "snd_process_data_buf A p (snd_data_handler w data) = Some (snd_data_handler w data)"
    by (rule process_quiet)
      (use assms in \<open>auto simp: at_dev_def in_dev_def offs_data quiet_end_def\<close>)
  then show ?thesis
    using assms
    by (auto simp: leads_def at_dev_def in_dev_def snd_end_tag_def snd_reset_data_buf_def
        plugin_tag_def is_device_tag_def)
qed

lemma props_in_dev:
  assumes "at_dev TAG_DEV_PROPS t ds cd x data" "list_all (\<lambda>(p, v). plain_tag p \<and> text_ok v) ps" "\<forall>n. A n"
  shows "leads A (concat (map (\<lambda>(p, v). leaf w p v) ps)) data (at_dev TAG_DEV_PROPS t ds cd
    (x\<lparr>dd_prop_val_list := dd_prop_val_list x @ map (\<lambda>(p, v). \<lparr>pv_prop = p, pv_val = v\<rparr>) ps\<rparr>))"
  using assms
proof (induction ps arbitrary: x data)
  case (Cons q ps)
  obtain p v where q: "q = (p, v)" by (cases q)
  have "leads A (leaf w p v) data (at_dev TAG_DEV_PROPS t ds cd (leaf_effect TAG_DEV_PROPS p v x))"
    by (rule leaf_in_dev) (use Cons.prems q in auto)
  then show ?case
    unfolding q list.map concat.simps prod.case
  proof (rule leads_seq)
    fix d assume d: "at_dev TAG_DEV_PROPS t ds cd (leaf_effect TAG_DEV_PROPS p v x) d"
    have "list_all (\<lambda>(p, v). plain_tag p \<and> text_ok v) ps" using Cons.prems by simp
    from Cons.IH [OF d this assms(3)]
    show "leads A (concat (map (\<lambda>(p, v). leaf w p v) ps)) d (at_dev TAG_DEV_PROPS t ds cd
       (x\<lparr>dd_prop_val_list := dd_prop_val_list x @ \<lparr>pv_prop = p, pv_val = v\<rparr>
          # map (\<lambda>(p, v). \<lparr>pv_prop = p, pv_val = v\<rparr>) ps\<rparr>))"
      by (simp add: leaf_effect_def)
  qed
qed simp

lemma start_dev:
  assumes "in_card cd data" "t \<noteq> SND_NODE_TYPE_MAX" "\<forall>n. A n"
  shows "leads A [Char_data w, Start_tag (dev_tag t)] data
    (at_dev TAG_DEVICE t (devs_list t cd) cd (new_dev_def t))"
  using assms
  by (cases t) (auto simp: leads_def in_card_def dev_tag_def at_dev_def in_dev_def snd_start_tag_def
      snd_reset_data_buf_def snd_dev_def_init_def ud_calloc_def is_device_tag_def)

lemma end_dev:
  assumes "at_dev TAG_DEVICE t ds cd x data" "length w < BUF_SIZE"
  shows "leads A [Char_data w, End_tag (dev_tag t)] data (in_card (set_devs_list t (ds @ [x]) cd))"
proof -
  have tag: "is_device_tag (dev_tag t)" by (simp add: is_device_tag_def dev_tag_def)
  have "snd_process_data_buf A (dev_tag t) (snd_data_handler w data) = Some (snd_data_handler w data)"
    by (rule process_quiet)
      (use assms tag in \<open>auto simp: at_dev_def in_dev_def offs_data quiet_end_def\<close>)
  then show ?thesis
    using assms tag
    by (auto simp: leads_def at_dev_def in_dev_def in_card_def snd_end_tag_def snd_reset_data_buf_def)
qed

lemma plain_tags [simp]:
  "plain_tag ''id''" "plain_tag ''name''" "plain_tag ''so-name''"
  by (simp_all add: plain_tag_def is_device_tag_def)

definition dev_base :: "xdev \<Rightarrow> snd_dev_def" where
  "dev_base d = (new_dev_def (x_type d))\<lparr>dd_device := word_of_int (atoi (x_id d)), dd_name := Some (x_name d)\<rparr>"

definition dev_plug :: "xdev \<Rightarrow> snd_dev_def" where
  "dev_plug d = (case x_plugin d of None \<Rightarrow> dev_base d
     | Some (t, so) \<Rightarrow> (dev_base d)\<lparr>dd_type := SND_NODE_DEV_TYPE_PLUGIN, dd_so_name := Some so\<rparr>)"

lemma plug_in_dev:
  assumes "at_dev TAG_DEVICE t ds cd (dev_base d) data" "xdev_ok d" "length w < BUF_SIZE" "\<forall>n. A n"
  shows "leads A (case x_plugin d of None \<Rightarrow> [] | Some (t, so) \<Rightarrow> elem w t (leaf w ''so-name'' so)) data
    (at_dev TAG_DEVICE t ds cd (dev_plug d))"
proof (cases "x_plugin d")
  case None
  then show ?thesis using assms(1) by (simp add: dev_plug_def)
next
  case (Some q)
  obtain p so where q: "q = (p, so)" by (cases q)
  have ok: "plugin_tag p" "text_ok so" using assms(2) Some q by (simp_all add: xdev_ok_def)
  have "leads A (elem w p (leaf w ''so-name'' so)) data (at_dev TAG_DEVICE t ds cd
      (leaf_effect TAG_PLUGIN ''so-name'' so ((dev_base d)\<lparr>dd_type := SND_NODE_DEV_TYPE_PLUGIN\<rparr>)))"
    unfolding elem_def
    by (rule leads_seq [OF start_plugin [OF assms(1) ok(1)]],
        rule leads_seq [OF leaf_in_dev], assumption)
      (use ok assms in \<open>auto intro: end_inner\<close>)
  then show ?thesis using Some q by (simp add: dev_plug_def leaf_effect_def)
qed

lemma dev_in_card:
  assumes "in_card cd data" "xdev_ok d" "length w < BUF_SIZE" "\<forall>n. A n"
  shows "leads A (dev_events w d) data
    (in_card (set_devs_list (x_type d) (devs_list (x_type d) cd @ [dev_meant d]) cd))"
proof -
  let ?at = "\<lambda>tg x. at_dev tg (x_type d) (devs_list (x_type d) cd) cd x"
  have ok: "x_type d \<noteq> SND_NODE_TYPE_MAX" "text_ok (x_id d)" "text_ok (x_name d)"
      "list_all (\<lambda>(p, v). plain_tag p \<and> text_ok v) (x_props d)"
    using assms(2) by (simp_all add: xdev_ok_def)
  have idnm: "leads A (leaf w ''id'' (x_id d) @ leaf w ''name'' (x_name d)) d1 (?at TAG_DEVICE (dev_base d))"
    if "?at TAG_DEVICE (new_dev_def (x_type d)) d1" for d1
  proof (rule leads_seq [OF leaf_in_dev [OF that plain_tags(1) ok(2) assms(4)]], simp)
    fix d2 assume "?at TAG_DEVICE (leaf_effect TAG_DEVICE ''id'' (x_id d) (new_dev_def (x_type d))) d2"
    from leaf_in_dev [OF this plain_tags(2) ok(3) assms(4)]
    show "leads A (leaf w ''name'' (x_name d)) d2 (?at TAG_DEVICE (dev_base d))"
      by (simp add: leaf_effect_def dev_base_def)
  qed
  have props: "leads A (elem w ''props'' (concat (map (\<lambda>(p, v). leaf w p v) (x_props d)))) d3
      (?at TAG_DEVICE (dev_meant d))" if "?at TAG_DEVICE (dev_plug d) d3" for d3
  proof -
    have "(dev_plug d)\<lparr>dd_prop_val_list := dd_prop_val_list (dev_plug d)
        @ map (\<lambda>(p, v). \<lparr>pv_prop = p, pv_val = v\<rparr>) (x_props d)\<rparr> = dev_meant d"
      by (auto simp: dev_plug_def dev_base_def dev_meant_def new_dev_def_def split: option.split)
    then show ?thesis
      unfolding elem_def
      by (intro leads_seq [OF start_props [OF that]] leads_seq [OF props_in_dev [OF _ ok(4) assms(4)]])
        (auto intro: end_inner assms(3))
  qed
  have body: "leads A (dev_body w d) d1 (?at TAG_DEVICE (dev_meant d))"
    if "?at TAG_DEVICE (new_dev_def (x_type d)) d1" for d1
    unfolding dev_body_def append.assoc [of "leaf w ''id'' (x_id d)", symmetric]
    by (rule leads_seq [OF idnm [OF that]], rule leads_seq [OF plug_in_dev [OF _ assms(2,3,4)]], assumption)
      (rule props)
  show ?thesis
    unfolding dev_events_def elem_def
    by (rule leads_seq [OF start_dev [OF assms(1) ok(1) assms(4)]], rule leads_seq [OF body], assumption)
      (rule end_dev [OF _ assms(3)])
qed

section \<open>Whole documents\<close>

definition add_meant :: "snd_dev_def_card \<Rightarrow> xdev \<Rightarrow> snd_dev_def_card" where
  "add_meant cd d = set_devs_list (x_type d) (devs_list (x_type d) cd @ [dev_meant d]) cd"

lemma add_all_meant:
  "list_all xdev_ok ds \<Longrightarrow> foldl add_meant cd ds = cd\<lparr>
     pcm_devs_list := pcm_devs_list cd @ map dev_meant (filter (\<lambda>d. x_type d = SND_NODE_TYPE_PCM) ds),
     mixer_devs_list := mixer_devs_list cd @ map dev_meant (filter (\<lambda>d. x_type d = SND_NODE_TYPE_MIXER) ds),
     compr_devs_list := compr_devs_list cd @ map dev_meant (filter (\<lambda>d. x_type d = SND_NODE_TYPE_COMPR) ds)\<rparr>"
proof (induction ds arbitrary: cd)
  case (Cons d ds)
  then show ?case
    by (cases "x_type d") (simp_all add: add_meant_def set_devs_list_def devs_list_def xdev_ok_def)
qed simp

definition card_base :: "u32 \<times> string \<Rightarrow> snd_dev_def_card" where
  "card_base m = new_card_def\<lparr>cd_card := fst m, cd_name := Some (snd m)\<rparr>"

lemma add_to_base:
  "list_all xdev_ok (xc_devs c) \<Longrightarrow> foldl add_meant (card_base m) (xc_devs c) = card_meant m c"
  by (simp add: add_all_meant card_base_def card_meant_def new_card_def_def devs_meant_def)

lemma devs_in_card:
  assumes "in_card cd data" "list_all xdev_ok ds" "length w < BUF_SIZE" "\<forall>n. A n"
  shows "leads A (concat (map (dev_events w) ds)) data (in_card (foldl add_meant cd ds))"
  by (rule leads_concat)
    (use assms in \<open>auto simp: list_all_iff add_meant_def intro!: dev_in_card\<close>)

lemma end_card:
  assumes "in_card cd data" "length w < BUF_SIZE"
  shows "leads A [Char_data w, End_tag ''card''] data (\<lambda>d. card_parsed d \<and> cur_card_def d = Some cd)"
proof -
  have "snd_process_data_buf A ''card'' (snd_data_handler w data) = Some (snd_data_handler w data)"
    by (rule process_quiet) (use assms in \<open>auto simp: in_card_def offs_data quiet_end_def\<close>)
  then show ?thesis
    using assms by (auto simp: leads_def in_card_def snd_end_tag_def is_device_tag_def)
qed

text \<open>The head of a card: its number and its name decide whether it is the one.\<close>

definition at_head :: "u32 \<Rightarrow> string option \<Rightarrow> xml_userdata \<Rightarrow> bool" where
  "at_head crd nm data \<longleftrightarrow> waiting crd nm data \<and> current_tag data = TAG_CARD \<and> offs data = 0"

lemma start_card:
  "waiting crd nm data \<Longrightarrow> leads A [Char_data w, Start_tag ''card''] data (at_head crd nm)"
  by (auto simp: leads_def at_head_def waiting_def snd_start_tag_def snd_reset_data_buf_def)

lemma head_leaf:
  assumes "current_tag data = TAG_CARD" "\<not> card_parsed data" "p = ''id'' \<or> p = ''name''" "text_ok str"
  shows "handle_events A (leaf w p str) data =
    Some (snd_reset_data_buf (snd_parse_card_properties A p (data\<lparr>data_buf := str, offs := length str\<rparr>)))"
  using assms
  by (auto simp: leaf_def snd_start_tag_def snd_end_tag_def snd_data_handler_def snd_reset_data_buf_def
      snd_process_data_buf_def text_ok_def is_device_tag_def)

lemma card_properties_frame [simp]:
  "current_tag (snd_parse_card_properties A p data) = current_tag data"
  "card_parsed (snd_parse_card_properties A p data) = card_parsed data"
  by (auto simp: snd_parse_card_properties_def snd_parse_initialize_card_def_def set_card_name_def
      ud_calloc_def Let_def split: option.splits)

lemma head_id:
  assumes "at_head crd nm data" "text_ok (xc_id c)" "\<forall>n. A n"
  shows "leads A (leaf w ''id'' (xc_id c)) data (\<lambda>d.
    if id_of c = crd then in_card (new_card_def\<lparr>cd_card := crd\<rparr>) d else at_head crd nm d)"
  using assms(1) head_leaf [of data "''id''" "xc_id c" A w] assms(2,3)
  by (auto simp: leads_def at_head_def waiting_def in_card_def snd_parse_card_properties_def Let_def
      id_of_def snd_parse_initialize_card_def_def ud_calloc_def text_ok_def)

lemma head_name_found:
  assumes "in_card cd data" "text_ok (xc_name c)" "\<forall>n. A n"
  shows "leads A (leaf w ''name'' (xc_name c)) data (in_card (cd\<lparr>cd_name := Some (xc_name c)\<rparr>))"
  using assms(1) head_leaf [of data "''name''" "xc_name c" A w] assms(2,3)
  by (auto simp: leads_def in_card_def snd_parse_card_properties_def Let_def
      set_card_name_def ud_calloc_def text_ok_def)

lemma head_name:
  assumes "at_head crd nm data" "text_ok (xc_name c)" "\<forall>n. A n" "id_of c \<noteq> crd"
  shows "leads A (leaf w ''name'' (xc_name c)) data (\<lambda>d.
    case card_match crd nm c of Some m \<Rightarrow> in_card (card_base m) d | None \<Rightarrow> at_head crd nm d)"
  using assms(1) head_leaf [of data "''name''" "xc_name c" A w] assms(2-)
  by (auto simp: leads_def at_head_def waiting_def in_card_def snd_parse_card_properties_def Let_def
      card_match_def snd_parse_initialize_card_def_def set_card_name_def ud_calloc_def text_ok_def
      card_base_def new_card_def_def split: option.splits)

lemma card_head:
  assumes "at_head crd nm data" "xcard_ok c" "\<forall>n. A n"
  shows "leads A (leaf w ''id'' (xc_id c) @ leaf w ''name'' (xc_name c)) data (\<lambda>d.
    case card_match crd nm c of Some m \<Rightarrow> in_card (card_base m) d | None \<Rightarrow> at_head crd nm d)"
proof (rule leads_seq [OF head_id [OF assms(1) _ assms(3)]])
  show "text_ok (xc_id c)" using assms(2) by (simp add: xcard_ok_def)
  have nm: "text_ok (xc_name c)" using assms(2) by (simp add: xcard_ok_def)
  fix d assume d: "if id_of c = crd then in_card (new_card_def\<lparr>cd_card := crd\<rparr>) d else at_head crd nm d"
  show "leads A (leaf w ''name'' (xc_name c)) d (\<lambda>d.
    case card_match crd nm c of Some m \<Rightarrow> in_card (card_base m) d | None \<Rightarrow> at_head crd nm d)"
  proof (cases "id_of c = crd")
    case True
    with d head_name_found [OF _ nm assms(3), of "new_card_def\<lparr>cd_card := crd\<rparr>" d w] show ?thesis
      by (simp add: card_match_def card_base_def)
  next
    case False
    with d head_name [OF _ nm assms(3)] show ?thesis by simp
  qed
qed

lemma set_leaf: "set (leaf w t str) = {Char_data w, Start_tag t, Char_data str, End_tag t}"
  by (auto simp: leaf_def)

lemma set_elem: "set (elem w t es) = {Char_data w, Start_tag t, End_tag t} \<union> set es"
  by (auto simp: elem_def)

lemma no_card_tag:
  assumes "xdev_ok d"
  shows "Start_tag ''card'' \<notin> set (dev_events w d)"
proof -
  have "Start_tag ''card'' \<notin> set (concat (map (\<lambda>(p, v). leaf w p v) (x_props d)))"
    using assms by (auto simp: set_leaf xdev_ok_def plain_tag_def list_all_iff)
  moreover have "Start_tag ''card'' \<notin>
      set (case x_plugin d of None \<Rightarrow> [] | Some (t, so) \<Rightarrow> elem w t (leaf w ''so-name'' so))"
    using assms by (auto simp: set_elem set_leaf xdev_ok_def plugin_tag_def split: option.splits)
  moreover have "dev_tag (x_type d) \<noteq> ''card''" by (simp add: dev_tag_def)
  ultimately show ?thesis
    by (simp add: dev_events_def dev_body_def set_elem set_leaf)
qed

lemma skip_card:
  assumes "at_head crd nm data" "list_all xdev_ok ds" "length w < BUF_SIZE"
  shows "leads A (concat (map (dev_events w) ds) @ [Char_data w, End_tag ''card'']) data
    (\<lambda>d. waiting crd nm d \<and> current_tag d \<noteq> TAG_CARD)"
proof (cases ds)
  case Nil
  have "snd_process_data_buf A ''card'' (snd_data_handler w data) = Some (snd_data_handler w data)"
    by (rule process_quiet) (use assms in \<open>auto simp: at_head_def offs_data quiet_end_def\<close>)
  then show ?thesis
    using assms(1) Nil by (auto simp: leads_def at_head_def waiting_def snd_end_tag_def is_device_tag_def
        snd_reset_data_buf_def)
next
  case (Cons d ds')
  let ?rest = "dev_body w d @ [Char_data w, End_tag (dev_tag (x_type d))]
    @ concat (map (dev_events w) ds') @ [Char_data w, End_tag ''card'']"
  have es: "concat (map (dev_events w) ds) @ [Char_data w, End_tag ''card''] =
      [Char_data w, Start_tag (dev_tag (x_type d))] @ ?rest"
    by (simp add: Cons dev_events_def elem_def)
  have "Start_tag ''card'' \<notin> set (dev_events w e)" if "e \<in> set ds" for e
    using assms(2) that by (intro no_card_tag) (auto simp: list_all_iff)
  then have rest: "Start_tag ''card'' \<notin> set ?rest"
    using Cons by (auto simp: dev_events_def elem_def)
  have "leads A [Char_data w, Start_tag (dev_tag (x_type d))] data
      (\<lambda>d. waiting crd nm d \<and> current_tag d \<noteq> TAG_CARD)"
    using assms(1) by (auto simp: leads_def at_head_def waiting_def snd_start_tag_def dev_tag_def
        snd_reset_data_buf_def)
  then show ?thesis
    unfolding es by (rule leads_seq) (use passed_over rest in blast)
qed

text \<open>One card: it is taken if it matches, and passed over otherwise.\<close>

lemma one_card:
  assumes "waiting crd nm data" "xcard_ok c" "length w < BUF_SIZE" "\<forall>n. A n"
  shows "leads A (card_events w c) data (\<lambda>d.
    case card_match crd nm c of Some m \<Rightarrow> card_parsed d \<and> cur_card_def d = Some (card_meant m c)
    | None \<Rightarrow> waiting crd nm d \<and> current_tag d \<noteq> TAG_CARD)"
proof -
  have devs: "list_all xdev_ok (xc_devs c)" using assms(2) by (simp add: xcard_ok_def)
  have split: "card_events w c = [Char_data w, Start_tag ''card'']
      @ (leaf w ''id'' (xc_id c) @ leaf w ''name'' (xc_name c))
      @ (concat (map (dev_events w) (xc_devs c)) @ [Char_data w, End_tag ''card''])"
    by (simp add: card_events_def elem_def)
  show ?thesis
    unfolding split
  proof (rule leads_seq [OF start_card [OF assms(1)]],
      rule leads_seq [OF card_head [OF _ assms(2,4)]], assumption)
    fix d assume d: "case card_match crd nm c of Some m \<Rightarrow> in_card (card_base m) d | None \<Rightarrow> at_head crd nm d"
    show "leads A (concat (map (dev_events w) (xc_devs c)) @ [Char_data w, End_tag ''card'']) d (\<lambda>d.
      case card_match crd nm c of Some m \<Rightarrow> card_parsed d \<and> cur_card_def d = Some (card_meant m c)
      | None \<Rightarrow> waiting crd nm d \<and> current_tag d \<noteq> TAG_CARD)"
    proof (cases "card_match crd nm c")
      case None
      with d skip_card [OF _ devs assms(3)] show ?thesis by simp
    next
      case (Some m)
      with d devs_in_card [OF _ devs assms(3,4), of "card_base m" d] add_to_base [OF devs, of m]
      have "leads A (concat (map (dev_events w) (xc_devs c))) d (in_card (card_meant m c))" by simp
      with Some show ?thesis by (auto intro: leads_seq end_card [OF _ assms(3)])
    qed
  qed
qed

lemma all_cards:
  assumes "waiting crd nm data" "current_tag data \<noteq> TAG_CARD" "list_all xcard_ok cs"
    "length w < BUF_SIZE" "\<forall>n. A n"
  shows "leads A (concat (map (card_events w) cs) @ [Char_data w, End_tag ''defs'']) data
    (\<lambda>d. cur_card_def d = doc_meant crd nm cs)"
  using assms(1-3)
proof (induction cs arbitrary: data)
  case Nil
  then have "leads A [Char_data w, End_tag ''defs''] data (\<lambda>d. waiting crd nm d \<and> current_tag d \<noteq> TAG_CARD)"
    by (intro passed_over) auto
  then show ?case by (simp add: leads_def waiting_def) blast
next
  case (Cons c cs)
  let ?rest = "concat (map (card_events w) cs) @ [Char_data w, End_tag ''defs'']"
  have "xcard_ok c" "list_all xcard_ok cs" using Cons.prems(3) by simp_all
  have "leads A (card_events w c @ ?rest) data (\<lambda>d. cur_card_def d = doc_meant crd nm (c # cs))"
  proof (rule leads_seq [OF one_card [OF Cons.prems(1) \<open>xcard_ok c\<close> assms(4,5)]])
    fix d assume d: "case card_match crd nm c of
      Some m \<Rightarrow> card_parsed d \<and> cur_card_def d = Some (card_meant m c)
      | None \<Rightarrow> waiting crd nm d \<and> current_tag d \<noteq> TAG_CARD"
    show "leads A ?rest d (\<lambda>d. cur_card_def d = doc_meant crd nm (c # cs))"
    proof (cases "card_match crd nm c")
      case None
      with d Cons.IH \<open>list_all xcard_ok cs\<close> show ?thesis by simp
    next
      case (Some m)
      with d have "card_parsed d" "cur_card_def d = Some (card_meant m c)" by simp_all
      from rest_ignored [OF this(1), of A ?rest] this(2) Some show ?thesis
        by (auto elim!: leads_mono)
    qed
  qed
  then show ?case by simp
qed

lemma doc_parsed:
  assumes "list_all xcard_ok cs" "length w < BUF_SIZE" "\<forall>n. A n"
  shows "leads A (doc_events w cs) (init_userdata crd nm k) (\<lambda>d. cur_card_def d = doc_meant crd nm cs)"
proof -
  have "leads A [Char_data w, Start_tag ''defs''] (init_userdata crd nm k)
      (\<lambda>d. waiting crd nm d \<and> current_tag d \<noteq> TAG_CARD)"
    by (rule passed_over) (simp_all add: waiting_def init_userdata_def)
  then show ?thesis
    unfolding doc_events_def elem_def
    by (rule leads_seq) (use all_cards [OF _ _ assms] in blast)
qed

end
