(* ===== verification/Agm_Card_Props.thy ===== *)
theory Agm_Card_Props
  imports Agm_Card_Parse
begin

text \<open>
  Correctness of the sound card definitions: for a document of the documented layout a
  lookup yields exactly the definition that the document gives for the first card that
  matches; references to the cards in use are counted; the bounds of the text buffer and of
  the client's array; the lock is released on every path but one.
\<close>

section \<open>The cards in use\<close>

text \<open>
  Between calls the lock is free, the cards in the list have different addresses, none is
  the next one to be allocated, and each has at least one reference.
\<close>

definition card_inv :: "card_state \<Rightarrow> bool" where
  "card_inv s \<longleftrightarrow> readers s = 0 \<and> \<not> writer s \<and> distinct (map fst (snd_card_list s))
     \<and> (\<forall>(a, cd) \<in> set (snd_card_list s). a < next_card s \<and> cd_refcnt cd \<ge> 1)
     \<and> (\<not> snd_card_list_init s \<longrightarrow> snd_card_list s = [])"

lemma parse_loop_append:
  "handle_events A (concat ess @ fin) data = Some d
    \<Longrightarrow> parse_loop A (map (\<lambda>es. Chunk BUF_SIZE es False) ess @ [Chunk 0 fin False]) data = Some (True, d)"
proof (induction ess arbitrary: data)
  case (Cons es ess)
  then show ?case by (auto simp: handle_events_append bind_eq_Some_conv)
qed simp

lemma find_card_found: "find_card nm crd cs = Some (Some a) \<Longrightarrow> a \<in> fst ` set cs"
  by (induction nm crd cs rule: find_card.induct) (auto split: option.splits if_splits)

lemma put_upd_card:
  assumes "distinct (map fst cs)" "\<forall>(b, cd) \<in> set cs. cd_refcnt cd \<ge> 1"
  shows "put_loop a (upd_card a (\<lambda>cd. cd\<lparr>cd_refcnt := cd_refcnt cd + 1\<rparr>) cs) = cs"
  using assms by (induction cs) (auto simp: upd_card_def)

lemma put_loop_absent: "a \<notin> fst ` set cs \<Longrightarrow> put_loop a cs = cs"
  by (induction a cs rule: put_loop.induct) auto

lemma put_loop_append: "put_loop a (xs @ ys) = put_loop a xs @ put_loop a ys"
  by (induction a xs rule: put_loop.induct) (auto simp: Let_def)

lemma upd_card_frame [simp]: "map fst (upd_card a f cs) = map fst cs"
  by (auto simp: upd_card_def)

lemma read_card_id_frame:
  "read_card_id C crd s = Some (r, s') \<Longrightarrow> s' = s\<lparr>tick := tick s'\<rparr>"
  by (auto simp: read_card_id_def split: proc_file.splits if_splits)

text \<open>Every chunk is parsed without error.\<close>

definition parses :: "card_env \<Rightarrow> bool" where
  "parses C \<longleftrightarrow> (\<forall>t st. ce_file C t = Steps st \<longrightarrow> (\<forall>e \<in> set st. \<exists>n es. e = Chunk n es False))"

lemma parse_loop_done:
  "\<forall>e \<in> set st. \<exists>n es. e = Chunk n es False \<Longrightarrow> parse_loop A st data = Some (ok, d) \<Longrightarrow> ok"
  by (induction A st data rule: parse_loop.induct) (auto simp: bind_eq_Some_conv split: if_splits)

text \<open>The parser never touches the reference count of the card that it builds.\<close>

definition uncounted :: "xml_userdata \<Rightarrow> bool" where
  "uncounted data \<longleftrightarrow> (\<forall>cd. cur_card_def data = Some cd \<longrightarrow> cd_refcnt cd = 0)"

lemma uncounted_upd [simp]:
  "uncounted (offs_update f1 data) = uncounted data" "uncounted (data_buf_update f2 data) = uncounted data"
  "uncounted (current_tag_update f3 data) = uncounted data" "uncounted (ud_tick_update f4 data) = uncounted data"
  "uncounted (card_parsed_update f5 data) = uncounted data" "uncounted (snd_reset_data_buf data) = uncounted data"
  "uncounted (snd_data_handler str data) = uncounted data"
  by (simp_all add: uncounted_def)

lemma uncounted_upd_cur_dev: "upd_cur_dev f data = Some d \<Longrightarrow> uncounted data \<Longrightarrow> uncounted d"
  by (auto simp: upd_cur_dev_def uncounted_def set_devs_list_def bind_eq_Some_conv split: if_splits)

lemma refcnt_set_devs [simp]: "cd_refcnt (set_devs_list t ds cd) = cd_refcnt cd"
  by (simp add: set_devs_list_def)

lemma uncounted_init: "uncounted data \<Longrightarrow> uncounted (snd_dev_def_init A data tag nt)"
  by (cases "cur_card_def data"; cases nt)
    (simp_all add: snd_dev_def_init_def ud_calloc_def uncounted_def)

lemma uncounted_set_name: "uncounted data \<Longrightarrow> uncounted (set_card_name A nm data)"
  by (auto simp: set_card_name_def ud_calloc_def uncounted_def)

lemma uncounted_new:
  "uncounted data \<Longrightarrow> uncounted (snd (snd_parse_initialize_card_def A data))"
  by (auto simp: snd_parse_initialize_card_def_def ud_calloc_def uncounted_def new_card_def_def)

lemma uncounted_set_card:
  "uncounted data \<Longrightarrow>
    uncounted (data\<lparr>cur_card_def := map_option (\<lambda>cd. cd\<lparr>cd_card := crd\<rparr>) (cur_card_def data)\<rparr>)"
  by (auto simp: uncounted_def)

lemma uncounted_card:
  assumes "uncounted data"
  shows "uncounted (snd_parse_card_properties A p data)"
  using assms uncounted_new [OF assms, of A]
  by (cases "snd_parse_initialize_card_def A data")
    (simp add: snd_parse_card_properties_def Let_def uncounted_set_name uncounted_set_card split: option.split)

lemma uncounted_process: "snd_process_data_buf A p data = Some d \<Longrightarrow> uncounted data \<Longrightarrow> uncounted d"
  by (auto simp: snd_process_data_buf_def snd_parse_plugin_properties_def snd_parse_device_properties_def
      snd_parse_device_custom_properties_def ud_calloc_def Let_def uncounted_card
      dest: uncounted_upd_cur_dev split: if_splits)

lemma uncounted_event: "handle_event A e data = Some d \<Longrightarrow> uncounted data \<Longrightarrow> uncounted d"
proof (cases e)
  case (Start_tag t)
  assume "handle_event A e data = Some d" "uncounted data"
  then show ?thesis
    unfolding Start_tag
    by (auto simp: snd_start_tag_def snd_dev_set_type_def Let_def bind_eq_Some_conv intro!: uncounted_init
        dest: uncounted_upd_cur_dev split: if_splits)
qed (auto simp: snd_end_tag_def bind_eq_Some_conv Let_def dest: uncounted_process split: if_splits)

lemma uncounted_events: "handle_events A es data = Some d \<Longrightarrow> uncounted data \<Longrightarrow> uncounted d"
  by (induction es arbitrary: data) (auto simp: bind_eq_Some_conv dest: uncounted_event)

lemma uncounted_parse: "parse_loop A st data = Some (ok, d) \<Longrightarrow> uncounted data \<Longrightarrow> uncounted d"
  by (induction A st data rule: parse_loop.induct)
    (auto simp: bind_eq_Some_conv dest: uncounted_events split: if_splits)

lemma card_inv_add:
  assumes "card_inv s" "snd_card_list_init s'" "readers s' = 0" "\<not> writer s'" "next_card s' = Suc (next_card s)"
    "snd_card_list s' = snd_card_list s @ [(next_card s, cd)]" "cd_refcnt cd \<ge> 1"
  shows "card_inv s'"
  using assms by (fastforce simp: card_inv_def)

text \<open>What a successful lookup does to the list of cards.\<close>

lemma get_card_cases:
  assumes "card_inv s" "snd_card_def_get_card C crd s = Some (Some a, s')" "parses C"
  shows "readers s' = 0 \<and> \<not> writer s' \<and> snd_card_list_init s' \<and>
    (a \<in> fst ` set (snd_card_list s) \<and> next_card s' = next_card s \<and> snd_card_list s' =
         upd_card a (\<lambda>cd. cd\<lparr>cd_refcnt := cd_refcnt cd + 1\<rparr>) (snd_card_list s)
     \<or> (\<exists>cd. a = next_card s \<and> next_card s' = Suc (next_card s) \<and> cd_refcnt cd = 1
           \<and> snd_card_list s' = snd_card_list s @ [(a, cd)]))"
proof -
  obtain ok nm crd' s1 where rd: "read_card_id C crd s = Some ((ok, nm, crd'), s1)"
    using assms(2) by (auto simp: snd_card_def_get_card_def bind_eq_Some_conv)
  note fr = read_card_id_frame [OF rd]
  have eqs: "readers s1 = 0" "\<not> writer s1" "snd_card_list s1 = snd_card_list s" "next_card s1 = next_card s"
      "snd_card_list_init s1 = snd_card_list_init s" "\<not> snd_card_list_init s \<Longrightarrow> snd_card_list s = []"
    using assms(1) arg_cong [OF fr, of readers] arg_cong [OF fr, of writer] arg_cong [OF fr, of snd_card_list]
      arg_cong [OF fr, of next_card] arg_cong [OF fr, of snd_card_list_init]
    by (simp_all add: card_inv_def)
  have un: "cd_refcnt cd = 0" if "parse_loop A st (init_userdata c n k) = Some (q, d)" "cur_card_def d = Some cd"
    for A st c n k q d cd
    using uncounted_parse [OF that(1)] that(2) by (simp add: uncounted_def init_userdata_def)
  let ?init = "if snd_card_list_init s1 then s1 else s1\<lparr>snd_card_list := [], snd_card_list_init := True\<rparr>"
  have list: "snd_card_list ?init = snd_card_list s" using eqs by simp
  have get: "snd_card_def_get_card C crd s = Some (Some a, s')" by (rule assms(2))
  have ok: "ok" using get by (auto simp: snd_card_def_get_card_def rd split: if_splits)
  obtain found where found: "find_card nm crd' (snd_card_list s) = Some found"
    using get eqs ok by (cases "find_card nm crd' (snd_card_list s)"; cases "snd_card_list_init s")
      (simp_all add: snd_card_def_get_card_def rd wr_lock_def)
  show ?thesis
  proof (cases found)
    case (Some b)
    then show ?thesis
      using get eqs ok found find_card_found [of nm crd' "snd_card_list s" b]
      by (cases "snd_card_list_init s") (auto simp: snd_card_def_get_card_def rd wr_lock_def rw_unlock_def)
  next
    case None
    then obtain st where st: "ce_file C (tick s1) = Steps st"
      using get eqs ok found
      by (cases "ce_file C (tick s1)"; cases "snd_card_list_init s")
        (simp_all add: snd_card_def_get_card_def rd wr_lock_def rw_unlock_def Let_def)
    obtain q d where pl: "parse_loop (ce_alloc C) st (init_userdata crd' nm (tick s1)) = Some (q, d)"
      using get eqs ok found None st
      by (cases "parse_loop (ce_alloc C) st (init_userdata crd' nm (tick s1))"; cases "snd_card_list_init s")
        (auto simp: snd_card_def_get_card_def rd wr_lock_def rw_unlock_def Let_def)
    have "q" using parse_loop_done [OF _ pl] assms(3) st by (auto simp: parses_def)
    then show ?thesis
      using get eqs ok found None st pl un [OF pl]
      by (cases "cur_card_def d"; cases "snd_card_list_init s")
        (auto simp: snd_card_def_get_card_def rd wr_lock_def rw_unlock_def Let_def)
  qed
qed

section \<open>A definition file\<close>

definition sample_cards :: "xcard list" where
  "sample_cards = [\<lparr>xc_id = ''100'', xc_name = ''vsnd'', xc_devs =
     [\<lparr>x_type = SND_NODE_TYPE_PCM, x_id = ''101'', x_name = ''PCM101'',
       x_plugin = Some (''pcm_plugin'', ''libagm_pcm_plugin.so''), x_props = [(''hostless'', ''1'')]\<rparr>]\<rparr>]"

definition sample_card_env :: card_env where
  "sample_card_env = \<lparr>ce_alloc = (\<lambda>n. True), ce_proc = (\<lambda>n c. No_entry),
     ce_file = (\<lambda>n. Steps [Chunk BUF_SIZE (doc_events '' '' sample_cards) False, Chunk 0 [] False])\<rparr>"

definition no_cards :: card_state where
  "no_cards = \<lparr>snd_card_list = [], snd_card_list_init = False, next_card = 0, readers = 0,
     writer = False, tick = 0\<rparr>"

lemma sample_cards_ok: "list_all xcard_ok sample_cards"
  by (simp add: sample_cards_def xcard_ok_def xdev_ok_def text_ok_def c_str_def plugin_tag_def plain_tag_def
      is_device_tag_def)

lemma sample_meant: "doc_meant 100 None sample_cards = Some (card_meant (100, ''vsnd'') (hd sample_cards))"
  by (simp add: sample_cards_def card_match_def id_of_def atoi_def c_isspace_def c_isdigit_def)

lemma get_sample_card: "\<exists>s'. snd_card_def_get_card sample_card_env 100 no_cards = Some (Some 0, s')"
proof -
  obtain d where "handle_events (\<lambda>n. True) (doc_events '' '' sample_cards) (init_userdata 100 None 1) = Some d"
      "cur_card_def d = Some (card_meant (100, ''vsnd'') (hd sample_cards))"
    using doc_parsed [OF sample_cards_ok, of "'' ''" "\<lambda>n. True" 100 None 1]
    by (auto simp: leads_def sample_meant)
  then show ?thesis
    by (simp add: snd_card_def_get_card_def sample_card_env_def no_cards_def read_card_id_def wr_lock_def
        rw_unlock_def)
qed

text \<open>
  Getting a card and putting it back leaves the list of cards as it was, and the
  invariant on the list holds in between: a card that was in use keeps its other references,
  a card that was parsed for this call is freed again. This needs that the definition file
  is read without an error.
\<close>

theorem card_references:
  assumes "card_inv s" "parses C" "snd_card_def_get_card C crd s = Some (Some a, s')"
  shows "card_inv s' \<and> card_at s' a \<noteq> None
    \<and> (\<exists>s''. snd_card_def_put_card (Some a) s' = Some ((), s'') \<and> card_inv s''
         \<and> snd_card_list s'' = snd_card_list s)"
proof -
  have un: "readers s' = 0" "\<not> writer s'" "snd_card_list_init s'"
    and cases: "a \<in> fst ` set (snd_card_list s) \<and> next_card s' = next_card s \<and> snd_card_list s' =
         upd_card a (\<lambda>cd. cd\<lparr>cd_refcnt := cd_refcnt cd + 1\<rparr>) (snd_card_list s)
     \<or> (\<exists>cd. a = next_card s \<and> next_card s' = Suc (next_card s) \<and> cd_refcnt cd = 1
           \<and> snd_card_list s' = snd_card_list s @ [(a, cd)])"
    using get_card_cases [OF assms(1,3,2)] by auto
  have inv: "distinct (map fst (snd_card_list s))" "\<forall>(b, cd) \<in> set (snd_card_list s). cd_refcnt cd \<ge> 1"
      "\<forall>(b, cd) \<in> set (snd_card_list s). b < next_card s"
    using assms(1) by (auto simp: card_inv_def)
  have fresh: "next_card s \<notin> fst ` set (snd_card_list s)" using inv(3) by auto
  have inv': "card_inv s'"
    using cases
  proof (elim disjE exE conjE)
    assume "next_card s' = next_card s"
      "snd_card_list s' = upd_card a (\<lambda>cd. cd\<lparr>cd_refcnt := cd_refcnt cd + 1\<rparr>) (snd_card_list s)"
    then show ?thesis using un inv by (fastforce simp: card_inv_def upd_card_def comp_def case_prod_unfold)
  qed (use un assms(1) in \<open>auto intro: card_inv_add\<close>)
  have "fst ` set (upd_card a f cs) = fst ` set cs" for f cs
    by (metis upd_card_frame set_map)
  then have dom: "a \<in> fst ` set (snd_card_list s')" using cases by (elim disjE exE conjE) simp_all
  let ?s = "rw_unlock ((s'\<lparr>writer := True\<rparr>)\<lparr>snd_card_list := put_loop a (snd_card_list s')\<rparr>)"
  have put: "snd_card_def_put_card (Some a) s' = Some ((), ?s)"
    using un by (simp add: snd_card_def_put_card_def wr_lock_def)
  have same: "put_loop a (snd_card_list s') = snd_card_list s"
    using cases put_upd_card [OF inv(1,2), of a] fresh by (auto simp: put_loop_append put_loop_absent)
  have "next_card s \<le> next_card s'" using cases by auto
  then have "card_inv ?s"
    using un inv same by (fastforce simp: card_inv_def rw_unlock_def)
  then show ?thesis
    using inv' put same dom by (auto simp: card_at_def map_of_eq_None_iff rw_unlock_def)
qed

theorem card_references_witness:
  "\<exists>s' s''. snd_card_def_get_card sample_card_env 100 no_cards = Some (Some 0, s')
     \<and> snd_card_def_put_card (Some 0) s' = Some ((), s'') \<and> snd_card_list s'' = []"
proof -
  obtain s' where s': "snd_card_def_get_card sample_card_env 100 no_cards = Some (Some 0, s')"
    using get_sample_card by blast
  have "card_inv no_cards" by (simp add: no_cards_def card_inv_def)
  from card_references [OF this _ s'] s' show ?thesis
    by (auto simp: parses_def sample_card_env_def no_cards_def)
qed



section \<open>Bounds\<close>

lemma data_events:
  "handle_events A (map Char_data xs) data = Some (foldl (\<lambda>d str. snd_data_handler str d) data xs)"
  by (induction xs arbitrary: data) simp_all

lemma data_events_frame:
  "offs (foldl (\<lambda>d str. snd_data_handler str d) data xs) = offs data + sum_list (map length xs)"
  "current_tag (foldl (\<lambda>d str. snd_data_handler str d) data xs) = current_tag data"
  "card_parsed (foldl (\<lambda>d str. snd_data_handler str d) data xs) = card_parsed data"
  "card_found (foldl (\<lambda>d str. snd_data_handler str d) data xs) = card_found data"
  by (induction xs arbitrary: data) (simp_all add: offs_data)

text \<open>
  C38: The text of an element of a card reaches the handlers in any number of pieces. If it
  is shorter than the buffer of 1024 bytes, the end of the element is handled. If it is not,
  the handler of the text drops it but counts its length, and the handler of the end tag
  then writes the terminating NUL outside the buffer: the overlong text is never rejected.
\<close>

theorem card_text_bound:
  assumes "current_tag data = TAG_CARD" "\<not> card_parsed data" "offs data = 0"
  shows "handle_events A (map Char_data xs @ [End_tag t]) data = None
    \<longleftrightarrow> sum_list (map length xs) \<ge> BUF_SIZE"
  using assms
  by (simp add: handle_events_append data_events snd_end_tag_def data_events_frame snd_process_data_buf_def Let_def
      del: sum_list_eq_0_iff)

theorem card_text_bound_witness:
  "handle_events (\<lambda>n. True) (map Char_data [replicate 1000 CHR ''1'', replicate 24 CHR ''1''] @ [End_tag ''id''])
     ((init_userdata 100 None 0)\<lparr>current_tag := TAG_CARD\<rparr>) = None"
  using card_text_bound [of "(init_userdata 100 None 0)\<lparr>current_tag := TAG_CARD\<rparr>" "\<lambda>n. True"
      "[replicate 1000 CHR ''1'', replicate 24 CHR ''1'']" "''id''"]
  by (simp add: init_userdata_def)

lemma copy_nodes_le:
  assumes "i < length arr" "int i < n" "n \<le> int (i + length ds)" "nat n \<le> length arr"
  shows "copy_nodes i n ds arr = Some (take i arr @ map Some (take (nat n - i) ds) @ drop (nat n) arr)"
  using assms
proof (induction i n ds arr rule: copy_nodes.induct)
  case (2 i n d ds arr)
  show ?case
  proof (cases "int (Suc i) = n")
    case True
    then have "nat n = Suc i" by simp
    with True 2 show ?thesis
      by (simp add: upd_conv_take_nth_drop Suc_diff_le)
  next
    case False
    with 2(3,4) have n: "int (Suc i) < n" by simp
    with 2 have "copy_nodes (Suc i) n ds (arr[i := Some d]) = Some (take (Suc i) (arr[i := Some d])
        @ map Some (take (nat n - Suc i) ds) @ drop (nat n) (arr[i := Some d]))"
      by (intro 2(1)) (auto simp: Let_def)
    moreover have "nat n - i = Suc (nat n - Suc i)" using n by simp
    ultimately show ?thesis
      using 2 False n by (simp add: take_Suc_conv_app_nth)
  qed
qed simp

lemma copy_nodes_all:
  assumes "n \<le> int i"
  shows "copy_nodes i n ds arr = (if i + length ds \<le> length arr \<or> ds = []
    then Some (take i arr @ map Some ds @ drop (i + length ds) arr) else None)"
  using assms
proof (induction i n ds arr rule: copy_nodes.induct)
  case (2 i n d ds arr)
  then show ?case by (auto simp: take_Suc_conv_app_nth Let_def)
qed simp

text \<open>
  A request for the nodes of a type. With \<open>0 < num_nodes \<le> n\<close> for the \<open>n\<close> devices of the
  card, exactly the first \<open>num_nodes\<close> entries of the array are written. With
  \<open>num_nodes \<le> 0\<close> all \<open>n\<close> nodes are written: undefined if the array is shorter. With more
  nodes than there are, the call returns \<open>-EINVAL\<close> without releasing the lock, and every
  later lookup of a card blocks for ever.
\<close>

theorem card_nodes:
  assumes "card_inv s" "card_at s a = Some cd" "t \<noteq> SND_NODE_TYPE_MAX"
    and "nodes = map (\<lambda>i. (a, t, i)) [0..<length (devs_list t cd)]"
  shows "(0 < k \<and> k \<le> int (length nodes) \<and> nat k \<le> length arr \<longrightarrow>
      (\<exists>s'. snd_card_def_get_nodes_for_type (Some a) t k arr s =
        Some ((0, map Some (take (nat k) nodes) @ drop (nat k) arr), s') \<and> card_inv s'))
    \<and> (k \<le> 0 \<and> length arr < length nodes \<longrightarrow>
      snd_card_def_get_nodes_for_type (Some a) t k arr s = None)
    \<and> (k > int (length nodes) \<longrightarrow>
      (\<exists>s'. snd_card_def_get_nodes_for_type (Some a) t k arr s = Some ((- EINVAL, arr), s')
         \<and> (\<forall>C crd nm s1. read_card_id C crd s' = Some ((True, nm), s1)
              \<longrightarrow> snd_card_def_get_card C crd s' = None)))"
proof -
  let ?s = "s\<lparr>readers := Suc 0\<rparr>"
  have lock: "rd_lock s = Some ?s" "card_at ?s a = Some cd" "card_inv (rw_unlock ?s)"
    using assms(1,2) by (auto simp: card_inv_def rd_lock_def card_at_def rw_unlock_def)
  have call: "snd_card_def_get_nodes_for_type (Some a) t k arr s =
      (if k > int (length nodes) then Some ((- EINVAL, arr), ?s)
       else do { arr \<leftarrow> copy_nodes 0 k nodes arr; Some ((0, arr), rw_unlock ?s) })"
    using assms(3,4) by (simp add: snd_card_def_get_nodes_for_type_def lock Let_def)
  have blocked: "snd_card_def_get_card C crd ?s = None"
    if "read_card_id C crd ?s = Some ((True, nm), s1)" for C crd nm s1
    using that arg_cong [OF read_card_id_frame [OF that], of readers]
    by (cases nm) (simp add: snd_card_def_get_card_def wr_lock_def)
  have one: "copy_nodes 0 k nodes arr = Some (map Some (take (nat k) nodes) @ drop (nat k) arr)"
    if "0 < k" "k \<le> int (length nodes)" "nat k \<le> length arr"
    using copy_nodes_le [of 0 arr k nodes] that by fastforce
  have all: "copy_nodes 0 k nodes arr = None" if "k \<le> 0" "length arr < length nodes"
    using copy_nodes_all [of k 0 nodes arr] that by auto
  show ?thesis
    unfolding call using one all blocked lock(3) by auto
qed

theorem card_nodes_witness:
  "\<exists>s'. snd_card_def_get_nodes_for_type (Some 0) SND_NODE_TYPE_PCM 2 [None, None]
      (no_cards\<lparr>snd_card_list := [(0, new_card_def\<lparr>cd_refcnt := 1\<rparr>)], next_card := 1, snd_card_list_init := True\<rparr>)
    = Some ((- EINVAL, [None, None]), s')
    \<and> snd_card_def_get_card sample_card_env 100 s' = None"
proof -
  let ?s = "no_cards\<lparr>snd_card_list := [(0, new_card_def\<lparr>cd_refcnt := 1\<rparr>)], next_card := 1, snd_card_list_init := True\<rparr>"
  have "card_inv ?s" "card_at ?s 0 = Some (new_card_def\<lparr>cd_refcnt := 1\<rparr>)"
    by (simp_all add: card_inv_def no_cards_def card_at_def)
  note * = card_nodes [OF this, of SND_NODE_TYPE_PCM "[]" 2 "[None, None]"]
  have "\<exists>s'. snd_card_def_get_nodes_for_type (Some 0) SND_NODE_TYPE_PCM 2 [None, None] ?s
      = Some ((- EINVAL, [None, None]), s')
    \<and> (\<forall>C crd nm s1. read_card_id C crd s' = Some ((True, nm), s1) \<longrightarrow> snd_card_def_get_card C crd s' = None)"
    using * by (simp add: devs_list_def new_card_def_def)
  moreover have "\<exists>nm s1. read_card_id sample_card_env 100 s' = Some ((True, nm), s1)" for s'
    by (simp add: read_card_id_def sample_card_env_def)
  ultimately show ?thesis by metis
qed

end
