(* ===== verification/Agm_Plugin_Env.thy ===== *)
theory Agm_Plugin_Env
  imports Agm_Session_Api Agm_Card_Def
begin

text \<open>
  What the tinyalsa plugins share: the state behind them and their view of the outside.

  A plugin is a client of two components of this repository, the service (its \<open>agm_*\<close>
  functions, here called directly as in a build without IPC) and the card definitions. Both
  states are part of \<open>plug_state\<close>, next to the heap blocks that the plugins own. The
  outside is \<open>X :: plug_env\<close>: the environments of the two components, and the answers of the
  C library and the kernel to the calls of the plugins, which may depend on all earlier calls.
\<close>

section \<open>The outside\<close>

text \<open>The device tables of the mixer plugin, and the heap blocks of the plugins.\<close>

datatype adi_ref = Rx_be | Tx_be | Rx_pcm | Tx_pcm

datatype pblock =
    Blk_plugin | Blk_priv | Blk_media_config | Blk_buffer_config | Blk_session_config
  | Blk_buf_info | Blk_pos_buf
  | Blk_names adi_ref | Blk_idx_arr adi_ref | Blk_mtd_ctl adi_ref | Blk_get_param adi_ref
  | Blk_aif_list | Blk_node_list | Blk_ctls | Blk_ctl_names
  | Blk_event_params | Blk_event_data | Blk_mixer_str

datatype pos_field = Frame_counter | Read_index | Wall_clock_us_lsw | Wall_clock_us_msw

datatype pcond = Poll_cond | Eos_cond | Drain_cond

datatype plug_call =
    P_calloc pblock
  | P_mmap int u64
  | P_munmap "nat option" u64
  | P_read_pos nat pos_field
  | P_clock_gettime
  | P_usleep u32
  | P_cond_wait
  | P_cond_timedwait int
  | P_cond_signal pcond
  | P_event_cb nat

type_synonym timespec = "int \<times> int"

record plug_reply =
  pr_ok :: bool
  pr_addr :: "nat option"
  pr_word :: u32
  pr_time :: timespec
  pr_rc :: int

text \<open>
  The constants of the tinyalsa and tinycompress headers that are not used by the service, and
  the addresses of the callbacks that the plugins register with the service. \<open>dec_hdr\<close> says
  whether the headers of the kernel define \<open>SND_COMPRESS_DEC_HDR\<close>.
\<close>

datatype pflag =
    PCM_MMAP | PCM_NOIRQ | COMPRESS_IN
  | SND_AUDIOSTREAMFORMAT_MP4LATM | SND_AUDIOSTREAMFORMAT_ADIF | SND_AUDIOSTREAMFORMAT_MP4ADTS

datatype pcallback = Compress_event_cb | Mixer_event_cb

record plug_env =
  penv :: env
  cenv :: card_env
  pflags :: "pflag \<Rightarrow> u32"
  pcb_addr :: "pcallback \<Rightarrow> nat"
  dec_hdr :: bool
  pext :: "plug_call list \<Rightarrow> plug_call \<Rightarrow> plug_reply"

section \<open>The state behind a plugin\<close>

record plug_state =
  svc :: agm_state
  cards :: card_state
  live :: "pblock list"
  perrno :: int
  ptrace :: "plug_call list"

type_synonym 'a plug = "plug_state \<Rightarrow> ('a, plug_state) result"

definition on_svc :: "'a agm \<Rightarrow> 'a plug" where
  "on_svc m s = do { (r, t) \<leftarrow> m (svc s); Some (r, s\<lparr>svc := t\<rparr>) }"

definition on_cards :: "(card_state \<Rightarrow> ('a, card_state) result) \<Rightarrow> 'a plug" where
  "on_cards m s = do { (r, t) \<leftarrow> m (cards s); Some (r, s\<lparr>cards := t\<rparr>) }"

definition pcall :: "plug_env \<Rightarrow> plug_call \<Rightarrow> plug_reply plug" where
  "pcall X c s = Some (pext X (ptrace s) c, s\<lparr>ptrace := c # ptrace s\<rparr>)"

text \<open>\<open>calloc\<close> and \<open>free\<close>; to free a block that is not allocated is undefined.\<close>

definition p_calloc :: "plug_env \<Rightarrow> pblock \<Rightarrow> bool plug" where
  "p_calloc X b s = do {
     (r, s) \<leftarrow> pcall X (P_calloc b) s;
     Some (pr_ok r, if pr_ok r then s\<lparr>live := b # live s\<rparr> else s)
   }"

definition p_free :: "pblock \<Rightarrow> plug_state \<Rightarrow> plug_state option" where
  "p_free b s = (if b \<in> set (live s) then Some (s\<lparr>live := remove1 b (live s)\<rparr>) else None)"

text \<open>A chain of \<open>free\<close> calls, as the error labels of the open functions fall through.\<close>

fun p_frees :: "pblock list \<Rightarrow> plug_state \<Rightarrow> plug_state option" where
  "p_frees [] s = Some s"
| "p_frees (b # bs) s = do { s \<leftarrow> p_free b s; p_frees bs s }"

definition has_flag :: "u32 \<Rightarrow> u32 \<Rightarrow> bool" where
  "has_flag mode f \<longleftrightarrow> and mode f \<noteq> 0"

section \<open>Lemmas on the shared operations\<close>

lemma p_frees_append: "p_frees (xs @ ys) s = p_frees xs s \<bind> p_frees ys"
proof (induction xs arbitrary: s)
  case (Cons b xs)
  then show ?case by (cases "p_free b s") simp_all
qed simp

text \<open>Blocks that were just allocated can be freed in the order of their allocation reversed.\<close>

lemma p_frees_own: "live s = bs @ rest \<Longrightarrow> p_frees bs s = Some (s\<lparr>live := rest\<rparr>)"
proof (induction bs arbitrary: s)
  case (Cons b bs)
  then have "p_free b s = Some (s\<lparr>live := bs @ rest\<rparr>)" by (simp add: p_free_def)
  with Cons.IH [of "s\<lparr>live := bs @ rest\<rparr>"] show ?case by simp
qed simp

lemma on_svc_frame:
  "on_svc m s = Some (r, s') \<Longrightarrow> s' = s\<lparr>svc := svc s'\<rparr> \<and> m (svc s) = Some (r, svc s')"
  by (auto simp: on_svc_def bind_eq_Some_conv)

lemma on_cards_frame:
  "on_cards m s = Some (r, s') \<Longrightarrow> s' = s\<lparr>cards := cards s'\<rparr> \<and> m (cards s) = Some (r, cards s')"
  by (auto simp: on_cards_def bind_eq_Some_conv)

lemma p_calloc_cases:
  "p_calloc X b s = Some (pr_ok (pext X (ptrace s) (P_calloc b)),
     s\<lparr>ptrace := P_calloc b # ptrace s,
       live := (if pr_ok (pext X (ptrace s) (P_calloc b)) then b # live s else live s)\<rparr>)"
  by (simp add: p_calloc_def pcall_def)

end
