(* ===== verification/Agm_Pcm_Plugin.thy ===== *)
theory Agm_Pcm_Plugin
  imports Agm_Plugin_Env
begin

text \<open>
  \<open>plugins/tinyalsa/src/agm_pcm_plugin.c\<close>: the tinyalsa PCM plugin on top of the service.
  Every operation takes the plugin object and returns it with its result; tinyalsa keeps the
  object between the calls. The buffers of a plugin are reached through one pointer only, so
  the structs behind \<open>priv\<close> are nested records, and \<open>live\<close> lists the blocks they occupy.

  Integers keep their width on a 64-bit system: \<open>unsigned int\<close> is \<open>u32\<close>,
  \<open>snd_pcm_uframes_t\<close> and \<open>size_t\<close> are \<open>u64\<close>. The numbers of the ALSA parameters, of the
  sample formats and of the poll events are those of the kernel interface. The constraints
  table \<open>agm_pcm_constrs\<close> is only handed to tinyalsa and is not modelled.
\<close>

unbundle bit_operations_syntax

section \<open>Data\<close>

record pcm_plugin_pos_buf_info =
  pos_buf_addr :: "nat option"
  boundary :: u32
  hw_ptr :: u64
  hw_ptr_base :: u64
  tstamp :: timespec
  appl_ptr :: u64
  avail_min :: u64

record agm_pcm_priv =
  pp_media_config :: agm_media_config
  pp_buffer_config :: agm_buffer_config
  pp_session_config :: agm_session_config
  pp_buf_info :: "agm_buf_info option"
  pp_pos_buf :: "pcm_plugin_pos_buf_info option"
  pp_handle :: "nat option"
  pp_card_node :: "nat option"
  pp_session_id :: u32
  pp_period_size :: u32
  total_size_frames :: u64

record pcm_plugin =
  pl_card :: u32
  pl_node :: "dev_node option"
  pl_mode :: u32
  pl_priv :: "agm_pcm_priv option"

record snd_interval =
  iv_min :: u32
  iv_max :: u32
  iv_integer :: bool

record snd_pcm_hw_params =
  hp_masks :: "u32 list list"
  hp_intervals :: "snd_interval list"

record snd_pcm_sw_params =
  sp_start_threshold :: u64
  sp_stop_threshold :: u64

record snd_pcm_sync_ptr =
  sy_flags :: u32
  sy_appl_ptr :: u64
  sy_avail_min :: u64
  sy_hw_ptr :: u64
  sy_tstamp :: timespec

record snd_xferi =
  xf_buf :: "u8 list"
  xf_frames :: u64

abbreviation (input) SNDRV_PCM_HW_PARAM_FIRST_MASK :: nat where "SNDRV_PCM_HW_PARAM_FIRST_MASK \<equiv> 0"
abbreviation (input) SNDRV_PCM_HW_PARAM_LAST_MASK :: nat where "SNDRV_PCM_HW_PARAM_LAST_MASK \<equiv> 2"
abbreviation (input) SNDRV_PCM_HW_PARAM_FORMAT :: nat where "SNDRV_PCM_HW_PARAM_FORMAT \<equiv> 1"
abbreviation (input) SNDRV_PCM_HW_PARAM_FIRST_INTERVAL :: nat where
  "SNDRV_PCM_HW_PARAM_FIRST_INTERVAL \<equiv> 8"
abbreviation (input) SNDRV_PCM_HW_PARAM_LAST_INTERVAL :: nat where
  "SNDRV_PCM_HW_PARAM_LAST_INTERVAL \<equiv> 19"
abbreviation (input) SNDRV_PCM_HW_PARAM_CHANNELS :: nat where "SNDRV_PCM_HW_PARAM_CHANNELS \<equiv> 10"
abbreviation (input) SNDRV_PCM_HW_PARAM_RATE :: nat where "SNDRV_PCM_HW_PARAM_RATE \<equiv> 11"
abbreviation (input) SNDRV_PCM_HW_PARAM_PERIOD_SIZE :: nat where "SNDRV_PCM_HW_PARAM_PERIOD_SIZE \<equiv> 13"
abbreviation (input) SNDRV_PCM_HW_PARAM_PERIODS :: nat where "SNDRV_PCM_HW_PARAM_PERIODS \<equiv> 15"

abbreviation (input) SNDRV_PCM_SYNC_PTR_HWSYNC :: u32 where "SNDRV_PCM_SYNC_PTR_HWSYNC \<equiv> 1"
abbreviation (input) SNDRV_PCM_SYNC_PTR_APPL :: u32 where "SNDRV_PCM_SYNC_PTR_APPL \<equiv> 2"
abbreviation (input) SNDRV_PCM_SYNC_PTR_AVAIL_MIN :: u32 where "SNDRV_PCM_SYNC_PTR_AVAIL_MIN \<equiv> 4"
abbreviation (input) POLLIN :: int where "POLLIN \<equiv> 1"
abbreviation (input) POLLOUT :: int where "POLLOUT \<equiv> 4"

section \<open>Parameters and formats\<close>

definition nth_opt :: "'a list \<Rightarrow> nat \<Rightarrow> 'a option" where
  "nth_opt xs i = (if i < length xs then Some (xs ! i) else None)"

definition param_to_interval :: "snd_pcm_hw_params \<Rightarrow> nat \<Rightarrow> snd_interval option" where
  "param_to_interval p n = nth_opt (hp_intervals p) (n - SNDRV_PCM_HW_PARAM_FIRST_INTERVAL)"

definition param_is_interval :: "nat \<Rightarrow> bool" where
  "param_is_interval p \<longleftrightarrow>
     p \<ge> SNDRV_PCM_HW_PARAM_FIRST_INTERVAL \<and> p \<le> SNDRV_PCM_HW_PARAM_LAST_INTERVAL"

definition param_get_int :: "snd_pcm_hw_params \<Rightarrow> nat \<Rightarrow> u32 option" where
  "param_get_int p n =
     (if param_is_interval n then do {
        i \<leftarrow> param_to_interval p n;
        Some (if iv_integer i then iv_max i else 0)
      } else Some 0)"

definition param_to_mask :: "snd_pcm_hw_params \<Rightarrow> nat \<Rightarrow> u32 list option" where
  "param_to_mask p n = nth_opt (hp_masks p) (n - SNDRV_PCM_HW_PARAM_FIRST_MASK)"

definition param_is_mask :: "nat \<Rightarrow> bool" where
  "param_is_mask p \<longleftrightarrow> p \<ge> SNDRV_PCM_HW_PARAM_FIRST_MASK \<and> p \<le> SNDRV_PCM_HW_PARAM_LAST_MASK"

text \<open>\<open>ffs\<close>: the position of the lowest bit that is set, counted from one.\<close>

definition ffs :: "u32 \<Rightarrow> int" where
  "ffs w = (case find (bit w) [0..<32] of None \<Rightarrow> 0 | Some i \<Rightarrow> int i + 1)"

text \<open>The loop over the first \<open>PCM_MASK_SIZE\<close> words of the mask.\<close>

definition snd_mask_val :: "u32 list \<Rightarrow> int option" where
  "snd_mask_val bits = do {
     w0 \<leftarrow> nth_opt bits 0;
     if w0 \<noteq> 0 then Some (ffs w0 - 1)
     else do {
       w1 \<leftarrow> nth_opt bits 1;
       Some (if w1 \<noteq> 0 then ffs w1 + 32 - 1 else 0)
     }
   }"

definition agm_format_to_bits :: "agm_media_format \<Rightarrow> u32" where
  "agm_format_to_bits fmt =
     (if fmt = AGM_FORMAT_PCM_S32_LE \<or> fmt = AGM_FORMAT_PCM_S24_LE then 32
      else if fmt = AGM_FORMAT_PCM_S24_3LE then 24
      else 16)"

text \<open>The formats are \<open>S8\<close> 0, \<open>S16_LE\<close> 2, \<open>S24_LE\<close> 6, \<open>S32_LE\<close> 10 and \<open>S24_3LE\<close> 32.\<close>

definition alsa_to_agm_format :: "int \<Rightarrow> agm_media_format" where
  "alsa_to_agm_format fmt =
     (if fmt = 10 then AGM_FORMAT_PCM_S32_LE
      else if fmt = 0 then AGM_FORMAT_PCM_S8
      else if fmt = 32 then AGM_FORMAT_PCM_S24_3LE
      else if fmt = 6 then AGM_FORMAT_PCM_S24_LE
      else AGM_FORMAT_PCM_S16_LE)"

definition param_get_mask_val :: "snd_pcm_hw_params \<Rightarrow> nat \<Rightarrow> agm_media_format option" where
  "param_get_mask_val p n =
     (if param_is_mask n then do {
        m \<leftarrow> param_to_mask p n;
        v \<leftarrow> snd_mask_val m;
        Some (alsa_to_agm_format v)
      } else Some AGM_FORMAT_INVALID)"

definition agm_pcm_frames_to_bytes :: "agm_media_config \<Rightarrow> u32 \<Rightarrow> u32" where
  "agm_pcm_frames_to_bytes config frames =
     frames * channels config * drop_bit 3 (agm_format_to_bits (format config))"

text \<open>A division by zero is undefined.\<close>

definition agm_pcm_bytes_to_frames :: "u32 \<Rightarrow> agm_media_config \<Rightarrow> u32 option" where
  "agm_pcm_bytes_to_frames bytes config =
     (let frame_bits = channels config * agm_format_to_bits (format config) in
      if frame_bits = 0 then None else Some (bytes * 8 div frame_bits))"

text \<open>The handle is NULL after an error.\<close>

definition agm_get_session_handle :: "agm_pcm_priv option \<Rightarrow> int \<times> nat option" where
  "agm_get_session_handle priv =
     (case priv of None \<Rightarrow> (- EINVAL, None)
      | Some p \<Rightarrow> if pp_handle p = None then (- EINVAL, None) else (0, pp_handle p))"

section \<open>The position in the shared buffer\<close>

definition agm_pcm_plugin_apply_appl_ptr :: "u64 \<Rightarrow> agm_pcm_priv \<Rightarrow> agm_pcm_priv option" where
  "agm_pcm_plugin_apply_appl_ptr v priv = do {
     pos \<leftarrow> pp_pos_buf priv; Some (priv\<lparr>pp_pos_buf := Some (pos\<lparr>appl_ptr := v\<rparr>)\<rparr>) }"

definition agm_pcm_plugin_apply_avail_min :: "u64 \<Rightarrow> agm_pcm_priv \<Rightarrow> agm_pcm_priv option" where
  "agm_pcm_plugin_apply_avail_min v priv = do {
     pos \<leftarrow> pp_pos_buf priv; Some (priv\<lparr>pp_pos_buf := Some (pos\<lparr>avail_min := v\<rparr>)\<rparr>) }"

definition agm_pcm_plugin_get_avail_min :: "agm_pcm_priv \<Rightarrow> u64 option" where
  "agm_pcm_plugin_get_avail_min priv = map_option avail_min (pp_pos_buf priv)"

definition agm_pcm_plugin_get_appl_ptr :: "agm_pcm_priv \<Rightarrow> u64 option" where
  "agm_pcm_plugin_get_appl_ptr priv = map_option appl_ptr (pp_pos_buf priv)"

definition agm_pcm_plugin_get_hw_ptr :: "agm_pcm_priv \<Rightarrow> u64 option" where
  "agm_pcm_plugin_get_hw_ptr priv = map_option hw_ptr (pp_pos_buf priv)"

text \<open>A volatile read: the DSP writes the buffer, so every read may see another value.\<close>

definition read_pos :: "plug_env \<Rightarrow> nat \<Rightarrow> pos_field \<Rightarrow> u32 plug" where
  "read_pos X a f s = do { (r, s) \<leftarrow> pcall X (P_read_pos a f) s; Some (pr_word r, s) }"

text \<open>The inner loop, with the number of tries left and the value of \<open>frame_cnt1\<close>.\<close>

fun read_frame_cnt :: "plug_env \<Rightarrow> nat \<Rightarrow> nat \<Rightarrow> u32 \<Rightarrow> u32 plug" where
  "read_frame_cnt X a 0 v s = Some (v, s)"
| "read_frame_cnt X a (Suc j) v s = do {
     (v, s) \<leftarrow> read_pos X a Frame_counter s;
     if v \<noteq> 0 then Some (v, s) else read_frame_cnt X a j v s
   }"

text \<open>The outer loop; the results are the return code and what is stored through the pointers.\<close>

fun shared_pos_loop :: "plug_env \<Rightarrow> nat \<Rightarrow> nat \<Rightarrow> u32 \<times> u32 \<times> u32 \<Rightarrow> (int \<times> u32 \<times> u32 \<times> u32) plug" where
  "shared_pos_loop X a 0 out s = Some ((- EAGAIN, out), s)"
| "shared_pos_loop X a (Suc i) out s = do {
     (frame_cnt1, s) \<leftarrow> read_frame_cnt X a 5 0 s;
     (msw, s) \<leftarrow> read_pos X a Wall_clock_us_msw s;
     (lsw, s) \<leftarrow> read_pos X a Wall_clock_us_lsw s;
     (idx, s) \<leftarrow> read_pos X a Read_index s;
     (frame_cnt2, s) \<leftarrow> read_pos X a Frame_counter s;
     if frame_cnt1 \<noteq> frame_cnt2 then shared_pos_loop X a i (idx, msw, lsw) s
     else Some ((0, idx, msw, lsw), s)
   }"

text \<open>The mapping may have failed; a read through it is then undefined.\<close>

definition agm_pcm_plugin_get_shared_pos ::
    "plug_env \<Rightarrow> pcm_plugin_pos_buf_info \<Rightarrow> u32 \<times> u32 \<times> u32 \<Rightarrow> (int \<times> u32 \<times> u32 \<times> u32) plug" where
  "agm_pcm_plugin_get_shared_pos X pos out s = do {
     a \<leftarrow> pos_buf_addr pos;
     shared_pos_loop X a 2 out s
   }"

text \<open>\<open>do \<dots> while (ret == -EAGAIN && --retries)\<close>, with the retries that are left.\<close>

fun shared_pos_retry ::
    "plug_env \<Rightarrow> pcm_plugin_pos_buf_info \<Rightarrow> nat \<Rightarrow> u32 \<times> u32 \<times> u32 \<Rightarrow> (int \<times> u32 \<times> u32 \<times> u32) plug" where
  "shared_pos_retry X pos retries out s = do {
     ((ret, out), s) \<leftarrow> agm_pcm_plugin_get_shared_pos X pos out s;
     if ret = - EAGAIN \<and> retries - 1 > 0 then shared_pos_retry X pos (retries - 1) out s
     else Some ((ret, out), s)
   }"

declare shared_pos_retry.simps [simp del]

text \<open>The new hardware pointer, for a position that was read.\<close>

definition advance_hw_ptr :: "u64 \<Rightarrow> u64 \<Rightarrow> pcm_plugin_pos_buf_info \<Rightarrow> pcm_plugin_pos_buf_info" where
  "advance_hw_ptr tot pos pb =
     (let new_hw_ptr = hw_ptr_base pb + pos in
      if new_hw_ptr < hw_ptr pb then
        (let hw_base = hw_ptr_base pb + tot;
             hw_base = (if hw_base \<ge> ucast (boundary pb) then 0 else hw_base)
         in pb\<lparr>hw_ptr_base := hw_base, hw_ptr := hw_base + pos\<rparr>)
      else pb\<lparr>hw_ptr := new_hw_ptr\<rparr>)"

definition agm_pcm_plugin_update_hw_ptr :: "plug_env \<Rightarrow> agm_pcm_priv \<Rightarrow> (int \<times> agm_pcm_priv) plug" where
  "agm_pcm_plugin_update_hw_ptr X priv s = do {
     pb \<leftarrow> pp_pos_buf priv;
     ((ret, read_index, _, _), s) \<leftarrow> shared_pos_retry X pb 10 (0, 0, 0) s;
     if ret = 0 then do {
       circ_buf_pos \<leftarrow> agm_pcm_bytes_to_frames read_index (pp_media_config priv);
       if pp_period_size priv = 0 then None
       else do {
         let per = (ucast (pp_period_size priv) :: u64);
         let pos = (ucast circ_buf_pos div per) * per;
         (r, s) \<leftarrow> pcall X P_clock_gettime s;
         Some ((ret, priv\<lparr>pp_pos_buf :=
           Some ((advance_hw_ptr (total_size_frames priv) pos pb)\<lparr>tstamp := pr_time r\<rparr>)\<rparr>), s)
       }
     } else Some ((ret, priv), s)
   }"

section \<open>Operations\<close>

definition agm_pcm_hw_params ::
    "plug_env \<Rightarrow> pcm_plugin \<Rightarrow> snd_pcm_hw_params \<Rightarrow> (int \<times> pcm_plugin) plug" where
  "agm_pcm_hw_params X plugin params s =
     (let (ret, handle) = agm_get_session_handle (pl_priv plugin) in
      if ret \<noteq> 0 then Some ((ret, plugin), s)
      else do {
        priv \<leftarrow> pl_priv plugin;
        rt \<leftarrow> param_get_int params SNDRV_PCM_HW_PARAM_RATE;
        ch \<leftarrow> param_get_int params SNDRV_PCM_HW_PARAM_CHANNELS;
        fmt \<leftarrow> param_get_mask_val params SNDRV_PCM_HW_PARAM_FORMAT;
        let mc = (pp_media_config priv)\<lparr>rate := rt, channels := ch, format := fmt\<rparr>;
        cnt \<leftarrow> param_get_int params SNDRV_PCM_HW_PARAM_PERIODS;
        per \<leftarrow> param_get_int params SNDRV_PCM_HW_PARAM_PERIOD_SIZE;
        let bc = (pp_buffer_config priv)\<lparr>bcount := cnt, bsize := ucast (agm_pcm_frames_to_bytes mc per)\<rparr>;
        ((_, v), s) \<leftarrow> on_cards (snd_card_def_get_int (pl_node plugin) ''hostless'') s;
        let is_hostless_val = (case v of None \<Rightarrow> 0 | Some i \<Rightarrow> i);
        let sc = (pp_session_config priv)\<lparr>
          dir := (if has_flag (pl_mode plugin) (konst (penv X) PCM_IN) then TX else RX),
          is_hostless := is_hostless_val \<noteq> 0\<rparr>;
        let sc = (if has_flag (pl_mode plugin) (pflags X PCM_MMAP)
                     \<and> has_flag (pl_mode plugin) (pflags X PCM_NOIRQ)
                  then sc\<lparr>data_mode := AGM_DATA_PUSH_PULL\<rparr> else sc);
        let priv = priv\<lparr>pp_media_config := mc, pp_buffer_config := bc, pp_session_config := sc,
                        pp_period_size := per, total_size_frames := ucast (cnt * per)\<rparr>;
        (ret, s) \<leftarrow> on_svc (agm_session_set_config (pp_handle priv) sc mc bc) s;
        Some ((ret, plugin\<lparr>pl_priv := Some priv\<rparr>), s)
      })"

definition agm_pcm_sw_params ::
    "plug_env \<Rightarrow> pcm_plugin \<Rightarrow> snd_pcm_sw_params \<Rightarrow> (int \<times> pcm_plugin) plug" where
  "agm_pcm_sw_params X plugin sparams s =
     (let (ret, handle) = agm_get_session_handle (pl_priv plugin) in
      if ret \<noteq> 0 then Some ((ret, plugin), s)
      else do {
        priv \<leftarrow> pl_priv plugin;
        let sc = (pp_session_config priv)\<lparr>start_threshold := ucast (sp_start_threshold sparams),
                    stop_threshold := ucast (sp_stop_threshold sparams)\<rparr>;
        let priv = priv\<lparr>pp_session_config := sc\<rparr>;
        (ret, s) \<leftarrow> on_svc (agm_session_set_config (pp_handle priv) sc
                      (pp_media_config priv) (pp_buffer_config priv)) s;
        Some ((ret, plugin\<lparr>pl_priv := Some priv\<rparr>), s)
      })"

text \<open>The second half of \<open>agm_pcm_sync_ptr\<close>, behind the synchronisation with the hardware.\<close>

definition sync_appl ::
    "agm_pcm_priv \<Rightarrow> snd_pcm_sync_ptr \<Rightarrow> (agm_pcm_priv \<times> snd_pcm_sync_ptr) option" where
  "sync_appl priv sp =
     (if sy_flags sp AND SNDRV_PCM_SYNC_PTR_APPL = 0 then do {
        priv \<leftarrow> agm_pcm_plugin_apply_appl_ptr (sy_appl_ptr sp) priv; Some (priv, sp) }
      else do { v \<leftarrow> agm_pcm_plugin_get_appl_ptr priv; Some (priv, sp\<lparr>sy_appl_ptr := v\<rparr>) })"

definition sync_avail ::
    "agm_pcm_priv \<Rightarrow> snd_pcm_sync_ptr \<Rightarrow> (agm_pcm_priv \<times> snd_pcm_sync_ptr) option" where
  "sync_avail priv sp =
     (if sy_flags sp AND SNDRV_PCM_SYNC_PTR_AVAIL_MIN = 0 then do {
        priv \<leftarrow> agm_pcm_plugin_apply_avail_min (sy_avail_min sp) priv; Some (priv, sp) }
      else do { v \<leftarrow> agm_pcm_plugin_get_avail_min priv; Some (priv, sp\<lparr>sy_avail_min := v\<rparr>) })"

definition sync_ptr_exchange ::
    "agm_pcm_priv \<Rightarrow> snd_pcm_sync_ptr \<Rightarrow> (agm_pcm_priv \<times> snd_pcm_sync_ptr) option" where
  "sync_ptr_exchange priv sp = do {
     (priv, sp) \<leftarrow> sync_appl priv sp;
     (priv, sp) \<leftarrow> sync_avail priv sp;
     hw \<leftarrow> agm_pcm_plugin_get_hw_ptr priv;
     pb \<leftarrow> pp_pos_buf priv;
     Some (priv, sp\<lparr>sy_hw_ptr := hw, sy_tstamp := tstamp pb\<rparr>)
   }"

definition sync_hw ::
    "plug_env \<Rightarrow> agm_pcm_priv \<Rightarrow> snd_pcm_sync_ptr \<Rightarrow> (int \<times> agm_pcm_priv) plug" where
  "sync_hw X priv sp s =
     (if sy_flags sp AND SNDRV_PCM_SYNC_PTR_HWSYNC \<noteq> 0
      then agm_pcm_plugin_update_hw_ptr X priv s else Some ((0, priv), s))"

definition agm_pcm_sync_ptr ::
    "plug_env \<Rightarrow> pcm_plugin \<Rightarrow> snd_pcm_sync_ptr \<Rightarrow> (int \<times> snd_pcm_sync_ptr \<times> pcm_plugin) plug" where
  "agm_pcm_sync_ptr X plugin sp s =
     (if \<not> has_flag (pl_mode plugin) (pflags X PCM_NOIRQ) then Some ((- EOPNOTSUPP, sp, plugin), s)
      else let (ret, handle) = agm_get_session_handle (pl_priv plugin) in
      if ret \<noteq> 0 then Some ((ret, sp, plugin), s)
      else do {
        priv \<leftarrow> pl_priv plugin;
        if pp_buf_info priv = None then Some ((- EINVAL, sp, plugin), s)
        else do {
          ((ret, priv), s) \<leftarrow> sync_hw X priv sp s;
          if ret < 0 then Some ((ret, sp, plugin\<lparr>pl_priv := Some priv\<rparr>), s)
          else do {
            (priv, sp) \<leftarrow> sync_ptr_exchange priv sp;
            Some ((ret, sp, plugin\<lparr>pl_priv := Some priv\<rparr>), s)
          }
        }
      })"

text \<open>The number of bytes of a transfer.\<close>

definition xfer_count :: "agm_media_config \<Rightarrow> u64 \<Rightarrow> u64" where
  "xfer_count mc frames = frames * ucast (channels mc * agm_format_to_bits (format mc) div 8)"

text \<open>
  The service reads \<open>count\<close> bytes of the client's buffer, or writes into it; a buffer that is
  too short is undefined.
\<close>

definition agm_pcm_writei_frames :: "plug_env \<Rightarrow> pcm_plugin \<Rightarrow> snd_xferi \<Rightarrow> int plug" where
  "agm_pcm_writei_frames X plugin x s =
     (let (ret, handle) = agm_get_session_handle (pl_priv plugin) in
      if ret \<noteq> 0 then Some (ret, s)
      else do {
        priv \<leftarrow> pl_priv plugin;
        let count = unat (xfer_count (pp_media_config priv) (xf_frames x));
        if length (xf_buf x) < count then None
        else do {
          ((ret, _), s) \<leftarrow> on_svc (agm_session_write (penv X) handle (take count (xf_buf x))) s;
          Some (ret, s\<lparr>perrno := ret\<rparr>)
        }
      })"

definition agm_pcm_readi_frames :: "plug_env \<Rightarrow> pcm_plugin \<Rightarrow> snd_xferi \<Rightarrow> (int \<times> snd_xferi) plug" where
  "agm_pcm_readi_frames X plugin x s =
     (let (ret, handle) = agm_get_session_handle (pl_priv plugin) in
      if ret \<noteq> 0 then Some ((ret, x), s)
      else do {
        priv \<leftarrow> pl_priv plugin;
        let count = unat (xfer_count (pp_media_config priv) (xf_frames x));
        ((ret, _, bytes), s) \<leftarrow> on_svc (agm_session_read (penv X) handle count) s;
        if length (xf_buf x) < length bytes then None
        else Some ((ret, x\<lparr>xf_buf := bytes @ drop (length bytes) (xf_buf x)\<rparr>), s\<lparr>perrno := ret\<rparr>)
      })"

definition agm_pcm_ttstamp :: "pcm_plugin \<Rightarrow> int plug" where
  "agm_pcm_ttstamp plugin s =
     (let (ret, handle) = agm_get_session_handle (pl_priv plugin) in
      if ret \<noteq> 0 then Some (ret, s) else Some (0, s))"

text \<open>The three operations that pass the handle to the service and set \<open>errno\<close>.\<close>

definition pcm_session_op :: "(nat option \<Rightarrow> int agm) \<Rightarrow> pcm_plugin \<Rightarrow> int plug" where
  "pcm_session_op f plugin s =
     (let (ret, handle) = agm_get_session_handle (pl_priv plugin) in
      if ret \<noteq> 0 then Some (ret, s)
      else do { (ret, s) \<leftarrow> on_svc (f handle) s; Some (ret, s\<lparr>perrno := ret\<rparr>) })"

definition agm_pcm_prepare :: "plug_env \<Rightarrow> pcm_plugin \<Rightarrow> int plug" where
  "agm_pcm_prepare X = pcm_session_op (agm_session_prepare (penv X))"

definition agm_pcm_start :: "plug_env \<Rightarrow> pcm_plugin \<Rightarrow> int plug" where
  "agm_pcm_start X = pcm_session_op (agm_session_start (penv X))"

definition agm_pcm_drop :: "plug_env \<Rightarrow> pcm_plugin \<Rightarrow> int plug" where
  "agm_pcm_drop X = pcm_session_op (agm_session_stop (penv X))"

text \<open>\<open>buf_info\<close> and \<open>pos_buf\<close> are not freed here.\<close>

definition agm_pcm_close :: "plug_env \<Rightarrow> pcm_plugin \<Rightarrow> int plug" where
  "agm_pcm_close X plugin s =
     (let (ret, handle) = agm_get_session_handle (pl_priv plugin) in
      if ret \<noteq> 0 then Some (ret, s)
      else do {
        priv \<leftarrow> pl_priv plugin;
        (ret, s) \<leftarrow> on_svc (agm_session_close (penv X) handle) s;
        let s = s\<lparr>perrno := ret\<rparr>;
        (_, s) \<leftarrow> on_cards (snd_card_def_put_card (pp_card_node priv)) s;
        s \<leftarrow> p_frees [Blk_buffer_config, Blk_media_config, Blk_session_config, Blk_priv, Blk_plugin] s;
        Some (ret, s)
      })"

text \<open>The difference of the pointers is computed in \<open>unsigned long\<close> and read as \<open>long\<close>.\<close>

definition agm_pcm_get_avail :: "plug_env \<Rightarrow> pcm_plugin \<Rightarrow> int option" where
  "agm_pcm_get_avail X plugin =
     (if has_flag (pl_mode plugin) (konst (penv X) PCM_OUT) then do {
        priv \<leftarrow> pl_priv plugin;
        pb \<leftarrow> pp_pos_buf priv;
        let avail = sint (hw_ptr pb + total_size_frames priv - appl_ptr pb);
        Some (if avail < 0 then avail + uint (boundary pb)
              else if avail \<ge> uint (boundary pb) then avail - uint (boundary pb)
              else avail)
      } else if has_flag (pl_mode plugin) (konst (penv X) PCM_IN) then do {
        priv \<leftarrow> pl_priv plugin;
        pb \<leftarrow> pp_pos_buf priv;
        let avail = sint (hw_ptr pb - appl_ptr pb);
        Some (if avail < 0 then avail + uint (boundary pb) else avail)
      } else Some 0)"

text \<open>
  The results are the return value, the new \<open>revents\<close> if they are set, and the plugin. The
  argument of \<open>usleep\<close> is computed in \<open>int\<close>, where an overflow is undefined.
\<close>

definition pcm_poll_wait ::
    "plug_env \<Rightarrow> pcm_plugin \<Rightarrow> agm_pcm_priv \<Rightarrow> int \<Rightarrow> int \<Rightarrow> (int \<times> pcm_plugin) plug" where
  "pcm_poll_wait X plugin priv timeout avail s = do {
     let t = (if timeout = 0 then 1 else timeout) * 1000;
     if t < - (2 ^ 31) \<or> t \<ge> 2 ^ 31 then None
     else do {
       (_, s) \<leftarrow> pcall X (P_usleep (word_of_int t)) s;
       ((ret, priv), s) \<leftarrow> agm_pcm_plugin_update_hw_ptr X priv s;
       let plugin = plugin\<lparr>pl_priv := Some priv\<rparr>;
       if ret = 0 then do {
         avail \<leftarrow> agm_pcm_get_avail X plugin; Some ((avail, plugin), s) }
       else Some ((avail, plugin), s)
     }
   }"

definition agm_pcm_poll ::
    "plug_env \<Rightarrow> pcm_plugin \<Rightarrow> int \<Rightarrow> (int \<times> int option \<times> pcm_plugin) plug" where
  "agm_pcm_poll X plugin timeout s = do {
     priv \<leftarrow> pl_priv plugin;
     let period = uint (pp_period_size priv);
     avail \<leftarrow> agm_pcm_get_avail X plugin;
     ((avail, plugin), s) \<leftarrow>
       (if avail < period then pcm_poll_wait X plugin priv timeout avail s
        else Some ((avail, plugin), s));
     if avail \<ge> period then
       (if has_flag (pl_mode plugin) (konst (penv X) PCM_IN)
        then Some ((POLLIN, Some (POLLIN + POLLOUT), plugin), s)
        else Some ((POLLOUT, Some POLLOUT, plugin), s))
     else Some ((0, None, plugin), s)
   }"

section \<open>Mapping the buffers\<close>

text \<open>
  \<open>while (boundary * 2 <= 0x7fffffffUL - total) boundary *= 2\<close>: the left side is computed in
  32 bits, the right side in 64 bits, and both wrap. The loop need not end.
\<close>

partial_function (option) boundary_loop :: "u64 \<Rightarrow> u32 \<Rightarrow> u32 option" where
  "boundary_loop tot b =
     (if (ucast (b * 2) :: u64) \<le> 0x7fffffff - tot then boundary_loop tot (b * 2) else Some b)"

definition zero_buf_info :: agm_buf_info where
  "zero_buf_info = \<lparr>data_buf_fd = 0, data_buf_size = 0, pos_buf_fd = 0, pos_buf_size = 0\<rparr>"

definition zero_pos_buf :: pcm_plugin_pos_buf_info where
  "zero_pos_buf = \<lparr>pos_buf_addr = None, boundary = 0, hw_ptr = 0, hw_ptr_base = 0, tstamp = (0, 0),
     appl_ptr = 0, avail_min = 0\<rparr>"

definition get_mmap_info :: "plug_env \<Rightarrow> u32 \<Rightarrow> agm_pcm_priv \<Rightarrow> (bool \<times> agm_pcm_priv) plug" where
  "get_mmap_info X mode priv s =
     (if pp_buf_info priv \<noteq> None then Some ((True, priv), s)
      else do {
        (ok, s) \<leftarrow> p_calloc X Blk_buf_info s;
        if \<not> ok then Some ((False, priv), s)
        else do {
          ((ret, bi), s) \<leftarrow> on_svc (agm_session_get_buf_info (penv X) (pp_session_id priv) zero_buf_info
              (if has_flag mode (pflags X PCM_NOIRQ) then 3 else 1)) s;
          if ret \<noteq> 0 then do { s \<leftarrow> p_free Blk_buf_info s; Some ((False, priv), s) }
          else Some ((True, priv\<lparr>pp_buf_info := Some bi\<rparr>), s)
        }
      })"

text \<open>The result of the \<open>mmap\<close> of the position buffer is stored unchecked.\<close>

definition map_pos_buf :: "plug_env \<Rightarrow> u32 \<Rightarrow> agm_pcm_priv \<Rightarrow> (bool \<times> agm_pcm_priv) plug" where
  "map_pos_buf X mode priv s =
     (if \<not> has_flag mode (pflags X PCM_NOIRQ) \<or> pp_pos_buf priv \<noteq> None then Some ((True, priv), s)
      else do {
        (ok, s) \<leftarrow> p_calloc X Blk_pos_buf s;
        if \<not> ok then Some ((False, priv), s)
        else do {
          bi \<leftarrow> pp_buf_info priv;
          (r, s) \<leftarrow> pcall X (P_mmap (pos_buf_fd bi) (word_of_int (pos_buf_size bi))) s;
          bd \<leftarrow> boundary_loop (total_size_frames priv) (ucast (total_size_frames priv));
          Some ((True, priv\<lparr>pp_pos_buf :=
            Some (zero_pos_buf\<lparr>pos_buf_addr := pr_addr r, boundary := bd\<rparr>)\<rparr>), s)
        }
      })"

text \<open>The result is the address, or \<open>None\<close> for \<open>MAP_FAILED\<close>.\<close>

definition map_data_buf ::
    "plug_env \<Rightarrow> pcm_plugin \<Rightarrow> agm_pcm_priv \<Rightarrow> u64 \<Rightarrow> (nat option \<times> pcm_plugin) plug" where
  "map_data_buf X plugin priv len s = do {
     bi \<leftarrow> pp_buf_info priv;
     if len > word_of_int (data_buf_size bi) then Some ((None, plugin), s)
     else do {
       (r, s) \<leftarrow> pcall X (P_mmap (data_buf_fd bi) len) s;
       Some ((pr_addr r, plugin), s)
     }
   }"

definition map_buffers ::
    "plug_env \<Rightarrow> pcm_plugin \<Rightarrow> agm_pcm_priv \<Rightarrow> u64 \<Rightarrow> (nat option \<times> pcm_plugin) plug" where
  "map_buffers X plugin priv len s = do {
     ((ok, priv), s) \<leftarrow> map_pos_buf X (pl_mode plugin) priv s;
     let plugin = plugin\<lparr>pl_priv := Some priv\<rparr>;
     if \<not> ok then Some ((None, plugin), s) else map_data_buf X plugin priv len s
   }"

definition agm_pcm_mmap ::
    "plug_env \<Rightarrow> pcm_plugin \<Rightarrow> u64 \<Rightarrow> int \<Rightarrow> (nat option \<times> pcm_plugin) plug" where
  "agm_pcm_mmap X plugin len offset s =
     (if offset \<noteq> 0 then Some ((None, plugin), s)
      else let (ret, handle) = agm_get_session_handle (pl_priv plugin) in
      if ret \<noteq> 0 then Some ((None, plugin), s)
      else do {
        priv \<leftarrow> pl_priv plugin;
        ((ok, priv), s) \<leftarrow> get_mmap_info X (pl_mode plugin) priv s;
        let plugin = plugin\<lparr>pl_priv := Some priv\<rparr>;
        if \<not> ok then Some ((None, plugin), s) else map_buffers X plugin priv len s
      })"

definition agm_pcm_munmap ::
    "plug_env \<Rightarrow> pcm_plugin \<Rightarrow> nat option \<Rightarrow> u64 \<Rightarrow> (int \<times> pcm_plugin) plug" where
  "agm_pcm_munmap X plugin addr len s = do {
     (plugin, s) \<leftarrow>
       (if has_flag (pl_mode plugin) (pflags X PCM_NOIRQ) then do {
          priv \<leftarrow> pl_priv plugin;
          case pp_pos_buf priv of None \<Rightarrow> Some (plugin, s)
          | Some pb \<Rightarrow> do {
              bi \<leftarrow> pp_buf_info priv;
              (_, s) \<leftarrow> pcall X (P_munmap (pos_buf_addr pb) (word_of_int (pos_buf_size bi))) s;
              s \<leftarrow> p_free Blk_pos_buf s;
              Some (plugin\<lparr>pl_priv := Some (priv\<lparr>pp_pos_buf := None\<rparr>)\<rparr>, s)
            }
        } else Some (plugin, s));
     (r, s) \<leftarrow> pcall X (P_munmap addr len) s;
     Some ((pr_rc r, plugin), s)
   }"

section \<open>Opening\<close>

text \<open>
  The labels at the end: the card is put back if there is one, the blocks are freed in the
  reverse order of their allocation, and the result is made negative.
\<close>

definition pcm_open_fail :: "int \<Rightarrow> nat option \<Rightarrow> pblock list \<Rightarrow> (int \<times> pcm_plugin option) plug" where
  "pcm_open_fail ret card_node blks s = do {
     (_, s) \<leftarrow> on_cards (snd_card_def_put_card card_node) s;
     s \<leftarrow> p_frees blks s;
     Some ((if ret < 0 then ret else - ret, None), s)
   }"

definition new_priv :: "nat option \<Rightarrow> u32 \<Rightarrow> agm_pcm_priv" where
  "new_priv card_node sid = \<lparr>pp_media_config = zero_media_config,
     pp_buffer_config = \<lparr>bcount = 0, bsize = 0\<rparr>, pp_session_config = zero_stream_config,
     pp_buf_info = None, pp_pos_buf = None, pp_handle = None, pp_card_node = card_node,
     pp_session_id = sid, pp_period_size = 0, total_size_frames = 0\<rparr>"

text \<open>The five allocations, in order; the list of blocks taken so far is reversed.\<close>

fun pcm_allocs :: "plug_env \<Rightarrow> pblock list \<Rightarrow> pblock list \<Rightarrow> (bool \<times> pblock list) plug" where
  "pcm_allocs X [] blks s = Some ((True, blks), s)"
| "pcm_allocs X (b # bs) blks s = do {
     (ok, s) \<leftarrow> p_calloc X b s;
     if ok then pcm_allocs X bs (b # blks) s else Some ((False, blks), s)
   }"

text \<open>The rest of the function behind each of its steps, from the last one up.\<close>

definition pcm_open_session ::
    "plug_env \<Rightarrow> u32 \<Rightarrow> u32 \<Rightarrow> u32 \<Rightarrow> pblock list \<Rightarrow> nat option \<Rightarrow> dev_node option
      \<Rightarrow> (int \<times> pcm_plugin option) plug" where
  "pcm_open_session X crd device mode blks card_node pcm_node s = do {
     ((ret, handle), s) \<leftarrow> on_svc (agm_session_open (penv X) device True) s;
     let s = s\<lparr>perrno := ret\<rparr>;
     if ret \<noteq> 0 then pcm_open_fail ret card_node blks s
     else Some ((0, Some \<lparr>pl_card = crd, pl_node = pcm_node, pl_mode = mode,
       pl_priv = Some ((new_priv card_node device)\<lparr>pp_handle := handle\<rparr>)\<rparr>), s)
   }"

definition pcm_open_node ::
    "plug_env \<Rightarrow> u32 \<Rightarrow> u32 \<Rightarrow> u32 \<Rightarrow> pblock list \<Rightarrow> nat option \<Rightarrow> (int \<times> pcm_plugin option) plug" where
  "pcm_open_node X crd device mode blks card_node s = do {
     (pcm_node, s) \<leftarrow> on_cards (snd_card_def_get_node card_node device SND_NODE_TYPE_PCM) s;
     if pcm_node = None then pcm_open_fail (- EINVAL) card_node blks s
     else pcm_open_session X crd device mode blks card_node pcm_node s
   }"

definition pcm_open_card ::
    "plug_env \<Rightarrow> u32 \<Rightarrow> u32 \<Rightarrow> u32 \<Rightarrow> pblock list \<Rightarrow> (int \<times> pcm_plugin option) plug" where
  "pcm_open_card X crd device mode blks s = do {
     (card_node, s) \<leftarrow> on_cards (snd_card_def_get_card (cenv X) crd) s;
     if card_node = None then pcm_open_fail (- EINVAL) None blks s
     else pcm_open_node X crd device mode blks card_node s
   }"

definition agm_pcm_plugin_open ::
    "plug_env \<Rightarrow> u32 \<Rightarrow> u32 \<Rightarrow> u32 \<Rightarrow> (int \<times> pcm_plugin option) plug" where
  "agm_pcm_plugin_open X crd device mode s = do {
     ((ok, blks), s) \<leftarrow> pcm_allocs X
       [Blk_plugin, Blk_priv, Blk_media_config, Blk_buffer_config, Blk_session_config] [] s;
     if \<not> ok then pcm_open_fail (- ENOMEM) None blks s
     else pcm_open_card X crd device mode blks s
   }"

end
