(* ===== verification/Agm_Pcm_Props.thy ===== *)
theory Agm_Pcm_Props
  imports Agm_Pcm_Plugin Agm_Frames Agm_Sample
begin

text \<open>
  Correctness of the PCM plugin: the loop that computes the pointer boundary, the hardware
  pointer as the position of the stream modulo the boundary, the available frames as a
  distance on the ring, and what \<open>poll\<close> makes of them.
\<close>

section \<open>The boundary\<close>

lemma unat_u32: "unat (w :: u32) < 2 ^ 32"
proof -
  have "unat w < 2 ^ LENGTH(32)" by (rule unsigned_less)
  then show ?thesis by simp
qed

lemma unat_u32_u64 [simp]: "unat (ucast (w :: u32) :: u64) = unat w"
  using unat_u32 [of w] by (simp add: unsigned_ucast_eq take_bit_nat_eq_self)

lemma unat_u64_u32: "unat (w :: u64) < 2 ^ 32 \<Longrightarrow> unat (ucast w :: u32) = unat w"
  by (simp add: unsigned_ucast_eq take_bit_nat_eq_self)

lemma unat_limit:
  assumes "unat tot \<le> 0x7fffffff"
  shows "unat (0x7fffffff - tot :: u64) = 0x7fffffff - unat tot"
  using assms by (simp add: unat_sub word_le_nat_alt)

lemma unat_double: "unat (b :: u32) \<le> 0x7fffffff \<Longrightarrow> unat (b * 2) = 2 * unat b"
  by (simp add: unat_word_ariths(2) mod_less)

lemma boundary_loop_ends:
  assumes "0 < unat b" "unat b \<le> 0x7fffffff" "unat tot \<le> 0x7fffffff"
  shows "\<exists>r k. boundary_loop tot b = Some r \<and> unat r = unat b * 2 ^ k \<and> unat r \<le> 0x7fffffff
    \<and> 0x7fffffff - unat tot < 2 * unat r \<and> (0 < k \<longrightarrow> unat r \<le> 0x7fffffff - unat tot)"
  using assms
proof (induction "0x80000000 - unat b" arbitrary: b rule: less_induct)
  case less
  have step: "(ucast (b * 2) :: u64) \<le> 0x7fffffff - tot \<longleftrightarrow> 2 * unat b \<le> 0x7fffffff - unat tot"
    using less.prems by (simp add: word_le_nat_alt unat_double unat_limit)
  show ?case
  proof (cases "2 * unat b \<le> 0x7fffffff - unat tot")
    case True
    have b2: "unat (b * 2) = 2 * unat b" using less.prems by (intro unat_double)
    obtain r k where "boundary_loop tot (b * 2) = Some r" "unat r = unat (b * 2) * 2 ^ k"
        "unat r \<le> 0x7fffffff" "0x7fffffff - unat tot < 2 * unat r"
        "0 < k \<longrightarrow> unat r \<le> 0x7fffffff - unat tot"
      using less.hyps [of "b * 2"] less.prems True b2 by fastforce
    then show ?thesis
      using True step b2 by (intro exI [of _ r] exI [of _ "Suc k"]) (cases k; simp add: boundary_loop.simps [of tot b])
  next
    case False
    then show ?thesis
      using step less.prems by (intro exI [of _ b] exI [of _ 0]) (simp add: boundary_loop.simps [of tot b])
  qed
qed

lemma boundary_loop_stuck:
  assumes "boundary_loop tot b = Some r"
  shows "\<not> (0x7fffffff < tot \<and> tot < 0x100000000) \<and> \<not> (tot = 0 \<and> b = 0)" (is "?P tot b r")
proof (rule boundary_loop.raw_induct [where P = ?P, OF _ assms])
  fix loop :: "u64 \<Rightarrow> u32 \<Rightarrow> u32 option" and tot :: u64 and b r :: u32
  assume IH: "\<And>tot b r. loop tot b = Some r \<Longrightarrow> ?P tot b r"
    and body: "(if (ucast (b * 2) :: u64) \<le> 0x7fffffff - tot then loop tot (b * 2) else Some b) = Some r"
  have "(ucast (b * 2) :: u64) \<le> 0x7fffffff - tot" if "0x7fffffff < tot" "tot < 0x100000000"
  proof -
    from that have "0x7fffffff < unat tot" "unat tot < 0x100000000" by (simp_all add: word_less_nat_alt)
    then have "unat (0x7fffffff - tot) \<ge> 0x100000000" by (simp add: unat_sub_if_size word_size)
    then show ?thesis using unat_u32 [of "b * 2"] by (simp add: word_le_nat_alt)
  qed
  then show "?P tot b r"
    using IH [of tot "b * 2" r] body by (auto split: if_splits)
qed

text \<open>
  C39: The loop that computes the boundary of the stream pointers ends for every buffer of 1 to
  \<open>0x7fffffff\<close> frames, and gives the buffer size times the largest power of two such that the
  boundary and one more buffer stay below \<open>2\<^sup>3\<^sup>1\<close> (or the buffer size itself). It never ends
  for a buffer of no frames, nor for one of \<open>2\<^sup>3\<^sup>1\<close> frames or more, since the subtraction then
  wraps around; both can be asked for in \<open>hw_params\<close>.
\<close>

theorem boundary_terminates:
  assumes "unat (tot :: u64) < 2 ^ 32"
  shows "if 0 < unat tot \<and> unat tot \<le> 0x7fffffff
    then \<exists>r k. boundary_loop tot (ucast tot) = Some r \<and> unat r = unat tot * 2 ^ k \<and> unat r \<le> 0x7fffffff
      \<and> 0x7fffffff < 2 * unat r + unat tot \<and> (0 < k \<longrightarrow> unat r + unat tot \<le> 0x7fffffff)
    else boundary_loop tot (ucast tot) = None"
proof (cases "0 < unat tot \<and> unat tot \<le> 0x7fffffff")
  case True
  have "unat (ucast tot :: u32) = unat tot"
    using assms by (rule unat_u64_u32)
  then have "\<exists>r k. boundary_loop tot (ucast tot) = Some r \<and> unat r = unat tot * 2 ^ k \<and> unat r \<le> 0x7fffffff
      \<and> 0x7fffffff - unat tot < 2 * unat r \<and> (0 < k \<longrightarrow> unat r \<le> 0x7fffffff - unat tot)"
    using True boundary_loop_ends [of "ucast tot" tot] by simp
  then obtain r k where "boundary_loop tot (ucast tot) = Some r" "unat r = unat tot * 2 ^ k"
      "unat r \<le> 0x7fffffff" "0x7fffffff - unat tot < 2 * unat r" "0 < k \<longrightarrow> unat r \<le> 0x7fffffff - unat tot"
    by (elim exE conjE)
  then have "boundary_loop tot (ucast tot) = Some r \<and> unat r = unat tot * 2 ^ k \<and> unat r \<le> 0x7fffffff
      \<and> 0x7fffffff < 2 * unat r + unat tot \<and> (0 < k \<longrightarrow> unat r + unat tot \<le> 0x7fffffff)"
    using True by auto
  then show ?thesis using True by auto
next
  case False
  then have "unat tot = 0 \<or> 0x7fffffff < unat tot" by auto
  then have "tot = 0 \<or> 0x7fffffff < tot \<and> tot < 0x100000000"
    using assms by (auto simp: word_less_nat_alt unat_eq_zero)
  then have "boundary_loop tot (ucast tot) = None"
    using boundary_loop_stuck [of tot "ucast tot"] by (cases "boundary_loop tot (ucast tot)") auto
  then show ?thesis using False by simp
qed

theorem boundary_terminates_witness:
  "(\<exists>r k. boundary_loop 960 960 = Some r \<and> unat r = 960 * 2 ^ k) \<and> boundary_loop 0 0 = None"
  using boundary_terminates [of 960] boundary_terminates [of 0] by fastforce

section \<open>The hardware pointer\<close>

lemma floor_split:
  fixes n per tot :: nat
  assumes "per dvd tot" "0 < per"
  shows "n div per * per = n div tot * tot + n mod tot div per * per"
proof -
  obtain c where c: "tot = per * c" using assms(1) by blast
  have "n div per = (n div tot * c * per + n mod tot) div per"
    using div_mult_mod_eq [of n tot] c by (metis mult.assoc mult.commute)
  then have "n div per = n div tot * c + n mod tot div per" using assms(2) by simp
  then show ?thesis using c by (simp add: algebra_simps)
qed

lemma ring_base:
  fixes q tot B :: nat
  assumes "tot dvd B" "0 < B"
  shows "q * tot mod B + tot \<le> B"
    and "Suc q * tot mod B = (if q * tot mod B + tot = B then 0 else q * tot mod B + tot)"
    and "f < tot \<Longrightarrow> (q * tot + f) mod B = q * tot mod B + f"
proof -
  obtain d where d: "B = d * tot" using assms(1) by (auto simp: dvd_def mult.commute)
  then have pos: "0 < d" "0 < tot" using assms(2) by auto
  have m: "k * tot mod B = (k mod d) * tot" for k unfolding d by (rule mod_mult_mult2)
  have "Suc (q mod d) \<le> d" using pos by (simp add: Suc_le_eq)
  then have "Suc (q mod d) * tot \<le> d * tot" by (rule mult_le_mono1)
  then show le: "q * tot mod B + tot \<le> B" by (simp add: m) (simp add: d)
  show "Suc q * tot mod B = (if q * tot mod B + tot = B then 0 else q * tot mod B + tot)"
  proof -
    have "Suc q * tot mod B = (q * tot mod B + tot) mod B"
      unfolding mult_Suc add.commute [of tot] by (rule mod_add_left_eq [symmetric])
    then show ?thesis using le by simp
  qed
  assume "f < tot"
  then have "q * tot mod B + f < B" using le by simp
  then show "(q * tot + f) mod B = q * tot mod B + f" by (metis mod_add_left_eq mod_less)
qed

text \<open>
  The position buffer follows the stream: after \<open>n\<close> frames the base is the start of the
  current round through the buffer and the hardware pointer the start of the current period,
  both modulo the boundary.
\<close>

definition tracks :: "nat \<Rightarrow> nat \<Rightarrow> nat \<Rightarrow> pcm_plugin_pos_buf_info \<Rightarrow> bool" where
  "tracks per tot n pb \<longleftrightarrow> 0 < per \<and> per dvd tot \<and> tot dvd unat (boundary pb) \<and> 0 < unat (boundary pb)
     \<and> unat (hw_ptr_base pb) = n div tot * tot mod unat (boundary pb)
     \<and> unat (hw_ptr pb) = n div per * per mod unat (boundary pb)"

lemma tracks_ptr:
  assumes "tracks per tot n pb"
  shows "unat (hw_ptr pb) = unat (hw_ptr_base pb) + n mod tot div per * per"
    and "unat (hw_ptr_base pb) + tot \<le> unat (boundary pb)"
    and "n mod tot div per * per < tot"
proof -
  have d: "per dvd tot" "0 < per" "tot dvd unat (boundary pb)" "0 < unat (boundary pb)"
    using assms by (simp_all add: tracks_def)
  then have "0 < tot" by (auto intro: dvd_pos_nat)
  then show f: "n mod tot div per * per < tot" by (metis div_times_less_eq_dividend le_less_trans mod_less_divisor)
  show "unat (hw_ptr pb) = unat (hw_ptr_base pb) + n mod tot div per * per"
    using assms floor_split [OF d(1,2), of n] ring_base(3) [OF d(3,4) f] by (simp add: tracks_def)
  show "unat (hw_ptr_base pb) + tot \<le> unat (boundary pb)"
    using assms ring_base(1) [OF d(3,4)] by (simp add: tracks_def)
qed

lemma unat_u64_add:
  "unat a + unat b < 2 ^ 64 \<Longrightarrow> unat (a + b :: u64) = unat a + unat b"
  by (simp add: unat_word_ariths(1) mod_less)

lemma advance_tracks:
  assumes "tracks per tot n pb" "n \<le> n'" "n' + per \<le> n + tot"
    and "unat t = tot" "unat pos = n' mod tot div per * per"
  shows "tracks per tot n' (advance_hw_ptr t pos pb)"
proof -
  let ?B = "unat (boundary pb)"
  have d: "per dvd tot" "0 < per" "tot dvd ?B" "0 < ?B"
    using assms(1) by (simp_all add: tracks_def)
  then have tot: "0 < tot" by (auto intro: dvd_pos_nat)
  have B: "?B < 2 ^ 32" by (rule unat_u32)
  note p = tracks_ptr [OF assms(1)]
  have f': "n' mod tot div per * per < tot"
    using tot by (metis div_times_less_eq_dividend le_less_trans mod_less_divisor)
  have sum: "unat (hw_ptr_base pb + pos) = unat (hw_ptr_base pb) + unat pos"
      "unat (hw_ptr_base pb + t) = unat (hw_ptr_base pb) + tot"
    using p(2) f' B assms(4,5) by (simp_all add: unat_u64_add)
  have base: "unat (hw_ptr_base pb) = n div tot * tot mod ?B" using assms(1) by (simp add: tracks_def)
  show ?thesis
  proof (cases "n' div tot = n div tot")
    case True
    have "n mod tot \<le> n' mod tot"
    proof -
      have "n' div tot * tot = n div tot * tot" using True by simp
      then show ?thesis using assms(2) div_mult_mod_eq [of n tot] div_mult_mod_eq [of n' tot] by linarith
    qed
    then have "n mod tot div per * per \<le> n' mod tot div per * per" by (simp add: div_le_mono)
    then have ge: "\<not> hw_ptr_base pb + pos < hw_ptr pb"
      using p(1) sum(1) assms(5) by (simp only: word_less_nat_alt not_less)
    have "n' div per * per mod ?B = unat (hw_ptr_base pb) + unat pos"
      using floor_split [OF d(1,2), of n'] ring_base(3) [OF d(3,4) f'] True base assms(5) by simp
    with ge show ?thesis
      using assms(1) True sum(1) by (simp add: advance_hw_ptr_def tracks_def)
  next
    case False
    have "n' div tot \<le> (n + tot) div tot" using assms(3) by (intro div_le_mono) simp
    then have "n' div tot \<le> Suc (n div tot)" using div_add_self2 [of tot n] tot by linarith
    moreover have "n div tot \<le> n' div tot" using assms(2) by (intro div_le_mono)
    ultimately have q: "n' div tot = Suc (n div tot)" using False by linarith
    have "n' mod tot + per \<le> n mod tot"
      using assms(3) div_mult_mod_eq [of n tot] div_mult_mod_eq [of n' tot, unfolded q mult_Suc] by linarith
    then have "Suc (n' mod tot div per) \<le> n mod tot div per"
      using d(2) by (metis div_add_self2 div_le_mono add.commute plus_1_eq_Suc less_numeral_extra(3))
    then have "Suc (n' mod tot div per) * per \<le> n mod tot div per * per" by (rule mult_le_mono1)
    then have lt: "hw_ptr_base pb + pos < hw_ptr pb"
      using p(1) sum(1) assms(5) d(2) unfolding word_less_nat_alt mult_Suc by linarith
    let ?b = "if hw_ptr_base pb + t \<ge> ucast (boundary pb) then 0 else hw_ptr_base pb + t"
    have ub: "unat ?b = n' div tot * tot mod ?B"
      using ring_base(2) [OF d(3,4), of "n div tot"] q base sum(2) p(2) by (simp add: word_le_nat_alt)
    then have "unat ?b + tot \<le> ?B" using ring_base(1) [OF d(3,4)] by simp
    then have "unat (?b + pos) = unat ?b + unat pos"
      using B f' assms(5) by (intro unat_u64_add) simp
    moreover have "n' div per * per mod ?B = unat ?b + unat pos"
      using floor_split [OF d(1,2), of n'] ring_base(3) [OF d(3,4) f'] ub assms(5) by simp
    ultimately show ?thesis
      using lt ub d by (simp add: advance_hw_ptr_def tracks_def Let_def)
  qed
qed

text \<open>
  C13: The hardware pointer refines the position of the stream. If the position buffer follows
  the stream at \<open>n\<close> frames and the DSP has since moved on to \<open>n'\<close> frames, by at most the buffer
  less one period, then an update that reads a consistent position leaves the pointers
  following the stream at \<open>n'\<close>: the hardware pointer is the start of the current period modulo
  the boundary, below the boundary and never behind a round, whether or not the buffer or the
  boundary wrapped around in between.
\<close>

theorem hw_ptr_refines:
  assumes "pp_pos_buf priv = Some pb" "tracks per tot n pb" "n \<le> n'" "n' + per \<le> n + tot"
    and "unat (total_size_frames priv) = tot" "unat (pp_period_size priv) = per"
    and "shared_pos_retry X pb 10 (0, 0, 0) s = Some ((0, idx, msw, lsw), s1)"
    and "agm_pcm_bytes_to_frames idx (pp_media_config priv) = Some fr" "unat fr = n' mod tot"
  shows "\<exists>priv' pb' s'. agm_pcm_plugin_update_hw_ptr X priv s = Some ((0, priv'), s')
    \<and> pp_pos_buf priv' = Some pb' \<and> tracks per tot n' pb'
    \<and> unat (hw_ptr pb') = n' div per * per mod unat (boundary pb')"
proof -
  let ?per = "ucast (pp_period_size priv) :: u64"
  let ?pos = "(ucast fr div ?per) * ?per"
  let ?t = "pr_time (pext X (ptrace s1) P_clock_gettime)"
  let ?pb = "(advance_hw_ptr (total_size_frames priv) ?pos pb)\<lparr>tstamp := ?t\<rparr>"
  have per: "0 < per" using assms(2) by (simp add: tracks_def)
  have "unat (ucast fr div ?per) = n' mod tot div per"
    using assms(6,9) by (simp add: unat_div_distrib)
  moreover have "n' mod tot div per * per \<le> n' mod tot" by simp
  then have "n' mod tot div per * per < 2 ^ 32" using assms(9) unat_u32 [of fr] by linarith
  ultimately have "unat ?pos = n' mod tot div per * per"
    using assms(6) by (simp add: unat_word_ariths(2) mod_less)
  then have "tracks per tot n' (advance_hw_ptr (total_size_frames priv) ?pos pb)"
    by (rule advance_tracks [OF assms(2-5)])
  then have tr: "tracks per tot n' ?pb" by (simp add: tracks_def)
  have "pp_period_size priv \<noteq> 0" using per assms(6) by auto
  then have "agm_pcm_plugin_update_hw_ptr X priv s = Some ((0, priv\<lparr>pp_pos_buf := Some ?pb\<rparr>),
      s1\<lparr>ptrace := P_clock_gettime # ptrace s1\<rparr>)"
    using assms(1,7,8) by (simp add: agm_pcm_plugin_update_hw_ptr_def pcall_def Let_def)
  then show ?thesis using tr by (fastforce simp: tracks_def)
qed

definition sample_plug_env :: plug_env where
  "sample_plug_env = \<lparr>penv = sample_env, cenv = \<lparr>ce_alloc = \<lambda>n. True, ce_proc = \<lambda>n c. No_entry, ce_file = \<lambda>n. No_file\<rparr>,
     pflags = (\<lambda>f. case f of PCM_MMAP \<Rightarrow> 1 | PCM_NOIRQ \<Rightarrow> 2 | COMPRESS_IN \<Rightarrow> 0x10000000
       | SND_AUDIOSTREAMFORMAT_MP4LATM \<Rightarrow> 8 | SND_AUDIOSTREAMFORMAT_ADIF \<Rightarrow> 16
       | SND_AUDIOSTREAMFORMAT_MP4ADTS \<Rightarrow> 2),
     pcb_addr = (\<lambda>c. case c of Compress_event_cb \<Rightarrow> 1000 | Mixer_event_cb \<Rightarrow> 2000), dec_hdr = True,
     pext = (\<lambda>h c. \<lparr>pr_ok = True, pr_addr = Some 1,
       pr_word = (case c of P_read_pos a Read_index \<Rightarrow> 8 | _ \<Rightarrow> 7), pr_time = (1, 2), pr_rc = 0\<rparr>)\<rparr>"

definition sample_plug_state :: plug_state where
  "sample_plug_state = \<lparr>svc = sample_state, cards = \<lparr>snd_card_list = [], snd_card_list_init = False,
     next_card = 0, readers = 0, writer = False, tick = 0\<rparr>, live = [], perrno = 0, ptrace = []\<rparr>"

text \<open>Two periods of 24 frames, 4 bytes each; 90 frames are played, the DSP is at frame 98.\<close>

definition sample_pos_buf :: pcm_plugin_pos_buf_info where
  "sample_pos_buf = zero_pos_buf\<lparr>pos_buf_addr := Some 1, boundary := 96, hw_ptr := 72, hw_ptr_base := 48\<rparr>"

definition sample_priv :: agm_pcm_priv where
  "sample_priv = (new_priv None 1)\<lparr>pp_handle := Some 0, pp_period_size := 24, total_size_frames := 48,
     pp_media_config := \<lparr>rate = 48000, channels = 2, format = AGM_FORMAT_PCM_S16_LE, data_format = 0\<rparr>,
     pp_pos_buf := Some sample_pos_buf\<rparr>"

lemma sample_shared_pos:
  "\<exists>msw lsw s1. shared_pos_retry sample_plug_env sample_pos_buf 10 (0, 0, 0) sample_plug_state
     = Some ((0, 8, msw, lsw), s1)"
  by (simp add: shared_pos_retry.simps agm_pcm_plugin_get_shared_pos_def read_pos_def pcall_def
      sample_plug_env_def sample_pos_buf_def zero_pos_buf_def numeral_2_eq_2 eval_nat_numeral)

theorem hw_ptr_refines_witness:
  "\<exists>priv' pb' s'. agm_pcm_plugin_update_hw_ptr sample_plug_env sample_priv sample_plug_state = Some ((0, priv'), s')
    \<and> pp_pos_buf priv' = Some pb' \<and> tracks 24 48 98 pb'
    \<and> unat (hw_ptr pb') = 98 div 24 * 24 mod unat (boundary pb')"
proof -
  obtain msw lsw s1 where r: "shared_pos_retry sample_plug_env sample_pos_buf 10 (0, 0, 0) sample_plug_state
     = Some ((0, 8, msw, lsw), s1)" using sample_shared_pos by blast
  show ?thesis
    by (rule hw_ptr_refines [OF _ _ _ _ _ _ r, where n = 90 and fr = 2])
      (simp_all add: sample_priv_def sample_pos_buf_def zero_pos_buf_def tracks_def new_priv_def
        agm_pcm_bytes_to_frames_def agm_format_to_bits_def)
qed

section \<open>Available frames\<close>

lemma sint_u64: "- 9223372036854775808 \<le> k \<Longrightarrow> k < 9223372036854775808 \<Longrightarrow> sint (word_of_int k :: u64) = k"
  by (simp add: sint_sbintrunc' signed_take_bit_int_eq_self)

lemma ring_mod:
  fixes d B :: int
  assumes "- B \<le> d" "d < 2 * B"
  shows "(if d < 0 then d + B else if d \<ge> B then d - B else d) = d mod B"
proof -
  have "d mod B = (d + B) mod B" "d mod B = (d - B) mod B" by simp_all
  then show ?thesis using assms by (auto simp: mod_pos_pos_trivial simp del: mod_add_self2 minus_mod_self2)
qed

text \<open>
  With both pointers below the boundary and a buffer that is not larger than it, the
  available frames of a stream are its distance on the ring of the boundary: from the
  application to the hardware pointer for capture, and from the application pointer to the
  end of the buffer behind the hardware pointer for playback. The result is never negative
  and always below the boundary, whatever wrapped around.
\<close>

theorem avail_is_distance:
  assumes "pl_priv plugin = Some priv" "pp_pos_buf priv = Some pb"
    and "unat (hw_ptr pb) < unat (boundary pb)" "unat (appl_ptr pb) < unat (boundary pb)"
    and "unat (total_size_frames priv) \<le> unat (boundary pb)"
    and "has_flag (pl_mode plugin) (konst (penv X) PCM_OUT) \<or> has_flag (pl_mode plugin) (konst (penv X) PCM_IN)"
  shows "agm_pcm_get_avail X plugin = Some
    ((uint (hw_ptr pb) + (if has_flag (pl_mode plugin) (konst (penv X) PCM_OUT)
        then uint (total_size_frames priv) else 0) - uint (appl_ptr pb)) mod uint (boundary pb))"
proof -
  let ?h = "uint (hw_ptr pb)" and ?a = "uint (appl_ptr pb)" and ?t = "uint (total_size_frames priv)"
  let ?B = "uint (boundary pb)"
  have bounds: "0 \<le> ?h" "?h < ?B" "0 \<le> ?a" "?a < ?B" "0 \<le> ?t" "?t \<le> ?B" "?B < 4294967296"
    using assms(3-5) unat_u32 [of "boundary pb", simplified] unfolding uint_nat by linarith+
  have "hw_ptr pb - appl_ptr pb = word_of_int (?h - ?a)"
      "hw_ptr pb + total_size_frames priv - appl_ptr pb = word_of_int (?h + ?t - ?a)"
    by simp_all
  then have s: "sint (hw_ptr pb - appl_ptr pb) = ?h - ?a"
      "sint (hw_ptr pb + total_size_frames priv - appl_ptr pb) = ?h + ?t - ?a"
    using bounds by (simp_all only:) (rule sint_u64; linarith)+
  show ?thesis
  proof (cases "has_flag (pl_mode plugin) (konst (penv X) PCM_OUT)")
    case True
    have m: "(if d < 0 then d + ?B else if d \<ge> ?B then d - ?B else d) = d mod ?B" if "d = ?h + ?t - ?a" for d
      using that bounds by (intro ring_mod) linarith+
    show ?thesis
      by (simp only: agm_pcm_get_avail_def True if_True assms(1,2) bind.simps Let_def s(2) m [OF refl])
  next
    case False
    have m: "(if d < 0 then d + ?B else d) = d mod ?B" if "d = ?h - ?a" for d
    proof -
      have "- ?B \<le> d" "d < ?B" "d < 2 * ?B" using that bounds by linarith+
      then show ?thesis using ring_mod [of ?B d] by auto
    qed
    have "has_flag (pl_mode plugin) (konst (penv X) PCM_IN)" using assms(6) False by simp
    then show ?thesis
      by (simp only: agm_pcm_get_avail_def False if_True if_False assms(1,2) bind.simps Let_def s(1) m [OF refl] add_0_right)
  qed
qed

theorem avail_is_distance_witness:
  "agm_pcm_get_avail (sample_plug_env\<lparr>penv := sample_env\<lparr>konst := \<lambda>k. 1\<rparr>\<rparr>)
     \<lparr>pl_card = 0, pl_node = None, pl_mode = 1, pl_priv = Some (sample_priv\<lparr>pp_pos_buf := Some
       (sample_pos_buf\<lparr>hw_ptr := 0, appl_ptr := 72\<rparr>)\<rparr>)\<rparr> = Some 72"
  using avail_is_distance [of "\<lparr>pl_card = 0, pl_node = None, pl_mode = 1, pl_priv = Some (sample_priv\<lparr>pp_pos_buf := Some
       (sample_pos_buf\<lparr>hw_ptr := 0, appl_ptr := 72\<rparr>)\<rparr>)\<rparr>" "sample_priv\<lparr>pp_pos_buf := Some
       (sample_pos_buf\<lparr>hw_ptr := 0, appl_ptr := 72\<rparr>)\<rparr>" "sample_pos_buf\<lparr>hw_ptr := 0, appl_ptr := 72\<rparr>"
      "sample_plug_env\<lparr>penv := sample_env\<lparr>konst := \<lambda>k. 1\<rparr>\<rparr>"]
  by (simp add: has_flag_def sample_priv_def sample_pos_buf_def new_priv_def zero_pos_buf_def)

text \<open>
  C40: tinyalsa defines \<open>PCM_OUT\<close> as zero, so the test \<open>mode & PCM_OUT\<close> never holds and the
  available frames of a playback stream are always zero: \<open>poll\<close> on a playback stream with a
  period of at least one frame reports a timeout, whatever the DSP has consumed.
\<close>

theorem playback_poll_times_out:
  assumes "konst (penv X) PCM_OUT = 0" "\<not> has_flag (pl_mode plugin) (konst (penv X) PCM_IN)"
    and "pl_priv plugin = Some priv" "pp_period_size priv \<noteq> 0"
  shows "posts (agm_pcm_poll X plugin timeout s) (\<lambda>(ret, revents, plugin') s'. ret = 0 \<and> revents = None)"
proof -
  have out: "\<not> has_flag m (konst (penv X) PCM_OUT)" for m by (simp add: has_flag_def assms(1))
  have zero: "agm_pcm_get_avail X (plugin\<lparr>pl_priv := p\<rparr>) = Some 0" "agm_pcm_get_avail X plugin = Some 0" for p
    using assms(2) by (simp_all add: agm_pcm_get_avail_def out)
  have per: "0 < uint (pp_period_size priv)"
    using assms(4) by (metis uint_0_iff uint_ge_0 order_le_less)
  show ?thesis
    unfolding agm_pcm_poll_def pcm_poll_wait_def assms(3) bind.simps Let_def zero
    using per assms(2)
    by (intro posts_deref) (auto simp: zero pcall_def bind_eq_Some_conv split: if_splits)
qed

theorem playback_poll_times_out_witness:
  "posts (agm_pcm_poll sample_plug_env \<lparr>pl_card = 0, pl_node = None, pl_mode = 3, pl_priv = Some sample_priv\<rparr>
     5 sample_plug_state) (\<lambda>(ret, revents, plugin') s'. ret = 0 \<and> revents = None)"
  by (rule playback_poll_times_out [where priv = sample_priv])
    (simp_all add: sample_plug_env_def sample_env_def has_flag_def sample_priv_def new_priv_def)

end
