(* ===== verification/Agm_Plugin_Heap.thy ===== *)
theory Agm_Plugin_Heap
  imports Agm_Plugin_Env Agm_Frames "HOL-Library.Multiset"
begin

text \<open>
  The heap blocks of the plugins: the calls that leave them alone, and what \<open>free\<close> gives back.
\<close>

text \<open>Calls that leave the heap alone.\<close>

definition same_live :: "plug_state \<Rightarrow> plug_state \<Rightarrow> bool" where
  "same_live s s' \<longleftrightarrow> live s' = live s"

named_theorems live_rules \<open>calls that leave the heap alone\<close>

lemma live_bind:
  "posts m (\<lambda>r s'. same_live s0 s') \<Longrightarrow> (\<And>r s'. same_live s0 s' \<Longrightarrow> posts (f (r, s')) (\<lambda>r s'. same_live s0 s'))
    \<Longrightarrow> posts (m \<bind> f) (\<lambda>r s'. same_live s0 s')"
  by (rule posts_bind)

lemma live_refl: "same_live s s"
  by (simp add: same_live_def)

lemma live_upd [live_rules]:
  "same_live s0 s \<Longrightarrow> same_live s0 (s\<lparr>perrno := e\<rparr>)"
  by (simp_all add: same_live_def)

lemma live_on_svc [live_rules]: "same_live s0 s \<Longrightarrow> posts (on_svc m s) (\<lambda>r s'. same_live s0 s')"
  by (cases "m (svc s)") (auto simp: on_svc_def same_live_def)

lemma live_on_cards [live_rules]: "same_live s0 s \<Longrightarrow> posts (on_cards m s) (\<lambda>r s'. same_live s0 s')"
  by (cases "m (cards s)") (auto simp: on_cards_def same_live_def)

lemma live_pcall [live_rules]: "same_live s0 s \<Longrightarrow> posts (pcall X c s) (\<lambda>r s'. same_live s0 s')"
  by (simp add: pcall_def same_live_def)

lemmas live_steps = posts_flow live_bind posts_deref

lemma p_free_mset: "p_free b s = Some s' \<Longrightarrow> mset (live s') + {#b#} = mset (live s)"
  by (auto simp: p_free_def split: if_splits)

lemma p_frees_mset: "p_frees bs s = Some s' \<Longrightarrow> mset (live s') + mset bs = mset (live s)"
proof (induction bs arbitrary: s)
  case (Cons b bs)
  then obtain s1 where "p_free b s = Some s1" "p_frees bs s1 = Some s'" by (auto simp: bind_eq_Some_conv)
  with Cons.IH [of s1] p_free_mset [of b s s1] show ?case by (metis add.assoc add_mset_add_single mset.simps(2))
qed simp

lemma session_open_handle:
  "posts (agm_session_open E x True s) (\<lambda>r s'. fst r = 0 \<longrightarrow> snd r \<noteq> None)"
  unfolding agm_session_open_def session_obj_open_def open_session_def
  by (rule posts_flow posts_deref | (simp; fail))+

lemma on_svc_posts:
  "posts (m (svc s)) (\<lambda>r t. P r) \<Longrightarrow> posts (on_svc m s) (\<lambda>r s'. P r \<and> same_live s s')"
  by (cases "m (svc s)") (auto simp: on_svc_def same_live_def)

lemma live_card_call:
  assumes "live s = l" "\<And>r s'. live s' = l \<Longrightarrow> posts (f (r, s')) Q"
  shows "posts (on_cards m s \<bind> f) Q"
  by (rule posts_bind [OF live_on_cards [OF live_refl]]) (use assms in \<open>simp add: same_live_def\<close>)

end
