(* ===== verification/Agm_Pcm_Heap.thy ===== *)
theory Agm_Pcm_Heap
  imports Agm_Pcm_Props Agm_Plugin_Heap
begin

text \<open>
  The heap blocks over the life of a PCM plugin: which blocks every operation takes and gives
  back, over all sequences of operations from the open to the close.
\<close>

section \<open>Heap blocks\<close>

text \<open>The blocks that belong to a plugin object.\<close>

definition base_blocks :: "pblock list" where
  "base_blocks = [Blk_plugin, Blk_priv, Blk_media_config, Blk_buffer_config, Blk_session_config]"

definition map_blocks :: "agm_pcm_priv \<Rightarrow> pblock multiset" where
  "map_blocks priv = (if pp_buf_info priv = None then {#} else {#Blk_buf_info#})
     + (if pp_pos_buf priv = None then {#} else {#Blk_pos_buf#})"

definition owns :: "pblock multiset \<Rightarrow> pcm_plugin \<Rightarrow> plug_state \<Rightarrow> bool" where
  "owns rest plugin s \<longleftrightarrow> (\<exists>priv. pl_priv plugin = Some priv \<and> pp_handle priv \<noteq> None
     \<and> mset (live s) = mset base_blocks + map_blocks priv + rest)"

lemma live_read_pos [live_rules]: "same_live s0 s \<Longrightarrow> posts (read_pos X a f s) (\<lambda>r s'. same_live s0 s')"
  unfolding read_pos_def by (assumption | rule live_steps live_rules)+

lemma live_frame_cnt [live_rules]: "same_live s0 s \<Longrightarrow> posts (read_frame_cnt X a n v s) (\<lambda>r s'. same_live s0 s')"
proof (induction n arbitrary: v s)
  case (Suc n)
  show ?case
    unfolding read_frame_cnt.simps by (assumption | rule Suc live_steps live_rules)+
qed simp

lemma live_pos_loop [live_rules]: "same_live s0 s \<Longrightarrow> posts (shared_pos_loop X a n out s) (\<lambda>r s'. same_live s0 s')"
proof (induction n arbitrary: out s)
  case (Suc n)
  show ?case
    unfolding shared_pos_loop.simps by (assumption | rule Suc live_steps live_rules)+
qed simp

lemma live_retry [live_rules]: "same_live s0 s \<Longrightarrow> posts (shared_pos_retry X pb n out s) (\<lambda>r s'. same_live s0 s')"
proof (induction n arbitrary: out s rule: less_induct)
  case (less n)
  show ?case
    unfolding shared_pos_retry.simps [of X pb n] agm_pcm_plugin_get_shared_pos_def
    by (assumption | rule less live_steps live_rules | (simp; fail))+
qed

lemma live_update [live_rules]:
  "same_live s0 s \<Longrightarrow> posts (agm_pcm_plugin_update_hw_ptr X priv s) (\<lambda>r s'. same_live s0 s')"
  unfolding agm_pcm_plugin_update_hw_ptr_def by (assumption | rule live_steps live_rules)+

text \<open>Operations keep the handle, and whether there are buffers to free.\<close>

definition like_priv :: "agm_pcm_priv \<Rightarrow> agm_pcm_priv \<Rightarrow> bool" where
  "like_priv p q \<longleftrightarrow> pp_handle q = pp_handle p \<and> map_blocks q = map_blocks p"

lemma like_update:
  "posts (agm_pcm_plugin_update_hw_ptr X priv s) (\<lambda>r s'. like_priv priv (snd r))"
  unfolding agm_pcm_plugin_update_hw_ptr_def
  by (rule posts_flow posts_deref | (simp add: like_priv_def map_blocks_def; fail))+

definition like_plugin :: "pcm_plugin \<Rightarrow> pcm_plugin \<Rightarrow> bool" where
  "like_plugin a b \<longleftrightarrow> (\<forall>p. pl_priv a = Some p \<longrightarrow> (\<exists>q. pl_priv b = Some q \<and> like_priv p q))"

lemma like_refl [simp]: "like_priv p p" "like_plugin a a"
  by (auto simp: like_priv_def like_plugin_def)

lemma like_trans: "like_priv p q \<Longrightarrow> like_priv q r \<Longrightarrow> like_priv p r"
  by (simp add: like_priv_def)

lemma like_pluginI: "pl_priv a = Some p \<Longrightarrow> like_priv p q \<Longrightarrow> like_plugin a (b\<lparr>pl_priv := Some q\<rparr>)"
  by (simp add: like_plugin_def)

lemma owns_like:
  assumes "owns rest a s" "same_live s s'" "like_plugin a b"
  shows "owns rest b s'"
  using assms by (auto simp: owns_def same_live_def like_plugin_def like_priv_def)

lemma like_pos_buf:
  "pp_pos_buf p \<noteq> None \<Longrightarrow> like_priv p (p\<lparr>pp_pos_buf := Some pb\<rparr>)"
  by (simp add: like_priv_def map_blocks_def)

lemma like_apply:
  "agm_pcm_plugin_apply_appl_ptr v p = Some q \<Longrightarrow> like_priv p q"
  "agm_pcm_plugin_apply_avail_min v p = Some q \<Longrightarrow> like_priv p q"
  by (auto simp: agm_pcm_plugin_apply_appl_ptr_def agm_pcm_plugin_apply_avail_min_def
      bind_eq_Some_conv intro!: like_pos_buf)

lemma like_sync_parts:
  "sync_appl p sp = Some (q, sp') \<Longrightarrow> like_priv p q"
  "sync_avail p sp = Some (q, sp') \<Longrightarrow> like_priv p q"
  by (auto simp: sync_appl_def sync_avail_def bind_eq_Some_conv dest: like_apply split: if_splits)

lemma sync_exchange_like: "sync_ptr_exchange priv sp = Some (q, sp') \<Longrightarrow> like_priv priv q"
  by (auto simp: sync_ptr_exchange_def bind_eq_Some_conv dest!: like_sync_parts dest: like_trans)

lemma like_hw_params: "posts (agm_pcm_hw_params X pl p s) (\<lambda>r s'. like_plugin pl (snd r))"
  unfolding agm_pcm_hw_params_def
  by (rule posts_flow posts_deref | (simp add: like_plugin_def like_priv_def map_blocks_def; fail))+

lemma like_sw_params: "posts (agm_pcm_sw_params X pl p s) (\<lambda>r s'. like_plugin pl (snd r))"
  unfolding agm_pcm_sw_params_def
  by (rule posts_flow posts_deref | (simp add: like_plugin_def like_priv_def map_blocks_def; fail))+

lemma live_hw_params: "posts (agm_pcm_hw_params X pl p s) (\<lambda>r s'. same_live s s')"
  unfolding agm_pcm_hw_params_def by (assumption | rule live_steps live_rules live_refl)+

lemma live_sw_params: "posts (agm_pcm_sw_params X pl p s) (\<lambda>r s'. same_live s s')"
  unfolding agm_pcm_sw_params_def by (assumption | rule live_steps live_rules live_refl)+

lemma live_sync: "posts (agm_pcm_sync_ptr X pl sp s) (\<lambda>r s'. same_live s s')"
  unfolding agm_pcm_sync_ptr_def sync_hw_def by (assumption | rule live_steps live_rules live_refl)+

lemma live_poll: "posts (agm_pcm_poll X pl t s) (\<lambda>r s'. same_live s s')"
  unfolding agm_pcm_poll_def pcm_poll_wait_def by (assumption | rule live_steps live_rules live_refl)+

lemma live_writei: "posts (agm_pcm_writei_frames X pl x s) (\<lambda>r s'. same_live s s')"
  unfolding agm_pcm_writei_frames_def by (assumption | rule live_steps live_rules live_refl)+

lemma live_readi: "posts (agm_pcm_readi_frames X pl x s) (\<lambda>r s'. same_live s s')"
  unfolding agm_pcm_readi_frames_def by (assumption | rule live_steps live_rules live_refl)+

lemma live_session_op: "posts (pcm_session_op f pl s) (\<lambda>r s'. same_live s s')"
  unfolding pcm_session_op_def by (assumption | rule live_steps live_rules live_refl)+

text \<open>Steps that lead from a private struct like \<open>p\<close> to another one like it.\<close>

lemma like_bind:
  "posts m (\<lambda>r s'. like_priv p (snd r)) \<Longrightarrow> (\<And>x q s'. like_priv p q \<Longrightarrow> posts (f ((x, q), s')) Q)
    \<Longrightarrow> posts (m \<bind> f) Q"
  by (erule posts_bind) (auto simp: split_paired_all)

lemma posts_pair_app: "posts (f a b s) Q \<Longrightarrow> posts ((case (a, b) of (x, y) \<Rightarrow> f x y) s) Q"
  by simp

lemma like_sync_hw: "posts (sync_hw X p sp s) (\<lambda>r s'. like_priv p (snd r))"
  by (simp add: sync_hw_def like_update)

lemma like_exchange:
  assumes "like_priv p q" "\<And>q' sp'. like_priv p q' \<Longrightarrow> posts (f (q', sp')) Q"
  shows "posts (sync_ptr_exchange q sp \<bind> f) Q"
  using assms(2) like_trans [OF assms(1) sync_exchange_like] by (auto intro!: posts_deref)

lemma like_sync: "posts (agm_pcm_sync_ptr X pl sp s) (\<lambda>r s'. like_plugin pl (snd (snd r)))"
  unfolding agm_pcm_sync_ptr_def
  by (assumption | rule posts_if posts_pair posts_pair_app posts_SomeI posts_LetI posts_case_prod(1) like_bind [OF like_sync_hw]
      like_exchange like_refl posts_deref [of "pl_priv pl"] | (simp add: like_plugin_def; fail))+

lemma like_wait:
  assumes "pl_priv pl = Some p"
  shows "posts (pcm_poll_wait X pl p t a s) (\<lambda>r s'. like_plugin pl (snd r))"
  unfolding pcm_poll_wait_def pcall_def bind.simps
  by (assumption | rule assms posts_if posts_NoneI posts_pair posts_pair_app posts_SomeI posts_LetI like_bind [OF like_update]
      like_pluginI posts_deref | (simp add: like_pluginI [OF assms]; fail))+

lemma like_poll: "posts (agm_pcm_poll X pl t s) (\<lambda>r s'. like_plugin pl (snd (snd r)))"
proof (cases "pl_priv pl")
  case (Some p)
  have wait: "posts (if a < per then pcm_poll_wait X pl p t a s else Some ((a, pl), s))
      (\<lambda>r s'. like_plugin pl (snd r))" for a per
    by (simp add: like_wait [OF Some])
  show ?thesis
    unfolding agm_pcm_poll_def Some bind.simps
    by (rule posts_LetI, rule posts_deref, rule posts_bind [OF wait]) (auto split: if_splits)
qed (simp add: agm_pcm_poll_def)

text \<open>Mapping takes blocks and records them in the plugin; unmapping gives one back.\<close>

lemma owns_map_info:
  assumes "mset (live s) = M + map_blocks priv"
  shows "posts (get_mmap_info X mode priv s)
    (\<lambda>r s'. mset (live s') = M + map_blocks (snd r) \<and> pp_handle (snd r) = pp_handle priv)"
proof (cases "pp_buf_info priv")
  case None
  let ?s = "s\<lparr>ptrace := P_calloc Blk_buf_info # ptrace s, live := Blk_buf_info # live s\<rparr>"
  let ?flag = "if has_flag mode (pflags X PCM_NOIRQ) then 3 else 1"
  have rest: "posts (on_svc (agm_session_get_buf_info (penv X) (pp_session_id priv) zero_buf_info ?flag) ?s \<bind>
      (\<lambda>((ret, bi), s). if ret \<noteq> 0 then do { s \<leftarrow> p_free Blk_buf_info s; Some ((False, priv), s) }
        else Some ((True, priv\<lparr>pp_buf_info := Some bi\<rparr>), s)))
      (\<lambda>r s'. mset (live s') = M + map_blocks (snd r) \<and> pp_handle (snd r) = pp_handle priv)"
    by (rule posts_bind [OF live_on_svc [OF live_refl]])
      (use assms None in \<open>auto intro!: posts_deref dest!: p_free_mset simp: same_live_def map_blocks_def\<close>)
  then show ?thesis
    using assms None by (simp add: get_mmap_info_def p_calloc_cases)
qed (use assms in \<open>simp add: get_mmap_info_def\<close>)

lemma owns_map_pos:
  assumes "mset (live s) = M + map_blocks priv"
  shows "posts (map_pos_buf X mode priv s)
    (\<lambda>r s'. mset (live s') = M + map_blocks (snd r) \<and> pp_handle (snd r) = pp_handle priv)"
  using assms
  by (auto simp: map_pos_buf_def p_calloc_cases pcall_def map_blocks_def intro!: posts_deref)

lemma owns_alt:
  "pl_priv pl = Some priv \<Longrightarrow> owns rest pl s \<longleftrightarrow>
    pp_handle priv \<noteq> None \<and> mset (live s) = (mset base_blocks + rest) + map_blocks priv"
  by (auto simp: owns_def ac_simps)

lemma owns_buffers:
  assumes "mset (live s) = (mset base_blocks + rest) + map_blocks p" "pp_handle p \<noteq> None"
  shows "posts (map_buffers X pl p len s) (\<lambda>r s'. owns rest (snd r) s')"
  unfolding map_buffers_def map_data_buf_def
  by (rule posts_bind [OF owns_map_pos [OF assms(1)]])
    (use assms(2) in \<open>auto intro!: posts_LetI posts_if posts_deref simp: owns_alt pcall_def\<close>)

lemma owns_mmap:
  assumes "owns rest pl s"
  shows "posts (agm_pcm_mmap X pl len off s) (\<lambda>r s'. owns rest (snd r) s')"
proof -
  obtain p where p: "pl_priv pl = Some p" "pp_handle p \<noteq> None"
      "mset (live s) = (mset base_blocks + rest) + map_blocks p"
    using assms by (auto simp: owns_def ac_simps)
  then have handle: "agm_get_session_handle (Some p) = (0, pp_handle p)"
    by (simp add: agm_get_session_handle_def)
  show ?thesis
    unfolding agm_pcm_mmap_def p(1) handle Let_def prod.case bind.simps
    by (intro posts_if posts_SomeI posts_bind [OF owns_map_info [OF p(3)]])
      (use assms p(2) in \<open>auto intro!: posts_if owns_buffers simp: owns_alt\<close>)
qed

lemma owns_munmap:
  assumes "owns rest pl s"
  shows "posts (agm_pcm_munmap X pl addr len s) (\<lambda>r s'. owns rest (snd r) s')"
proof -
  obtain priv where priv: "pl_priv pl = Some priv" "pp_handle priv \<noteq> None"
      "mset (live s) = mset base_blocks + map_blocks priv + rest"
    using assms by (auto simp: owns_def)
  show ?thesis
    using priv
    by (cases "pp_pos_buf priv")
      (auto simp: agm_pcm_munmap_def pcall_def owns_alt map_blocks_def p_free_def
        intro!: posts_deref split: if_splits)
qed

text \<open>The operations of an open plugin, and sequences of them.\<close>

datatype pcm_op =
    Op_hw_params snd_pcm_hw_params | Op_sw_params snd_pcm_sw_params | Op_sync_ptr snd_pcm_sync_ptr
  | Op_writei snd_xferi | Op_readi snd_xferi | Op_ttstamp | Op_prepare | Op_start | Op_drop
  | Op_poll int | Op_mmap u64 int | Op_munmap "nat option" u64

fun pcm_do :: "plug_env \<Rightarrow> pcm_op \<Rightarrow> pcm_plugin \<Rightarrow> pcm_plugin plug" where
  "pcm_do X (Op_hw_params p) pl s = do { (r, s) \<leftarrow> agm_pcm_hw_params X pl p s; Some (snd r, s) }"
| "pcm_do X (Op_sw_params p) pl s = do { (r, s) \<leftarrow> agm_pcm_sw_params X pl p s; Some (snd r, s) }"
| "pcm_do X (Op_sync_ptr p) pl s = do { (r, s) \<leftarrow> agm_pcm_sync_ptr X pl p s; Some (snd (snd r), s) }"
| "pcm_do X (Op_writei x) pl s = do { (r, s) \<leftarrow> agm_pcm_writei_frames X pl x s; Some (pl, s) }"
| "pcm_do X (Op_readi x) pl s = do { (r, s) \<leftarrow> agm_pcm_readi_frames X pl x s; Some (pl, s) }"
| "pcm_do X Op_ttstamp pl s = do { (r, s) \<leftarrow> agm_pcm_ttstamp pl s; Some (pl, s) }"
| "pcm_do X Op_prepare pl s = do { (r, s) \<leftarrow> agm_pcm_prepare X pl s; Some (pl, s) }"
| "pcm_do X Op_start pl s = do { (r, s) \<leftarrow> agm_pcm_start X pl s; Some (pl, s) }"
| "pcm_do X Op_drop pl s = do { (r, s) \<leftarrow> agm_pcm_drop X pl s; Some (pl, s) }"
| "pcm_do X (Op_poll t) pl s = do { (r, s) \<leftarrow> agm_pcm_poll X pl t s; Some (snd (snd r), s) }"
| "pcm_do X (Op_mmap len off) pl s = do { (r, s) \<leftarrow> agm_pcm_mmap X pl len off s; Some (snd r, s) }"
| "pcm_do X (Op_munmap a len) pl s = do { (r, s) \<leftarrow> agm_pcm_munmap X pl a len s; Some (snd r, s) }"

fun pcm_run :: "plug_env \<Rightarrow> pcm_op list \<Rightarrow> pcm_plugin \<Rightarrow> pcm_plugin plug" where
  "pcm_run X [] pl s = Some (pl, s)"
| "pcm_run X (op # ops) pl s = do { (pl, s) \<leftarrow> pcm_do X op pl s; pcm_run X ops pl s }"

lemma owns_step:
  assumes "owns rest pl s" "posts m (\<lambda>r s'. same_live s s')" "posts m (\<lambda>r s'. like_plugin pl (f r))"
  shows "posts (m \<bind> (\<lambda>(r, s). Some (f r, s))) (\<lambda>pl' s'. owns rest pl' s')"
  using owns_like [OF assms(1)] assms(2,3) by (cases m) (auto simp: posts_def)

lemma owns_step0:
  assumes "owns rest pl s" "posts m (\<lambda>r s'. same_live s s')"
  shows "posts (m \<bind> (\<lambda>(r, s). Some (pl, s))) (\<lambda>pl' s'. owns rest pl' s')"
  using owns_like [OF assms(1)] assms(2) by (cases m) (auto simp: posts_def)

lemma owns_do:
  assumes "owns rest pl s"
  shows "posts (pcm_do X op pl s) (\<lambda>pl' s'. owns rest pl' s')"
proof (cases op)
  case (Op_mmap len off)
  then show ?thesis by (auto intro: posts_bind [OF owns_mmap [OF assms]])
next
  case (Op_munmap a len)
  then show ?thesis by (auto intro: posts_bind [OF owns_munmap [OF assms]])
next
  case Op_ttstamp
  then show ?thesis using assms by (simp add: agm_pcm_ttstamp_def Let_def split: prod.split)
qed (use assms in \<open>auto intro!: owns_step owns_step0 live_hw_params like_hw_params live_sw_params like_sw_params
  live_sync like_sync live_writei live_readi live_session_op live_poll like_poll
  simp: agm_pcm_prepare_def agm_pcm_start_def agm_pcm_drop_def\<close>)

lemma owns_run: "owns rest pl s \<Longrightarrow> posts (pcm_run X ops pl s) (\<lambda>pl' s'. owns rest pl' s')"
proof (induction ops arbitrary: pl s)
  case (Cons op ops)
  then show ?case by (auto intro: posts_bind [OF owns_do])
qed simp

text \<open>Opening and closing.\<close>

lemma pcm_allocs_live:
  "posts (pcm_allocs X bs blks s) (\<lambda>(ok, blks') s'. \<exists>new. blks' = new @ blks \<and> live s' = new @ live s
     \<and> (ok \<longrightarrow> new = rev bs))"
proof (induction bs arbitrary: blks s)
  case (Cons b bs)
  let ?s = "s\<lparr>ptrace := P_calloc b # ptrace s, live := b # live s\<rparr>"
  show ?case
    using Cons [of "b # blks" ?s]
    by (auto simp: p_calloc_cases posts_def)
qed simp

lemma open_fail_live:
  assumes "live s = blks @ rest" "ret \<noteq> 0"
  shows "posts (pcm_open_fail ret cn blks s) (\<lambda>r s'. fst r < 0 \<and> snd r = None \<and> live s' = rest)"
  unfolding pcm_open_fail_def
  by (rule posts_bind [OF live_on_cards [OF live_refl]])
    (use assms in \<open>auto simp: same_live_def p_frees_own\<close>)

definition open_post :: "pblock list \<Rightarrow> int \<times> pcm_plugin option \<Rightarrow> plug_state \<Rightarrow> bool" where
  "open_post rest r s' \<longleftrightarrow> (case snd r of None \<Rightarrow> fst r < 0 \<and> live s' = rest
     | Some pl \<Rightarrow> fst r = 0 \<and> owns (mset rest) pl s')"

lemma open_fail_post:
  "live s = blks @ rest \<Longrightarrow> ret \<noteq> 0 \<Longrightarrow> posts (pcm_open_fail ret cn blks s) (open_post rest)"
  by (rule posts_mono [OF open_fail_live]) (auto simp: open_post_def)

lemma open_session_post:
  "live s = rev base_blocks @ rest \<Longrightarrow>
    posts (pcm_open_session X crd dev mode (rev base_blocks) cn nd s) (open_post rest)"
  unfolding pcm_open_session_def
  by (rule posts_bind [OF on_svc_posts [OF session_open_handle]])
    (auto intro!: posts_LetI posts_if open_fail_post
      simp: same_live_def open_post_def owns_def map_blocks_def new_priv_def)

lemma open_card_post:
  assumes "live s = rev base_blocks @ rest"
  shows "posts (pcm_open_card X crd dev mode (rev base_blocks) s) (open_post rest)"
  unfolding pcm_open_card_def pcm_open_node_def
  by (assumption | rule assms live_card_call posts_pair posts_if open_fail_post open_session_post | (simp; fail))+

lemma pcm_open_posts: "posts (agm_pcm_plugin_open X crd dev mode s) (open_post (live s))"
proof -
  have blocks: "[Blk_plugin, Blk_priv, Blk_media_config, Blk_buffer_config, Blk_session_config] = base_blocks"
    by (simp add: base_blocks_def)
  show ?thesis
    unfolding agm_pcm_plugin_open_def blocks
    by (rule posts_bind [OF pcm_allocs_live]) (auto intro!: open_fail_post open_card_post)
qed

lemma pcm_close_posts:
  assumes "owns rest pl s" "agm_pcm_close X pl s = Some (r, s')"
  shows "\<exists>priv. pl_priv pl = Some priv \<and> mset (live s') = rest + map_blocks priv"
proof -
  obtain priv where priv: "pl_priv pl = Some priv" "pp_handle priv \<noteq> None"
      "mset (live s) = mset base_blocks + map_blocks priv + rest"
    using assms(1) by (auto simp: owns_def)
  have "posts (agm_pcm_close X pl s) (\<lambda>r s'. mset (live s') + mset base_blocks = mset (live s))"
  proof -
    have "mset (live s2) + mset base_blocks = mset (live s1)"
      if "p_frees [Blk_buffer_config, Blk_media_config, Blk_session_config, Blk_priv, Blk_plugin] s1 = Some s2" for s1 s2
      using p_frees_mset [OF that] by (simp add: base_blocks_def add_mset_commute)
    then show ?thesis
      using priv(1,2) unfolding agm_pcm_close_def agm_get_session_handle_def
      by (auto intro!: posts_bind [OF live_on_svc [OF live_refl]] posts_bind [OF live_on_cards [OF live_refl]]
          posts_deref [of "p_frees bs s0" for bs s0] simp: same_live_def simp del: p_frees.simps)
  qed
  with assms(2) priv show ?thesis by (auto simp: posts_def ac_simps)
qed

text \<open>
  C32: The heap blocks of a plugin, for every behaviour of the allocator, the card definitions,
  the service and the kernel. An open that fails returns a negative error and has freed every
  block it took. After a successful open and any sequence of operations, a close gives back
  exactly the five blocks of the open: the block of \<open>buf_info\<close> that a mapping leaves behind
  (and that of \<open>pos_buf\<close>, if the buffers are still mapped) stays allocated for ever.
\<close>

theorem pcm_heap_balance:
  assumes "agm_pcm_plugin_open X crd dev mode s = Some ((ret, plo), s1)"
  shows "(plo = None \<longrightarrow> ret < 0 \<and> live s1 = live s)
    \<and> (\<forall>pl ops pl' s2 r s3. plo = Some pl \<and> pcm_run X ops pl s1 = Some (pl', s2)
         \<and> agm_pcm_close X pl' s2 = Some (r, s3)
       \<longrightarrow> ret = 0 \<and> (\<exists>priv. pl_priv pl' = Some priv \<and> mset (live s3) = mset (live s) + map_blocks priv))"
proof -
  have post: "open_post (live s) (ret, plo) s1"
    using pcm_open_posts [of X crd dev mode s] assms by (simp add: posts_def)
  have "ret = 0 \<and> (\<exists>priv. pl_priv pl' = Some priv \<and> mset (live s3) = mset (live s) + map_blocks priv)"
    if "plo = Some pl" "pcm_run X ops pl s1 = Some (pl', s2)" "agm_pcm_close X pl' s2 = Some (r, s3)"
    for pl ops pl' s2 r s3
  proof -
    have "ret = 0" "owns (mset (live s)) pl s1" using post that(1) by (simp_all add: open_post_def)
    then have "owns (mset (live s)) pl' s2" using owns_run [of _ pl s1 X ops] that(2) by (simp add: posts_def)
    from pcm_close_posts [OF this that(3)] \<open>ret = 0\<close> show ?thesis by simp
  qed
  with post show ?thesis by (auto simp: open_post_def)
qed

theorem pcm_heap_balance_witness:
  "\<exists>s1. agm_pcm_plugin_open sample_plug_env 100 101 0 sample_plug_state = Some ((- EINVAL, None), s1)
     \<and> live s1 = []"
proof -
  obtain s1 where s1: "agm_pcm_plugin_open sample_plug_env 100 101 0 sample_plug_state = Some ((- EINVAL, None), s1)"
    by (simp add: agm_pcm_plugin_open_def pcm_open_card_def p_calloc_cases on_cards_def snd_card_def_get_card_def read_card_id_def
        wr_lock_def rw_unlock_def pcm_open_fail_def snd_card_def_put_card_def p_free_def
        sample_plug_env_def sample_plug_state_def)
  with pcm_heap_balance [OF s1] show ?thesis by (simp add: sample_plug_state_def)
qed

end
