(* ===== verification/Agm_Compress_Plugin.thy ===== *)
theory Agm_Compress_Plugin
  imports Agm_Plugin_Env
begin

text \<open>
  \<open>plugins/tinyalsa/src/agm_compress_plugin.c\<close>: the tinycompress plugin on top of the service.

  As in the PCM plugin, every operation takes the plugin object and returns it. \<open>bytes_avail\<close>
  is an \<open>int64_t\<close>, but the code compares it with and computes it from unsigned numbers; it is
  kept as its 64 bits, and \<open>sint\<close> reads it where the code tests its sign. The copies of the
  codec options under \<open>SND_COMPRESS_DEC_HDR\<close> are modelled with and without this macro.

  The condition variables: a signal is a call to the outside. For \<open>eos_cond\<close>, which a drain
  waits on, the object also says whether a thread waits and whether it has been woken.
\<close>

unbundle bit_operations_syntax

section \<open>Data\<close>

datatype snd_codec_id =
    SND_AUDIOCODEC_MP3 | SND_AUDIOCODEC_AAC | SND_AUDIOCODEC_FLAC | SND_AUDIOCODEC_ALAC
  | SND_AUDIOCODEC_APE | SND_AUDIOCODEC_WMA | SND_AUDIOCODEC_WMA_PRO | SND_AUDIOCODEC_VORBIS
  | SND_AUDIOCODEC_OTHER u32

record snd_compr_caps =
  cc_num_codecs :: u32
  cc_direction_playback :: bool
  cc_min_fragment_size :: u32
  cc_max_fragment_size :: u32
  cc_min_fragments :: u32
  cc_max_fragments :: u32
  cc_codecs :: "snd_codec_id list"

text \<open>The members of \<open>union snd_codec_options\<close> that the plugin reads, as numbers.\<close>

datatype copt =
    Aac_audio_obj_type | Aac_pce_bits_size
  | Flac_sample_size | Flac_min_blk_size | Flac_max_blk_size | Flac_min_frame_size | Flac_max_frame_size
  | Alac_frame_length | Alac_compatible_version | Alac_bit_depth | Alac_pb | Alac_mb | Alac_kb | Alac_max_run
  | Alac_max_frame_bytes | Alac_avg_bit_rate | Alac_channel_layout_tag
  | Ape_bits_per_sample | Ape_compatible_version | Ape_compression_level | Ape_format_flags
  | Ape_blocks_per_frame | Ape_final_frame_blocks | Ape_total_frames | Ape_seek_table_present
  | Wma_avg_bit_rate | Wma_super_block_align | Wma_bits_per_sample | Wma_channelmask | Wma_encodeopt
  | Wma_encodeopt1 | Wma_encodeopt2

record snd_codec =
  sc_id :: snd_codec_id
  sc_ch_in :: u32
  sc_ch_out :: u32
  sc_sample_rate :: u32
  sc_format :: u32
  sc_options :: "copt \<Rightarrow> u32"

record snd_compr_params =
  cpar_fragment_size :: u32
  cpar_fragments :: u32
  cpar_codec :: snd_codec

record snd_compr_tstamp =
  ct_copied_total :: u32
  ct_pcm_io_frames :: u32
  ct_sampling_rate :: u32

record snd_compr_avail =
  ca_avail :: u64
  ca_tstamp :: snd_compr_tstamp

text \<open>The thread in \<open>agm_compress_drain\<close>.\<close>

datatype drainer = No_drain | Drain_waits | Drain_woken

record agm_compress_priv =
  cp_media_config :: agm_media_config
  cp_buffer_config :: agm_buffer_config
  cp_session_config :: agm_session_config
  cp_compr_cap :: snd_compr_caps
  cp_handle :: "nat option"
  cp_prepared :: bool
  bytes_copied :: u64
  total_buf_size :: u64
  bytes_avail :: u64
  bytes_received :: u64
  bytes_read :: u64
  cp_start_drain :: bool
  cp_eos :: bool
  cp_card_node :: "nat option"
  cp_session_id :: u32
  cp_drainer :: drainer

record compress_plugin =
  cpl_addr :: nat
  cpl_card :: u32
  cpl_node :: "dev_node option"
  cpl_priv :: "agm_compress_priv option"

abbreviation (input) COMPR_PLAYBACK_MIN_FRAGMENT_SIZE :: u32 where
  "COMPR_PLAYBACK_MIN_FRAGMENT_SIZE \<equiv> 8 * 1024"
abbreviation (input) COMPR_PLAYBACK_MAX_FRAGMENT_SIZE :: u32 where
  "COMPR_PLAYBACK_MAX_FRAGMENT_SIZE \<equiv> 128 * 1024"
abbreviation (input) COMPR_PLAYBACK_MIN_NUM_FRAGMENTS :: u32 where
  "COMPR_PLAYBACK_MIN_NUM_FRAGMENTS \<equiv> 4"
abbreviation (input) COMPR_PLAYBACK_MAX_NUM_FRAGMENTS :: u32 where
  "COMPR_PLAYBACK_MAX_NUM_FRAGMENTS \<equiv> 16"
abbreviation (input) ETIMEDOUT :: int where "ETIMEDOUT \<equiv> 110"
abbreviation (input) COMPR_POLLOUT :: int where "COMPR_POLLOUT \<equiv> 4"

definition compr_get_session_handle :: "agm_compress_priv option \<Rightarrow> int \<times> nat option" where
  "compr_get_session_handle priv =
     (case priv of None \<Rightarrow> (- EINVAL, None)
      | Some p \<Rightarrow> if cp_handle p = None then (- EINVAL, None) else (0, cp_handle p))"

text \<open>The operations that begin with the check of the handle: what they return if it fails, and the rest.\<close>

definition with_compr ::
    "compress_plugin \<Rightarrow> (int \<Rightarrow> 'a) \<Rightarrow> (nat option \<Rightarrow> agm_compress_priv \<Rightarrow> 'a plug) \<Rightarrow> 'a plug" where
  "with_compr plugin err f s =
     (let (ret, handle) = compr_get_session_handle (cpl_priv plugin) in
      if ret \<noteq> 0 then Some (err ret, s)
      else do { priv \<leftarrow> cpl_priv plugin; f handle priv s })"

definition signal :: "plug_env \<Rightarrow> pcond \<Rightarrow> unit plug" where
  "signal X c s = do { (_, s) \<leftarrow> pcall X (P_cond_signal c) s; Some ((), s) }"

text \<open>\<open>if (priv->eos) { pthread_cond_signal(&priv->eos_cond); priv->eos = false; }\<close>\<close>

definition unblock_eos :: "plug_env \<Rightarrow> agm_compress_priv \<Rightarrow> agm_compress_priv plug" where
  "unblock_eos X priv s =
     (if cp_eos priv then do {
        (_, s) \<leftarrow> signal X Eos_cond s;
        Some (priv\<lparr>cp_eos := False,
          cp_drainer := (if cp_drainer priv = Drain_waits then Drain_woken else cp_drainer priv)\<rparr>, s)
      } else Some (priv, s))"

section \<open>Events of the service\<close>

text \<open>The branch of \<open>AGM_EVENT_WRITE_DONE\<close>; the flag says whether the code returns at once.\<close>

definition write_done :: "plug_env \<Rightarrow> agm_compress_priv \<Rightarrow> (bool \<times> agm_compress_priv) plug" where
  "write_done X priv s =
     (let priv = priv\<lparr>bytes_avail := bytes_avail priv + bsize (cp_buffer_config priv)\<rparr> in
      if bytes_avail priv > total_buf_size priv then Some ((True, priv), s)
      else if cp_start_drain priv \<and> bytes_avail priv = total_buf_size priv then do {
        (_, s) \<leftarrow> signal X Drain_cond s; Some ((False, priv), s) }
      else Some ((False, priv), s))"

definition compress_event ::
    "plug_env \<Rightarrow> agm_compress_priv \<Rightarrow> agm_event_cb_params \<Rightarrow> (bool \<times> agm_compress_priv) plug" where
  "compress_event X priv ev s =
     (if event_id ev = AGM_EVENT_WRITE_DONE then write_done X priv s
      else if event_id ev = AGM_EVENT_READ_DONE then
        Some ((False, priv\<lparr>bytes_avail := bytes_avail priv + bsize (cp_buffer_config priv),
          bytes_received := bytes_received priv + bsize (cp_buffer_config priv)\<rparr>), s)
      else if event_id ev = AGM_EVENT_EOS_RENDERED then do {
        (priv, s) \<leftarrow> unblock_eos X priv s; Some ((False, priv), s) }
      else Some ((False, priv), s))"

definition agm_compress_event_cb ::
    "plug_env \<Rightarrow> compress_plugin option \<Rightarrow> agm_event_cb_params option \<Rightarrow> compress_plugin option plug" where
  "agm_compress_event_cb X client_data event_params s =
     (case client_data of None \<Rightarrow> Some (None, s)
      | Some plugin \<Rightarrow>
        (case cpl_priv plugin of None \<Rightarrow> Some (Some plugin, s)
         | Some priv \<Rightarrow>
           (case event_params of None \<Rightarrow> Some (Some plugin, s)
            | Some ev \<Rightarrow> do {
                ((stop, priv), s) \<leftarrow> compress_event X priv ev s;
                let plugin = plugin\<lparr>cpl_priv := Some priv\<rparr>;
                if stop then Some (Some plugin, s)
                else do { (_, s) \<leftarrow> signal X Poll_cond s; Some (Some plugin, s) }
              })))"

section \<open>Transfers\<close>

text \<open>
  The fragments that a transfer of \<open>size\<close> bytes takes, rounded up; a division by zero is
  undefined.
\<close>

definition fragments_of :: "u64 \<Rightarrow> u64 \<Rightarrow> u64 option" where
  "fragments_of sz frag =
     (if frag = 0 then None
      else Some (if sz mod frag \<noteq> 0 then sz div frag + 1 else sz div frag))"

text \<open>The \<open>int\<close> that a 64-bit number is cut to.\<close>

definition to_int :: "u64 \<Rightarrow> int" where
  "to_int w = sint (ucast w :: u32)"

text \<open>After the service took \<open>size\<close> bytes.\<close>

definition compr_account :: "u64 \<Rightarrow> agm_compress_priv \<Rightarrow> (int \<times> agm_compress_priv) option" where
  "compr_account sz priv = do {
     buf_cnt \<leftarrow> fragments_of sz (bsize (cp_buffer_config priv));
     let priv = priv\<lparr>bytes_avail := bytes_avail priv - buf_cnt * bsize (cp_buffer_config priv)\<rparr>;
     Some (if sint (bytes_avail priv) < 0 then (- EINVAL, priv)
           else (to_int sz, priv\<lparr>bytes_copied := bytes_copied priv + sz\<rparr>))
   }"

definition compr_prepare ::
    "plug_env \<Rightarrow> nat option \<Rightarrow> agm_compress_priv \<Rightarrow> (int \<times> agm_compress_priv) plug" where
  "compr_prepare X handle priv s =
     (if cp_prepared priv then Some ((0, priv), s)
      else do {
        (ret, s) \<leftarrow> on_svc (agm_session_prepare (penv X) handle) s;
        Some ((ret, if ret = 0 then priv\<lparr>cp_prepared := True\<rparr> else priv), s)
      })"

definition agm_compress_write ::
    "plug_env \<Rightarrow> compress_plugin \<Rightarrow> u8 list \<Rightarrow> u64 \<Rightarrow> (int \<times> compress_plugin) plug" where
  "agm_compress_write X plugin buff count =
     with_compr plugin (\<lambda>ret. (ret, plugin)) (\<lambda>handle priv s.
       if count > total_buf_size priv then Some ((- EINVAL, plugin), s)
       else do {
         ((ret, priv), s) \<leftarrow> compr_prepare X handle priv s;
         let plugin = plugin\<lparr>cpl_priv := Some priv\<rparr>;
         if ret \<noteq> 0 then Some ((ret, plugin), s)
         else if length buff < unat count then None
         else do {
           ((ret, sz), s) \<leftarrow> on_svc (agm_session_write (penv X) handle (take (unat count) buff)) s;
           if ret \<noteq> 0 then Some ((ret, plugin), s)
           else do {
             (ret, priv) \<leftarrow> compr_account (word_of_nat sz) priv;
             Some ((ret, plugin\<lparr>cpl_priv := Some priv\<rparr>), s)
           }
         }
       })"

text \<open>Here \<open>buf_cnt\<close> is an \<open>int\<close>, and a negative \<open>bytes_avail\<close> is only logged.\<close>

definition compr_consume :: "u64 \<Rightarrow> agm_compress_priv \<Rightarrow> agm_compress_priv option" where
  "compr_consume count priv = do {
     buf_cnt \<leftarrow> fragments_of count (bsize (cp_buffer_config priv));
     Some (priv\<lparr>bytes_avail := bytes_avail priv - word_of_int (to_int buf_cnt) * bsize (cp_buffer_config priv),
       bytes_read := bytes_read priv + count\<rparr>)
   }"

definition agm_compress_read ::
    "plug_env \<Rightarrow> compress_plugin \<Rightarrow> u8 list \<Rightarrow> u64 \<Rightarrow> (int \<times> u8 list \<times> compress_plugin) plug" where
  "agm_compress_read X plugin buff count =
     with_compr plugin (\<lambda>ret. (ret, buff, plugin)) (\<lambda>handle priv s.
       if count > bytes_avail priv then Some ((- EINVAL, buff, plugin), s)
       else do {
         ((ret, count, bytes), s) \<leftarrow> on_svc (agm_session_read (penv X) handle (unat count)) s;
         if length buff < length bytes then None
         else do {
           let buff = bytes @ drop (length bytes) buff;
           if ret < 0 then Some ((ret, buff, plugin), s)
           else do {
             priv \<leftarrow> compr_consume (word_of_nat count) priv;
             Some ((0, buff, plugin\<lparr>cpl_priv := Some priv\<rparr>), s)
           }
         }
       })"

definition agm_compress_tstamp ::
    "plug_env \<Rightarrow> compress_plugin \<Rightarrow> snd_compr_tstamp \<Rightarrow> (int \<times> snd_compr_tstamp) plug" where
  "agm_compress_tstamp X plugin tstamp =
     with_compr plugin (\<lambda>ret. (ret, tstamp)) (\<lambda>handle priv s. do {
       let tstamp = tstamp\<lparr>ct_sampling_rate := rate (cp_media_config priv),
         ct_copied_total := ucast (bytes_copied priv)\<rparr>;
       ((ret, ts), s) \<leftarrow> on_svc (agm_get_session_time (penv X) handle True) s;
       if ret \<noteq> 0 then Some ((ret, tstamp), s)
       else Some ((0, tstamp\<lparr>ct_pcm_io_frames :=
         ucast (case_option 0 id ts * ucast (ct_sampling_rate tstamp) div 1000000)\<rparr>), s)
     })"

definition agm_compress_avail ::
    "plug_env \<Rightarrow> compress_plugin \<Rightarrow> snd_compr_avail \<Rightarrow> (int \<times> snd_compr_avail) plug" where
  "agm_compress_avail X plugin av =
     with_compr plugin (\<lambda>ret. (ret, av)) (\<lambda>handle priv s. do {
       ((_, ts), s) \<leftarrow> agm_compress_tstamp X plugin (ca_tstamp av) s;
       Some ((0, av\<lparr>ca_tstamp := ts, ca_avail := bytes_avail priv\<rparr>), s)
     })"

definition agm_compress_get_caps ::
    "compress_plugin \<Rightarrow> bool \<Rightarrow> (int \<times> snd_compr_caps option) plug" where
  "agm_compress_get_caps plugin caps =
     with_compr plugin (\<lambda>ret. (ret, None)) (\<lambda>handle priv s.
       if caps then Some ((0, Some (cp_compr_cap priv)), s) else Some ((- EINVAL, None), s))"

section \<open>Codec parameters\<close>

text \<open>The members of the codec union are written in little-endian order at their offsets.\<close>

definition put_bytes :: "nat \<Rightarrow> u8 list \<Rightarrow> u8 list \<Rightarrow> u8 list" where
  "put_bytes off bs mem = take off mem @ bs @ drop (off + length bs) mem"

definition enc8 :: "u32 \<Rightarrow> u8 list" where
  "enc8 w = [ucast w]"

definition enc16 :: "u32 \<Rightarrow> u8 list" where
  "enc16 w = [ucast w, ucast (drop_bit 8 w)]"

definition aac_fmt_flag :: "plug_env \<Rightarrow> u32 \<Rightarrow> u32" where
  "aac_fmt_flag X fmt =
     (if fmt = pflags X SND_AUDIOSTREAMFORMAT_MP4LATM then 4
      else if fmt = pflags X SND_AUDIOSTREAMFORMAT_ADIF then 2
      else if fmt = pflags X SND_AUDIOSTREAMFORMAT_MP4ADTS then 0
      else 3)"

text \<open>The format of the stream, if it is set, and the writes to the union outside the \<open>#ifdef\<close>.\<close>

definition codec_config ::
    "plug_env \<Rightarrow> snd_codec \<Rightarrow> agm_media_format option \<times> (nat \<times> u8 list) list" where
  "codec_config X c =
     (case sc_id c of
        SND_AUDIOCODEC_MP3 \<Rightarrow> (Some AGM_FORMAT_MP3, [])
      | SND_AUDIOCODEC_AAC \<Rightarrow> (Some AGM_FORMAT_AAC,
          [(0, enc16 (aac_fmt_flag X (sc_format c))), (4, enc16 (sc_ch_in c)), (8, enc32 (sc_sample_rate c))])
      | SND_AUDIOCODEC_FLAC \<Rightarrow> (Some AGM_FORMAT_FLAC,
          [(0, enc16 (sc_ch_in c)), (8, enc32 (sc_sample_rate c))])
      | SND_AUDIOCODEC_ALAC \<Rightarrow> (Some AGM_FORMAT_ALAC,
          [(9, enc8 (sc_ch_in c)), (20, enc32 (sc_sample_rate c))])
      | SND_AUDIOCODEC_APE \<Rightarrow> (Some AGM_FORMAT_APE,
          [(22, enc16 (sc_ch_in c)), (24, enc32 (sc_sample_rate c))])
      | SND_AUDIOCODEC_WMA \<Rightarrow> (Some AGM_FORMAT_WMASTD,
          [(0, enc16 (sc_format c)), (2, enc16 (sc_ch_in c)), (4, enc32 (sc_sample_rate c))])
      | SND_AUDIOCODEC_WMA_PRO \<Rightarrow> (Some AGM_FORMAT_WMAPRO,
          [(0, enc16 (sc_format c)), (2, enc16 (sc_ch_in c)), (4, enc32 (sc_sample_rate c))])
      | SND_AUDIOCODEC_VORBIS \<Rightarrow> (Some AGM_FORMAT_VORBIS, [])
      | SND_AUDIOCODEC_OTHER n \<Rightarrow> (None, []))"

text \<open>The writes under \<open>SND_COMPRESS_DEC_HDR\<close>.\<close>

definition wma_options :: "(copt \<Rightarrow> u32) \<Rightarrow> (nat \<times> u8 list) list" where
  "wma_options opt =
     [(8, enc32 (opt Wma_avg_bit_rate div 8)), (12, enc16 (opt Wma_super_block_align)),
      (14, enc16 (opt Wma_bits_per_sample)), (16, enc32 (opt Wma_channelmask)), (20, enc16 (opt Wma_encodeopt))]"

definition codec_options :: "plug_env \<Rightarrow> snd_codec \<Rightarrow> (nat \<times> u8 list) list" where
  "codec_options X c =
     (let opt = sc_options c in
      if \<not> dec_hdr X then []
      else case sc_id c of
        SND_AUDIOCODEC_AAC \<Rightarrow> [(2, enc16 (opt Aac_audio_obj_type)), (6, enc16 (opt Aac_pce_bits_size))]
      | SND_AUDIOCODEC_FLAC \<Rightarrow>
          [(2, enc16 (opt Flac_sample_size)), (4, enc16 (opt Flac_min_blk_size)), (6, enc16 (opt Flac_max_blk_size)),
           (12, enc32 (opt Flac_min_frame_size)), (16, enc32 (opt Flac_max_frame_size))]
      | SND_AUDIOCODEC_ALAC \<Rightarrow>
          [(0, enc32 (opt Alac_frame_length)), (4, enc8 (opt Alac_compatible_version)),
           (5, enc8 (opt Alac_bit_depth)), (6, enc8 (opt Alac_pb)), (7, enc8 (opt Alac_mb)), (8, enc8 (opt Alac_kb)),
           (10, enc16 (opt Alac_max_run)), (12, enc32 (opt Alac_max_frame_bytes)),
           (16, enc32 (opt Alac_avg_bit_rate)), (24, enc32 (opt Alac_channel_layout_tag))]
      | SND_AUDIOCODEC_APE \<Rightarrow>
          [(20, enc16 (opt Ape_bits_per_sample)), (0, enc16 (opt Ape_compatible_version)),
           (2, enc16 (opt Ape_compression_level)), (4, enc32 (opt Ape_format_flags)),
           (8, enc32 (opt Ape_blocks_per_frame)), (12, enc32 (opt Ape_final_frame_blocks)),
           (16, enc32 (opt Ape_total_frames)), (28, enc32 (opt Ape_seek_table_present))]
      | SND_AUDIOCODEC_WMA \<Rightarrow> wma_options opt
      | SND_AUDIOCODEC_WMA_PRO \<Rightarrow>
          wma_options opt @ [(22, enc16 (opt Wma_encodeopt1)), (24, enc32 (opt Wma_encodeopt2))]
      | _ \<Rightarrow> [])"

definition agm_session_update_codec_config ::
    "plug_env \<Rightarrow> agm_compress_priv \<Rightarrow> snd_compr_params \<Rightarrow> int \<times> agm_compress_priv" where
  "agm_session_update_codec_config X priv params =
     (let c = cpar_codec params; (fmt, writes) = codec_config X c;
          mc = (cp_media_config priv)\<lparr>rate := sc_sample_rate c, channels := sc_ch_out c\<rparr>;
          mc = (case fmt of None \<Rightarrow> mc | Some f \<Rightarrow> mc\<lparr>format := f\<rparr>);
          sc = cp_session_config priv in
      (0, priv\<lparr>cp_media_config := mc, cp_session_config :=
        sc\<lparr>codec := fold (\<lambda>(off, bs). put_bytes off bs) (writes @ codec_options X c) (codec sc)\<rparr>\<rparr>))"

text \<open>The buffers, the thresholds and the data mode.\<close>

definition compr_buffer_params :: "agm_compress_priv \<Rightarrow> snd_compr_params \<Rightarrow> agm_compress_priv" where
  "compr_buffer_params priv params =
     (let bc = \<lparr>bcount = cpar_fragments params, bsize = ucast (cpar_fragment_size params)\<rparr>;
          priv = priv\<lparr>cp_buffer_config := bc, total_buf_size := bsize bc * ucast (bcount bc)\<rparr>;
          sc = cp_session_config priv in
      priv\<lparr>bytes_avail := (if dir sc = RX then total_buf_size priv else 0),
        cp_session_config := sc\<lparr>start_threshold := 0, stop_threshold := 0,
          data_mode := AGM_DATA_NON_BLOCKING\<rparr>\<rparr>)"

definition agm_compress_set_params ::
    "plug_env \<Rightarrow> compress_plugin \<Rightarrow> snd_compr_params \<Rightarrow> (int \<times> compress_plugin) plug" where
  "agm_compress_set_params X plugin params =
     with_compr plugin (\<lambda>ret. (ret, plugin)) (\<lambda>handle priv s. do {
       let (ret, priv) = agm_session_update_codec_config X (compr_buffer_params priv params) params;
       let plugin = plugin\<lparr>cpl_priv := Some priv\<rparr>;
       if ret \<noteq> 0 then Some ((ret, plugin), s)
       else do {
         (ret, s) \<leftarrow> on_svc (agm_session_set_config (cp_handle priv) (cp_session_config priv)
           (cp_media_config priv) (cp_buffer_config priv)) s;
         Some ((ret, plugin), s)
       }
     })"

section \<open>Control\<close>

definition compr_session_op :: "(nat option \<Rightarrow> int agm) \<Rightarrow> compress_plugin \<Rightarrow> int plug" where
  "compr_session_op f plugin = with_compr plugin id (\<lambda>handle priv. on_svc (f handle))"

definition agm_compress_start :: "plug_env \<Rightarrow> compress_plugin \<Rightarrow> int plug" where
  "agm_compress_start X = compr_session_op (agm_session_start (penv X))"

definition agm_compress_pause :: "plug_env \<Rightarrow> compress_plugin \<Rightarrow> int plug" where
  "agm_compress_pause X = compr_session_op (agm_session_pause (penv X))"

definition agm_compress_resume :: "plug_env \<Rightarrow> compress_plugin \<Rightarrow> int plug" where
  "agm_compress_resume X = compr_session_op (agm_session_resume (penv X))"

definition agm_compress_stop :: "plug_env \<Rightarrow> compress_plugin \<Rightarrow> (int \<times> compress_plugin) plug" where
  "agm_compress_stop X plugin =
     with_compr plugin (\<lambda>ret. (ret, plugin)) (\<lambda>handle priv s. do {
       (priv, s) \<leftarrow> unblock_eos X priv s;
       (_, s) \<leftarrow> signal X Poll_cond s;
       (ret, s) \<leftarrow> on_svc (agm_session_stop (penv X) handle) s;
       if ret \<noteq> 0 then Some ((ret, plugin\<lparr>cpl_priv := Some priv\<rparr>), s)
       else Some ((ret, plugin\<lparr>cpl_priv := Some
         (priv\<lparr>bytes_avail := total_buf_size priv, bytes_copied := 0\<rparr>)\<rparr>), s)
     })"

text \<open>
  A drain up to its wait on \<open>eos_cond\<close>: the result is \<open>None\<close> if the thread now waits, and the
  return value if it does not get there. \<open>eos_lock\<close> is held from the assignment of \<open>eos\<close> to
  the wait, so no event comes between them. The wait is not in a loop: \<open>agm_compress_drain_wakes\<close>
  is the rest of the function, and it runs once the thread is woken.
\<close>

definition agm_compress_drain :: "plug_env \<Rightarrow> compress_plugin \<Rightarrow> (int option \<times> compress_plugin) plug" where
  "agm_compress_drain X plugin =
     with_compr plugin (\<lambda>ret. (Some ret, plugin)) (\<lambda>handle priv s. do {
       let priv = priv\<lparr>cp_eos := True\<rparr>;
       (ret, s) \<leftarrow> on_svc (agm_session_eos (penv X) handle) s;
       if ret \<noteq> 0 then Some ((Some ret, plugin\<lparr>cpl_priv := Some priv\<rparr>), s)
       else Some ((None, plugin\<lparr>cpl_priv := Some (priv\<lparr>cp_drainer := Drain_waits\<rparr>)\<rparr>), s)
     })"

definition agm_compress_drain_wakes :: "agm_compress_priv \<Rightarrow> (int \<times> agm_compress_priv) option" where
  "agm_compress_drain_wakes priv =
     (if cp_drainer priv = Drain_woken then Some (0, priv\<lparr>cp_drainer := No_drain\<rparr>) else None)"

definition agm_compress_partial_drain :: "compress_plugin \<Rightarrow> int plug" where
  "agm_compress_partial_drain plugin = with_compr plugin id (\<lambda>handle priv s. Some (0, s))"

definition agm_compress_next_track :: "compress_plugin \<Rightarrow> int plug" where
  "agm_compress_next_track plugin = with_compr plugin id (\<lambda>handle priv s. Some (0, s))"

text \<open>
  The results are the return value and the bits set in \<open>revents\<close>. Only whole seconds of the
  timeout are added to the time; C divides towards zero.
\<close>

definition agm_compress_poll :: "plug_env \<Rightarrow> compress_plugin \<Rightarrow> int \<Rightarrow> (int \<times> int) plug" where
  "agm_compress_poll X plugin timeout =
     with_compr plugin (\<lambda>ret. (ret, 0)) (\<lambda>handle priv s. do {
       (now, s) \<leftarrow> pcall X P_clock_gettime s;
       (r, s) \<leftarrow> pcall X (if timeout < 0 then P_cond_wait
         else P_cond_timedwait (fst (pr_time now) + timeout div 1000)) s;
       Some (if pr_rc r = ETIMEDOUT then (0, 0) else (COMPR_POLLOUT, COMPR_POLLOUT), s)
     })"

section \<open>Open and close\<close>

definition agm_compress_close :: "plug_env \<Rightarrow> compress_plugin \<Rightarrow> unit plug" where
  "agm_compress_close X plugin =
     with_compr plugin (\<lambda>ret. ()) (\<lambda>handle priv s. do {
       (_, s) \<leftarrow> on_svc (agm_session_register_cb (penv X) (cp_session_id priv) None
         AGM_EVENT_DATA_PATH (cpl_addr plugin)) s;
       (_, s) \<leftarrow> on_svc (agm_session_close (penv X) handle) s;
       (_, s) \<leftarrow> on_cards (snd_card_def_put_card (cp_card_node priv)) s;
       (priv, s) \<leftarrow> unblock_eos X priv s;
       (_, s) \<leftarrow> signal X Poll_cond s;
       s \<leftarrow> p_frees [Blk_priv, Blk_plugin] s;
       Some ((), s)
     })"

definition zero_caps :: snd_compr_caps where
  "zero_caps = \<lparr>cc_num_codecs = 0, cc_direction_playback = True, cc_min_fragment_size = 0,
     cc_max_fragment_size = 0, cc_min_fragments = 0, cc_max_fragments = 0,
     cc_codecs = replicate 32 (SND_AUDIOCODEC_OTHER 0)\<rparr>"

definition agm_populate_codec_caps :: "agm_compress_priv \<Rightarrow> agm_compress_priv" where
  "agm_populate_codec_caps priv =
     (let cap = cp_compr_cap priv in
      priv\<lparr>cp_compr_cap := cap\<lparr>cc_direction_playback := True,
        cc_min_fragment_size := COMPR_PLAYBACK_MIN_FRAGMENT_SIZE,
        cc_max_fragment_size := COMPR_PLAYBACK_MAX_FRAGMENT_SIZE,
        cc_min_fragments := COMPR_PLAYBACK_MIN_NUM_FRAGMENTS,
        cc_max_fragments := COMPR_PLAYBACK_MAX_NUM_FRAGMENTS,
        cc_codecs := [SND_AUDIOCODEC_MP3, SND_AUDIOCODEC_AAC, SND_AUDIOCODEC_WMA, SND_AUDIOCODEC_FLAC,
          SND_AUDIOCODEC_VORBIS, SND_AUDIOCODEC_ALAC, SND_AUDIOCODEC_APE] @ drop 7 (cc_codecs cap),
        cc_num_codecs := 7\<rparr>\<rparr>)"

definition zero_compr_priv :: agm_compress_priv where
  "zero_compr_priv = \<lparr>cp_media_config = zero_media_config, cp_buffer_config = \<lparr>bcount = 0, bsize = 0\<rparr>,
     cp_session_config = zero_stream_config, cp_compr_cap = zero_caps, cp_handle = None,
     cp_prepared = False, bytes_copied = 0, total_buf_size = 0, bytes_avail = 0, bytes_received = 0,
     bytes_read = 0, cp_start_drain = False, cp_eos = False, cp_card_node = None,
     cp_session_id = 0, cp_drainer = No_drain\<rparr>"

text \<open>
  The labels at the end of the function, from \<open>err_card_put\<close> on, and from \<open>err_priv_free\<close> on when
  there is no card: to put back no card does nothing.
\<close>

definition compr_open_fail :: "int \<Rightarrow> nat option \<Rightarrow> (int \<times> compress_plugin option) plug" where
  "compr_open_fail ret card_node s = do {
     (_, s) \<leftarrow> on_cards (snd_card_def_put_card card_node) s;
     s \<leftarrow> p_frees [Blk_priv, Blk_plugin] s;
     Some ((if ret < 0 then ret else - ret, None), s)
   }"

text \<open>The three properties of the node, until one is missing.\<close>

fun compr_get_ints :: "dev_node option \<Rightarrow> string list \<Rightarrow> int list \<Rightarrow> (int \<times> int list) plug" where
  "compr_get_ints nd [] vs s = Some ((0, rev vs), s)"
| "compr_get_ints nd (p # ps) vs s = do {
     ((ret, v), s) \<leftarrow> on_cards (snd_card_def_get_int nd p) s;
     if ret \<noteq> 0 then Some ((ret, rev vs), s)
     else compr_get_ints nd ps (case_option 0 id v # vs) s
   }"

text \<open>The session: opened, and the callback registered.\<close>

definition compr_open_session ::
    "plug_env \<Rightarrow> nat \<Rightarrow> compress_plugin \<Rightarrow> agm_compress_priv \<Rightarrow> (int \<times> compress_plugin option) plug" where
  "compr_open_session X self plugin priv s = do {
     ((ret, handle), s) \<leftarrow> on_svc (agm_session_open (penv X) (cp_session_id priv) True) s;
     if ret \<noteq> 0 then compr_open_fail ret (cp_card_node priv) s
     else do {
       (ret, s) \<leftarrow> on_svc (agm_session_register_cb (penv X) (cp_session_id priv)
         (Some (pcb_addr X Compress_event_cb)) AGM_EVENT_DATA_PATH self) s;
       if ret \<noteq> 0 then do {
         (_, s) \<leftarrow> on_svc (agm_session_close (penv X) handle) s;
         compr_open_fail ret (cp_card_node priv) s
       } else Some ((0, Some (plugin\<lparr>cpl_priv :=
           Some ((agm_populate_codec_caps priv)\<lparr>cp_handle := handle\<rparr>)\<rparr>)), s)
     }
   }"

text \<open>Both tests of the direction leave \<open>ret\<close> at zero.\<close>

definition compr_open_dir ::
    "plug_env \<Rightarrow> nat \<Rightarrow> u32 \<Rightarrow> u32 \<Rightarrow> u32 \<Rightarrow> nat option \<Rightarrow> dev_node option \<Rightarrow> int list
      \<Rightarrow> (int \<times> compress_plugin option) plug" where
  "compr_open_dir X self crd device flags card_node compr_node vs s =
     (let priv = zero_compr_priv\<lparr>cp_card_node := card_node, cp_session_id := device,
            cp_session_config := zero_stream_config\<lparr>is_hostless := vs ! 2 \<noteq> 0,
              dir := (if has_flag flags (pflags X COMPRESS_IN) then RX else TX)\<rparr>\<rparr>;
          plugin = \<lparr>cpl_addr = self, cpl_card = crd, cpl_node = compr_node, cpl_priv = Some priv\<rparr> in
      if dir (cp_session_config priv) = RX \<and> vs ! 0 = 0 then compr_open_fail 0 card_node s
      else if dir (cp_session_config priv) = TX \<and> vs ! 1 = 0 then compr_open_fail 0 card_node s
      else compr_open_session X self plugin priv s)"

definition compr_open_node ::
    "plug_env \<Rightarrow> nat \<Rightarrow> u32 \<Rightarrow> u32 \<Rightarrow> u32 \<Rightarrow> nat option \<Rightarrow> (int \<times> compress_plugin option) plug" where
  "compr_open_node X self crd device flags card_node s = do {
     (compr_node, s) \<leftarrow> on_cards (snd_card_def_get_node card_node device SND_NODE_TYPE_COMPR) s;
     if compr_node = None then compr_open_fail (- EINVAL) card_node s
     else do {
       ((ret, vs), s) \<leftarrow> compr_get_ints compr_node [''playback'', ''capture'', ''hostless''] [] s;
       if ret \<noteq> 0 then compr_open_fail ret card_node s
       else compr_open_dir X self crd device flags card_node compr_node vs s
     }
   }"

text \<open>\<open>self\<close> is the address of the new object, the client data of the callback.\<close>

definition agm_compress_plugin_open ::
    "plug_env \<Rightarrow> nat \<Rightarrow> u32 \<Rightarrow> u32 \<Rightarrow> u32 \<Rightarrow> (int \<times> compress_plugin option) plug" where
  "agm_compress_plugin_open X self crd device flags s = do {
     (ok, s) \<leftarrow> p_calloc X Blk_plugin s;
     if \<not> ok then Some ((- ENOMEM, None), s)
     else do {
       (ok, s) \<leftarrow> p_calloc X Blk_priv s;
       if \<not> ok then do { s \<leftarrow> p_frees [Blk_plugin] s; Some ((- ENOMEM, None), s) }
       else do {
         (card_node, s) \<leftarrow> on_cards (snd_card_def_get_card (cenv X) crd) s;
         if card_node = None then compr_open_fail (- EINVAL) None s
         else compr_open_node X self crd device flags card_node s
       }
     }
   }"

end
