(* ===== verification/Agm_Compress_Props.thy ===== *)
theory Agm_Compress_Props
  imports Agm_Compress_Plugin Agm_Plugin_Heap Agm_Pcm_Props Agm_Props_Session Agm_Graph_Module
begin

text \<open>
  Correctness of the compress plugin: \<open>bytes_avail\<close> as the free fragments of a ring, the
  wake-up of a drain, and the codec parameters on their way to the graph.
\<close>

section \<open>The free fragments\<close>

text \<open>The number of fragments of \<open>f\<close> bytes that \<open>sz\<close> bytes occupy.\<close>

definition frags :: "nat \<Rightarrow> nat \<Rightarrow> nat" where
  "frags f sz = (sz + f - 1) div f"

text \<open>\<open>n\<close> of \<open>N\<close> fragments of \<open>f\<close> bytes are free.\<close>

definition ring_of :: "nat \<Rightarrow> nat \<Rightarrow> nat \<Rightarrow> agm_compress_priv \<Rightarrow> bool" where
  "ring_of f N n p \<longleftrightarrow> 0 < f \<and> N * f < 0x80000000 \<and> n \<le> N \<and> unat (bsize (cp_buffer_config p)) = f
     \<and> unat (total_buf_size p) = N * f \<and> unat (bytes_avail p) = n * f"

lemma frags_cases: "0 < f \<Longrightarrow> frags f sz = (if sz mod f = 0 then sz div f else sz div f + 1)"
proof -
  assume f: "0 < f"
  have "(sz div f * f + sz mod f + f - 1) div f = (if sz mod f = 0 then sz div f else sz div f + 1)"
  proof (cases "sz mod f = 0")
    case True
    have "sz div f * f + f - 1 = sz div f * f + (f - 1)" using f by simp
    also have "\<dots> div f = sz div f" using f by (simp only: div_mult_self3) simp
    finally show ?thesis using True by simp
  next
    case False
    have "sz div f * f + sz mod f + f - 1 = (sz div f + 1) * f + (sz mod f - 1)"
      using False f by simp
    moreover have "sz mod f - 1 < f" using f by (simp add: less_imp_diff_less)
    ultimately show ?thesis using False by (simp only: div_mult_self3) simp
  qed
  then show ?thesis by (simp add: frags_def)
qed

lemma frags_le:
  assumes "0 < f" "sz \<le> n * f"
  shows "frags f sz \<le> n"
proof -
  have "frags f sz < n + 1"
    unfolding frags_def by (rule less_mult_imp_div_less) (use assms in \<open>simp add: algebra_simps\<close>)
  then show ?thesis by simp
qed

lemma unat_u64: "unat (w :: u64) < 0x10000000000000000"
proof -
  have "unat w < 2 ^ LENGTH(64)" by (rule unsigned_less)
  then show ?thesis by simp
qed

lemma fragments_of_frags:
  assumes "0 < unat frag" "unat sz < 0x8000000000000000"
  shows "\<exists>k. fragments_of sz frag = Some k \<and> unat k = frags (unat frag) (unat sz)"
proof -
  have nz: "frag \<noteq> 0" using assms(1) by auto
  have "unat sz div unat frag \<le> unat sz" by (rule div_le_dividend)
  with assms(2) have "unat sz div unat frag + 1 < 0x10000000000000000" by linarith
  then have inc: "unat (sz div frag + 1) = unat sz div unat frag + 1"
    by (simp add: unat_word_ariths(1) unat_div)
  have "sz mod frag = 0 \<longleftrightarrow> unat sz mod unat frag = 0"
    by (metis unat_eq_0 unat_mod)
  with nz inc frags_cases [OF assms(1), of "unat sz"] show ?thesis
    by (auto simp: fragments_of_def unat_div)
qed

lemma sint_small: "unat (w :: u64) < 0x8000000000000000 \<Longrightarrow> sint w = int (unat w)"
proof -
  assume "unat w < 0x8000000000000000"
  then have "sint (word_of_int (int (unat w)) :: u64) = int (unat w)" by (intro sint_u64) linarith+
  then show ?thesis unfolding uint_nat [symmetric] by simp
qed

lemma to_int_small:
  assumes "unat w < 0x80000000"
  shows "to_int w = int (unat w)"
proof -
  have w: "uint w < 0x80000000" "0 \<le> uint w" using assms unfolding uint_nat by linarith+
  then have "take_bit 32 (uint w) = uint w" by (intro take_bit_int_eq_self) simp_all
  moreover have "signed_take_bit 31 (uint w) = uint w" by (rule signed_take_bit_int_eq_self) (use w order_trans [OF _ w(2), of "- 2147483648"] in simp_all)
  ultimately show ?thesis by (simp add: to_int_def sint_uint unsigned_ucast_eq)
qed

lemma ring_room:
  assumes "ring_of f N n p" "k \<le> n" "unat kw = k"
  shows "unat (bytes_avail p - kw * bsize (cp_buffer_config p)) = (n - k) * f"
proof -
  have le: "k * f \<le> n * f" "n * f \<le> N * f" "N * f < 0x80000000" using assms by (auto simp: ring_of_def)
  then have "k * f < 0x10000000000000000" by linarith
  then have "unat (kw * bsize (cp_buffer_config p)) = k * f"
    using assms by (simp add: unat_word_ariths(2) ring_of_def)
  then show ?thesis
    using assms le by (simp add: unat_sub word_le_nat_alt ring_of_def diff_mult_distrib)
qed

lemma account_fits:
  assumes "ring_of f N n p" "unat sz \<le> n * f"
  shows "\<exists>p'. compr_account sz p = Some (int (unat sz), p') \<and> ring_of f N (n - frags f (unat sz)) p'
    \<and> bytes_copied p' = bytes_copied p + sz \<and> cp_handle p' = cp_handle p"
proof -
  have r: "0 < f" "n \<le> N" "N * f < 0x80000000" "unat (bsize (cp_buffer_config p)) = f"
    using assms(1) by (auto simp: ring_of_def)
  have bound: "n * f \<le> N * f" using r by simp
  with r(3) assms(2) have le: "unat sz < 0x8000000000000000" by linarith
  obtain k where k: "fragments_of sz (bsize (cp_buffer_config p)) = Some k" "unat k = frags f (unat sz)"
    using fragments_of_frags [of "bsize (cp_buffer_config p)" sz] r(1,4) le by auto
  let ?a = "bytes_avail p - k * bsize (cp_buffer_config p)"
  have a: "unat ?a = (n - frags f (unat sz)) * f"
    using ring_room [OF assms(1) _ k(2)] frags_le [OF r(1) assms(2)] by simp
  have "unat ?a \<le> n * f" using a by simp
  with r bound have "sint ?a = int (unat ?a)" by (intro sint_small) linarith
  then have "\<not> sint ?a < 0" by simp
  moreover have "to_int sz = int (unat sz)" using r bound assms(2) by (intro to_int_small) linarith
  ultimately show ?thesis
    using assms(1) a k by (auto simp: compr_account_def ring_of_def)
qed

text \<open>What GSL promises of a write: it takes at most the bytes it is given.\<close>

definition gsl_write_ok :: "env \<Rightarrow> bool" where
  "gsl_write_ok E \<longleftrightarrow> (\<forall>h g t buf. rsize (ext E h (Gsl_write g t buf)) \<le> length buf)"

lemma session_write_size:
  assumes "gsl_write_ok E"
  shows "posts (agm_session_write E h buf s) (\<lambda>(ret, sz) s'. sz \<le> length buf)"
  unfolding agm_session_write_def with_handle_def session_obj_write_def graph_write_def xcall_def bind.simps
  using assms by (auto intro!: posts_flow posts_deref simp: gsl_write_ok_def)

text \<open>Every operation with a valid handle, in terms of the object behind it.\<close>

lemma with_compr_handle:
  "cpl_priv pl = Some p \<Longrightarrow> cp_handle p \<noteq> None \<Longrightarrow> with_compr pl err f s = f (cp_handle p) p s"
  by (auto simp: with_compr_def compr_get_session_handle_def)

definition keeps_ring :: "nat \<Rightarrow> nat \<Rightarrow> nat \<Rightarrow> compress_plugin \<Rightarrow> bool" where
  "keeps_ring f N n pl \<longleftrightarrow> (\<exists>p. cpl_priv pl = Some p \<and> cp_handle p \<noteq> None \<and> ring_of f N n p)"

definition copied :: "compress_plugin \<Rightarrow> u64" where
  "copied pl = (case cpl_priv pl of None \<Rightarrow> 0 | Some p \<Rightarrow> bytes_copied p)"

lemma prepare_keeps:
  "posts (compr_prepare X h p s) (\<lambda>(ret, p') s'. \<exists>b. p' = p\<lparr>cp_prepared := b\<rparr>)"
  unfolding compr_prepare_def by (rule posts_flow posts_deref | (auto intro: exI [of _ "cp_prepared p"]; fail))+

lemma write_ring:
  assumes "keeps_ring f N n pl" "gsl_write_ok (penv X)" "unat cnt \<le> n * f"
  shows "posts (agm_compress_write X pl buff cnt s)
    (\<lambda>(ret, pl') s'. keeps_ring f N (n - frags f (unat (copied pl' - copied pl))) pl')"
proof -
  obtain p where p: "cpl_priv pl = Some p" "cp_handle p \<noteq> None" "ring_of f N n p"
    using assms(1) by (auto simp: keeps_ring_def)
  have idle: "keeps_ring f N (n - frags f (unat (copied pl' - copied pl))) pl'"
    if "cpl_priv pl' = Some (p\<lparr>cp_prepared := b\<rparr>)" for pl' b
    using that p by (simp add: copied_def keeps_ring_def ring_of_def frags_def)
  have wrote: "posts (do { (ret, q) \<leftarrow> compr_account (word_of_nat sz) (p\<lparr>cp_prepared := b\<rparr>);
        Some ((ret, pl0\<lparr>cpl_priv := Some q\<rparr>), s) })
      (\<lambda>(ret, pl') s'. keeps_ring f N (n - frags f (unat (copied pl' - copied pl))) pl')"
    if "sz \<le> length (take (unat cnt) buff)" for sz b pl0 s
  proof -
    have "sz \<le> unat cnt" using that by simp
    moreover have "unat cnt < 0x10000000000000000" using unat_u64 [of cnt] by simp
    ultimately have sz: "unat (word_of_nat sz :: u64) = sz" by (simp add: unat_of_nat)
    then show ?thesis
      using account_fits [of f N n "p\<lparr>cp_prepared := b\<rparr>" "word_of_nat sz"] p \<open>sz \<le> unat cnt\<close> assms(3)
      by (auto simp: copied_def keeps_ring_def ring_of_def)
  qed
  have svc_write: "posts (on_svc (agm_session_write (penv X) h buf) s) (\<lambda>(ret, sz) s'. sz \<le> length buf)" for h buf s
    using session_write_size [OF assms(2), of h buf "svc s"]
    by (cases "agm_session_write (penv X) h buf (svc s)") (auto simp: on_svc_def)
  have same: "keeps_ring f N (n - frags f (unat (copied pl - copied pl))) pl"
    by (rule idle [where b = "cp_prepared p"]) (simp add: p)
  show ?thesis
    unfolding agm_compress_write_def with_compr_handle [OF p(1,2)] Let_def
    by (intro posts_if posts_bind [OF prepare_keeps] posts_SomeI posts_pair posts_NoneI)
      (auto intro!: posts_if posts_bind [OF svc_write] wrote idle simp: same [simplified])
qed

lemma write_done_ring:
  assumes "keeps_ring f N n pl" "n < N" "event_id ev = AGM_EVENT_WRITE_DONE"
  shows "posts (agm_compress_event_cb X (Some pl) (Some ev) s) (\<lambda>plo s'. \<exists>pl'. plo = Some pl' \<and> keeps_ring f N (n + 1) pl')"
proof -
  obtain p where p: "cpl_priv pl = Some p" "cp_handle p \<noteq> None" "ring_of f N n p"
    using assms(1) by (auto simp: keeps_ring_def)
  let ?a = "bytes_avail p + bsize (cp_buffer_config p)"
  have "(n + 1) * f \<le> N * f" using assms(2) by (intro mult_le_mono1) simp
  then have "unat ?a = (n + 1) * f"
    using p(3) by (simp add: unat_word_ariths(1) ring_of_def)
  with p(3) \<open>(n + 1) * f \<le> N * f\<close> have "ring_of f N (n + 1) (p\<lparr>bytes_avail := ?a\<rparr>)" "\<not> ?a > total_buf_size p"
    using assms(2) by (simp_all add: ring_of_def word_less_nat_alt not_less)
  with p show ?thesis
    using assms(3)
    by (auto simp: agm_compress_event_cb_def compress_event_def write_done_def signal_def pcall_def Let_def keeps_ring_def)
qed

text \<open>The end of the stream does not touch the ring.\<close>

definition same_ring :: "agm_compress_priv \<Rightarrow> agm_compress_priv \<Rightarrow> bool" where
  "same_ring p q \<longleftrightarrow> cp_buffer_config q = cp_buffer_config p \<and> total_buf_size q = total_buf_size p
     \<and> bytes_avail q = bytes_avail p \<and> cp_handle q = cp_handle p"

lemma unblock_keeps: "posts (unblock_eos X p s) (\<lambda>q s'. same_ring p q)"
  by (simp add: unblock_eos_def signal_def pcall_def same_ring_def)

lemma event_ring:
  assumes "keeps_ring f N n pl" "event_id ev \<noteq> AGM_EVENT_WRITE_DONE" "event_id ev \<noteq> AGM_EVENT_READ_DONE"
  shows "posts (agm_compress_event_cb X (Some pl) (Some ev) s) (\<lambda>plo s'. \<exists>pl'. plo = Some pl' \<and> keeps_ring f N n pl')"
proof -
  obtain p where p: "cpl_priv pl = Some p" "cp_handle p \<noteq> None" "ring_of f N n p"
    using assms(1) by (auto simp: keeps_ring_def)
  have "posts (compress_event X p ev s) (\<lambda>(b, q) s'. \<not> b \<and> same_ring p q)"
    unfolding compress_event_def using assms(2,3)
    by (auto intro!: posts_bind [OF unblock_keeps] simp: same_ring_def)
  then show ?thesis
    unfolding agm_compress_event_cb_def option.case p(1)
    by (rule posts_bind)
      (use p in \<open>auto simp: signal_def pcall_def keeps_ring_def ring_of_def same_ring_def\<close>)
qed

lemma stop_ring:
  assumes "keeps_ring f N n pl"
  shows "posts (agm_compress_stop X pl s) (\<lambda>(ret, pl') s'. keeps_ring f N (if ret = 0 then N else n) pl')"
proof -
  obtain p where p: "cpl_priv pl = Some p" "cp_handle p \<noteq> None" "ring_of f N n p"
    using assms(1) by (auto simp: keeps_ring_def)
  show ?thesis
    unfolding agm_compress_stop_def with_compr_handle [OF p(1,2)]
    by (rule posts_bind [OF unblock_keeps])
      (use p in \<open>auto intro!: posts_bind [OF live_on_svc [OF live_refl]]
        simp: signal_def pcall_def keeps_ring_def ring_of_def same_ring_def\<close>)
qed

lemma drain_ring:
  assumes "keeps_ring f N n pl"
  shows "posts (agm_compress_drain X pl s) (\<lambda>(ret, pl') s'. keeps_ring f N n pl')"
proof -
  obtain p where p: "cpl_priv pl = Some p" "cp_handle p \<noteq> None" "ring_of f N n p"
    using assms(1) by (auto simp: keeps_ring_def)
  show ?thesis
    unfolding agm_compress_drain_def with_compr_handle [OF p(1,2)] Let_def
    by (rule posts_bind [OF live_on_svc [OF live_refl]]) (use p in \<open>auto simp: keeps_ring_def ring_of_def\<close>)
qed

lemma params_ring:
  assumes "cpl_priv pl = Some p" "cp_handle p \<noteq> None" "dir (cp_session_config p) = RX"
    and "0 < unat (cpar_fragment_size pa)" "unat (cpar_fragments pa) * unat (cpar_fragment_size pa) < 0x80000000"
  shows "posts (agm_compress_set_params X pl pa s)
    (\<lambda>(ret, pl') s'. keeps_ring (unat (cpar_fragment_size pa)) (unat (cpar_fragments pa)) (unat (cpar_fragments pa)) pl')"
proof -
  have "unat (ucast (cpar_fragment_size pa) * ucast (cpar_fragments pa) :: u64)
      = unat (cpar_fragments pa) * unat (cpar_fragment_size pa)"
    using assms(5) by (simp add: unat_word_ariths(2) mult.commute)
  then show ?thesis
    unfolding agm_compress_set_params_def with_compr_handle [OF assms(1,2)] agm_session_update_codec_config_def
      compr_buffer_params_def Let_def
    using assms
    by (auto split: prod.split intro!: posts_bind [OF live_on_svc [OF live_refl]] simp: keeps_ring_def ring_of_def)
qed

text \<open>
  The life of a playback stream as its client sees it, with the number of free fragments: the
  client writes at most what is free, and the DSP gives back only fragments that it holds.
  Between the steps anything may happen in the service and outside.
\<close>

inductive stream :: "plug_env \<Rightarrow> nat \<Rightarrow> nat \<Rightarrow> nat \<Rightarrow> compress_plugin \<Rightarrow> bool" for X :: plug_env where
  params: "cpl_priv pl = Some p \<Longrightarrow> cp_handle p \<noteq> None \<Longrightarrow> dir (cp_session_config p) = RX
    \<Longrightarrow> f = unat (cpar_fragment_size pa) \<Longrightarrow> N = unat (cpar_fragments pa) \<Longrightarrow> 0 < f \<Longrightarrow> N * f < 0x80000000
    \<Longrightarrow> agm_compress_set_params X pl pa s = Some ((ret, pl'), s') \<Longrightarrow> stream X f N N pl'"
| wrote: "stream X f N n pl \<Longrightarrow> unat cnt \<le> n * f
    \<Longrightarrow> agm_compress_write X pl buff cnt s = Some ((ret, pl'), s')
    \<Longrightarrow> stream X f N (n - frags f (unat (copied pl' - copied pl))) pl'"
| written: "stream X f N n pl \<Longrightarrow> n < N \<Longrightarrow> event_id ev = AGM_EVENT_WRITE_DONE
    \<Longrightarrow> agm_compress_event_cb X (Some pl) (Some ev) s = Some (Some pl', s') \<Longrightarrow> stream X f N (n + 1) pl'"
| event: "stream X f N n pl \<Longrightarrow> event_id ev \<noteq> AGM_EVENT_WRITE_DONE \<Longrightarrow> event_id ev \<noteq> AGM_EVENT_READ_DONE
    \<Longrightarrow> agm_compress_event_cb X (Some pl) (Some ev) s = Some (Some pl', s') \<Longrightarrow> stream X f N n pl'"
| stop: "stream X f N n pl \<Longrightarrow> agm_compress_stop X pl s = Some ((ret, pl'), s')
    \<Longrightarrow> stream X f N (if ret = 0 then N else n) pl'"
| drain: "stream X f N n pl \<Longrightarrow> agm_compress_drain X pl s = Some ((ret, pl'), s') \<Longrightarrow> stream X f N n pl'"

lemma stream_ring:
  assumes "stream X f N n pl" "gsl_write_ok (penv X)"
  shows "keeps_ring f N n pl"
  using assms(1)
proof induction
  case (params pl p f pa N s ret pl' s')
  then show ?case using params_ring [of pl p pa X s] by (simp add: posts_def)
next
  case (wrote f N n pl cnt buff s ret pl' s')
  then show ?case using write_ring [OF wrote.IH assms(2) wrote.hyps(2), of buff s] by (simp add: posts_def)
next
  case (written f N n pl ev s pl' s')
  then show ?case using write_done_ring [OF written.IH written.hyps(2,3), of X s] by (simp add: posts_def)
next
  case (event f N n pl ev s pl' s')
  then show ?case using event_ring [OF event.IH event.hyps(2,3), of X s] by (simp add: posts_def)
next
  case (stop f N n pl s ret pl' s')
  then show ?case using stop_ring [OF stop.IH, of X s] by (simp add: posts_def)
next
  case (drain f N n pl s ret pl' s')
  then show ?case using drain_ring [OF drain.IH, of X s] by (simp add: posts_def)
qed

lemma avail_is_bytes:
  assumes "keeps_ring f N n pl"
  shows "posts (agm_compress_avail X pl av s) (\<lambda>(ret, av') s'. ret = 0 \<and> unat (ca_avail av') = n * f)"
proof -
  obtain p where p: "cpl_priv pl = Some p" "cp_handle p \<noteq> None" "ring_of f N n p"
    using assms(1) by (auto simp: keeps_ring_def)
  have "posts m (\<lambda>r s'. True)" for m :: "(int \<times> snd_compr_tstamp, plug_state) result" by (simp add: posts_def)
  then show ?thesis
    unfolding agm_compress_avail_def with_compr_handle [OF p(1,2)]
    by (rule posts_bind) (use p in \<open>auto simp: ring_of_def\<close>)
qed

text \<open>
  C11: \<open>bytes_avail\<close> implements a ring of \<open>N\<close> fragments. Over every life of a playback stream in
  which the client writes at most what is free, the DSP gives back only fragments it holds and
  GSL takes at most the bytes it is given, \<open>avail\<close> reports exactly the free fragments: those of
  the parameters, less the fragments that the copied bytes of every write occupy (rounded up),
  plus one for every \<open>WRITE_DONE\<close>, and all of them after a stop.
\<close>

theorem compress_ring_refines:
  assumes "stream X f N n pl" "gsl_write_ok (penv X)"
  shows "n \<le> N \<and> (\<exists>p. cpl_priv pl = Some p \<and> unat (bytes_avail p) = n * f \<and> unat (total_buf_size p) = N * f)
    \<and> posts (agm_compress_avail X pl av s) (\<lambda>(ret, av') s'. ret = 0 \<and> unat (ca_avail av') = n * f)"
  using stream_ring [OF assms] avail_is_bytes [OF stream_ring [OF assms], of X av s]
  by (auto simp: keeps_ring_def ring_of_def)

definition sample_writer :: plug_env where
  "sample_writer = sample_plug_env\<lparr>penv := sample_env\<lparr>ext := \<lambda>h c. case c of
     Gsl_write g t buf \<Rightarrow> ok_reply\<lparr>rsize := length buf\<rparr> | _ \<Rightarrow> ok_reply\<rparr>\<rparr>"

definition sample_compress :: "agm_compress_priv \<Rightarrow> compress_plugin" where
  "sample_compress p = \<lparr>cpl_addr = 1, cpl_card = 100, cpl_node = None, cpl_priv = Some p\<rparr>"

definition sample_params :: snd_compr_params where
  "sample_params = \<lparr>cpar_fragment_size = 8192, cpar_fragments = 4, cpar_codec =
     \<lparr>sc_id = SND_AUDIOCODEC_FLAC, sc_ch_in = 2, sc_ch_out = 2, sc_sample_rate = 48000, sc_format = 0,
      sc_options = (\<lambda>f. if f = Flac_sample_size then 24 else 0)\<rparr>\<rparr>"

definition sample_compr_priv :: agm_compress_priv where
  "sample_compr_priv = zero_compr_priv\<lparr>cp_handle := Some 0,
     cp_session_config := zero_stream_config\<lparr>dir := RX\<rparr>\<rparr>"

definition sample_playing :: plug_state where
  "sample_playing = sample_plug_state\<lparr>svc := sample_run SESSION_STARTED AIF_STARTED DEV_STARTED STARTED\<rparr>"

lemma sample_gsl: "gsl_write_ok (penv sample_writer)"
  by (simp add: gsl_write_ok_def sample_writer_def)

lemmas unfold_compress = sample_writer_def sample_playing_def sample_compress_def sample_params_def
  sample_compr_priv_def zero_compr_priv_def sample_plug_env_def sample_plug_state_def
  with_compr_def compr_get_session_handle_def on_svc_def with_handle_def Let_def ok_reply_def

lemma sample_set:
  "\<exists>pl p s. agm_compress_set_params sample_writer
      (sample_compress (sample_compr_priv\<lparr>cp_prepared := True\<rparr>)) sample_params sample_playing = Some ((0, pl), s)
    \<and> cpl_priv pl = Some p \<and> cp_handle p = Some 0 \<and> cp_prepared p \<and> total_buf_size p = 32768
    \<and> bytes_avail p = 32768 \<and> bytes_copied p = 0 \<and> bsize (cp_buffer_config p) = 8192"
  by (simp add: agm_compress_set_params_def compr_buffer_params_def unfold_compress agm_session_update_codec_config_def codec_config_def
      agm_session_set_config_def session_obj_set_config_def)

lemma sample_write:
  assumes "cpl_priv pl = Some p" "cp_handle p = Some 0" "cp_prepared p" "total_buf_size p = 32768"
    "bytes_avail p = 32768" "bytes_copied p = 0" "bsize (cp_buffer_config p) = 8192"
  shows "\<exists>pl' q s'. agm_compress_write sample_writer pl (replicate 10000 0) 10000 sample_playing
      = Some ((10000, pl'), s') \<and> cpl_priv pl' = Some q \<and> bytes_copied q = 10000"
  using assms
  by (simp add: agm_compress_write_def unfold_compress compr_prepare_def agm_session_write_def
      session_obj_write_def graph_write_def xcall_def compr_account_def fragments_of_def to_int_def)

lemma sample_stream: "\<exists>pl. stream sample_writer 8192 4 2 pl"
proof -
  obtain pl p s where pl: "agm_compress_set_params sample_writer
      (sample_compress (sample_compr_priv\<lparr>cp_prepared := True\<rparr>)) sample_params sample_playing = Some ((0, pl), s)"
    and p: "cpl_priv pl = Some p" "cp_handle p = Some 0" "cp_prepared p" "total_buf_size p = 32768"
      "bytes_avail p = 32768" "bytes_copied p = 0" "bsize (cp_buffer_config p) = 8192"
    using sample_set by blast
  obtain pl' q s' where pl': "agm_compress_write sample_writer pl (replicate 10000 0) 10000 sample_playing
      = Some ((10000, pl'), s')" "cpl_priv pl' = Some q" "bytes_copied q = 10000"
    using sample_write [OF p] by blast
  have "stream sample_writer 8192 4 4 pl"
    by (rule stream.params [OF _ _ _ _ _ _ _ pl, where p = "sample_compr_priv\<lparr>cp_prepared := True\<rparr>"])
      (simp_all add: unfold_compress)
  then have "stream sample_writer 8192 4 (4 - frags 8192 (unat (copied pl' - copied pl))) pl'"
    by (rule stream.wrote [OF _ _ pl'(1)]) simp
  then show ?thesis
    using p pl' by (auto simp: copied_def frags_def)
qed

theorem compress_ring_refines_witness:
  "\<exists>pl p. stream sample_writer 8192 4 2 pl \<and> cpl_priv pl = Some p \<and> unat (bytes_avail p) = 16384"
proof -
  obtain pl where pl: "stream sample_writer 8192 4 2 pl" using sample_stream by blast
  with compress_ring_refines [OF pl sample_gsl, of undefined sample_playing] show ?thesis by auto
qed

section \<open>Codec parameters on their way to the graph\<close>

lemma length_put_bytes: "off + length bs \<le> length mem \<Longrightarrow> length (put_bytes off bs mem) = length mem"
  by (simp add: put_bytes_def)

lemma nth_put_bytes:
  "off + length bs \<le> length mem \<Longrightarrow>
    nth_default 0 (put_bytes off bs mem) i = (if off \<le> i \<and> i < off + length bs then bs ! (i - off) else nth_default 0 mem i)"
  by (auto simp: put_bytes_def nth_default_def nth_append min_def)

lemma length_enc: "length (enc8 w) = 1" "length (enc16 w) = 2" "length (enc32 w) = 4"
  by (simp_all add: enc8_def enc16_def enc32_def)

lemma enc8_value [simp]: "uint (enc8 w ! 0) = uint w mod 256"
  by (simp add: enc8_def unsigned_ucast_eq take_bit_eq_mod)

lemma enc16_value [simp]: "uint (enc16 w ! 0) + 256 * uint (enc16 w ! Suc 0) = uint w mod 65536"
proof -
  have "uint w < 2 ^ LENGTH(32)" by (rule unsigned_less)
  then have "uint w mod 4294967296 = uint w" by simp
  moreover
  have "take_bit 8 (uint w) + 256 * take_bit 8 (drop_bit 8 (uint w)) = take_bit 16 (uint w)"
    using bits_ident [of 8 "take_bit 16 (uint w)"]
    by (simp add: drop_bit_take_bit push_bit_eq_mult algebra_simps)
  ultimately show ?thesis
    by (simp add: enc16_def unsigned_ucast_eq unsigned_drop_bit_eq take_bit_eq_mod)
qed

text \<open>The width of a sample that the client gives for its codec, in the width of the field.\<close>

definition client_bit_width :: "snd_codec \<Rightarrow> int" where
  "client_bit_width c =
     (case sc_id c of
        SND_AUDIOCODEC_FLAC \<Rightarrow> uint (sc_options c Flac_sample_size) mod 65536
      | SND_AUDIOCODEC_ALAC \<Rightarrow> uint (sc_options c Alac_bit_depth) mod 256
      | SND_AUDIOCODEC_APE \<Rightarrow> uint (sc_options c Ape_bits_per_sample) mod 65536
      | SND_AUDIOCODEC_WMA \<Rightarrow> uint (sc_options c Wma_bits_per_sample) mod 65536
      | SND_AUDIOCODEC_WMA_PRO \<Rightarrow> uint (sc_options c Wma_bits_per_sample) mod 65536
      | _ \<Rightarrow> 16)"

lemmas codec_bytes = length_put_bytes nth_put_bytes length_enc

lemma update_codec_width:
  assumes "dec_hdr X" "length (codec (cp_session_config p)) = 32" "\<And>n. sc_id (cpar_codec pa) \<noteq> SND_AUDIOCODEC_OTHER n"
    and "agm_session_update_codec_config X p pa = (ret, q)"
    and "stream_config so = cp_session_config q" "s_media_config so = cp_media_config q"
  shows "get_media_bit_width so = client_bit_width (cpar_codec pa)"
  using assms
  by (cases "sc_id (cpar_codec pa)")
    (auto simp: get_media_bit_width_def agm_session_update_codec_config_def codec_config_def codec_options_def
      wma_options_def client_bit_width_def is_format_pcm_def Let_def codec_u16_def codec_u8_def codec_bytes)

text \<open>
  C23: The width of a sample travels from the client through three components. After
  \<open>set_params\<close> has succeeded (with \<open>SND_COMPRESS_DEC_HDR\<close>), the bit width that the graph code
  reads from the codec union of the session is the one in the client's codec options, for every
  codec that has one, and 16 for MP3, AAC and Vorbis.
\<close>

theorem codec_width_reaches_graph:
  assumes "dec_hdr X" "length (codec (cp_session_config p)) = 32" "\<forall>n. sc_id (cpar_codec pa) \<noteq> SND_AUDIOCODEC_OTHER n"
    and "cpl_priv pl = Some p" "cp_handle p = Some h"
  shows "posts (agm_compress_set_params X pl pa s)
    (\<lambda>(ret, pl') s'. \<exists>so. sess_at (svc s') h = Some so \<and> get_media_bit_width so = client_bit_width (cpar_codec pa))"
proof -
  have h: "cp_handle p \<noteq> None" using assms(5) by simp
  have upd: "posts (on_svc (agm_session_set_config (Some h) (cp_session_config q) (cp_media_config q) bc) s)
      (\<lambda>r s'. \<exists>so. sess_at (svc s') h = Some so \<and> stream_config so = cp_session_config q \<and> s_media_config so = cp_media_config q)"
    for q bc
    by (auto simp: posts_def on_svc_def agm_session_set_config_def with_handle_def session_obj_set_config_def
        bind_eq_Some_conv sess.get_put_same)
  let ?start = "compr_buffer_params p pa"
  obtain q where q: "agm_session_update_codec_config X ?start pa = (0, q)"
    by (cases "codec_config X (cpar_codec pa)") (simp add: agm_session_update_codec_config_def Let_def)
  then have handle: "cp_handle q = Some h"
    using assms(5) by (auto simp: agm_session_update_codec_config_def compr_buffer_params_def Let_def split: prod.splits)
  have "length (codec (cp_session_config ?start)) = 32"
    using assms(2) by (simp add: compr_buffer_params_def Let_def)
  with update_codec_width [OF assms(1) _ _ q] assms(3) show ?thesis
    unfolding agm_compress_set_params_def with_compr_handle [OF assms(4) h] q Let_def prod.case handle
    by (auto intro!: posts_bind [OF upd])
qed

theorem codec_width_reaches_graph_witness:
  "posts (agm_compress_set_params sample_plug_env (sample_compress sample_compr_priv) sample_params sample_playing)
    (\<lambda>(ret, pl') s'. \<exists>so. sess_at (svc s') 0 = Some so \<and> get_media_bit_width so = 24)"
  using codec_width_reaches_graph [of sample_plug_env sample_compr_priv sample_params
      "sample_compress sample_compr_priv" 0 sample_playing]
  by (simp add: sample_plug_env_def sample_compr_priv_def sample_compress_def sample_params_def zero_compr_priv_def
      zero_stream_config_def client_bit_width_def)

end
