(* ===== verification/Agm_Compress_Life.thy ===== *)
theory Agm_Compress_Life
  imports Agm_Compress_Props Agm_Card_Props
begin

text \<open>
  The life of a compress plugin from the open to the close: the operations as steps of a run,
  the thread that waits in a drain, and the heap blocks.
\<close>

section \<open>Runs\<close>

datatype compr_op =
    Do_set_params snd_compr_params | Do_write "u8 list" u64 | Do_read "u8 list" u64
  | Do_avail snd_compr_avail | Do_tstamp snd_compr_tstamp | Do_get_caps bool
  | Do_start | Do_stop | Do_pause | Do_resume | Do_drain | Do_partial_drain | Do_next_track | Do_poll int
  | Do_event agm_event_cb_params

definition unchanged :: "compress_plugin \<Rightarrow> 'a plug \<Rightarrow> compress_plugin plug" where
  "unchanged pl m s = do { (r, s) \<leftarrow> m s; Some (pl, s) }"

primrec compr_do :: "plug_env \<Rightarrow> compr_op \<Rightarrow> compress_plugin \<Rightarrow> compress_plugin plug" where
  "compr_do X (Do_set_params pa) pl s = do { (r, s) \<leftarrow> agm_compress_set_params X pl pa s; Some (snd r, s) }"
| "compr_do X (Do_write b n) pl s = do { (r, s) \<leftarrow> agm_compress_write X pl b n s; Some (snd r, s) }"
| "compr_do X (Do_read b n) pl s = do { (r, s) \<leftarrow> agm_compress_read X pl b n s; Some (snd (snd r), s) }"
| "compr_do X (Do_avail av) pl s = unchanged pl (agm_compress_avail X pl av) s"
| "compr_do X (Do_tstamp ts) pl s = unchanged pl (agm_compress_tstamp X pl ts) s"
| "compr_do X (Do_get_caps c) pl s = unchanged pl (agm_compress_get_caps pl c) s"
| "compr_do X Do_start pl s = unchanged pl (agm_compress_start X pl) s"
| "compr_do X Do_stop pl s = do { (r, s) \<leftarrow> agm_compress_stop X pl s; Some (snd r, s) }"
| "compr_do X Do_pause pl s = unchanged pl (agm_compress_pause X pl) s"
| "compr_do X Do_resume pl s = unchanged pl (agm_compress_resume X pl) s"
| "compr_do X Do_drain pl s = do { (r, s) \<leftarrow> agm_compress_drain X pl s; Some (snd r, s) }"
| "compr_do X Do_partial_drain pl s = unchanged pl (agm_compress_partial_drain pl) s"
| "compr_do X Do_next_track pl s = unchanged pl (agm_compress_next_track pl) s"
| "compr_do X (Do_poll t) pl s = unchanged pl (agm_compress_poll X pl t) s"
| "compr_do X (Do_event ev) pl s = do { (r, s) \<leftarrow> agm_compress_event_cb X (Some pl) (Some ev) s; pl \<leftarrow> r; Some (pl, s) }"

primrec compr_run :: "plug_env \<Rightarrow> compr_op list \<Rightarrow> compress_plugin \<Rightarrow> compress_plugin plug" where
  "compr_run X [] pl s = Some (pl, s)"
| "compr_run X (op # ops) pl s = do { (pl, s) \<leftarrow> compr_do X op pl s; compr_run X ops pl s }"

text \<open>The steps that end a drain.\<close>

primrec wakes :: "compr_op \<Rightarrow> bool" where
  "wakes (Do_set_params pa) = False"
| "wakes (Do_write b n) = False"
| "wakes (Do_read b n) = False"
| "wakes (Do_avail av) = False"
| "wakes (Do_tstamp ts) = False"
| "wakes (Do_get_caps c) = False"
| "wakes Do_start = False"
| "wakes Do_stop = True"
| "wakes Do_pause = False"
| "wakes Do_resume = False"
| "wakes Do_drain = False"
| "wakes Do_partial_drain = False"
| "wakes Do_next_track = False"
| "wakes (Do_poll t) = False"
| "wakes (Do_event ev) = (event_id ev = AGM_EVENT_EOS_RENDERED)"

section \<open>What a step changes\<close>

definition same_wait :: "agm_compress_priv \<Rightarrow> agm_compress_priv \<Rightarrow> bool" where
  "same_wait p q \<longleftrightarrow> cp_handle q = cp_handle p \<and> cp_eos q = cp_eos p \<and> cp_drainer q = cp_drainer p"

definition unblocked :: "agm_compress_priv \<Rightarrow> agm_compress_priv \<Rightarrow> bool" where
  "unblocked p q \<longleftrightarrow> cp_handle q = cp_handle p \<and> \<not> cp_eos q
     \<and> cp_drainer q = (if cp_eos p \<and> cp_drainer p = Drain_waits then Drain_woken else cp_drainer p)"

definition evolves :: "compr_op \<Rightarrow> agm_compress_priv \<Rightarrow> agm_compress_priv \<Rightarrow> bool" where
  "evolves op p q \<longleftrightarrow> (if wakes op then unblocked p q
     else if op = Do_drain then cp_handle q = cp_handle p else same_wait p q)"

text \<open>After a call: the heap is as before, and the object is related to the one before.\<close>

definition stays :: "(agm_compress_priv \<Rightarrow> bool) \<Rightarrow> plug_state \<Rightarrow> compress_plugin \<Rightarrow> plug_state \<Rightarrow> bool" where
  "stays P s pl' s' \<longleftrightarrow> same_live s s' \<and> (\<exists>q. cpl_priv pl' = Some q \<and> P q)"

lemma same_wait_refl [simp]: "same_wait p p"
  by (simp add: same_wait_def)

lemma step_svc:
  "same_live s0 s \<Longrightarrow> (\<And>r s'. same_live s0 s' \<Longrightarrow> posts (f (r, s')) Q) \<Longrightarrow> posts (on_svc m s \<bind> f) Q"
  by (rule posts_bind [OF live_on_svc])

lemma live_with [live_rules]:
  assumes "\<And>h p. posts (f h p s) (\<lambda>r s'. same_live s0 s')" "same_live s0 s"
  shows "posts (with_compr pl err f s) (\<lambda>r s'. same_live s0 s')"
  unfolding with_compr_def Let_def by (rule posts_flow posts_deref assms)+

lemma live_signal [live_rules]: "same_live s0 s \<Longrightarrow> posts (signal X c s) (\<lambda>r s'. same_live s0 s')"
  by (simp add: signal_def pcall_def same_live_def)

lemma unchanged_stays:
  assumes "cpl_priv pl = Some p" "posts (m s) (\<lambda>r s'. same_live s s')"
  shows "posts (unchanged pl m s) (stays (same_wait p) s)"
  unfolding unchanged_def by (rule posts_bind [OF assms(2)]) (simp add: stays_def assms(1))

text \<open>Operations that leave the object alone.\<close>

lemma live_session_ops:
  "posts (compr_session_op g pl s) (\<lambda>r s'. same_live s s')"
  "posts (agm_compress_get_caps pl c s) (\<lambda>r s'. same_live s s')"
  "posts (agm_compress_partial_drain pl s) (\<lambda>r s'. same_live s s')"
  "posts (agm_compress_next_track pl s) (\<lambda>r s'. same_live s s')"
  "posts (agm_compress_poll X pl t s) (\<lambda>r s'. same_live s s')"
  unfolding compr_session_op_def agm_compress_get_caps_def agm_compress_partial_drain_def
    agm_compress_next_track_def agm_compress_poll_def
  by (assumption | rule live_steps live_rules live_refl | (simp add: pcall_def same_live_def; fail))+

lemma live_tstamp: "same_live s0 s \<Longrightarrow> posts (agm_compress_tstamp X pl ts s) (\<lambda>r s'. same_live s0 s')"
  unfolding agm_compress_tstamp_def by (assumption | rule live_steps live_rules)+

lemma live_avail: "posts (agm_compress_avail X pl av s) (\<lambda>r s'. same_live s s')"
  unfolding agm_compress_avail_def by (assumption | rule live_tstamp live_steps live_rules live_refl)+

text \<open>Operations that change it.\<close>

lemma prepare_waits:
  assumes "same_live s0 s"
  shows "posts (compr_prepare X h p s) (\<lambda>r s'. same_wait p (snd r) \<and> same_live s0 s')"
  unfolding compr_prepare_def
  by (assumption | rule assms step_svc posts_flow | (simp add: same_wait_def assms; fail))+

lemma account_waits: "compr_account sz p = Some (r, q) \<Longrightarrow> same_wait p q"
  by (auto simp: compr_account_def bind_eq_Some_conv same_wait_def Let_def split: if_splits)

lemma consume_waits: "compr_consume sz p = Some q \<Longrightarrow> same_wait p q"
  by (auto simp: compr_consume_def bind_eq_Some_conv same_wait_def)

lemma same_wait_trans: "same_wait p q \<Longrightarrow> same_wait q r \<Longrightarrow> same_wait p r"
  by (simp add: same_wait_def)

lemma write_stays:
  assumes "cpl_priv pl = Some p" "cp_handle p \<noteq> None"
  shows "posts (agm_compress_write X pl b n s) (\<lambda>r. stays (same_wait p) s (snd r))"
proof -
  have acc: "posts (do { (ret, q') \<leftarrow> compr_account sz q; Some ((ret, pl0\<lparr>cpl_priv := Some q'\<rparr>), s') })
      (\<lambda>r. stays (same_wait p) s (snd r))" if "same_wait p q" "same_live s s'" for sz q pl0 s'
    using that by (auto intro!: posts_deref simp: stays_def dest: account_waits same_wait_trans)
  show ?thesis
    unfolding agm_compress_write_def with_compr_handle [OF assms] Let_def
    by (intro posts_if posts_bind [OF prepare_waits [OF live_refl]])
      (auto intro!: posts_if step_svc acc simp: stays_def assms same_live_def)
qed

lemma read_stays:
  assumes "cpl_priv pl = Some p" "cp_handle p \<noteq> None"
  shows "posts (agm_compress_read X pl b n s) (\<lambda>r. stays (same_wait p) s (snd (snd r)))"
  unfolding agm_compress_read_def with_compr_handle [OF assms] Let_def
  by (intro posts_if posts_bind [OF live_on_svc [OF live_refl]])
    (auto intro!: posts_if posts_deref consume_waits simp: stays_def assms same_live_def)

lemma params_stays:
  assumes "cpl_priv pl = Some p" "cp_handle p \<noteq> None"
  shows "posts (agm_compress_set_params X pl pa s) (\<lambda>r. stays (same_wait p) s (snd r))"
  unfolding agm_compress_set_params_def with_compr_handle [OF assms] agm_session_update_codec_config_def
    compr_buffer_params_def Let_def
  by (auto split: prod.split intro!: posts_bind [OF live_on_svc [OF live_refl]] simp: stays_def same_wait_def)

lemma unblock_unblocked:
  assumes "same_live s0 s"
  shows "posts (unblock_eos X p s) (\<lambda>q s'. unblocked p q \<and> same_live s0 s')"
  using assms by (auto simp: unblock_eos_def signal_def pcall_def unblocked_def same_live_def)

lemma stop_stays:
  assumes "cpl_priv pl = Some p" "cp_handle p \<noteq> None"
  shows "posts (agm_compress_stop X pl s) (\<lambda>r. stays (unblocked p) s (snd r))"
  unfolding agm_compress_stop_def with_compr_handle [OF assms]
  by (rule posts_bind [OF unblock_unblocked [OF live_refl]])
    (auto intro!: posts_bind [OF live_signal] step_svc simp: stays_def unblocked_def)

lemma drain_stays:
  assumes "cpl_priv pl = Some p" "cp_handle p \<noteq> None"
  shows "posts (agm_compress_drain X pl s) (\<lambda>r. stays (\<lambda>q. cp_handle q = cp_handle p) s (snd r))"
  unfolding agm_compress_drain_def with_compr_handle [OF assms] Let_def
  by (auto intro!: posts_bind [OF live_on_svc [OF live_refl]] simp: stays_def)

lemma compress_event_stays:
  "posts (compress_event X p ev s) (\<lambda>r s'. evolves (Do_event ev) p (snd r) \<and> same_live s s')"
  unfolding compress_event_def write_done_def Let_def
  by (auto intro!: posts_if posts_bind [OF live_signal [OF live_refl]] posts_bind [OF unblock_unblocked [OF live_refl]]
      simp: evolves_def same_wait_def live_refl)

lemma event_stays:
  assumes "cpl_priv pl = Some p"
  shows "posts (agm_compress_event_cb X (Some pl) (Some ev) s \<bind> (\<lambda>(r, s). do { pl \<leftarrow> r; Some (pl, s) }))
    (stays (evolves (Do_event ev) p) s)"
proof -
  have "posts (agm_compress_event_cb X (Some pl) (Some ev) s)
      (\<lambda>r s'. \<exists>pl'. r = Some pl' \<and> stays (evolves (Do_event ev) p) s pl' s')"
    unfolding agm_compress_event_cb_def option.case assms
    by (rule posts_bind [OF compress_event_stays])
      (auto intro!: posts_LetI posts_if posts_bind [OF live_signal] simp: stays_def)
  then show ?thesis by (rule posts_bind) auto
qed

lemma compr_do_stays:
  assumes "cpl_priv pl = Some p" "cp_handle p \<noteq> None"
  shows "posts (compr_do X op pl s) (stays (evolves op p) s)"
proof -
  have lift: "posts (m \<bind> (\<lambda>(r, s). Some (g r, s))) (stays P s)"
    if "posts m (\<lambda>r. stays P s (g r))" for m :: "('a, plug_state) result" and g P
    by (rule posts_bind [OF that]) simp
  show ?thesis
  proof (cases op)
    case (Do_event ev)
    then show ?thesis using event_stays [OF assms(1)] by simp
  qed (auto intro!: lift write_stays read_stays params_stays stop_stays drain_stays assms
      simp: evolves_def [abs_def] agm_compress_start_def agm_compress_pause_def agm_compress_resume_def
      intro: unchanged_stays [OF assms(1)] live_session_ops live_tstamp [OF live_refl] live_avail)
qed

section \<open>Draining\<close>

definition waits :: "agm_compress_priv \<Rightarrow> bool" where
  "waits p \<longleftrightarrow> cp_handle p \<noteq> None \<and> cp_eos p \<and> cp_drainer p = Drain_waits"

definition woken :: "agm_compress_priv \<Rightarrow> bool" where
  "woken p \<longleftrightarrow> cp_handle p \<noteq> None \<and> cp_drainer p = Drain_woken"

lemma evolves_woken: "woken p \<Longrightarrow> evolves op p q \<Longrightarrow> op \<noteq> Do_drain \<Longrightarrow> woken q"
  by (auto simp: woken_def evolves_def unblocked_def same_wait_def split: if_splits)

lemma evolves_waits:
  "waits p \<Longrightarrow> evolves op p q \<Longrightarrow> op \<noteq> Do_drain \<Longrightarrow> (if wakes op then woken q else waits q)"
  by (auto simp: waits_def woken_def evolves_def unblocked_def same_wait_def split: if_splits)

lemma run_step:
  assumes "cpl_priv pl = Some p" "cp_handle p \<noteq> None" "compr_run X (op # ops) pl s = Some (pl2, s2)"
  obtains pl1 q s1 where "compr_run X ops pl1 s1 = Some (pl2, s2)" "cpl_priv pl1 = Some q" "evolves op p q"
    "same_live s s1"
  using compr_do_stays [OF assms(1,2), of X op s] assms(3)
  by (auto simp: bind_eq_Some_conv posts_def stays_def)

lemma run_woken:
  assumes "compr_run X ops pl s = Some (pl2, s2)" "cpl_priv pl = Some p" "woken p" "Do_drain \<notin> set ops"
  shows "\<exists>q. cpl_priv pl2 = Some q \<and> woken q"
  using assms
proof (induction ops arbitrary: pl p s)
  case (Cons op ops)
  then have "cp_handle p \<noteq> None" by (simp add: woken_def)
  with Cons.prems obtain pl1 q s1 where "compr_run X ops pl1 s1 = Some (pl2, s2)" "cpl_priv pl1 = Some q" "evolves op p q"
    by (blast elim: run_step)
  with Cons.prems show ?case by (intro Cons.IH [of pl1 s1 q]) (auto intro: evolves_woken)
qed auto

lemma run_waits:
  assumes "compr_run X ops pl s = Some (pl2, s2)" "cpl_priv pl = Some p" "waits p" "Do_drain \<notin> set ops"
  shows "\<exists>q. cpl_priv pl2 = Some q \<and> (if list_ex wakes ops then woken q else waits q)"
  using assms
proof (induction ops arbitrary: pl p s)
  case (Cons op ops)
  then have "cp_handle p \<noteq> None" by (simp add: waits_def)
  with Cons.prems obtain pl1 q s1 where step: "compr_run X ops pl1 s1 = Some (pl2, s2)" "cpl_priv pl1 = Some q" "evolves op p q"
    by (blast elim: run_step)
  have stepped: "if wakes op then woken q else waits q"
    using evolves_waits [OF Cons.prems(3) step(3)] Cons.prems(4) by auto
  show ?case
  proof (cases "wakes op")
    case True
    with stepped step Cons.prems(4) show ?thesis by (auto dest!: run_woken)
  next
    case False
    with stepped Cons.IH [OF step(1,2)] Cons.prems(4) show ?thesis by simp
  qed
qed auto


lemma sample_drain:
  "\<exists>pl1 s1. agm_compress_drain sample_writer (sample_compress sample_compr_priv) sample_playing = Some ((None, pl1), s1)"
  by (simp add: agm_compress_drain_def unfold_compress agm_session_eos_def session_obj_eos_def graph_eos_def xcall_def
      ar_osal_ok_def)


section \<open>The heap\<close>

text \<open>An open plugin: its two blocks, and the handle of the session.\<close>

definition compr_owns :: "pblock multiset \<Rightarrow> compress_plugin \<Rightarrow> plug_state \<Rightarrow> bool" where
  "compr_owns rest pl s \<longleftrightarrow> (\<exists>p. cpl_priv pl = Some p \<and> cp_handle p \<noteq> None)
     \<and> mset (live s) = {#Blk_plugin, Blk_priv#} + rest"

lemma evolves_handle: "evolves op p q \<Longrightarrow> cp_handle q = cp_handle p"
  by (auto simp: evolves_def unblocked_def same_wait_def split: if_splits)

lemma run_owns: "compr_run X ops pl s = Some (pl2, s2) \<Longrightarrow> compr_owns rest pl s \<Longrightarrow> compr_owns rest pl2 s2"
proof (induction ops arbitrary: pl s)
  case (Cons op ops)
  then obtain p where p: "cpl_priv pl = Some p" "cp_handle p \<noteq> None" by (auto simp: compr_owns_def)
  with Cons.prems(1) obtain pl1 q s1 where "compr_run X ops pl1 s1 = Some (pl2, s2)" "cpl_priv pl1 = Some q"
      "evolves op p q" "same_live s s1"
    by (blast elim: run_step)
  with p Cons.prems(2) show ?case
    by (intro Cons.IH [of pl1 s1]) (auto simp: compr_owns_def same_live_def dest: evolves_handle)
qed simp

lemma close_frees:
  assumes "compr_owns rest pl s"
  shows "posts (agm_compress_close X pl s) (\<lambda>r s'. mset (live s') = rest)"
proof -
  obtain p where p: "cpl_priv pl = Some p" "cp_handle p \<noteq> None" and live: "mset (live s) = {#Blk_plugin, Blk_priv#} + rest"
    using assms by (auto simp: compr_owns_def)
  have freed: "posts (do { s2 \<leftarrow> p_frees [Blk_priv, Blk_plugin] s1; Some ((), s2) }) (\<lambda>r s'. mset (live s') = rest)"
    if "same_live s s1" for s1
  proof (rule posts_deref)
    fix s2
    assume "p_frees [Blk_priv, Blk_plugin] s1 = Some s2"
    from p_frees_mset [OF this] that live have "mset (live s2) + {#Blk_priv, Blk_plugin#} = {#Blk_plugin, Blk_priv#} + rest"
      by (simp add: same_live_def)
    then have "mset (live s2) = rest" by (simp add: add_mset_commute)
    then show "posts (Some ((), s2)) (\<lambda>r s'. mset (live s') = rest)" by simp
  qed
  show ?thesis
    unfolding agm_compress_close_def with_compr_handle [OF p]
    by (intro step_svc [OF live_refl] step_svc posts_pair posts_bind [OF live_on_cards] posts_bind [OF unblock_unblocked]
        posts_bind [OF live_signal] freed) (auto intro: freed)
qed

text \<open>What an open leaves behind: the blocks of the object, or none and no object.\<close>

definition compr_open_post :: "pblock list \<Rightarrow> int \<times> compress_plugin option \<Rightarrow> plug_state \<Rightarrow> bool" where
  "compr_open_post rest r s' \<longleftrightarrow> (case snd r of None \<Rightarrow> fst r \<le> 0 \<and> live s' = rest
     | Some pl \<Rightarrow> fst r = 0 \<and> compr_owns (mset rest) pl s')"

abbreviation (input) two_blocks :: "pblock list \<Rightarrow> pblock list" where
  "two_blocks rest \<equiv> [Blk_priv, Blk_plugin] @ rest"

lemma compr_fail_post:
  assumes "live s = two_blocks rest"
  shows "posts (compr_open_fail ret cn s) (compr_open_post rest)"
  unfolding compr_open_fail_def
  by (rule posts_bind [OF live_on_cards [OF live_refl]])
    (use assms in \<open>auto simp: same_live_def p_frees_own compr_open_post_def simp del: p_frees.simps\<close>)

lemma compr_session_post:
  assumes "live s = two_blocks rest"
  shows "posts (compr_open_session X self pl p s) (compr_open_post rest)"
  unfolding compr_open_session_def
  by (rule posts_bind [OF on_svc_posts [OF session_open_handle]])
    (use assms in \<open>auto intro!: posts_if compr_fail_post posts_bind [OF live_on_svc [OF live_refl]]
      simp: same_live_def compr_open_post_def compr_owns_def\<close>)

lemma compr_ints_live:
  "same_live s0 s \<Longrightarrow> posts (compr_get_ints nd ps vs s) (\<lambda>r s'. same_live s0 s')"
proof (induction ps arbitrary: vs s)
  case (Cons p ps)
  show ?case
    unfolding compr_get_ints.simps by (assumption | rule Cons live_steps live_rules)+
qed simp

lemma compr_node_post:
  assumes "live s = two_blocks rest"
  shows "posts (compr_open_node X self crd dev flags cn s) (compr_open_post rest)"
proof -
  have dir: "posts (compr_open_dir X self crd dev flags cn nd vs s1) (compr_open_post rest)"
    if "live s1 = two_blocks rest" for nd vs s1
    unfolding compr_open_dir_def Let_def by (intro posts_if compr_fail_post compr_session_post that)
  show ?thesis
    unfolding compr_open_node_def
    by (rule posts_bind [OF live_on_cards [OF live_refl]])
      (use assms in \<open>auto intro!: posts_if compr_fail_post dir posts_bind [OF compr_ints_live [OF live_refl]]
        simp: same_live_def simp del: compr_get_ints.simps\<close>)
qed

lemma compr_open_posts: "posts (agm_compress_plugin_open X self crd dev flags s) (compr_open_post (live s))"
  unfolding agm_compress_plugin_open_def
  by (auto intro!: posts_if live_card_call compr_fail_post compr_node_post
      simp: p_calloc_cases compr_open_post_def p_free_def)

text \<open>
  C31: The heap blocks of a compress plugin, for every behaviour of the allocator, the card
  definitions, the service and the kernel: an open that delivers no object has freed what it
  took, and after a successful open, any operations and events and the close, the heap is as
  before the open. An open without an object need not report an error: its result is only known
  not to be positive.
\<close>

theorem compress_heap_balance:
  assumes "agm_compress_plugin_open X self crd dev flags s = Some ((ret, plo), s1)"
  shows "(plo = None \<longrightarrow> ret \<le> 0 \<and> live s1 = live s)
    \<and> (\<forall>pl ops pl' s2 r s3. plo = Some pl \<and> compr_run X ops pl s1 = Some (pl', s2)
         \<and> agm_compress_close X pl' s2 = Some (r, s3)
       \<longrightarrow> ret = 0 \<and> mset (live s3) = mset (live s))"
proof -
  have post: "compr_open_post (live s) (ret, plo) s1"
    using compr_open_posts [of X self crd dev flags s] assms by (simp add: posts_def)
  have "ret = 0 \<and> mset (live s3) = mset (live s)"
    if "plo = Some pl" "compr_run X ops pl s1 = Some (pl', s2)" "agm_compress_close X pl' s2 = Some (r, s3)"
    for pl ops pl' s2 r s3
  proof -
    have "ret = 0" "compr_owns (mset (live s)) pl s1" using post that(1) by (simp_all add: compr_open_post_def)
    with close_frees [OF run_owns [OF that(2)], of _ X] that(3) show ?thesis by (simp add: posts_def)
  qed
  with post show ?thesis by (auto simp: compr_open_post_def)
qed

text \<open>A card with one compressed device for capture only, opened for playback.\<close>

definition capture_card :: snd_dev_def_card where
  "capture_card = \<lparr>cd_card = 100, cd_type = 0, cd_name = Some ''vsnd'', cd_refcnt = 1, pcm_devs_list = [],
     mixer_devs_list = [], compr_devs_list = [\<lparr>dd_node_type = SND_NODE_TYPE_COMPR, dd_device = 7, dd_type = 0,
       dd_name = None, dd_so_name = None, dd_prop_val_list = [\<lparr>pv_prop = ''playback'', pv_val = ''0''\<rparr>,
         \<lparr>pv_prop = ''capture'', pv_val = ''1''\<rparr>, \<lparr>pv_prop = ''hostless'', pv_val = ''0''\<rparr>]\<rparr>]\<rparr>"

definition capture_state :: plug_state where
  "capture_state = sample_plug_state\<lparr>cards := no_cards\<lparr>snd_card_list := [(0, capture_card)],
     snd_card_list_init := True\<rparr>\<rparr>"

lemma open_wrong_direction:
  "\<exists>s1. agm_compress_plugin_open sample_plug_env 1 100 7 0x10000000 capture_state = Some ((0, None), s1)"
  by (simp add: agm_compress_plugin_open_def p_calloc_cases on_cards_def snd_card_def_get_card_def read_card_id_def
      wr_lock_def rd_lock_def rw_unlock_def compr_open_node_def snd_card_def_get_node_def card_at_def upd_card_def
      snd_card_def_get_int_def dev_def_at_def compr_open_dir_def compr_open_fail_def
      snd_card_def_put_card_def p_free_def has_flag_def zero_compr_priv_def zero_stream_config_def
      devs_list_def atoi_def c_isspace_def c_isdigit_def Let_def
      sample_plug_env_def sample_plug_state_def capture_state_def no_cards_def capture_card_def)

theorem compress_heap_balance_witness:
  "\<exists>s1. agm_compress_plugin_open sample_plug_env 1 100 7 0x10000000 capture_state = Some ((0, None), s1)
     \<and> live s1 = []"
proof -
  obtain s1 where s1: "agm_compress_plugin_open sample_plug_env 1 100 7 0x10000000 capture_state = Some ((0, None), s1)"
    using open_wrong_direction by blast
  with compress_heap_balance [OF s1] show ?thesis by (simp add: capture_state_def sample_plug_state_def)
qed

end
