(* ===== verification/Agm_Mixer_Plugin.thy ===== *)
theory Agm_Mixer_Plugin
  imports Agm_Plugin_Env
begin

text \<open>
  \<open>plugins/tinyalsa/src/agm_mixer_plugin.c\<close>: the tinyalsa mixer plugin. This theory holds its
  data, the device tables that it builds from the service and from the card definition, the
  events, and the get and put functions of the controls. The table of the controls, the open and
  the close are in \<open>Agm_Mixer_Ctls\<close>.

  The four tables of devices are members of the private data and the controls point to them;
  such a pointer is an \<open>adi_ref\<close>. An array from \<open>calloc\<close> is a list, and an access outside it is
  undefined. The lists of events are sequences, which \<open>Agm_List\<close> justifies.
\<close>

unbundle bit_operations_syntax

section \<open>Data\<close>

record amp_dev_info =
  ad_names :: "string option list option"
  ad_idx_arr :: "int list option"
  ad_count :: int
  ad_enum_items :: int
  ad_dir :: direction
  ad_mtd_ctl :: "int list option"
  ad_get_param :: "u8 list option"
  ad_get_param_size :: int

record event_params_node =
  en_session_id :: u32
  en_params :: agm_event_cb_params

text \<open>The get and put functions that a control is set up with.\<close>

datatype ctl_ops =
    Ops_be_media_fmt | Ops_be_metadata | Ops_be_set_param
  | Ops_pcm_aif_connect | Ops_pcm_mtd_control | Ops_pcm_event | Ops_pcm_metadata | Ops_pcm_set_param
  | Ops_pcm_get_param | Ops_pcm_tag_info | Ops_pcm_calibration | Ops_pcm_buf_info
  | Ops_pcm_loopback | Ops_pcm_echoref | Ops_pcm_buf_tstamp | Ops_pcm_sidetone

record snd_control =
  ctl_name :: string
  ctl_ops :: ctl_ops
  ctl_enum :: "adi_ref option"
  ctl_pval :: int
  ctl_pdata :: adi_ref

record amp_priv =
  ap_card :: u32
  ap_card_node :: "nat option"
  ap_aif_list :: "aif_info list option"
  ap_events :: "string list"
  ap_event_params :: "event_params_node list"
  rx_be_devs :: amp_dev_info
  tx_be_devs :: amp_dev_info
  rx_pcm_devs :: amp_dev_info
  tx_pcm_devs :: amp_dev_info
  ap_ctls :: "snd_control option list option"
  ap_ctl_names :: bool
  ap_ctl_count :: int
  ap_media_fmt :: agm_media_config
  ap_event_cb :: "nat option"

record mixer_plugin =
  mp_addr :: nat
  mp_subscribed :: bool
  mp_priv :: "amp_priv option"
  mp_num_controls :: int

primrec adi_at :: "adi_ref \<Rightarrow> amp_priv \<Rightarrow> amp_dev_info" where
  "adi_at Rx_be p = rx_be_devs p"
| "adi_at Tx_be p = tx_be_devs p"
| "adi_at Rx_pcm p = rx_pcm_devs p"
| "adi_at Tx_pcm p = tx_pcm_devs p"

primrec put_adi :: "adi_ref \<Rightarrow> amp_dev_info \<Rightarrow> amp_priv \<Rightarrow> amp_priv" where
  "put_adi Rx_be d p = p\<lparr>rx_be_devs := d\<rparr>"
| "put_adi Tx_be d p = p\<lparr>tx_be_devs := d\<rparr>"
| "put_adi Rx_pcm d p = p\<lparr>rx_pcm_devs := d\<rparr>"
| "put_adi Tx_pcm d p = p\<lparr>tx_pcm_devs := d\<rparr>"

text \<open>A read and a write of an array with an index of type \<open>int\<close>.\<close>

definition arr_at :: "'a list option \<Rightarrow> int \<Rightarrow> 'a option" where
  "arr_at a i = do { xs \<leftarrow> a; if 0 \<le> i \<and> i < int (length xs) then Some (xs ! nat i) else None }"

definition arr_put :: "int \<Rightarrow> 'a \<Rightarrow> 'a list option \<Rightarrow> 'a list option option" where
  "arr_put i v a = do { xs \<leftarrow> a; if 0 \<le> i \<and> i < int (length xs) then Some (Some (xs[nat i := v])) else None }"

text \<open>\<open>strstr\<close> as a test.\<close>

fun strstr :: "string \<Rightarrow> string \<Rightarrow> bool" where
  "strstr [] needle \<longleftrightarrow> needle = []"
| "strstr (c # cs) needle \<longleftrightarrow> take (length needle) (c # cs) = needle \<or> strstr cs needle"

definition alsa_to_agm_fmt :: "int \<Rightarrow> agm_media_format" where
  "alsa_to_agm_fmt fmt =
     (if fmt = 0 then AGM_FORMAT_PCM_S8
      else if fmt = 2 then AGM_FORMAT_PCM_S16_LE
      else if fmt = 6 then AGM_FORMAT_PCM_S24_LE
      else if fmt = 32 then AGM_FORMAT_PCM_S24_3LE
      else if fmt = 10 then AGM_FORMAT_PCM_S32_LE
      else AGM_FORMAT_INVALID)"

definition amp_get_be_adi :: "direction \<Rightarrow> adi_ref option" where
  "amp_get_be_adi d = (if d = RX then Some Rx_be else if d = TX then Some Tx_be else None)"

section \<open>Freeing the tables\<close>

definition free_if :: "bool \<Rightarrow> pblock \<Rightarrow> plug_state \<Rightarrow> plug_state option" where
  "free_if present b s = (if present then p_free b s else Some s)"

definition amp_free_dev_info :: "adi_ref \<Rightarrow> amp_priv \<Rightarrow> amp_priv plug" where
  "amp_free_dev_info a p s =
     (let adi = adi_at a p in do {
        s \<leftarrow> free_if (ad_names adi \<noteq> None) (Blk_names a) s;
        s \<leftarrow> free_if (ad_idx_arr adi \<noteq> None) (Blk_idx_arr a) s;
        s \<leftarrow> free_if (ad_mtd_ctl adi \<noteq> None) (Blk_mtd_ctl a) s;
        s \<leftarrow> free_if (ad_get_param adi \<noteq> None) (Blk_get_param a) s;
        Some (put_adi a (adi\<lparr>ad_names := None, ad_idx_arr := None, ad_mtd_ctl := None,
          ad_get_param := None, ad_count := 0\<rparr>) p, s)
      })"

definition amp_free_be_dev_info :: "amp_priv \<Rightarrow> amp_priv plug" where
  "amp_free_be_dev_info p s = do {
     (p, s) \<leftarrow> amp_free_dev_info Rx_be p s;
     (p, s) \<leftarrow> amp_free_dev_info Tx_be p s;
     s \<leftarrow> free_if (ap_aif_list p \<noteq> None) Blk_aif_list s;
     Some (p\<lparr>ap_aif_list := None\<rparr>, s)
   }"

definition amp_free_pcm_dev_info :: "amp_priv \<Rightarrow> amp_priv plug" where
  "amp_free_pcm_dev_info p s = do {
     (p, s) \<leftarrow> amp_free_dev_info Rx_pcm p s;
     amp_free_dev_info Tx_pcm p s
   }"

definition amp_free_ctls :: "amp_priv \<Rightarrow> amp_priv plug" where
  "amp_free_ctls p s = do {
     s \<leftarrow> free_if (ap_ctl_names p) Blk_ctl_names s;
     s \<leftarrow> free_if (ap_ctls p \<noteq> None) Blk_ctls s;
     Some (p\<lparr>ap_ctl_names := False, ap_ctls := None, ap_ctl_count := 0\<rparr>, s)
   }"

section \<open>Events\<close>

definition amp_add_event_params ::
    "plug_env \<Rightarrow> amp_priv \<Rightarrow> u32 \<Rightarrow> agm_event_cb_params \<Rightarrow> amp_priv plug" where
  "amp_add_event_params X p session_id ev s = do {
     (ok, s) \<leftarrow> p_calloc X Blk_event_params s;
     Some (if ok then p\<lparr>ap_event_params := ap_event_params p
       @ [\<lparr>en_session_id = session_id, en_params = ev\<rparr>]\<rparr> else p, s)
   }"

text \<open>\<open>%d\<close>: the decimal digits of a number.\<close>

fun show_nat :: "nat \<Rightarrow> string" where
  "show_nat n = (if n < 10 then [char_of (48 + n)] else show_nat (n div 10) @ [char_of (48 + n mod 10)])"

declare show_nat.simps [simp del]

definition show_int :: "int \<Rightarrow> string" where
  "show_int k = (if k < 0 then CHR ''-'' # show_nat (nat (- k)) else show_nat (nat k))"

text \<open>The name of the control in the event: at most 12 characters fit.\<close>

definition event_name :: "u32 \<Rightarrow> string" where
  "event_name session_id = take 12 (''PCM'' @ show_int (sint session_id) @ '' '' @ ''event'')"

definition amp_queue_event :: "plug_env \<Rightarrow> amp_priv \<Rightarrow> u32 \<Rightarrow> nat \<Rightarrow> amp_priv plug" where
  "amp_queue_event X p session_id plugin s = do {
     (ok, s) \<leftarrow> p_calloc X Blk_mixer_str s;
     if \<not> ok then Some (p, s)
     else do {
       (ok, s) \<leftarrow> p_calloc X Blk_event_data s;
       let p = (if ok then p\<lparr>ap_events := ap_events p @ [event_name session_id]\<rparr> else p);
       s \<leftarrow> (if ok \<and> ap_event_cb p \<noteq> None then do { (_, s) \<leftarrow> pcall X (P_event_cb plugin) s; Some s }
            else Some s);
       s \<leftarrow> p_free Blk_mixer_str s;
       Some (p, s)
     }
   }"

definition amp_event_cb ::
    "plug_env \<Rightarrow> u32 \<Rightarrow> agm_event_cb_params \<Rightarrow> mixer_plugin option \<Rightarrow> mixer_plugin option plug" where
  "amp_event_cb X session_id ev plugin s =
     (case plugin of None \<Rightarrow> Some (None, s)
      | Some pl \<Rightarrow>
        if \<not> mp_subscribed pl then Some (Some pl, s)
        else (case mp_priv pl of None \<Rightarrow> Some (Some pl, s)
          | Some p \<Rightarrow> do {
              (p, s) \<leftarrow> amp_add_event_params X p session_id ev s;
              (p, s) \<leftarrow> amp_queue_event X p session_id (mp_addr pl) s;
              Some (Some (pl\<lparr>mp_priv := Some p\<rparr>), s)
            }))"

text \<open>
  \<open>amp_pcm_event_get\<close> copies the params of the first event of the session into the 512 bytes of
  the value; a copy behind them is undefined.
\<close>

fun take_event :: "u32 \<Rightarrow> event_params_node list \<Rightarrow> (agm_event_cb_params option \<times> event_params_node list)" where
  "take_event x [] = (None, [])"
| "take_event x (e # es) =
     (if en_session_id e = x then (Some (en_params e), es)
      else (let (r, es) = take_event x es in (r, e # es)))"

definition amp_pcm_event_get ::
    "mixer_plugin \<Rightarrow> snd_control \<Rightarrow> (int \<times> agm_event_cb_params option \<times> mixer_plugin) plug" where
  "amp_pcm_event_get plugin ctl s = do {
     p \<leftarrow> mp_priv plugin;
     case take_event (word_of_int (ctl_pval ctl)) (ap_event_params p) of
       (None, _) \<Rightarrow> Some ((0, None, plugin), s)
     | (Some ev, rest) \<Rightarrow>
         if 12 + length (event_payload ev) > 512 then None
         else do {
           s \<leftarrow> p_free Blk_event_params s;
           Some ((0, Some ev, plugin\<lparr>mp_priv := Some (p\<lparr>ap_event_params := rest\<rparr>)\<rparr>), s)
         }
   }"

text \<open>
  \<open>amp_read_event\<close>: \<open>ev\<close> points to \<open>struct snd_ctl_event\<close> (72 bytes), so the step
  \<open>ev += sizeof(struct snd_ctl_event)\<close> moves it by 72 structures. \<open>buf\<close> is the array of the
  client and \<open>pos\<close> the index that \<open>ev\<close> has reached.
\<close>

abbreviation (input) SIZEOF_CTL_EVENT :: nat where "SIZEOF_CTL_EVENT \<equiv> 72"

fun read_events ::
    "nat \<Rightarrow> nat \<Rightarrow> string option list \<Rightarrow> nat \<Rightarrow> amp_priv \<Rightarrow> (nat \<times> string option list \<times> amp_priv) plug" where
  "read_events sz pos buf result p s =
     (if sz < SIZEOF_CTL_EVENT then Some ((result, buf, p), s)
      else case ap_events p of [] \<Rightarrow> Some ((result, buf, p), s)
      | e # es \<Rightarrow>
          if pos \<ge> length buf then None
          else do {
            s \<leftarrow> p_free Blk_event_data s;
            read_events (sz - SIZEOF_CTL_EVENT) (pos + SIZEOF_CTL_EVENT) (buf[pos := Some e])
              (result + SIZEOF_CTL_EVENT) (p\<lparr>ap_events := es\<rparr>) s
          })"

declare read_events.simps [simp del]

definition amp_read_event ::
    "mixer_plugin \<Rightarrow> string option list \<Rightarrow> nat \<Rightarrow> (nat \<times> string option list \<times> mixer_plugin) plug" where
  "amp_read_event plugin buf sz s = do {
     p \<leftarrow> mp_priv plugin;
     ((result, buf, p), s) \<leftarrow> read_events sz 0 buf 0 p s;
     Some ((result, buf, plugin\<lparr>mp_priv := Some p\<rparr>), s)
   }"

definition amp_subscribe_events :: "mixer_plugin \<Rightarrow> nat option \<Rightarrow> (int \<times> mixer_plugin) plug" where
  "amp_subscribe_events plugin event_cb s = do {
     p \<leftarrow> mp_priv plugin;
     let p = p\<lparr>ap_event_cb := event_cb\<rparr>;
     if event_cb = None then do {
       s \<leftarrow> p_frees (replicate (length (ap_event_params p)) Blk_event_params) s;
       s \<leftarrow> p_frees (replicate (length (ap_events p)) Blk_event_data) s;
       Some ((0, plugin\<lparr>mp_priv := Some (p\<lparr>ap_event_params := [], ap_events := []\<rparr>)\<rparr>), s)
     } else Some ((0, plugin\<lparr>mp_priv := Some p\<rparr>), s)
   }"

section \<open>The tables of the backends\<close>

abbreviation (input) DIR_RX :: u32 where "DIR_RX \<equiv> 1"
abbreviation (input) DIR_TX :: u32 where "DIR_TX \<equiv> 2"

text \<open>The loop from \<open>i\<close> on, with the next free position of the table.\<close>

fun copy_be_names ::
    "u32 \<Rightarrow> nat \<Rightarrow> aif_info list \<Rightarrow> nat \<Rightarrow> string option list \<Rightarrow> int list
      \<Rightarrow> (nat \<times> string option list \<times> int list) option" where
  "copy_be_names d i [] be_idx names idxs = Some (be_idx, names, idxs)"
| "copy_be_names d i (a # as) be_idx names idxs =
     (if aif_dir a \<noteq> d then copy_be_names d (Suc i) as be_idx names idxs
      else if be_idx < length names \<and> be_idx < length idxs
      then copy_be_names d (Suc i) as (Suc be_idx) (names[be_idx := Some (aif_name a)]) (idxs[be_idx := int i])
      else None)"

definition amp_copy_be_names_from_aif_list ::
    "aif_info list \<Rightarrow> nat \<Rightarrow> u32 \<Rightarrow> amp_dev_info \<Rightarrow> amp_dev_info option" where
  "amp_copy_be_names_from_aif_list aif_list aif_cnt d adi = do {
     names \<leftarrow> ad_names adi;
     idxs \<leftarrow> ad_idx_arr adi;
     if names = [] \<or> idxs = [] \<or> length aif_list < aif_cnt then None
     else do {
       (n, names, idxs) \<leftarrow> copy_be_names d 0 (take aif_cnt aif_list) 1 (names[0 := Some ''ZERO'']) (idxs[0 := 0]);
       Some (adi\<lparr>ad_names := Some names, ad_idx_arr := Some idxs, ad_count := int n, ad_enum_items := int n\<rparr>)
     }
   }"

text \<open>The four allocations; \<open>calloc\<close> gives NULL pointers and zeros.\<close>

definition amp_alloc_table :: "plug_env \<Rightarrow> adi_ref \<Rightarrow> amp_priv \<Rightarrow> amp_priv plug" where
  "amp_alloc_table X a p s =
     (let adi = adi_at a p; n = nat (ad_count adi + 1) in do {
        (ok1, s) \<leftarrow> p_calloc X (Blk_names a) s;
        (ok2, s) \<leftarrow> p_calloc X (Blk_idx_arr a) s;
        Some (put_adi a (adi\<lparr>ad_names := (if ok1 then Some (replicate n None) else None),
          ad_idx_arr := (if ok2 then Some (replicate n 0) else None)\<rparr>) p, s)
      })"

definition amp_tables_ok :: "adi_ref list \<Rightarrow> amp_priv \<Rightarrow> bool" where
  "amp_tables_ok as p \<longleftrightarrow> list_all (\<lambda>a. ad_names (adi_at a p) \<noteq> None \<and> ad_idx_arr (adi_at a p) \<noteq> None) as"

definition count_dir :: "u32 \<Rightarrow> aif_info list \<Rightarrow> int" where
  "count_dir d as = int (length (filter (\<lambda>a. aif_dir a = d) as))"

text \<open>From the second call of the service on; \<open>aif_list\<close> is not yet part of the private data.\<close>

definition amp_fill_be_info :: "plug_env \<Rightarrow> amp_priv \<Rightarrow> aif_info list \<Rightarrow> nat \<Rightarrow> (int \<times> amp_priv) plug" where
  "amp_fill_be_info X p aif_list be_count s = do {
     let p = p\<lparr>rx_be_devs := (rx_be_devs p)\<lparr>ad_count := count_dir DIR_RX (take be_count aif_list)\<rparr>,
       tx_be_devs := (tx_be_devs p)\<lparr>ad_count := count_dir DIR_TX (take be_count aif_list)\<rparr>\<rparr>;
     (p, s) \<leftarrow> amp_alloc_table X Rx_be p s;
     (p, s) \<leftarrow> amp_alloc_table X Tx_be p s;
     if \<not> amp_tables_ok [Rx_be, Tx_be] p then do {
       (p, s) \<leftarrow> amp_free_be_dev_info p s; Some ((- ENOMEM, p), s) }
     else do {
       rx \<leftarrow> amp_copy_be_names_from_aif_list aif_list be_count DIR_RX (rx_be_devs p);
       tx \<leftarrow> amp_copy_be_names_from_aif_list aif_list be_count DIR_TX (tx_be_devs p);
       Some ((0, p\<lparr>rx_be_devs := rx, tx_be_devs := tx, ap_aif_list := Some aif_list\<rparr>), s)
     }
   }"

definition amp_get_be_info :: "plug_env \<Rightarrow> amp_priv \<Rightarrow> (int \<times> amp_priv) plug" where
  "amp_get_be_info X p s = do {
     (ret, _, n) \<leftarrow> agm_get_aif_info_list None (Some 0) (svc s);
     let be_count = case_option 0 id n;
     if ret \<noteq> 0 \<or> be_count = 0 then Some ((- EINVAL, p), s)
     else do {
       (ok, s) \<leftarrow> p_calloc X Blk_aif_list s;
       if \<not> ok then Some ((- ENOMEM, p), s)
       else do {
         (ret, l, n) \<leftarrow> agm_get_aif_info_list (Some (replicate be_count \<lparr>aif_name = [], aif_dir = 0\<rparr>))
           (Some (word_of_nat be_count)) (svc s);
         let be_count = case_option be_count id n;
         if ret \<noteq> 0 then do { (p, s) \<leftarrow> amp_free_be_dev_info p s; Some ((ret, p), s) }
         else amp_fill_be_info X p (case_option [] id l) be_count s
       }
     }
   }"

section \<open>The tables of the PCM and compressed devices\<close>

text \<open>A property that is missing leaves \<open>val\<close> at its last value.\<close>

definition get_int_into :: "dev_node option \<Rightarrow> string \<Rightarrow> int \<Rightarrow> int plug" where
  "get_int_into nd prop v s = do {
     ((ret, r), s) \<leftarrow> on_cards (snd_card_def_get_int nd prop) s;
     Some (case_option v id r, s)
   }"

fun count_devs :: "string \<Rightarrow> dev_node option list \<Rightarrow> int \<Rightarrow> int \<Rightarrow> int plug" where
  "count_devs prop [] v n s = Some (n, s)"
| "count_devs prop (nd # nds) v n s = do {
     (v, s) \<leftarrow> get_int_into nd prop v s;
     count_devs prop nds v (if v = 1 then n + 1 else n) s
   }"

text \<open>The loop of \<open>amp_create_pcm_info_from_card\<close>; its result is the return value and the table.\<close>

fun fill_pcm_info ::
    "string \<Rightarrow> dev_node option list \<Rightarrow> int \<Rightarrow> nat \<Rightarrow> string option list \<Rightarrow> int list
      \<Rightarrow> (int \<times> nat \<times> string option list \<times> int list) plug" where
  "fill_pcm_info d [] v idx names idxs s = Some ((0, idx, names, idxs), s)"
| "fill_pcm_info d (nd # nds) v idx names idxs s = do {
     (v, s) \<leftarrow> get_int_into nd d v s;
     if v = 0 then fill_pcm_info d nds v idx names idxs s
     else do {
       ((ret, nm), s) \<leftarrow> on_cards (snd_card_def_get_str nd ''name'') s;
       if ret \<noteq> 0 then Some ((- EINVAL, idx, names, idxs), s)
       else if idx \<ge> length names then None
       else do {
         let names = names[idx := nm];
         ((ret, x), s) \<leftarrow> on_cards (snd_card_def_get_int nd ''id'') s;
         if ret \<noteq> 0 then Some ((- EINVAL, idx, names, idxs), s)
         else if idx \<ge> length idxs then None
         else fill_pcm_info d nds v (Suc idx) names (idxs[idx := case_option 0 id x]) s
       }
     }
   }"

definition amp_create_pcm_info_from_card ::
    "amp_dev_info \<Rightarrow> string \<Rightarrow> dev_node option list \<Rightarrow> (int \<times> amp_dev_info) plug" where
  "amp_create_pcm_info_from_card adi d nodes s = do {
     names \<leftarrow> ad_names adi;
     idxs \<leftarrow> ad_idx_arr adi;
     if names = [] \<or> idxs = [] then None
     else do {
       ((ret, idx, names, idxs), s) \<leftarrow> fill_pcm_info d nodes 0 1 (names[0 := Some ''ZERO'']) (idxs[0 := 0]) s;
       let adi = adi\<lparr>ad_names := Some names, ad_idx_arr := Some idxs\<rparr>;
       Some (if ret \<noteq> 0 then (ret, adi) else (0, adi\<lparr>ad_count := int idx\<rparr>), s)
     }
   }"

text \<open>The nodes of the card: first the PCM devices, then the compressed ones.\<close>

definition amp_get_nodes :: "nat option \<Rightarrow> int \<Rightarrow> int \<Rightarrow> (int \<times> dev_node option list) plug" where
  "amp_get_nodes cn num_pcms num_compr s = do {
     let arr = replicate (nat (num_pcms + num_compr)) None;
     ((ret, arr), s) \<leftarrow>
       (if num_pcms > 0 then on_cards (snd_card_def_get_nodes_for_type cn SND_NODE_TYPE_PCM num_pcms arr) s
        else Some ((0, arr), s));
     if ret \<noteq> 0 then Some ((ret, arr), s)
     else if num_compr > 0 then do {
       ((ret, rest), s) \<leftarrow> on_cards (snd_card_def_get_nodes_for_type cn SND_NODE_TYPE_COMPR num_compr
         (drop (nat num_pcms) arr)) s;
       Some ((ret, take (nat num_pcms) arr @ rest), s)
     } else Some ((0, arr), s)
   }"

text \<open>From the counts on; on an error the tables are freed.\<close>

definition amp_fill_pcm_info :: "plug_env \<Rightarrow> amp_priv \<Rightarrow> dev_node option list \<Rightarrow> (int \<times> amp_priv) plug" where
  "amp_fill_pcm_info X p nodes s = do {
     (n, s) \<leftarrow> count_devs ''playback'' nodes 0 (ad_count (rx_pcm_devs p)) s;
     (m, s) \<leftarrow> count_devs ''capture'' nodes 0 (ad_count (tx_pcm_devs p)) s;
     let p = p\<lparr>rx_pcm_devs := (rx_pcm_devs p)\<lparr>ad_count := n\<rparr>, tx_pcm_devs := (tx_pcm_devs p)\<lparr>ad_count := m\<rparr>\<rparr>;
     (p, s) \<leftarrow> amp_alloc_table X Rx_pcm p s;
     (p, s) \<leftarrow> amp_alloc_table X Tx_pcm p s;
     if \<not> amp_tables_ok [Rx_pcm, Tx_pcm] p then do {
       (p, s) \<leftarrow> amp_free_pcm_dev_info p s; Some ((- ENOMEM, p), s) }
     else do {
       ((ret, rx), s) \<leftarrow> amp_create_pcm_info_from_card (rx_pcm_devs p) ''playback'' nodes s;
       let p = p\<lparr>rx_pcm_devs := rx\<rparr>;
       if ret \<noteq> 0 then do { (p, s) \<leftarrow> amp_free_pcm_dev_info p s; Some ((ret, p), s) }
       else do {
         ((ret, tx), s) \<leftarrow> amp_create_pcm_info_from_card (tx_pcm_devs p) ''capture'' nodes s;
         let p = p\<lparr>tx_pcm_devs := tx\<rparr>;
         if ret \<noteq> 0 then do { (p, s) \<leftarrow> amp_free_pcm_dev_info p s; Some ((ret, p), s) }
         else Some ((0, p\<lparr>rx_pcm_devs := rx\<lparr>ad_enum_items := ad_count rx\<rparr>,
           tx_pcm_devs := tx\<lparr>ad_enum_items := ad_count tx\<rparr>\<rparr>), s)
       }
     }
   }"

text \<open>The counts of the card definition are never negative.\<close>

definition amp_get_pcm_info :: "plug_env \<Rightarrow> amp_priv \<Rightarrow> (int \<times> amp_priv) plug" where
  "amp_get_pcm_info X p s = do {
     (num_pcms, s) \<leftarrow> on_cards (snd_card_def_get_num_node (ap_card_node p) SND_NODE_TYPE_PCM) s;
     (num_compr, s) \<leftarrow> on_cards (snd_card_def_get_num_node (ap_card_node p) SND_NODE_TYPE_COMPR) s;
     if num_pcms \<le> 0 \<and> num_compr \<le> 0 then Some ((- EINVAL, p), s)
     else do {
       let num_pcms = max 0 num_pcms;
       let num_compr = max 0 num_compr;
       (ok, s) \<leftarrow> p_calloc X Blk_node_list s;
       if \<not> ok then Some ((- ENOMEM, p), s)
       else do {
         ((ret, nodes), s) \<leftarrow> amp_get_nodes (ap_card_node p) num_pcms num_compr s;
         ((ret, p), s) \<leftarrow> (if ret \<noteq> 0 then Some ((ret, p), s) else amp_fill_pcm_info X p nodes s);
         s \<leftarrow> p_free Blk_node_list s;
         Some ((ret, p), s)
       }
     }
   }"

section \<open>Callbacks of the sessions\<close>

fun register_sessions :: "plug_env \<Rightarrow> nat option \<Rightarrow> nat \<Rightarrow> int list \<Rightarrow> unit plug" where
  "register_sessions X cb plugin [] s = Some ((), s)"
| "register_sessions X cb plugin (x # xs) s = do {
     (_, s) \<leftarrow> on_svc (agm_session_register_cb (penv X) (word_of_int x) cb AGM_EVENT_MODULE plugin) s;
     register_sessions X cb plugin xs s
   }"

text \<open>The entries \<open>1\<close> to \<open>count - 1\<close> of a table.\<close>

definition table_idxs :: "amp_dev_info \<Rightarrow> int list option" where
  "table_idxs adi = (if ad_count adi \<le> 1 then Some []
     else those (map (\<lambda>i. arr_at (ad_idx_arr adi) (int i)) [1..<nat (ad_count adi)]))"

definition amp_register_event_callback :: "plug_env \<Rightarrow> mixer_plugin \<Rightarrow> bool \<Rightarrow> unit plug" where
  "amp_register_event_callback X plugin enable s = do {
     p \<leftarrow> mp_priv plugin;
     let cb = (if enable then Some (pcb_addr X Mixer_event_cb) else None);
     rx \<leftarrow> table_idxs (rx_pcm_devs p);
     (_, s) \<leftarrow> register_sessions X cb (mp_addr plugin) rx s;
     tx \<leftarrow> table_idxs (tx_pcm_devs p);
     register_sessions X cb (mp_addr plugin) tx s
   }"

section \<open>Controls of the backends\<close>

text \<open>\<open>if (ret == -EALREADY) ret = 0;\<close>\<close>

definition already_ok :: "int \<Rightarrow> int" where
  "already_ok ret = (if ret = - EALREADY then 0 else ret)"

text \<open>The values are \<open>long\<close>; the fields and the argument of \<open>alsa_to_agm_fmt\<close> have 32 bits.\<close>

definition amp_be_media_fmt_put ::
    "mixer_plugin \<Rightarrow> snd_control \<Rightarrow> (nat \<Rightarrow> int) \<Rightarrow> (int \<times> mixer_plugin) plug" where
  "amp_be_media_fmt_put plugin ctl v s = do {
     p \<leftarrow> mp_priv plugin;
     let mc = (ap_media_fmt p)\<lparr>rate := word_of_int (v 0), channels := word_of_int (v 1),
       format := alsa_to_agm_fmt (sint (word_of_int (v 2) :: u32)), data_format := word_of_int (v 3)\<rparr>;
     (ret, s) \<leftarrow> on_svc (agm_aif_set_media_config (word_of_int (ctl_pval ctl)) (Some mc)) s;
     Some ((ret, plugin\<lparr>mp_priv := Some (p\<lparr>ap_media_fmt := mc\<rparr>)\<rparr>), s)
   }"

definition amp_be_set_param_put :: "plug_env \<Rightarrow> snd_control \<Rightarrow> u8 list \<Rightarrow> int plug" where
  "amp_be_set_param_put X ctl tlv = on_svc (agm_aif_set_params (penv X) (word_of_int (ctl_pval ctl)) tlv)"

definition amp_be_metadata_put :: "plug_env \<Rightarrow> snd_control \<Rightarrow> u8 list \<Rightarrow> int plug" where
  "amp_be_metadata_put X ctl tlv s = do {
     (ret, s) \<leftarrow> on_svc (agm_aif_set_metadata (penv X) (word_of_int (ctl_pval ctl)) tlv) s;
     Some (already_ok ret, s)
   }"

section \<open>Controls of the PCM devices\<close>

text \<open>The value of the \<open>control\<close> mixer control of a PCM device.\<close>

definition amp_pcm_get_control_value :: "int \<Rightarrow> amp_dev_info \<Rightarrow> int option" where
  "amp_pcm_get_control_value pcm_idx adi = do {
     idxs \<leftarrow> table_idxs adi;
     case find_index (\<lambda>x. x = pcm_idx) idxs of
       None \<Rightarrow> Some (- EINVAL)
     | Some i \<Rightarrow> arr_at (ad_mtd_ctl adi) (int i + 1)
   }"

definition be_index :: "amp_priv \<Rightarrow> direction \<Rightarrow> int \<Rightarrow> int option" where
  "be_index p d i = do { a \<leftarrow> amp_get_be_adi d; arr_at (ad_idx_arr (adi_at a p)) i }"

definition amp_pcm_aif_connect_put :: "plug_env \<Rightarrow> mixer_plugin \<Rightarrow> snd_control \<Rightarrow> u32 \<Rightarrow> int plug" where
  "amp_pcm_aif_connect_put X plugin ctl v s = do {
     p \<leftarrow> mp_priv plugin;
     case amp_get_be_adi (ad_dir (adi_at (ctl_pdata ctl) p)) of
       None \<Rightarrow> Some (- EINVAL, s)
     | Some a \<Rightarrow>
         if v = 0 then Some (0, s)
         else do {
           let state = (\<not> strstr (ctl_name ctl) ''disconnect'');
           be_idx \<leftarrow> arr_at (ad_idx_arr (adi_at a p)) (uint v);
           (_, s) \<leftarrow> on_svc (agm_session_aif_connect (penv X) (word_of_int (ctl_pval ctl)) (word_of_int be_idx) state) s;
           Some (0, s)
         }
   }"

definition amp_pcm_mtd_control_get :: "mixer_plugin \<Rightarrow> snd_control \<Rightarrow> (int \<times> u32) plug" where
  "amp_pcm_mtd_control_get plugin ctl s = do {
     p \<leftarrow> mp_priv plugin;
     v \<leftarrow> arr_at (ad_mtd_ctl (adi_at (ctl_pdata ctl) p)) (ctl_pval ctl);
     Some ((0, word_of_int v), s)
   }"

text \<open>The \<open>unsigned int\<close> is stored in an \<open>int\<close>.\<close>

definition amp_pcm_mtd_control_put ::
    "mixer_plugin \<Rightarrow> snd_control \<Rightarrow> u32 \<Rightarrow> (int \<times> mixer_plugin) plug" where
  "amp_pcm_mtd_control_put plugin ctl v s = do {
     p \<leftarrow> mp_priv plugin;
     let adi = adi_at (ctl_pdata ctl) p;
     m \<leftarrow> arr_put (ctl_pval ctl) (sint v) (ad_mtd_ctl adi);
     Some ((0, plugin\<lparr>mp_priv := Some (put_adi (ctl_pdata ctl) (adi\<lparr>ad_mtd_ctl := m\<rparr>) p)\<rparr>), s)
   }"

text \<open>The structs behind the bytes of a value; reading behind them is undefined.\<close>

definition event_reg_of :: "u8 list \<Rightarrow> agm_event_reg_cfg option" where
  "event_reg_of bs = do {
     m \<leftarrow> rd32 bs 0;
     e \<leftarrow> rd32 bs 4;
     n \<leftarrow> map_option unat (rd32 bs 8);
     if length bs < 13 + n then None
     else Some \<lparr>er_miid = m, er_event_id = e, er_payload = take n (drop 13 bs), er_is_register = bs ! 12\<rparr>
   }"

definition cal_config_of :: "u8 list \<Rightarrow> agm_key_value list option" where
  "cal_config_of bs = do { n \<leftarrow> map_option unat (rd32 bs 0); rd_kvs bs 4 n }"

definition tag_config_of :: "u8 list \<Rightarrow> agm_tag_config option" where
  "tag_config_of bs = do {
     t \<leftarrow> rd32 bs 0;
     n \<leftarrow> map_option unat (rd32 bs 4);
     kvs \<leftarrow> rd_kvs bs 8 n;
     Some \<lparr>tc_tag = t, tc_kv = kvs\<rparr>
   }"

definition amp_pcm_event_put :: "plug_env \<Rightarrow> snd_control \<Rightarrow> u8 list \<Rightarrow> int plug" where
  "amp_pcm_event_put X ctl bs s = do {
     cfg \<leftarrow> event_reg_of bs;
     (ret, s) \<leftarrow> on_svc (agm_session_register_for_events (penv X) (word_of_int (ctl_pval ctl)) (Some cfg)) s;
     Some (already_ok ret, s)
   }"

definition amp_pcm_metadata_put :: "plug_env \<Rightarrow> mixer_plugin \<Rightarrow> snd_control \<Rightarrow> u8 list \<Rightarrow> int plug" where
  "amp_pcm_metadata_put X plugin ctl tlv s = do {
     p \<leftarrow> mp_priv plugin;
     let adi = adi_at (ctl_pdata ctl) p;
     pcm_control \<leftarrow> amp_pcm_get_control_value (ctl_pval ctl) adi;
     if pcm_control < 0 then Some (pcm_control, s)
     else if pcm_control = 0 then do {
       (ret, s) \<leftarrow> on_svc (agm_session_set_metadata (penv X) (word_of_int (ctl_pval ctl)) tlv) s;
       Some (already_ok ret, s)
     } else do {
       be_idx \<leftarrow> be_index p (ad_dir adi) pcm_control;
       (ret, s) \<leftarrow> on_svc (agm_session_aif_set_metadata (penv X) (word_of_int (ctl_pval ctl)) (word_of_int be_idx) tlv) s;
       Some (already_ok ret, s)
     }
   }"

definition amp_pcm_calibration_put :: "plug_env \<Rightarrow> mixer_plugin \<Rightarrow> snd_control \<Rightarrow> u8 list \<Rightarrow> int plug" where
  "amp_pcm_calibration_put X plugin ctl bs s = do {
     p \<leftarrow> mp_priv plugin;
     let adi = adi_at (ctl_pdata ctl) p;
     pcm_control \<leftarrow> amp_pcm_get_control_value (ctl_pval ctl) adi;
     if pcm_control < 0 then Some (pcm_control, s)
     else case amp_get_be_adi (ad_dir adi) of
       None \<Rightarrow> Some (- EINVAL, s)
     | Some a \<Rightarrow> do {
         be_idx \<leftarrow> arr_at (ad_idx_arr (adi_at a p)) pcm_control;
         cal \<leftarrow> cal_config_of bs;
         on_svc (agm_session_aif_set_cal (penv X) (word_of_int (ctl_pval ctl)) (word_of_int be_idx) cal) s
       }
   }"

text \<open>With a backend: the parameters with a tag, or those of the session and the backend.\<close>

definition set_param_with_be :: "plug_env \<Rightarrow> int \<Rightarrow> int \<Rightarrow> bool \<Rightarrow> u8 list \<Rightarrow> int plug" where
  "set_param_with_be X pcm_idx be_idx is_param_tag tlv s =
     (if is_param_tag then do {
        tc \<leftarrow> tag_config_of tlv;
        on_svc (agm_set_params_with_tag (penv X) (word_of_int pcm_idx) (word_of_int be_idx) tc) s
      } else on_svc (agm_session_aif_set_params (penv X) (word_of_int pcm_idx) (word_of_int be_idx) tlv) s)"

definition amp_pcm_set_param_put :: "plug_env \<Rightarrow> mixer_plugin \<Rightarrow> snd_control \<Rightarrow> u8 list \<Rightarrow> int plug" where
  "amp_pcm_set_param_put X plugin ctl tlv s = do {
     p \<leftarrow> mp_priv plugin;
     let adi = adi_at (ctl_pdata ctl) p;
     let is_param_tag = strstr (ctl_name ctl) ''setParamTag'';
     pcm_control \<leftarrow> amp_pcm_get_control_value (ctl_pval ctl) adi;
     if pcm_control < 0 then Some (pcm_control, s)
     else if pcm_control = 0 then
       (if is_param_tag then Some (- EINVAL, s)
        else on_svc (agm_session_set_params (penv X) (word_of_int (ctl_pval ctl)) tlv) s)
     else do {
       be_idx \<leftarrow> be_index p (ad_dir adi) pcm_control;
       (ret, s) \<leftarrow> set_param_with_be X (ctl_pval ctl) be_idx is_param_tag tlv s;
       Some (already_ok ret, s)
     }
   }"

definition amp_pcm_get_param_get ::
    "plug_env \<Rightarrow> mixer_plugin \<Rightarrow> snd_control \<Rightarrow> u8 list \<Rightarrow> (int \<times> u8 list \<times> mixer_plugin) plug" where
  "amp_pcm_get_param_get X plugin ctl tlv s = do {
     p \<leftarrow> mp_priv plugin;
     let adi = adi_at (ctl_pdata ctl) p;
     case ad_get_param adi of
       None \<Rightarrow> Some ((- EINVAL, tlv, plugin), s)
     | Some payload \<Rightarrow>
         if int (length tlv) < ad_get_param_size adi then Some ((- EINVAL, tlv, plugin), s)
         else do {
           ((ret, bytes), s) \<leftarrow> on_svc (agm_session_get_params (penv X) (word_of_int (ctl_pval ctl))
             (payload @ drop (length payload) tlv)) s;
           s \<leftarrow> p_free (Blk_get_param (ctl_pdata ctl)) s;
           Some ((already_ok ret, bytes, plugin\<lparr>mp_priv := Some (put_adi (ctl_pdata ctl)
             (adi\<lparr>ad_get_param := None, ad_get_param_size := 0\<rparr>) p)\<rparr>), s)
         }
   }"

definition amp_pcm_get_param_put ::
    "plug_env \<Rightarrow> mixer_plugin \<Rightarrow> snd_control \<Rightarrow> u8 list \<Rightarrow> (int \<times> mixer_plugin) plug" where
  "amp_pcm_get_param_put X plugin ctl tlv s = do {
     p \<leftarrow> mp_priv plugin;
     let a = ctl_pdata ctl;
     let adi = adi_at a p;
     s \<leftarrow> free_if (ad_get_param adi \<noteq> None) (Blk_get_param a) s;
     (ok, s) \<leftarrow> p_calloc X (Blk_get_param a) s;
     let adi = adi\<lparr>ad_get_param := (if ok then Some tlv else None), ad_get_param_size := int (length tlv)\<rparr>;
     Some ((if ok then 0 else - ENOMEM, plugin\<lparr>mp_priv := Some (put_adi a adi p)\<rparr>), s)
   }"

text \<open>The size is asked first, then the information is read; it is returned as its entries.\<close>

definition amp_pcm_tag_info_get ::
    "plug_env \<Rightarrow> mixer_plugin \<Rightarrow> snd_control \<Rightarrow> nat \<Rightarrow> (int \<times> tag_entry list) plug" where
  "amp_pcm_tag_info_get X plugin ctl tlv_size s = do {
     p \<leftarrow> mp_priv plugin;
     let adi = adi_at (ctl_pdata ctl) p;
     pcm_control \<leftarrow> amp_pcm_get_control_value (ctl_pval ctl) adi;
     if pcm_control < 0 then Some ((pcm_control, []), s)
     else if pcm_control = 0 then Some ((- EINVAL, []), s)
     else do {
       be_idx \<leftarrow> be_index p (ad_dir adi) pcm_control;
       ((ret, r), s) \<leftarrow> on_svc (agm_session_aif_get_tag_module_info (penv X) (word_of_int (ctl_pval ctl))
         (word_of_int be_idx) False) s;
       let get_size = case_option 0 snd r;
       if ret \<noteq> 0 \<or> get_size = 0 \<or> tlv_size < get_size then Some ((- EINVAL, []), s)
       else do {
         ((ret, r), s) \<leftarrow> on_svc (agm_session_aif_get_tag_module_info (penv X) (word_of_int (ctl_pval ctl))
           (word_of_int be_idx) True) s;
         Some ((ret, case_option [] fst r), s)
       }
     }
   }"

definition amp_pcm_loopback_put :: "plug_env \<Rightarrow> mixer_plugin \<Rightarrow> snd_control \<Rightarrow> u32 \<Rightarrow> int plug" where
  "amp_pcm_loopback_put X plugin ctl v s = do {
     p \<leftarrow> mp_priv plugin;
     rx_pcm_idx \<leftarrow> (if v = 0 then Some 0 else arr_at (ad_idx_arr (rx_pcm_devs p)) (uint v));
     (_, s) \<leftarrow> on_svc (agm_session_set_loopback (penv X) (word_of_int (ctl_pval ctl)) (word_of_int rx_pcm_idx)
       (v \<noteq> 0)) s;
     Some (0, s)
   }"

definition amp_pcm_echoref_put :: "plug_env \<Rightarrow> mixer_plugin \<Rightarrow> snd_control \<Rightarrow> u32 \<Rightarrow> int plug" where
  "amp_pcm_echoref_put X plugin ctl v s = do {
     p \<leftarrow> mp_priv plugin;
     be_idx \<leftarrow> arr_at (ad_idx_arr (rx_be_devs p)) (uint v);
     (_, s) \<leftarrow> on_svc (agm_session_set_ec_ref (penv X) (word_of_int (ctl_pval ctl)) (word_of_int be_idx) (v \<noteq> 0)) s;
     Some (0, s)
   }"

definition amp_pcm_buf_info_get :: "plug_env \<Rightarrow> snd_control \<Rightarrow> agm_buf_info \<Rightarrow> (int \<times> agm_buf_info) plug" where
  "amp_pcm_buf_info_get X ctl bi = on_svc (agm_session_get_buf_info (penv X) (word_of_int (ctl_pval ctl)) bi 1)"

definition amp_pcm_buf_tstamp_get :: "plug_env \<Rightarrow> snd_control \<Rightarrow> (int \<times> u64 option) plug" where
  "amp_pcm_buf_tstamp_get X ctl = on_svc (agm_get_buffer_timestamp (penv X) (word_of_int (ctl_pval ctl)) True)"

section \<open>Functions without an effect\<close>

text \<open>
  These get functions leave the value of the client as it is and return 0, and these put functions
  ignore it.
\<close>

definition amp_be_media_fmt_get :: "'a \<Rightarrow> (int \<times> 'a) plug" where
  "amp_be_media_fmt_get ev s = Some ((0, ev), s)"

definition amp_be_set_param_get :: "'a \<Rightarrow> (int \<times> 'a) plug" where
  "amp_be_set_param_get ev s = Some ((0, ev), s)"

definition amp_be_metadata_get :: "'a \<Rightarrow> (int \<times> 'a) plug" where
  "amp_be_metadata_get ev s = Some ((0, ev), s)"

definition amp_pcm_aif_connect_get :: "'a \<Rightarrow> (int \<times> 'a) plug" where
  "amp_pcm_aif_connect_get ev s = Some ((0, ev), s)"

definition amp_pcm_metadata_get :: "'a \<Rightarrow> (int \<times> 'a) plug" where
  "amp_pcm_metadata_get ev s = Some ((0, ev), s)"

definition amp_pcm_calibration_get :: "'a \<Rightarrow> (int \<times> 'a) plug" where
  "amp_pcm_calibration_get ev s = Some ((0, ev), s)"

definition amp_pcm_set_param_get :: "'a \<Rightarrow> (int \<times> 'a) plug" where
  "amp_pcm_set_param_get ev s = Some ((0, ev), s)"

definition amp_pcm_loopback_get :: "'a \<Rightarrow> (int \<times> 'a) plug" where
  "amp_pcm_loopback_get ev s = Some ((0, ev), s)"

definition amp_pcm_echoref_get :: "'a \<Rightarrow> (int \<times> 'a) plug" where
  "amp_pcm_echoref_get ev s = Some ((0, ev), s)"

definition amp_pcm_sidetone_get :: "'a \<Rightarrow> (int \<times> 'a) plug" where
  "amp_pcm_sidetone_get ev s = Some ((0, ev), s)"

definition amp_pcm_buf_info_put :: "'a \<Rightarrow> int plug" where
  "amp_pcm_buf_info_put ev s = Some (0, s)"

definition amp_pcm_buf_tstamp_put :: "'a \<Rightarrow> int plug" where
  "amp_pcm_buf_tstamp_put ev s = Some (0, s)"

definition amp_pcm_tag_info_put :: "'a \<Rightarrow> int plug" where
  "amp_pcm_tag_info_put ev s = Some (0, s)"

definition amp_pcm_sidetone_put :: "'a \<Rightarrow> int plug" where
  "amp_pcm_sidetone_put ev s = Some (0, s)"

end
