(* ===== verification/Agm_Mixer_Ctls.thy ===== *)
theory Agm_Mixer_Ctls
  imports Agm_Mixer_Plugin
begin

text \<open>
  \<open>plugins/tinyalsa/src/agm_mixer_plugin.c\<close>, continued: the table of the mixer controls, and
  the open and the close of the plugin. The macros that set up a control are those of tinyalsa;
  what they store is the record \<open>snd_control\<close>, with the get and put functions as a name.
\<close>

section \<open>One control\<close>

text \<open>
  \<open>snprintf\<close> into the name, which has room for 43 characters and the NUL, and the set-up of the
  control at \<open>ctl_idx\<close>. A name that is NULL and a position outside the table are undefined.
\<close>

definition amp_init_ctl ::
    "ctl_ops \<Rightarrow> string \<Rightarrow> adi_ref option \<Rightarrow> amp_priv \<Rightarrow> string option \<Rightarrow> int \<Rightarrow> int \<Rightarrow> adi_ref \<Rightarrow> amp_priv option" where
  "amp_init_ctl ops extn e p pname ctl_idx pval pdata = do {
     nm \<leftarrow> pname;
     t \<leftarrow> arr_put ctl_idx (Some \<lparr>ctl_name = take (AIF_NAME_MAX_LEN + 16 - 1) (nm @ '' '' @ extn), ctl_ops = ops,
       ctl_enum = e, ctl_pval = pval, ctl_pdata = pdata\<rparr>) (ap_ctls p);
     Some (p\<lparr>ap_ctls := t\<rparr>)
   }"

type_synonym enum_ctl = "amp_priv \<Rightarrow> string option \<Rightarrow> int \<Rightarrow> adi_ref \<Rightarrow> int \<Rightarrow> adi_ref \<Rightarrow> amp_priv option"
type_synonym bytes_ctl = "amp_priv \<Rightarrow> string option \<Rightarrow> int \<Rightarrow> int \<Rightarrow> adi_ref \<Rightarrow> amp_priv option"

definition amp_create_connect_ctl :: enum_ctl where
  "amp_create_connect_ctl p pname ctl_idx e = amp_init_ctl Ops_pcm_aif_connect ''connect'' (Some e) p pname ctl_idx"

definition amp_create_disconnect_ctl :: enum_ctl where
  "amp_create_disconnect_ctl p pname ctl_idx e =
     amp_init_ctl Ops_pcm_aif_connect ''disconnect'' (Some e) p pname ctl_idx"

definition amp_create_mtd_control_ctl :: enum_ctl where
  "amp_create_mtd_control_ctl p pname ctl_idx e =
     amp_init_ctl Ops_pcm_mtd_control ''control'' (Some e) p pname ctl_idx"

definition amp_create_pcm_event_ctl :: bytes_ctl where
  "amp_create_pcm_event_ctl = amp_init_ctl Ops_pcm_event ''event'' None"

definition amp_create_pcm_metadata_ctl :: bytes_ctl where
  "amp_create_pcm_metadata_ctl = amp_init_ctl Ops_pcm_metadata ''metadata'' None"

definition amp_create_pcm_set_param_ctl ::
    "amp_priv \<Rightarrow> string option \<Rightarrow> int \<Rightarrow> int \<Rightarrow> adi_ref \<Rightarrow> bool \<Rightarrow> amp_priv option" where
  "amp_create_pcm_set_param_ctl p nm ctl_idx pval pdata istagged_setparam =
     (if \<not> istagged_setparam then amp_init_ctl Ops_pcm_set_param ''setParam'' None p nm ctl_idx pval pdata
      else amp_init_ctl Ops_pcm_set_param ''setParamTag'' None p nm ctl_idx pval pdata)"

definition amp_create_pcm_get_param_ctl :: bytes_ctl where
  "amp_create_pcm_get_param_ctl = amp_init_ctl Ops_pcm_get_param ''getParam'' None"

definition amp_create_pcm_get_tag_info_ctl :: bytes_ctl where
  "amp_create_pcm_get_tag_info_ctl = amp_init_ctl Ops_pcm_tag_info ''getTaggedInfo'' None"

definition amp_create_pcm_loopback_ctl :: enum_ctl where
  "amp_create_pcm_loopback_ctl p pname ctl_idx e =
     amp_init_ctl Ops_pcm_loopback ''loopback'' (Some e) p pname ctl_idx"

definition amp_create_pcm_echoref_ctl :: enum_ctl where
  "amp_create_pcm_echoref_ctl p pname ctl_idx e =
     amp_init_ctl Ops_pcm_echoref ''echoReference'' (Some e) p pname ctl_idx"

definition amp_create_pcm_sidetone_ctl :: enum_ctl where
  "amp_create_pcm_sidetone_ctl p pname ctl_idx e =
     amp_init_ctl Ops_pcm_sidetone ''sidetone'' (Some e) p pname ctl_idx"

definition amp_create_pcm_calibration_ctl :: bytes_ctl where
  "amp_create_pcm_calibration_ctl = amp_init_ctl Ops_pcm_calibration ''setCalibration'' None"

definition amp_create_pcm_buf_tstamp_ctl :: bytes_ctl where
  "amp_create_pcm_buf_tstamp_ctl = amp_init_ctl Ops_pcm_buf_tstamp ''bufTimestamp'' None"

definition amp_create_pcm_bufinfo_ctl :: bytes_ctl where
  "amp_create_pcm_bufinfo_ctl = amp_init_ctl Ops_pcm_buf_info ''getBufInfo'' None"

definition amp_create_metadata_ctl :: bytes_ctl where
  "amp_create_metadata_ctl = amp_init_ctl Ops_be_metadata ''metadata'' None"

definition amp_create_media_fmt_ctl :: bytes_ctl where
  "amp_create_media_fmt_ctl = amp_init_ctl Ops_be_media_fmt ''rate ch fmt'' None"

definition amp_create_be_set_param_ctl :: bytes_ctl where
  "amp_create_be_set_param_ctl = amp_init_ctl Ops_be_set_param ''setParam'' None"

section \<open>The table\<close>

text \<open>The entries \<open>1\<close> to \<open>count - 1\<close> of a device table, as the body of the loops reads them.\<close>

definition table_entries :: "amp_dev_info \<Rightarrow> (int \<times> string option \<times> int) list option" where
  "table_entries adi = (if ad_count adi \<le> 1 then Some []
     else those (map (\<lambda>i. do { nm \<leftarrow> arr_at (ad_names adi) (int i); x \<leftarrow> arr_at (ad_idx_arr adi) (int i);
       Some (int i, nm, x) }) [1..<nat (ad_count adi)]))"

text \<open>A loop that creates controls: the state is the private data and the next position.\<close>

fun each_entry ::
    "(amp_priv \<Rightarrow> int \<Rightarrow> int \<times> string option \<times> int \<Rightarrow> (amp_priv \<times> int) option)
      \<Rightarrow> (int \<times> string option \<times> int) list \<Rightarrow> amp_priv \<Rightarrow> int \<Rightarrow> (amp_priv \<times> int) option" where
  "each_entry body [] p ctl_idx = Some (p, ctl_idx)"
| "each_entry body (e # es) p ctl_idx = do {
     (p, ctl_idx) \<leftarrow> body p ctl_idx e; each_entry body es p ctl_idx }"

definition be_ctls :: "adi_ref \<Rightarrow> amp_priv \<Rightarrow> int \<Rightarrow> int \<times> string option \<times> int \<Rightarrow> (amp_priv \<times> int) option" where
  "be_ctls a p ctl_idx e = (case e of (i, nm, x) \<Rightarrow> do {
     p \<leftarrow> amp_create_media_fmt_ctl p nm ctl_idx x a;
     p \<leftarrow> amp_create_metadata_ctl p nm (ctl_idx + 1) x a;
     p \<leftarrow> amp_create_be_set_param_ctl p nm (ctl_idx + 2) x a;
     Some (p, ctl_idx + 3)
   })"

definition amp_form_be_ctls :: "amp_priv \<Rightarrow> int \<Rightarrow> (amp_priv \<times> int) option" where
  "amp_form_be_ctls p ctl_idx = do {
     rx \<leftarrow> table_entries (rx_be_devs p);
     (p, ctl_idx) \<leftarrow> each_entry (be_ctls Rx_be) rx p ctl_idx;
     tx \<leftarrow> table_entries (tx_be_devs p);
     each_entry (be_ctls Tx_be) tx p ctl_idx
   }"

definition common_pcm_ctls ::
    "adi_ref \<Rightarrow> adi_ref \<Rightarrow> amp_priv \<Rightarrow> int \<Rightarrow> int \<times> string option \<times> int \<Rightarrow> (amp_priv \<times> int) option" where
  "common_pcm_ctls a be p c e = (case e of (i, nm, x) \<Rightarrow> do {
     p \<leftarrow> amp_create_connect_ctl p nm c be x a;
     p \<leftarrow> amp_create_disconnect_ctl p nm (c + 1) be x a;
     p \<leftarrow> amp_create_mtd_control_ctl p nm (c + 2) be i a;
     p \<leftarrow> amp_create_pcm_metadata_ctl p nm (c + 3) x a;
     p \<leftarrow> amp_create_pcm_set_param_ctl p nm (c + 4) x a False;
     p \<leftarrow> amp_create_pcm_set_param_ctl p nm (c + 5) x a True;
     p \<leftarrow> amp_create_pcm_get_tag_info_ctl p nm (c + 6) x a;
     p \<leftarrow> amp_create_pcm_event_ctl p nm (c + 7) x a;
     p \<leftarrow> amp_create_pcm_calibration_ctl p nm (c + 8) x a;
     p \<leftarrow> amp_create_pcm_get_param_ctl p nm (c + 9) x a;
     p \<leftarrow> amp_create_pcm_bufinfo_ctl p nm (c + 10) x a;
     Some (p, c + 11)
   })"

text \<open>The controls that RX and TX devices have in common; a failed allocation ends the function.\<close>

definition amp_form_common_pcm_ctls ::
    "plug_env \<Rightarrow> adi_ref \<Rightarrow> adi_ref \<Rightarrow> amp_priv \<Rightarrow> int \<Rightarrow> (int \<times> amp_priv \<times> int) plug" where
  "amp_form_common_pcm_ctls X a be p ctl_idx s = do {
     (ok, s) \<leftarrow> p_calloc X (Blk_mtd_ctl a) s;
     if \<not> ok then Some ((- ENOMEM, put_adi a ((adi_at a p)\<lparr>ad_mtd_ctl := None\<rparr>) p, ctl_idx), s)
     else do {
       let p = put_adi a ((adi_at a p)\<lparr>ad_mtd_ctl := Some (replicate (nat (ad_count (adi_at a p))) 0)\<rparr>) p;
       es \<leftarrow> table_entries (adi_at a p);
       (p, ctl_idx) \<leftarrow> each_entry (common_pcm_ctls a be) es p ctl_idx;
       Some ((0, p, ctl_idx), s)
     }
   }"

definition tx_pcm_ctls :: "amp_priv \<Rightarrow> int \<Rightarrow> int \<times> string option \<times> int \<Rightarrow> (amp_priv \<times> int) option" where
  "tx_pcm_ctls p c e = (case e of (i, nm, x) \<Rightarrow> do {
     p \<leftarrow> amp_create_pcm_loopback_ctl p nm c Rx_pcm x Tx_pcm;
     p \<leftarrow> amp_create_pcm_echoref_ctl p nm (c + 1) Rx_be x Tx_pcm;
     p \<leftarrow> amp_create_pcm_buf_tstamp_ctl p nm (c + 2) x Tx_pcm;
     Some (p, c + 3)
   })"

definition amp_form_tx_pcm_ctls :: "amp_priv \<Rightarrow> int \<Rightarrow> (amp_priv \<times> int) option" where
  "amp_form_tx_pcm_ctls p ctl_idx = do {
     es \<leftarrow> table_entries (tx_pcm_devs p); each_entry tx_pcm_ctls es p ctl_idx }"

definition rx_pcm_ctls :: "amp_priv \<Rightarrow> int \<Rightarrow> int \<times> string option \<times> int \<Rightarrow> (amp_priv \<times> int) option" where
  "rx_pcm_ctls p c e = (case e of (i, nm, x) \<Rightarrow> do {
     p \<leftarrow> amp_create_pcm_sidetone_ctl p nm c Tx_be x Rx_pcm;
     Some (p, c + 1)
   })"

definition amp_form_rx_pcm_ctls :: "amp_priv \<Rightarrow> int \<Rightarrow> (amp_priv \<times> int) option" where
  "amp_form_rx_pcm_ctls p ctl_idx = do {
     es \<leftarrow> table_entries (rx_pcm_devs p); each_entry rx_pcm_ctls es p ctl_idx }"

text \<open>The half for the TX devices, and the whole function.\<close>

definition form_tx_half :: "plug_env \<Rightarrow> amp_priv \<Rightarrow> int \<Rightarrow> (int \<times> amp_priv \<times> int) plug" where
  "form_tx_half X p ctl_idx s = do {
     ((ret, p, ctl_idx), s) \<leftarrow> amp_form_common_pcm_ctls X Tx_pcm Tx_be p ctl_idx s;
     if ret \<noteq> 0 then Some ((ret, p, ctl_idx), s)
     else do { (p, ctl_idx) \<leftarrow> amp_form_tx_pcm_ctls p ctl_idx; Some ((0, p, ctl_idx), s) }
   }"

definition amp_form_pcm_ctls :: "plug_env \<Rightarrow> amp_priv \<Rightarrow> int \<Rightarrow> (int \<times> amp_priv \<times> int) plug" where
  "amp_form_pcm_ctls X p ctl_idx s = do {
     ((ret, p, ctl_idx), s) \<leftarrow> amp_form_common_pcm_ctls X Rx_pcm Rx_be p ctl_idx s;
     if ret \<noteq> 0 then Some ((ret, p, ctl_idx), s)
     else do { (p, ctl_idx) \<leftarrow> amp_form_rx_pcm_ctls p ctl_idx; form_tx_half X p ctl_idx s }
   }"

text \<open>The number of controls: 3 per backend, 11 per PCM device, 3 more per TX and 1 more per RX.\<close>

definition amp_get_be_ctl_count :: "amp_priv \<Rightarrow> int" where
  "amp_get_be_ctl_count p =
     (ad_count (rx_be_devs p) - 1) * 3 + (ad_count (tx_be_devs p) - 1) * 3"

definition amp_get_pcm_ctl_count :: "amp_priv \<Rightarrow> int" where
  "amp_get_pcm_ctl_count p =
     (ad_count (rx_pcm_devs p) - 1) * 11 + (ad_count (tx_pcm_devs p) - 1) * 11
     + (ad_count (tx_pcm_devs p) - 1) * 3 + (ad_count (rx_pcm_devs p) - 1) * 1"

section \<open>Open and close\<close>

definition zero_adi :: "direction \<Rightarrow> amp_dev_info" where
  "zero_adi d = \<lparr>ad_names = None, ad_idx_arr = None, ad_count = 0, ad_enum_items = 0, ad_dir = d,
     ad_mtd_ctl = None, ad_get_param = None, ad_get_param_size = 0\<rparr>"

definition new_amp_priv :: "u32 \<Rightarrow> nat option \<Rightarrow> amp_priv" where
  "new_amp_priv crd cn = \<lparr>ap_card = crd, ap_card_node = cn, ap_aif_list = None, ap_events = [],
     ap_event_params = [], rx_be_devs = zero_adi RX, tx_be_devs = zero_adi TX,
     rx_pcm_devs = zero_adi RX, tx_pcm_devs = zero_adi TX, ap_ctls = None, ap_ctl_names = False,
     ap_ctl_count = 0, ap_media_fmt = zero_media_config, ap_event_cb = None\<rparr>"

text \<open>The labels at the end of the open, from the last one up; every failure returns \<open>-ENOMEM\<close>.\<close>

definition amp_err_get_be_info :: "amp_priv \<Rightarrow> (int \<times> mixer_plugin option) plug" where
  "amp_err_get_be_info p s = do {
     (_, s) \<leftarrow> on_cards (snd_card_def_put_card (ap_card_node p)) s;
     s \<leftarrow> p_frees [Blk_priv, Blk_plugin] s;
     Some ((- ENOMEM, None), s)
   }"

definition amp_err_get_pcm_info :: "amp_priv \<Rightarrow> (int \<times> mixer_plugin option) plug" where
  "amp_err_get_pcm_info p s = do {
     (p, s) \<leftarrow> amp_free_be_dev_info p s;
     amp_err_get_be_info p s
   }"

definition amp_err_ctls_alloc :: "amp_priv \<Rightarrow> (int \<times> mixer_plugin option) plug" where
  "amp_err_ctls_alloc p s = do {
     (p, s) \<leftarrow> amp_free_ctls p s;
     (p, s) \<leftarrow> amp_free_pcm_dev_info p s;
     amp_err_get_pcm_info p s
   }"

text \<open>
  The controls and the callbacks are registered. The lists of events are initialised after the
  registration, which the model does not separate.
\<close>

definition amp_register_ctls :: "plug_env \<Rightarrow> nat \<Rightarrow> int \<Rightarrow> amp_priv \<Rightarrow> (int \<times> mixer_plugin option) plug" where
  "amp_register_ctls X self total_ctl_cnt p s = do {
     let p = (if total_ctl_cnt > 0 then p\<lparr>ap_ctl_count := total_ctl_cnt\<rparr> else p);
     let plugin = \<lparr>mp_addr = self, mp_subscribed = False, mp_priv = Some p,
       mp_num_controls = (if total_ctl_cnt > 0 then total_ctl_cnt else 0)\<rparr>;
     (_, s) \<leftarrow> amp_register_event_callback X plugin True s;
     Some ((0, Some plugin), s)
   }"

definition amp_open_ctls :: "plug_env \<Rightarrow> nat \<Rightarrow> amp_priv \<Rightarrow> (int \<times> mixer_plugin option) plug" where
  "amp_open_ctls X self p s = do {
     let be_ctl_cnt = amp_get_be_ctl_count p;
     let total_ctl_cnt = be_ctl_cnt + amp_get_pcm_ctl_count p;
     (ok1, s) \<leftarrow> p_calloc X Blk_ctls s;
     (ok2, s) \<leftarrow> p_calloc X Blk_ctl_names s;
     let p = p\<lparr>ap_ctls := (if ok1 then Some (replicate (nat total_ctl_cnt) None) else None), ap_ctl_names := ok2\<rparr>;
     if \<not> ok1 \<or> \<not> ok2 then amp_err_ctls_alloc p s
     else do {
       (p, _) \<leftarrow> amp_form_be_ctls p 0;
       ((ret, p, _), s) \<leftarrow> amp_form_pcm_ctls X p be_ctl_cnt s;
       if ret \<noteq> 0 then amp_err_ctls_alloc p s
       else amp_register_ctls X self total_ctl_cnt p s
     }
   }"

definition amp_open_card :: "plug_env \<Rightarrow> nat \<Rightarrow> u32 \<Rightarrow> (int \<times> mixer_plugin option) plug" where
  "amp_open_card X self crd s = do {
     (cn, s) \<leftarrow> on_cards (snd_card_def_get_card (cenv X) crd) s;
     if cn = None then do { s \<leftarrow> p_frees [Blk_priv, Blk_plugin] s; Some ((- ENOMEM, None), s) }
     else do {
       ((ret, p), s) \<leftarrow> amp_get_be_info X (new_amp_priv crd cn) s;
       if ret \<noteq> 0 then amp_err_get_be_info p s
       else do {
         ((ret, p), s) \<leftarrow> amp_get_pcm_info X p s;
         if ret \<noteq> 0 then amp_err_get_pcm_info p s
         else amp_open_ctls X self p s
       }
     }
   }"

definition agm_mixer_plugin_open :: "plug_env \<Rightarrow> nat \<Rightarrow> u32 \<Rightarrow> (int \<times> mixer_plugin option) plug" where
  "agm_mixer_plugin_open X self crd s = do {
     (ok, s) \<leftarrow> p_calloc X Blk_plugin s;
     if \<not> ok then Some ((- ENOMEM, None), s)
     else do {
       (ok, s) \<leftarrow> p_calloc X Blk_priv s;
       if \<not> ok then do { s \<leftarrow> p_frees [Blk_plugin] s; Some ((- ENOMEM, None), s) }
       else amp_open_card X self crd s
     }
   }"

definition amp_close :: "plug_env \<Rightarrow> mixer_plugin \<Rightarrow> unit plug" where
  "amp_close X plugin s = do {
     (_, s) \<leftarrow> amp_register_event_callback X plugin False s;
     ((_, plugin), s) \<leftarrow> amp_subscribe_events plugin None s;
     p \<leftarrow> mp_priv plugin;
     (_, s) \<leftarrow> on_cards (snd_card_def_put_card (ap_card_node p)) s;
     (p, s) \<leftarrow> amp_free_pcm_dev_info p s;
     (p, s) \<leftarrow> amp_free_be_dev_info p s;
     (p, s) \<leftarrow> amp_free_ctls p s;
     s \<leftarrow> p_frees [Blk_priv, Blk_plugin] s;
     Some ((), s)
   }"

end
