(* ===== verification/Agm_Mixer_Props.thy ===== *)
theory Agm_Mixer_Props
  imports Agm_Mixer_Ctls Agm_Frames
begin

text \<open>
  Correctness of the mixer plugin: the device tables hold the devices of the service and of the
  card, and the table of controls holds exactly the controls of these devices.
\<close>

section \<open>Device tables\<close>

text \<open>The four tables of the private data are a store.\<close>

lemma adi_at_put: "adi_at b (put_adi a d p) = (if b = a then d else adi_at b p)"
  by (cases a; cases b) simp_all

interpretation adi: store "\<lambda>p a. Some (adi_at a p)" put_adi
proof
  fix p :: amp_priv and a b v w
  show "Some (adi_at b (put_adi a v p)) = (if b = a then Some v else Some (adi_at b p))"
    by (simp add: adi_at_put)
  show "put_adi a v (put_adi a w p) = put_adi a v p" by (cases a) simp_all
  show "put_adi a v p = p" if "Some (adi_at a p) = Some v" using that by (cases a) auto
qed

text \<open>A table of devices with their names and numbers; entry 0 is the string \<open>ZERO\<close>.\<close>

definition holds :: "amp_dev_info \<Rightarrow> (string option \<times> int) list \<Rightarrow> bool" where
  "holds adi es \<longleftrightarrow> ad_count adi = int (length es) + 1
     \<and> ad_names adi = Some (Some ''ZERO'' # map fst es) \<and> ad_idx_arr adi = Some (0 # map snd es)"

text \<open>The devices with their positions, as the loops over a table see them.\<close>

definition positions :: "(string option \<times> int) list \<Rightarrow> (int \<times> string option \<times> int) list" where
  "positions es = map (\<lambda>(i, nm, x). (int i, nm, x)) (enumerate 1 es)"

lemma those_map_Some: "(\<And>i. i \<in> set is \<Longrightarrow> f i = Some (g i)) \<Longrightarrow> those (map f is) = Some (map g is)"
  by (induction "is") auto

lemma arr_at_nth: "arr_at (Some xs) (int i) = (if i < length xs then Some (xs ! i) else None)"
  by (simp add: arr_at_def)

lemma table_entries_holds:
  assumes "holds adi es"
  shows "table_entries adi = Some (positions es)"
proof (cases es)
  case Nil
  then show ?thesis using assms by (simp add: holds_def table_entries_def positions_def)
next
  case (Cons e es')
  let ?g = "\<lambda>i. (int i, fst (es ! (i - 1)), snd (es ! (i - 1)))"
  have "those (map (\<lambda>i. do { nm \<leftarrow> arr_at (ad_names adi) (int i); x \<leftarrow> arr_at (ad_idx_arr adi) (int i);
      Some (int i, nm, x) }) [1..<Suc (length es)]) = Some (map ?g [1..<Suc (length es)])"
    using assms by (intro those_map_Some) (auto simp: holds_def arr_at_nth nth_Cons')
  moreover have "map ?g [1..<Suc (length es)] = positions es"
    by (rule nth_equalityI) (auto simp: positions_def nth_enumerate_eq simp del: upt_Suc split: prod.split)
  moreover have "nat (ad_count adi) = Suc (length es)" "\<not> ad_count adi \<le> 1"
    using assms Cons by (auto simp: holds_def)
  ultimately show ?thesis by (simp add: table_entries_def)
qed

lemma positions_length [simp]: "length (positions es) = length es"
  by (simp add: positions_def)

section \<open>The table of controls\<close>

text \<open>The controls of one device, in the order of the table.\<close>

definition ctl_of :: "string option \<Rightarrow> adi_ref \<Rightarrow> ctl_ops \<Rightarrow> string \<Rightarrow> adi_ref option \<Rightarrow> int \<Rightarrow> snd_control" where
  "ctl_of nm a ops extn e pval = \<lparr>ctl_name = take 43 (the nm @ '' '' @ extn), ctl_ops = ops, ctl_enum = e,
     ctl_pval = pval, ctl_pdata = a\<rparr>"

definition be_block :: "adi_ref \<Rightarrow> int \<times> string option \<times> int \<Rightarrow> snd_control list" where
  "be_block a e = (case e of (i, nm, x) \<Rightarrow>
     [ctl_of nm a Ops_be_media_fmt ''rate ch fmt'' None x, ctl_of nm a Ops_be_metadata ''metadata'' None x,
      ctl_of nm a Ops_be_set_param ''setParam'' None x])"

definition common_block :: "adi_ref \<Rightarrow> adi_ref \<Rightarrow> int \<times> string option \<times> int \<Rightarrow> snd_control list" where
  "common_block a be e = (case e of (i, nm, x) \<Rightarrow>
     [ctl_of nm a Ops_pcm_aif_connect ''connect'' (Some be) x,
      ctl_of nm a Ops_pcm_aif_connect ''disconnect'' (Some be) x,
      ctl_of nm a Ops_pcm_mtd_control ''control'' (Some be) i,
      ctl_of nm a Ops_pcm_metadata ''metadata'' None x, ctl_of nm a Ops_pcm_set_param ''setParam'' None x,
      ctl_of nm a Ops_pcm_set_param ''setParamTag'' None x, ctl_of nm a Ops_pcm_tag_info ''getTaggedInfo'' None x,
      ctl_of nm a Ops_pcm_event ''event'' None x, ctl_of nm a Ops_pcm_calibration ''setCalibration'' None x,
      ctl_of nm a Ops_pcm_get_param ''getParam'' None x, ctl_of nm a Ops_pcm_buf_info ''getBufInfo'' None x])"

definition rx_block :: "int \<times> string option \<times> int \<Rightarrow> snd_control list" where
  "rx_block e = (case e of (i, nm, x) \<Rightarrow> [ctl_of nm Rx_pcm Ops_pcm_sidetone ''sidetone'' (Some Tx_be) x])"

definition tx_block :: "int \<times> string option \<times> int \<Rightarrow> snd_control list" where
  "tx_block e = (case e of (i, nm, x) \<Rightarrow>
     [ctl_of nm Tx_pcm Ops_pcm_loopback ''loopback'' (Some Rx_pcm) x,
      ctl_of nm Tx_pcm Ops_pcm_echoref ''echoReference'' (Some Rx_be) x,
      ctl_of nm Tx_pcm Ops_pcm_buf_tstamp ''bufTimestamp'' None x])"

text \<open>
  \<open>body\<close> fills the next \<open>m\<close> positions of the table with a block of controls, and is undefined for
  a device without a name.
\<close>

definition fills ::
    "nat \<Rightarrow> (amp_priv \<Rightarrow> int \<Rightarrow> int \<times> string option \<times> int \<Rightarrow> (amp_priv \<times> int) option)
      \<Rightarrow> (int \<times> string option \<times> int \<Rightarrow> snd_control list) \<Rightarrow> bool" where
  "fills m body blk \<longleftrightarrow> (\<forall>e. length (blk e) = m) \<and> (\<forall>p pre suf i nm x.
     ap_ctls p = Some (pre @ replicate m None @ suf) \<longrightarrow>
     body p (int (length pre)) (i, nm, x) = (if nm = None then None
       else Some (p\<lparr>ap_ctls := Some (pre @ map Some (blk (i, nm, x)) @ suf)\<rparr>, int (length pre) + int m)))"

lemma arr_put_app:
  "0 \<le> k \<Longrightarrow> arr_put (int (length pre) + k) v (Some (pre @ ys)) =
    (if nat k < length ys then Some (Some (pre @ ys[nat k := v])) else None)"
  by (auto simp: arr_put_def list_update_append nat_add_distrib)

lemma arr_put_app0:
  "arr_put (int (length pre)) v (Some (pre @ y # ys)) = Some (Some (pre @ v # ys))"
  using arr_put_app [of 0 pre v "y # ys"] by simp

lemmas create_ctl_defs = amp_create_connect_ctl_def amp_create_disconnect_ctl_def amp_create_mtd_control_ctl_def
  amp_create_pcm_event_ctl_def amp_create_pcm_metadata_ctl_def amp_create_pcm_set_param_ctl_def
  amp_create_pcm_get_param_ctl_def amp_create_pcm_get_tag_info_ctl_def amp_create_pcm_loopback_ctl_def
  amp_create_pcm_echoref_ctl_def amp_create_pcm_sidetone_ctl_def amp_create_pcm_calibration_ctl_def
  amp_create_pcm_buf_tstamp_ctl_def amp_create_pcm_bufinfo_ctl_def amp_create_metadata_ctl_def
  amp_create_media_fmt_ctl_def amp_create_be_set_param_ctl_def amp_init_ctl_def ctl_of_def

lemma be_fills: "fills 3 (be_ctls a) (be_block a)"
  unfolding fills_def be_ctls_def be_block_def
  by (auto simp: create_ctl_defs arr_put_app arr_put_app0 numeral_3_eq_3)

lemma rx_fills: "fills 1 rx_pcm_ctls rx_block"
  unfolding fills_def rx_pcm_ctls_def rx_block_def
  by (auto simp: create_ctl_defs arr_put_app0)

lemma tx_fills: "fills 3 tx_pcm_ctls tx_block"
  unfolding fills_def tx_pcm_ctls_def tx_block_def
  by (auto simp: create_ctl_defs arr_put_app arr_put_app0 numeral_3_eq_3)

lemma common_fills: "fills 11 (common_pcm_ctls a be) (common_block a be)"
  unfolding fills_def common_pcm_ctls_def common_block_def
  by (auto simp: create_ctl_defs arr_put_app arr_put_app0 numeral_nat)

lemma each_entry_fills:
  assumes "fills m body blk" "ap_ctls p = Some (pre @ replicate (m * length es) None @ suf)"
  shows "each_entry body es p (int (length pre)) =
    (if list_all (\<lambda>e. fst (snd e) \<noteq> None) es
     then Some (p\<lparr>ap_ctls := Some (pre @ map Some (concat (map blk es)) @ suf)\<rparr>, int (length pre) + int (m * length es))
     else None)"
  using assms(2)
proof (induction es arbitrary: p pre)
  case (Cons e es)
  obtain i nm x where e: "e = (i, nm, x)" by (cases e)
  let ?rest = "replicate (m * length es) None @ suf"
  let ?p = "p\<lparr>ap_ctls := Some (pre @ map Some (blk e) @ ?rest)\<rparr>"
  have "ap_ctls p = Some (pre @ replicate m None @ ?rest)"
    using Cons.prems by (simp add: replicate_add)
  then have body: "body p (int (length pre)) e = (if nm = None then None else Some (?p, int (length pre) + int m))"
    using assms(1) e unfolding fills_def by blast
  have len: "length (blk e) = m" using assms(1) unfolding fills_def by blast
  have "each_entry body es ?p (int (length (pre @ map Some (blk e)))) =
    (if list_all (\<lambda>e. fst (snd e) \<noteq> None) es
     then Some (?p\<lparr>ap_ctls := Some ((pre @ map Some (blk e)) @ map Some (concat (map blk es)) @ suf)\<rparr>,
       int (length (pre @ map Some (blk e))) + int (m * length es)) else None)"
    by (rule Cons.IH) simp
  with body len e show ?case by (simp add: algebra_simps)
qed simp

text \<open>The first positions of the table hold the controls \<open>cs\<close>, the last \<open>k\<close> are free, all else is as in \<open>p0\<close>.\<close>

definition filled :: "amp_priv \<Rightarrow> snd_control list \<Rightarrow> nat \<Rightarrow> amp_priv \<Rightarrow> bool" where
  "filled p0 cs k p \<longleftrightarrow> p = p0\<lparr>ap_ctls := Some (map Some cs @ replicate k None)\<rparr>"

lemma filled_adi: "filled p0 cs k p \<Longrightarrow> adi_at a p = adi_at a p0"
  by (cases a) (simp_all add: filled_def)

lemma filled_put_adi: "filled p0 cs k p \<Longrightarrow> filled (put_adi a d p0) cs k (put_adi a d p)"
  by (cases a) (simp_all add: filled_def)

lemma length_blocks: "fills m body blk \<Longrightarrow> length (concat (map blk es)) = m * length es"
  unfolding fills_def by (induction es) auto

lemma each_entry_filled:
  assumes "fills m body blk" "each_entry body es p c = Some (q, c')"
    and "filled p0 cs (m * length es + k) p" "c = int (length cs)"
  shows "filled p0 (cs @ concat (map blk es)) k q \<and> c' = int (length (cs @ concat (map blk es)))"
proof -
  have "ap_ctls p = Some (map Some cs @ replicate (m * length es) None @ replicate k None)"
    using assms(3) by (simp add: filled_def replicate_add)
  from each_entry_fills [OF assms(1) this] show ?thesis
    using assms(2-4) length_blocks [OF assms(1), of es] by (auto simp: filled_def split: if_splits)
qed

lemma entries_filled:
  assumes "fills m body blk" "do { es \<leftarrow> table_entries adi; each_entry body es p c } = Some (q, c')" "holds adi es"
    and "filled p0 cs (m * length es + k) p" "c = int (length cs)"
  shows "filled p0 (cs @ concat (map blk (positions es))) k q \<and> c' = int (length (cs @ concat (map blk (positions es))))"
  using each_entry_filled [OF assms(1), of "positions es" p c q c' p0 cs k] assms(2-5)
  by (simp add: table_entries_holds)

definition be_ctl_list :: "(string option \<times> int) list \<Rightarrow> (string option \<times> int) list \<Rightarrow> snd_control list" where
  "be_ctl_list rb tb = concat (map (be_block Rx_be) (positions rb)) @ concat (map (be_block Tx_be) (positions tb))"

definition pcm_ctl_list :: "(string option \<times> int) list \<Rightarrow> (string option \<times> int) list \<Rightarrow> snd_control list" where
  "pcm_ctl_list rp tp = concat (map (common_block Rx_pcm Rx_be) (positions rp)) @ concat (map rx_block (positions rp))
     @ concat (map (common_block Tx_pcm Tx_be) (positions tp)) @ concat (map tx_block (positions tp))"

lemma length_ctl_lists:
  "length (be_ctl_list rb tb) = 3 * length rb + 3 * length tb"
  "length (pcm_ctl_list rp tp) = 12 * length rp + 14 * length tp"
  using length_blocks [OF be_fills [of Rx_be], of "positions rb"] length_blocks [OF be_fills [of Tx_be], of "positions tb"]
    length_blocks [OF common_fills [of Rx_pcm Rx_be], of "positions rp"] length_blocks [OF rx_fills, of "positions rp"]
    length_blocks [OF common_fills [of Tx_pcm Tx_be], of "positions tp"] length_blocks [OF tx_fills, of "positions tp"]
  by (simp_all add: be_ctl_list_def pcm_ctl_list_def)

lemma form_be_filled:
  assumes "amp_form_be_ctls p 0 = Some (q, c)" "holds (rx_be_devs p0) rb" "holds (tx_be_devs p0) tb"
    and "filled p0 [] (3 * length rb + 3 * length tb + k) p"
  shows "filled p0 (be_ctl_list rb tb) k q"
proof -
  obtain q1 c1 where q1: "do { es \<leftarrow> table_entries (rx_be_devs p); each_entry (be_ctls Rx_be) es p 0 } = Some (q1, c1)"
    and q: "do { es \<leftarrow> table_entries (tx_be_devs q1); each_entry (be_ctls Tx_be) es q1 c1 } = Some (q, c)"
    using assms(1) by (auto simp: amp_form_be_ctls_def bind_eq_Some_conv)
  have "holds (rx_be_devs p) rb" using filled_adi [OF assms(4), of Rx_be] assms(2) by simp
  from entries_filled [OF be_fills q1 this, of p0 "[]"] assms(4)
  have q1': "filled p0 (concat (map (be_block Rx_be) (positions rb))) (3 * length tb + k) q1"
    "c1 = int (length (concat (map (be_block Rx_be) (positions rb))))"
    by (simp_all add: add.assoc)
  have "holds (tx_be_devs q1) tb" using filled_adi [OF q1'(1), of Tx_be] assms(3) by simp
  from entries_filled [OF be_fills q this q1'] show ?thesis by (simp add: be_ctl_list_def)
qed

lemma form_common_filled:
  assumes "holds (adi_at a p0) es" "filled p0 cs (11 * length es + k) p" "c = int (length cs)"
  shows "posts (amp_form_common_pcm_ctls X a be p c s) (\<lambda>(ret, q, c') s'. ret = 0 \<longrightarrow>
    (\<exists>d. d = (adi_at a p0)\<lparr>ad_mtd_ctl := Some (replicate (Suc (length es)) 0)\<rparr>
      \<and> filled (put_adi a d p0) (cs @ concat (map (common_block a be) (positions es))) k q
      \<and> c' = int (length (cs @ concat (map (common_block a be) (positions es))))))"
proof -
  let ?d = "(adi_at a p0)\<lparr>ad_mtd_ctl := Some (replicate (Suc (length es)) 0)\<rparr>"
  let ?p = "put_adi a ?d p"
  have cnt: "ad_count (adi_at a p0) = int (length es) + 1" using assms(1) by (simp add: holds_def)
  have adi: "adi_at a p = adi_at a p0" by (rule filled_adi [OF assms(2)])
  have hd: "holds ?d es" using assms(1) by (simp add: holds_def)
  have step: "filled (put_adi a ?d p0) (cs @ concat (map (common_block a be) (positions es))) k q
      \<and> c' = int (length (cs @ concat (map (common_block a be) (positions es))))"
    if "do { es \<leftarrow> table_entries ?d; each_entry (common_pcm_ctls a be) es ?p c } = Some (q, c')" for q c'
    by (rule entries_filled [OF common_fills that hd filled_put_adi [OF assms(2)] assms(3)])
  show ?thesis
    unfolding amp_form_common_pcm_ctls_def p_calloc_cases
    using step by (auto simp: adi cnt adi_at_put nat_add_distrib Let_def bind_eq_Some_conv posts_def)
qed

text \<open>The tables of \<open>q\<close>, with the cache of the metadata controls aside.\<close>

definition keeps_tables :: "(adi_ref \<Rightarrow> (string option \<times> int) list) \<Rightarrow> amp_priv \<Rightarrow> bool" where
  "keeps_tables T q \<longleftrightarrow> (\<forall>a. holds (adi_at a q) (T a))"

lemma keeps_filled: "filled p0 cs k q \<Longrightarrow> keeps_tables T q \<longleftrightarrow> keeps_tables T p0"
  by (simp add: keeps_tables_def filled_adi)

lemma keeps_mtd: "keeps_tables T (put_adi a ((adi_at a p)\<lparr>ad_mtd_ctl := m\<rparr>) p) \<longleftrightarrow> keeps_tables T p"
  by (auto simp: keeps_tables_def adi_at_put holds_def)

definition fill_post ::
    "(adi_ref \<Rightarrow> (string option \<times> int) list) \<Rightarrow> snd_control list \<Rightarrow> nat \<Rightarrow> int \<times> amp_priv \<times> int \<Rightarrow> bool" where
  "fill_post T cs k r \<longleftrightarrow> (case r of (ret, q, c) \<Rightarrow> ret = 0 \<longrightarrow>
     keeps_tables T q \<and> (\<exists>p0. filled p0 cs k q) \<and> c = int (length cs))"

lemma fill_postD:
  assumes "fill_post T cs k (0, p, c)"
  obtains p0 where "keeps_tables T p0" "filled p0 cs k p" "c = int (length cs)"
  using assms by (auto simp: fill_post_def keeps_filled)

lemma common_post:
  assumes "fill_post T cs (11 * length (T a) + k) (0, p, c)"
  shows "posts (amp_form_common_pcm_ctls X a be p c s)
    (\<lambda>r s'. fill_post T (cs @ concat (map (common_block a be) (positions (T a)))) k r)"
proof -
  obtain p0 where p0: "keeps_tables T p0" "filled p0 cs (11 * length (T a) + k) p" "c = int (length cs)"
    using assms by (rule fill_postD)
  then have "holds (adi_at a p0) (T a)" by (simp add: keeps_tables_def)
  show ?thesis
    by (rule posts_mono [OF form_common_filled [OF \<open>holds (adi_at a p0) (T a)\<close> p0(2,3)]])
      (use p0(1) in \<open>auto simp: fill_post_def keeps_filled keeps_mtd\<close>)
qed

lemma rest_post:
  assumes "fills m body blk" "fill_post T cs (m * length (T a) + k) (0, p, c)"
    and "do { es \<leftarrow> table_entries (adi_at a p); each_entry body es p c } = Some (q, c')"
  shows "fill_post T (cs @ concat (map blk (positions (T a)))) k (0, q, c')"
proof -
  obtain p0 where p0: "keeps_tables T p0" "filled p0 cs (m * length (T a) + k) p" "c = int (length cs)"
    using assms(2) by (rule fill_postD)
  then have "holds (adi_at a p) (T a)" using filled_adi [OF p0(2), of a] by (simp add: keeps_tables_def)
  from entries_filled [OF assms(1,3) this p0(2,3)] p0(1) show ?thesis
    by (auto simp: fill_post_def keeps_filled)
qed

lemma tx_post:
  assumes "amp_form_tx_pcm_ctls p c = Some (q, c')" "fill_post T cs (3 * length (T Tx_pcm)) (0, p, c)"
  shows "fill_post T (cs @ concat (map tx_block (positions (T Tx_pcm)))) 0 (0, q, c')"
  using rest_post [OF tx_fills, of T cs Tx_pcm 0 p c q c'] assms by (simp add: amp_form_tx_pcm_ctls_def)

lemma rx_post:
  assumes "amp_form_rx_pcm_ctls p c = Some (q, c')" "fill_post T cs (length (T Rx_pcm) + k) (0, p, c)"
  shows "fill_post T (cs @ concat (map rx_block (positions (T Rx_pcm)))) k (0, q, c')"
  using rest_post [OF rx_fills, of T cs Rx_pcm k p c q c'] assms by (simp add: amp_form_rx_pcm_ctls_def)

lemma fill_post_err: "ret \<noteq> 0 \<Longrightarrow> fill_post T cs k (ret, q, c)"
  by (simp add: fill_post_def)

lemma fill_seq:
  assumes "posts m (\<lambda>r s'. fill_post T cs k r)"
    and "\<And>q c s'. fill_post T cs k (0, q, c) \<Longrightarrow> posts (G q c s') (\<lambda>r s'. fill_post T cs' k' r)"
  shows "posts (m \<bind> (\<lambda>((ret, q, c), s). if ret \<noteq> 0 then Some ((ret, q, c), s) else G q c s)) (\<lambda>r s'. fill_post T cs' k' r)"
  by (rule posts_bind [OF assms(1)]) (use assms(2) in \<open>auto intro!: posts_if fill_post_err\<close>)

lemma tx_half_post:
  assumes "fill_post T cs (14 * length (T Tx_pcm)) (0, p, c)"
  shows "posts (form_tx_half X p c s) (\<lambda>r s'. fill_post T ((cs @ concat (map (common_block Tx_pcm Tx_be) (positions (T Tx_pcm))))
    @ concat (map tx_block (positions (T Tx_pcm)))) 0 r)"
proof -
  have "fill_post T cs (11 * length (T Tx_pcm) + 3 * length (T Tx_pcm)) (0, p, c)" using assms by simp
  then show ?thesis
    unfolding form_tx_half_def
    by (intro fill_seq [OF common_post] posts_deref)
      (auto intro: tx_post simp del: append_assoc)
qed

lemma form_pcm_post:
  assumes "fill_post T cs (12 * length (T Rx_pcm) + 14 * length (T Tx_pcm)) (0, p, c)"
  shows "posts (amp_form_pcm_ctls X p c s) (\<lambda>r s'. fill_post T (cs @ pcm_ctl_list (T Rx_pcm) (T Tx_pcm)) 0 r)"
proof -
  have "fill_post T cs (11 * length (T Rx_pcm) + (length (T Rx_pcm) + 14 * length (T Tx_pcm))) (0, p, c)"
    using assms by (simp add: add.assoc [symmetric])
  then show ?thesis
    unfolding amp_form_pcm_ctls_def pcm_ctl_list_def append_assoc [symmetric]
    by (intro fill_seq [OF common_post] posts_deref)
      (auto intro!: tx_half_post intro: rx_post simp del: append_assoc)
qed

section \<open>The device tables are complete\<close>

text \<open>The backends of one direction, with their numbers in the list of the service.\<close>

definition be_from :: "u32 \<Rightarrow> nat \<Rightarrow> aif_info list \<Rightarrow> (string option \<times> int) list" where
  "be_from d i as = map (\<lambda>(j, a). (Some (aif_name a), int j)) (filter (\<lambda>(j, a). aif_dir a = d) (enumerate i as))"

lemma be_from_simps [simp]:
  "be_from d i [] = []"
  "be_from d i (a # as) = (if aif_dir a = d then [(Some (aif_name a), int i)] else []) @ be_from d (Suc i) as"
  by (simp_all add: be_from_def)

lemma length_be_from: "length (be_from d i as) = length (filter (\<lambda>a. aif_dir a = d) as)"
  by (induction as arbitrary: i) auto

lemma copy_be_names_result:
  assumes "length names = k + length (be_from d i as)" "length idxs = k + length (be_from d i as)"
  shows "copy_be_names d i as k names idxs = Some (k + length (be_from d i as),
    take k names @ map fst (be_from d i as), take k idxs @ map snd (be_from d i as))"
  using assms
proof (induction as arbitrary: i k names idxs)
  case (Cons a as)
  show ?case
  proof (cases "aif_dir a = d")
    case True
    then have "k < length names" "k < length idxs" using Cons.prems by simp_all
    then show ?thesis
      using Cons.prems True Cons.IH [of "names[k := Some (aif_name a)]" "Suc k" "Suc i" "idxs[k := int i]"]
      by (simp add: take_Suc_conv_app_nth)
  qed (use Cons in simp)
qed simp

lemma copy_from_aif_holds:
  assumes "amp_copy_be_names_from_aif_list l cnt d adi = Some adi'"
    and "ad_names adi = Some (None # replicate n None)" "ad_idx_arr adi = Some (0 # replicate n 0)"
    and "n = length (be_from d 0 (take cnt l))"
  shows "holds adi' (be_from d 0 (take cnt l)) \<and> ad_dir adi' = ad_dir adi"
proof -
  have "copy_be_names d 0 (take cnt l) 1 (Some ''ZERO'' # replicate n None) (0 # replicate n 0) =
    Some (1 + n, Some ''ZERO'' # map fst (be_from d 0 (take cnt l)), 0 # map snd (be_from d 0 (take cnt l)))"
    using copy_be_names_result [of "Some ''ZERO'' # replicate n None" 1 d 0 "take cnt l" "0 # replicate n 0"] assms(4)
    by simp
  then show ?thesis
    using assms by (auto simp: amp_copy_be_names_from_aif_list_def holds_def split: if_splits)
qed

lemma alloc_table_result:
  "posts (amp_alloc_table X a p s) (\<lambda>p' s'. \<exists>ns is. p' = put_adi a ((adi_at a p)\<lparr>ad_names := ns, ad_idx_arr := is\<rparr>) p
    \<and> (ns \<noteq> None \<longrightarrow> ns = Some (replicate (nat (ad_count (adi_at a p) + 1)) None))
    \<and> (is \<noteq> None \<longrightarrow> is = Some (replicate (nat (ad_count (adi_at a p) + 1)) 0)))"
  unfolding amp_alloc_table_def p_calloc_cases by (auto simp: Let_def)

lemma posts_true: "posts m (\<lambda>r s. True)"
  by (simp add: posts_def)

definition be_ready :: "aif_info list \<Rightarrow> amp_priv \<Rightarrow> amp_priv \<Rightarrow> bool" where
  "be_ready l p q \<longleftrightarrow> holds (rx_be_devs q) (be_from DIR_RX 0 l) \<and> holds (tx_be_devs q) (be_from DIR_TX 0 l)
     \<and> rx_pcm_devs q = rx_pcm_devs p \<and> tx_pcm_devs q = tx_pcm_devs p"

lemma fill_be_post:
  "posts (amp_fill_be_info X p l n s) (\<lambda>(ret, q) s'. ret = 0 \<longrightarrow> be_ready (take n l) p q)"
proof -
  define p1 where "p1 = p\<lparr>rx_be_devs := (rx_be_devs p)\<lparr>ad_count := count_dir DIR_RX (take n l)\<rparr>,
       tx_be_devs := (tx_be_devs p)\<lparr>ad_count := count_dir DIR_TX (take n l)\<rparr>\<rparr>"
  have cnt: "nat (ad_count (rx_be_devs p1) + 1) = Suc (length (be_from DIR_RX 0 (take n l)))"
    "nat (ad_count (tx_be_devs p1) + 1) = Suc (length (be_from DIR_TX 0 (take n l)))"
    by (simp_all add: p1_def count_dir_def length_be_from nat_add_distrib)
  have pcm: "rx_pcm_devs p1 = rx_pcm_devs p" "tx_pcm_devs p1 = tx_pcm_devs p" by (simp_all add: p1_def)
  show ?thesis
    unfolding amp_fill_be_info_def p1_def [symmetric] Let_def
    by (rule posts_bind [OF alloc_table_result], clarsimp simp: cnt,
        rule posts_bind [OF alloc_table_result])
      (auto intro!: posts_if posts_deref posts_bind [OF posts_true] simp: amp_tables_ok_def be_ready_def cnt pcm
        dest!: copy_from_aif_holds [OF _ _ _ refl])
qed

lemma get_be_post:
  "posts (amp_get_be_info X p s) (\<lambda>(ret, q) s'. ret = 0 \<longrightarrow> (\<exists>l. be_ready l p q))"
  unfolding amp_get_be_info_def
  by (auto intro!: posts_deref posts_LetI posts_if posts_bind [OF posts_true] posts_mono [OF fill_be_post] simp: p_calloc_cases)

text \<open>Reading a property does not change the card definitions, so both loops see the same values.\<close>

lemma rd_unlock: "rd_lock c = Some c' \<Longrightarrow> rw_unlock c' = c"
  by (auto simp: rd_lock_def rw_unlock_def split: if_splits)

lemma card_int_same: "snd_card_def_get_int nd prop c = Some (r, c') \<Longrightarrow> c' = c"
  by (auto simp: snd_card_def_get_int_def bind_eq_Some_conv rd_unlock split: option.splits)

lemma get_int_same: "get_int_into nd prop v s = Some (v', s') \<Longrightarrow> s' = s"
  by (auto simp: get_int_into_def on_cards_def snd_card_def_get_int_def bind_eq_Some_conv rd_unlock split: option.splits)

lemma get_str_same: "on_cards (snd_card_def_get_str nd prop) s = Some (r, s') \<Longrightarrow> s' = s"
  by (auto simp: on_cards_def snd_card_def_get_str_def bind_eq_Some_conv rd_unlock split: option.splits)

lemma get_int_same': "on_cards (snd_card_def_get_int nd prop) s = Some (r, s') \<Longrightarrow> s' = s"
  by (auto simp: on_cards_def snd_card_def_get_int_def bind_eq_Some_conv rd_unlock split: option.splits)

lemma count_devs_same: "count_devs prop nds v n s = Some (n', s') \<Longrightarrow> s' = s"
  by (induction nds arbitrary: v n s) (auto simp: bind_eq_Some_conv dest!: get_int_same)

lemma fill_pcm_same: "fill_pcm_info d nds v k ns is s = Some (r, s') \<Longrightarrow> s' = s"
  by (induction nds arbitrary: v k ns "is" s)
    (auto simp: bind_eq_Some_conv Let_def dest!: get_int_same get_int_same' get_str_same split: if_splits)

lemma fill_pcm_result:
  assumes "fill_pcm_info d nds v k ns is s = Some ((0, idx, ns', is'), s')" "k \<le> length ns" "length is = length ns"
  shows "\<exists>es. idx = k + length es \<and> idx \<le> length ns \<and> ns' = take k ns @ map fst es @ drop idx ns
    \<and> is' = take k is @ map snd es @ drop idx is"
  using assms
proof (induction nds arbitrary: v k ns "is" s)
  case (Cons nd nds)
  obtain v1 where v1: "get_int_into nd d v s = Some (v1, s)"
    using Cons.prems(1) by (auto simp: bind_eq_Some_conv dest: get_int_same)
  show ?case
  proof (cases "v1 = 0")
    case False
    then obtain nm x where "k < length ns" "fill_pcm_info d nds v1 (Suc k) (ns[k := nm]) (is[k := x]) s = Some ((0, idx, ns', is'), s')"
      using Cons.prems v1 by (auto simp: bind_eq_Some_conv Let_def dest!: get_int_same' get_str_same split: if_splits)
    with Cons.IH [of v1 "Suc k" "ns[k := nm]" "is[k := x]" s] Cons.prems(3)
    obtain es where "idx = Suc k + length es" "idx \<le> length ns" "ns' = take (Suc k) (ns[k := nm]) @ map fst es @ drop idx ns"
        "is' = take (Suc k) (is[k := x]) @ map snd es @ drop idx is" by auto
    with \<open>k < length ns\<close> Cons.prems(3) show ?thesis
      by (intro exI [of _ "(nm, x) # es"]) (simp add: take_Suc_conv_app_nth)
  qed (use Cons v1 in simp)
qed simp

text \<open>The loop that counts never counts more devices than the loop that fills the table.\<close>

lemma get_int_cards:
  assumes "get_int_into nd d v s = Some (v', s')" "cards t = cards s"
  shows "get_int_into nd d v t = Some (v', t)"
proof -
  obtain r c where r: "snd_card_def_get_int nd d (cards s) = Some ((r, c), cards s)" "v' = case_option v id c"
    using assms(1) by (auto simp: get_int_into_def on_cards_def bind_eq_Some_conv dest: card_int_same)
  then show ?thesis using assms(2) by (simp add: get_int_into_def on_cards_def)
qed

lemma count_le_fill:
  assumes "count_devs d nds v n t = Some (n', t')" "fill_pcm_info d nds v k ns is s = Some ((0, idx, ns', is'), s2)"
    and "cards s = cards t"
  shows "n' + int k \<le> n + int idx"
  using assms(1,2)
proof (induction nds arbitrary: v n k ns "is")
  case (Cons nd nds)
  obtain v1 where v1: "get_int_into nd d v t = Some (v1, t)"
    using Cons.prems(1) by (auto simp: bind_eq_Some_conv dest: get_int_same)
  then have v1s: "get_int_into nd d v s = Some (v1, s)" using assms(3) by (rule get_int_cards)
  show ?case
  proof (cases "v1 = 0")
    case True
    then show ?thesis using Cons v1 v1s by simp
  next
    case False
    then obtain ns1 is1 where "fill_pcm_info d nds v1 (Suc k) ns1 is1 s = Some ((0, idx, ns', is'), s2)"
      using Cons.prems(2) v1s by (auto simp: bind_eq_Some_conv Let_def dest!: get_int_same' get_str_same split: if_splits)
    with Cons.IH [of v1 "if v1 = 1 then n + 1 else n" "Suc k" ns1 is1] Cons.prems(1) v1 show ?thesis
      by (auto split: if_splits)
  qed
qed simp

lemma create_pcm_holds:
  assumes "amp_create_pcm_info_from_card adi d nodes s = Some ((0, adi'), s')" "count_devs d nodes 0 0 t = Some (n, t)"
    and "cards s = cards t" "ad_names adi = Some (replicate (nat (n + 1)) None)" "ad_idx_arr adi = Some (replicate (nat (n + 1)) 0)"
  shows "\<exists>es. holds adi' es"
proof -
  let ?ns = "(replicate (nat (n + 1)) None)[0 := Some ''ZERO'']" and ?is = "(replicate (nat (n + 1)) 0)[0 := 0 :: int]"
  obtain idx ns' is' where f: "fill_pcm_info d nodes 0 1 ?ns ?is s = Some ((0, idx, ns', is'), s')"
    and adi': "adi' = adi\<lparr>ad_names := Some ns', ad_idx_arr := Some is', ad_count := int idx\<rparr>" and pos: "0 < nat (n + 1)"
    using assms(1,4,5) by (auto simp: amp_create_pcm_info_from_card_def bind_eq_Some_conv Let_def split: if_splits)
  obtain es where es: "idx = 1 + length es" "idx \<le> nat (n + 1)" "ns' = take 1 ?ns @ map fst es @ drop idx ?ns"
      "is' = take 1 ?is @ map snd es @ drop idx ?is"
    using fill_pcm_result [OF f] pos by auto
  have "n + int 1 \<le> 0 + int idx" by (rule count_le_fill [OF assms(2) f assms(3)])
  with es(2) pos have "idx = nat (n + 1)" by simp
  with es pos adi' show ?thesis by (cases "nat (n + 1)") (auto simp: holds_def)
qed

text \<open>The tables of the PCM devices, with those of the backends as before.\<close>

definition pcm_ready :: "amp_priv \<Rightarrow> amp_priv \<Rightarrow> bool" where
  "pcm_ready p q \<longleftrightarrow> (\<exists>rp. holds (rx_pcm_devs q) rp) \<and> (\<exists>tp. holds (tx_pcm_devs q) tp)
     \<and> rx_be_devs q = rx_be_devs p \<and> tx_be_devs q = tx_be_devs p"

lemma alloc_table_cards: "posts (amp_alloc_table X a p s) (\<lambda>p' s'. cards s' = cards s)"
  by (simp add: amp_alloc_table_def p_calloc_cases Let_def)

lemma posts_and: "posts m P \<Longrightarrow> posts m Q \<Longrightarrow> posts m (\<lambda>r s. P r s \<and> Q r s)"
  by (simp add: posts_def)

lemma holds_items: "holds (adi\<lparr>ad_enum_items := k\<rparr>) es \<longleftrightarrow> holds adi es"
  by (simp add: holds_def)

lemma create_pcm_post:
  assumes "count_devs d nodes 0 0 t = Some (n, t)" "cards s = cards t"
    and "ad_names adi = Some (replicate (nat (n + 1)) None)" "ad_idx_arr adi = Some (replicate (nat (n + 1)) 0)"
  shows "posts (amp_create_pcm_info_from_card adi d nodes s) (\<lambda>(ret, adi') s'. s' = s \<and> (ret = 0 \<longrightarrow> (\<exists>es. holds adi' es)))"
proof -
  have "s' = s" if "amp_create_pcm_info_from_card adi d nodes s = Some (r, s')" for r s'
    using that by (auto simp: amp_create_pcm_info_from_card_def bind_eq_Some_conv Let_def dest!: fill_pcm_same split: if_splits)
  with create_pcm_holds [OF _ assms] show ?thesis by (auto simp: posts_def)
qed

lemma free_pcm_err:
  "ret \<noteq> 0 \<Longrightarrow> posts (amp_free_pcm_dev_info p s \<bind> (\<lambda>(p, s). Some ((ret, p), s))) (\<lambda>(r, q) s'. r = 0 \<longrightarrow> P q)"
  by (rule posts_bind [OF posts_true]) auto

lemma fill_pcm_post:
  assumes "ad_count (rx_pcm_devs p) = 0" "ad_count (tx_pcm_devs p) = 0"
  shows "posts (amp_fill_pcm_info X p nodes s) (\<lambda>(ret, q) s'. ret = 0 \<longrightarrow> pcm_ready p q)"
proof (cases "count_devs ''playback'' nodes 0 0 s")
  case (Some r)
  then obtain n where n: "count_devs ''playback'' nodes 0 0 s = Some (n, s)" by (cases r) (auto dest: count_devs_same)
  show ?thesis
  proof (cases "count_devs ''capture'' nodes 0 0 s")
    case (Some r')
    then obtain m where m: "count_devs ''capture'' nodes 0 0 s = Some (m, s)" by (cases r') (auto dest: count_devs_same)
    define p1 where "p1 = p\<lparr>rx_pcm_devs := (rx_pcm_devs p)\<lparr>ad_count := n\<rparr>, tx_pcm_devs := (tx_pcm_devs p)\<lparr>ad_count := m\<rparr>\<rparr>"
    have p1: "ad_count (rx_pcm_devs p1) = n" "ad_count (tx_pcm_devs p1) = m" "rx_be_devs p1 = rx_be_devs p"
      "tx_be_devs p1 = tx_be_devs p" by (simp_all add: p1_def)
    show ?thesis
      unfolding amp_fill_pcm_info_def assms n m bind.simps prod.case p1_def [symmetric] Let_def
      by (rule posts_bind [OF posts_and [OF alloc_table_result alloc_table_cards]], clarsimp simp: p1,
          rule posts_bind [OF posts_and [OF alloc_table_result alloc_table_cards]], clarsimp simp: p1)
        (auto intro!: posts_if free_pcm_err posts_bind [OF create_pcm_post [OF n]]
          posts_bind [OF create_pcm_post [OF m]]
          simp: amp_tables_ok_def pcm_ready_def holds_items p1)
  qed (simp add: amp_fill_pcm_info_def assms n)
qed (simp add: amp_fill_pcm_info_def assms)

end
