(* ===== verification/Agm_Mixer_Life.thy ===== *)
theory Agm_Mixer_Life
  imports Agm_Mixer_Props Agm_Pcm_Props Agm_Card_Props Agm_Props_Session
begin

text \<open>
  The mixer plugin from its open on: the table of controls after the open, the routing of a
  metadata control, and the queues of events.
\<close>

section \<open>The open\<close>

definition open_outcome :: "int \<times> mixer_plugin option \<Rightarrow> bool" where
  "open_outcome r \<longleftrightarrow> (case r of (ret, None) \<Rightarrow> ret = - ENOMEM
     | (ret, Some pl) \<Rightarrow> ret = 0 \<and> (\<exists>p T. mp_priv pl = Some p \<and> keeps_tables T p
         \<and> ap_ctls p = Some (map Some (be_ctl_list (T Rx_be) (T Tx_be) @ pcm_ctl_list (T Rx_pcm) (T Tx_pcm)))
         \<and> mp_num_controls pl = int (length (be_ctl_list (T Rx_be) (T Tx_be) @ pcm_ctl_list (T Rx_pcm) (T Tx_pcm)))))"

lemma none_outcome [simp]: "open_outcome (- ENOMEM, None)"
  by (simp add: open_outcome_def)

lemma free_outcome: "posts (do { s \<leftarrow> p_frees bs s; Some ((- ENOMEM, None), s) }) (\<lambda>r s'. open_outcome r)"
  by (cases "p_frees bs s") simp_all

lemma err_outcome:
  "posts (amp_err_get_be_info p s) (\<lambda>r s'. open_outcome r)"
  "posts (amp_err_get_pcm_info p s) (\<lambda>r s'. open_outcome r)"
  "posts (amp_err_ctls_alloc p s) (\<lambda>r s'. open_outcome r)"
proof -
  show be: "posts (amp_err_get_be_info p s) (\<lambda>r s'. open_outcome r)" for p s
    unfolding amp_err_get_be_info_def
    by (auto intro!: posts_bind [OF posts_true] free_outcome simp del: p_frees.simps)
  show pcm: "posts (amp_err_get_pcm_info p s) (\<lambda>r s'. open_outcome r)" for p s
    unfolding amp_err_get_pcm_info_def by (auto intro!: posts_bind [OF posts_true] be)
  show "posts (amp_err_ctls_alloc p s) (\<lambda>r s'. open_outcome r)"
    unfolding amp_err_ctls_alloc_def by (auto intro!: posts_bind [OF posts_true] pcm)
qed

lemma ctl_counts:
  assumes "keeps_tables T p"
  shows "amp_get_be_ctl_count p = int (length (be_ctl_list (T Rx_be) (T Tx_be)))"
    and "amp_get_pcm_ctl_count p = int (length (pcm_ctl_list (T Rx_pcm) (T Tx_pcm)))"
proof -
  have "ad_count (adi_at a p) = int (length (T a)) + 1" for a
    using assms by (simp add: keeps_tables_def holds_def)
  from this [of Rx_be] this [of Tx_be] this [of Rx_pcm] this [of Tx_pcm]
  show "amp_get_be_ctl_count p = int (length (be_ctl_list (T Rx_be) (T Tx_be)))"
    "amp_get_pcm_ctl_count p = int (length (pcm_ctl_list (T Rx_pcm) (T Tx_pcm)))"
    by (simp_all add: amp_get_be_ctl_count_def amp_get_pcm_ctl_count_def length_ctl_lists)
qed

lemma form_be_post:
  assumes "amp_form_be_ctls p 0 = Some (q, c)" "keeps_tables T p0"
    and "filled p0 [] (length (be_ctl_list (T Rx_be) (T Tx_be)) + k) p"
  shows "fill_post T (be_ctl_list (T Rx_be) (T Tx_be)) k (0, q, int (length (be_ctl_list (T Rx_be) (T Tx_be))))"
proof -
  have "holds (rx_be_devs p0) (T Rx_be)" "holds (tx_be_devs p0) (T Tx_be)"
    using assms(2) unfolding keeps_tables_def by (metis adi_at.simps)+
  from form_be_filled [OF assms(1) this, of k] assms(3) have f: "filled p0 (be_ctl_list (T Rx_be) (T Tx_be)) k q"
    by (simp add: length_ctl_lists)
  then show ?thesis using assms(2) keeps_filled [OF f] by (auto simp: fill_post_def)
qed

lemma adi_at_upd [simp]:
  "adi_at a (p\<lparr>ap_ctls := t, ap_ctl_names := b\<rparr>) = adi_at a p" "adi_at a (p\<lparr>ap_ctl_count := n\<rparr>) = adi_at a p"
  by (cases a; simp)+

lemma register_outcome:
  assumes "fill_post T (bs @ ps) 0 (0, p, c)" "bs = be_ctl_list (T Rx_be) (T Tx_be)" "ps = pcm_ctl_list (T Rx_pcm) (T Tx_pcm)"
  shows "posts (amp_register_ctls X self (int (length bs) + int (length ps)) p s) (\<lambda>r s'. open_outcome r)"
proof -
  let ?n = "int (length bs) + int (length ps)"
  let ?pl = "\<lparr>mp_addr = self, mp_subscribed = False, mp_priv = Some (if ?n > 0 then p\<lparr>ap_ctl_count := ?n\<rparr> else p),
       mp_num_controls = (if ?n > 0 then ?n else 0)\<rparr>"
  have "ap_ctls p = Some (map Some (bs @ ps))" "keeps_tables T p"
    using assms(1) by (auto simp: fill_post_def filled_def)
  then have "open_outcome (0, Some ?pl)"
    using assms(2,3) by (auto simp: open_outcome_def keeps_tables_def intro!: exI [of _ T])
  then show ?thesis
    unfolding amp_register_ctls_def Let_def by (intro posts_bind [OF posts_true]) simp
qed

lemma open_ctls_outcome:
  assumes "keeps_tables T p"
  shows "posts (amp_open_ctls X self p s) (\<lambda>r s'. open_outcome r)"
proof -
  define bs where "bs = be_ctl_list (T Rx_be) (T Tx_be)"
  define ps where "ps = pcm_ctl_list (T Rx_pcm) (T Tx_pcm)"
  define p1 where "p1 = p\<lparr>ap_ctls := Some (replicate (length bs + length ps) None), ap_ctl_names := True\<rparr>"
  note cnt = ctl_counts [OF assms, folded bs_def ps_def]
  have p1: "keeps_tables T p1" "filled p1 [] (length bs + length ps) p1"
    using assms by (auto simp: p1_def keeps_tables_def filled_def)
  have total: "nat (int (length bs) + int (length ps)) = length bs + length ps" by simp
  have formed: "posts (amp_form_pcm_ctls X q (int (length bs)) s') (\<lambda>r s'. fill_post T (bs @ ps) 0 r)"
    if "amp_form_be_ctls p1 0 = Some (q, c)" for q c s'
    using form_pcm_post [of T bs q "int (length bs)"] form_be_post [OF that p1(1), of "length ps"] p1(2)
    by (simp add: bs_def ps_def length_ctl_lists)
  have rest: "posts (amp_form_be_ctls p1 0 \<bind> (\<lambda>(p, _). amp_form_pcm_ctls X p (int (length bs)) s' \<bind>
      (\<lambda>((ret, p, _), s). if ret \<noteq> 0 then amp_err_ctls_alloc p s
        else amp_register_ctls X self (int (length bs) + int (length ps)) p s))) (\<lambda>r s'. open_outcome r)" for s'
  proof (rule posts_deref, clarify)
    fix q c
    assume "amp_form_be_ctls p1 0 = Some (q, c)"
    then show "posts (amp_form_pcm_ctls X q (int (length bs)) s' \<bind>
      (\<lambda>((ret, p, _), s). if ret \<noteq> 0 then amp_err_ctls_alloc p s
        else amp_register_ctls X self (int (length bs) + int (length ps)) p s)) (\<lambda>r s'. open_outcome r)"
      by (rule posts_bind [OF formed]) (auto intro!: posts_if err_outcome register_outcome [OF _ bs_def ps_def])
  qed
  show ?thesis
    unfolding amp_open_ctls_def cnt p_calloc_cases bind.simps prod.case Let_def total
    by (rule posts_if [OF err_outcome(3)]) (use rest in \<open>simp add: p1_def [symmetric]\<close>)
qed

lemma get_pcm_post:
  assumes "ad_count (rx_pcm_devs p) = 0" "ad_count (tx_pcm_devs p) = 0"
  shows "posts (amp_get_pcm_info X p s) (\<lambda>(ret, q) s'. ret = 0 \<longrightarrow> pcm_ready p q)"
proof -
  have filled: "posts (if ret \<noteq> 0 then Some ((ret, p), s) else amp_fill_pcm_info X p nodes s)
      (\<lambda>(ret, q) s'. ret = 0 \<longrightarrow> pcm_ready p q)" for ret nodes s
    by (auto intro!: posts_if fill_pcm_post assms)
  have freed: "posts (do { s \<leftarrow> p_free Blk_node_list s; Some ((ret, q), s) }) (\<lambda>(ret, q) s'. ret = 0 \<longrightarrow> pcm_ready p q)"
    if "ret = 0 \<longrightarrow> pcm_ready p q" for ret q s
    using that by (cases "p_free Blk_node_list s") auto
  have "posts (amp_get_nodes cn a b s \<bind> (\<lambda>((ret, nodes), s).
      (if ret \<noteq> 0 then Some ((ret, p), s) else amp_fill_pcm_info X p nodes s) \<bind> (\<lambda>((ret, p), s).
        do { s \<leftarrow> p_free Blk_node_list s; Some ((ret, p), s) }))) (\<lambda>(ret, q) s'. ret = 0 \<longrightarrow> pcm_ready p q)" for cn a b s
    by (rule posts_bind [OF posts_true]) (auto intro!: posts_bind [OF filled] freed)
  then show ?thesis
    unfolding amp_get_pcm_info_def p_calloc_cases
    by (intro posts_bind [OF posts_true]) (auto intro!: posts_bind [OF posts_true] simp: Let_def)
qed

lemma mixer_open_outcome: "posts (agm_mixer_plugin_open X self crd s) (\<lambda>r s'. open_outcome r)"
proof -
  have ctls: "posts (amp_open_ctls X self q s) (\<lambda>r s'. open_outcome r)"
    if "be_ready l p0 p" "pcm_ready p q" for l p0 p q s
  proof -
    obtain rp tp where h: "holds (rx_pcm_devs q) rp" "holds (tx_pcm_devs q) tp" using \<open>pcm_ready p q\<close> by (auto simp: pcm_ready_def)
    define T where "T = (\<lambda>a. case a of Rx_be \<Rightarrow> be_from DIR_RX 0 l | Tx_be \<Rightarrow> be_from DIR_TX 0 l | Rx_pcm \<Rightarrow> rp | Tx_pcm \<Rightarrow> tp)"
    have "holds (adi_at a q) (T a)" for a
      using that h by (cases a) (simp_all add: T_def be_ready_def pcm_ready_def)
    then show ?thesis by (intro open_ctls_outcome [of T]) (simp add: keeps_tables_def)
  qed
  have pcm: "posts (amp_get_pcm_info X p s \<bind> (\<lambda>((ret, p), s). if ret \<noteq> 0 then amp_err_get_pcm_info p s
      else amp_open_ctls X self p s)) (\<lambda>r s'. open_outcome r)"
    if "be_ready l (new_amp_priv crd cn) p" for p l cn s
    by (rule posts_bind [OF get_pcm_post])
      (use that in \<open>auto intro!: posts_if err_outcome ctls [OF that] simp: be_ready_def new_amp_priv_def zero_adi_def\<close>)
  have card: "posts (amp_open_card X self crd s) (\<lambda>r s'. open_outcome r)" for s
    unfolding amp_open_card_def
    by (rule posts_bind [OF posts_true])
      (auto intro!: posts_if posts_bind [OF get_be_post] free_outcome err_outcome intro: pcm simp del: p_frees.simps)
  show ?thesis
    unfolding agm_mixer_plugin_open_def p_calloc_cases
    by (auto intro!: posts_if free_outcome card simp del: p_frees.simps)
qed

text \<open>
  C12: The table of controls. For every behaviour of the allocator, the service and the card
  definitions, an open that returns delivers either \<open>-ENOMEM\<close> and no plugin, or a plugin whose
  table has been filled without a gap and without a write outside it: first the three controls
  of every RX and TX backend, then for the RX devices and for the TX devices their eleven common
  controls and their own (one for RX, three for TX), each with the name, the number and the enum
  values of its device. The number of controls that was computed beforehand is exactly the
  number of controls created.
\<close>

theorem mixer_controls_complete:
  "posts (agm_mixer_plugin_open X self crd s) (\<lambda>(ret, plo) s'.
     case plo of None \<Rightarrow> ret = - ENOMEM
     | Some pl \<Rightarrow> ret = 0 \<and> (\<exists>p rb tb rp tp. mp_priv pl = Some p
         \<and> holds (rx_be_devs p) rb \<and> holds (tx_be_devs p) tb \<and> holds (rx_pcm_devs p) rp \<and> holds (tx_pcm_devs p) tp
         \<and> ap_ctls p = Some (map Some (be_ctl_list rb tb @ pcm_ctl_list rp tp))
         \<and> mp_num_controls pl = 3 * int (length rb) + 3 * int (length tb) + 12 * int (length rp) + 14 * int (length tp)))"
proof (rule posts_mono [OF mixer_open_outcome], clarify)
  fix ret plo s'
  assume o: "open_outcome (ret, plo)"
  show "case plo of None \<Rightarrow> ret = - ENOMEM
     | Some pl \<Rightarrow> ret = 0 \<and> (\<exists>p rb tb rp tp. mp_priv pl = Some p
         \<and> holds (rx_be_devs p) rb \<and> holds (tx_be_devs p) tb \<and> holds (rx_pcm_devs p) rp \<and> holds (tx_pcm_devs p) tp
         \<and> ap_ctls p = Some (map Some (be_ctl_list rb tb @ pcm_ctl_list rp tp))
         \<and> mp_num_controls pl = 3 * int (length rb) + 3 * int (length tb) + 12 * int (length rp) + 14 * int (length tp))"
  proof (cases plo)
    case (Some pl)
    then obtain p T where p: "ret = 0" "mp_priv pl = Some p" "keeps_tables T p"
        "ap_ctls p = Some (map Some (be_ctl_list (T Rx_be) (T Tx_be) @ pcm_ctl_list (T Rx_pcm) (T Tx_pcm)))"
        "mp_num_controls pl = int (length (be_ctl_list (T Rx_be) (T Tx_be) @ pcm_ctl_list (T Rx_pcm) (T Tx_pcm)))"
      using o by (auto simp: open_outcome_def)
    have h: "holds (rx_be_devs p) (T Rx_be)" "holds (tx_be_devs p) (T Tx_be)" "holds (rx_pcm_devs p) (T Rx_pcm)"
      "holds (tx_pcm_devs p) (T Tx_pcm)"
      using p(3) unfolding keeps_tables_def by (metis adi_at.simps)+
    show ?thesis
      unfolding Some option.case p(1)
      by (rule conjI [OF refl], rule exI [of _ p], rule exI [of _ "T Rx_be"], rule exI [of _ "T Tx_be"],
          rule exI [of _ "T Rx_pcm"], rule exI [of _ "T Tx_pcm"]) (simp add: length_ctl_lists p h)
  qed (use o in \<open>simp add: open_outcome_def\<close>)
qed

section \<open>An open that succeeds\<close>

text \<open>When every device has a name and the allocator does not fail, the table is formed.\<close>

definition named :: "(string option \<times> int) list \<Rightarrow> bool" where
  "named es \<longleftrightarrow> list_all (\<lambda>e. fst e \<noteq> None) es"

lemma snd_positions: "map snd (positions es) = es"
proof -
  have "map snd (positions es) = map snd (enumerate 1 es)" by (simp add: positions_def case_prod_beta' del: map_snd_enumerate)
  then show ?thesis by simp
qed

lemma named_positions: "named es \<Longrightarrow> list_all (\<lambda>e. fst (snd e) \<noteq> None) (positions es)"
  using list.pred_map [of "\<lambda>e. fst e \<noteq> None" snd "positions es"] by (simp add: named_def snd_positions comp_def)

lemma entries_defined:
  assumes "fills m body blk" "fill_post T cs (m * length (T a) + k) (0, p, c)" "named (T a)"
  shows "(do { es \<leftarrow> table_entries (adi_at a p); each_entry body es p c }) \<noteq> None"
proof -
  obtain p0 where p0: "keeps_tables T p0" "filled p0 cs (m * length (T a) + k) p" "c = int (length cs)"
    using assms(2) by (rule fill_postD)
  then have "table_entries (adi_at a p) = Some (positions (T a))"
    using filled_adi [OF p0(2), of a] by (intro table_entries_holds) (simp add: keeps_tables_def)
  moreover have "ap_ctls p = Some (map Some cs @ replicate (m * length (positions (T a))) None @ replicate k None)"
    using p0(2) by (simp add: filled_def replicate_add)
  ultimately show ?thesis
    using each_entry_fills [OF assms(1), of p "map Some cs" "positions (T a)" "replicate k None"] p0(3) named_positions [OF assms(3)]
    by simp
qed

lemma common_runs:
  assumes "fill_post T cs (11 * length (T a) + k) (0, p, c)" "named (T a)" "\<And>tr b. pr_ok (pext X tr (P_calloc b))"
  shows "runs (amp_form_common_pcm_ctls X a be p c s)
    (\<lambda>r s'. fst r = 0 \<and> fill_post T (cs @ concat (map (common_block a be) (positions (T a)))) k r)"
proof -
  let ?d = "(adi_at a p)\<lparr>ad_mtd_ctl := Some (replicate (nat (ad_count (adi_at a p))) 0)\<rparr>"
  have "fill_post T cs (11 * length (T a) + k) (0, put_adi a ?d p, c)"
    using assms(1) by (auto simp: fill_post_def keeps_mtd intro: filled_put_adi)
  from entries_defined [OF common_fills [of a be] this assms(2)]
  obtain es q c' where "table_entries ?d = Some es" "each_entry (common_pcm_ctls a be) es (put_adi a ?d p) c = Some (q, c')"
    by (auto simp: adi_at_put bind_eq_Some_conv)
  then have "amp_form_common_pcm_ctls X a be p c s \<noteq> None"
    by (simp add: amp_form_common_pcm_ctls_def p_calloc_cases assms(3) Let_def adi_at_put)
  moreover have "posts (amp_form_common_pcm_ctls X a be p c s) (\<lambda>r s'. fst r = 0)"
    by (auto simp: amp_form_common_pcm_ctls_def p_calloc_cases assms(3) Let_def posts_def bind_eq_Some_conv)
  ultimately show ?thesis
    using common_post [OF assms(1)] by (simp add: runs_iff_posts posts_def)
qed

lemma seq_runs:
  assumes "runs m (\<lambda>r s'. fst r = 0 \<and> fill_post T cs k r)"
    and "\<And>q c s'. fill_post T cs k (0, q, c) \<Longrightarrow> runs (G q c s') Q"
  shows "runs (m \<bind> (\<lambda>((ret, q, c), s). if ret \<noteq> 0 then Some ((ret, q, c), s) else G q c s)) Q"
  by (rule runs_bind [OF assms(1)]) (use assms(2) in auto)

lemma form_pcm_runs:
  assumes "fill_post T cs (12 * length (T Rx_pcm) + 14 * length (T Tx_pcm)) (0, p, c)" "\<And>a. named (T a)"
    and ok: "\<And>tr b. pr_ok (pext X tr (P_calloc b))"
  shows "runs (amp_form_pcm_ctls X p c s) (\<lambda>r s'. fst r = 0 \<and> fill_post T (cs @ pcm_ctl_list (T Rx_pcm) (T Tx_pcm)) 0 r)"
proof -
  have tx: "runs (form_tx_half X p c s) (\<lambda>r s'. fst r = 0)"
    if "fill_post T cs (14 * length (T Tx_pcm)) (0, p, c)" for cs p c s
  proof -
    have "fill_post T cs (11 * length (T Tx_pcm) + 3 * length (T Tx_pcm)) (0, p, c)" using that by simp
    note c = common_runs [OF this assms(2) ok]
    show ?thesis
      unfolding form_tx_half_def
    proof (rule seq_runs [OF c])
      fix q c s'
      assume "fill_post T (cs @ concat (map (common_block Tx_pcm Tx_be) (positions (T Tx_pcm)))) (3 * length (T Tx_pcm)) (0, q, c)"
      with entries_defined [OF tx_fills, of T _ Tx_pcm 0] assms(2) have "amp_form_tx_pcm_ctls q c \<noteq> None"
        by (simp add: amp_form_tx_pcm_ctls_def)
      then show "runs (amp_form_tx_pcm_ctls q c \<bind> (\<lambda>(p, ctl_idx). Some ((0, p, ctl_idx), s'))) (\<lambda>r s'. fst r = 0)"
        by auto
    qed
  qed
  have "fill_post T cs (11 * length (T Rx_pcm) + (length (T Rx_pcm) + 14 * length (T Tx_pcm))) (0, p, c)"
    using assms(1) by (simp add: add.assoc [symmetric])
  note c = common_runs [OF this assms(2) ok]
  have "runs (amp_form_pcm_ctls X p c s) (\<lambda>r s'. fst r = 0)"
    unfolding amp_form_pcm_ctls_def
  proof (rule seq_runs [OF c])
    fix q c s'
    assume f: "fill_post T (cs @ concat (map (common_block Rx_pcm Rx_be) (positions (T Rx_pcm))))
      (length (T Rx_pcm) + 14 * length (T Tx_pcm)) (0, q, c)"
    with entries_defined [OF rx_fills, of T _ Rx_pcm] assms(2) have "amp_form_rx_pcm_ctls q c \<noteq> None"
      by (simp add: amp_form_rx_pcm_ctls_def)
    then obtain q1 c1 where q1: "amp_form_rx_pcm_ctls q c = Some (q1, c1)" by auto
    from tx [OF rx_post [OF this f]]
    show "runs (amp_form_rx_pcm_ctls q c \<bind> (\<lambda>(p, ctl_idx). form_tx_half X p ctl_idx s')) (\<lambda>r s'. fst r = 0)"
      by (simp add: q1)
  qed
  with form_pcm_post [OF assms(1)] show ?thesis by (simp add: runs_iff_posts posts_def)
qed

lemma form_be_defined:
  assumes "keeps_tables T p" "filled p [] (3 * length (T Rx_be) + 3 * length (T Tx_be) + k) p" "\<And>a. named (T a)"
  shows "amp_form_be_ctls p 0 \<noteq> None"
proof -
  have p: "fill_post T [] (3 * length (T Rx_be) + (3 * length (T Tx_be) + k)) (0, p, 0)"
    using assms(1,2) by (auto simp: fill_post_def add.assoc)
  then obtain q c where q: "do { es \<leftarrow> table_entries (adi_at Rx_be p); each_entry (be_ctls Rx_be) es p 0 } = Some (q, c)"
    using entries_defined [OF be_fills [of Rx_be] p assms(3)] by auto
  from rest_post [OF be_fills p q] have q': "fill_post T (concat (map (be_block Rx_be) (positions (T Rx_be))))
      (3 * length (T Tx_be) + k) (0, q, c)" by simp
  from entries_defined [OF be_fills q' assms(3)] q show ?thesis
    by (auto simp: amp_form_be_ctls_def bind_eq_Some_conv)
qed

lemma form_keeps_svc: "posts (amp_form_pcm_ctls X p c s) (\<lambda>r s'. svc s' = svc s)"
  by (auto simp: amp_form_pcm_ctls_def form_tx_half_def amp_form_common_pcm_ctls_def p_calloc_cases Let_def posts_def
      bind_eq_Some_conv split: if_splits)

lemma open_ctls_reduces:
  assumes "keeps_tables T p" "\<And>a. named (T a)" and ok: "\<And>tr b. pr_ok (pext X tr (P_calloc b))"
  shows "\<exists>q s'. keeps_tables T q \<and> svc s' = svc s \<and> amp_open_ctls X self p s = amp_register_ctls X self
    (int (length (be_ctl_list (T Rx_be) (T Tx_be))) + int (length (pcm_ctl_list (T Rx_pcm) (T Tx_pcm)))) q s'"
proof -
  define bs where "bs = be_ctl_list (T Rx_be) (T Tx_be)"
  define ps where "ps = pcm_ctl_list (T Rx_pcm) (T Tx_pcm)"
  define p1 where "p1 = p\<lparr>ap_ctls := Some (replicate (length bs + length ps) None), ap_ctl_names := True\<rparr>"
  have p1: "keeps_tables T p1" "filled p1 [] (length bs + length ps) p1"
    using assms(1) by (auto simp: p1_def keeps_tables_def filled_def)
  have "amp_form_be_ctls p1 0 \<noteq> None"
    by (rule form_be_defined [OF p1(1) _ assms(2), of "length ps"]) (use p1(2) in \<open>simp add: bs_def length_ctl_lists\<close>)
  then obtain q c where q: "amp_form_be_ctls p1 0 = Some (q, c)" by auto
  define s1 where "s1 = s\<lparr>ptrace := P_calloc Blk_ctl_names # P_calloc Blk_ctls # ptrace s,
    live := Blk_ctl_names # Blk_ctls # live s\<rparr>"
  have "runs (amp_form_pcm_ctls X q (int (length bs)) s1) (\<lambda>r s'. (fst r = 0 \<and> fill_post T (bs @ ps) 0 r) \<and> svc s' = svc s1)"
    using form_be_post [OF q p1(1), of "length ps"] p1(2) unfolding ps_def
    by (intro runs_conj form_pcm_runs form_keeps_svc ok assms(2)) (simp add: bs_def ps_def length_ctl_lists)
  then obtain r c' s2 where r: "amp_form_pcm_ctls X q (int (length bs)) s1 = Some ((0, r, c'), s2)" "svc s2 = svc s1"
      "keeps_tables T r"
    by (auto elim!: runs_E simp: fill_post_def)
  have "amp_open_ctls X self p s = amp_register_ctls X self (int (length bs) + int (length ps)) r s2"
    using q r(1) ctl_counts [OF assms(1), folded bs_def ps_def]
    by (simp add: amp_open_ctls_def p_calloc_cases ok p1_def s1_def nat_add_distrib Let_def)
  with r show ?thesis by (auto simp: bs_def ps_def s1_def)
qed

lemma table_idxs_holds:
  assumes "holds adi es"
  shows "table_idxs adi = Some (map snd es)"
proof -
  have "those (map (\<lambda>i. arr_at (ad_idx_arr adi) (int i)) [1..<Suc (length es)]) = Some (map (\<lambda>i. snd (es ! (i - 1))) [1..<Suc (length es)])"
    using assms by (intro those_map_Some) (auto simp: holds_def arr_at_nth nth_Cons')
  moreover have "map (\<lambda>i. snd (es ! (i - 1))) [1..<Suc (length es)] = map snd es"
    by (rule nth_equalityI) (auto simp del: upt_Suc)
  moreover have "nat (ad_count adi) = Suc (length es)" "ad_count adi \<le> 1 \<longleftrightarrow> es = []"
    using assms by (auto simp: holds_def)
  ultimately show ?thesis by (simp add: table_idxs_def)
qed

text \<open>A card with one RX backend, and one PCM device for playback.\<close>

definition mixer_card :: snd_dev_def_card where
  "mixer_card = \<lparr>cd_card = 100, cd_type = 0, cd_name = Some ''vsnd'', cd_refcnt = 1,
     pcm_devs_list = [\<lparr>dd_node_type = SND_NODE_TYPE_PCM, dd_device = 5, dd_type = 0,
       dd_name = Some ''PCM5'', dd_so_name = None, dd_prop_val_list = [\<lparr>pv_prop = ''playback'', pv_val = ''1''\<rparr>,
         \<lparr>pv_prop = ''capture'', pv_val = ''0''\<rparr>]\<rparr>],
     mixer_devs_list = [], compr_devs_list = []\<rparr>"

definition mixer_state :: plug_state where
  "mixer_state = sample_plug_state\<lparr>svc := sample_run SESSION_CLOSED AIF_OPEN DEV_OPENED OPENED,
     cards := no_cards\<lparr>snd_card_list := [(0, mixer_card)], snd_card_list_init := True\<rparr>\<rparr>"

lemmas unfold_mixer = sample_plug_env_def sample_plug_state_def mixer_state_def no_cards_def mixer_card_def
  on_cards_def p_calloc_cases Let_def wr_lock_def rd_lock_def rw_unlock_def card_at_def devs_list_def

definition mixer_table :: "direction \<Rightarrow> (string option \<times> int) list \<Rightarrow> amp_dev_info" where
  "mixer_table d es = (zero_adi d)\<lparr>ad_names := Some (Some ''ZERO'' # map fst es), ad_idx_arr := Some (0 # map snd es),
     ad_count := int (length es) + 1, ad_enum_items := int (length es) + 1\<rparr>"

definition mixer_priv :: amp_priv where
  "mixer_priv = (new_amp_priv 100 (Some 0))\<lparr>rx_be_devs := mixer_table RX [(Some ''MI2S-LPAIF-RX-PRIMARY'', 0)],
     tx_be_devs := mixer_table TX [], ap_aif_list := Some [\<lparr>aif_name = ''MI2S-LPAIF-RX-PRIMARY'', aif_dir = 1\<rparr>]\<rparr>"

lemma sample_be_info:
  "svc s = sample_run SESSION_CLOSED AIF_OPEN DEV_OPENED OPENED \<Longrightarrow>
    \<exists>s1. amp_get_be_info sample_plug_env (new_amp_priv 100 (Some 0)) s = Some ((0, mixer_priv), s1)
      \<and> cards s1 = cards s \<and> svc s1 = svc s"
  by (simp add: amp_get_be_info_def agm_get_aif_info_list_def device_get_aif_info_list_def amp_fill_be_info_def
      amp_alloc_table_def count_dir_def amp_tables_ok_def amp_copy_be_names_from_aif_list_def unfold_mixer
      new_amp_priv_def zero_adi_def mixer_priv_def mixer_table_def sample_run_def sample_state_def sample_device_def
      dev_at_def new_device_def numeral_2_eq_2)

definition mixer_cards :: card_state where
  "mixer_cards = no_cards\<lparr>snd_card_list := [(0, mixer_card\<lparr>cd_refcnt := 2\<rparr>)], snd_card_list_init := True, tick := 1\<rparr>"

lemma sample_pcm_info:
  "cards s = mixer_cards \<Longrightarrow>
    \<exists>s1. amp_get_pcm_info sample_plug_env mixer_priv s = Some ((0, mixer_priv\<lparr>rx_pcm_devs := mixer_table RX [(Some ''PCM5'', 5)],
      tx_pcm_devs := mixer_table TX []\<rparr>), s1) \<and> svc s1 = svc s"
  by (simp add: amp_get_pcm_info_def snd_card_def_get_num_node_def mixer_cards_def mixer_priv_def new_amp_priv_def zero_adi_def
      amp_get_nodes_def snd_card_def_get_nodes_for_type_def amp_fill_pcm_info_def get_int_into_def snd_card_def_get_int_def
      dev_def_at_def atoi_def c_isspace_def c_isdigit_def amp_alloc_table_def amp_tables_ok_def
      amp_create_pcm_info_from_card_def snd_card_def_get_str_def p_free_def mixer_table_def unfold_mixer numeral_2_eq_2)

definition mixer_devs :: "adi_ref \<Rightarrow> (string option \<times> int) list" where
  "mixer_devs a = (case a of Rx_be \<Rightarrow> [(Some ''MI2S-LPAIF-RX-PRIMARY'', 0)] | Rx_pcm \<Rightarrow> [(Some ''PCM5'', 5)] | _ \<Rightarrow> [])"

lemma mixer_devs_len: "length (mixer_devs Rx_be) = 1" "length (mixer_devs Tx_be) = 0" "length (mixer_devs Rx_pcm) = 1"
  "length (mixer_devs Tx_pcm) = 0"
  by (simp_all add: mixer_devs_def)

lemma mixer_table_holds: "holds (mixer_table d es) es"
  by (simp add: holds_def mixer_table_def)

lemma mixer_priv_tables:
  "keeps_tables mixer_devs (mixer_priv\<lparr>rx_pcm_devs := mixer_table RX [(Some ''PCM5'', 5)], tx_pcm_devs := mixer_table TX []\<rparr>)"
proof -
  have "holds (adi_at a (mixer_priv\<lparr>rx_pcm_devs := mixer_table RX [(Some ''PCM5'', 5)], tx_pcm_devs := mixer_table TX []\<rparr>)) (mixer_devs a)" for a
    by (cases a) (simp_all add: mixer_devs_def mixer_priv_def mixer_table_holds)
  then show ?thesis by (simp add: keeps_tables_def)
qed

lemma sample_register:
  assumes "svc s = sample_run SESSION_CLOSED AIF_OPEN DEV_OPENED OPENED" "mp_priv pl = Some p"
    and "table_idxs (rx_pcm_devs p) = Some [5]" "table_idxs (tx_pcm_devs p) = Some []"
  shows "\<exists>s1. amp_register_event_callback sample_plug_env pl True s = Some ((), s1)"
  using assms
  by (simp add: amp_register_event_callback_def on_svc_def agm_session_register_cb_def
      with_session_def session_obj_get_def session_obj_get_from_pool_def session_obj_retrieve_from_pool_def
      session_obj_register_cb_def calloc_def unfold_mixer)

lemma sample_open_ctls:
  assumes "svc s = sample_run SESSION_CLOSED AIF_OPEN DEV_OPENED OPENED" "keeps_tables mixer_devs p"
  shows "\<exists>pl s1. amp_open_ctls sample_plug_env 1 p s = Some ((0, Some pl), s1) \<and> mp_num_controls pl = 15"
proof -
  have "named (mixer_devs a)" "pr_ok (pext sample_plug_env tr (P_calloc b))" for a tr b
    by (cases a; simp add: named_def mixer_devs_def sample_plug_env_def)+
  from open_ctls_reduces [OF assms(2) this, of s 1] obtain q s' where q: "keeps_tables mixer_devs q" "svc s' = svc s"
    "amp_open_ctls sample_plug_env 1 p s = amp_register_ctls sample_plug_env 1 15 q s'"
    by (auto simp: length_ctl_lists mixer_devs_len)
  from q(1) have "holds (adi_at Rx_pcm q) (mixer_devs Rx_pcm)" "holds (adi_at Tx_pcm q) (mixer_devs Tx_pcm)"
    by (simp_all only: keeps_tables_def)
  from this [THEN table_idxs_holds] have idx: "table_idxs (rx_pcm_devs q) = Some [5]" "table_idxs (tx_pcm_devs q) = Some []"
    by (simp_all add: mixer_devs_def)
  let ?pl = "\<lparr>mp_addr = 1, mp_subscribed = False, mp_priv = Some (q\<lparr>ap_ctl_count := 15\<rparr>), mp_num_controls = 15\<rparr>"
  obtain s1 where "amp_register_event_callback sample_plug_env ?pl True s' = Some ((), s1)"
    using sample_register [of s' ?pl "q\<lparr>ap_ctl_count := 15\<rparr>"] q(2) assms(1) idx by auto
  then show ?thesis using q(3) by (simp add: amp_register_ctls_def Let_def)
qed

lemma sample_mixer_open:
  "\<exists>pl s1. agm_mixer_plugin_open sample_plug_env 1 100 mixer_state = Some ((0, Some pl), s1) \<and> mp_num_controls pl = 15"
proof -
  define s0 where "s0 = mixer_state\<lparr>ptrace := P_calloc Blk_priv # P_calloc Blk_plugin # ptrace mixer_state,
    live := Blk_priv # Blk_plugin # live mixer_state, cards := mixer_cards\<rparr>"
  have s0: "agm_mixer_plugin_open sample_plug_env 1 100 mixer_state = amp_open_card sample_plug_env 1 100
      (s0\<lparr>cards := cards mixer_state\<rparr>)"
    by (simp add: agm_mixer_plugin_open_def s0_def p_calloc_cases sample_plug_env_def)
  have card: "on_cards (snd_card_def_get_card (cenv sample_plug_env) 100) (s0\<lparr>cards := cards mixer_state\<rparr>) = Some (Some 0, s0)"
    by (simp add: s0_def snd_card_def_get_card_def read_card_id_def upd_card_def unfold_mixer mixer_cards_def)
  obtain s1 where s1: "amp_get_be_info sample_plug_env (new_amp_priv 100 (Some 0)) s0 = Some ((0, mixer_priv), s1)"
      "cards s1 = mixer_cards" "svc s1 = svc s0"
    using sample_be_info [of s0] by (auto simp: s0_def mixer_state_def)
  obtain s2 where s2: "amp_get_pcm_info sample_plug_env mixer_priv s1 = Some ((0, mixer_priv\<lparr>rx_pcm_devs :=
      mixer_table RX [(Some ''PCM5'', 5)], tx_pcm_devs := mixer_table TX []\<rparr>), s2)" "svc s2 = svc s1"
    using sample_pcm_info [OF s1(2)] by auto
  have "svc s2 = sample_run SESSION_CLOSED AIF_OPEN DEV_OPENED OPENED"
    using s1 s2 by (simp add: s0_def mixer_state_def)
  from sample_open_ctls [OF this mixer_priv_tables] show ?thesis
    by (simp add: s0 amp_open_card_def card s1 s2 del: One_nat_def)
qed

theorem mixer_controls_complete_witness:
  "\<exists>pl p cs s1. agm_mixer_plugin_open sample_plug_env 1 100 mixer_state = Some ((0, Some pl), s1)
     \<and> mp_priv pl = Some p \<and> ap_ctls p = Some (map Some cs) \<and> length cs = 15 \<and> mp_num_controls pl = 15"
proof -
  obtain pl s1 where o: "agm_mixer_plugin_open sample_plug_env 1 100 mixer_state = Some ((0, Some pl), s1)" "mp_num_controls pl = 15"
    using sample_mixer_open by auto
  from mixer_controls_complete [of sample_plug_env 1 100 mixer_state, unfolded o(1)]
  obtain p rb tb rp tp where p: "mp_priv pl = Some p" "ap_ctls p = Some (map Some (be_ctl_list rb tb @ pcm_ctl_list rp tp))"
      "mp_num_controls pl = 3 * int (length rb) + 3 * int (length tb) + 12 * int (length rp) + 14 * int (length tp)"
    by auto
  moreover have "length (be_ctl_list rb tb @ pcm_ctl_list rp tp) = 15"
    using p(3) o(2) by (simp add: length_ctl_lists)
  ultimately show ?thesis using o by blast
qed

end
