(* ===== verification/Agm_Mixer_Use.thy ===== *)
theory Agm_Mixer_Use
  imports Agm_Mixer_Life
begin

text \<open>
  The mixer plugin in use: which backend the parameters of a PCM device go to, and the events
  that the service hands to the plugin and the client reads back.
\<close>

section \<open>Mailboxes\<close>

text \<open>
  The contract of the waiting events: one queue per session. A client of this contract gets the
  events of a session in the order of their arrival, none lost and none twice.
\<close>

datatype ('k, 'v) mail_op = Post 'k 'v | Fetch 'k

fun mail_run ::
    "('k \<Rightarrow> 'v \<Rightarrow> 's \<Rightarrow> 's) \<Rightarrow> ('k \<Rightarrow> 's \<Rightarrow> 'v option \<times> 's) \<Rightarrow> ('k, 'v) mail_op list \<Rightarrow> 's \<Rightarrow> ('k \<times> 'v) list \<times> 's" where
  "mail_run post fetch [] s = ([], s)"
| "mail_run post fetch (Post k v # ops) s = mail_run post fetch ops (post k v s)"
| "mail_run post fetch (Fetch k # ops) s = (let (r, s) = fetch k s; (out, s) = mail_run post fetch ops s
     in ((case r of None \<Rightarrow> [] | Some v \<Rightarrow> [(k, v)]) @ out, s))"

definition mail_for :: "'k \<Rightarrow> ('k \<times> 'v) list \<Rightarrow> 'v list" where
  "mail_for k out = map snd (filter (\<lambda>(j, v). j = k) out)"

fun posted :: "'k \<Rightarrow> ('k, 'v) mail_op list \<Rightarrow> 'v list" where
  "posted k [] = []"
| "posted k (Post j v # ops) = (if j = k then [v] else []) @ posted k ops"
| "posted k (Fetch j # ops) = posted k ops"

locale mailbox =
  fixes box :: "'s \<Rightarrow> 'k \<Rightarrow> 'v list"
    and post :: "'k \<Rightarrow> 'v \<Rightarrow> 's \<Rightarrow> 's"
    and fetch :: "'k \<Rightarrow> 's \<Rightarrow> 'v option \<times> 's"
  assumes box_post: "box (post k v s) j = box s j @ (if j = k then [v] else [])"
    and fetch_none: "box s k = [] \<Longrightarrow> fetch k s = (None, s)"
    and fetch_first: "box s k = v # vs \<Longrightarrow> \<exists>s'. fetch k s = (Some v, s') \<and> (\<forall>j. box s' j = (if j = k then vs else box s j))"
begin

lemma run_fifo:
  "mail_run post fetch ops s = (out, s') \<Longrightarrow> mail_for k out @ box s' k = box s k @ posted k ops"
proof (induction ops arbitrary: s out)
  case (Cons op ops)
  show ?case
  proof (cases op)
    case (Post j v)
    with Cons.IH [of "post j v s" out] Cons.prems show ?thesis by (simp add: box_post)
  next
    case (Fetch j)
    show ?thesis
    proof (cases "box s j")
      case Nil
      with Cons Fetch show ?thesis by (simp add: fetch_none)
    next
      case (Cons v vs)
      then obtain s1 where s1: "fetch j s = (Some v, s1)" "\<And>i. box s1 i = (if i = j then vs else box s i)"
        using fetch_first by blast
      obtain out1 where "mail_run post fetch ops s1 = (out1, s')" "out = (j, v) # out1"
        using Cons.prems Fetch s1(1) by (auto split: prod.splits)
      with Cons.IH [of s1 out1] s1 Cons Fetch show ?thesis by (auto simp: mail_for_def)
    qed
  qed
qed (simp add: mail_for_def)

end

text \<open>The list of the plugin keeps the events of all sessions in one sequence.\<close>

definition queued_for :: "event_params_node list \<Rightarrow> u32 \<Rightarrow> agm_event_cb_params list" where
  "queued_for es x = map en_params (filter (\<lambda>e. en_session_id e = x) es)"

definition add_waiting :: "u32 \<Rightarrow> agm_event_cb_params \<Rightarrow> event_params_node list \<Rightarrow> event_params_node list" where
  "add_waiting x ev es = es @ [\<lparr>en_session_id = x, en_params = ev\<rparr>]"

lemma take_event_none: "queued_for es x = [] \<Longrightarrow> take_event x es = (None, es)"
  by (induction es) (auto simp: queued_for_def split: if_splits)

lemma take_event_first:
  "queued_for es x = v # vs \<Longrightarrow> \<exists>es'. take_event x es = (Some v, es') \<and> (\<forall>y. queued_for es' y = (if y = x then vs else queued_for es y))"
proof (induction es)
  case (Cons e es)
  show ?case
  proof (cases "en_session_id e = x")
    case False
    then have "queued_for es x = v # vs" using Cons.prems by (simp add: queued_for_def)
    then obtain es' where "take_event x es = (Some v, es')" "\<forall>y. queued_for es' y = (if y = x then vs else queued_for es y)"
      using Cons.IH by blast
    with False show ?thesis by (auto simp: queued_for_def)
  qed (use Cons.prems in \<open>auto simp: queued_for_def\<close>)
qed (simp add: queued_for_def)

interpretation evq: mailbox queued_for add_waiting take_event
proof
  show "queued_for (add_waiting k v s) j = queued_for s j @ (if j = k then [v] else [])" for k v s j
    by (simp add: queued_for_def add_waiting_def)
qed (simp_all add: take_event_none take_event_first)

section \<open>Events\<close>

text \<open>The callbacks of the service and the reads of the event controls, in any order.\<close>

datatype event_op = Arrives u32 agm_event_cb_params | Reads snd_control

fun event_run ::
    "plug_env \<Rightarrow> event_op list \<Rightarrow> mixer_plugin \<Rightarrow> ((u32 \<times> agm_event_cb_params) list \<times> mixer_plugin) plug" where
  "event_run X [] pl s = Some (([], pl), s)"
| "event_run X (Arrives x ev # ops) pl s = do {
     (plo, s) \<leftarrow> amp_event_cb X x ev (Some pl) s;
     pl \<leftarrow> plo;
     event_run X ops pl s
   }"
| "event_run X (Reads ctl # ops) pl s = do {
     ((_, r, pl), s) \<leftarrow> amp_pcm_event_get pl ctl s;
     ((out, pl), s) \<leftarrow> event_run X ops pl s;
     Some (((case r of None \<Rightarrow> [] | Some ev \<Rightarrow> [(word_of_int (ctl_pval ctl), ev)]) @ out, pl), s)
   }"

primrec mail_op_of :: "event_op \<Rightarrow> (u32, agm_event_cb_params) mail_op" where
  "mail_op_of (Arrives x ev) = Post x ev"
| "mail_op_of (Reads ctl) = Fetch (word_of_int (ctl_pval ctl))"

text \<open>Every waiting event has its block, and its params fit into the 512 bytes of the value.\<close>

definition ev_fits :: "agm_event_cb_params \<Rightarrow> bool" where
  "ev_fits ev \<longleftrightarrow> length (event_payload ev) \<le> 500"

primrec op_fits :: "event_op \<Rightarrow> bool" where
  "op_fits (Arrives x ev) \<longleftrightarrow> ev_fits ev"
| "op_fits (Reads ctl) \<longleftrightarrow> True"

definition event_inv :: "mixer_plugin \<Rightarrow> amp_priv \<Rightarrow> plug_state \<Rightarrow> bool" where
  "event_inv pl p s \<longleftrightarrow> mp_subscribed pl \<and> mp_priv pl = Some p \<and> list_all (\<lambda>e. ev_fits (en_params e)) (ap_event_params p)
     \<and> length (ap_event_params p) \<le> count_list (live s) Blk_event_params"

lemma count_remove1: "count_list (remove1 y xs) x = (if x = y then count_list xs x - 1 else count_list xs x)"
  by (induction xs) auto

lemma event_cb_step:
  assumes "event_inv pl p s" "ev_fits ev" and ok: "\<And>tr b. pr_ok (pext X tr (P_calloc b))"
  shows "\<exists>pl' p' s'. amp_event_cb X x ev (Some pl) s = Some (Some pl', s') \<and> event_inv pl' p' s'
    \<and> ap_event_params p' = add_waiting x ev (ap_event_params p)"
  using assms
  by (simp add: event_inv_def amp_event_cb_def amp_add_event_params_def amp_queue_event_def p_calloc_cases pcall_def
      p_free_def Let_def add_waiting_def)

lemma take_event_props:
  "take_event x es = (r, es') \<Longrightarrow> set es' \<subseteq> set es
    \<and> (case r of None \<Rightarrow> es' = es | Some ev \<Rightarrow> length es = Suc (length es') \<and> (\<exists>e\<in>set es. en_params e = ev))"
  by (induction es arbitrary: es') (auto split: if_splits prod.splits option.splits)

lemma event_get_step:
  assumes "event_inv pl p s" "take_event (word_of_int (ctl_pval ctl)) (ap_event_params p) = (r, es)"
  shows "\<exists>pl' p' s'. amp_pcm_event_get pl ctl s = Some ((0, r, pl'), s') \<and> event_inv pl' p' s' \<and> ap_event_params p' = es"
proof (cases r)
  case None
  then show ?thesis using assms take_event_props [OF assms(2)] by (auto simp: event_inv_def amp_pcm_event_get_def)
next
  case (Some ev)
  then have t: "set es \<subseteq> set (ap_event_params p)" "length (ap_event_params p) = Suc (length es)"
      "\<exists>e\<in>set (ap_event_params p). en_params e = ev"
    using take_event_props [OF assms(2)] by auto
  then have fits: "length (event_payload ev) \<le> 500" "list_all (\<lambda>e. ev_fits (en_params e)) es"
    using assms(1) by (auto simp: event_inv_def list_all_iff ev_fits_def)
  have n: "Suc (length es) \<le> count_list (live s) Blk_event_params" using assms(1) t(2) by (simp add: event_inv_def)
  then have "Blk_event_params \<in> set (live s)" by (metis count_notin not_less_eq_eq zero_le)
  with n fits assms Some show ?thesis
    by (auto simp: event_inv_def amp_pcm_event_get_def p_free_def count_remove1)
qed

lemma event_run_refines:
  assumes "event_inv pl p s" "\<And>tr b. pr_ok (pext X tr (P_calloc b))" "list_all op_fits ops"
    and "mail_run add_waiting take_event (map mail_op_of ops) (ap_event_params p) = (out, es)"
  shows "\<exists>pl' p' s'. event_run X ops pl s = Some ((out, pl'), s') \<and> mp_priv pl' = Some p' \<and> ap_event_params p' = es"
  using assms(1,3,4)
proof (induction ops arbitrary: pl p s out)
  case Nil
  then show ?case by (auto simp: event_inv_def)
next
  case (Cons op ops)
  show ?case
  proof (cases op)
    case (Arrives x ev)
    with Cons.prems obtain pl1 p1 s1 where "amp_event_cb X x ev (Some pl) s = Some (Some pl1, s1)" "event_inv pl1 p1 s1"
        "ap_event_params p1 = add_waiting x ev (ap_event_params p)"
      using event_cb_step [OF Cons.prems(1) _ assms(2), of ev x] by auto
    with Cons.IH [of pl1 p1 s1 out] Cons.prems Arrives show ?thesis by simp
  next
    case (Reads ctl)
    obtain r es1 where r: "take_event (word_of_int (ctl_pval ctl)) (ap_event_params p) = (r, es1)" by fastforce
    then obtain pl1 p1 s1 where s1: "amp_pcm_event_get pl ctl s = Some ((0, r, pl1), s1)" "event_inv pl1 p1 s1"
        "ap_event_params p1 = es1"
      using event_get_step [OF Cons.prems(1)] by blast
    obtain out1 where "mail_run add_waiting take_event (map mail_op_of ops) es1 = (out1, es)"
        "out = (case r of None \<Rightarrow> [] | Some v \<Rightarrow> [(word_of_int (ctl_pval ctl), v)]) @ out1"
      using Cons.prems(3) Reads r by (auto split: prod.splits)
    with Cons.IH [OF s1(2), of out1] s1 Cons.prems(2) Reads show ?thesis by auto
  qed
qed

text \<open>
  C14: The events of the clients. A plugin with a subscriber receives events for several sessions
  while the client reads the event controls of the PCM devices, in any order. As long as the
  allocator does not fail and the params of an event fit into the 512 bytes of the control, every
  call returns, and for every session the events that were read, followed by those that still
  wait, are the events that waited before, followed by those that arrived: in order, none lost
  and none twice.
\<close>

theorem mixer_events_fifo:
  assumes "event_inv pl p s" "list_all op_fits ops" "\<And>tr b. pr_ok (pext X tr (P_calloc b))"
  shows "\<exists>out pl' p' s'. event_run X ops pl s = Some ((out, pl'), s') \<and> mp_priv pl' = Some p'
    \<and> (\<forall>x. mail_for x out @ queued_for (ap_event_params p') x = queued_for (ap_event_params p) x @ posted x (map mail_op_of ops))"
proof -
  obtain out es where "mail_run add_waiting take_event (map mail_op_of ops) (ap_event_params p) = (out, es)" by fastforce
  with event_run_refines [OF assms(1,3,2) this] evq.run_fifo [OF this] show ?thesis by metis
qed

definition sample_ctl :: "ctl_ops \<Rightarrow> int \<Rightarrow> snd_control" where
  "sample_ctl ops v = ctl_of (Some ''PCM5'') Rx_pcm ops ''event'' None v"

definition sample_mixer :: mixer_plugin where
  "sample_mixer = \<lparr>mp_addr = 1, mp_subscribed = True, mp_priv = Some (mixer_priv\<lparr>rx_pcm_devs :=
     (mixer_table RX [(Some ''PCM5'', 5), (Some ''PCM6'', 6)])\<lparr>ad_mtd_ctl := Some [0, 0, 0]\<rparr>\<rparr>), mp_num_controls = 30\<rparr>"

definition sample_events :: "event_op list" where
  "sample_events = [Arrives 5 \<lparr>source_module_id = 1, event_id = 7, event_payload = [1]\<rparr>,
     Arrives 6 \<lparr>source_module_id = 2, event_id = 8, event_payload = []\<rparr>, Reads (sample_ctl Ops_pcm_event 6),
     Arrives 5 \<lparr>source_module_id = 1, event_id = 9, event_payload = [2]\<rparr>, Reads (sample_ctl Ops_pcm_event 5)]"

theorem mixer_events_fifo_witness:
  "\<exists>out rest pl' s'. event_run sample_plug_env sample_events sample_mixer mixer_state = Some ((out, pl'), s')
    \<and> mail_for 5 out @ rest = [\<lparr>source_module_id = 1, event_id = 7, event_payload = [1]\<rparr>,
      \<lparr>source_module_id = 1, event_id = 9, event_payload = [2]\<rparr>]"
proof -
  define p where "p = mixer_priv\<lparr>rx_pcm_devs :=
     (mixer_table RX [(Some ''PCM5'', 5), (Some ''PCM6'', 6)])\<lparr>ad_mtd_ctl := Some [0, 0, 0]\<rparr>\<rparr>"
  have p: "ap_event_params p = []" by (simp add: p_def mixer_priv_def new_amp_priv_def)
  have inv: "event_inv sample_mixer p mixer_state" using p by (simp add: event_inv_def sample_mixer_def p_def)
  have fits: "list_all op_fits sample_events" by (simp add: sample_events_def ev_fits_def)
  have ok: "pr_ok (pext sample_plug_env tr (P_calloc b))" for tr b by (simp add: sample_plug_env_def)
  have posted: "posted 5 (map mail_op_of sample_events) = [\<lparr>source_module_id = 1, event_id = 7, event_payload = [1]\<rparr>,
      \<lparr>source_module_id = 1, event_id = 9, event_payload = [2]\<rparr>]"
    by (simp add: sample_events_def)
  from mixer_events_fifo [OF inv fits ok] show ?thesis
    unfolding p queued_for_def posted [symmetric] by fastforce
qed

text \<open>
  Two events at once do not fit: the second one is written 72 structures behind the first one,
  outside of every buffer with less than 73 entries.
\<close>

theorem read_event_overrun:
  assumes "mp_priv pl = Some p" "ap_events p = e1 # e2 # es" "Blk_event_data \<in> set (live s)"
    and "0 < length buf" "length buf \<le> 72" "144 \<le> sz"
  shows "amp_read_event pl buf sz s = None"
  using assms by (simp add: amp_read_event_def read_events.simps p_free_def)

section \<open>The backend that a PCM device talks about\<close>

lemma sint_u32_small:
  fixes v :: u32
  assumes "unat v < 2 ^ 31"
  shows "sint v = int (unat v)"
proof -
  have "int (unat v) < int (2 ^ 31)" using assms by (simp only: of_nat_less_iff)
  then have "uint v < 2 ^ 31" by simp
  moreover have "- 2147483648 \<le> uint v" using uint_ge_0 [of v] by linarith
  ultimately have "signed_take_bit 31 (uint v) = uint v" by (intro signed_take_bit_int_eq_self) simp_all
  then show ?thesis by (simp add: sint_uint)
qed

text \<open>The backends of a PCM table are those of its direction.\<close>

primrec be_of :: "adi_ref \<Rightarrow> adi_ref" where
  "be_of Rx_pcm = Rx_be"
| "be_of Tx_pcm = Tx_be"
| "be_of Rx_be = Rx_be"
| "be_of Tx_be = Tx_be"

definition routes_ok :: "(adi_ref \<Rightarrow> (string option \<times> int) list) \<Rightarrow> adi_ref \<Rightarrow> amp_priv \<Rightarrow> bool" where
  "routes_ok T a p \<longleftrightarrow> keeps_tables T p \<and> amp_get_be_adi (ad_dir (adi_at a p)) = Some (be_of a)
     \<and> distinct (map snd (T a)) \<and> (\<exists>m. ad_mtd_ctl (adi_at a p) = Some m \<and> length m = Suc (length (T a)))"

lemma control_value:
  assumes "routes_ok T a p" "i < length (T a)" "ad_mtd_ctl (adi_at a p) = Some m"
  shows "amp_pcm_get_control_value (snd (T a ! i)) (adi_at a p) = Some (m ! Suc i)"
proof -
  have "snd (T a ! j) \<noteq> snd (T a ! i)" if "j < i" for j
    using nth_eq_iff_index_eq [of "map snd (T a)" j i] that assms(1,2) by (simp add: routes_ok_def)
  then have "find_index (\<lambda>x. x = snd (T a ! i)) (map snd (T a)) = Some i"
    using assms(2) by (simp add: find_index_Some_iff)
  moreover have "table_idxs (adi_at a p) = Some (map snd (T a))"
    using assms(1) by (intro table_idxs_holds) (simp add: routes_ok_def keeps_tables_def)
  ultimately show ?thesis
    using assms by (auto simp: amp_pcm_get_control_value_def arr_at_def routes_ok_def nat_add_distrib)
qed

lemma be_index_at:
  assumes "routes_ok T a p" "0 < v" "v \<le> int (length (T (be_of a)))"
  shows "be_index p (ad_dir (adi_at a p)) v = Some (snd (T (be_of a) ! (nat v - 1)))"
proof -
  have "holds (adi_at (be_of a) p) (T (be_of a))" using assms(1) by (simp add: routes_ok_def keeps_tables_def)
  then show ?thesis using assms by (auto simp: be_index_def routes_ok_def holds_def arr_at_def nth_Cons')
qed

lemma mtd_put:
  assumes "routes_ok T a p" "mp_priv pl = Some p" "i < length (T a)" "ctl_pdata ctl = a" "ctl_pval ctl = int i + 1"
  obtains pl' p' where "amp_pcm_mtd_control_put pl ctl v s = Some ((0, pl'), s)" "mp_priv pl' = Some p'" "routes_ok T a p'"
    "\<And>m. ad_mtd_ctl (adi_at a p) = Some m \<Longrightarrow> ad_mtd_ctl (adi_at a p') = Some (m[Suc i := sint v])"
proof -
  obtain m where m: "ad_mtd_ctl (adi_at a p) = Some m" "length m = Suc (length (T a))" using assms(1) by (auto simp: routes_ok_def)
  let ?p = "put_adi a ((adi_at a p)\<lparr>ad_mtd_ctl := Some (m[Suc i := sint v])\<rparr>) p"
  have "amp_pcm_mtd_control_put pl ctl v s = Some ((0, pl\<lparr>mp_priv := Some ?p\<rparr>), s)"
    using assms m by (simp add: amp_pcm_mtd_control_put_def arr_put_def Let_def nat_add_distrib)
  moreover have "routes_ok T a ?p" using assms(1) m by (simp add: routes_ok_def keeps_mtd adi_at_put)
  ultimately show thesis using that m by (simp add: adi_at_put)
qed

text \<open>What the metadata control of a PCM device does, with the backend that is selected.\<close>

definition metadata_target ::
    "plug_env \<Rightarrow> (adi_ref \<Rightarrow> (string option \<times> int) list) \<Rightarrow> adi_ref \<Rightarrow> int \<Rightarrow> u32 \<Rightarrow> u8 list \<Rightarrow> int plug" where
  "metadata_target X T a x v tlv s = do {
     (ret, s) \<leftarrow> on_svc (if v = 0 then agm_session_set_metadata (penv X) (word_of_int x) tlv
       else agm_session_aif_set_metadata (penv X) (word_of_int x) (word_of_int (snd (T (be_of a) ! (unat v - 1)))) tlv) s;
     Some (already_ok ret, s)
   }"

text \<open>
  C24: The metadata control of a PCM device. Once the client has written a number \<open>v\<close> into the
  \<open>control\<close> of the device at position \<open>i\<close>, reading it gives \<open>v\<close> back, and the metadata that is
  then written for this device goes to the session alone when \<open>v\<close> is 0, and otherwise to the
  session with the \<open>v\<close>-th backend of the direction of the device, under the number that the
  service gave this backend. The selection of every other device of the table stays as it was.
\<close>

theorem metadata_routing:
  assumes "routes_ok T a p" "mp_priv pl = Some p" "i < length (T a)" "unat v \<le> length (T (be_of a))" "length (T (be_of a)) < 2 ^ 31"
    and "ctl_pdata ctl = a" "ctl_pval ctl = int i + 1" "ctl_pdata mtd = a" "ctl_pval mtd = snd (T a ! i)"
  shows "\<exists>pl' p'. amp_pcm_mtd_control_put pl ctl v s = Some ((0, pl'), s) \<and> mp_priv pl' = Some p'
    \<and> amp_pcm_mtd_control_get pl' ctl s = Some ((0, v), s)
    \<and> amp_pcm_metadata_put X pl' mtd tlv s = metadata_target X T a (snd (T a ! i)) v tlv s
    \<and> (\<forall>j<length (T a). j \<noteq> i \<longrightarrow> amp_pcm_get_control_value (snd (T a ! j)) (adi_at a p')
        = amp_pcm_get_control_value (snd (T a ! j)) (adi_at a p))"
proof -
  obtain m where m: "ad_mtd_ctl (adi_at a p) = Some m" "length m = Suc (length (T a))" using assms(1) by (auto simp: routes_ok_def)
  obtain pl' p' where pl': "amp_pcm_mtd_control_put pl ctl v s = Some ((0, pl'), s)" "mp_priv pl' = Some p'" "routes_ok T a p'"
    "ad_mtd_ctl (adi_at a p') = Some (m[Suc i := sint v])"
    using mtd_put [OF assms(1-3,6,7)] m(1) by metis
  have "unat v < 2 ^ 31" using assms(4,5) by linarith
  then have v: "sint v = int (unat v)" by (simp add: sint_u32_small)
  have get: "amp_pcm_mtd_control_get pl' ctl s = Some ((0, v), s)"
    using pl' assms m(2) by (simp add: amp_pcm_mtd_control_get_def arr_at_def nat_add_distrib)
  have "amp_pcm_get_control_value (snd (T a ! i)) (adi_at a p') = Some (int (unat v))"
    using control_value [OF pl'(3) assms(3) pl'(4)] assms(3) m(2) v by simp
  moreover have "be_index p' (ad_dir (adi_at a p')) (int (unat v)) = Some (snd (T (be_of a) ! (unat v - 1)))" if "v \<noteq> 0"
  proof -
    have "0 < int (unat v)" "int (unat v) \<le> int (length (T (be_of a)))"
      using that assms(4) by (simp_all only: of_nat_0_less_iff of_nat_le_iff unat_gt_0 simp_thms)
    from be_index_at [OF pl'(3) this] show ?thesis by simp
  qed
  ultimately have put: "amp_pcm_metadata_put X pl' mtd tlv s = metadata_target X T a (snd (T a ! i)) v tlv s"
    using pl'(2) assms(8,9) by (simp add: amp_pcm_metadata_put_def metadata_target_def Let_def uint_0_iff)
  show ?thesis
    using pl' get put m control_value [OF assms(1) _ m(1)] control_value [OF pl'(3) _ pl'(4)] by auto
qed

definition sample_route :: "adi_ref \<Rightarrow> (string option \<times> int) list" where
  "sample_route a = (case a of Rx_be \<Rightarrow> [(Some ''MI2S-LPAIF-RX-PRIMARY'', 0)]
     | Rx_pcm \<Rightarrow> [(Some ''PCM5'', 5), (Some ''PCM6'', 6)] | _ \<Rightarrow> [])"

definition sample_use :: amp_priv where
  "sample_use = mixer_priv\<lparr>rx_pcm_devs := (mixer_table RX [(Some ''PCM5'', 5), (Some ''PCM6'', 6)])\<lparr>ad_mtd_ctl := Some [0, 0, 0]\<rparr>,
     tx_pcm_devs := mixer_table TX []\<rparr>"

lemma sample_routes: "routes_ok sample_route Rx_pcm sample_use"
proof -
  have "holds (adi_at a sample_use) (sample_route a)" for a
    by (cases a) (simp_all add: sample_use_def sample_route_def mixer_priv_def mixer_table_def holds_def)
  then show ?thesis
    by (simp add: routes_ok_def keeps_tables_def sample_use_def mixer_table_def zero_adi_def amp_get_be_adi_def sample_route_def)
qed

theorem metadata_routing_witness:
  "\<exists>pl'. amp_pcm_mtd_control_put (sample_mixer\<lparr>mp_priv := Some sample_use\<rparr>) (sample_ctl Ops_pcm_mtd_control 1) 1 mixer_state
       = Some ((0, pl'), mixer_state)
     \<and> amp_pcm_mtd_control_get pl' (sample_ctl Ops_pcm_mtd_control 1) mixer_state = Some ((0, 1), mixer_state)
     \<and> amp_pcm_metadata_put sample_plug_env pl' (sample_ctl Ops_pcm_metadata 5) [0, 0, 0, 0] mixer_state
       = do { (ret, s) \<leftarrow> on_svc (agm_session_aif_set_metadata sample_env 5 0 [0, 0, 0, 0]) mixer_state;
             Some (already_ok ret, s) }"
proof -
  have "penv sample_plug_env = sample_env" by (simp add: sample_plug_env_def)
  with metadata_routing [OF sample_routes, of "sample_mixer\<lparr>mp_priv := Some sample_use\<rparr>" 0 1 "sample_ctl Ops_pcm_mtd_control 1"
    "sample_ctl Ops_pcm_metadata 5" mixer_state sample_plug_env "[0, 0, 0, 0]"]
  show ?thesis
    by (auto simp: sample_route_def sample_ctl_def ctl_of_def metadata_target_def)
qed

end
