(* ===== verification/Agm_Hidl_Server.thy ===== *)
theory Agm_Hidl_Server
  imports Agm_Session_Api
begin

text \<open>
  \<open>ipc/HwBinders/agm_ipc_service/src/agm_server_wrapper.cpp\<close>: the HwBinder server, which runs the
  service in a process of its own. It unpacks the arguments of a call, calls the service, and
  keeps two lists: the session handles that every client process has opened, and the callbacks
  that they have registered, so that both can be given back when a client dies.

  A \<open>hidl_vec\<close> is a list; HIDL transfers its elements as they are. A client process is known by
  its pid. The objects from \<open>new\<close> are never deleted: an address is a position of \<open>srvr_objs\<close>.
  The global list heads are \<open>None\<close> before their first \<open>list_init\<close>, a walk over such a list is
  undefined. \<open>linked\<close> holds the processes whose death the server is told of. The state also has
  the globals of the client library in every process (theory \<open>Agm_Hidl_Client\<close>).
\<close>

section \<open>State\<close>

record srvr_clbk =
  sk_session_id :: u32
  sk_event :: event_type
  sk_clnt_data :: nat
  sk_pid :: nat

record clbk_data =
  kd_clt_data :: nat
  kd_srv :: nat

record client_info =
  ci_pid :: nat
  ci_hndl_list :: "nat option list"

text \<open>The client library in one process; the objects \<open>ClntClbk\<close> are never deleted either.\<close>

record clnt_clbk =
  lk_session_id :: u32
  lk_func :: nat
  lk_event :: event_type
  lk_clnt_data :: nat

record client_proc =
  agm_server_died :: bool
  have_client :: bool
  crash_notifier :: "(nat option \<times> nat) option"
  clnt_objs :: "clnt_clbk list"

text \<open>The calls into client code.\<close>

datatype client_call =
    Client_event nat nat u32 agm_event_cb_params nat
  | Client_crash nat nat nat

record ipc_state =
  isvc :: agm_state
  client_list :: "client_info list option"
  clbk_data_list :: "clbk_data list option"
  srvr_objs :: "srvr_clbk list"
  linked :: "nat list"
  procs :: "nat \<Rightarrow> client_proc"
  icalls :: "client_call list"
  itick :: nat

type_synonym 'a ipc = "ipc_state \<Rightarrow> ('a, ipc_state) result"

text \<open>
  The outside: the environment of the service, which allocations succeed, whether the service
  manager knows the server, the address of \<open>ipc_callback\<close>, the values of variables that are read
  before they are written, and the descriptor that \<open>dup\<close> returns.
\<close>

record hidl_env =
  henv :: env
  halloc :: "nat \<Rightarrow> bool"
  hservice :: "nat \<Rightarrow> bool"
  hcb :: nat
  hjunk_handle :: "nat option"
  hjunk_time :: u64
  hjunk_buf :: agm_buf_info
  hdup :: "int \<Rightarrow> int"

definition on_agm :: "'a agm \<Rightarrow> 'a ipc" where
  "on_agm m s = do { (r, t) \<leftarrow> m (isvc s); Some (r, s\<lparr>isvc := t\<rparr>) }"

definition ipc_alloc :: "hidl_env \<Rightarrow> ipc_state \<Rightarrow> bool \<times> ipc_state" where
  "ipc_alloc H s = (halloc H (itick s), s\<lparr>itick := Suc (itick s)\<rparr>)"

text \<open>\<open>calloc\<close> of \<open>size\<close> bytes and \<open>memcpy\<close> of as many from the vector of the client.\<close>

definition ipc_copy :: "hidl_env \<Rightarrow> u32 \<Rightarrow> u8 list \<Rightarrow> u8 list option ipc" where
  "ipc_copy H sz vec s =
     (let (ok, s) = ipc_alloc H s in
      if \<not> ok then Some (None, s)
      else if length vec < unat sz then None
      else Some (Some (take (unat sz) vec), s))"

definition ipc_with_copy :: "hidl_env \<Rightarrow> u32 \<Rightarrow> u8 list \<Rightarrow> (u8 list \<Rightarrow> int agm) \<Rightarrow> int ipc" where
  "ipc_with_copy H sz vec f s = do {
     (c, s) \<leftarrow> ipc_copy H sz vec s;
     case c of None \<Rightarrow> Some (- ENOMEM, s) | Some bs \<Rightarrow> on_agm (f bs) s
   }"

text \<open>\<open>data()\<close> of a vector: its first element.\<close>

definition vec_data :: "'a list \<Rightarrow> 'a option" where
  "vec_data v = (case v of [] \<Rightarrow> None | x # xs \<Rightarrow> Some x)"

section \<open>The clients and their sessions\<close>

text \<open>The first client with the pid gets the handle; \<open>None\<close> when there is none.\<close>

fun add_to_client :: "nat \<Rightarrow> nat option \<Rightarrow> client_info list \<Rightarrow> client_info list option" where
  "add_to_client pid h [] = None"
| "add_to_client pid h (c # cs) =
     (if ci_pid c = pid then Some (c\<lparr>ci_hndl_list := ci_hndl_list c @ [h]\<rparr> # cs)
      else map_option (\<lambda>cs. c # cs) (add_to_client pid h cs))"

text \<open>
  A failed allocation of the client leaves the list as it is, and a failed allocation of the handle
  leaves a new client without handles.
\<close>

definition add_handle_to_list :: "hidl_env \<Rightarrow> nat \<Rightarrow> nat option \<Rightarrow> ipc_state \<Rightarrow> ipc_state" where
  "add_handle_to_list H pid handle s =
     (let s = (if client_list s = None then s\<lparr>client_list := Some []\<rparr> else s);
          cl = the (client_list s);
          (ok, s) = ipc_alloc H s in
      if \<not> ok then s
      else let (ok, s) = ipc_alloc H s in
        case add_to_client pid handle cl of
          Some cl' \<Rightarrow> if ok then s\<lparr>client_list := Some cl'\<rparr> else s
        | None \<Rightarrow> s\<lparr>client_list := Some (cl @ [\<lparr>ci_pid = pid, ci_hndl_list = (if ok then [handle] else [])\<rparr>])\<rparr>)"

text \<open>The loop of \<open>ipc_agm_session_close\<close>; clients that have no handle left are removed.\<close>

definition drop_handle :: "nat option \<Rightarrow> client_info list \<Rightarrow> client_info list" where
  "drop_handle h cs = filter (\<lambda>c. ci_hndl_list c \<noteq> [])
     (map (\<lambda>c. c\<lparr>ci_hndl_list := filter (\<lambda>x. x \<noteq> h) (ci_hndl_list c)\<rparr>) cs)"

section \<open>The death of a client\<close>

text \<open>The callbacks of the client are unregistered from the sessions.\<close>

fun unregister_clbks :: "hidl_env \<Rightarrow> nat \<Rightarrow> clbk_data list \<Rightarrow> clbk_data list ipc" where
  "unregister_clbks H pid [] s = Some ([], s)"
| "unregister_clbks H pid (k # ks) s =
     (if kd_srv k \<ge> length (srvr_objs s) then None
      else let sk = srvr_objs s ! kd_srv k in
        if sk_pid sk = pid then do {
          (_, s) \<leftarrow> on_agm (agm_session_register_cb (henv H) (sk_session_id sk) None (sk_event sk) (kd_srv k)) s;
          unregister_clbks H pid ks s
        } else do {
          (ks, s) \<leftarrow> unregister_clbks H pid ks s;
          Some (k # ks, s)
        })"

fun close_handles :: "hidl_env \<Rightarrow> nat option list \<Rightarrow> unit ipc" where
  "close_handles H [] s = Some ((), s)"
| "close_handles H (h # hs) s =
     (if h = None then close_handles H hs s
      else do { (_, s) \<leftarrow> on_agm (agm_session_close (henv H) h) s; close_handles H hs s })"

fun close_clients :: "hidl_env \<Rightarrow> nat \<Rightarrow> client_info list \<Rightarrow> client_info list ipc" where
  "close_clients H pid [] s = Some ([], s)"
| "close_clients H pid (c # cs) s =
     (if ci_pid c = pid then do {
        (_, s) \<leftarrow> close_handles H (ci_hndl_list c) s;
        close_clients H pid cs s
      } else do {
        (cs, s) \<leftarrow> close_clients H pid cs s;
        Some (c # cs, s)
      })"

definition serviceDied_server :: "hidl_env \<Rightarrow> nat \<Rightarrow> unit ipc" where
  "serviceDied_server H pid s = do {
     s \<leftarrow> (case clbk_data_list s of None \<Rightarrow> Some s
          | Some ks \<Rightarrow> do { (ks, s) \<leftarrow> unregister_clbks H pid ks s; Some (s\<lparr>clbk_data_list := Some ks\<rparr>) });
     case client_list s of None \<Rightarrow> Some ((), s)
     | Some cs \<Rightarrow> do { (cs, s) \<leftarrow> close_clients H pid cs s; Some ((), s\<lparr>client_list := Some cs\<rparr>) }
   }"

section \<open>Events on their way to a client\<close>

text \<open>
  \<open>AGMCallback::event_callback\<close> in the process of the client: the params are copied (the result of
  \<open>calloc\<close> is not tested) and the function of the client is called with the client's data.
\<close>

definition event_callback :: "hidl_env \<Rightarrow> nat \<Rightarrow> u32 \<Rightarrow> agm_event_cb_params \<Rightarrow> nat \<Rightarrow> unit ipc" where
  "event_callback H pid session_id ev clbk s =
     (let (ok, s) = ipc_alloc H s; objs = clnt_objs (procs s pid) in
      if \<not> ok \<or> clbk = 0 \<or> clbk > length objs then None
      else let lk = objs ! (clbk - 1) in
        Some ((), s\<lparr>icalls := Client_event pid (lk_func lk) session_id ev (lk_clnt_data lk) # icalls s\<rparr>))"

text \<open>\<open>ipc_callback\<close>, which the service calls: \<open>client_data\<close> is a \<open>SrvrClbk\<close>.\<close>

definition ipc_callback :: "hidl_env \<Rightarrow> u32 \<Rightarrow> agm_event_cb_params \<Rightarrow> nat \<Rightarrow> unit ipc" where
  "ipc_callback H session_id ev client_data s =
     (if client_data \<ge> length (srvr_objs s) then None
      else let sk = srvr_objs s ! client_data in event_callback H (sk_pid sk) session_id ev (sk_clnt_data sk) s)"

section \<open>The calls of the interface\<close>

definition ipc_agm_init :: "int ipc" where
  "ipc_agm_init s = Some (0, s)"

definition ipc_agm_deinit :: "int ipc" where
  "ipc_agm_deinit s = Some (0, s)"

definition ipc_agm_aif_set_media_config :: "hidl_env \<Rightarrow> u32 \<Rightarrow> agm_media_config list \<Rightarrow> int ipc" where
  "ipc_agm_aif_set_media_config H aid media_config s =
     (let (ok, s) = ipc_alloc H s in
      if \<not> ok then Some (- ENOMEM, s)
      else do { mc \<leftarrow> vec_data media_config; on_agm (agm_aif_set_media_config aid (Some mc)) s })"

definition ipc_agm_aif_set_metadata :: "hidl_env \<Rightarrow> u32 \<Rightarrow> u32 \<Rightarrow> u8 list \<Rightarrow> int ipc" where
  "ipc_agm_aif_set_metadata H aid sz metadata =
     ipc_with_copy H sz metadata (agm_aif_set_metadata (henv H) aid)"

definition ipc_agm_session_set_metadata :: "hidl_env \<Rightarrow> u32 \<Rightarrow> u32 \<Rightarrow> u8 list \<Rightarrow> int ipc" where
  "ipc_agm_session_set_metadata H session_id sz metadata =
     ipc_with_copy H sz metadata (agm_session_set_metadata (henv H) session_id)"

definition ipc_agm_session_aif_set_metadata :: "hidl_env \<Rightarrow> u32 \<Rightarrow> u32 \<Rightarrow> u32 \<Rightarrow> u8 list \<Rightarrow> int ipc" where
  "ipc_agm_session_aif_set_metadata H session_id aid sz metadata =
     ipc_with_copy H sz metadata (agm_session_aif_set_metadata (henv H) session_id aid)"

definition ipc_agm_session_aif_connect :: "hidl_env \<Rightarrow> u32 \<Rightarrow> u32 \<Rightarrow> bool \<Rightarrow> int ipc" where
  "ipc_agm_session_aif_connect H session_id aid st = on_agm (agm_session_aif_connect (henv H) session_id aid st)"

text \<open>
  The tags are returned as their entries. The reply has as many bytes as the service reports,
  which are copied from a buffer of \<open>size\<close> bytes.
\<close>

definition ipc_agm_session_aif_get_tag_module_info ::
    "hidl_env \<Rightarrow> u32 \<Rightarrow> u32 \<Rightarrow> u32 \<Rightarrow> (int \<times> tag_entry list \<times> u32) ipc" where
  "ipc_agm_session_aif_get_tag_module_info H session_id aid sz s =
     (let (ok, s) = (if sz = 0 then (True, s) else ipc_alloc H s) in
      if \<not> ok then Some ((- ENOMEM, [], sz), s)
      else do {
        ((ret, r), s) \<leftarrow> on_agm (agm_session_aif_get_tag_module_info (henv H) session_id aid (sz \<noteq> 0)) s;
        let n = (case r of None \<Rightarrow> unat sz | Some (_, n) \<Rightarrow> n);
        if sz \<noteq> 0 \<and> n > unat sz then None
        else Some ((ret, if sz = 0 then [] else case_option [] fst r, word_of_nat n), s)
      })"

definition ipc_agm_session_get_params :: "hidl_env \<Rightarrow> u32 \<Rightarrow> u32 \<Rightarrow> u8 list \<Rightarrow> (int \<times> u8 list) ipc" where
  "ipc_agm_session_get_params H session_id sz buff s = do {
     (c, s) \<leftarrow> ipc_copy H sz buff s;
     case c of None \<Rightarrow> Some ((- ENOMEM, []), s)
     | Some payload \<Rightarrow> do {
         ((ret, payload), s) \<leftarrow> on_agm (agm_session_get_params (henv H) session_id payload) s;
         Some ((ret, if ret = 0 then payload else replicate (unat sz) 0), s)
       }
   }"

definition ipc_agm_aif_set_params :: "hidl_env \<Rightarrow> u32 \<Rightarrow> u8 list \<Rightarrow> u32 \<Rightarrow> int ipc" where
  "ipc_agm_aif_set_params H aid payload sz = ipc_with_copy H sz payload (agm_aif_set_params (henv H) aid)"

definition ipc_agm_session_aif_set_params :: "hidl_env \<Rightarrow> u32 \<Rightarrow> u32 \<Rightarrow> u8 list \<Rightarrow> u32 \<Rightarrow> int ipc" where
  "ipc_agm_session_aif_set_params H session_id aid payload sz =
     ipc_with_copy H sz payload (agm_session_aif_set_params (henv H) session_id aid)"

definition ipc_agm_session_set_params :: "hidl_env \<Rightarrow> u32 \<Rightarrow> u8 list \<Rightarrow> u32 \<Rightarrow> int ipc" where
  "ipc_agm_session_set_params H session_id payload sz =
     ipc_with_copy H sz payload (agm_session_set_params (henv H) session_id)"

text \<open>
  Key values on the wire. The code advances a pointer to \<open>AgmCalConfig\<close> or \<open>AgmTagConfig\<close> (24 bytes
  each) by \<open>base + 8 * i\<close> elements, where \<open>base\<close> is the size of the C struct, and takes the first
  eight bytes there as a key and a value. An element is therefore a pair of its first two words:
  \<open>num_ckvs\<close> and the padding behind it, or \<open>tag\<close> and \<open>num_tkvs\<close>.
\<close>

type_synonym kv_elem = "u32 \<times> u32"

fun get_kvs :: "nat \<Rightarrow> kv_elem list \<Rightarrow> nat \<Rightarrow> nat \<Rightarrow> agm_key_value list option" where
  "get_kvs base vec i 0 = Some []"
| "get_kvs base vec i (Suc n) =
     (if base + 8 * i < length vec then
        map_option (Cons \<lparr>key = fst (vec ! (base + 8 * i)), val = snd (vec ! (base + 8 * i))\<rparr>) (get_kvs base vec (Suc i) n)
      else None)"

definition ipc_agm_session_aif_set_cal :: "hidl_env \<Rightarrow> u32 \<Rightarrow> u32 \<Rightarrow> kv_elem list \<Rightarrow> int ipc" where
  "ipc_agm_session_aif_set_cal H session_id aid cal_config s = do {
     (num_ckvs, _) \<leftarrow> vec_data cal_config;
     let (ok, s) = ipc_alloc H s;
     if \<not> ok then Some (- ENOMEM, s)
     else do {
       kvs \<leftarrow> get_kvs 4 cal_config 0 (unat num_ckvs);
       on_agm (agm_session_aif_set_cal (henv H) session_id aid kvs) s
     }
   }"

definition ipc_agm_set_params_with_tag :: "hidl_env \<Rightarrow> u32 \<Rightarrow> u32 \<Rightarrow> kv_elem list \<Rightarrow> int ipc" where
  "ipc_agm_set_params_with_tag H session_id aid tag_config s = do {
     (tag, num_tkvs) \<leftarrow> vec_data tag_config;
     let (ok, s) = ipc_alloc H s;
     if \<not> ok then Some (- ENOMEM, s)
     else do {
       kvs \<leftarrow> get_kvs 8 tag_config 0 (unat num_tkvs);
       on_agm (agm_set_params_with_tag (henv H) session_id aid \<lparr>tc_tag = tag, tc_kv = kvs\<rparr>) s
     }
   }"

text \<open>The payload is a vector of its own inside the element; the element also has its size.\<close>

definition ipc_agm_session_register_for_events ::
    "hidl_env \<Rightarrow> u32 \<Rightarrow> (agm_event_reg_cfg \<times> u32) list \<Rightarrow> int ipc" where
  "ipc_agm_session_register_for_events H session_id evt_reg_cfg s = do {
     (cfg, sz) \<leftarrow> vec_data evt_reg_cfg;
     let (ok, s) = ipc_alloc H s;
     if \<not> ok then Some (- ENOMEM, s)
     else if length (er_payload cfg) < unat sz then None
     else on_agm (agm_session_register_for_events (henv H) session_id
       (Some (cfg\<lparr>er_payload := take (unat sz) (er_payload cfg)\<rparr>))) s
   }"

definition ipc_agm_session_open :: "hidl_env \<Rightarrow> nat \<Rightarrow> u32 \<Rightarrow> (int \<times> nat option) ipc" where
  "ipc_agm_session_open H pid session_id s = do {
     ((ret, h), s) \<leftarrow> on_agm (agm_session_open (henv H) session_id True) s;
     if ret \<noteq> 0 then Some ((ret, hjunk_handle H), s)
     else Some ((ret, h), add_handle_to_list H pid h s)
   }"

text \<open>The buffer size has 32 bits on the wire.\<close>

definition ipc_agm_session_set_config ::
    "hidl_env \<Rightarrow> nat option \<Rightarrow> agm_session_config list \<Rightarrow> agm_media_config list \<Rightarrow> (u32 \<times> u32) list \<Rightarrow> int ipc" where
  "ipc_agm_session_set_config H hndl scs mcs bcs s =
     (let (ok1, s) = ipc_alloc H s in
      if \<not> ok1 then Some (- ENOMEM, s)
      else do {
        mc \<leftarrow> vec_data mcs;
        let (ok2, s) = ipc_alloc H s;
        if \<not> ok2 then Some (- ENOMEM, s)
        else do {
          sc \<leftarrow> vec_data scs;
          let (ok3, s) = ipc_alloc H s;
          if \<not> ok3 then Some (- ENOMEM, s)
          else do {
            (n, sz) \<leftarrow> vec_data bcs;
            on_agm (agm_session_set_config hndl sc mc \<lparr>bcount = n, bsize = ucast sz\<rparr>) s
          }
        }
      })"

definition ipc_agm_session_close :: "hidl_env \<Rightarrow> nat option \<Rightarrow> int ipc" where
  "ipc_agm_session_close H hndl s = do {
     cs \<leftarrow> client_list s;
     on_agm (agm_session_close (henv H) hndl) (s\<lparr>client_list := Some (drop_handle hndl cs)\<rparr>)
   }"

definition ipc_agm_session_prepare :: "hidl_env \<Rightarrow> nat option \<Rightarrow> int ipc" where
  "ipc_agm_session_prepare H hndl = on_agm (agm_session_prepare (henv H) hndl)"

definition ipc_agm_session_start :: "hidl_env \<Rightarrow> nat option \<Rightarrow> int ipc" where
  "ipc_agm_session_start H hndl = on_agm (agm_session_start (henv H) hndl)"

definition ipc_agm_session_stop :: "hidl_env \<Rightarrow> nat option \<Rightarrow> int ipc" where
  "ipc_agm_session_stop H hndl = on_agm (agm_session_stop (henv H) hndl)"

definition ipc_agm_session_pause :: "hidl_env \<Rightarrow> nat option \<Rightarrow> int ipc" where
  "ipc_agm_session_pause H hndl = on_agm (agm_session_pause (henv H) hndl)"

definition ipc_agm_session_resume :: "hidl_env \<Rightarrow> nat option \<Rightarrow> int ipc" where
  "ipc_agm_session_resume H hndl = on_agm (agm_session_resume (henv H) hndl)"

text \<open>The whole buffer is returned, with the count that the service reports.\<close>

definition ipc_agm_session_read :: "hidl_env \<Rightarrow> nat option \<Rightarrow> u32 \<Rightarrow> (int \<times> u8 list \<times> u32) ipc" where
  "ipc_agm_session_read H hndl count s =
     (let (ok, s) = ipc_alloc H s in
      if \<not> ok then Some ((- ENOMEM, [], count), s)
      else do {
        ((ret, cnt, bytes), s) \<leftarrow> on_agm (agm_session_read (henv H) hndl (unat count)) s;
        if length bytes > unat count then None
        else Some ((ret, bytes @ replicate (unat count - length bytes) 0, word_of_nat cnt), s)
      })"

definition ipc_agm_session_write :: "hidl_env \<Rightarrow> nat option \<Rightarrow> u8 list \<Rightarrow> u32 \<Rightarrow> (int \<times> u32) ipc" where
  "ipc_agm_session_write H hndl buff count s = do {
     (c, s) \<leftarrow> ipc_copy H count buff s;
     case c of None \<Rightarrow> Some ((- ENOMEM, count), s)
     | Some bs \<Rightarrow> do {
         ((ret, cnt), s) \<leftarrow> on_agm (agm_session_write (henv H) hndl bs) s;
         Some ((ret, word_of_nat cnt), s)
       }
   }"

text \<open>The count is cut to an \<open>int32_t\<close>.\<close>

definition ipc_agm_get_hw_processed_buff_cnt :: "nat option \<Rightarrow> u32 ipc" where
  "ipc_agm_get_hw_processed_buff_cnt hndl s = do {
     (n, s) \<leftarrow> on_agm (agm_get_hw_processed_buff_cnt hndl) s;
     Some (ucast n, s)
   }"

text \<open>
  The result of the service is replaced by 0. The vector has \<open>sizeof(struct aif_info)\<close> elements for every
  entry that was asked for, and the entries are its first elements.
\<close>

definition ipc_agm_get_aif_info_list :: "hidl_env \<Rightarrow> u32 \<Rightarrow> (int \<times> aif_info list \<times> u32) ipc" where
  "ipc_agm_get_aif_info_list H num_aif_info s =
     (let (ok, s) = (if num_aif_info = 0 then (True, s) else ipc_alloc H s) in
      if \<not> ok then Some ((- ENOMEM, [], num_aif_info), s)
      else do {
        (_, l, n) \<leftarrow> agm_get_aif_info_list
          (if num_aif_info = 0 then None else Some (replicate (unat num_aif_info) \<lparr>aif_name = [], aif_dir = 0\<rparr>))
          (Some (ucast num_aif_info)) (isvc s);
        Some ((0, case_option [] id l @ replicate (31 * unat num_aif_info) \<lparr>aif_name = [], aif_dir = 0\<rparr>,
          case_option num_aif_info word_of_nat n), s)
      })"

definition ipc_agm_session_set_loopback :: "hidl_env \<Rightarrow> u32 \<Rightarrow> u32 \<Rightarrow> bool \<Rightarrow> int ipc" where
  "ipc_agm_session_set_loopback H capture_id playback_id st =
     on_agm (agm_session_set_loopback (henv H) capture_id playback_id st)"

definition ipc_agm_session_set_ec_ref :: "hidl_env \<Rightarrow> u32 \<Rightarrow> u32 \<Rightarrow> bool \<Rightarrow> int ipc" where
  "ipc_agm_session_set_ec_ref H capture_id aid st = on_agm (agm_session_set_ec_ref (henv H) capture_id aid st)"

text \<open>
  A callback: it is recorded and the service calls \<open>ipc_callback\<close> with the new \<open>SrvrClbk\<close>. To
  unregister, the last record with the same session, event and client data is looked up; the
  record stays in the list. Without a match the code uses an uninitialised pointer.
\<close>

definition clbk_matches :: "ipc_state \<Rightarrow> u32 \<Rightarrow> event_type \<Rightarrow> nat \<Rightarrow> clbk_data \<Rightarrow> bool" where
  "clbk_matches s session_id evt_type clnt_data k \<longleftrightarrow> kd_srv k < length (srvr_objs s)
     \<and> sk_session_id (srvr_objs s ! kd_srv k) = session_id \<and> sk_event (srvr_objs s ! kd_srv k) = evt_type
     \<and> kd_clt_data k = clnt_data"

definition ipc_register_new ::
    "hidl_env \<Rightarrow> nat \<Rightarrow> u32 \<Rightarrow> event_type \<Rightarrow> nat \<Rightarrow> nat \<Rightarrow> int ipc" where
  "ipc_register_new H pid session_id evt_type ipc_client_data clnt_data s =
     (let a = length (srvr_objs s);
          s = s\<lparr>linked := pid # linked s, srvr_objs := srvr_objs s @ [\<lparr>sk_session_id = session_id,
            sk_event = evt_type, sk_clnt_data = ipc_client_data, sk_pid = pid\<rparr>]\<rparr>;
          ks = case_option [] id (clbk_data_list s);
          s = s\<lparr>clbk_data_list := Some ks\<rparr>;
          (ok, s) = ipc_alloc H s in
      if \<not> ok then Some (- ENOMEM, s)
      else on_agm (agm_session_register_cb (henv H) session_id (Some (hcb H)) evt_type a)
        (s\<lparr>clbk_data_list := Some (ks @ [\<lparr>kd_clt_data = clnt_data, kd_srv = a\<rparr>])\<rparr>))"

definition ipc_agm_session_register_callback ::
    "hidl_env \<Rightarrow> nat \<Rightarrow> u32 \<Rightarrow> bool \<Rightarrow> event_type \<Rightarrow> nat \<Rightarrow> nat \<Rightarrow> int ipc" where
  "ipc_agm_session_register_callback H pid session_id cb evt_type ipc_client_data clnt_data s =
     (if cb then ipc_register_new H pid session_id evt_type ipc_client_data clnt_data s
      else do {
        ks \<leftarrow> clbk_data_list s;
        case filter (clbk_matches s session_id evt_type clnt_data) ks of [] \<Rightarrow> None
        | k # ms \<Rightarrow> on_agm (agm_session_register_cb (henv H) session_id None evt_type (kd_srv (last (k # ms)))) s
      })"

definition ipc_agm_session_eos :: "hidl_env \<Rightarrow> nat option \<Rightarrow> int ipc" where
  "ipc_agm_session_eos H hndl = on_agm (agm_session_eos (henv H) hndl)"

text \<open>The time is uninitialised when the service does not write it.\<close>

definition ipc_agm_get_session_time :: "hidl_env \<Rightarrow> nat option \<Rightarrow> (int \<times> u64) ipc" where
  "ipc_agm_get_session_time H hndl s = do {
     ((ret, ts), s) \<leftarrow> on_agm (agm_get_session_time (henv H) hndl True) s;
     Some ((ret, case_option (hjunk_time H) id ts), s)
   }"

definition ipc_agm_get_buffer_timestamp :: "hidl_env \<Rightarrow> u32 \<Rightarrow> (int \<times> u64) ipc" where
  "ipc_agm_get_buffer_timestamp H session_id s = do {
     ((ret, ts), s) \<leftarrow> on_agm (agm_get_buffer_timestamp (henv H) session_id True) s;
     Some ((ret, case_option 0 id ts), s)
   }"

text \<open>The flags \<open>DATA_BUF\<close> and \<open>POS_BUF\<close> choose the handles that travel; the others are NULL.\<close>

definition ipc_agm_session_get_buf_info ::
    "hidl_env \<Rightarrow> u32 \<Rightarrow> u32 \<Rightarrow> (int \<times> (int \<times> int) option \<times> (int \<times> int) option) ipc" where
  "ipc_agm_session_get_buf_info H session_id flag s = do {
     ((ret, bi), s) \<leftarrow> on_agm (agm_session_get_buf_info (henv H) session_id (hjunk_buf H) flag) s;
     Some ((ret, if ret = 0 \<and> and flag 1 \<noteq> 0 then Some (data_buf_fd bi, data_buf_size bi) else None,
       if ret = 0 \<and> and flag 2 \<noteq> 0 then Some (pos_buf_fd bi, pos_buf_size bi) else None), s)
   }"

end
