(* ===== verification/Agm_Hidl_Client.thy ===== *)
theory Agm_Hidl_Client
  imports Agm_Hidl_Server
begin

text \<open>
  \<open>ipc/HwBinders/agm_ipc_client/src/agm_client_wrapper.cpp\<close>: the client library, which offers the
  functions of the service in another process and forwards them to the HwBinder server. The names
  end in \<open>_cl\<close>, since those of the service are taken. The first argument is the process; its
  globals are \<open>procs s pid\<close>.

  A call through the interface pointer while the server is unknown is undefined. What HIDL does
  when the server dies during a call is not modelled.
\<close>

section \<open>The connection\<close>

definition upd_proc :: "nat \<Rightarrow> (client_proc \<Rightarrow> client_proc) \<Rightarrow> ipc_state \<Rightarrow> ipc_state" where
  "upd_proc pid f s = s\<lparr>procs := (procs s)(pid := f (procs s pid))\<rparr>"

text \<open>\<open>server_death_notifier::serviceDied\<close>.\<close>

definition serviceDied_client :: "nat \<Rightarrow> ipc_state \<Rightarrow> ipc_state" where
  "serviceDied_client pid s =
     (let s = upd_proc pid (\<lambda>c. c\<lparr>agm_server_died := True\<rparr>) s in
      case crash_notifier (procs s pid) of
        Some (Some f, cookie) \<Rightarrow> s\<lparr>icalls := Client_crash pid f cookie # icalls s\<rparr>
      | _ \<Rightarrow> s)"

text \<open>\<open>IAGM::getService\<close> is asked when there is no interface pointer yet.\<close>

definition getService :: "hidl_env \<Rightarrow> nat \<Rightarrow> bool \<times> ipc_state \<Rightarrow> bool \<times> ipc_state" where
  "getService H pid r = (let s = snd r; ok = hservice H (itick s) in
     (ok, (upd_proc pid (\<lambda>c. c\<lparr>have_client := ok\<rparr>) s)\<lparr>itick := Suc (itick s)\<rparr>))"

definition get_agm_server :: "hidl_env \<Rightarrow> nat \<Rightarrow> ipc_state \<Rightarrow> bool \<times> ipc_state" where
  "get_agm_server H pid s =
     (if have_client (procs s pid) then (True, s)
      else let (ok, s) = getService H pid (False, s) in
        if \<not> ok then (False, s)
        else (True, upd_proc pid (\<lambda>c. if crash_notifier c = None then c\<lparr>crash_notifier := Some (None, 0)\<rparr> else c) s))"

definition agm_register_service_crash_callback_cl :: "hidl_env \<Rightarrow> nat \<Rightarrow> nat option \<Rightarrow> nat \<Rightarrow> ipc_state \<Rightarrow> int \<times> ipc_state" where
  "agm_register_service_crash_callback_cl H pid cb cookie s =
     (let (ok, s) = (if have_client (procs s pid) then (True, s) else getService H pid (False, s)) in
      if \<not> ok then (0, s)
      else (0, upd_proc pid (\<lambda>c. c\<lparr>crash_notifier := Some (cb, cookie)\<rparr>) s))"

text \<open>The frame of every forwarded function.\<close>

definition forward :: "hidl_env \<Rightarrow> nat \<Rightarrow> 'a \<Rightarrow> 'a ipc \<Rightarrow> 'a ipc" where
  "forward H pid err f s =
     (if agm_server_died (procs s pid) then Some (err, s)
      else let (ok, s) = get_agm_server H pid s in if ok then f s else None)"

text \<open>A vector of \<open>n\<close> elements of which the first is written.\<close>

definition vec_one :: "nat \<Rightarrow> 'a \<Rightarrow> 'a \<Rightarrow> 'a list" where
  "vec_one n z x = x # replicate (n - 1) z"

text \<open>The number of bytes, cut to 32 bits, and as many bytes.\<close>

definition wire_size :: "u8 list \<Rightarrow> u32" where
  "wire_size bs = word_of_nat (length bs)"

definition wire_bytes :: "u8 list \<Rightarrow> u8 list" where
  "wire_bytes bs = take (unat (wire_size bs)) bs"

section \<open>The functions\<close>

definition agm_init_cl :: int where
  "agm_init_cl = 0"

definition agm_deinit_cl :: int where
  "agm_deinit_cl = 0"

definition agm_aif_set_media_config_cl :: "hidl_env \<Rightarrow> nat \<Rightarrow> u32 \<Rightarrow> agm_media_config \<Rightarrow> int ipc" where
  "agm_aif_set_media_config_cl H pid aid mc =
     forward H pid (- EINVAL) (ipc_agm_aif_set_media_config H aid (vec_one 16 zero_media_config mc))"

definition agm_session_set_config_cl ::
    "hidl_env \<Rightarrow> nat \<Rightarrow> nat option \<Rightarrow> agm_session_config \<Rightarrow> agm_media_config \<Rightarrow> agm_buffer_config \<Rightarrow> int ipc" where
  "agm_session_set_config_cl H pid handle sc mc bc =
     forward H pid (- EINVAL) (ipc_agm_session_set_config H handle (vec_one 52 zero_stream_config sc)
       (vec_one 16 zero_media_config mc) (vec_one 16 (0, 0) (bcount bc, ucast (bsize bc))))"

definition agm_aif_set_metadata_cl :: "hidl_env \<Rightarrow> nat \<Rightarrow> u32 \<Rightarrow> u8 list \<Rightarrow> int ipc" where
  "agm_aif_set_metadata_cl H pid aid metadata =
     forward H pid (- EINVAL) (ipc_agm_aif_set_metadata H aid (wire_size metadata) (wire_bytes metadata))"

definition agm_session_set_metadata_cl :: "hidl_env \<Rightarrow> nat \<Rightarrow> u32 \<Rightarrow> u8 list \<Rightarrow> int ipc" where
  "agm_session_set_metadata_cl H pid x metadata =
     forward H pid (- EINVAL) (ipc_agm_session_set_metadata H x (wire_size metadata) (wire_bytes metadata))"

definition agm_session_aif_set_metadata_cl :: "hidl_env \<Rightarrow> nat \<Rightarrow> u32 \<Rightarrow> u32 \<Rightarrow> u8 list \<Rightarrow> int ipc" where
  "agm_session_aif_set_metadata_cl H pid x aid metadata =
     forward H pid (- EINVAL) (ipc_agm_session_aif_set_metadata H x aid (wire_size metadata) (wire_bytes metadata))"

definition agm_session_close_cl :: "hidl_env \<Rightarrow> nat \<Rightarrow> nat option \<Rightarrow> int ipc" where
  "agm_session_close_cl H pid handle = forward H pid (- EINVAL) (ipc_agm_session_close H handle)"

definition agm_session_prepare_cl :: "hidl_env \<Rightarrow> nat \<Rightarrow> nat option \<Rightarrow> int ipc" where
  "agm_session_prepare_cl H pid handle = forward H pid (- EINVAL) (ipc_agm_session_prepare H handle)"

definition agm_session_start_cl :: "hidl_env \<Rightarrow> nat \<Rightarrow> nat option \<Rightarrow> int ipc" where
  "agm_session_start_cl H pid handle = forward H pid (- EINVAL) (ipc_agm_session_start H handle)"

definition agm_session_stop_cl :: "hidl_env \<Rightarrow> nat \<Rightarrow> nat option \<Rightarrow> int ipc" where
  "agm_session_stop_cl H pid handle = forward H pid (- EINVAL) (ipc_agm_session_stop H handle)"

definition agm_session_pause_cl :: "hidl_env \<Rightarrow> nat \<Rightarrow> nat option \<Rightarrow> int ipc" where
  "agm_session_pause_cl H pid handle = forward H pid (- EINVAL) (ipc_agm_session_pause H handle)"

definition agm_session_resume_cl :: "hidl_env \<Rightarrow> nat \<Rightarrow> nat option \<Rightarrow> int ipc" where
  "agm_session_resume_cl H pid handle = forward H pid (- EINVAL) (ipc_agm_session_resume H handle)"

text \<open>The second result is what was stored through \<open>handle\<close>, if anything.\<close>

definition agm_session_open_cl :: "hidl_env \<Rightarrow> nat \<Rightarrow> u32 \<Rightarrow> (int \<times> nat option option) ipc" where
  "agm_session_open_cl H pid x = forward H pid (- EINVAL, None) (\<lambda>s. do {
     ((ret, h), s) \<leftarrow> ipc_agm_session_open H pid x s; Some ((ret, Some h), s) })"

definition agm_session_aif_connect_cl :: "hidl_env \<Rightarrow> nat \<Rightarrow> u32 \<Rightarrow> u32 \<Rightarrow> bool \<Rightarrow> int ipc" where
  "agm_session_aif_connect_cl H pid x aid st = forward H pid (- EINVAL) (ipc_agm_session_aif_connect H x aid st)"

text \<open>The bytes of the reply are copied into the buffer of the client, \<open>byte_count\<close> of them.\<close>

definition agm_session_read_cl :: "hidl_env \<Rightarrow> nat \<Rightarrow> nat option \<Rightarrow> u64 \<Rightarrow> (int \<times> u8 list option \<times> u64) ipc" where
  "agm_session_read_cl H pid handle byte_count = forward H pid (- EINVAL, None, byte_count) (\<lambda>s.
     if handle = None then Some ((- EINVAL, None, byte_count), s)
     else do {
       ((ret, vec, cnt), s) \<leftarrow> ipc_agm_session_read H handle (ucast byte_count) s;
       if ret = - ENOMEM then Some ((ret, None, byte_count), s)
       else if length vec < unat byte_count then None
       else Some ((ret, Some (take (unat byte_count) vec), ucast cnt), s)
     })"

definition agm_session_write_cl :: "hidl_env \<Rightarrow> nat \<Rightarrow> nat option \<Rightarrow> u8 list \<Rightarrow> (int \<times> u64) ipc" where
  "agm_session_write_cl H pid handle buf = forward H pid (- EINVAL, word_of_nat (length buf)) (\<lambda>s.
     if handle = None then Some ((- EINVAL, word_of_nat (length buf)), s)
     else do {
       ((ret, cnt), s) \<leftarrow> ipc_agm_session_write H handle buf (wire_size buf) s;
       Some ((ret, if ret = - ENOMEM then word_of_nat (length buf) else ucast cnt), s)
     })"

definition agm_session_set_loopback_cl :: "hidl_env \<Rightarrow> nat \<Rightarrow> u32 \<Rightarrow> u32 \<Rightarrow> bool \<Rightarrow> int ipc" where
  "agm_session_set_loopback_cl H pid x y st = forward H pid (- EINVAL) (ipc_agm_session_set_loopback H x y st)"

text \<open>The \<open>int32_t\<close> of the reply becomes a \<open>size_t\<close>.\<close>

definition agm_get_hw_processed_buff_cnt_cl :: "hidl_env \<Rightarrow> nat \<Rightarrow> nat option \<Rightarrow> u64 ipc" where
  "agm_get_hw_processed_buff_cnt_cl H pid handle = forward H pid (word_of_int (- EINVAL)) (\<lambda>s. do {
     (n, s) \<leftarrow> ipc_agm_get_hw_processed_buff_cnt handle s; Some (scast n, s) })"

text \<open>
  The entries are copied into the array of the client, as many as the reply counts. \<open>strlcpy\<close> keeps
  27 characters. The number of the reply is stored.
\<close>

fun copy_aifs :: "nat \<Rightarrow> nat \<Rightarrow> aif_info list \<Rightarrow> aif_info list \<Rightarrow> aif_info list option" where
  "copy_aifs i 0 vec l = Some l"
| "copy_aifs i (Suc n) vec l =
     (if i < length vec \<and> i < length l then
        copy_aifs (Suc i) n vec (l[i := \<lparr>aif_name = take (AIF_NAME_MAX_LEN - 1) (aif_name (vec ! i)), aif_dir = aif_dir (vec ! i)\<rparr>])
      else None)"

definition agm_get_aif_info_list_cl ::
    "hidl_env \<Rightarrow> nat \<Rightarrow> aif_info list option \<Rightarrow> u64 \<Rightarrow> (int \<times> aif_info list option \<times> u64) ipc" where
  "agm_get_aif_info_list_cl H pid aif_list num = forward H pid (- EINVAL, aif_list, num) (\<lambda>s. do {
     ((ret, vec, n), s) \<leftarrow> ipc_agm_get_aif_info_list H (ucast num) s;
     if ret = - ENOMEM then Some ((ret, aif_list, num), s)
     else case aif_list of None \<Rightarrow> Some ((ret, None, ucast n), s)
     | Some l \<Rightarrow> do { l \<leftarrow> copy_aifs 0 (unat n) vec l; Some ((ret, Some l, ucast n), s) }
   })"

text \<open>\<open>payload\<close> tells whether the client passed a buffer; its result are the entries and the size.\<close>

definition agm_session_aif_get_tag_module_info_cl ::
    "hidl_env \<Rightarrow> nat \<Rightarrow> u32 \<Rightarrow> u32 \<Rightarrow> bool \<Rightarrow> u64 \<Rightarrow> (int \<times> tag_entry list option \<times> u64) ipc" where
  "agm_session_aif_get_tag_module_info_cl H pid x aid payload sz = forward H pid (- EINVAL, None, sz) (\<lambda>s. do {
     ((ret, tags, n), s) \<leftarrow> ipc_agm_session_aif_get_tag_module_info H x aid (ucast sz) s;
     if ret = - ENOMEM then Some ((ret, None, sz), s)
     else Some ((ret, if payload then Some tags else None, ucast n), s)
   })"

definition agm_session_get_params_cl :: "hidl_env \<Rightarrow> nat \<Rightarrow> u32 \<Rightarrow> u8 list \<Rightarrow> (int \<times> u8 list) ipc" where
  "agm_session_get_params_cl H pid x payload = forward H pid (- EINVAL, payload) (\<lambda>s. do {
     ((ret, vec), s) \<leftarrow> ipc_agm_session_get_params H x (wire_size payload) payload s;
     if ret \<noteq> 0 then Some ((ret, payload), s)
     else if length vec < length payload then None
     else Some ((0, take (length payload) vec), s)
   })"

definition agm_aif_set_params_cl :: "hidl_env \<Rightarrow> nat \<Rightarrow> u32 \<Rightarrow> u8 list \<Rightarrow> int ipc" where
  "agm_aif_set_params_cl H pid aid payload =
     forward H pid (- EINVAL) (ipc_agm_aif_set_params H aid (wire_bytes payload) (wire_size payload))"

definition agm_session_aif_set_params_cl :: "hidl_env \<Rightarrow> nat \<Rightarrow> u32 \<Rightarrow> u32 \<Rightarrow> u8 list \<Rightarrow> int ipc" where
  "agm_session_aif_set_params_cl H pid x aid payload =
     forward H pid (- EINVAL) (ipc_agm_session_aif_set_params H x aid (wire_bytes payload) (wire_size payload))"

definition agm_session_set_params_cl :: "hidl_env \<Rightarrow> nat \<Rightarrow> u32 \<Rightarrow> u8 list \<Rightarrow> int ipc" where
  "agm_session_set_params_cl H pid x payload =
     forward H pid (- EINVAL) (ipc_agm_session_set_params H x (wire_bytes payload) (wire_size payload))"

text \<open>The key values are written into the elements \<open>base + 8 * i\<close> of the vector.\<close>

fun put_kvs :: "nat \<Rightarrow> nat \<Rightarrow> agm_key_value list \<Rightarrow> kv_elem list \<Rightarrow> kv_elem list option" where
  "put_kvs base i [] vec = Some vec"
| "put_kvs base i (e # es) vec =
     (if base + 8 * i < length vec then put_kvs base (Suc i) es (vec[base + 8 * i := (key e, val e)])
      else None)"

definition agm_set_params_with_tag_cl :: "hidl_env \<Rightarrow> nat \<Rightarrow> u32 \<Rightarrow> u32 \<Rightarrow> agm_tag_config \<Rightarrow> int ipc" where
  "agm_set_params_with_tag_cl H pid x aid tc = forward H pid (- EINVAL) (\<lambda>s. do {
     vec \<leftarrow> put_kvs 8 0 (tc_kv tc) (vec_one (8 + 8 * length (tc_kv tc)) (0, 0) (tc_tag tc, word_of_nat (length (tc_kv tc))));
     ipc_agm_set_params_with_tag H x aid vec s
   })"

definition agm_session_aif_set_cal_cl :: "hidl_env \<Rightarrow> nat \<Rightarrow> u32 \<Rightarrow> u32 \<Rightarrow> agm_key_value list \<Rightarrow> int ipc" where
  "agm_session_aif_set_cal_cl H pid x aid cal = forward H pid (- EINVAL) (\<lambda>s. do {
     vec \<leftarrow> put_kvs 4 0 cal (vec_one (24 + 8 * length cal) (0, 0) (word_of_nat (length cal), 0));
     ipc_agm_session_aif_set_cal H x aid vec s
   })"

text \<open>The vector for the payload is never given a size, so writing a byte of it is undefined.\<close>

definition agm_session_register_for_events_cl :: "hidl_env \<Rightarrow> nat \<Rightarrow> u32 \<Rightarrow> agm_event_reg_cfg \<Rightarrow> int ipc" where
  "agm_session_register_for_events_cl H pid x cfg = forward H pid (- EINVAL) (\<lambda>s.
     if er_payload cfg \<noteq> [] then None
     else ipc_agm_session_register_for_events H x (vec_one 16 (cfg\<lparr>er_miid := 0, er_event_id := 0, er_is_register := 0\<rparr>, 0)
       (cfg, 0)) s)"

definition agm_session_set_ec_ref_cl :: "hidl_env \<Rightarrow> nat \<Rightarrow> u32 \<Rightarrow> u32 \<Rightarrow> bool \<Rightarrow> int ipc" where
  "agm_session_set_ec_ref_cl H pid x aid st = forward H pid (- EINVAL) (ipc_agm_session_set_ec_ref H x aid st)"

text \<open>A callback gets a \<open>ClntClbk\<close>, whose address is its position, counted from one; NULL is 0.\<close>

definition agm_session_register_cb_cl :: "hidl_env \<Rightarrow> nat \<Rightarrow> u32 \<Rightarrow> nat option \<Rightarrow> event_type \<Rightarrow> nat \<Rightarrow> int ipc" where
  "agm_session_register_cb_cl H pid x cb evt_type client_data = forward H pid (- EINVAL) (\<lambda>s.
     case cb of
       None \<Rightarrow> ipc_agm_session_register_callback H pid x False evt_type 0 client_data s
     | Some f \<Rightarrow> ipc_agm_session_register_callback H pid x True evt_type (Suc (length (clnt_objs (procs s pid)))) client_data
         (upd_proc pid (\<lambda>c. c\<lparr>clnt_objs := clnt_objs c @ [\<lparr>lk_session_id = x, lk_func = f, lk_event = evt_type,
           lk_clnt_data = client_data\<rparr>]\<rparr>) s))"

definition agm_session_eos_cl :: "hidl_env \<Rightarrow> nat \<Rightarrow> nat option \<Rightarrow> int ipc" where
  "agm_session_eos_cl H pid handle = forward H pid (- EINVAL) (ipc_agm_session_eos H handle)"

text \<open>The result of the server is stored in a local variable, and \<open>-EINVAL\<close> is returned.\<close>

definition agm_get_session_time_cl :: "hidl_env \<Rightarrow> nat \<Rightarrow> nat option \<Rightarrow> (int \<times> u64 option) ipc" where
  "agm_get_session_time_cl H pid handle = forward H pid (- EINVAL, None) (\<lambda>s. do {
     ((ret, ts), s) \<leftarrow> ipc_agm_get_session_time H handle s; Some ((- EINVAL, Some ts), s) })"

definition agm_get_buffer_timestamp_cl :: "hidl_env \<Rightarrow> nat \<Rightarrow> u32 \<Rightarrow> (int \<times> u64 option) ipc" where
  "agm_get_buffer_timestamp_cl H pid x = forward H pid (- EINVAL, None) (\<lambda>s. do {
     ((ret, ts), s) \<leftarrow> ipc_agm_get_buffer_timestamp H x s; Some ((ret, Some ts), s) })"

text \<open>The descriptor of the data is duplicated, that of the position is not.\<close>

definition agm_session_get_buf_info_cl ::
    "hidl_env \<Rightarrow> nat \<Rightarrow> u32 \<Rightarrow> agm_buf_info \<Rightarrow> u32 \<Rightarrow> (int \<times> agm_buf_info) ipc" where
  "agm_session_get_buf_info_cl H pid x bi flag = forward H pid (- EINVAL, bi) (\<lambda>s. do {
     ((ret, dt, ps), s) \<leftarrow> ipc_agm_session_get_buf_info H x flag s;
     let bi = (case dt of None \<Rightarrow> bi | Some (fd, n) \<Rightarrow> bi\<lparr>data_buf_fd := hdup H fd, data_buf_size := n\<rparr>);
     let bi = (case ps of None \<Rightarrow> bi | Some (fd, n) \<Rightarrow> bi\<lparr>pos_buf_fd := fd, pos_buf_size := n\<rparr>);
     Some ((ret, bi), s)
   })"

end
