(* ===== verification/Agm_Hidl_Props.thy ===== *)
theory Agm_Hidl_Props
  imports Agm_Hidl_Client Agm_Props_Session Agm_Service
begin

text \<open>
  The HwBinder transport. A request of a client that is connected has the effect on the service,
  and the return code, of the same request made in the service's process (as far as the transport
  can carry it); the server's records follow the sessions that a client opens and closes; when a
  client dies its sessions are closed and its callbacks removed, and those of the others are kept;
  an event reaches the function that the client registered.
\<close>

section \<open>What a transport shows of the service\<close>

text \<open>
  The result of a call seen by the service alone. A transport keeps the state of the service as a
  part of its own, read by \<open>svc\<close> and written by \<open>put\<close>.
\<close>

definition view :: "('s \<Rightarrow> 't) \<Rightarrow> ('a, 's) result \<Rightarrow> ('a, 't) result" where
  "view svc = map_option (\<lambda>(r, s). (r, svc s))"

lemma view_simps [simp]:
  "view svc None = None" "view svc (Some (r, s)) = Some (r, svc s)"
  by (simp_all add: view_def)

locale transport =
  fixes svc :: "'s \<Rightarrow> 't" and put :: "'t \<Rightarrow> 's \<Rightarrow> 's"
  assumes svc_put: "svc (put t s) = t"
begin

lemma view_run: "view svc (do { (r, t) \<leftarrow> m (svc s); Some (r, put t s) }) = m (svc s)"
  by (cases "m (svc s)") (auto simp: svc_put)

lemma view_run_then:
  assumes "\<And>r t. m (svc s) = Some (r, t) \<Longrightarrow> view svc (k r (put t s)) = Some (f r, t)"
  shows "view svc (do { (r, t) \<leftarrow> m (svc s); k r (put t s) }) = do { (r, t) \<leftarrow> m (svc s); Some (f r, t) }"
  using assms by (cases "m (svc s)") auto

end

interpretation hidl: transport isvc "\<lambda>t s. s\<lparr>isvc := t\<rparr>"
  by unfold_locales simp

lemma view_on_agm [simp]: "view isvc (on_agm m s) = m (isvc s)"
  unfolding on_agm_def by (rule hidl.view_run)

lemma view_on_agm_then:
  fixes k :: "'a \<times> ipc_state \<Rightarrow> (int, ipc_state) result"
  assumes "\<And>r t. m (isvc s) = Some (r, t) \<Longrightarrow> view isvc (k (r, s\<lparr>isvc := t\<rparr>)) = Some (f r, t)"
  shows "view isvc (on_agm m s \<bind> k) = code_of f m (isvc s)"
proof -
  have "view isvc (do { (r, t) \<leftarrow> m (isvc s); k (r, s\<lparr>isvc := t\<rparr>) }) = do { (r, t) \<leftarrow> m (isvc s); Some (f r, t) }"
    using hidl.view_run_then [of m s "\<lambda>r s. k (r, s)" f] assms by simp
  moreover have "on_agm m s \<bind> k = do { (r, t) \<leftarrow> m (isvc s); k (r, s\<lparr>isvc := t\<rparr>) }"
    by (cases "m (isvc s)") (auto simp: on_agm_def)
  ultimately show ?thesis by (simp add: code_of_def)
qed

section \<open>A connected client\<close>

definition connected :: "hidl_env \<Rightarrow> nat \<Rightarrow> ipc_state \<Rightarrow> bool" where
  "connected H pid s \<longleftrightarrow> \<not> agm_server_died (procs s pid) \<and> (have_client (procs s pid) \<or> hservice H (itick s))"

definition memory_ok :: "hidl_env \<Rightarrow> bool" where
  "memory_ok H \<longleftrightarrow> (\<forall>n. halloc H n)"

text \<open>The state in which the forwarded call runs.\<close>

definition reach :: "hidl_env \<Rightarrow> nat \<Rightarrow> ipc_state \<Rightarrow> ipc_state" where
  "reach H pid s = snd (get_agm_server H pid s)"

lemma forward_connected: "connected H pid s \<Longrightarrow> forward H pid err f s = f (reach H pid s)"
  by (auto simp: connected_def forward_def reach_def get_agm_server_def getService_def)

lemma reach_frame [simp]:
  "isvc (reach H pid s) = isvc s" "client_list (reach H pid s) = client_list s"
  "clbk_data_list (reach H pid s) = clbk_data_list s" "srvr_objs (reach H pid s) = srvr_objs s"
  "linked (reach H pid s) = linked s" "icalls (reach H pid s) = icalls s"
  "clnt_objs (procs (reach H pid s) q) = clnt_objs (procs s q)"
  by (auto simp: reach_def get_agm_server_def getService_def upd_proc_def Let_def)

lemma alloc_succeeds: "memory_ok H \<Longrightarrow> ipc_alloc H s = (True, s\<lparr>itick := Suc (itick s)\<rparr>)"
  by (simp add: memory_ok_def ipc_alloc_def)

section \<open>Arguments on the wire\<close>

lemma wire_size_exact: "length bs < 2 ^ 32 \<Longrightarrow> unat (wire_size bs) = length bs"
  by (simp add: wire_size_def unat_of_nat)

lemma wire_bytes_exact: "length bs < 2 ^ 32 \<Longrightarrow> wire_bytes bs = bs"
  by (simp add: wire_bytes_def wire_size_exact)

lemma copy_exact:
  "memory_ok H \<Longrightarrow> length bs < 2 ^ 32 \<Longrightarrow>
    ipc_copy H (wire_size bs) bs s = Some (Some bs, s\<lparr>itick := Suc (itick s)\<rparr>)"
  by (simp add: ipc_copy_def alloc_succeeds wire_size_exact)

lemma with_copy_exact:
  "memory_ok H \<Longrightarrow> length bs < 2 ^ 32 \<Longrightarrow>
    view isvc (ipc_with_copy H (wire_size bs) bs f s) = f bs (isvc s)"
  by (simp add: ipc_with_copy_def copy_exact)

lemma vec_data_one [simp]: "vec_data (vec_one n z x) = Some x"
  by (simp add: vec_data_def vec_one_def)

text \<open>The key values, written by the client and read by the server at the same positions.\<close>

lemma put_kvs_spec:
  assumes "base + 8 * (i + length es) \<le> length vec"
  shows "\<exists>vec'. put_kvs base i es vec = Some vec' \<and> length vec' = length vec
    \<and> (\<forall>j < base + 8 * i. vec' ! j = vec ! j) \<and> get_kvs base vec' i (length es) = Some es"
  using assms
proof (induction es arbitrary: i vec)
  case (Cons e es)
  let ?vec = "vec[base + 8 * i := (key e, val e)]"
  obtain vec' where vec': "put_kvs base (Suc i) es ?vec = Some vec'" "length vec' = length ?vec"
      "\<forall>j < base + 8 * Suc i. vec' ! j = ?vec ! j" "get_kvs base vec' (Suc i) (length es) = Some es"
    using Cons.IH [of "Suc i" ?vec] Cons.prems by auto
  then have "vec' ! (base + 8 * i) = (key e, val e)" using Cons.prems by simp
  with vec' Cons.prems show ?case by simp
qed simp

lemma kvs_travel:
  assumes "0 < base" "base + 8 * length es \<le> n"
  shows "\<exists>vec. put_kvs base 0 es (vec_one n z x) = Some vec \<and> vec_data vec = Some x
    \<and> get_kvs base vec 0 (length es) = Some es"
proof -
  have n: "length (vec_one n z x) = n" using assms by (simp add: vec_one_def)
  then obtain vec where vec: "put_kvs base 0 es (vec_one n z x) = Some vec" "length vec = n" "vec ! 0 = x"
      "get_kvs base vec 0 (length es) = Some es"
    using put_kvs_spec [of base 0 es "vec_one n z x"] assms by (auto simp: vec_one_def)
  moreover have "vec_data vec = Some x" using vec(2,3) assms by (cases vec) (auto simp: vec_data_def)
  ultimately show ?thesis by blast
qed

section \<open>A request through the transport\<close>

text \<open>
  The functions of the client library as requests, with their return code. \<open>None\<close> for the arguments
  that the library dereferences although they are NULL, and for what a client cannot ask for.
\<close>

definition ipc_code :: "('a \<Rightarrow> int) \<Rightarrow> 'a ipc \<Rightarrow> int ipc" where
  "ipc_code f m s = do { (r, s) \<leftarrow> m s; Some (f r, s) }"

fun hidl_serve :: "hidl_env \<Rightarrow> nat \<Rightarrow> request \<Rightarrow> int ipc" where
  "hidl_serve H pid (Aif_set_metadata a m) = agm_aif_set_metadata_cl H pid a m"
| "hidl_serve H pid (Aif_set_media_config a c) =
     (case c of None \<Rightarrow> (\<lambda>s. None) | Some mc \<Rightarrow> agm_aif_set_media_config_cl H pid a mc)"
| "hidl_serve H pid (Aif_set_params a m) = agm_aif_set_params_cl H pid a m"
| "hidl_serve H pid (Session_set_metadata x m) = agm_session_set_metadata_cl H pid x m"
| "hidl_serve H pid (Session_aif_set_metadata x a m) = agm_session_aif_set_metadata_cl H pid x a m"
| "hidl_serve H pid (Session_aif_get_tag_module_info x a b) =
     ipc_code fst (agm_session_aif_get_tag_module_info_cl H pid x a b 0)"
| "hidl_serve H pid (Session_aif_set_cal x a c) = agm_session_aif_set_cal_cl H pid x a c"
| "hidl_serve H pid (Session_aif_set_params x a m) = agm_session_aif_set_params_cl H pid x a m"
| "hidl_serve H pid (Session_get_params x m) = ipc_code fst (agm_session_get_params_cl H pid x m)"
| "hidl_serve H pid (Session_set_params x m) = agm_session_set_params_cl H pid x m"
| "hidl_serve H pid (Set_params_with_tag x a c) = agm_set_params_with_tag_cl H pid x a c"
| "hidl_serve H pid (Session_register_cb x cb t d) = agm_session_register_cb_cl H pid x cb t d"
| "hidl_serve H pid (Session_register_for_events x c) =
     (case c of None \<Rightarrow> (\<lambda>s. None) | Some cfg \<Rightarrow> agm_session_register_for_events_cl H pid x cfg)"
| "hidl_serve H pid (Session_aif_connect x a b) = agm_session_aif_connect_cl H pid x a b"
| "hidl_serve H pid (Session_set_loopback x y b) = agm_session_set_loopback_cl H pid x y b"
| "hidl_serve H pid (Session_set_ec_ref x a b) = agm_session_set_ec_ref_cl H pid x a b"
| "hidl_serve H pid (Session_get_buf_info x i f) = ipc_code fst (agm_session_get_buf_info_cl H pid x i f)"
| "hidl_serve H pid (Get_buffer_timestamp x b) =
     (if b then ipc_code fst (agm_get_buffer_timestamp_cl H pid x) else (\<lambda>s. None))"
| "hidl_serve H pid (Session_open x b) =
     (if b then ipc_code fst (agm_session_open_cl H pid x) else (\<lambda>s. None))"
| "hidl_serve H pid (Session_set_config h sc mc bc) = agm_session_set_config_cl H pid h sc mc bc"
| "hidl_serve H pid (Session_prepare h) = agm_session_prepare_cl H pid h"
| "hidl_serve H pid (Session_start h) = agm_session_start_cl H pid h"
| "hidl_serve H pid (Session_stop h) = agm_session_stop_cl H pid h"
| "hidl_serve H pid (Session_close h) = agm_session_close_cl H pid h"
| "hidl_serve H pid (Session_pause h) = agm_session_pause_cl H pid h"
| "hidl_serve H pid (Session_resume h) = agm_session_resume_cl H pid h"
| "hidl_serve H pid (Session_write h bs) = ipc_code fst (agm_session_write_cl H pid h bs)"
| "hidl_serve H pid (Session_read h n) = ipc_code fst (agm_session_read_cl H pid h (word_of_nat n))"
| "hidl_serve H pid (Session_eos h) = agm_session_eos_cl H pid h"
| "hidl_serve H pid (Get_session_time h b) =
     (if b then ipc_code fst (agm_get_session_time_cl H pid h) else (\<lambda>s. None))"
| "hidl_serve H pid (Graph_event ev c) = (\<lambda>s. None)"

text \<open>
  What the transport carries without loss: lengths and sizes of 32 bits, an event registration
  without payload, a query of the tags without a buffer, pointers that are not NULL. A callback
  is registered under an object of the server, so it is left to a property of its own, and the
  first close comes after the first open.
\<close>

definition travels :: "ipc_state \<Rightarrow> request \<Rightarrow> bool" where
  "travels s q \<longleftrightarrow> (case q of
       Aif_set_metadata a m \<Rightarrow> length m < 2 ^ 32
     | Aif_set_media_config a c \<Rightarrow> c \<noteq> None
     | Aif_set_params a m \<Rightarrow> length m < 2 ^ 32
     | Session_set_metadata x m \<Rightarrow> length m < 2 ^ 32
     | Session_aif_set_metadata x a m \<Rightarrow> length m < 2 ^ 32
     | Session_aif_get_tag_module_info x a b \<Rightarrow> \<not> b
     | Session_aif_set_cal x a c \<Rightarrow> length c < 2 ^ 32
     | Session_aif_set_params x a m \<Rightarrow> length m < 2 ^ 32
     | Session_get_params x m \<Rightarrow> length m < 2 ^ 32
     | Session_set_params x m \<Rightarrow> length m < 2 ^ 32
     | Set_params_with_tag x a c \<Rightarrow> length (tc_kv c) < 2 ^ 32
     | Session_register_cb x cb t d \<Rightarrow> False
     | Session_register_for_events x c \<Rightarrow> (case c of None \<Rightarrow> False | Some cfg \<Rightarrow> er_payload cfg = [])
     | Get_buffer_timestamp x b \<Rightarrow> b
     | Session_open x b \<Rightarrow> b
     | Session_set_config h sc mc bc \<Rightarrow> unat (bsize bc) < 2 ^ 32
     | Session_close h \<Rightarrow> client_list s \<noteq> None
     | Session_write h bs \<Rightarrow> length bs < 2 ^ 32
     | Session_read h n \<Rightarrow> n < 2 ^ 32
     | Get_session_time h b \<Rightarrow> b
     | Graph_event ev c \<Rightarrow> False
     | _ \<Rightarrow> True)"

text \<open>
  The code is that of the service, except that the client library returns \<open>-EINVAL\<close> for every
  query of the session time.
\<close>

definition hidl_code :: "request \<Rightarrow> int \<Rightarrow> int" where
  "hidl_code q r = (case q of Get_session_time h b \<Rightarrow> - EINVAL | _ \<Rightarrow> r)"

text \<open>GSL fills the buffer of a query completely, and of a read at most.\<close>

definition gsl_fills :: "env \<Rightarrow> bool" where
  "gsl_fills E \<longleftrightarrow> (\<forall>h g p n. length (rbytes (ext E h (Gsl_get_custom_config g p n))) = n)
     \<and> (\<forall>h g ep n. length (rbytes (ext E h (Gsl_read g ep n))) \<le> n)"

section \<open>Requests with a result\<close>

lemma ipc_code_forward:
  "connected H pid s \<Longrightarrow> ipc_code f (forward H pid err g) s = do { (r, s) \<leftarrow> g (reach H pid s); Some (f r, s) }"
  by (simp add: ipc_code_def forward_connected)

lemma get_params_length:
  "gsl_fills E \<Longrightarrow> agm_session_get_params E x payload t = Some ((ret, bs), t') \<Longrightarrow> length bs = length payload"
  by (auto simp: gsl_fills_def agm_session_get_params_def with_session_def session_obj_get_sess_params_def
      graph_get_config_def xcall_def split: if_splits option.splits bind_splits)

lemma read_length:
  "gsl_fills E \<Longrightarrow> agm_session_read E h n t = Some ((ret, cnt, bs), t') \<Longrightarrow> length bs \<le> n"
  by (auto simp: gsl_fills_def agm_session_read_def with_handle_def session_obj_read_def graph_read_def
      xcall_def split: if_splits option.splits bind_splits)

text \<open>The code of a query of the buffers does not depend on what the struct held before.\<close>

definition same_code :: "(int \<times> 'a, 's) result \<Rightarrow> (int \<times> 'b, 's) result \<Rightarrow> bool" where
  "same_code x y \<longleftrightarrow> map_option (\<lambda>(r, s). (fst r, s)) x = map_option (\<lambda>(r, s). (fst r, s)) y"

lemma same_code_simps [simp]:
  "same_code None None" "same_code (Some ((r, b), s)) (Some ((r, b'), s))"
  by (simp_all add: same_code_def)

lemma same_code_bind:
  assumes "same_code x y" "\<And>r b b' s. same_code (f ((r, b), s)) (g ((r, b'), s))"
  shows "same_code (x \<bind> f) (y \<bind> g)"
  using assms by (cases x; cases y) (auto simp: same_code_def)

lemma same_code_same: "(\<And>a. same_code (f a) (g a)) \<Longrightarrow> same_code (x \<bind> f) (x \<bind> g)"
  by (cases x) auto

lemma same_code_code: "same_code (m t) (m' t) \<Longrightarrow> code_of fst m t = code_of fst m' t"
  by (cases "m t"; cases "m' t") (auto simp: same_code_def code_of_def)

lemma fill_buf_info_code: "same_code (graph_fill_buf_info E g bi c b s) (graph_fill_buf_info E g bi' c b s)"
  by (auto simp: graph_fill_buf_info_def xcall_def Let_def split: option.splits bind_splits)

lemma buf_info_code:
  "same_code (agm_session_get_buf_info E x bi f t) (agm_session_get_buf_info E x bi' f t)"
  by (auto simp: agm_session_get_buf_info_def with_session_def session_obj_get_sess_buf_info_def
      graph_get_buf_info_def Let_def fill_buf_info_code intro!: same_code_bind [OF fill_buf_info_code] same_code_same)

lemmas client_calls = agm_aif_set_metadata_cl_def agm_aif_set_params_cl_def agm_session_set_metadata_cl_def
  agm_session_aif_set_metadata_cl_def agm_session_aif_set_params_cl_def agm_session_set_params_cl_def
  agm_aif_set_media_config_cl_def agm_session_set_config_cl_def agm_session_register_for_events_cl_def
  agm_session_aif_connect_cl_def agm_session_set_loopback_cl_def agm_session_set_ec_ref_cl_def
  agm_session_prepare_cl_def agm_session_start_cl_def agm_session_stop_cl_def agm_session_close_cl_def
  agm_session_pause_cl_def agm_session_resume_cl_def agm_session_eos_cl_def

lemmas plain_handlers = ipc_agm_aif_set_metadata_def ipc_agm_aif_set_params_def ipc_agm_session_set_metadata_def
  ipc_agm_session_aif_set_metadata_def ipc_agm_session_aif_set_params_def ipc_agm_session_set_params_def
  ipc_agm_session_aif_connect_def ipc_agm_session_set_loopback_def ipc_agm_session_set_ec_ref_def
  ipc_agm_session_prepare_def ipc_agm_session_start_def ipc_agm_session_stop_def
  ipc_agm_session_pause_def ipc_agm_session_resume_def ipc_agm_session_eos_def

lemmas simple_calls = client_calls plain_handlers ipc_agm_aif_set_media_config_def ipc_agm_session_set_config_def
  ipc_agm_session_register_for_events_def ipc_agm_session_close_def

lemma view_kvs:
  assumes "connected H pid s" "memory_ok H"
  shows "length cal < 2 ^ 32 \<Longrightarrow>
      view isvc (agm_session_aif_set_cal_cl H pid x a cal s) = agm_session_aif_set_cal (henv H) x a cal (isvc s)"
    and "length (tc_kv tc) < 2 ^ 32 \<Longrightarrow>
      view isvc (agm_set_params_with_tag_cl H pid x a tc s) = agm_set_params_with_tag (henv H) x a tc (isvc s)"
proof -
  assume n: "length cal < 2 ^ 32"
  obtain vec where "put_kvs 4 0 cal (vec_one (24 + 8 * length cal) (0, 0) (word_of_nat (length cal), 0)) = Some vec"
      "vec_data vec = Some (word_of_nat (length cal), 0)" "get_kvs 4 vec 0 (length cal) = Some cal"
    using kvs_travel [of 4 cal "24 + 8 * length cal" "(0, 0)" "(word_of_nat (length cal), 0)"] by auto
  with assms n show "view isvc (agm_session_aif_set_cal_cl H pid x a cal s) = agm_session_aif_set_cal (henv H) x a cal (isvc s)"
    by (simp add: agm_session_aif_set_cal_cl_def forward_connected ipc_agm_session_aif_set_cal_def alloc_succeeds unat_of_nat)
next
  assume n: "length (tc_kv tc) < 2 ^ 32"
  let ?n = "length (tc_kv tc)"
  obtain vec where "put_kvs 8 0 (tc_kv tc) (vec_one (8 + 8 * ?n) (0, 0) (tc_tag tc, word_of_nat ?n)) = Some vec"
      "vec_data vec = Some (tc_tag tc, word_of_nat ?n)" "get_kvs 8 vec 0 ?n = Some (tc_kv tc)"
    using kvs_travel [of 8 "tc_kv tc" "8 + 8 * ?n" "(0, 0)" "(tc_tag tc, word_of_nat ?n)"] by auto
  with assms n show "view isvc (agm_set_params_with_tag_cl H pid x a tc s) = agm_set_params_with_tag (henv H) x a tc (isvc s)"
    by (cases tc) (simp add: agm_set_params_with_tag_cl_def forward_connected ipc_agm_set_params_with_tag_def alloc_succeeds unat_of_nat)
qed

lemma view_get_params:
  assumes "connected H pid s" "memory_ok H" "gsl_fills (henv H)" "length m < 2 ^ 32"
  shows "view isvc (hidl_serve H pid (Session_get_params x m) s) = serve (henv H) (Session_get_params x m) (isvc s)"
  using assms get_params_length [OF assms(3)]
  by (auto simp: agm_session_get_params_cl_def ipc_code_forward ipc_agm_session_get_params_def copy_exact
      wire_size_exact on_agm_def code_of_def split: bind_splits)

lemma view_read:
  assumes "connected H pid s" "memory_ok H" "gsl_fills (henv H)" "n < 2 ^ 32"
  shows "view isvc (hidl_serve H pid (Session_read h n) s) = serve (henv H) (Session_read h n) (isvc s)"
proof -
  have n: "unat (word_of_nat n :: u32) = n" "unat (word_of_nat n :: u64) = n"
      "ucast (word_of_nat n :: u64) = (word_of_nat n :: u32)"
    using assms(4) by (simp_all add: unat_of_nat unsigned_ucast_eq word_unat_eq_iff take_bit_nat_eq_self)
  show ?thesis
    using assms(1,2)
    by (auto dest: read_length [OF assms(3)] simp: agm_session_read_cl_def ipc_code_forward ipc_agm_session_read_def alloc_succeeds n
        on_agm_def code_of_def agm_session_read_def [of _ None] with_handle_def [of None] split: bind_splits)
qed

lemma view_write:
  assumes "connected H pid s" "memory_ok H" "length bs < 2 ^ 32"
  shows "view isvc (hidl_serve H pid (Session_write h bs) s) = serve (henv H) (Session_write h bs) (isvc s)"
  using assms
  by (auto simp: agm_session_write_cl_def ipc_code_forward ipc_agm_session_write_def copy_exact
      on_agm_def code_of_def agm_session_write_def [of _ None] with_handle_def [of None] split: bind_splits)

lemma view_buf_info:
  assumes "connected H pid s"
  shows "view isvc (hidl_serve H pid (Session_get_buf_info x i f) s)
    = serve (henv H) (Session_get_buf_info x i f) (isvc s)"
proof -
  have "view isvc (hidl_serve H pid (Session_get_buf_info x i f) s)
      = code_of fst (agm_session_get_buf_info (henv H) x (hjunk_buf H) f) (isvc s)"
    using assms by (auto simp: agm_session_get_buf_info_cl_def ipc_code_forward ipc_agm_session_get_buf_info_def Let_def
        on_agm_def code_of_def split: bind_splits)
  also have "\<dots> = code_of fst (agm_session_get_buf_info (henv H) x i f) (isvc s)"
    by (rule same_code_code) (rule buf_info_code)
  finally show ?thesis by simp
qed

lemma isvc_add_handle [simp]: "isvc (add_handle_to_list H pid h s) = isvc s"
  by (simp add: add_handle_to_list_def ipc_alloc_def Let_def split: option.split)

lemma view_queries:
  assumes "connected H pid s"
  shows "view isvc (hidl_serve H pid (Session_aif_get_tag_module_info x a False) s)
      = serve (henv H) (Session_aif_get_tag_module_info x a False) (isvc s)"
    and "view isvc (hidl_serve H pid (Get_buffer_timestamp x True) s)
      = serve (henv H) (Get_buffer_timestamp x True) (isvc s)"
    and "view isvc (hidl_serve H pid (Session_open x True) s) = serve (henv H) (Session_open x True) (isvc s)"
    and "view isvc (hidl_serve H pid (Get_session_time h True) s)
      = map_option (\<lambda>(r, t). (- EINVAL, t)) (serve (henv H) (Get_session_time h True) (isvc s))"
  using assms
  by (auto simp: agm_session_aif_get_tag_module_info_cl_def ipc_agm_session_aif_get_tag_module_info_def
      agm_get_buffer_timestamp_cl_def ipc_agm_get_buffer_timestamp_def agm_session_open_cl_def ipc_agm_session_open_def
      agm_get_session_time_cl_def ipc_agm_get_session_time_def ipc_code_forward on_agm_def code_of_def Let_def
      split: bind_splits)

text \<open>Arguments that are copied field by field.\<close>

lemma config_exact:
  "unat (bsize bc) < 2 ^ 32 \<Longrightarrow> \<lparr>bcount = bcount bc, bsize = ucast (ucast (bsize bc) :: u32)\<rparr> = bc"
  by (cases bc) (simp add: word_unat_eq_iff unsigned_ucast_eq unsigned_take_bit_eq take_bit_nat_eq_self)

lemma view_options:
  assumes "connected H pid s" "memory_ok H"
  shows "c \<noteq> None \<Longrightarrow> view isvc (hidl_serve H pid (Aif_set_media_config a c) s)
      = serve (henv H) (Aif_set_media_config a c) (isvc s)"
    and "ev = Some cfg \<Longrightarrow> er_payload cfg = [] \<Longrightarrow> view isvc (hidl_serve H pid (Session_register_for_events x ev) s)
      = serve (henv H) (Session_register_for_events x ev) (isvc s)"
    and "client_list s \<noteq> None \<Longrightarrow> view isvc (hidl_serve H pid (Session_close h) s)
      = serve (henv H) (Session_close h) (isvc s)"
  using assms by (cases cfg; auto simp: simple_calls forward_connected alloc_succeeds)+

text \<open>
  C5: the HwBinder transport is transparent. A request that a connected client makes through the
  client library, and that the transport can carry, leaves the service in the state in which the
  same request made directly leaves it, and returns the same code; only the query of the session
  time returns \<open>-EINVAL\<close> whatever the service says. It is assumed that the server has memory and
  that GSL fills no more than the buffer that it is given.
\<close>

theorem hidl_transparent:
  assumes "connected H pid s" "memory_ok H" "gsl_fills (henv H)" "travels s q"
  shows "view isvc (hidl_serve H pid q s)
    = map_option (\<lambda>(r, t). (hidl_code q r, t)) (serve (henv H) q (isvc s))"
proof -
  note hidl_serve.simps [simp del] serve.simps [simp del]
  note [simp] = view_queries [OF assms(1)] view_buf_info [OF assms(1)] view_options [OF assms(1,2)]
    view_get_params [OF assms(1-3)] view_read [OF assms(1-3)] view_write [OF assms(1,2)] view_kvs [OF assms(1,2)]
  note plain = hidl_serve.simps serve.simps simple_calls forward_connected [OF assms(1)] wire_bytes_exact
    with_copy_exact [OF assms(2)] alloc_succeeds [OF assms(2)] config_exact
  show ?thesis
    using assms(4)
    by (cases q) (auto simp: travels_def hidl_code_def option.map_id split: option.splits; simp add: plain; fail)+
qed

text \<open>A server with memory, whose GSL fills the buffer of a query.\<close>

definition fill_env :: env where
  "fill_env = sample_env\<lparr>ext := (\<lambda>h c. (ext sample_env h c)\<lparr>rbytes :=
     (case c of Gsl_get_custom_config g p n \<Rightarrow> replicate n 0 | _ \<Rightarrow> [])\<rparr>)\<rparr>"

definition sample_hidl :: hidl_env where
  "sample_hidl = \<lparr>henv = fill_env, halloc = (\<lambda>n. True), hservice = (\<lambda>n. True), hcb = 5, hjunk_handle = None,
     hjunk_time = 0, hjunk_buf = \<lparr>data_buf_fd = 0, data_buf_size = 0, pos_buf_fd = 0, pos_buf_size = 0\<rparr>,
     hdup = (\<lambda>fd. fd + 100)\<rparr>"

definition sample_ipc :: "agm_state \<Rightarrow> ipc_state" where
  "sample_ipc t = \<lparr>isvc = t, client_list = None, clbk_data_list = None, srvr_objs = [], linked = [],
     procs = (\<lambda>pid. \<lparr>agm_server_died = False, have_client = False, crash_notifier = None, clnt_objs = []\<rparr>),
     icalls = [], itick = 0\<rparr>"

lemma fill_env_simps [simp]:
  "rc (ext fill_env h c) = (case c of Pcm_is_ready p \<Rightarrow> 1 | _ \<Rightarrow> 0)" "rptr (ext fill_env h c) = Some 1"
  "gsl_fills fill_env" "konst fill_env k = konst sample_env k"
  by (simp_all add: fill_env_def gsl_fills_def)

lemma sample_hidl_simps [simp]:
  "henv sample_hidl = fill_env" "memory_ok sample_hidl" "connected sample_hidl pid (sample_ipc t)" "isvc (sample_ipc t) = t"
  by (simp_all add: sample_hidl_def memory_ok_def connected_def sample_ipc_def)

theorem hidl_transparent_witness:
  "\<exists>t. view isvc (hidl_serve sample_hidl 7 (Session_stop (Some 0))
      (sample_ipc (sample_run SESSION_STARTED AIF_STARTED DEV_STARTED STARTED))) = Some (0, t)
    \<and> sess_at t 0 = Some (sample_session SESSION_STOPPED AIF_STOPPED)"
proof -
  let ?s = "sample_run SESSION_STARTED AIF_STARTED DEV_STARTED STARTED"
  have "\<exists>t. serve fill_env (Session_stop (Some 0)) ?s = Some (0, t) \<and> sess_at t 0 = Some (sample_session SESSION_STOPPED AIF_STOPPED)"
    by (simp add: agm_session_stop_def with_handle_def session_obj_stop_def session_stop_def run_session aif_stop_def
        device_stop_def graph_stop_def xcall_def Let_def update_sysfs_fd_def unfold_sample)
  then show ?thesis
    using hidl_transparent [of sample_hidl 7 "sample_ipc ?s" "Session_stop (Some 0)"]
    by (auto simp: travels_def hidl_code_def option.map_id)
qed

end
