(* ===== verification/Agm_Hidl_Death.thy ===== *)
theory Agm_Hidl_Death
  imports Agm_Hidl_Props
begin

text \<open>
  The records of the HwBinder server. The list of clients refines a ledger, a set of pairs of a
  client and a session handle; when a client dies, exactly the sessions that the ledger has for it
  are closed and exactly its callbacks are removed; an event for a registered callback reaches the
  function and the data of the client that registered it.
\<close>

section \<open>What a close and an unregistration do to the other sessions\<close>

lemma is_sess_put_other: "q \<noteq> p \<Longrightarrow> is_sess q so s \<Longrightarrow> is_sess q so (put_sess p so' s)"
  by (auto simp: sess_at_def put_sess_def split: option.splits)

lemma is_sess_set_other:
  assumes "q \<noteq> p" "is_sess q so s"
  shows "set_aif_state p i st s = Some s' \<Longrightarrow> is_sess q so s'"
    and "set_sess_state p t s = Some s' \<Longrightarrow> is_sess q so s'"
  using assms by (auto simp: set_aif_state_def set_sess_state_def put_aif_def is_sess_put_other
      split: bind_splits option.splits)

lemma session_close_other:
  assumes "q \<noteq> p" "is_sess q so s"
  shows "posts (session_close E p s) (\<lambda>r s'. is_sess q so s')"
proof -
  have "posts (aif_close E p i s) (\<lambda>r s'. is_sess q so s')" if "is_sess q so s" for i s
    unfolding aif_close_def
    by (insert assms(1) that) (assumption | erule is_sess_set_other [rotated 2] | rule is_sess_steps)+
  note loop = each_ret_inv [where I = "is_sess q so" and f = "aif_close E p", OF this]
  show ?thesis
    unfolding session_close_def
    by (insert assms) (assumption | erule is_sess_set_other [rotated 2] | rule loop is_sess_put_other is_sess_steps)+
qed

text \<open>A session as a close leaves it, and without the callback of a record.\<close>

definition closed_session :: "session_obj \<Rightarrow> session_obj" where
  "closed_session so = (if s_state so = SESSION_CLOSED then so
     else so\<lparr>graph := None, aif_pool := map closed_aif (aif_pool so), s_state := SESSION_CLOSED\<rparr>)"

definition without_cb :: "u32 \<Rightarrow> event_type \<Rightarrow> nat \<Rightarrow> session_obj \<Rightarrow> session_obj" where
  "without_cb x ev d so = (if sess_id so \<noteq> x then so
     else so\<lparr>cb_pool := filter (\<lambda>c. \<not> (cb_evt_type c = ev \<and> cb_client_data c = d)) (cb_pool so)\<rparr>)"

definition drop_cb :: "srvr_clbk list \<Rightarrow> clbk_data \<Rightarrow> session_obj \<Rightarrow> session_obj" where
  "drop_cb objs k = without_cb (sk_session_id (objs ! kd_srv k)) (sk_event (objs ! kd_srv k)) (kd_srv k)"

lemma closed_session_idem [simp]: "closed_session (closed_session so) = closed_session so"
  by (simp add: closed_session_def)

lemma session_close_all:
  assumes "is_sess q so s" "agm_session_close E (Some p) s = Some (r, s')"
  shows "is_sess q (if q = p then closed_session so else so) s'"
  using assms session_close_posts [of s p so E] session_close_other [of q p s so E]
  by (auto simp: agm_session_close_def with_handle_def session_obj_close_def posts_def close_post_def closed_session_def)

lemma ids_distinct_put:
  assumes "ids_distinct s" "is_sess p so s" "sess_id so' = sess_id so"
  shows "ids_distinct (put_sess p so' s)"
proof -
  obtain xs where xs: "sess_pool s = Some xs" "p < length xs" "so = xs ! p"
    using assms(2) by (auto simp: sess_at_def split: option.splits if_splits)
  have "map sess_id (xs[p := so']) = (map sess_id xs)[p := map sess_id xs ! p]"
    using xs assms(3) by (simp add: map_update)
  then have "map sess_id (xs[p := so']) = map sess_id xs" by (simp only: list_update_id)
  with xs(1) assms(1) show ?thesis by (simp add: ids_distinct_def put_sess_def)
qed

lemma ids_distinctD:
  "ids_distinct s \<Longrightarrow> is_sess p so s \<Longrightarrow> is_sess q so' s \<Longrightarrow> sess_id so = sess_id so' \<Longrightarrow> p = q"
  by (auto simp: ids_distinct_def sess_at_def distinct_conv_nth split: option.splits if_splits)

lemma session_get_succeeds: "alloc_ok E \<Longrightarrow> session_obj_get E x t = Some ((r, pp), t') \<Longrightarrow> \<exists>p. pp = Some p \<and> r = 0"
  by (auto simp: session_obj_get_def session_obj_get_from_pool_def session_obj_create_def calloc_def alloc_okD
      split: bind_splits option.splits if_splits)

definition new_cbs :: "nat option \<Rightarrow> event_type \<Rightarrow> nat \<Rightarrow> session_cb list \<Rightarrow> session_cb list" where
  "new_cbs cb ev d cbs = (case cb of Some f \<Rightarrow> cbs @ [\<lparr>cb_fn = f, cb_evt_type = ev, cb_client_data = d\<rparr>]
     | None \<Rightarrow> filter (\<lambda>c. \<not> (cb_evt_type c = ev \<and> cb_client_data c = d)) cbs)"

lemma register_cb_frame:
  assumes "alloc_ok E" "agm_session_register_cb E x cb ev d t = Some (r, t')" "ids_distinct t"
  obtains p so where "r = 0" "ids_distinct t'" "sess_id so = x" "is_sess p (so\<lparr>cb_pool := new_cbs cb ev d (cb_pool so)\<rparr>) t'"
    "\<And>q so'. is_sess q so' t \<Longrightarrow> if sess_id so' = x then q = p \<and> so' = so else is_sess q so' t'"
proof -
  from assms(2) obtain r1 pp t1 where get: "session_obj_get E x t = Some ((r1, pp), t1)"
    by (auto simp: agm_session_register_cb_def with_session_def split: bind_splits)
  with session_get_succeeds [OF assms(1) get] obtain p where p: "r1 = 0" "pp = Some p" by blast
  from session_obj_get_spec [OF get] p assms(3) obtain so where so: "is_sess p so t1" "sess_id so = x"
      and old: "\<And>q so'. is_sess q so' t \<Longrightarrow> is_sess q so' t1" and ids: "ids_distinct t1" by auto
  let ?so = "so\<lparr>cb_pool := new_cbs cb ev d (cb_pool so)\<rparr>"
  have t': "r = 0" "t' = put_sess p ?so (t1\<lparr>trace := Calloc 1 40 # trace t1\<rparr>)"
    using assms(2) get p so alloc_okD [OF assms(1)]
    by (auto simp: agm_session_register_cb_def with_session_def session_obj_register_cb_def calloc_def new_cbs_def
        split: option.splits)
  have pool: "is_sess q so' (t1\<lparr>trace := h\<rparr>) = is_sess q so' t1" "ids_distinct (t1\<lparr>trace := h\<rparr>) = ids_distinct t1" for q so' h
    by (simp_all add: sess_at_def ids_distinct_def)
  show thesis
  proof
    show "ids_distinct t'" unfolding t' using so ids by (intro ids_distinct_put [where so = so]) (auto simp: pool)
    show "is_sess p ?so t'" unfolding t' using so by (subst sess_at_put_sess) (simp_all add: pool)
    fix q so' assume "is_sess q so' t"
    then have q: "is_sess q so' t1" by (rule old)
    show "if sess_id so' = x then q = p \<and> so' = so else is_sess q so' t'"
    proof (cases "q = p")
      case True
      with q so show ?thesis by simp
    next
      case False
      then have "sess_id so' \<noteq> x" using ids_distinctD [OF ids q so(1)] so(2) by auto
      moreover have "is_sess q so' t'" unfolding t' by (rule is_sess_put_other [OF False]) (simp add: pool q)
      ultimately show ?thesis by simp
    qed
  qed (use t' so in auto)
qed

lemma unregister_all:
  assumes "alloc_ok E" "agm_session_register_cb E x None ev d t = Some (r, t')" "ids_distinct t"
  shows "ids_distinct t' \<and> (\<forall>q so. is_sess q so t \<longrightarrow> is_sess q (without_cb x ev d so) t')"
  using assms
proof (rule register_cb_frame, intro conjI allI impI)
  fix p so q so1
  assume new: "is_sess p (so\<lparr>cb_pool := new_cbs None ev d (cb_pool so)\<rparr>) t'" "sess_id so = x"
    and old: "\<And>q so'. is_sess q so' t \<Longrightarrow> if sess_id so' = x then q = p \<and> so' = so else is_sess q so' t'"
    and q: "is_sess q so1 t"
  show "is_sess q (without_cb x ev d so1) t'"
    using old [OF q] new by (auto simp: without_cb_def new_cbs_def split: if_splits)
qed

section \<open>The death of a client\<close>

definition handles_of :: "nat \<Rightarrow> client_info list \<Rightarrow> nat option list" where
  "handles_of pid cs = concat (map ci_hndl_list (filter (\<lambda>c. ci_pid c = pid) cs))"

definition clbks_of :: "ipc_state \<Rightarrow> nat \<Rightarrow> clbk_data list \<Rightarrow> clbk_data list" where
  "clbks_of s pid ks = filter (\<lambda>k. sk_pid (srvr_objs s ! kd_srv k) = pid) ks"

lemma on_agm_Some:
  "on_agm m s = Some (r, s') \<longleftrightarrow> (\<exists>t. m (isvc s) = Some (r, t) \<and> s' = s\<lparr>isvc := t\<rparr>)"
  by (auto simp: on_agm_def split: bind_splits)

lemma isvc_unchanged [simp]: "\<exists>t. (s :: ipc_state) = s\<lparr>isvc := t\<rparr>"
  by (rule exI [of _ "isvc s"]) simp

lemma unregister_clbks_spec:
  assumes "alloc_ok (henv H)" "unregister_clbks H pid ks s = Some (ks', s')" "ids_distinct (isvc s)"
  shows "(\<exists>t. s' = s\<lparr>isvc := t\<rparr>) \<and> ks' = filter (\<lambda>k. sk_pid (srvr_objs s ! kd_srv k) \<noteq> pid) ks
    \<and> (\<forall>q so. is_sess q so (isvc s) \<longrightarrow> is_sess q (fold (drop_cb (srvr_objs s)) (clbks_of s pid ks) so) (isvc s'))"
  using assms(2,3)
proof (induction ks arbitrary: s ks' s')
  case (Cons k ks)
  show ?case
  proof (cases "sk_pid (srvr_objs s ! kd_srv k) = pid")
    case True
    with Cons.prems obtain r t where t: "agm_session_register_cb (henv H) (sk_session_id (srvr_objs s ! kd_srv k)) None
          (sk_event (srvr_objs s ! kd_srv k)) (kd_srv k) (isvc s) = Some (r, t)"
        and rest: "unregister_clbks H pid ks (s\<lparr>isvc := t\<rparr>) = Some (ks', s')"
      by (auto simp: on_agm_Some Let_def split: bind_splits if_splits)
    from unregister_all [OF assms(1) t Cons.prems(2)] Cons.IH [OF rest] True show ?thesis
      by (auto simp: clbks_of_def drop_cb_def)
  next
    case False
    with Cons.prems obtain ks1 where "unregister_clbks H pid ks s = Some (ks1, s')" "ks' = k # ks1"
      by (auto simp: Let_def split: bind_splits if_splits)
    with Cons.IH [of s ks1 s'] Cons.prems(2) False show ?thesis by (auto simp: clbks_of_def)
  qed
qed (auto simp: clbks_of_def)

lemma close_handles_spec:
  assumes "close_handles H hs s = Some ((), s')"
  shows "(\<exists>t. s' = s\<lparr>isvc := t\<rparr>)
    \<and> (\<forall>q so. is_sess q so (isvc s) \<longrightarrow> is_sess q (if Some q \<in> set hs then closed_session so else so) (isvc s'))"
  using assms
proof (induction hs arbitrary: s)
  case (Cons h hs)
  show ?case
  proof (cases h)
    case (Some p)
    with Cons.prems obtain r t where t: "agm_session_close (henv H) (Some p) (isvc s) = Some (r, t)"
        and rest: "close_handles H hs (s\<lparr>isvc := t\<rparr>) = Some ((), s')"
      by (auto simp: on_agm_Some split: bind_splits)
    from Cons.IH [OF rest] show ?thesis
      using session_close_all [OF _ t] Some by fastforce
  qed (use Cons in auto)
qed auto

lemma close_clients_spec:
  assumes "close_clients H pid cs s = Some (cs', s')"
  shows "(\<exists>t. s' = s\<lparr>isvc := t\<rparr>) \<and> cs' = filter (\<lambda>c. ci_pid c \<noteq> pid) cs
    \<and> (\<forall>q so. is_sess q so (isvc s) \<longrightarrow>
        is_sess q (if Some q \<in> set (handles_of pid cs) then closed_session so else so) (isvc s'))"
  using assms
proof (induction cs arbitrary: s cs' s')
  case (Cons c cs)
  show ?case
  proof (cases "ci_pid c = pid")
    case True
    with Cons.prems obtain s1 where s1: "close_handles H (ci_hndl_list c) s = Some ((), s1)"
        and rest: "close_clients H pid cs s1 = Some (cs', s')"
      by (auto split: bind_splits)
    from close_handles_spec [OF s1] Cons.IH [OF rest] True show ?thesis
      by (fastforce simp: handles_of_def split: if_splits)
  next
    case False
    with Cons.prems obtain cs1 where "close_clients H pid cs s = Some (cs1, s')" "cs' = c # cs1"
      by (auto split: bind_splits)
    with Cons.IH [of s cs1 s'] False show ?thesis by (auto simp: handles_of_def)
  qed
qed (auto simp: handles_of_def)

section \<open>The ledger\<close>

text \<open>The list of clients as a set of pairs of a client and a handle.\<close>

definition ledger :: "ipc_state \<Rightarrow> (nat \<times> nat option) set" where
  "ledger s = {(pid, h). \<exists>cs c. client_list s = Some cs \<and> c \<in> set cs \<and> ci_pid c = pid \<and> h \<in> set (ci_hndl_list c)}"

lemma ledger_cong: "client_list s' = client_list s \<Longrightarrow> ledger s' = ledger s"
  by (simp add: ledger_def)

lemma ledger_handles: "client_list s = Some cs \<Longrightarrow> (pid, h) \<in> ledger s \<longleftrightarrow> h \<in> set (handles_of pid cs)"
  by (auto simp: ledger_def handles_of_def)

lemma add_to_client_None: "add_to_client pid h cs = None \<Longrightarrow> pid \<notin> ci_pid ` set cs"
  by (induction cs) (auto split: if_splits)

definition pairs_of :: "client_info list \<Rightarrow> (nat \<times> nat option) set" where
  "pairs_of cs = {(pid, h). \<exists>c \<in> set cs. ci_pid c = pid \<and> h \<in> set (ci_hndl_list c)}"

lemma pairs_of_simps [simp]:
  "pairs_of [] = {}" "pairs_of (c # cs) = Pair (ci_pid c) ` set (ci_hndl_list c) \<union> pairs_of cs"
  "pairs_of (cs @ cs') = pairs_of cs \<union> pairs_of cs'"
  by (auto simp: pairs_of_def)

lemma ledger_pairs: "ledger s = (case client_list s of None \<Rightarrow> {} | Some cs \<Rightarrow> pairs_of cs)"
  by (auto simp: ledger_def pairs_of_def split: option.splits)

lemma add_to_client_pairs: "add_to_client pid h cs = Some cs' \<Longrightarrow> pairs_of cs' = insert (pid, h) (pairs_of cs)"
  by (induction cs arbitrary: cs') (auto split: if_splits)

lemma ledger_add_handle:
  "memory_ok H \<Longrightarrow> ledger (add_handle_to_list H pid h s) = insert (pid, h) (ledger s)"
  by (cases "add_to_client pid h (case_option [] id (client_list s))"; cases "client_list s")
    (simp_all add: add_handle_to_list_def alloc_succeeds Let_def ledger_pairs add_to_client_pairs)

lemma drop_handle_pairs: "pairs_of (drop_handle h cs) = {(pid, h') \<in> pairs_of cs. h' \<noteq> h}"
  by (induction cs) (auto simp: drop_handle_def filter_empty_conv)

lemma filter_pairs: "pairs_of (filter (\<lambda>c. ci_pid c \<noteq> pid) cs) = {(p, h) \<in> pairs_of cs. p \<noteq> pid}"
  by (auto simp: pairs_of_def)

text \<open>The two halves of \<open>serviceDied_server\<close>.\<close>

lemma died_callbacks:
  assumes "(case clbk_data_list s of None \<Rightarrow> Some s
      | Some ks \<Rightarrow> do { (ks, s) \<leftarrow> unregister_clbks H pid ks s; Some (s\<lparr>clbk_data_list := Some ks\<rparr>) }) = Some s'"
    and "alloc_ok (henv H)" "ids_distinct (isvc s)"
  shows "client_list s' = client_list s
    \<and> clbk_data_list s' = map_option (filter (\<lambda>k. sk_pid (srvr_objs s ! kd_srv k) \<noteq> pid)) (clbk_data_list s)
    \<and> (\<forall>q so. is_sess q so (isvc s) \<longrightarrow>
        is_sess q (fold (drop_cb (srvr_objs s)) (clbks_of s pid (case_option [] id (clbk_data_list s))) so) (isvc s'))"
proof (cases "clbk_data_list s")
  case (Some ks)
  with assms(1) obtain ks' s1 where "unregister_clbks H pid ks s = Some (ks', s1)" "s' = s1\<lparr>clbk_data_list := Some ks'\<rparr>"
    by (auto split: bind_splits)
  with unregister_clbks_spec [OF assms(2) _ assms(3)] Some show ?thesis by fastforce
qed (use assms in \<open>auto simp: clbks_of_def\<close>)

lemma died_sessions:
  assumes "(case client_list s of None \<Rightarrow> Some ((), s)
      | Some cs \<Rightarrow> do { (cs, s) \<leftarrow> close_clients H pid cs s; Some ((), s\<lparr>client_list := Some cs\<rparr>) }) = Some ((), s')"
  shows "clbk_data_list s' = clbk_data_list s
    \<and> client_list s' = map_option (filter (\<lambda>c. ci_pid c \<noteq> pid)) (client_list s)
    \<and> (\<forall>q so. is_sess q so (isvc s) \<longrightarrow>
        is_sess q (if (pid, Some q) \<in> ledger s then closed_session so else so) (isvc s'))"
proof (cases "client_list s")
  case (Some cs)
  with assms obtain cs' s1 where "close_clients H pid cs s = Some (cs', s1)" "s' = s1\<lparr>client_list := Some cs'\<rparr>"
    by (auto split: bind_splits)
  with close_clients_spec [of H pid cs s cs' s1] ledger_handles [OF Some] Some show ?thesis by auto
qed (use assms in \<open>auto simp: ledger_def\<close>)

lemma service_died_halves:
  assumes "serviceDied_server H pid s = Some (r, s')"
  obtains s1 where "(case clbk_data_list s of None \<Rightarrow> Some s
      | Some ks \<Rightarrow> do { (ks, s) \<leftarrow> unregister_clbks H pid ks s; Some (s\<lparr>clbk_data_list := Some ks\<rparr>) }) = Some s1"
    "(case client_list s1 of None \<Rightarrow> Some ((), s1)
      | Some cs \<Rightarrow> do { (cs, s) \<leftarrow> close_clients H pid cs s1; Some ((), s\<lparr>client_list := Some cs\<rparr>) }) = Some ((), s')"
  using assms unfolding serviceDied_server_def by (rule bind_splits [THEN iffD1, elim_format]) auto


definition sample_clients :: ipc_state where
  "sample_clients = (sample_ipc (sample_run SESSION_STOPPED AIF_STOPPED DEV_STOPPED STOPPED))
     \<lparr>client_list := Some [\<lparr>ci_pid = 7, ci_hndl_list = [Some 0]\<rparr>, \<lparr>ci_pid = 8, ci_hndl_list = [Some 1]\<rparr>],
      clbk_data_list := Some [\<lparr>kd_clt_data = 1, kd_srv = 0\<rparr>],
      srvr_objs := [\<lparr>sk_session_id = 5, sk_event = AGM_EVENT_MODULE, sk_clnt_data = 1, sk_pid = 7\<rparr>]\<rparr>"

lemma fill_env_alloc [simp]: "alloc_ok fill_env" "calloc_ok fill_env h n z"
  by (simp_all add: alloc_ok_def calloc_ok_def)


section \<open>Requests and the ledger\<close>

lemma forward_posts:
  assumes "agm_server_died (procs s pid) \<Longrightarrow> Q err s" "\<not> agm_server_died (procs s pid) \<Longrightarrow> posts (f (reach H pid s)) Q"
  shows "posts (forward H pid err f s) Q"
  using assms by (auto simp: forward_def reach_def posts_def split: if_splits prod.splits)

text \<open>The steps of a handler that leave the list of clients alone.\<close>

abbreviation has_clients :: "client_info list option \<Rightarrow> ipc_state \<Rightarrow> bool" where
  "has_clients cl s \<equiv> client_list s = cl"

lemma clients_on_agm: "has_clients cl s \<Longrightarrow> posts (on_agm m s) (\<lambda>r s'. has_clients cl s')"
  by (auto simp: posts_def on_agm_Some)

lemma clients_on_agm_then:
  "has_clients cl s \<Longrightarrow> (\<And>r s'. has_clients cl s' \<Longrightarrow> posts (f (r, s')) Q) \<Longrightarrow> posts (on_agm m s \<bind> f) Q"
  by (rule posts_bind [OF clients_on_agm])

lemma clients_copy:
  "has_clients cl s \<Longrightarrow> (\<And>r s'. has_clients cl s' \<Longrightarrow> posts (f (r, s')) Q) \<Longrightarrow> posts (ipc_copy H n v s \<bind> f) Q"
  by (rule posts_bind [where P = "\<lambda>r s'. has_clients cl s'"]) (auto simp: posts_def ipc_copy_def ipc_alloc_def split: if_splits)

lemma clients_with_copy: "has_clients cl s \<Longrightarrow> posts (ipc_with_copy H n v f s) (\<lambda>r s'. has_clients cl s')"
  unfolding ipc_with_copy_def by (rule clients_copy) (auto intro!: posts_flow clients_on_agm)

lemma clients_forward:
  "has_clients cl s \<Longrightarrow> (\<And>s'. has_clients cl s' \<Longrightarrow> posts (f s') (\<lambda>r s'. has_clients cl s'))
    \<Longrightarrow> posts (forward H pid err f s) (\<lambda>r s'. has_clients cl s')"
  by (rule forward_posts) auto

lemma posts_ipc_code:
  "posts (m s) (\<lambda>r s'. P s') \<Longrightarrow> posts (ipc_code f m s) (\<lambda>r s'. P s')"
  unfolding ipc_code_def by (erule posts_bind) simp

text \<open>The handlers of the server, and the functions of the client library.\<close>

lemmas clients_steps = clients_on_agm clients_on_agm_then clients_copy clients_with_copy posts_flow posts_deref

lemma clients_handlers:
  assumes "has_clients cl s"
  shows "posts (ipc_agm_session_aif_get_tag_module_info H x a n s) (\<lambda>r s'. has_clients cl s')"
    "posts (ipc_agm_session_aif_set_cal H x a kvs s) (\<lambda>r s'. has_clients cl s')"
    "posts (ipc_agm_session_get_params H x n bs s) (\<lambda>r s'. has_clients cl s')"
    "posts (ipc_agm_set_params_with_tag H x a kvs s) (\<lambda>r s'. has_clients cl s')"
    "posts (ipc_agm_session_register_callback H pid x b ev d d' s) (\<lambda>r s'. has_clients cl s')"
    "posts (ipc_agm_session_get_buf_info H x n s) (\<lambda>r s'. has_clients cl s')"
    "posts (ipc_agm_get_buffer_timestamp H x s) (\<lambda>r s'. has_clients cl s')"
    "posts (ipc_agm_session_write H h bs n s) (\<lambda>r s'. has_clients cl s')"
    "posts (ipc_agm_session_read H h n s) (\<lambda>r s'. has_clients cl s')"
    "posts (ipc_agm_get_session_time H h s) (\<lambda>r s'. has_clients cl s')"
    "posts (ipc_agm_aif_set_media_config H x mc s) (\<lambda>r s'. has_clients cl s')"
    "posts (ipc_agm_session_set_config H h scs mcs bcs s) (\<lambda>r s'. has_clients cl s')"
    "posts (ipc_agm_session_register_for_events H x evs s) (\<lambda>r s'. has_clients cl s')"
  unfolding ipc_agm_aif_set_media_config_def ipc_agm_session_set_config_def ipc_agm_session_register_for_events_def ipc_agm_session_aif_get_tag_module_info_def ipc_agm_session_aif_set_cal_def ipc_agm_session_get_params_def
    ipc_agm_set_params_with_tag_def ipc_agm_session_register_callback_def ipc_register_new_def
    ipc_agm_session_get_buf_info_def ipc_agm_get_buffer_timestamp_def ipc_agm_session_write_def ipc_agm_session_read_def
    ipc_agm_get_session_time_def ipc_alloc_def Let_def
  by (insert assms, (assumption | rule clients_steps | (simp split: if_splits; fail)
      | (fastforce split: if_splits list.splits intro!: clients_steps; fail))+)

lemma posts_app:
  "posts (m s) Q \<Longrightarrow> posts (n s) Q \<Longrightarrow> posts ((if b then m else n) s) Q"
  "posts (m s) Q \<Longrightarrow> (\<And>y. posts (f y s) Q) \<Longrightarrow> posts ((case x of None \<Rightarrow> m | Some y \<Rightarrow> f y) s) Q"
  by (simp_all split: option.split)

lemmas clients_bind_handler = clients_handlers [THEN posts_bind]

lemmas other_calls = agm_session_aif_get_tag_module_info_cl_def agm_session_aif_set_cal_cl_def agm_session_get_params_cl_def
  agm_set_params_with_tag_cl_def agm_session_register_cb_cl_def agm_session_get_buf_info_cl_def agm_get_buffer_timestamp_cl_def
  agm_session_write_cl_def agm_session_read_cl_def agm_get_session_time_cl_def

lemma clients_serve:
  assumes "\<forall>x b. q \<noteq> Session_open x b" "\<forall>h. q \<noteq> Session_close h"
  shows "posts (hidl_serve H pid q s) (\<lambda>r s'. has_clients (client_list s) s')"
proof -
  note steps = posts_ipc_code clients_forward clients_handlers clients_bind_handler clients_steps posts_app
  show ?thesis
    by (insert assms, cases q; hypsubst; unfold hidl_serve.simps client_calls plain_handlers other_calls;
        (assumption | rule refl steps | (simp add: upd_proc_def; fail) | (fast; fail))+)
qed

section \<open>The ledger as a specification\<close>

text \<open>What the server sees of its clients: their calls and their deaths.\<close>

datatype client_step = Call nat request | Death nat

fun hidl_step :: "hidl_env \<Rightarrow> client_step \<Rightarrow> ipc_state \<Rightarrow> ipc_state option" where
  "hidl_step H (Call pid q) s = map_option snd (hidl_serve H pid q s)"
| "hidl_step H (Death pid) s = map_option snd (serviceDied_server H pid s)"

text \<open>
  A successful open enters the handle that the service returned, a close strikes it out for every
  client, a death strikes out the client; a client that knows of the server's death is not heard.
\<close>

definition ledger_step ::
    "hidl_env \<Rightarrow> ipc_state \<Rightarrow> client_step \<Rightarrow> (nat \<times> nat option) set \<Rightarrow> (nat \<times> nat option) set" where
  "ledger_step H s st L = (case st of
       Death pid \<Rightarrow> {(p, h) \<in> L. p \<noteq> pid}
     | Call pid q \<Rightarrow> if agm_server_died (procs s pid) then L else (case q of
           Session_open x b \<Rightarrow> (case agm_session_open (henv H) x True (isvc s) of
               Some ((r, h), t) \<Rightarrow> if r = 0 then insert (pid, h) L else L
             | None \<Rightarrow> L)
         | Session_close h \<Rightarrow> {(p, h') \<in> L. h' \<noteq> h}
         | _ \<Rightarrow> L))"

lemma unregister_keeps_clients:
  "has_clients cl s \<Longrightarrow> posts (unregister_clbks H pid ks s) (\<lambda>r s'. has_clients cl s')"
proof (induction ks arbitrary: s)
  case (Cons k ks)
  show ?case
    unfolding unregister_clbks.simps Let_def
    by (insert Cons.prems) (assumption | rule Cons.IH posts_bind [OF Cons.IH] clients_steps)+
qed simp

lemma ledger_death:
  assumes "serviceDied_server H pid s = Some (r, s')"
  shows "ledger s' = {(p, h) \<in> ledger s. p \<noteq> pid}"
proof -
  from assms obtain s1 where s1: "(case clbk_data_list s of None \<Rightarrow> Some s
        | Some ks \<Rightarrow> do { (ks, s) \<leftarrow> unregister_clbks H pid ks s; Some (s\<lparr>clbk_data_list := Some ks\<rparr>) }) = Some s1"
      and s': "(case client_list s1 of None \<Rightarrow> Some ((), s1)
        | Some cs \<Rightarrow> do { (cs, s) \<leftarrow> close_clients H pid cs s1; Some ((), s\<lparr>client_list := Some cs\<rparr>) }) = Some ((), s')"
    by (rule service_died_halves)
  from s1 have "client_list s1 = client_list s"
    using unregister_keeps_clients [of s "client_list s" H pid "case_option [] id (clbk_data_list s)"]
    by (auto simp: posts_def split: option.splits bind_splits)
  with died_sessions [OF s'] show ?thesis by (auto simp: ledger_pairs filter_pairs split: option.splits)
qed

lemma ledger_reach [simp]: "ledger (reach H pid s) = ledger s"
  by (rule ledger_cong) simp

lemma ledger_isvc [simp]: "ledger (s\<lparr>isvc := t\<rparr>) = ledger s"
  by (rule ledger_cong) simp

lemma ledger_open:
  assumes "memory_ok H"
  shows "posts (hidl_serve H pid (Session_open x b) s)
    (\<lambda>r s'. ledger s' = ledger_step H s (Call pid (Session_open x b)) (ledger s))"
proof -
  have "posts (agm_session_open_cl H pid x s)
      (\<lambda>r s'. ledger s' = ledger_step H s (Call pid (Session_open x b)) (ledger s))"
    unfolding agm_session_open_cl_def
    by (rule forward_posts) (auto simp: posts_def ledger_step_def ipc_agm_session_open_def on_agm_Some
        ledger_add_handle [OF assms] split: bind_splits if_splits)
  then show ?thesis
    unfolding hidl_serve.simps by (intro posts_app(1) posts_ipc_code posts_NoneI)
qed

lemma ledger_close:
  "posts (hidl_serve H pid (Session_close h) s)
    (\<lambda>r s'. ledger s' = ledger_step H s (Call pid (Session_close h)) (ledger s))"
  unfolding hidl_serve.simps agm_session_close_cl_def
  by (rule forward_posts) (auto simp: posts_def ledger_step_def ipc_agm_session_close_def on_agm_Some ledger_pairs
      drop_handle_pairs split: bind_splits)



section \<open>Events\<close>

text \<open>A later state has the objects of the server and of the client library, which are never deleted.\<close>

definition keeps_objs :: "nat \<Rightarrow> ipc_state \<Rightarrow> ipc_state \<Rightarrow> bool" where
  "keeps_objs pid s s' \<longleftrightarrow> (\<exists>ss cs. srvr_objs s' = srvr_objs s @ ss
     \<and> clnt_objs (procs s' pid) = clnt_objs (procs s pid) @ cs)"

text \<open>
  C25: the round trip of an event. When a client has registered a function for an event of a
  session, the session has a callback of the server, and in every later state a call of it with
  the event calls this function in the process of this client, with the session, the params and
  the data that the client gave.
\<close>

theorem event_reaches_client:
  assumes "agm_session_register_cb_cl H pid x (Some f) ev d s = Some (r, s')" "connected H pid s" "memory_ok H"
    "alloc_ok (henv H)" "ids_distinct (isvc s)"
  shows "r = 0 \<and> (\<exists>p so a. sess_at (isvc s') p = Some so \<and> sess_id so = x
    \<and> \<lparr>cb_fn = hcb H, cb_evt_type = ev, cb_client_data = a\<rparr> \<in> set (cb_pool so)
    \<and> (\<forall>s2 params. keeps_objs pid s' s2 \<longrightarrow> ipc_callback H x params a s2
        = Some ((), s2\<lparr>itick := Suc (itick s2), icalls := Client_event pid f x params d # icalls s2\<rparr>)))"
proof -
  let ?a = "length (srvr_objs s)" and ?c = "length (clnt_objs (procs s pid))"
  from assms obtain t where reg: "agm_session_register_cb (henv H) x (Some (hcb H)) ev ?a (isvc s) = Some (r, t)"
      and s': "isvc s' = t"
        "srvr_objs s' = srvr_objs s @ [\<lparr>sk_session_id = x, sk_event = ev, sk_clnt_data = Suc ?c, sk_pid = pid\<rparr>]"
        "clnt_objs (procs s' pid) = clnt_objs (procs s pid)
          @ [\<lparr>lk_session_id = x, lk_func = f, lk_event = ev, lk_clnt_data = d\<rparr>]"
    by (auto simp: agm_session_register_cb_cl_def forward_connected ipc_agm_session_register_callback_def ipc_register_new_def
        alloc_succeeds on_agm_Some upd_proc_def Let_def)
  have call: "ipc_callback H x params ?a s2
      = Some ((), s2\<lparr>itick := Suc (itick s2), icalls := Client_event pid f x params d # icalls s2\<rparr>)"
    if "keeps_objs pid s' s2" for s2 params
    using that s' assms(3)
    by (auto simp: keeps_objs_def ipc_callback_def event_callback_def alloc_succeeds Let_def nth_append)
  obtain p so where so: "r = 0" "sess_id so = x" "is_sess p (so\<lparr>cb_pool := new_cbs (Some (hcb H)) ev ?a (cb_pool so)\<rparr>) t"
    using register_cb_frame [OF assms(4) reg assms(5)] by metis
  show ?thesis
    using so call s'(1) by (intro conjI exI [of _ p] exI [of _ "so\<lparr>cb_pool := new_cbs (Some (hcb H)) ev ?a (cb_pool so)\<rparr>"]
        exI [of _ ?a]) (simp_all add: new_cbs_def)
qed

theorem event_reaches_client_witness:
  "\<exists>s' p so a. agm_session_register_cb_cl sample_hidl 7 5 (Some 3) AGM_EVENT_MODULE 9 sample_clients = Some (0, s')
    \<and> sess_at (isvc s') p = Some so \<and> \<lparr>cb_fn = 5, cb_evt_type = AGM_EVENT_MODULE, cb_client_data = a\<rparr> \<in> set (cb_pool so)
    \<and> (\<forall>params. \<exists>s''. ipc_callback sample_hidl 5 params a s' = Some ((), s'')
        \<and> icalls s'' = [Client_event 7 3 5 params 9])"
proof -
  obtain s' where s': "agm_session_register_cb_cl sample_hidl 7 5 (Some 3) AGM_EVENT_MODULE 9 sample_clients = Some (0, s')"
      "icalls s' = []"
    by (simp add: agm_session_register_cb_cl_def forward_def get_agm_server_def getService_def upd_proc_def sample_hidl_def
        ipc_agm_session_register_callback_def ipc_register_new_def ipc_alloc_def sample_clients_def sample_ipc_def on_agm_def
        agm_session_register_cb_def with_session_def session_obj_get_def session_obj_get_from_pool_def
        session_obj_register_cb_def calloc_def Let_def)
  have "connected sample_hidl 7 sample_clients" "ids_distinct (isvc sample_clients)" "keeps_objs 7 s' s'" "hcb sample_hidl = 5"
    by (simp_all add: sample_clients_def ids_distinct_def keeps_objs_def connected_def sample_ipc_def sample_hidl_def)
  with event_reaches_client [OF s'(1)] s' show ?thesis by fastforce
qed

end
