(* ===== verification/Agm_Swb_Server.thy ===== *)
theory Agm_Swb_Server
  imports Agm_Session_Api
begin

text \<open>
  The server side of \<open>ipc/SwBinders\<close>: the records of clients (\<open>agm_death_notifier.cpp\<close>), the callbacks
  (\<open>agm_callback.cpp\<close>), the forwarding class (\<open>agm_server_wrapper.cpp\<close>) and the dispatch of a
  transaction (\<open>BnAgmService::onTransact\<close> in \<open>ipc_proxy_server.cpp\<close>).

  A parcel is the list of the items that were written to it. What the read functions of libbinder
  deliver is the parameter \<open>B\<close>; \<open>parcel_ok\<close> states what libbinder documents: items are read in the
  order in which they were written, a \<open>bool\<close> of one byte is padded with zeros, and a number behind
  the end of a parcel reads as zero. Nothing is said of a read that does not match what was written.
\<close>

section \<open>Parcels\<close>

text \<open>A blob is an image of memory: bytes, or a struct or an array that both sides know.\<close>

datatype (plugins only: code size) blob =
    Bytes "u8 list"
  | Media agm_media_config
  | Session_cfg agm_session_config
  | Buffer_cfg agm_buffer_config
  | Kvs "agm_key_value list"
  | Aifs "aif_info list"
  | Tags "tag_entry list" nat

fun blob_size :: "blob \<Rightarrow> nat" where
  "blob_size (Bytes bs) = length bs"
| "blob_size (Media c) = 16"
| "blob_size (Session_cfg c) = 52"
| "blob_size (Buffer_cfg c) = 16"
| "blob_size (Kvs es) = 8 * length es"
| "blob_size (Aifs l) = 32 * length l"
| "blob_size (Tags l n) = n"

text \<open>
  What can be written: numbers of 32 and 64 bits, 64-bit numbers that are handles or pointers to
  client data, an enum, the raw bytes of a \<open>bool\<close> and of a function pointer, blobs, binders.
\<close>

datatype (plugins only: code size) item =
    Token
  | Int32 u32
  | Int64 u64
  | Handle "nat option"
  | Client_data nat
  | Event_type event_type
  | Raw_bool bool
  | Raw_func "nat option"
  | Blob blob
  | Strong_binder nat

type_synonym parcel = "item list"

record parcel_env =
  checkInterface :: "parcel \<Rightarrow> parcel"
  readInt32 :: "parcel \<Rightarrow> u32 \<times> parcel"
  readInt64 :: "parcel \<Rightarrow> u64 \<times> parcel"
  readHandle :: "parcel \<Rightarrow> nat option \<times> parcel"
  readClientData :: "parcel \<Rightarrow> nat \<times> parcel"
  readEventType :: "parcel \<Rightarrow> event_type \<times> parcel"
  readFunc :: "parcel \<Rightarrow> nat option \<times> parcel"
  readBlob :: "nat \<Rightarrow> parcel \<Rightarrow> blob option \<times> parcel"
  readStrongBinder :: "parcel \<Rightarrow> nat \<times> parcel"
  replyOf :: "int \<Rightarrow> parcel \<Rightarrow> parcel"

text \<open>\<open>replyOf\<close>: a transaction that returns an error status delivers no reply.\<close>

definition parcel_ok :: "parcel_env \<Rightarrow> bool" where
  "parcel_ok B \<longleftrightarrow> (\<forall>is. checkInterface B (Token # is) = is)
     \<and> (\<forall>v is. readInt32 B (Int32 v # is) = (v, is)) \<and> readInt32 B [] = (0, [])
     \<and> (\<forall>b is. readInt32 B (Raw_bool b # is) = (of_bool b, is))
     \<and> (\<forall>v is. readInt64 B (Int64 v # is) = (v, is)) \<and> (\<forall>h is. readHandle B (Handle h # is) = (h, is))
     \<and> (\<forall>d is. readClientData B (Client_data d # is) = (d, is))
     \<and> (\<forall>e is. readEventType B (Event_type e # is) = (e, is)) \<and> (\<forall>f is. readFunc B (Raw_func f # is) = (f, is))
     \<and> (\<forall>b is. readBlob B (blob_size b) (Blob b # is) = (Some b, is))
     \<and> (\<forall>b is. readStrongBinder B (Strong_binder b # is) = (b, is))
     \<and> (\<forall>r. replyOf B 0 r = r) \<and> (\<forall>st r. st \<noteq> 0 \<longrightarrow> replyOf B st r = [])"

section \<open>State\<close>

record swb_client =
  wc_binder :: nat
  wc_pid :: nat
  wc_notifier :: bool
  wc_hndl_list :: "nat option list"

record swb_clbk =
  wk_session_id :: u32
  wk_binder :: nat
  wk_func :: "nat option"
  wk_client_data :: nat

record swb_proc =
  wp_server_died :: bool
  wp_client :: "nat option"
  wp_notifier :: bool

text \<open>
  \<open>bowner\<close> is the process in which a binder object lives, \<open>bnext\<close> the next object; \<open>wlinked\<close> are the
  binders whose death the server is told of. The list heads are \<open>None\<close> before \<open>list_init\<close>.
\<close>

record swb_state =
  wsvc :: agm_state
  g_client_list :: "swb_client list option"
  swb_clbk_list :: "swb_clbk list option"
  wlinked :: "nat list"
  bowner :: "nat \<Rightarrow> nat"
  bnext :: nat
  wprocs :: "nat \<Rightarrow> swb_proc"
  wcalls :: "(nat \<times> nat \<times> u32 \<times> agm_event_cb_params \<times> nat) list"
  wtick :: nat

type_synonym 'a swb = "swb_state \<Rightarrow> ('a, swb_state) result"

record swb_env =
  wenv :: env
  walloc :: "nat \<Rightarrow> bool"
  wservice :: "nat \<Rightarrow> bool"
  wcb :: nat

definition w_agm :: "'a agm \<Rightarrow> 'a swb" where
  "w_agm m s = do { (r, t) \<leftarrow> m (wsvc s); Some (r, s\<lparr>wsvc := t\<rparr>) }"

definition w_alloc :: "swb_env \<Rightarrow> swb_state \<Rightarrow> bool \<times> swb_state" where
  "w_alloc W s = (walloc W (wtick s), s\<lparr>wtick := Suc (wtick s)\<rparr>)"

definition to_int32 :: "int \<Rightarrow> u32" where
  "to_int32 r = word_of_int r"

section \<open>The records of the clients\<close>

definition get_client_handle_from_list :: "nat \<Rightarrow> swb_client list \<Rightarrow> nat option" where
  "get_client_handle_from_list pid cs = find_index (\<lambda>c. wc_pid c = pid) cs"

definition agm_register_client :: "swb_env \<Rightarrow> nat \<Rightarrow> nat \<Rightarrow> swb_state \<Rightarrow> swb_state" where
  "agm_register_client W pid binder s =
     (let s = s\<lparr>wlinked := binder # wlinked s\<rparr>;
          cs = (case g_client_list s of None \<Rightarrow> [] | Some cs \<Rightarrow> cs);
          s = s\<lparr>g_client_list := Some cs\<rparr>;
          (ok, s) = w_alloc W s in
      if \<not> ok then s
      else s\<lparr>g_client_list := Some (cs @ [\<lparr>wc_binder = binder, wc_pid = pid, wc_notifier = True, wc_hndl_list = []\<rparr>])\<rparr>)"

text \<open>A walk over a list that was never initialised is undefined.\<close>

definition agm_add_session_obj_handle :: "swb_env \<Rightarrow> nat \<Rightarrow> nat option \<Rightarrow> swb_state \<Rightarrow> swb_state option" where
  "agm_add_session_obj_handle W pid handle s = do {
     cs \<leftarrow> g_client_list s;
     case get_client_handle_from_list pid cs of None \<Rightarrow> Some s
     | Some i \<Rightarrow>
         let (ok, s) = w_alloc W s in
         Some (if \<not> ok then s
           else s\<lparr>g_client_list := Some (cs[i := (cs ! i)\<lparr>wc_hndl_list := wc_hndl_list (cs ! i) @ [handle]\<rparr>])\<rparr>)
   }"

definition agm_remove_session_obj_handle :: "nat \<Rightarrow> nat option \<Rightarrow> swb_state \<Rightarrow> swb_state option" where
  "agm_remove_session_obj_handle pid handle s = do {
     cs \<leftarrow> g_client_list s;
     Some (case get_client_handle_from_list pid cs of None \<Rightarrow> s
       | Some i \<Rightarrow> s\<lparr>g_client_list := Some (cs[i := (cs ! i)\<lparr>wc_hndl_list := remove1 handle (wc_hndl_list (cs ! i))\<rparr>])\<rparr>)
   }"

text \<open>The binder of the caller is unlinked once for every record that has a notifier.\<close>

definition agm_unregister_client :: "nat \<Rightarrow> nat \<Rightarrow> swb_state \<Rightarrow> swb_state option" where
  "agm_unregister_client pid binder s = do {
     cs \<leftarrow> g_client_list s;
     Some (s\<lparr>g_client_list := Some (filter (\<lambda>c. wc_pid c \<noteq> pid) cs),
       wlinked := (if \<exists>c \<in> set cs. wc_pid c = pid \<and> wc_notifier c then removeAll binder (wlinked s) else wlinked s)\<rparr>)
   }"

fun w_close_handles :: "swb_env \<Rightarrow> nat option list \<Rightarrow> unit swb" where
  "w_close_handles W [] s = Some ((), s)"
| "w_close_handles W (h # hs) s =
     (if h = None then w_close_handles W hs s
      else do { (_, s) \<leftarrow> w_agm (agm_session_close (wenv W) h) s; w_close_handles W hs s })"

fun w_close_clients :: "swb_env \<Rightarrow> nat \<Rightarrow> swb_client list \<Rightarrow> swb_client list swb" where
  "w_close_clients W who [] s = Some ([], s)"
| "w_close_clients W who (c # cs) s =
     (if wc_binder c = who then do {
        (_, s) \<leftarrow> w_close_handles W (wc_hndl_list c) s;
        w_close_clients W who cs s
      } else do {
        (cs, s) \<leftarrow> w_close_clients W who cs s;
        Some (c # cs, s)
      })"

definition binderDied_client :: "swb_env \<Rightarrow> nat \<Rightarrow> unit swb" where
  "binderDied_client W who s = do {
     cs \<leftarrow> g_client_list s;
     (cs, s) \<leftarrow> w_close_clients W who cs s;
     Some ((), s\<lparr>g_client_list := Some cs\<rparr>)
   }"

section \<open>Events\<close>

text \<open>\<open>BnCallback::onTransact\<close> in the process of the client, and the call of its function.\<close>

definition BnCallback_event_cb :: "nat \<Rightarrow> u32 \<Rightarrow> agm_event_cb_params \<Rightarrow> nat \<Rightarrow> nat option \<Rightarrow> int swb" where
  "BnCallback_event_cb pid session_id params client_data cb_func s = do {
     f \<leftarrow> cb_func;
     Some (0, s\<lparr>wcalls := (pid, f, session_id, params, client_data) # wcalls s\<rparr>)
   }"

definition BnCallback_onTransact :: "parcel_env \<Rightarrow> swb_env \<Rightarrow> nat \<Rightarrow> parcel \<Rightarrow> int swb" where
  "BnCallback_onTransact B W pid data s =
     (let data = checkInterface B data;
          (session_id, data) = readInt32 B data;
          (mid, data) = readInt32 B data;
          (eid, data) = readInt32 B data;
          (sz, data) = readInt32 B data;
          (ok, s) = w_alloc W s in
      if \<not> ok then Some (- ENOMEM, s)
      else let (b, data) = readBlob B (unat sz) data;
               (client_data, data) = readClientData B data;
               (cb_func, data) = readFunc B data in
        case b of
          Some (Bytes bs) \<Rightarrow>
            if length bs \<noteq> unat sz then None
            else BnCallback_event_cb pid session_id \<lparr>source_module_id = mid, event_id = eid, event_payload = bs\<rparr>
              client_data cb_func s
        | _ \<Rightarrow> None)"

definition BpCallback_event_cb ::
    "parcel_env \<Rightarrow> swb_env \<Rightarrow> nat \<Rightarrow> u32 \<Rightarrow> agm_event_cb_params \<Rightarrow> nat \<Rightarrow> nat option \<Rightarrow> int swb" where
  "BpCallback_event_cb B W binder session_id params client_data cb_func s =
     BnCallback_onTransact B W (bowner s binder) [Token, Int32 session_id, Int32 (source_module_id params),
       Int32 (event_id params), Int32 (word_of_nat (length (event_payload params))),
       Blob (Bytes (event_payload params)), Client_data client_data, Raw_func cb_func] s"

text \<open>
  \<open>ipc_cb\<close>, which the service calls. Without a matching record the loop leaves the last one in
  \<open>handle\<close>.
\<close>

definition clbk_of :: "u32 \<Rightarrow> nat \<Rightarrow> swb_clbk list \<Rightarrow> swb_clbk option" where
  "clbk_of session_id client_data ks =
     (case List.find (\<lambda>k. wk_session_id k = session_id \<and> wk_client_data k = client_data) ks of
        Some k \<Rightarrow> Some k
      | None \<Rightarrow> if ks = [] then None else Some (last ks))"

definition ipc_cb :: "parcel_env \<Rightarrow> swb_env \<Rightarrow> u32 \<Rightarrow> agm_event_cb_params \<Rightarrow> nat \<Rightarrow> unit swb" where
  "ipc_cb B W session_id params client_data s = do {
     ks \<leftarrow> swb_clbk_list s;
     case clbk_of session_id client_data ks of None \<Rightarrow> Some ((), s)
     | Some k \<Rightarrow> do {
         (_, s) \<leftarrow> BpCallback_event_cb B W (wk_binder k) session_id params (wk_client_data k) (wk_func k) s;
         Some ((), s)
       }
   }"

section \<open>The class AgmService\<close>

definition sv_agm_session_read :: "env \<Rightarrow> nat option \<Rightarrow> nat \<Rightarrow> (int \<times> nat \<times> u8 list) agm" where
  "sv_agm_session_read E h n = agm_session_read E h n"

definition sv_agm_session_write :: "env \<Rightarrow> nat option \<Rightarrow> u8 list \<Rightarrow> (int \<times> nat) agm" where
  "sv_agm_session_write E h bs = agm_session_write E h bs"

definition sv_agm_init :: "int agm" where
  "sv_agm_init s = Some (0, s)"

definition sv_agm_audio_intf_set_metadata :: "env \<Rightarrow> u32 \<Rightarrow> u8 list \<Rightarrow> int agm" where
  "sv_agm_audio_intf_set_metadata E a bs = agm_aif_set_metadata E a bs"

definition sv_agm_session_set_metadata :: "env \<Rightarrow> u32 \<Rightarrow> u8 list \<Rightarrow> int agm" where
  "sv_agm_session_set_metadata E x bs = agm_session_set_metadata E x bs"

definition sv_agm_session_audio_inf_set_metadata :: "env \<Rightarrow> u32 \<Rightarrow> u32 \<Rightarrow> u8 list \<Rightarrow> int agm" where
  "sv_agm_session_audio_inf_set_metadata E x a bs = agm_session_aif_set_metadata E x a bs"

definition sv_agm_session_close :: "env \<Rightarrow> nat option \<Rightarrow> int agm" where
  "sv_agm_session_close E h = agm_session_close E h"

definition sv_agm_session_prepare :: "env \<Rightarrow> nat option \<Rightarrow> int agm" where
  "sv_agm_session_prepare E h = agm_session_prepare E h"

definition sv_agm_session_start :: "env \<Rightarrow> nat option \<Rightarrow> int agm" where
  "sv_agm_session_start E h = agm_session_start E h"

definition sv_agm_session_stop :: "env \<Rightarrow> nat option \<Rightarrow> int agm" where
  "sv_agm_session_stop E h = agm_session_stop E h"

definition sv_agm_session_pause :: "env \<Rightarrow> nat option \<Rightarrow> int agm" where
  "sv_agm_session_pause E h = agm_session_pause E h"

definition sv_agm_session_resume :: "env \<Rightarrow> nat option \<Rightarrow> int agm" where
  "sv_agm_session_resume E h = agm_session_resume E h"

definition sv_agm_session_set_loopback :: "env \<Rightarrow> u32 \<Rightarrow> u32 \<Rightarrow> bool \<Rightarrow> int agm" where
  "sv_agm_session_set_loopback E x y st = agm_session_set_loopback E x y st"

definition sv_agm_get_hw_processed_buff_cnt :: "nat option \<Rightarrow> u64 agm" where
  "sv_agm_get_hw_processed_buff_cnt h = agm_get_hw_processed_buff_cnt h"

definition sv_agm_get_aif_info_list ::
    "aif_info list option \<Rightarrow> u64 \<Rightarrow> agm_state \<Rightarrow> (int \<times> aif_info list option \<times> nat option) option" where
  "sv_agm_get_aif_info_list l n s = agm_get_aif_info_list l (Some n) s"

definition sv_agm_session_aif_get_tag_module_info ::
    "env \<Rightarrow> u32 \<Rightarrow> u32 \<Rightarrow> bool \<Rightarrow> (int \<times> (tag_entry list \<times> nat) option) agm" where
  "sv_agm_session_aif_get_tag_module_info E x a b = agm_session_aif_get_tag_module_info E x a b"

definition sv_agm_aif_set_params :: "env \<Rightarrow> u32 \<Rightarrow> u8 list \<Rightarrow> int agm" where
  "sv_agm_aif_set_params E a bs = agm_aif_set_params E a bs"

definition sv_agm_session_aif_set_params :: "env \<Rightarrow> u32 \<Rightarrow> u32 \<Rightarrow> u8 list \<Rightarrow> int agm" where
  "sv_agm_session_aif_set_params E x a bs = agm_session_aif_set_params E x a bs"

definition sv_agm_session_set_params :: "env \<Rightarrow> u32 \<Rightarrow> u8 list \<Rightarrow> int agm" where
  "sv_agm_session_set_params E x bs = agm_session_set_params E x bs"

definition sv_agm_set_params_with_tag :: "env \<Rightarrow> u32 \<Rightarrow> u32 \<Rightarrow> agm_tag_config \<Rightarrow> int agm" where
  "sv_agm_set_params_with_tag E x a tc = agm_set_params_with_tag E x a tc"

definition sv_agm_session_open :: "env \<Rightarrow> u32 \<Rightarrow> (int \<times> nat option) agm" where
  "sv_agm_session_open E x = agm_session_open E x True"

definition sv_agm_session_set_config ::
    "nat option \<Rightarrow> agm_session_config \<Rightarrow> agm_media_config \<Rightarrow> agm_buffer_config \<Rightarrow> int agm" where
  "sv_agm_session_set_config h sc mc bc = agm_session_set_config h sc mc bc"

definition sv_agm_session_audio_inf_connect :: "env \<Rightarrow> u32 \<Rightarrow> u32 \<Rightarrow> bool \<Rightarrow> int agm" where
  "sv_agm_session_audio_inf_connect E x a st = agm_session_aif_connect E x a st"

definition sv_agm_audio_intf_set_media_config :: "u32 \<Rightarrow> agm_media_config \<Rightarrow> int agm" where
  "sv_agm_audio_intf_set_media_config a mc = agm_aif_set_media_config a (Some mc)"

definition sv_agm_session_register_for_events :: "env \<Rightarrow> u32 \<Rightarrow> agm_event_reg_cfg \<Rightarrow> int agm" where
  "sv_agm_session_register_for_events E x cfg = agm_session_register_for_events E x (Some cfg)"

definition sv_agm_session_register_cb :: "env \<Rightarrow> u32 \<Rightarrow> nat option \<Rightarrow> event_type \<Rightarrow> nat \<Rightarrow> int agm" where
  "sv_agm_session_register_cb E x cb ev d = agm_session_register_cb E x cb ev d"

definition sv_agm_session_set_ec_ref :: "env \<Rightarrow> u32 \<Rightarrow> u32 \<Rightarrow> bool \<Rightarrow> int agm" where
  "sv_agm_session_set_ec_ref E x a st = agm_session_set_ec_ref E x a st"

definition sv_agm_session_aif_set_cal :: "env \<Rightarrow> u32 \<Rightarrow> u32 \<Rightarrow> agm_key_value list \<Rightarrow> int agm" where
  "sv_agm_session_aif_set_cal E x a es = agm_session_aif_set_cal E x a es"

definition sv_agm_session_eos :: "env \<Rightarrow> nat option \<Rightarrow> int agm" where
  "sv_agm_session_eos E h = agm_session_eos E h"

definition sv_agm_get_session_time :: "env \<Rightarrow> nat option \<Rightarrow> (int \<times> u64 option) agm" where
  "sv_agm_get_session_time E h = agm_get_session_time E h True"

definition sv_agm_session_get_params :: "env \<Rightarrow> u32 \<Rightarrow> u8 list \<Rightarrow> (int \<times> u8 list) agm" where
  "sv_agm_session_get_params E x bs = agm_session_get_params E x bs"

definition sv_agm_get_buffer_timestamp :: "env \<Rightarrow> u32 \<Rightarrow> (int \<times> u64 option) agm" where
  "sv_agm_get_buffer_timestamp E x = agm_get_buffer_timestamp E x True"

end
