(* ===== verification/Agm_Swb_Dispatch.thy ===== *)
theory Agm_Swb_Dispatch
  imports Agm_Swb_Server
begin

text \<open>
  \<open>BnAgmService::onTransact\<close> of \<open>ipc/SwBinders/agm_server/src/ipc_proxy_server.cpp\<close>: one definition for
  every case of the switch, in the order of the code, and the dispatch. A case yields the status
  of the transaction and the reply. \<open>pid\<close> is the calling process. A blob that was not read has a
  NULL pointer, and copying from it is undefined.
\<close>

type_synonym transaction = "(int \<times> parcel) swb"

section \<open>Shared steps\<close>

definition w_reply :: "int agm \<Rightarrow> transaction" where
  "w_reply m s = do { (r, s) \<leftarrow> w_agm m s; Some ((0, [Int32 (to_int32 r)]), s) }"

definition on_handle :: "parcel_env \<Rightarrow> (nat option \<Rightarrow> int agm) \<Rightarrow> parcel \<Rightarrow> transaction" where
  "on_handle B f data = (let (h, data) = readHandle B data in w_reply (f h))"

text \<open>
  A count and a blob of as many bytes, which are copied into memory of the server. Without memory
  the reply is \<open>-ENOMEM\<close>; \<open>nomem\<close> is the status that the case returns then.
\<close>

definition on_bytes :: "parcel_env \<Rightarrow> swb_env \<Rightarrow> int \<Rightarrow> (u8 list \<Rightarrow> int agm) \<Rightarrow> parcel \<Rightarrow> transaction" where
  "on_bytes B W nomem f data s =
     (let (cnt, data) = readInt32 B data;
          (b, data) = readBlob B (unat cnt) data;
          (ok, s) = w_alloc W s in
      if \<not> ok then Some ((nomem, [Int32 (to_int32 (- ENOMEM))]), s)
      else case b of
          Some (Bytes bs) \<Rightarrow> if length bs < unat cnt then None else w_reply (f (take (unat cnt) bs)) s
        | _ \<Rightarrow> None)"

section \<open>The cases\<close>

definition on_reg_client :: "parcel_env \<Rightarrow> swb_env \<Rightarrow> nat \<Rightarrow> parcel \<Rightarrow> transaction" where
  "on_reg_client B W pid data s =
     (let (b, data) = readStrongBinder B data in Some ((0, []), agm_register_client W pid b s))"

definition on_unreg_client :: "parcel_env \<Rightarrow> nat \<Rightarrow> parcel \<Rightarrow> transaction" where
  "on_unreg_client B pid data s =
     (let (b, data) = readStrongBinder B data in do { s \<leftarrow> agm_unregister_client pid b s; Some ((0, []), s) })"

definition on_open :: "parcel_env \<Rightarrow> swb_env \<Rightarrow> nat \<Rightarrow> parcel \<Rightarrow> transaction" where
  "on_open B W pid data s =
     (let (session_id, data) = readInt32 B data in do {
        ((ret, handle), s) \<leftarrow> w_agm (sv_agm_session_open (wenv W) session_id) s;
        s \<leftarrow> (if handle \<noteq> None then agm_add_session_obj_handle W pid handle s else Some s);
        Some ((0, [Handle handle, Int32 (to_int32 ret)]), s)
      })"

definition on_session_set_meta :: "parcel_env \<Rightarrow> swb_env \<Rightarrow> parcel \<Rightarrow> transaction" where
  "on_session_set_meta B W data =
     (let (session_id, data) = readInt32 B data in on_bytes B W 0 (sv_agm_session_set_metadata (wenv W) session_id) data)"

definition on_session_audio_intf_set_meta :: "parcel_env \<Rightarrow> swb_env \<Rightarrow> parcel \<Rightarrow> transaction" where
  "on_session_audio_intf_set_meta B W data =
     (let (session_id, data) = readInt32 B data; (audio_intf, data) = readInt32 B data in
      on_bytes B W 0 (sv_agm_session_audio_inf_set_metadata (wenv W) session_id audio_intf) data)"

definition on_get_buff_cnt :: "parcel_env \<Rightarrow> parcel \<Rightarrow> transaction" where
  "on_get_buff_cnt B data s =
     (let (h, data) = readHandle B data; (dirn, data) = readInt32 B data in do {
        (n, s) \<leftarrow> w_agm (sv_agm_get_hw_processed_buff_cnt h) s;
        Some ((0, [Int32 (ucast n)]), s)
      })"

definition on_audio_intf_set_meta :: "parcel_env \<Rightarrow> swb_env \<Rightarrow> parcel \<Rightarrow> transaction" where
  "on_audio_intf_set_meta B W data =
     (let (audio_intf, data) = readInt32 B data in on_bytes B W 0 (sv_agm_audio_intf_set_metadata (wenv W) audio_intf) data)"

definition on_loopback :: "parcel_env \<Rightarrow> swb_env \<Rightarrow> parcel \<Rightarrow> transaction" where
  "on_loopback B W data =
     (let (x, data) = readInt32 B data; (y, data) = readInt32 B data; (st, data) = readInt32 B data in
      w_reply (sv_agm_session_set_loopback (wenv W) x y (st \<noteq> 0)))"

definition on_close :: "parcel_env \<Rightarrow> swb_env \<Rightarrow> nat \<Rightarrow> parcel \<Rightarrow> transaction" where
  "on_close B W pid data s =
     (let (h, data) = readHandle B data in do {
        (ret, s) \<leftarrow> w_agm (sv_agm_session_close (wenv W) h) s;
        s \<leftarrow> agm_remove_session_obj_handle pid h s;
        Some ((0, [Int32 (to_int32 ret)]), s)
      })"

definition on_connect :: "parcel_env \<Rightarrow> swb_env \<Rightarrow> parcel \<Rightarrow> transaction" where
  "on_connect B W data =
     (let (x, data) = readInt32 B data; (a, data) = readInt32 B data; (st, data) = readInt32 B data in
      w_reply (sv_agm_session_audio_inf_connect (wenv W) x a (st \<noteq> 0)))"

definition on_set_media_config :: "parcel_env \<Rightarrow> parcel \<Rightarrow> transaction" where
  "on_set_media_config B data s =
     (let (a, data) = readInt32 B data; (sz, data) = readInt32 B data; (b, data) = readBlob B (unat sz) data in
      case b of Some (Media mc) \<Rightarrow> w_reply (sv_agm_audio_intf_set_media_config a mc) s | _ \<Rightarrow> None)"

definition on_session_set_config :: "parcel_env \<Rightarrow> parcel \<Rightarrow> transaction" where
  "on_session_set_config B data s =
     (let (h, data) = readHandle B data;
          (sz1, data) = readInt32 B data; (b1, data) = readBlob B (unat sz1) data;
          (sz2, data) = readInt32 B data; (b2, data) = readBlob B (unat sz2) data;
          (sz3, data) = readInt32 B data; (b3, data) = readBlob B (unat sz3) data in
      case (b1, b2, b3) of
        (Some (Session_cfg sc), Some (Media mc), Some (Buffer_cfg bc)) \<Rightarrow> w_reply (sv_agm_session_set_config h sc mc bc) s
      | _ \<Rightarrow> None)"

text \<open>The buffer has as many bytes as were asked for; the reply is made of as many as were read.\<close>

definition on_read :: "parcel_env \<Rightarrow> swb_env \<Rightarrow> parcel \<Rightarrow> transaction" where
  "on_read B W data s =
     (let (h, data) = readHandle B data; (cnt, data) = readInt32 B data; (ok, s) = w_alloc W s in
      if \<not> ok then Some ((0, [Int32 (to_int32 (- ENOMEM))]), s)
      else do {
        ((ret, n, bs), s) \<leftarrow> w_agm (sv_agm_session_read (wenv W) h (unat cnt)) s;
        if ret \<noteq> 0 then Some ((0, [Int32 (to_int32 ret)]), s)
        else if length bs > unat cnt \<or> n > unat cnt then None
        else Some ((0, [Int32 (to_int32 ret), Int32 (word_of_nat n), Blob (Bytes (take n (bs @ replicate (unat cnt) 0)))]), s)
      })"

text \<open>Without memory only the code is written, where the client reads a count and a code.\<close>

definition on_write :: "parcel_env \<Rightarrow> swb_env \<Rightarrow> parcel \<Rightarrow> transaction" where
  "on_write B W data s =
     (let (h, data) = readHandle B data; (cnt, data) = readInt32 B data; (ok, s) = w_alloc W s in
      if \<not> ok then Some ((0, [Int32 (to_int32 (- ENOMEM))]), s)
      else let (b, data) = readBlob B (unat cnt) data in
        case b of
          Some (Bytes bs) \<Rightarrow>
            if length bs < unat cnt then None
            else do {
              ((ret, n), s) \<leftarrow> w_agm (sv_agm_session_write (wenv W) h (take (unat cnt) bs)) s;
              Some ((0, [Int32 (word_of_nat n), Int32 (to_int32 ret)]), s)
            }
        | _ \<Rightarrow> None)"

text \<open>With a count of zero the pointer of the client is handed to the service, which does not use it.\<close>

definition on_get_aif_list :: "parcel_env \<Rightarrow> swb_env \<Rightarrow> parcel \<Rightarrow> transaction" where
  "on_get_aif_list B W data s =
     (let (cnt, data) = readInt32 B data in
      if cnt = 0 then do {
        let (p, data) = readHandle B data;
        (ret, _, n) \<leftarrow> sv_agm_get_aif_info_list (map_option (\<lambda>_. []) p) 0 (wsvc s);
        Some ((0, [Int32 (case_option 0 word_of_nat n), Int32 (to_int32 ret)]), s)
      } else let (ok, s) = w_alloc W s in
        if \<not> ok then Some ((- ENOMEM, []), s)
        else do {
          (ret, l, n) \<leftarrow> sv_agm_get_aif_info_list (Some (replicate (unat cnt) \<lparr>aif_name = [], aif_dir = 0\<rparr>)) (ucast cnt) (wsvc s);
          Some ((0, [Blob (Aifs (take (case_option (unat cnt) id n) (case_option [] id l))), Int32 (to_int32 ret)]), s)
        })"

definition on_reg_event :: "parcel_env \<Rightarrow> swb_env \<Rightarrow> parcel \<Rightarrow> transaction" where
  "on_reg_event B W data s =
     (let (x, data) = readInt32 B data; (miid, data) = readInt32 B data; (eid, data) = readInt32 B data;
          (sz, data) = readInt32 B data; (reg, data) = readInt32 B data; (ok, s) = w_alloc W s in
      if \<not> ok then Some ((- ENOMEM, []), s)
      else let (bsz, data) = readInt32 B data; (b, data) = readBlob B (unat bsz) data in
        case b of
          Some (Bytes bs) \<Rightarrow>
            let n = min (unat sz) (unat bsz) in
            if length bs < n then None
            else w_reply (sv_agm_session_register_for_events (wenv W) x \<lparr>er_miid = miid, er_event_id = eid,
              er_payload = take n bs @ replicate (unat sz - n) 0, er_is_register = ucast reg\<rparr>) s
        | _ \<Rightarrow> None)"

text \<open>\<open>ipc_cb\<close> is registered whatever function the client passed, NULL included.\<close>

definition on_reg_cb :: "parcel_env \<Rightarrow> swb_env \<Rightarrow> parcel \<Rightarrow> transaction" where
  "on_reg_cb B W data s =
     (let ks = (case swb_clbk_list s of None \<Rightarrow> [] | Some ks \<Rightarrow> ks);
          s = s\<lparr>swb_clbk_list := Some ks\<rparr>;
          (ok, s) = w_alloc W s in
      if \<not> ok then Some ((- ENOMEM, []), s)
      else let (x, data) = readInt32 B data; (f, data) = readFunc B data; (ev, data) = readEventType B data;
               (d, data) = readClientData B data; (b, data) = readStrongBinder B data in
        w_reply (sv_agm_session_register_cb (wenv W) x (Some (wcb W)) ev d)
          (s\<lparr>swb_clbk_list := Some (ks @ [\<lparr>wk_session_id = x, wk_binder = b, wk_func = f, wk_client_data = d\<rparr>])\<rparr>))"

text \<open>The buffer has the size that the client gave; the service may report another one.\<close>

definition on_get_tag_module_info :: "parcel_env \<Rightarrow> swb_env \<Rightarrow> parcel \<Rightarrow> transaction" where
  "on_get_tag_module_info B W data s =
     (let (p, data) = readHandle B data; (cnt, data) = readInt32 B data;
          (x, data) = readInt32 B data; (a, data) = readInt32 B data in
      if p = None then do {
        ((ret, r), s) \<leftarrow> w_agm (sv_agm_session_aif_get_tag_module_info (wenv W) x a False) s;
        Some ((0, [Int32 (case r of None \<Rightarrow> cnt | Some (_, n) \<Rightarrow> word_of_nat n), Int32 (to_int32 ret)]), s)
      } else if cnt = 0 then Some ((0, []), s)
      else let (ok, s) = w_alloc W s in
        if \<not> ok then Some ((- ENOMEM, []), s)
        else do {
          ((ret, r), s) \<leftarrow> w_agm (sv_agm_session_aif_get_tag_module_info (wenv W) x a True) s;
          let (tags, n) = (case r of None \<Rightarrow> ([], unat cnt) | Some (tags, n) \<Rightarrow> (tags, n));
          if n > unat cnt then None
          else Some ((0, [Blob (Tags tags n), Int32 (to_int32 ret)]), s)
        })"

definition on_session_aif_set_params :: "parcel_env \<Rightarrow> swb_env \<Rightarrow> parcel \<Rightarrow> transaction" where
  "on_session_aif_set_params B W data =
     (let (x, data) = readInt32 B data; (a, data) = readInt32 B data in
      on_bytes B W (- ENOMEM) (sv_agm_session_aif_set_params (wenv W) x a) data)"

definition on_aif_set_params :: "parcel_env \<Rightarrow> swb_env \<Rightarrow> parcel \<Rightarrow> transaction" where
  "on_aif_set_params B W data =
     (let (a, data) = readInt32 B data in on_bytes B W (- ENOMEM) (sv_agm_aif_set_params (wenv W) a) data)"

definition on_session_set_params :: "parcel_env \<Rightarrow> swb_env \<Rightarrow> parcel \<Rightarrow> transaction" where
  "on_session_set_params B W data =
     (let (x, data) = readInt32 B data in on_bytes B W 0 (sv_agm_session_set_params (wenv W) x) data)"

text \<open>
  The size of the key values is computed with 32 bits. The memory of the tag config has room for all
  of them (\<open>room\<close>) and those that did not come are zero; that of the calibration has room for as
  many as came.
\<close>

definition on_kvs ::
    "parcel_env \<Rightarrow> swb_env \<Rightarrow> bool \<Rightarrow> u32 \<Rightarrow> (agm_key_value list \<Rightarrow> int agm) \<Rightarrow> parcel \<Rightarrow> transaction" where
  "on_kvs B W room n f data s =
     (let (ok, s) = w_alloc W s in
      if \<not> ok then Some ((0, [Int32 (to_int32 (- ENOMEM))]), s)
      else let (b, data) = readBlob B (unat (n * 8)) data in
        case b of
          Some (Kvs es) \<Rightarrow>
            if length es > unat n \<or> length es < unat n \<and> \<not> room then None
            else w_reply (f (es @ replicate (unat n - length es) \<lparr>key = 0, val = 0\<rparr>)) s
        | _ \<Rightarrow> None)"

definition on_set_params_with_tag :: "parcel_env \<Rightarrow> swb_env \<Rightarrow> parcel \<Rightarrow> transaction" where
  "on_set_params_with_tag B W data =
     (let (x, data) = readInt32 B data; (a, data) = readInt32 B data; (tag, data) = readInt32 B data;
          (n, data) = readInt32 B data in
      on_kvs B W True n (\<lambda>es. sv_agm_set_params_with_tag (wenv W) x a \<lparr>tc_tag = tag, tc_kv = es\<rparr>) data)"

definition on_set_ecref :: "parcel_env \<Rightarrow> swb_env \<Rightarrow> parcel \<Rightarrow> transaction" where
  "on_set_ecref B W data =
     (let (x, data) = readInt32 B data; (a, data) = readInt32 B data; (st, data) = readInt32 B data in
      w_reply (sv_agm_session_set_ec_ref (wenv W) x a (st \<noteq> 0)))"

text \<open>This case calls the service directly.\<close>

definition on_set_calibration :: "parcel_env \<Rightarrow> swb_env \<Rightarrow> parcel \<Rightarrow> transaction" where
  "on_set_calibration B W data =
     (let (x, data) = readInt32 B data; (a, data) = readInt32 B data; (n, data) = readInt32 B data in
      on_kvs B W False n (agm_session_aif_set_cal (wenv W) x a) data)"

definition on_get_session_time :: "parcel_env \<Rightarrow> swb_env \<Rightarrow> parcel \<Rightarrow> transaction" where
  "on_get_session_time B W data s =
     (let (h, data) = readHandle B data; (ts, data) = readInt64 B data in do {
        ((ret, t), s) \<leftarrow> w_agm (sv_agm_get_session_time (wenv W) h) s;
        Some ((0, [Int64 (case_option ts id t), Int32 (to_int32 ret)]), s)
      })"

definition on_get_params :: "parcel_env \<Rightarrow> swb_env \<Rightarrow> parcel \<Rightarrow> transaction" where
  "on_get_params B W data s =
     (let (x, data) = readInt32 B data; (cnt, data) = readInt32 B data; (b, data) = readBlob B (unat cnt) data;
          (ok, s) = w_alloc W s in
      if \<not> ok then Some ((0, [Int32 (to_int32 (- ENOMEM))]), s)
      else case b of
          Some (Bytes bs) \<Rightarrow>
            if length bs < unat cnt then None
            else do {
              ((ret, bs), s) \<leftarrow> w_agm (sv_agm_session_get_params (wenv W) x (take (unat cnt) bs)) s;
              if length bs \<noteq> unat cnt then None
              else Some ((0, [Blob (Bytes bs), Int32 (to_int32 ret)]), s)
            }
        | _ \<Rightarrow> None)"

definition on_buf_tstamp :: "parcel_env \<Rightarrow> swb_env \<Rightarrow> parcel \<Rightarrow> transaction" where
  "on_buf_tstamp B W data s =
     (let (x, data) = readInt32 B data in do {
        ((ret, t), s) \<leftarrow> w_agm (sv_agm_get_buffer_timestamp (wenv W) x) s;
        Some ((0, [Int64 (case_option 0 id t), Int32 (to_int32 ret)]), s)
      })"

section \<open>The dispatch\<close>

datatype (plugins only: code size) transaction_code =
    OPEN | REG_CLIENT | UNREG_CLIENT | SET_MEDIA_CONFIG | INIT | AUDIO_INTF_SET_META | SESSION_SET_META
  | SESSION_AUDIO_INTF_SET_META | SESSION_SET_CONFIG | CLOSE | PREPARE | START | STOP | PAUSE | RESUME | CONNECT
  | READ | WRITE | LOOPBACK | GET_BUFF_CNT | GET_AIF_LIST | REG_EVENT | REG_CB | GET_TAG_MODULE_INFO
  | SESSION_AIF_SET_PARAMS | SESSION_SET_PARAMS | SET_PARAMS_WITH_TAG | SET_ECREF | SET_CALIBRATION | EOS
  | GET_SESSION_TIME | GET_PARAMS | BUF_TSTAMP | AIF_SET_PARAMS

definition onTransact :: "parcel_env \<Rightarrow> swb_env \<Rightarrow> nat \<Rightarrow> transaction_code \<Rightarrow> parcel \<Rightarrow> transaction" where
  "onTransact B W pid tc data =
     (let data = checkInterface B data; E = wenv W in
      case tc of
        REG_CLIENT \<Rightarrow> on_reg_client B W pid data
      | UNREG_CLIENT \<Rightarrow> on_unreg_client B pid data
      | OPEN \<Rightarrow> on_open B W pid data
      | SESSION_SET_META \<Rightarrow> on_session_set_meta B W data
      | SESSION_AUDIO_INTF_SET_META \<Rightarrow> on_session_audio_intf_set_meta B W data
      | INIT \<Rightarrow> w_reply sv_agm_init
      | GET_BUFF_CNT \<Rightarrow> on_get_buff_cnt B data
      | AUDIO_INTF_SET_META \<Rightarrow> on_audio_intf_set_meta B W data
      | LOOPBACK \<Rightarrow> on_loopback B W data
      | CLOSE \<Rightarrow> on_close B W pid data
      | PREPARE \<Rightarrow> on_handle B (sv_agm_session_prepare E) data
      | START \<Rightarrow> on_handle B (sv_agm_session_start E) data
      | STOP \<Rightarrow> on_handle B (sv_agm_session_stop E) data
      | PAUSE \<Rightarrow> on_handle B (sv_agm_session_pause E) data
      | RESUME \<Rightarrow> on_handle B (sv_agm_session_resume E) data
      | CONNECT \<Rightarrow> on_connect B W data
      | SET_MEDIA_CONFIG \<Rightarrow> on_set_media_config B data
      | SESSION_SET_CONFIG \<Rightarrow> on_session_set_config B data
      | READ \<Rightarrow> on_read B W data
      | WRITE \<Rightarrow> on_write B W data
      | GET_AIF_LIST \<Rightarrow> on_get_aif_list B W data
      | REG_EVENT \<Rightarrow> on_reg_event B W data
      | REG_CB \<Rightarrow> on_reg_cb B W data
      | GET_TAG_MODULE_INFO \<Rightarrow> on_get_tag_module_info B W data
      | SESSION_AIF_SET_PARAMS \<Rightarrow> on_session_aif_set_params B W data
      | AIF_SET_PARAMS \<Rightarrow> on_aif_set_params B W data
      | SESSION_SET_PARAMS \<Rightarrow> on_session_set_params B W data
      | SET_PARAMS_WITH_TAG \<Rightarrow> on_set_params_with_tag B W data
      | SET_ECREF \<Rightarrow> on_set_ecref B W data
      | SET_CALIBRATION \<Rightarrow> on_set_calibration B W data
      | EOS \<Rightarrow> on_handle B (sv_agm_session_eos E) data
      | GET_SESSION_TIME \<Rightarrow> on_get_session_time B W data
      | GET_PARAMS \<Rightarrow> on_get_params B W data
      | BUF_TSTAMP \<Rightarrow> on_buf_tstamp B W data)"

end
