(* ===== verification/Agm_Swb_Client.thy ===== *)
theory Agm_Swb_Client
  imports Agm_Swb_Dispatch
begin

text \<open>
  The client side of \<open>ipc/SwBinders\<close>: the proxy \<open>BpAgmService\<close> of \<open>ipc_proxy_server.cpp\<close> (names end in
  \<open>_bp\<close>), which writes the arguments into a parcel, makes the transaction and reads the reply, and the
  client library \<open>agm_client_wrapper.cpp\<close> (names end in \<open>_sw\<close>). \<open>pid\<close> is the process of the client.
\<close>

section \<open>The proxy\<close>

text \<open>\<open>remote()->transact\<close>: the status is not looked at.\<close>

definition transact :: "parcel_env \<Rightarrow> swb_env \<Rightarrow> nat \<Rightarrow> transaction_code \<Rightarrow> parcel \<Rightarrow> parcel swb" where
  "transact B W pid tc data s = do {
     ((st, rep), s) \<leftarrow> onTransact B W pid tc (Token # data) s;
     Some (replyOf B st rep, s)
   }"

definition read_code :: "parcel_env \<Rightarrow> parcel \<Rightarrow> int" where
  "read_code B rep = sint (fst (readInt32 B rep))"

text \<open>A call whose reply is a code.\<close>

definition call :: "parcel_env \<Rightarrow> swb_env \<Rightarrow> nat \<Rightarrow> transaction_code \<Rightarrow> parcel \<Rightarrow> int swb" where
  "call B W pid tc data s = do { (rep, s) \<leftarrow> transact B W pid tc data s; Some (read_code B rep, s) }"

text \<open>A count of bytes, cut to 32 bits, and a blob of the bytes.\<close>

definition bytes_items :: "u8 list \<Rightarrow> parcel" where
  "bytes_items bs = [Int32 (word_of_nat (length bs)), Blob (Bytes bs)]"

text \<open>The constructor and the destructor; a client is a binder of its own.\<close>

definition BpAgmService :: "parcel_env \<Rightarrow> swb_env \<Rightarrow> nat \<Rightarrow> nat swb" where
  "BpAgmService B W pid s =
     (let b = bnext s; s = s\<lparr>bnext := Suc b, bowner := (bowner s)(b := pid)\<rparr> in
      do { (_, s) \<leftarrow> transact B W pid REG_CLIENT [Strong_binder b] s; Some (b, s) })"

definition BpAgmService_destroy :: "parcel_env \<Rightarrow> swb_env \<Rightarrow> nat \<Rightarrow> nat \<Rightarrow> unit swb" where
  "BpAgmService_destroy B W pid b s = do {
     (_, s) \<leftarrow> transact B W pid UNREG_CLIENT [Strong_binder b] s; Some ((), s) }"

definition ipc_agm_audio_intf_set_media_config_bp :: "parcel_env \<Rightarrow> swb_env \<Rightarrow> nat \<Rightarrow> u32 \<Rightarrow> agm_media_config \<Rightarrow> int swb" where
  "ipc_agm_audio_intf_set_media_config_bp B W pid a mc = call B W pid SET_MEDIA_CONFIG [Int32 a, Int32 16, Blob (Media mc)]"

definition ipc_agm_session_set_config_bp :: "parcel_env \<Rightarrow> swb_env \<Rightarrow> nat \<Rightarrow> nat option \<Rightarrow> agm_session_config \<Rightarrow> agm_media_config \<Rightarrow> agm_buffer_config \<Rightarrow> int swb" where
  "ipc_agm_session_set_config_bp B W pid h sc mc bc = call B W pid SESSION_SET_CONFIG 
     [Handle h, Int32 52, Blob (Session_cfg sc), Int32 16, Blob (Media mc), Int32 16, Blob (Buffer_cfg bc)]"

definition ipc_agm_init_bp :: "parcel_env \<Rightarrow> swb_env \<Rightarrow> nat \<Rightarrow> int swb" where
  "ipc_agm_init_bp B W pid = call B W pid INIT []"

definition ipc_agm_session_set_loopback_bp :: "parcel_env \<Rightarrow> swb_env \<Rightarrow> nat \<Rightarrow> u32 \<Rightarrow> u32 \<Rightarrow> bool \<Rightarrow> int swb" where
  "ipc_agm_session_set_loopback_bp B W pid x y st = call B W pid LOOPBACK [Int32 x, Int32 y, Raw_bool st]"

definition ipc_agm_audio_intf_set_metadata_bp :: "parcel_env \<Rightarrow> swb_env \<Rightarrow> nat \<Rightarrow> u32 \<Rightarrow> u8 list \<Rightarrow> int swb" where
  "ipc_agm_audio_intf_set_metadata_bp B W pid a bs = call B W pid AUDIO_INTF_SET_META (Int32 a # bytes_items bs)"

definition ipc_agm_session_set_metadata_bp :: "parcel_env \<Rightarrow> swb_env \<Rightarrow> nat \<Rightarrow> u32 \<Rightarrow> u8 list \<Rightarrow> int swb" where
  "ipc_agm_session_set_metadata_bp B W pid x bs = call B W pid SESSION_SET_META (Int32 x # bytes_items bs)"

definition ipc_agm_session_audio_inf_set_metadata_bp :: "parcel_env \<Rightarrow> swb_env \<Rightarrow> nat \<Rightarrow> u32 \<Rightarrow> u32 \<Rightarrow> u8 list \<Rightarrow> int swb" where
  "ipc_agm_session_audio_inf_set_metadata_bp B W pid x a bs = call B W pid SESSION_AUDIO_INTF_SET_META 
     (Int32 x # Int32 a # bytes_items bs)"

text \<open>The second result is what is stored through \<open>handle\<close>.\<close>

definition ipc_agm_session_open_bp :: "parcel_env \<Rightarrow> swb_env \<Rightarrow> nat \<Rightarrow> u32 \<Rightarrow> (int \<times> nat option) swb" where
  "ipc_agm_session_open_bp B W pid x s = do {
     (rep, s) \<leftarrow> transact B W pid OPEN [Int32 x] s;
     let (h, rep) = readHandle B rep;
     Some ((read_code B rep, h), s)
   }"

definition ipc_agm_session_close_bp :: "parcel_env \<Rightarrow> swb_env \<Rightarrow> nat \<Rightarrow> nat option \<Rightarrow> int swb" where
  "ipc_agm_session_close_bp B W pid h = call B W pid CLOSE [Handle h]"

definition ipc_agm_session_prepare_bp :: "parcel_env \<Rightarrow> swb_env \<Rightarrow> nat \<Rightarrow> nat option \<Rightarrow> int swb" where
  "ipc_agm_session_prepare_bp B W pid h = call B W pid PREPARE [Handle h]"

definition ipc_agm_session_start_bp :: "parcel_env \<Rightarrow> swb_env \<Rightarrow> nat \<Rightarrow> nat option \<Rightarrow> int swb" where
  "ipc_agm_session_start_bp B W pid h = call B W pid START [Handle h]"

definition ipc_agm_session_stop_bp :: "parcel_env \<Rightarrow> swb_env \<Rightarrow> nat \<Rightarrow> nat option \<Rightarrow> int swb" where
  "ipc_agm_session_stop_bp B W pid h = call B W pid STOP [Handle h]"

definition ipc_agm_session_pause_bp :: "parcel_env \<Rightarrow> swb_env \<Rightarrow> nat \<Rightarrow> nat option \<Rightarrow> int swb" where
  "ipc_agm_session_pause_bp B W pid h = call B W pid PAUSE [Handle h]"

definition ipc_agm_session_resume_bp :: "parcel_env \<Rightarrow> swb_env \<Rightarrow> nat \<Rightarrow> nat option \<Rightarrow> int swb" where
  "ipc_agm_session_resume_bp B W pid h = call B W pid RESUME [Handle h]"

definition ipc_agm_session_audio_inf_connect_bp :: "parcel_env \<Rightarrow> swb_env \<Rightarrow> nat \<Rightarrow> u32 \<Rightarrow> u32 \<Rightarrow> bool \<Rightarrow> int swb" where
  "ipc_agm_session_audio_inf_connect_bp B W pid x a st = call B W pid CONNECT [Int32 x, Int32 a, Raw_bool st]"

text \<open>The count is read as an \<open>int32_t\<close> and becomes a \<open>size_t\<close>.\<close>

definition ipc_agm_get_hw_processed_buff_cnt_bp :: "parcel_env \<Rightarrow> swb_env \<Rightarrow> nat \<Rightarrow> nat option \<Rightarrow> u32 \<Rightarrow> u64 swb" where
  "ipc_agm_get_hw_processed_buff_cnt_bp B W pid h dirn s = do {
     (rep, s) \<leftarrow> transact B W pid GET_BUFF_CNT [Handle h, Int32 dirn] s;
     Some (scast (fst (readInt32 B rep)), s)
   }"

text \<open>The results are the code, the bytes written to the buffer, and the count.\<close>

definition ipc_agm_session_read_bp ::
    "parcel_env \<Rightarrow> swb_env \<Rightarrow> nat \<Rightarrow> nat option \<Rightarrow> u64 \<Rightarrow> (int \<times> u8 list \<times> u64) swb" where
  "ipc_agm_session_read_bp B W pid h cnt s = do {
     (rep, s) \<leftarrow> transact B W pid READ [Handle h, Int32 (ucast cnt)] s;
     let (r, rep) = readInt32 B rep;
     if sint r \<noteq> 0 then Some ((sint r, [], cnt), s)
     else do {
       let (n, rep) = readInt32 B rep;
       case fst (readBlob B (unat n) rep) of
         Some (Bytes bs) \<Rightarrow> Some ((sint r, bs, ucast n), s)
       | _ \<Rightarrow> None
     }
   }"

definition ipc_agm_session_write_bp ::
    "parcel_env \<Rightarrow> swb_env \<Rightarrow> nat \<Rightarrow> nat option \<Rightarrow> u8 list \<Rightarrow> (int \<times> u64) swb" where
  "ipc_agm_session_write_bp B W pid h bs s = do {
     (rep, s) \<leftarrow> transact B W pid WRITE (Handle h # bytes_items bs) s;
     let (n, rep) = readInt32 B rep;
     Some ((read_code B rep, ucast n), s)
   }"

text \<open>The count is written back only when it was zero; otherwise the whole array is overwritten.\<close>

definition ipc_agm_get_aif_info_list_bp ::
    "parcel_env \<Rightarrow> swb_env \<Rightarrow> nat \<Rightarrow> aif_info list option \<Rightarrow> u64 \<Rightarrow> (int \<times> aif_info list option \<times> u64) swb" where
  "ipc_agm_get_aif_info_list_bp B W pid l num s =
     (let cnt = (ucast num :: u32) in
      if l = None \<and> cnt = 0 then do {
        (rep, s) \<leftarrow> transact B W pid GET_AIF_LIST [Int32 cnt, Handle None] s;
        let (n, rep) = readInt32 B rep;
        Some ((read_code B rep, l, scast n), s)
      } else if l \<noteq> None \<and> cnt \<noteq> 0 then do {
        (rep, s) \<leftarrow> transact B W pid GET_AIF_LIST [Int32 cnt, Handle (Some 0)] s;
        let (b, rep) = readBlob B (unat (cnt * 32)) rep;
        case b of Some (Aifs xs) \<Rightarrow> Some ((read_code B rep, Some xs, num), s) | _ \<Rightarrow> None
      } else Some ((- EINVAL, l, num), s))"

definition ipc_agm_session_register_for_events_bp :: "parcel_env \<Rightarrow> swb_env \<Rightarrow> nat \<Rightarrow> u32 \<Rightarrow> agm_event_reg_cfg \<Rightarrow> int swb" where
  "ipc_agm_session_register_for_events_bp B W pid x cfg = call B W pid REG_EVENT
     [Int32 x, Int32 (er_miid cfg), Int32 (er_event_id cfg), Int32 (word_of_nat (length (er_payload cfg))),
      Int32 (ucast (er_is_register cfg)), Int32 (word_of_nat (length (er_payload cfg))), Blob (Bytes (er_payload cfg))]"

text \<open>Every registration gets a new \<open>BnCallback\<close>.\<close>

definition ipc_agm_session_register_cb_bp ::
    "parcel_env \<Rightarrow> swb_env \<Rightarrow> nat \<Rightarrow> u32 \<Rightarrow> nat option \<Rightarrow> event_type \<Rightarrow> nat \<Rightarrow> int swb" where
  "ipc_agm_session_register_cb_bp B W pid x cb ev d s =
     (let b = bnext s; s = s\<lparr>bnext := Suc b, bowner := (bowner s)(b := pid)\<rparr> in
      call B W pid REG_CB [Int32 x, Raw_func cb, Event_type ev, Client_data d, Strong_binder b] s)"

text \<open>\<open>payload\<close> tells whether the client passed a buffer; the size is written back only without one.\<close>

definition ipc_agm_session_aif_get_tag_module_info_bp ::
    "parcel_env \<Rightarrow> swb_env \<Rightarrow> nat \<Rightarrow> u32 \<Rightarrow> u32 \<Rightarrow> bool \<Rightarrow> u64 \<Rightarrow> (int \<times> tag_entry list option \<times> u64) swb" where
  "ipc_agm_session_aif_get_tag_module_info_bp B W pid x a payload sz s =
     (let cnt = (ucast sz :: u32) in
      if \<not> payload then do {
        (rep, s) \<leftarrow> transact B W pid GET_TAG_MODULE_INFO [Handle None, Int32 cnt, Int32 x, Int32 a] s;
        let (n, rep) = readInt32 B rep;
        Some ((read_code B rep, None, scast n), s)
      } else if cnt \<noteq> 0 then do {
        (rep, s) \<leftarrow> transact B W pid GET_TAG_MODULE_INFO [Handle (Some 0), Int32 cnt, Int32 x, Int32 a] s;
        let (b, rep) = readBlob B (unat cnt) rep;
        case b of Some (Tags tags n) \<Rightarrow> Some ((read_code B rep, Some tags, sz), s) | _ \<Rightarrow> None
      } else Some ((- EINVAL, None, sz), s))"

definition ipc_agm_session_aif_set_params_bp :: "parcel_env \<Rightarrow> swb_env \<Rightarrow> nat \<Rightarrow> u32 \<Rightarrow> u32 \<Rightarrow> u8 list \<Rightarrow> int swb" where
  "ipc_agm_session_aif_set_params_bp B W pid x a bs = call B W pid SESSION_AIF_SET_PARAMS 
     (Int32 x # Int32 a # bytes_items bs)"

definition ipc_agm_aif_set_params_bp :: "parcel_env \<Rightarrow> swb_env \<Rightarrow> nat \<Rightarrow> u32 \<Rightarrow> u8 list \<Rightarrow> int swb" where
  "ipc_agm_aif_set_params_bp B W pid a bs = call B W pid AIF_SET_PARAMS (Int32 a # bytes_items bs)"

definition ipc_agm_session_set_params_bp :: "parcel_env \<Rightarrow> swb_env \<Rightarrow> nat \<Rightarrow> u32 \<Rightarrow> u8 list \<Rightarrow> int swb" where
  "ipc_agm_session_set_params_bp B W pid x bs = call B W pid SESSION_SET_PARAMS (Int32 x # bytes_items bs)"

text \<open>The size of the key values is computed with 32 bits; \<open>memcpy\<close> takes as many bytes.\<close>

definition kvs_blob :: "agm_key_value list \<Rightarrow> item" where
  "kvs_blob es = Blob (Kvs (take (unat (8 * word_of_nat (length es) :: u32) div 8) es))"

definition ipc_agm_set_params_with_tag_bp :: "parcel_env \<Rightarrow> swb_env \<Rightarrow> nat \<Rightarrow> u32 \<Rightarrow> u32 \<Rightarrow> agm_tag_config \<Rightarrow> int swb" where
  "ipc_agm_set_params_with_tag_bp B W pid x a tc = call B W pid SET_PARAMS_WITH_TAG 
     [Int32 x, Int32 a, Int32 (tc_tag tc), Int32 (word_of_nat (length (tc_kv tc))), kvs_blob (tc_kv tc)]"

definition ipc_agm_session_eos_bp :: "parcel_env \<Rightarrow> swb_env \<Rightarrow> nat \<Rightarrow> nat option \<Rightarrow> int swb" where
  "ipc_agm_session_eos_bp B W pid h = call B W pid EOS [Handle h]"

definition ipc_agm_get_session_time_bp :: "parcel_env \<Rightarrow> swb_env \<Rightarrow> nat \<Rightarrow> nat option \<Rightarrow> u64 \<Rightarrow> (int \<times> u64) swb" where
  "ipc_agm_get_session_time_bp B W pid h ts s = do {
     (rep, s) \<leftarrow> transact B W pid GET_SESSION_TIME [Handle h, Int64 ts] s;
     let (t, rep) = readInt64 B rep;
     Some ((read_code B rep, t), s)
   }"

definition ipc_agm_session_set_ec_ref_bp :: "parcel_env \<Rightarrow> swb_env \<Rightarrow> nat \<Rightarrow> u32 \<Rightarrow> u32 \<Rightarrow> bool \<Rightarrow> int swb" where
  "ipc_agm_session_set_ec_ref_bp B W pid x a st = call B W pid SET_ECREF [Int32 x, Int32 a, Raw_bool st]"

definition ipc_agm_session_aif_set_cal_bp :: "parcel_env \<Rightarrow> swb_env \<Rightarrow> nat \<Rightarrow> u32 \<Rightarrow> u32 \<Rightarrow> agm_key_value list \<Rightarrow> int swb" where
  "ipc_agm_session_aif_set_cal_bp B W pid x a es = call B W pid SET_CALIBRATION 
     [Int32 x, Int32 a, Int32 (word_of_nat (length es)), kvs_blob es]"

definition ipc_agm_session_get_params_bp :: "parcel_env \<Rightarrow> swb_env \<Rightarrow> nat \<Rightarrow> u32 \<Rightarrow> u8 list \<Rightarrow> (int \<times> u8 list) swb" where
  "ipc_agm_session_get_params_bp B W pid x bs s = do {
     (rep, s) \<leftarrow> transact B W pid GET_PARAMS (Int32 x # bytes_items bs) s;
     let (b, rep) = readBlob B (length bs) rep;
     case b of Some (Bytes bs) \<Rightarrow> Some ((read_code B rep, bs), s) | _ \<Rightarrow> None
   }"

definition ipc_agm_get_buffer_timestamp_bp :: "parcel_env \<Rightarrow> swb_env \<Rightarrow> nat \<Rightarrow> u32 \<Rightarrow> (int \<times> u64) swb" where
  "ipc_agm_get_buffer_timestamp_bp B W pid x s = do {
     (rep, s) \<leftarrow> transact B W pid BUF_TSTAMP [Int32 x] s;
     let (t, rep) = readInt64 B rep;
     Some ((read_code B rep, t), s)
   }"

section \<open>The client library\<close>

definition upd_wproc :: "nat \<Rightarrow> (swb_proc \<Rightarrow> swb_proc) \<Rightarrow> swb_state \<Rightarrow> swb_state" where
  "upd_wproc pid f s = s\<lparr>wprocs := (wprocs s)(pid := f (wprocs s pid))\<rparr>"

text \<open>
  \<open>interface_cast\<close> makes the proxy. Without a service the code calls \<open>linkToDeath\<close> of a NULL binder, or
  later a function of a NULL proxy.
\<close>

definition get_agm_server_sw :: "parcel_env \<Rightarrow> swb_env \<Rightarrow> nat \<Rightarrow> unit swb" where
  "get_agm_server_sw B W pid s =
     (if wp_client (wprocs s pid) \<noteq> None then Some ((), s)
      else if \<not> wservice W (wtick s) then None
      else do {
        (b, s) \<leftarrow> BpAgmService B W pid (s\<lparr>wtick := Suc (wtick s)\<rparr>);
        Some ((), upd_wproc pid (\<lambda>c. c\<lparr>wp_client := Some b, wp_notifier := True\<rparr>) s)
      })"

definition binderDied_server :: "nat \<Rightarrow> swb_state \<Rightarrow> swb_state" where
  "binderDied_server pid = upd_wproc pid (\<lambda>c. c\<lparr>wp_server_died := True\<rparr>)"

text \<open>The frame of every function.\<close>

definition forward_sw :: "parcel_env \<Rightarrow> swb_env \<Rightarrow> nat \<Rightarrow> 'a \<Rightarrow> 'a swb \<Rightarrow> 'a swb" where
  "forward_sw B W pid err f s =
     (if wp_server_died (wprocs s pid) then Some (err, s)
      else do { (_, s) \<leftarrow> get_agm_server_sw B W pid s; f s })"

definition agm_init_sw :: int where
  "agm_init_sw = 0"

definition agm_deinit_sw :: int where
  "agm_deinit_sw = 0"

definition agm_aif_set_media_config_sw ::
    "parcel_env \<Rightarrow> swb_env \<Rightarrow> nat \<Rightarrow> u32 \<Rightarrow> agm_media_config \<Rightarrow> int swb" where
  "agm_aif_set_media_config_sw B W pid a mc = forward_sw B W pid (- EAGAIN) (ipc_agm_audio_intf_set_media_config_bp B W pid a mc)"

definition agm_session_set_config_sw ::
    "parcel_env \<Rightarrow> swb_env \<Rightarrow> nat \<Rightarrow> nat option \<Rightarrow> agm_session_config \<Rightarrow> agm_media_config \<Rightarrow> agm_buffer_config \<Rightarrow> int swb" where
  "agm_session_set_config_sw B W pid h sc mc bc = forward_sw B W pid (- EAGAIN) (ipc_agm_session_set_config_bp B W pid h sc mc bc)"

definition agm_aif_set_metadata_sw ::
    "parcel_env \<Rightarrow> swb_env \<Rightarrow> nat \<Rightarrow> u32 \<Rightarrow> u8 list \<Rightarrow> int swb" where
  "agm_aif_set_metadata_sw B W pid a bs = forward_sw B W pid (- EAGAIN) (ipc_agm_audio_intf_set_metadata_bp B W pid a bs)"

definition agm_session_set_metadata_sw ::
    "parcel_env \<Rightarrow> swb_env \<Rightarrow> nat \<Rightarrow> u32 \<Rightarrow> u8 list \<Rightarrow> int swb" where
  "agm_session_set_metadata_sw B W pid x bs = forward_sw B W pid (- EAGAIN) (ipc_agm_session_set_metadata_bp B W pid x bs)"

definition agm_session_aif_set_metadata_sw ::
    "parcel_env \<Rightarrow> swb_env \<Rightarrow> nat \<Rightarrow> u32 \<Rightarrow> u32 \<Rightarrow> u8 list \<Rightarrow> int swb" where
  "agm_session_aif_set_metadata_sw B W pid x a bs = forward_sw B W pid (- EAGAIN) (ipc_agm_session_audio_inf_set_metadata_bp B W pid x a bs)"

definition agm_session_close_sw ::
    "parcel_env \<Rightarrow> swb_env \<Rightarrow> nat \<Rightarrow> nat option \<Rightarrow> int swb" where
  "agm_session_close_sw B W pid h = forward_sw B W pid (- EAGAIN) (ipc_agm_session_close_bp B W pid h)"

definition agm_session_prepare_sw ::
    "parcel_env \<Rightarrow> swb_env \<Rightarrow> nat \<Rightarrow> nat option \<Rightarrow> int swb" where
  "agm_session_prepare_sw B W pid h = forward_sw B W pid (- EAGAIN) (ipc_agm_session_prepare_bp B W pid h)"

definition agm_session_start_sw ::
    "parcel_env \<Rightarrow> swb_env \<Rightarrow> nat \<Rightarrow> nat option \<Rightarrow> int swb" where
  "agm_session_start_sw B W pid h = forward_sw B W pid (- EAGAIN) (ipc_agm_session_start_bp B W pid h)"

definition agm_session_stop_sw ::
    "parcel_env \<Rightarrow> swb_env \<Rightarrow> nat \<Rightarrow> nat option \<Rightarrow> int swb" where
  "agm_session_stop_sw B W pid h = forward_sw B W pid (- EAGAIN) (ipc_agm_session_stop_bp B W pid h)"

definition agm_session_pause_sw ::
    "parcel_env \<Rightarrow> swb_env \<Rightarrow> nat \<Rightarrow> nat option \<Rightarrow> int swb" where
  "agm_session_pause_sw B W pid h = forward_sw B W pid (- EAGAIN) (ipc_agm_session_pause_bp B W pid h)"

definition agm_session_resume_sw ::
    "parcel_env \<Rightarrow> swb_env \<Rightarrow> nat \<Rightarrow> nat option \<Rightarrow> int swb" where
  "agm_session_resume_sw B W pid h = forward_sw B W pid (- EAGAIN) (ipc_agm_session_resume_bp B W pid h)"

definition agm_session_open_sw :: "parcel_env \<Rightarrow> swb_env \<Rightarrow> nat \<Rightarrow> u32 \<Rightarrow> (int \<times> nat option option) swb" where
  "agm_session_open_sw B W pid x = forward_sw B W pid (- EAGAIN, None) (\<lambda>s. do {
     ((ret, h), s) \<leftarrow> ipc_agm_session_open_bp B W pid x s; Some ((ret, Some h), s) })"

definition agm_session_aif_connect_sw ::
    "parcel_env \<Rightarrow> swb_env \<Rightarrow> nat \<Rightarrow> u32 \<Rightarrow> u32 \<Rightarrow> bool \<Rightarrow> int swb" where
  "agm_session_aif_connect_sw B W pid x a st = forward_sw B W pid (- EAGAIN) (ipc_agm_session_audio_inf_connect_bp B W pid x a st)"

definition agm_session_read_sw ::
    "parcel_env \<Rightarrow> swb_env \<Rightarrow> nat \<Rightarrow> nat option \<Rightarrow> u64 \<Rightarrow> (int \<times> u8 list \<times> u64) swb" where
  "agm_session_read_sw B W pid h cnt = forward_sw B W pid (- EAGAIN, [], cnt) (\<lambda>s.
     if h = None then Some ((- EINVAL, [], cnt), s) else ipc_agm_session_read_bp B W pid h cnt s)"

definition agm_session_write_sw ::
    "parcel_env \<Rightarrow> swb_env \<Rightarrow> nat \<Rightarrow> nat option \<Rightarrow> u8 list \<Rightarrow> (int \<times> u64) swb" where
  "agm_session_write_sw B W pid h bs = forward_sw B W pid (- EAGAIN, word_of_nat (length bs)) (\<lambda>s.
     if h = None then Some ((- EINVAL, word_of_nat (length bs)), s) else ipc_agm_session_write_bp B W pid h bs s)"

definition agm_session_set_loopback_sw ::
    "parcel_env \<Rightarrow> swb_env \<Rightarrow> nat \<Rightarrow> u32 \<Rightarrow> u32 \<Rightarrow> bool \<Rightarrow> int swb" where
  "agm_session_set_loopback_sw B W pid x y st = forward_sw B W pid (- EAGAIN) (ipc_agm_session_set_loopback_bp B W pid x y st)"

definition agm_get_hw_processed_buff_cnt_sw ::
    "parcel_env \<Rightarrow> swb_env \<Rightarrow> nat \<Rightarrow> nat option \<Rightarrow> u32 \<Rightarrow> u64 swb" where
  "agm_get_hw_processed_buff_cnt_sw B W pid h dirn = forward_sw B W pid (word_of_int (- EAGAIN)) (ipc_agm_get_hw_processed_buff_cnt_bp B W pid h dirn)"

definition agm_get_aif_info_list_sw ::
    "parcel_env \<Rightarrow> swb_env \<Rightarrow> nat \<Rightarrow> aif_info list option \<Rightarrow> u64 \<Rightarrow> (int \<times> aif_info list option \<times> u64) swb" where
  "agm_get_aif_info_list_sw B W pid l num = forward_sw B W pid (- EAGAIN, l, num) (ipc_agm_get_aif_info_list_bp B W pid l num)"

definition agm_session_aif_get_tag_module_info_sw ::
    "parcel_env \<Rightarrow> swb_env \<Rightarrow> nat \<Rightarrow> u32 \<Rightarrow> u32 \<Rightarrow> bool \<Rightarrow> u64 \<Rightarrow> (int \<times> tag_entry list option \<times> u64) swb" where
  "agm_session_aif_get_tag_module_info_sw B W pid x a payload sz = forward_sw B W pid (- EAGAIN, None, sz) (ipc_agm_session_aif_get_tag_module_info_bp B W pid x a payload sz)"

definition agm_aif_set_params_sw ::
    "parcel_env \<Rightarrow> swb_env \<Rightarrow> nat \<Rightarrow> u32 \<Rightarrow> u8 list \<Rightarrow> int swb" where
  "agm_aif_set_params_sw B W pid a bs = forward_sw B W pid (- EAGAIN) (ipc_agm_aif_set_params_bp B W pid a bs)"

definition agm_session_aif_set_params_sw ::
    "parcel_env \<Rightarrow> swb_env \<Rightarrow> nat \<Rightarrow> u32 \<Rightarrow> u32 \<Rightarrow> u8 list \<Rightarrow> int swb" where
  "agm_session_aif_set_params_sw B W pid x a bs = forward_sw B W pid (- EAGAIN) (ipc_agm_session_aif_set_params_bp B W pid x a bs)"

definition agm_session_set_params_sw ::
    "parcel_env \<Rightarrow> swb_env \<Rightarrow> nat \<Rightarrow> u32 \<Rightarrow> u8 list \<Rightarrow> int swb" where
  "agm_session_set_params_sw B W pid x bs = forward_sw B W pid (- EAGAIN) (ipc_agm_session_set_params_bp B W pid x bs)"

definition agm_set_params_with_tag_sw ::
    "parcel_env \<Rightarrow> swb_env \<Rightarrow> nat \<Rightarrow> u32 \<Rightarrow> u32 \<Rightarrow> agm_tag_config \<Rightarrow> int swb" where
  "agm_set_params_with_tag_sw B W pid x a tc = forward_sw B W pid (- EAGAIN) (ipc_agm_set_params_with_tag_bp B W pid x a tc)"

definition agm_session_register_for_events_sw ::
    "parcel_env \<Rightarrow> swb_env \<Rightarrow> nat \<Rightarrow> u32 \<Rightarrow> agm_event_reg_cfg \<Rightarrow> int swb" where
  "agm_session_register_for_events_sw B W pid x cfg = forward_sw B W pid (- EAGAIN) (ipc_agm_session_register_for_events_bp B W pid x cfg)"

definition agm_session_register_cb_sw ::
    "parcel_env \<Rightarrow> swb_env \<Rightarrow> nat \<Rightarrow> u32 \<Rightarrow> nat option \<Rightarrow> event_type \<Rightarrow> nat \<Rightarrow> int swb" where
  "agm_session_register_cb_sw B W pid x cb ev d = forward_sw B W pid (- EAGAIN) (ipc_agm_session_register_cb_bp B W pid x cb ev d)"

definition agm_session_set_ec_ref_sw ::
    "parcel_env \<Rightarrow> swb_env \<Rightarrow> nat \<Rightarrow> u32 \<Rightarrow> u32 \<Rightarrow> bool \<Rightarrow> int swb" where
  "agm_session_set_ec_ref_sw B W pid x a st = forward_sw B W pid (- EAGAIN) (ipc_agm_session_set_ec_ref_bp B W pid x a st)"

definition agm_session_aif_set_cal_sw ::
    "parcel_env \<Rightarrow> swb_env \<Rightarrow> nat \<Rightarrow> u32 \<Rightarrow> u32 \<Rightarrow> agm_key_value list \<Rightarrow> int swb" where
  "agm_session_aif_set_cal_sw B W pid x a es = forward_sw B W pid (- EAGAIN) (ipc_agm_session_aif_set_cal_bp B W pid x a es)"

definition agm_session_eos_sw ::
    "parcel_env \<Rightarrow> swb_env \<Rightarrow> nat \<Rightarrow> nat option \<Rightarrow> int swb" where
  "agm_session_eos_sw B W pid h = forward_sw B W pid (- EAGAIN) (ipc_agm_session_eos_bp B W pid h)"

definition agm_get_session_time_sw ::
    "parcel_env \<Rightarrow> swb_env \<Rightarrow> nat \<Rightarrow> nat option \<Rightarrow> u64 \<Rightarrow> (int \<times> u64) swb" where
  "agm_get_session_time_sw B W pid h ts = forward_sw B W pid (- EAGAIN, ts) (ipc_agm_get_session_time_bp B W pid h ts)"

definition agm_session_get_params_sw ::
    "parcel_env \<Rightarrow> swb_env \<Rightarrow> nat \<Rightarrow> u32 \<Rightarrow> u8 list \<Rightarrow> (int \<times> u8 list) swb" where
  "agm_session_get_params_sw B W pid x bs = forward_sw B W pid (- EAGAIN, bs) (ipc_agm_session_get_params_bp B W pid x bs)"

definition agm_get_buffer_timestamp_sw ::
    "parcel_env \<Rightarrow> swb_env \<Rightarrow> nat \<Rightarrow> u32 \<Rightarrow> u64 \<Rightarrow> (int \<times> u64) swb" where
  "agm_get_buffer_timestamp_sw B W pid x ts = forward_sw B W pid (- EAGAIN, ts) (ipc_agm_get_buffer_timestamp_bp B W pid x)"

end
