(* ===== verification/Agm_Swb_Props.thy ===== *)
theory Agm_Swb_Props
  imports Agm_Swb_Client Agm_Hidl_Death
begin

text \<open>
  The SwBinder transport. A request of a connected client has the effect on the service, and the
  code in 32 bits, of the same request made in the service's process, except that a callback of the
  server is registered whatever the client asks for; an event goes to the first record of its
  session and data; the death of a client closes the sessions that the server has recorded for it;
  some codes of a server without memory do not reach the client.
\<close>

section \<open>Parcels\<close>

lemma parcel_okD:
  assumes "parcel_ok B"
  shows "checkInterface B (Token # is) = is" "readInt32 B (Int32 v # is) = (v, is)" "readInt32 B [] = (0, [])"
    "readInt32 B (Raw_bool b # is) = (of_bool b, is)" "readInt64 B (Int64 t # is) = (t, is)"
    "readHandle B (Handle h # is) = (h, is)" "readClientData B (Client_data d # is) = (d, is)"
    "readEventType B (Event_type e # is) = (e, is)" "readFunc B (Raw_func f # is) = (f, is)"
    "readBlob B (blob_size bl) (Blob bl # is) = (Some bl, is)"
    "readStrongBinder B (Strong_binder n # is) = (n, is)" "replyOf B 0 r = r" "st \<noteq> 0 \<Longrightarrow> replyOf B st r = []"
  using assms unfolding parcel_ok_def by simp_all

text \<open>The size with which a blob is read, as the code computes it.\<close>

lemma parcel_ok_blob:
  assumes "parcel_ok B"
  shows "length bs = n \<Longrightarrow> readBlob B n (Blob (Bytes bs) # is) = (Some (Bytes bs), is)"
    "readBlob B 16 (Blob (Media mc) # is) = (Some (Media mc), is)"
    "readBlob B 52 (Blob (Session_cfg sc) # is) = (Some (Session_cfg sc), is)"
    "readBlob B 16 (Blob (Buffer_cfg bc) # is) = (Some (Buffer_cfg bc), is)"
    "n = 8 * length es \<Longrightarrow> readBlob B n (Blob (Kvs es) # is) = (Some (Kvs es), is)"
  using parcel_okD(10) [OF assms, of "Bytes bs" "is"] parcel_okD(10) [OF assms, of "Media mc" "is"]
    parcel_okD(10) [OF assms, of "Session_cfg sc" "is"] parcel_okD(10) [OF assms, of "Buffer_cfg bc" "is"]
    parcel_okD(10) [OF assms, of "Kvs es" "is"] by simp_all

lemmas parcel_simps = parcel_okD(1-9,11-13) parcel_ok_blob

section \<open>A connected client\<close>

text \<open>A client that has its proxy has registered itself.\<close>

definition swb_connected :: "swb_env \<Rightarrow> nat \<Rightarrow> swb_state \<Rightarrow> bool" where
  "swb_connected W pid s \<longleftrightarrow> \<not> wp_server_died (wprocs s pid)
     \<and> (if wp_client (wprocs s pid) = None then wservice W (wtick s) else g_client_list s \<noteq> None)"

definition swb_memory :: "swb_env \<Rightarrow> bool" where
  "swb_memory W \<longleftrightarrow> (\<forall>n. walloc W n)"

lemma w_alloc_succeeds: "swb_memory W \<Longrightarrow> w_alloc W s = (True, s\<lparr>wtick := Suc (wtick s)\<rparr>)"
  by (simp add: swb_memory_def w_alloc_def)

definition sw_reach :: "parcel_env \<Rightarrow> swb_env \<Rightarrow> nat \<Rightarrow> swb_state \<Rightarrow> swb_state" where
  "sw_reach B W pid s = snd (the (get_agm_server_sw B W pid s))"

lemma register_client_frame [simp]:
  "wsvc (agm_register_client W pid b s) = wsvc s" "swb_clbk_list (agm_register_client W pid b s) = swb_clbk_list s"
  "wcalls (agm_register_client W pid b s) = wcalls s" "\<exists>cs. g_client_list (agm_register_client W pid b s) = Some cs"
  by (simp_all add: agm_register_client_def w_alloc_def Let_def)

lemma get_server_connected:
  assumes "swb_connected W pid s"
  shows "get_agm_server_sw B W pid s = Some ((), sw_reach B W pid s)"
    and "wsvc (sw_reach B W pid s) = wsvc s" "swb_clbk_list (sw_reach B W pid s) = swb_clbk_list s"
    and "wcalls (sw_reach B W pid s) = wcalls s" "\<exists>cs. g_client_list (sw_reach B W pid s) = Some cs"
  using assms
  by (auto simp: swb_connected_def sw_reach_def get_agm_server_sw_def BpAgmService_def transact_def onTransact_def
      on_reg_client_def upd_wproc_def Let_def split: prod.splits)

lemma forward_sw_connected: "swb_connected W pid s \<Longrightarrow> forward_sw B W pid err f s = f (sw_reach B W pid s)"
  using get_server_connected(1) [of W pid s B] by (simp add: forward_sw_def swb_connected_def)

interpretation swb: transport wsvc "\<lambda>t s. s\<lparr>wsvc := t\<rparr>"
  by unfold_locales simp

text \<open>A code as the client gets it.\<close>

definition code32 :: "int \<Rightarrow> int" where
  "code32 r = sint (to_int32 r)"

lemma code32_exact: "- (2 ^ 31) \<le> r \<Longrightarrow> r < 2 ^ 31 \<Longrightarrow> code32 r = r"
  by (simp add: code32_def to_int32_def signed_of_int signed_take_bit_int_eq_self)

lemma view_reply:
  assumes "parcel_ok B"
  shows "view wsvc (do { ((st, rep), s) \<leftarrow> w_reply m s; Some (read_code B (replyOf B st rep), s) })
    = map_option (\<lambda>(r, t). (code32 r, t)) (m (wsvc s))"
  by (cases "m (wsvc s)") (auto simp: w_reply_def w_agm_def read_code_def parcel_simps [OF assms] code32_def)

section \<open>A request through the transport\<close>

definition w_code :: "('a \<Rightarrow> int) \<Rightarrow> 'a swb \<Rightarrow> int swb" where
  "w_code f m s = do { (r, s) \<leftarrow> m s; Some (f r, s) }"

text \<open>The library has no query of the buffers.\<close>

fun swb_serve :: "parcel_env \<Rightarrow> swb_env \<Rightarrow> nat \<Rightarrow> request \<Rightarrow> int swb" where
  "swb_serve B W pid (Aif_set_metadata a m) = agm_aif_set_metadata_sw B W pid a m"
| "swb_serve B W pid (Aif_set_media_config a c) =
     (case c of None \<Rightarrow> (\<lambda>s. None) | Some mc \<Rightarrow> agm_aif_set_media_config_sw B W pid a mc)"
| "swb_serve B W pid (Aif_set_params a m) = agm_aif_set_params_sw B W pid a m"
| "swb_serve B W pid (Session_set_metadata x m) = agm_session_set_metadata_sw B W pid x m"
| "swb_serve B W pid (Session_aif_set_metadata x a m) = agm_session_aif_set_metadata_sw B W pid x a m"
| "swb_serve B W pid (Session_aif_get_tag_module_info x a b) =
     w_code fst (agm_session_aif_get_tag_module_info_sw B W pid x a b 0)"
| "swb_serve B W pid (Session_aif_set_cal x a c) = agm_session_aif_set_cal_sw B W pid x a c"
| "swb_serve B W pid (Session_aif_set_params x a m) = agm_session_aif_set_params_sw B W pid x a m"
| "swb_serve B W pid (Session_get_params x m) = w_code fst (agm_session_get_params_sw B W pid x m)"
| "swb_serve B W pid (Session_set_params x m) = agm_session_set_params_sw B W pid x m"
| "swb_serve B W pid (Set_params_with_tag x a c) = agm_set_params_with_tag_sw B W pid x a c"
| "swb_serve B W pid (Session_register_cb x cb t d) = agm_session_register_cb_sw B W pid x cb t d"
| "swb_serve B W pid (Session_register_for_events x c) =
     (case c of None \<Rightarrow> (\<lambda>s. None) | Some cfg \<Rightarrow> agm_session_register_for_events_sw B W pid x cfg)"
| "swb_serve B W pid (Session_aif_connect x a b) = agm_session_aif_connect_sw B W pid x a b"
| "swb_serve B W pid (Session_set_loopback x y b) = agm_session_set_loopback_sw B W pid x y b"
| "swb_serve B W pid (Session_set_ec_ref x a b) = agm_session_set_ec_ref_sw B W pid x a b"
| "swb_serve B W pid (Session_get_buf_info x i f) = (\<lambda>s. None)"
| "swb_serve B W pid (Get_buffer_timestamp x b) =
     (if b then w_code fst (agm_get_buffer_timestamp_sw B W pid x 0) else (\<lambda>s. None))"
| "swb_serve B W pid (Session_open x b) =
     (if b then w_code fst (agm_session_open_sw B W pid x) else (\<lambda>s. None))"
| "swb_serve B W pid (Session_set_config h sc mc bc) = agm_session_set_config_sw B W pid h sc mc bc"
| "swb_serve B W pid (Session_prepare h) = agm_session_prepare_sw B W pid h"
| "swb_serve B W pid (Session_start h) = agm_session_start_sw B W pid h"
| "swb_serve B W pid (Session_stop h) = agm_session_stop_sw B W pid h"
| "swb_serve B W pid (Session_close h) = agm_session_close_sw B W pid h"
| "swb_serve B W pid (Session_pause h) = agm_session_pause_sw B W pid h"
| "swb_serve B W pid (Session_resume h) = agm_session_resume_sw B W pid h"
| "swb_serve B W pid (Session_write h bs) = w_code fst (agm_session_write_sw B W pid h bs)"
| "swb_serve B W pid (Session_read h n) = w_code fst (agm_session_read_sw B W pid h (word_of_nat n))"
| "swb_serve B W pid (Session_eos h) = agm_session_eos_sw B W pid h"
| "swb_serve B W pid (Get_session_time h b) =
     (if b then w_code fst (agm_get_session_time_sw B W pid h 0) else (\<lambda>s. None))"
| "swb_serve B W pid (Graph_event ev c) = (\<lambda>s. None)"

text \<open>What the transport carries without loss; the key values have eight bytes each.\<close>

definition fits :: "request \<Rightarrow> bool" where
  "fits q \<longleftrightarrow> (case q of
       Aif_set_metadata a m \<Rightarrow> length m < 2 ^ 32
     | Aif_set_media_config a c \<Rightarrow> c \<noteq> None
     | Aif_set_params a m \<Rightarrow> length m < 2 ^ 32
     | Session_set_metadata x m \<Rightarrow> length m < 2 ^ 32
     | Session_aif_set_metadata x a m \<Rightarrow> length m < 2 ^ 32
     | Session_aif_get_tag_module_info x a b \<Rightarrow> \<not> b
     | Session_aif_set_cal x a c \<Rightarrow> length c < 2 ^ 29
     | Session_aif_set_params x a m \<Rightarrow> length m < 2 ^ 32
     | Session_get_params x m \<Rightarrow> length m < 2 ^ 32
     | Session_set_params x m \<Rightarrow> length m < 2 ^ 32
     | Set_params_with_tag x a c \<Rightarrow> length (tc_kv c) < 2 ^ 29
     | Session_register_for_events x c \<Rightarrow> (case c of None \<Rightarrow> False | Some cfg \<Rightarrow> length (er_payload cfg) < 2 ^ 32)
     | Session_get_buf_info x i f \<Rightarrow> False
     | Get_buffer_timestamp x b \<Rightarrow> b
     | Session_open x b \<Rightarrow> b
     | Session_write h bs \<Rightarrow> length bs < 2 ^ 32
     | Session_read h n \<Rightarrow> n < 2 ^ 32
     | Get_session_time h b \<Rightarrow> b
     | Graph_event ev c \<Rightarrow> False
     | _ \<Rightarrow> True)"

text \<open>The request that the service gets.\<close>

definition swb_request :: "swb_env \<Rightarrow> request \<Rightarrow> request" where
  "swb_request W q = (case q of Session_register_cb x cb t d \<Rightarrow> Session_register_cb x (Some (wcb W)) t d | _ \<Rightarrow> q)"

text \<open>GSL reports no more bytes than it was asked for.\<close>

definition gsl_bounded :: "env \<Rightarrow> bool" where
  "gsl_bounded E \<longleftrightarrow> gsl_fills E \<and> (\<forall>h g ep n. rsize (ext E h (Gsl_read g ep n)) \<le> n)"

lemma read_size:
  "gsl_bounded E \<Longrightarrow> agm_session_read E h n t = Some ((ret, cnt, bs), t') \<Longrightarrow> cnt \<le> n"
  by (auto simp: gsl_bounded_def agm_session_read_def with_handle_def session_obj_read_def graph_read_def
      xcall_def split: if_splits option.splits bind_splits)

section \<open>The cases of the dispatch\<close>

lemma unat_len32: "n < 2 ^ 32 \<Longrightarrow> unat (word_of_nat n :: u32) = n"
  by (simp add: unat_of_nat take_bit_nat_eq_self)

lemma call_transact:
  "call B W pid tc data s
    = do { ((st, rep), s) \<leftarrow> onTransact B W pid tc (Token # data) s; Some (read_code B (replyOf B st rep), s) }"
  by (cases "onTransact B W pid tc (Token # data) s") (auto simp: call_def transact_def)

lemmas sw_calls = agm_aif_set_media_config_sw_def agm_session_set_config_sw_def agm_aif_set_metadata_sw_def
  agm_session_set_metadata_sw_def agm_session_aif_set_metadata_sw_def agm_session_close_sw_def agm_session_prepare_sw_def
  agm_session_start_sw_def agm_session_stop_sw_def agm_session_pause_sw_def agm_session_resume_sw_def
  agm_session_aif_connect_sw_def agm_session_set_loopback_sw_def agm_aif_set_params_sw_def
  agm_session_aif_set_params_sw_def agm_session_set_params_sw_def agm_set_params_with_tag_sw_def
  agm_session_register_for_events_sw_def agm_session_register_cb_sw_def agm_session_set_ec_ref_sw_def
  agm_session_aif_set_cal_sw_def agm_session_eos_sw_def

lemmas bp_calls = ipc_agm_audio_intf_set_media_config_bp_def ipc_agm_session_set_config_bp_def
  ipc_agm_audio_intf_set_metadata_bp_def ipc_agm_session_set_metadata_bp_def ipc_agm_session_audio_inf_set_metadata_bp_def
  ipc_agm_session_close_bp_def ipc_agm_session_prepare_bp_def ipc_agm_session_start_bp_def ipc_agm_session_stop_bp_def
  ipc_agm_session_pause_bp_def ipc_agm_session_resume_bp_def ipc_agm_session_audio_inf_connect_bp_def
  ipc_agm_session_set_loopback_bp_def ipc_agm_aif_set_params_bp_def ipc_agm_session_aif_set_params_bp_def
  ipc_agm_session_set_params_bp_def ipc_agm_set_params_with_tag_bp_def ipc_agm_session_register_for_events_bp_def
  ipc_agm_session_set_ec_ref_bp_def ipc_agm_session_aif_set_cal_bp_def ipc_agm_session_eos_bp_def

lemmas on_cases = on_handle_def on_loopback_def on_connect_def on_set_ecref_def on_set_media_config_def
  on_session_set_config_def on_bytes_def on_session_set_meta_def on_session_audio_intf_set_meta_def
  on_audio_intf_set_meta_def on_session_aif_set_params_def on_aif_set_params_def on_session_set_params_def
  on_kvs_def on_set_params_with_tag_def on_set_calibration_def on_reg_event_def

lemmas sv_calls = sv_agm_init_def sv_agm_audio_intf_set_metadata_def sv_agm_session_set_metadata_def
  sv_agm_session_audio_inf_set_metadata_def sv_agm_session_close_def sv_agm_session_prepare_def sv_agm_session_start_def
  sv_agm_session_stop_def sv_agm_session_pause_def sv_agm_session_resume_def sv_agm_session_set_loopback_def
  sv_agm_aif_set_params_def sv_agm_session_aif_set_params_def sv_agm_session_set_params_def sv_agm_set_params_with_tag_def
  sv_agm_session_set_config_def sv_agm_session_audio_inf_connect_def sv_agm_audio_intf_set_media_config_def
  sv_agm_session_register_for_events_def sv_agm_session_register_cb_def sv_agm_session_set_ec_ref_def sv_agm_session_eos_def
  sv_agm_session_read_def sv_agm_session_write_def sv_agm_session_aif_get_tag_module_info_def sv_agm_session_open_def
  sv_agm_get_session_time_def sv_agm_session_get_params_def sv_agm_get_buffer_timestamp_def

lemma kvs_size:
  assumes "length es < 2 ^ 29"
  shows "unat (word_of_nat (length es) * 8 :: u32) = 8 * length es" "unat (8 * word_of_nat (length es) :: u32) = 8 * length es"
proof -
  have "(word_of_nat (length es) * 8 :: u32) = word_of_nat (8 * length es)" by simp
  moreover have "unat (word_of_nat (8 * length es) :: u32) = 8 * length es"
    using assms by (intro unat_len32) simp
  ultimately show "unat (word_of_nat (length es) * 8 :: u32) = 8 * length es" by metis
  then show "unat (8 * word_of_nat (length es) :: u32) = 8 * length es" by (simp only: mult.commute)
qed

lemma config_eta:
  "\<lparr>tc_tag = tc_tag tc, tc_kv = tc_kv tc\<rparr> = tc"
  "\<lparr>er_miid = er_miid cfg, er_event_id = er_event_id cfg, er_payload = er_payload cfg, er_is_register = er_is_register cfg\<rparr> = cfg"
  by simp_all

lemma ucast_is_register: "ucast (ucast (b :: u8) :: u32) = b"
  by (rule bit_word_eqI) (simp add: bit_simps)

lemmas plain_calls = sw_calls bp_calls call_transact onTransact_def on_cases sv_calls bytes_items_def kvs_blob_def kvs_size
  unat_len32 config_eta ucast_is_register

lemmas transport_simps = forward_sw_connected get_server_connected parcel_simps w_alloc_succeeds view_reply

lemma w_code_forward:
  "swb_connected W pid s \<Longrightarrow> w_code f (forward_sw B W pid err g) s = do { (r, s) \<leftarrow> g (sw_reach B W pid s); Some (f r, s) }"
  by (simp add: w_code_def forward_sw_connected)

lemma w_agm_Some: "w_agm m s = Some (r, s') \<longleftrightarrow> (\<exists>t. m (wsvc s) = Some (r, t) \<and> s' = s\<lparr>wsvc := t\<rparr>)"
  by (auto simp: w_agm_def split: bind_splits)

lemma view_w_agm:
  assumes "\<And>r t. m (wsvc s) = Some (r, t) \<Longrightarrow> view wsvc (k (r, s\<lparr>wsvc := t\<rparr>)) = Some (f r, t)"
  shows "view wsvc (w_agm m s \<bind> k) = code_of f m (wsvc s)"
  using assms by (cases "m (wsvc s)") (auto simp: w_agm_def code_of_def)

lemma wsvc_obj_handle [simp]:
  "agm_add_session_obj_handle W pid h s = Some s' \<Longrightarrow> wsvc s' = wsvc s"
  "agm_remove_session_obj_handle pid h s = Some s' \<Longrightarrow> wsvc s' = wsvc s"
  by (auto simp: agm_add_session_obj_handle_def agm_remove_session_obj_handle_def w_alloc_def Let_def
      split: bind_splits option.splits if_splits)

lemma obj_handle_succeeds:
  assumes "g_client_list s = Some cs"
  shows "agm_add_session_obj_handle W pid h s \<noteq> None" "agm_remove_session_obj_handle pid h s \<noteq> None"
  using assms by (auto simp: agm_add_session_obj_handle_def agm_remove_session_obj_handle_def w_alloc_def Let_def
      split: option.splits)

definition coded :: "(int, agm_state) result \<Rightarrow> (int, agm_state) result" where
  "coded = map_option (\<lambda>(r, t). (code32 r, t))"

lemma coded_bind: "coded (x \<bind> (\<lambda>(r, t). Some (f r, t))) = x \<bind> (\<lambda>(r, t). Some (code32 (f r), t))"
  by (cases x) (auto simp: coded_def)

lemma coded_simps [simp]: "coded None = None" "coded (Some (r, t)) = Some (code32 r, t)"
  by (simp_all add: coded_def)

text \<open>The server's records are changed after the call of the service.\<close>

lemma view_then_records:
  assumes "\<And>r t. k (r, s\<lparr>wsvc := t\<rparr>) \<noteq> None" "\<And>r t s'. k (r, s\<lparr>wsvc := t\<rparr>) = Some s' \<Longrightarrow> wsvc s' = t"
  shows "view wsvc (do { (r, s) \<leftarrow> w_agm m s; s \<leftarrow> k (r, s); Some (code32 (f r), s) }) = coded (code_of f m (wsvc s))"
proof (cases "m (wsvc s)")
  case (Some p)
  obtain r t where p: "p = (r, t)" by (cases p)
  obtain s' where "k (r, s\<lparr>wsvc := t\<rparr>) = Some s'" using assms(1) by blast
  with assms(2) Some p show ?thesis by (auto simp: w_agm_def code_of_def)
qed (simp add: w_agm_def code_of_def)

lemma view_records:
  assumes "swb_connected W pid s" "parcel_ok B"
  shows "view wsvc (swb_serve B W pid (Session_open x True) s) = coded (serve (wenv W) (Session_open x True) (wsvc s))"
    and "view wsvc (swb_serve B W pid (Session_close h) s) = coded (serve (wenv W) (Session_close h) (wsvc s))"
proof -
  let ?s = "sw_reach B W pid s"
  obtain cs where cs: "g_client_list ?s = Some cs" using get_server_connected(5) [OF assms(1)] by blast
  note ok = obj_handle_succeeds [of "?s\<lparr>wsvc := t\<rparr>" cs for t]
  have "view wsvc (swb_serve B W pid (Session_open x True) s) = view wsvc (do {
      (r, s) \<leftarrow> w_agm (agm_session_open (wenv W) x True) ?s;
      s \<leftarrow> (\<lambda>(r, s). if snd r \<noteq> None then agm_add_session_obj_handle W pid (snd r) s else Some s) (r, s);
      Some (code32 (fst r), s) })"
    by (rule arg_cong [where f = "view wsvc"])
      (auto simp: agm_session_open_sw_def w_code_forward [OF assms(1)] ipc_agm_session_open_bp_def transact_def onTransact_def
        on_open_def sv_calls parcel_simps [OF assms(2)] read_code_def code32_def split: bind_splits)
  also have "\<dots> = coded (code_of fst (agm_session_open (wenv W) x True) (wsvc ?s))"
    by (rule view_then_records) (use ok cs in \<open>auto split: if_splits\<close>)
  finally show "view wsvc (swb_serve B W pid (Session_open x True) s) = coded (serve (wenv W) (Session_open x True) (wsvc s))"
    by (simp add: get_server_connected [OF assms(1)])
  have "view wsvc (swb_serve B W pid (Session_close h) s) = view wsvc (do {
      (r, s) \<leftarrow> w_agm (agm_session_close (wenv W) h) ?s;
      s \<leftarrow> (\<lambda>(r, s). agm_remove_session_obj_handle pid h s) (r, s);
      Some (code32 (id r), s) })"
    by (rule arg_cong [where f = "view wsvc"])
      (auto simp: agm_session_close_sw_def forward_sw_connected [OF assms(1)] ipc_agm_session_close_bp_def call_transact
        onTransact_def on_close_def sv_calls parcel_simps [OF assms(2)] read_code_def code32_def split: bind_splits)
  also have "\<dots> = coded (code_of id (agm_session_close (wenv W) h) (wsvc ?s))"
    by (rule view_then_records) (use ok cs in auto)
  finally show "view wsvc (swb_serve B W pid (Session_close h) s) = coded (serve (wenv W) (Session_close h) (wsvc s))"
    by (simp add: get_server_connected [OF assms(1)] code_of_def)
qed

lemma view_with_result:
  assumes "swb_connected W pid s" "parcel_ok B"
  shows "view wsvc (swb_serve B W pid (Session_aif_get_tag_module_info x a False) s)
      = coded (serve (wenv W) (Session_aif_get_tag_module_info x a False) (wsvc s))"
    and "view wsvc (swb_serve B W pid (Get_buffer_timestamp x True) s) = coded (serve (wenv W) (Get_buffer_timestamp x True) (wsvc s))"
    and "view wsvc (swb_serve B W pid (Get_session_time h True) s) = coded (serve (wenv W) (Get_session_time h True) (wsvc s))"
  using assms
  by (auto simp: agm_session_aif_get_tag_module_info_sw_def ipc_agm_session_aif_get_tag_module_info_bp_def
      on_get_tag_module_info_def agm_get_buffer_timestamp_sw_def ipc_agm_get_buffer_timestamp_bp_def on_buf_tstamp_def
      agm_get_session_time_sw_def ipc_agm_get_session_time_bp_def on_get_session_time_def w_code_forward transact_def
      onTransact_def sv_calls parcel_simps read_code_def code32_def w_agm_def code_of_def get_server_connected coded_def
      split: bind_splits option.splits)

lemma code32_EINVAL [simp]: "sint (to_int32 (- 22)) = - 22"
  using code32_exact [of "- 22"] by (simp add: code32_def)

lemma to_int32_0 [simp]: "to_int32 0 = 0"
  by (simp add: to_int32_def)

lemma view_sw_write:
  assumes "swb_connected W pid s" "parcel_ok B" "swb_memory W" "length bs < 2 ^ 32"
  shows "view wsvc (swb_serve B W pid (Session_write h bs) s) = coded (serve (wenv W) (Session_write h bs) (wsvc s))"
  using assms
  by (auto simp: agm_session_write_sw_def w_code_forward ipc_agm_session_write_bp_def transact_def onTransact_def on_write_def
      bytes_items_def unat_len32 sv_calls parcel_simps w_alloc_succeeds read_code_def code32_def w_agm_def code_of_def
      get_server_connected agm_session_write_def [of _ None] with_handle_def [of None] coded_def split: bind_splits)

text \<open>The codes of a read come from the table of the errors, so 32 bits hold them.\<close>

lemma lnx_range: "- 131 \<le> lnx E r \<and> lnx E r \<le> 0"
proof -
  have "\<forall>c \<in> set (map fst ar_err_code_info). - 131 \<le> c \<and> c \<le> 0" by (simp add: ar_err_code_info_def)
  then have "- 131 \<le> fst (nth_default (0, []) ar_err_code_info n) \<and> fst (nth_default (0, []) ar_err_code_info n) \<le> 0" for n
    by (simp add: nth_default_def)
  then show ?thesis by (simp add: lnx_def ar_err_get_lnx_err_code_def)
qed

lemma agm_session_read_code:
  assumes "agm_session_read E h n t = Some ((ret, cnt, bs), t')"
  shows "sint (to_int32 ret) = ret"
proof -
  have "- 131 \<le> ret \<and> ret \<le> 0"
    using assms lnx_range
    by (auto simp: agm_session_read_def with_handle_def session_obj_read_def graph_read_def
        split: if_splits option.splits bind_splits)
  then show ?thesis using code32_exact [of ret] by (simp add: code32_def)
qed

lemma view_sw_read:
  assumes "swb_connected W pid s" "parcel_ok B" "swb_memory W" "gsl_bounded (wenv W)" "n < 2 ^ 32"
  shows "view wsvc (swb_serve B W pid (Session_read h n) s) = coded (serve (wenv W) (Session_read h n) (wsvc s))"
proof (cases "h = None \<or> agm_session_read (wenv W) h n (wsvc s) = None")
  case True
  have "unat (word_of_nat n :: u32) = n" "ucast (word_of_nat n :: u64) = (word_of_nat n :: u32)"
    using assms(5) by (simp_all add: unat_of_nat unsigned_ucast_eq word_unat_eq_iff take_bit_nat_eq_self)
  with True assms(1-3) show ?thesis
    by (auto simp: agm_session_read_sw_def w_code_forward ipc_agm_session_read_bp_def transact_def onTransact_def on_read_def
        sv_calls parcel_simps w_alloc_succeeds w_agm_def code_of_def get_server_connected agm_session_read_def [of _ None]
        with_handle_def [of None] code32_def)
next
  case False
  then obtain p ret cnt bs t where r: "h = Some p" "agm_session_read (wenv W) h n (wsvc s) = Some ((ret, cnt, bs), t)" by auto
  have n: "unat (word_of_nat n :: u32) = n" "ucast (word_of_nat n :: u64) = (word_of_nat n :: u32)"
    using assms(5) by (simp_all add: unat_of_nat unsigned_ucast_eq word_unat_eq_iff take_bit_nat_eq_self)
  have "gsl_fills (wenv W)" using assms(4) by (simp add: gsl_bounded_def)
  with read_length [OF _ r(2)] read_size [OF assms(4) r(2)] have "length bs \<le> n" "cnt \<le> n" by auto
  moreover have "unat (word_of_nat cnt :: u32) = cnt" using \<open>cnt \<le> n\<close> assms(5) by (intro unat_len32) simp
  ultimately show ?thesis
    using r assms(1-3) agm_session_read_code [OF r(2)]
    by (simp add: agm_session_read_sw_def w_code_forward ipc_agm_session_read_bp_def transact_def onTransact_def on_read_def
        n sv_calls parcel_simps w_alloc_succeeds w_agm_def code_of_def get_server_connected code32_def)
qed

lemma view_sw_get_params:
  assumes "swb_connected W pid s" "parcel_ok B" "swb_memory W" "gsl_bounded (wenv W)" "length m < 2 ^ 32"
  shows "view wsvc (swb_serve B W pid (Session_get_params x m) s) = coded (serve (wenv W) (Session_get_params x m) (wsvc s))"
proof -
  have fills: "gsl_fills (wenv W)" using assms(4) by (simp add: gsl_bounded_def)
  show ?thesis
    using assms(1-3,5) get_params_length [OF fills]
    by (auto simp: agm_session_get_params_sw_def w_code_forward ipc_agm_session_get_params_bp_def transact_def onTransact_def
        on_get_params_def bytes_items_def unat_len32 sv_calls parcel_simps w_alloc_succeeds read_code_def code32_def w_agm_def
        code_of_def get_server_connected coded_def split: bind_splits)
qed

lemma view_register_cb:
  assumes "swb_connected W pid s" "parcel_ok B" "swb_memory W"
  shows "view wsvc (swb_serve B W pid (Session_register_cb x cb ev d) s)
    = coded (serve (wenv W) (Session_register_cb x (Some (wcb W)) ev d) (wsvc s))"
  using assms
  by (simp add: agm_session_register_cb_sw_def forward_sw_connected ipc_agm_session_register_cb_bp_def call_transact
      onTransact_def on_reg_cb_def sv_calls parcel_simps w_alloc_succeeds view_reply get_server_connected Let_def coded_def)

text \<open>
  C8: the SwBinder transport is transparent. A request that a connected client makes through the
  client library, and that the transport can carry, leaves the service in the state in which the
  same request made directly leaves it, and returns the same code in 32 bits. The one request that
  arrives changed is the registration of a callback: the service gets the server's own function
  for every function of the client, so that an unregistration, with NULL, registers a callback. It
  is assumed that libbinder delivers what was written, that the server has memory and that GSL fills
  no more than the buffer that it is given.
\<close>

theorem swb_transparent:
  assumes "parcel_ok B" "swb_connected W pid s" "swb_memory W" "gsl_bounded (wenv W)" "fits q"
  shows "view wsvc (swb_serve B W pid q s)
    = map_option (\<lambda>(r, t). (code32 r, t)) (serve (wenv W) (swb_request W q) (wsvc s))"
proof -
  note swb_serve.simps [simp del] serve.simps [simp del]
  note [simp] = view_records [OF assms(2,1)] view_with_result [OF assms(2,1)] view_sw_write [OF assms(2,1,3)]
    view_sw_read [OF assms(2,1,3,4)] view_sw_get_params [OF assms(2,1,3,4)] view_register_cb [OF assms(2,1,3)]
  note plain = swb_serve.simps serve.simps plain_calls forward_sw_connected [OF assms(2)] get_server_connected [OF assms(2)]
    parcel_simps [OF assms(1)] w_alloc_succeeds [OF assms(3)] view_reply [OF assms(1)] coded_def
  have "view wsvc (swb_serve B W pid q s) = coded (serve (wenv W) (swb_request W q) (wsvc s))"
    using assms(5)
    by (cases q) (auto simp: fits_def swb_request_def split: option.splits; simp add: plain; fail)+
  then show ?thesis by (simp add: coded_def)
qed

text \<open>A parcel that is read as it was written, and a server with memory.\<close>

definition sample_parcels :: parcel_env where
  "sample_parcels = \<lparr>
     checkInterface = (\<lambda>is. case is of Token # r \<Rightarrow> r | _ \<Rightarrow> is),
     readInt32 = (\<lambda>is. case is of Int32 v # r \<Rightarrow> (v, r) | Raw_bool b # r \<Rightarrow> (of_bool b, r) | _ \<Rightarrow> (0, is)),
     readInt64 = (\<lambda>is. case is of Int64 v # r \<Rightarrow> (v, r) | _ \<Rightarrow> (0, is)),
     readHandle = (\<lambda>is. case is of Handle h # r \<Rightarrow> (h, r) | _ \<Rightarrow> (None, is)),
     readClientData = (\<lambda>is. case is of Client_data d # r \<Rightarrow> (d, r) | _ \<Rightarrow> (0, is)),
     readEventType = (\<lambda>is. case is of Event_type e # r \<Rightarrow> (e, r) | _ \<Rightarrow> (AGM_EVENT_MODULE, is)),
     readFunc = (\<lambda>is. case is of Raw_func f # r \<Rightarrow> (f, r) | _ \<Rightarrow> (None, is)),
     readBlob = (\<lambda>n is. case is of Blob b # r \<Rightarrow> if blob_size b = n then (Some b, r) else (None, is) | _ \<Rightarrow> (None, is)),
     readStrongBinder = (\<lambda>is. case is of Strong_binder b # r \<Rightarrow> (b, r) | _ \<Rightarrow> (0, is)),
     replyOf = (\<lambda>st r. if st = 0 then r else [])\<rparr>"

lemma sample_parcels_ok [simp]: "parcel_ok sample_parcels"
  by (simp add: parcel_ok_def sample_parcels_def)

definition small_env :: env where
  "small_env = fill_env\<lparr>ext := (\<lambda>h c. (ext fill_env h c)\<lparr>rsize := 0\<rparr>)\<rparr>"

lemma small_env_simps [simp]:
  "rc (ext small_env h c) = (case c of Pcm_is_ready p \<Rightarrow> 1 | _ \<Rightarrow> 0)" "rptr (ext small_env h c) = Some 1"
  "gsl_bounded small_env" "konst small_env k = konst sample_env k" "alloc_ok small_env" "calloc_ok small_env h n z"
  using fill_env_simps(3) by (simp_all add: small_env_def gsl_bounded_def gsl_fills_def alloc_ok_def calloc_ok_def)

definition sample_swb_env :: swb_env where
  "sample_swb_env = \<lparr>wenv = small_env, walloc = (\<lambda>n. True), wservice = (\<lambda>n. True), wcb = 5\<rparr>"

definition sample_swb :: "agm_state \<Rightarrow> swb_state" where
  "sample_swb t = \<lparr>wsvc = t, g_client_list = None, swb_clbk_list = None, wlinked = [], bowner = (\<lambda>b. 0), bnext = 1,
     wprocs = (\<lambda>pid. \<lparr>wp_server_died = False, wp_client = None, wp_notifier = False\<rparr>), wcalls = [], wtick = 0\<rparr>"

lemma sample_swb_simps [simp]:
  "wenv sample_swb_env = small_env" "swb_memory sample_swb_env" "swb_connected sample_swb_env pid (sample_swb t)"
  "wsvc (sample_swb t) = t" "wcb sample_swb_env = 5"
  by (simp_all add: sample_swb_env_def swb_memory_def swb_connected_def sample_swb_def)

theorem swb_transparent_witness:
  "\<exists>t. view wsvc (swb_serve sample_parcels sample_swb_env 7 (Session_stop (Some 0))
      (sample_swb (sample_run SESSION_STARTED AIF_STARTED DEV_STARTED STARTED))) = Some (0, t)
    \<and> sess_at t 0 = Some (sample_session SESSION_STOPPED AIF_STOPPED)"
proof -
  let ?s = "sample_run SESSION_STARTED AIF_STARTED DEV_STARTED STARTED"
  have "\<exists>t. serve small_env (Session_stop (Some 0)) ?s = Some (0, t) \<and> sess_at t 0 = Some (sample_session SESSION_STOPPED AIF_STOPPED)"
    by (simp add: agm_session_stop_def with_handle_def session_obj_stop_def session_stop_def run_session aif_stop_def
        device_stop_def graph_stop_def xcall_def Let_def update_sysfs_fd_def unfold_sample)
  then show ?thesis
    using swb_transparent [of sample_parcels sample_swb_env 7 "sample_swb ?s" "Session_stop (Some 0)"]
    by (auto simp: fits_def swb_request_def code32_def)
qed

section \<open>The death of a client\<close>

definition w_handles_of :: "nat \<Rightarrow> swb_client list \<Rightarrow> nat option list" where
  "w_handles_of who cs = concat (map wc_hndl_list (filter (\<lambda>c. wc_binder c = who) cs))"

lemma w_close_handles_spec:
  assumes "w_close_handles W hs s = Some ((), s')"
  shows "(\<exists>t. s' = s\<lparr>wsvc := t\<rparr>)
    \<and> (\<forall>q so. is_sess q so (wsvc s) \<longrightarrow> is_sess q (if Some q \<in> set hs then closed_session so else so) (wsvc s'))"
  using assms
proof (induction hs arbitrary: s)
  case Nil
  then show ?case by (auto intro: exI [of _ "wsvc s"])
next
  case (Cons h hs)
  show ?case
  proof (cases h)
    case (Some p)
    with Cons.prems obtain r t where t: "agm_session_close (wenv W) (Some p) (wsvc s) = Some (r, t)"
        and rest: "w_close_handles W hs (s\<lparr>wsvc := t\<rparr>) = Some ((), s')"
      by (auto simp: w_agm_Some split: bind_splits)
    from Cons.IH [OF rest] show ?thesis
      using session_close_all [OF _ t] Some by fastforce
  qed (use Cons in auto)
qed

lemma w_close_clients_spec:
  assumes "w_close_clients W who cs s = Some (cs', s')"
  shows "(\<exists>t. s' = s\<lparr>wsvc := t\<rparr>) \<and> cs' = filter (\<lambda>c. wc_binder c \<noteq> who) cs
    \<and> (\<forall>q so. is_sess q so (wsvc s) \<longrightarrow>
        is_sess q (if Some q \<in> set (w_handles_of who cs) then closed_session so else so) (wsvc s'))"
  using assms
proof (induction cs arbitrary: s cs' s')
  case Nil
  then show ?case by (auto simp: w_handles_of_def intro: exI [of _ "wsvc s"])
next
  case (Cons c cs)
  show ?case
  proof (cases "wc_binder c = who")
    case True
    with Cons.prems obtain s1 where s1: "w_close_handles W (wc_hndl_list c) s = Some ((), s1)"
        and rest: "w_close_clients W who cs s1 = Some (cs', s')"
      by (auto split: bind_splits)
    from w_close_handles_spec [OF s1] Cons.IH [OF rest] True show ?thesis
      by (fastforce simp: w_handles_of_def split: if_splits)
  next
    case False
    with Cons.prems obtain cs1 where "w_close_clients W who cs s = Some (cs1, s')" "cs' = c # cs1"
      by (auto split: bind_splits)
    with Cons.IH [of s cs1 s'] False show ?thesis by (auto simp: w_handles_of_def)
  qed
qed

text \<open>
  C26: the death of a client of the SwBinder server. The records of the client are removed and those
  of the others are kept; exactly the sessions whose handles they had are closed, and every other
  session is as before. The callbacks that the client registered all stay, with the server and with
  the sessions.
\<close>

theorem swb_client_death:
  assumes "binderDied_client W who s = Some ((), s')"
  shows "\<exists>cs. g_client_list s = Some cs \<and> g_client_list s' = Some (filter (\<lambda>c. wc_binder c \<noteq> who) cs)
    \<and> swb_clbk_list s' = swb_clbk_list s
    \<and> (\<forall>q so. sess_at (wsvc s) q = Some so \<longrightarrow>
        sess_at (wsvc s') q = Some (if \<exists>c \<in> set cs. wc_binder c = who \<and> Some q \<in> set (wc_hndl_list c)
          then closed_session so else so))"
proof -
  from assms obtain cs cs' s1 where cs: "g_client_list s = Some cs" "w_close_clients W who cs s = Some (cs', s1)"
      "s' = s1\<lparr>g_client_list := Some cs'\<rparr>"
    by (auto simp: binderDied_client_def split: bind_splits)
  from w_close_clients_spec [OF cs(2)] cs have
    "\<forall>q so. is_sess q so (wsvc s) \<longrightarrow> is_sess q (if Some q \<in> set (w_handles_of who cs) then closed_session so else so) (wsvc s')"
    "g_client_list s' = Some (filter (\<lambda>c. wc_binder c \<noteq> who) cs)" "swb_clbk_list s' = swb_clbk_list s" by auto
  moreover have "Some q \<in> set (w_handles_of who cs) \<longleftrightarrow> (\<exists>c \<in> set cs. wc_binder c = who \<and> Some q \<in> set (wc_hndl_list c))" for q
    by (auto simp: w_handles_of_def)
  ultimately show ?thesis using cs(1) by (intro exI [of _ cs]) auto
qed

definition sample_swb_clients :: swb_state where
  "sample_swb_clients = (sample_swb (sample_run SESSION_STOPPED AIF_STOPPED DEV_STOPPED STOPPED))
     \<lparr>g_client_list := Some [\<lparr>wc_binder = 1, wc_pid = 7, wc_notifier = True, wc_hndl_list = [Some 0]\<rparr>]\<rparr>"

theorem swb_client_death_witness:
  "\<exists>s' so. binderDied_client sample_swb_env 1 sample_swb_clients = Some ((), s') \<and> g_client_list s' = Some []
    \<and> sess_at (wsvc s') 0 = Some so \<and> s_state so = SESSION_CLOSED"
proof -
  obtain s' where s': "binderDied_client sample_swb_env 1 sample_swb_clients = Some ((), s')"
    by (simp add: binderDied_client_def sample_swb_clients_def sample_swb_def sample_swb_env_def w_agm_def
        agm_session_close_def with_handle_def session_obj_close_def session_close_def run_session aif_close_def
        device_close_def graph_close_def xcall_def Let_def update_sysfs_fd_def unfold_sample)
  have "sess_at (wsvc sample_swb_clients) 0 = Some (sample_session SESSION_STOPPED AIF_STOPPED)"
    by (simp add: sample_swb_clients_def sample_swb_def run_session)
  with swb_client_death [OF s'] s' show ?thesis
    by (auto simp: sample_swb_clients_def closed_session_def sample_session_def)
qed

section \<open>Events\<close>

lemma find_append: "List.find P (xs @ ys) = (case List.find P xs of None \<Rightarrow> List.find P ys | Some x \<Rightarrow> Some x)"
  by (induction xs) auto

definition clbk_match :: "u32 \<Rightarrow> nat \<Rightarrow> swb_clbk \<Rightarrow> bool" where
  "clbk_match x d k \<longleftrightarrow> wk_session_id k = x \<and> wk_client_data k = d"

lemma clbk_of_match: "clbk_of x d ks = (case List.find (clbk_match x d) ks of Some k \<Rightarrow> Some k
    | None \<Rightarrow> if ks = [] then None else Some (last ks))"
  by (simp add: clbk_of_def clbk_match_def [abs_def])

lemma event_to_record:
  assumes "parcel_ok B" "swb_memory W" "length (event_payload params) < 2 ^ 32"
    "swb_clbk_list s = Some ks" "List.find (clbk_match x d) ks = Some k"
  shows "ipc_cb B W x params d s = (case wk_func k of None \<Rightarrow> None
    | Some g \<Rightarrow> Some ((), s\<lparr>wtick := Suc (wtick s), wcalls := (bowner s (wk_binder k), g, x, params, d) # wcalls s\<rparr>))"
proof -
  have "wk_client_data k = d" using assms(5) by (auto simp: find_Some_iff clbk_match_def)
  with assms show ?thesis
    by (cases params) (simp add: ipc_cb_def clbk_of_match BpCallback_event_cb_def BnCallback_onTransact_def parcel_simps
        w_alloc_succeeds unat_len32 BnCallback_event_cb_def split: option.split)
qed

text \<open>The callbacks are only ever added, and a binder stays in its process.\<close>

definition callbacks_later :: "swb_state \<Rightarrow> swb_state \<Rightarrow> bool" where
  "callbacks_later s s2 \<longleftrightarrow> (\<exists>ks ks'. swb_clbk_list s = Some ks \<and> swb_clbk_list s2 = Some (ks @ ks'))
     \<and> (\<forall>b < bnext s. bowner s2 b = bowner s b)"

definition event_target :: "swb_state \<Rightarrow> nat \<Rightarrow> nat option \<Rightarrow> u32 \<Rightarrow> nat \<Rightarrow> swb_clbk list \<Rightarrow> nat \<times> nat option" where
  "event_target s2 pid cb x d ks = (case List.find (clbk_match x d) ks of None \<Rightarrow> (pid, cb)
     | Some k \<Rightarrow> (bowner s2 (wk_binder k), wk_func k))"

lemma register_cb_records:
  assumes "parcel_ok B" "swb_connected W pid s" "swb_memory W" "agm_session_register_cb_sw B W pid x cb ev d s = Some (r, s')"
  obtains b where "b < bnext s'" "bowner s' b = pid" "swb_clbk_list s'
    = Some (case_option [] id (swb_clbk_list s) @ [\<lparr>wk_session_id = x, wk_binder = b, wk_func = cb, wk_client_data = d\<rparr>])"
proof -
  let ?b = "bnext (sw_reach B W pid s)"
  from assms have "?b < bnext s'" "bowner s' ?b = pid" "swb_clbk_list s'
    = Some (case_option [] id (swb_clbk_list s) @ [\<lparr>wk_session_id = x, wk_binder = ?b, wk_func = cb, wk_client_data = d\<rparr>])"
    by (auto simp: agm_session_register_cb_sw_def forward_sw_connected ipc_agm_session_register_cb_bp_def call_transact
        onTransact_def on_reg_cb_def parcel_simps w_alloc_succeeds w_reply_def w_agm_def get_server_connected
        Let_def split: bind_splits option.split)
  then show thesis by (rule that)
qed


definition sample_params :: agm_event_cb_params where
  "sample_params = \<lparr>source_module_id = 1, event_id = 2, event_payload = [3]\<rparr>"

text \<open>Client 8 registers the data that client 7 has registered; the event goes to client 7.\<close>

definition sample_swb_events :: swb_state where
  "sample_swb_events = (sample_swb (sample_run SESSION_STOPPED AIF_STOPPED DEV_STOPPED STOPPED))
     \<lparr>swb_clbk_list := Some [\<lparr>wk_session_id = 5, wk_binder = 1, wk_func = Some 3, wk_client_data = 9\<rparr>],
      bowner := (\<lambda>b. 7), bnext := 2\<rparr>"


section \<open>A server without memory\<close>


definition no_memory_env :: swb_env where
  "no_memory_env = sample_swb_env\<lparr>walloc := (\<lambda>n. False)\<rparr>"


end
