(* ===== verification/Agm_Dbus_Server.thy ===== *)
theory Agm_Dbus_Server
  imports Agm_Session_Api
begin

text \<open>
  The server side of \<open>ipc/DBus\<close>: the registry of objects and interfaces and the message handler
  (\<open>agm-dbus-utils.cpp\<close>), and the methods of the module object and of the session objects
  (\<open>agm_server_wrapper_dbus.cpp\<close>; names end in \<open>_db\<close>).

  A message is the list of its values; libdbus delivers them as they were appended, and the signature
  follows from them. A function that takes a value of another type than the next one is undefined.
  The code converts pointers to \<open>uint32_t\<close> into pointers to \<open>size_t\<close>, which compiles only where
  both are the same type: sizes have 32 bits here. The objects that the code never frees have their
  position as address, and the user data of an interface are never NULL.
  Not modelled are the watches and timeouts of the main loop, which decide when
  libdbus calls the message handler.
\<close>

section \<open>Values and messages\<close>

text \<open>The object of the module and those of the sessions, by the number in the path.\<close>

datatype obj_path = AGM_OBJECT_PATH | Session_path u32

datatype iface = AGM_MODULE_IFACE | AGM_SESSION_IFACE

text \<open>An array of bytes: bytes, or the image of a struct that both sides know.\<close>

datatype (plugins only: code size) image =
    Raw "u8 list"
  | Kv_image "agm_key_value list"
  | Session_image agm_session_config
  | Tag_image "tag_entry list" nat

datatype (plugins only: code size) dval =
    U32 u32
  | U64 u64
  | I32 u32
  | Byte u8
  | Bool bool
  | Evt event_type
  | Fmt_u agm_media_format
  | Fmt_i agm_media_format
  | Ptr nat
  | Obj obj_path
  | Ay image
  | Auu "agm_key_value list"
  | Aus "aif_info list"
  | Struct "dval list"

text \<open>Enums travel as \<open>u\<close> or \<open>i\<close>, the data of a client as \<open>t\<close>.\<close>

fun sig :: "dval \<Rightarrow> string" where
  "sig (U32 x) = ''u''"
| "sig (U64 x) = ''t''"
| "sig (I32 x) = ''i''"
| "sig (Byte x) = ''y''"
| "sig (Bool x) = ''b''"
| "sig (Evt x) = ''u''"
| "sig (Fmt_u x) = ''u''"
| "sig (Fmt_i x) = ''i''"
| "sig (Ptr x) = ''t''"
| "sig (Obj x) = ''o''"
| "sig (Ay x) = ''ay''"
| "sig (Auu x) = ''a(uu)''"
| "sig (Aus x) = ''a(us)''"
| "sig (Struct vs) = ''('' @ concat (map sig vs) @ '')''"

definition dbus_message_get_signature :: "dval list \<Rightarrow> string" where
  "dbus_message_get_signature vs = concat (map sig vs)"

text \<open>\<open>dbus_message_iter_get_basic\<close> and \<open>dbus_message_iter_next\<close>, for a variable of each type.\<close>

type_synonym 'a getter = "dval list \<Rightarrow> ('a \<times> dval list) option"

fun get_u32 :: "u32 getter" where
  "get_u32 (U32 x # vs) = Some (x, vs)"
| "get_u32 _ = None"

fun get_byte :: "u8 getter" where
  "get_byte (Byte x # vs) = Some (x, vs)"
| "get_byte _ = None"

fun get_bool :: "bool getter" where
  "get_bool (Bool x # vs) = Some (x, vs)"
| "get_bool _ = None"

fun get_evt :: "event_type getter" where
  "get_evt (Evt x # vs) = Some (x, vs)"
| "get_evt _ = None"

fun get_fmt_u :: "agm_media_format getter" where
  "get_fmt_u (Fmt_u x # vs) = Some (x, vs)"
| "get_fmt_u _ = None"

fun get_fmt_i :: "agm_media_format getter" where
  "get_fmt_i (Fmt_i x # vs) = Some (x, vs)"
| "get_fmt_i _ = None"

fun get_ptr :: "nat getter" where
  "get_ptr (Ptr x # vs) = Some (x, vs)"
| "get_ptr _ = None"

fun get_ay :: "image getter" where
  "get_ay (Ay x # vs) = Some (x, vs)"
| "get_ay _ = None"

fun get_auu :: "(agm_key_value list) getter" where
  "get_auu (Auu x # vs) = Some (x, vs)"
| "get_auu _ = None"

fun get_struct :: "(dval list) getter" where
  "get_struct (Struct x # vs) = Some (x, vs)"
| "get_struct _ = None"

section \<open>State\<close>

record session_cb_data =
  db_session_id :: u32
  db_event_type :: event_type
  db_client_data :: nat

record session_data =
  sd_session_id :: u32
  sd_handle :: "nat option"
  sd_callbacks :: "session_cb_data list"

text \<open>
  The first part is the state of the server: the service, the hash table of the sessions, the session
  data by address, the objects with the user data of their interfaces, and the paths that are
  registered with libdbus, which hands over only the messages for these. The second is that
  of the client library in every process, by pid, with the signal subscriptions and the calls of the
  clients' functions.
\<close>

record dc_callback =
  ck_session_id :: u32
  ck_client_data :: nat
  ck_cb :: nat
  ck_evt_type :: event_type
  ck_sub_id :: nat

record dc_session =
  cs_obj_path :: obj_path
  cs_session_id :: u32
  cs_thread_loop :: bool
  cs_callbacks :: "dc_callback list"

record dc_proc =
  dc_mdata :: bool
  ses_hash_table :: "u32 \<Rightarrow> nat option"
  dc_sessions :: "dc_session list"

record dbus_state =
  dsvc :: agm_state
  d_sessions :: "u32 \<Rightarrow> nat option"
  d_data :: "session_data list"
  d_objects :: "obj_path \<Rightarrow> (iface \<Rightarrow> nat option) option"
  d_paths :: "obj_path set"
  d_filters :: "nat list"
  dprocs :: "nat \<Rightarrow> dc_proc"
  dsubs :: "(nat \<times> nat \<times> obj_path \<times> dc_callback) list"
  dcalls :: "(nat \<times> nat \<times> u32 \<times> agm_event_cb_params \<times> nat) list"
  dtick :: nat

text \<open>
  The outside: allocations, the registration of object paths and filters, the bus, threads, and the
  contents of memory that is read before it is written: the handle of new session data, the
  timestamp and the data format on the stack, the pointer in \<open>agm_free_session\<close> (is it NULL?), the
  event type and the subscription of an unregistration. \<open>dcb\<close> is the address of \<open>agmevent_cb\<close>.
\<close>

record dbus_env =
  denv :: env
  dalloc :: "nat \<Rightarrow> bool"
  dregister :: "nat \<Rightarrow> bool"
  dbus :: "nat \<Rightarrow> bool"
  dthread :: "nat \<Rightarrow> bool"
  dcb :: nat
  junk_handle :: "nat option"
  junk_time :: u64
  junk_format :: u32
  junk_free_null :: bool
  junk_evt :: event_type
  junk_sub :: nat

type_synonym 'a dbusm = "dbus_state \<Rightarrow> ('a, dbus_state) result"

datatype d_reply = Failed | Reply "dval list"

type_synonym handler = "dval list \<Rightarrow> d_reply dbusm"

definition d_agm :: "'a agm \<Rightarrow> 'a dbusm" where
  "d_agm m s = do { (r, t) \<leftarrow> m (dsvc s); Some (r, s\<lparr>dsvc := t\<rparr>) }"

definition d_ask :: "(nat \<Rightarrow> bool) \<Rightarrow> dbus_state \<Rightarrow> bool \<times> dbus_state" where
  "d_ask f s = (f (dtick s), s\<lparr>dtick := Suc (dtick s)\<rparr>)"

text \<open>The memory is used without a look at the pointer.\<close>

definition d_malloc :: "dbus_env \<Rightarrow> unit dbusm" where
  "d_malloc D s = (let (ok, s) = d_ask (dalloc D) s in if ok then Some ((), s) else None)"

section \<open>Objects and interfaces\<close>

definition agm_dbus_add_interface :: "dbus_env \<Rightarrow> obj_path \<Rightarrow> iface \<Rightarrow> nat \<Rightarrow> int dbusm" where
  "agm_dbus_add_interface D path i userdata s =
     (case d_objects s path of
        None \<Rightarrow> do {
          (_, s) \<leftarrow> d_malloc D s;
          let s = s\<lparr>d_objects := (d_objects s)(path := Some ((\<lambda>_. None)(i := Some userdata)))\<rparr>;
          let (ok, s) = d_ask (dregister D) s;
          Some (if ok then (0, s\<lparr>d_paths := insert path (d_paths s)\<rparr>) else (- EINVAL, s))
        }
      | Some ifs \<Rightarrow>
          if ifs i = None then do {
            (_, s) \<leftarrow> d_malloc D s;
            Some (0, s\<lparr>d_objects := (d_objects s)(path := Some (ifs(i := Some userdata)))\<rparr>)
          } else Some (0, s))"

text \<open>
  \<open>g_hash_table_remove\<close> returns \<open>TRUE\<close>, which the code takes for the address of the interface and
  dereferences.
\<close>

definition agm_dbus_remove_interface :: "obj_path \<Rightarrow> iface \<Rightarrow> int dbusm" where
  "agm_dbus_remove_interface path i s =
     (case d_objects s path of None \<Rightarrow> Some (- 1, s)
      | Some ifs \<Rightarrow> if ifs i = None then Some (- 1, s) else None)"

section \<open>Session data\<close>

text \<open>The variable \<open>data\<close> is initialised with itself.\<close>

definition agm_free_session :: "dbus_env \<Rightarrow> unit dbusm" where
  "agm_free_session D s = (if junk_free_null D then Some ((), s) else None)"

definition get_session_data :: "dbus_env \<Rightarrow> u32 \<Rightarrow> nat option dbusm" where
  "get_session_data D session_id s =
     (case d_sessions s session_id of Some d \<Rightarrow> Some (Some d, s)
      | None \<Rightarrow> do {
          (_, s) \<leftarrow> d_malloc D s;
          let d = length (d_data s);
          let s = s\<lparr>d_data := d_data s @ [\<lparr>sd_session_id = session_id, sd_handle = junk_handle D, sd_callbacks = []\<rparr>]\<rparr>;
          (ret, s) \<leftarrow> agm_dbus_add_interface D (Session_path session_id) AGM_SESSION_IFACE d s;
          if ret \<noteq> 0 then Some (None, s)
          else Some (Some d, s\<lparr>d_sessions := (d_sessions s)(session_id := Some d)\<rparr>)
        })"

definition upd_data :: "nat \<Rightarrow> (session_data \<Rightarrow> session_data) \<Rightarrow> dbus_state \<Rightarrow> dbus_state" where
  "upd_data d f s = s\<lparr>d_data := (d_data s)[d := f (d_data s ! d)]\<rparr>"

text \<open>The pointer that the service gets; NULL is the address of no session data.\<close>

definition address :: "nat option \<Rightarrow> dbus_state \<Rightarrow> nat" where
  "address d s = case_option (length (d_data s)) id d"

lemma address_data [simp]: "address (Some d) s = d"
  by (simp add: address_def)

section \<open>Shared steps of the methods\<close>

text \<open>The checks of the arguments.\<close>

definition with_args :: "string \<Rightarrow> handler \<Rightarrow> handler" where
  "with_args expected f args s =
     (if args = [] \<or> dbus_message_get_signature args \<noteq> expected then Some (Failed, s) else f args s)"

text \<open>An error becomes an error message, whatever the code.\<close>

definition plain_reply :: "int agm \<Rightarrow> d_reply dbusm" where
  "plain_reply m s = do { (r, s) \<leftarrow> d_agm m s; Some (if r \<noteq> 0 then Failed else Reply [], s) }"

text \<open>
  The bytes are copied to memory of their number; the service is given the size that came with them,
  and reads as many bytes unless it takes its counts from the bytes (\<open>counted\<close>).
\<close>

definition with_bytes :: "dbus_env \<Rightarrow> bool \<Rightarrow> (u8 list \<Rightarrow> int agm) \<Rightarrow> handler" where
  "with_bytes D counted f i s = do {
     (size, i) \<leftarrow> get_u32 i;
     (img, i) \<leftarrow> get_ay i;
     (_, s) \<leftarrow> d_malloc D s;
     case img of
       Raw bs \<Rightarrow>
         if counted then plain_reply (f bs) s
         else if unat size > length bs then None
         else plain_reply (f (take (unat size) bs)) s
     | _ \<Rightarrow> None
   }"

section \<open>The methods of the module\<close>

definition ipc_agm_session_deregister_cb_db :: "dbus_env \<Rightarrow> handler" where
  "ipc_agm_session_deregister_cb_db D = with_args ''uut'' (\<lambda>i s. do {
     (session_id, i) \<leftarrow> get_u32 i;
     (evt, i) \<leftarrow> get_evt i;
     (client_data, i) \<leftarrow> get_ptr i;
     (d, s) \<leftarrow> get_session_data D session_id s;
     (r, s) \<leftarrow> d_agm (agm_session_register_cb (denv D) session_id None evt (address d s)) s;
     if r \<noteq> 0 then do { (_, s) \<leftarrow> agm_free_session D s; Some (Failed, s) }
     else do {
       (_, s) \<leftarrow> d_malloc D s;
       d \<leftarrow> d;
       Some (Reply [Obj (Session_path (sd_session_id (d_data s ! d)))], s)
     }
   })"

definition ipc_agm_session_register_cb_db :: "dbus_env \<Rightarrow> handler" where
  "ipc_agm_session_register_cb_db D = with_args ''uut'' (\<lambda>i s. do {
     (session_id, i) \<leftarrow> get_u32 i;
     (evt, i) \<leftarrow> get_evt i;
     (client_data, i) \<leftarrow> get_ptr i;
     (d, s) \<leftarrow> get_session_data D session_id s;
     (r, s) \<leftarrow> d_agm (agm_session_register_cb (denv D) session_id (Some (dcb D)) evt (address d s)) s;
     if r \<noteq> 0 then do { (_, s) \<leftarrow> agm_free_session D s; Some (Failed, s) }
     else do {
       (_, s) \<leftarrow> d_malloc D s;
       d \<leftarrow> d;
       let s = upd_data d (\<lambda>x. x\<lparr>sd_callbacks := \<lparr>db_session_id = session_id, db_event_type = evt,
         db_client_data = client_data\<rparr> # sd_callbacks x\<rparr>) s;
       Some (Reply [Obj (Session_path (sd_session_id (d_data s ! d)))], s)
     }
   })"

definition ipc_agm_session_register_for_events_db :: "dbus_env \<Rightarrow> handler" where
  "ipc_agm_session_register_for_events_db D = with_args ''u(uuuyay)'' (\<lambda>i s. do {
     (session_id, i) \<leftarrow> get_u32 i;
     (st, i) \<leftarrow> get_struct i;
     (miid, st) \<leftarrow> get_u32 st;
     (eid, st) \<leftarrow> get_u32 st;
     (size, st) \<leftarrow> get_u32 st;
     (reg, st) \<leftarrow> get_byte st;
     (img, st) \<leftarrow> get_ay st;
     (_, s) \<leftarrow> d_malloc D s;
     case img of
       Raw bs \<Rightarrow>
         if length bs > unat size then None
         else plain_reply (agm_session_register_for_events (denv D) session_id (Some \<lparr>er_miid = miid, er_event_id = eid,
           er_payload = bs @ replicate (unat size - length bs) 0, er_is_register = reg\<rparr>)) s
     | _ \<Rightarrow> None
   })"

definition ipc_agm_session_get_params_db :: "dbus_env \<Rightarrow> handler" where
  "ipc_agm_session_get_params_db D = with_args ''uuay'' (\<lambda>i s. do {
     (session_id, i) \<leftarrow> get_u32 i;
     (size, i) \<leftarrow> get_u32 i;
     (img, i) \<leftarrow> get_ay i;
     (_, s) \<leftarrow> d_malloc D s;
     case img of
       Raw bs \<Rightarrow>
         if unat size > length bs then None
         else do {
           ((r, bs), s) \<leftarrow> d_agm (agm_session_get_params (denv D) session_id (take (unat size) bs)) s;
           if r \<noteq> 0 then Some (Failed, s)
           else if length bs \<noteq> unat size then None
           else Some (Reply [Ay (Raw bs)], s)
         }
     | _ \<Rightarrow> None
   })"

definition ipc_agm_session_aif_set_cal_db :: "dbus_env \<Rightarrow> handler" where
  "ipc_agm_session_aif_set_cal_db D = with_args ''uuuay'' (\<lambda>i s. do {
     (session_id, i) \<leftarrow> get_u32 i;
     (aif_id, i) \<leftarrow> get_u32 i;
     (num, i) \<leftarrow> get_u32 i;
     (img, i) \<leftarrow> get_ay i;
     (_, s) \<leftarrow> d_malloc D s;
     case img of
       Kv_image es \<Rightarrow>
         if unat num > length es then None
         else plain_reply (agm_session_aif_set_cal (denv D) session_id aif_id (take (unat num) es)) s
     | _ \<Rightarrow> None
   })"

definition ipc_agm_session_aif_set_params_db :: "dbus_env \<Rightarrow> handler" where
  "ipc_agm_session_aif_set_params_db D = with_args ''uuuay'' (\<lambda>i s. do {
     (session_id, i) \<leftarrow> get_u32 i;
     (aif_id, i) \<leftarrow> get_u32 i;
     with_bytes D False (agm_session_aif_set_params (denv D) session_id aif_id) i s
   })"

definition ipc_agm_session_aif_get_tag_module_info_size_db :: "dbus_env \<Rightarrow> handler" where
  "ipc_agm_session_aif_get_tag_module_info_size_db D = with_args ''uuu'' (\<lambda>i s. do {
     (session_id, i) \<leftarrow> get_u32 i;
     (aif_id, i) \<leftarrow> get_u32 i;
     (size, i) \<leftarrow> get_u32 i;
     ((r, info), s) \<leftarrow> d_agm (agm_session_aif_get_tag_module_info (denv D) session_id aif_id False) s;
     if r \<noteq> 0 then Some (Failed, s)
     else Some (Reply [U32 (case info of None \<Rightarrow> size | Some (_, n) \<Rightarrow> word_of_nat n)], s)
   })"

definition ipc_agm_session_aif_get_tag_module_info_db :: "dbus_env \<Rightarrow> handler" where
  "ipc_agm_session_aif_get_tag_module_info_db D = with_args ''uuu'' (\<lambda>i s. do {
     (session_id, i) \<leftarrow> get_u32 i;
     (aif_id, i) \<leftarrow> get_u32 i;
     (size, i) \<leftarrow> get_u32 i;
     (_, s) \<leftarrow> d_malloc D s;
     ((r, info), s) \<leftarrow> d_agm (agm_session_aif_get_tag_module_info (denv D) session_id aif_id True) s;
     if r \<noteq> 0 then Some (Failed, s)
     else case info of None \<Rightarrow> Some (Reply [U32 size, Ay (Tag_image [] (unat size))], s)
       | Some (tags, n) \<Rightarrow> if n > unat size then None else Some (Reply [U32 (word_of_nat n), Ay (Tag_image tags n)], s)
   })"

definition ipc_agm_session_audio_inf_connect_db :: "dbus_env \<Rightarrow> handler" where
  "ipc_agm_session_audio_inf_connect_db D = with_args ''uub'' (\<lambda>i s. do {
     (x, i) \<leftarrow> get_u32 i;
     (y, i) \<leftarrow> get_u32 i;
     (state, i) \<leftarrow> get_bool i;
     plain_reply (agm_session_aif_connect (denv D) x y state) s
   })"

definition ipc_agm_session_set_ec_ref_db :: "dbus_env \<Rightarrow> handler" where
  "ipc_agm_session_set_ec_ref_db D = with_args ''uub'' (\<lambda>i s. do {
     (x, i) \<leftarrow> get_u32 i;
     (y, i) \<leftarrow> get_u32 i;
     (state, i) \<leftarrow> get_bool i;
     plain_reply (agm_session_set_ec_ref (denv D) x y state) s
   })"

definition ipc_agm_session_set_params_db :: "dbus_env \<Rightarrow> handler" where
  "ipc_agm_session_set_params_db D = with_args ''uuay'' (\<lambda>i s. do {
     (session_id, i) \<leftarrow> get_u32 i;
     with_bytes D False (agm_session_set_params (denv D) session_id) i s
   })"

definition ipc_agm_get_aif_info_list_size_db :: handler where
  "ipc_agm_get_aif_info_list_size_db args s = do {
     (r, _, n) \<leftarrow> agm_get_aif_info_list None (Some 0) (dsvc s);
     Some (if r \<noteq> 0 then Failed else Reply [U32 (case_option 0 word_of_nat n)], s)
   }"

definition ipc_agm_get_aif_info_list_db :: "dbus_env \<Rightarrow> handler" where
  "ipc_agm_get_aif_info_list_db D = with_args ''u'' (\<lambda>i s. do {
     (num, i) \<leftarrow> get_u32 i;
     (_, s) \<leftarrow> d_malloc D s;
     (r, l, n) \<leftarrow> agm_get_aif_info_list (Some (replicate (unat num) \<lparr>aif_name = [], aif_dir = 0\<rparr>)) (Some (ucast num)) (dsvc s);
     if r \<noteq> 0 then Some (Failed, s)
     else let xs = case_option [] id l; n = case_option (unat num) id n in
       if n > length xs then None else Some (Reply [Aus (take n xs)], s)
   })"

text \<open>The size of the configuration has 32 bits.\<close>

definition ipc_agm_set_params_with_tag_db :: "dbus_env \<Rightarrow> handler" where
  "ipc_agm_set_params_with_tag_db D = with_args ''uu(uua(uu))'' (\<lambda>i s. do {
     (session_id, i) \<leftarrow> get_u32 i;
     (aif_id, i) \<leftarrow> get_u32 i;
     (st, i) \<leftarrow> get_struct i;
     (tag, st) \<leftarrow> get_u32 st;
     (num, st) \<leftarrow> get_u32 st;
     (_, s) \<leftarrow> d_malloc D s;
     (es, st) \<leftarrow> get_auu st;
     if 8 + 8 * unat num \<ge> 2 ^ 32 then None
     else plain_reply (agm_set_params_with_tag (denv D) session_id aif_id
       \<lparr>tc_tag = tag, tc_kv = take (unat num) es @ replicate (unat num - length es) \<lparr>key = 0, val = 0\<rparr>\<rparr>) s
   })"

definition ipc_agm_session_set_loopback_db :: "dbus_env \<Rightarrow> handler" where
  "ipc_agm_session_set_loopback_db D = with_args ''uub'' (\<lambda>i s. do {
     (x, i) \<leftarrow> get_u32 i;
     (y, i) \<leftarrow> get_u32 i;
     (state, i) \<leftarrow> get_bool i;
     plain_reply (agm_session_set_loopback (denv D) x y state) s
   })"

definition ipc_agm_session_set_metadata_db :: "dbus_env \<Rightarrow> handler" where
  "ipc_agm_session_set_metadata_db D = with_args ''uuay'' (\<lambda>i s. do {
     (session_id, i) \<leftarrow> get_u32 i;
     with_bytes D True (agm_session_set_metadata (denv D) session_id) i s
   })"

definition ipc_agm_session_audio_inf_set_metadata_db :: "dbus_env \<Rightarrow> handler" where
  "ipc_agm_session_audio_inf_set_metadata_db D = with_args ''uuuay'' (\<lambda>i s. do {
     (session_id, i) \<leftarrow> get_u32 i;
     (aif_id, i) \<leftarrow> get_u32 i;
     with_bytes D True (agm_session_aif_set_metadata (denv D) session_id aif_id) i s
   })"

definition ipc_agm_audio_intf_set_metadata_db :: "dbus_env \<Rightarrow> handler" where
  "ipc_agm_audio_intf_set_metadata_db D = with_args ''uuay'' (\<lambda>i s. do {
     (aif_id, i) \<leftarrow> get_u32 i;
     with_bytes D True (agm_aif_set_metadata (denv D) aif_id) i s
   })"

text \<open>The data format of the struct on the stack is not set.\<close>

definition ipc_agm_audio_intf_set_media_config_db :: "dbus_env \<Rightarrow> handler" where
  "ipc_agm_audio_intf_set_media_config_db D = with_args ''u(uui)'' (\<lambda>i s. do {
     (aif_id, i) \<leftarrow> get_u32 i;
     (st, i) \<leftarrow> get_struct i;
     (r, st) \<leftarrow> get_u32 st;
     (c, st) \<leftarrow> get_u32 st;
     (f, st) \<leftarrow> get_fmt_i st;
     plain_reply (agm_aif_set_media_config aif_id (Some \<lparr>rate = r, channels = c, format = f, data_format = junk_format D\<rparr>)) s
   })"

definition ipc_agm_get_buffer_timestamp_db :: "dbus_env \<Rightarrow> handler" where
  "ipc_agm_get_buffer_timestamp_db D = with_args ''u'' (\<lambda>i s. do {
     (session_id, i) \<leftarrow> get_u32 i;
     ((r, t), s) \<leftarrow> d_agm (agm_get_buffer_timestamp (denv D) session_id True) s;
     Some (if r \<noteq> 0 then Failed else Reply [U64 (case_option 0 id t)], s)
   })"

text \<open>A session that cannot be registered gives NULL, through which the handle is written and the path is read.\<close>

definition ipc_agm_session_open_db :: "dbus_env \<Rightarrow> handler" where
  "ipc_agm_session_open_db D = with_args ''u'' (\<lambda>i s. do {
     (session_id, i) \<leftarrow> get_u32 i;
     (d, s) \<leftarrow> get_session_data D session_id s;
     ((r, h), s) \<leftarrow> d_agm (agm_session_open (denv D) session_id True) s;
     (_, s) \<leftarrow> (case d of
          None \<Rightarrow> if h = None then Some ((), s) else None
        | Some d \<Rightarrow> Some ((), upd_data d (\<lambda>x. x\<lparr>sd_handle := (if h = None then sd_handle x else h)\<rparr>) s));
     if r \<noteq> 0 then do { (_, s) \<leftarrow> agm_free_session D s; Some (Failed, s) }
     else do {
       d \<leftarrow> d;
       let (ok, s) = d_ask (dregister D) s;
       let s = (if ok then s\<lparr>d_filters := d # d_filters s\<rparr> else s);
       Some (Reply [Obj (Session_path (sd_session_id (d_data s ! d)))], s)
     }
   })"

section \<open>The methods of a session\<close>

text \<open>The user data is the address of the session data.\<close>

definition sd_h :: "nat \<Rightarrow> dbus_state \<Rightarrow> nat option" where
  "sd_h d s = sd_handle (d_data s ! d)"

definition ipc_agm_get_hw_processed_buff_cnt_db :: "dbus_env \<Rightarrow> nat \<Rightarrow> handler" where
  "ipc_agm_get_hw_processed_buff_cnt_db D d = with_args ''u'' (\<lambda>i s. do {
     (dirn, i) \<leftarrow> get_u32 i;
     (n, s) \<leftarrow> d_agm (agm_get_hw_processed_buff_cnt (sd_h d s)) s;
     Some (Reply [I32 (ucast n)], s)
   })"

definition ipc_agm_get_session_time_db :: "dbus_env \<Rightarrow> nat \<Rightarrow> handler" where
  "ipc_agm_get_session_time_db D d args s = do {
     ((r, t), s) \<leftarrow> d_agm (agm_get_session_time (denv D) (sd_h d s) True) s;
     Some (if r \<noteq> 0 then Failed else Reply [U64 (case_option (junk_time D) id t)], s)
   }"

definition ipc_agm_session_set_config_db :: "dbus_env \<Rightarrow> nat \<Rightarrow> handler" where
  "ipc_agm_session_set_config_db D d = with_args ''(uuu)(uu)ay'' (\<lambda>i s. do {
     (st, i) \<leftarrow> get_struct i;
     (r, st) \<leftarrow> get_u32 st;
     (c, st) \<leftarrow> get_u32 st;
     (f, st) \<leftarrow> get_fmt_u st;
     (st, i) \<leftarrow> get_struct i;
     (n, st) \<leftarrow> get_u32 st;
     (sz, st) \<leftarrow> get_u32 st;
     (img, i) \<leftarrow> get_ay i;
     case img of
       Session_image sc \<Rightarrow> plain_reply (agm_session_set_config (sd_h d s) sc
         \<lparr>rate = r, channels = c, format = f, data_format = junk_format D\<rparr> \<lparr>bcount = n, bsize = ucast sz\<rparr>) s
     | _ \<Rightarrow> None
   })"

definition ipc_agm_session_eos_db :: "dbus_env \<Rightarrow> nat \<Rightarrow> handler" where
  "ipc_agm_session_eos_db D d args s = plain_reply (agm_session_eos (denv D) (sd_h d s)) s"

definition ipc_agm_session_write_db :: "dbus_env \<Rightarrow> nat \<Rightarrow> handler" where
  "ipc_agm_session_write_db D d = with_args ''uay'' (\<lambda>i s. do {
     (size, i) \<leftarrow> get_u32 i;
     (img, i) \<leftarrow> get_ay i;
     (_, s) \<leftarrow> d_malloc D s;
     case img of
       Raw bs \<Rightarrow>
         if unat size > length bs then None
         else do {
           ((r, n), s) \<leftarrow> d_agm (agm_session_write (denv D) (sd_h d s) (take (unat size) bs)) s;
           Some (if r \<noteq> 0 then Failed else Reply [U32 (word_of_nat n)], s)
         }
     | _ \<Rightarrow> None
   })"

text \<open>Bytes of the buffer that the service did not write are not initialised.\<close>

definition ipc_agm_session_read_db :: "dbus_env \<Rightarrow> nat \<Rightarrow> handler" where
  "ipc_agm_session_read_db D d = with_args ''u'' (\<lambda>i s. do {
     (size, i) \<leftarrow> get_u32 i;
     (_, s) \<leftarrow> d_malloc D s;
     ((r, n, bs), s) \<leftarrow> d_agm (agm_session_read (denv D) (sd_h d s) (unat size)) s;
     if length bs > unat size then None
     else if r \<noteq> 0 then Some (Failed, s)
     else if n > length bs then None
     else Some (Reply [Ay (Raw (take n bs))], s)
   })"

definition ipc_agm_session_resume_db :: "dbus_env \<Rightarrow> nat \<Rightarrow> handler" where
  "ipc_agm_session_resume_db D d args s = plain_reply (agm_session_resume (denv D) (sd_h d s)) s"

definition ipc_agm_session_pause_db :: "dbus_env \<Rightarrow> nat \<Rightarrow> handler" where
  "ipc_agm_session_pause_db D d args s = plain_reply (agm_session_pause (denv D) (sd_h d s)) s"

definition ipc_agm_session_stop_db :: "dbus_env \<Rightarrow> nat \<Rightarrow> handler" where
  "ipc_agm_session_stop_db D d args s = plain_reply (agm_session_stop (denv D) (sd_h d s)) s"

definition ipc_agm_session_start_db :: "dbus_env \<Rightarrow> nat \<Rightarrow> handler" where
  "ipc_agm_session_start_db D d args s = plain_reply (agm_session_start (denv D) (sd_h d s)) s"

definition ipc_agm_session_prepare_db :: "dbus_env \<Rightarrow> nat \<Rightarrow> handler" where
  "ipc_agm_session_prepare_db D d args s = plain_reply (agm_session_prepare (denv D) (sd_h d s)) s"

definition ipc_agm_session_close_db :: "dbus_env \<Rightarrow> nat \<Rightarrow> handler" where
  "ipc_agm_session_close_db D d args s =
     (let s = s\<lparr>d_filters := remove1 d (d_filters s)\<rparr> in do {
        (r, s) \<leftarrow> d_agm (agm_session_close (denv D) (sd_h d s)) s;
        if r \<noteq> 0 then Some (Failed, s)
        else do {
          (r, s) \<leftarrow> agm_dbus_remove_interface (Session_path (sd_session_id (d_data s ! d))) AGM_SESSION_IFACE s;
          if r \<noteq> 0 then Some (Failed, s)
          else do {
            (_, s) \<leftarrow> (if d_sessions s (sd_session_id (d_data s ! d)) = None then Some ((), s) else agm_free_session D s);
            Some (Reply [], s\<lparr>d_sessions := (d_sessions s)(sd_session_id (d_data s ! d) := None)\<rparr>)
          }
        }
      })"

text \<open>The signal \<open>Disconnected\<close> of the bus, for one filter.\<close>

fun deregister_all :: "dbus_env \<Rightarrow> nat \<Rightarrow> session_cb_data list \<Rightarrow> unit dbusm" where
  "deregister_all D d [] s = Some ((), s)"
| "deregister_all D d (k # ks) s = do {
     (_, s) \<leftarrow> d_agm (agm_session_register_cb (denv D) (db_session_id k) None (db_event_type k) d) s;
     deregister_all D d ks s
   }"

definition disconnection_filter_cb :: "dbus_env \<Rightarrow> nat \<Rightarrow> unit dbusm" where
  "disconnection_filter_cb D d s = do {
     (_, s) \<leftarrow> deregister_all D d (sd_callbacks (d_data s ! d)) s;
     let s = s\<lparr>d_filters := remove1 d (d_filters s)\<rparr>;
     (_, s) \<leftarrow> d_agm (agm_session_close (denv D) (sd_h d s)) s;
     (_, s) \<leftarrow> agm_dbus_remove_interface (Session_path (sd_session_id (d_data s ! d))) AGM_SESSION_IFACE s;
     (_, s) \<leftarrow> (if d_sessions s (sd_session_id (d_data s ! d)) = None then Some ((), s) else agm_free_session D s);
     Some ((), s\<lparr>d_sessions := (d_sessions s)(sd_session_id (d_data s ! d) := None)\<rparr>)
   }"

section \<open>The message handler\<close>

datatype module_method =
    AgmAifSetMediaConfig | AgmAifSetMetadata | AgmSessionAifSetMetadata | AgmSessionSetMetadata | AgmSessionSetLoopback
  | AgmSetParamsWithTag | AgmGetAifInfoListSize | AgmGetAifInfoList | AgmSessionSetParams | AgmSessionRegisterForEvents
  | AgmSessionRegisterCb | AgmSessionDeRegisterCb | AgmSessionSetEcRef | AgmSessionAifConnect
  | AgmSessionAifGetTagModuleInfo | AgmSessionAifGetTagModuleInfoSize | AgmSessionAifSetParams | AgmSessionAifSetCal
  | AgmSessionGetParams | AgmGetBufferTimestamp | AgmSessionOpen

datatype session_method =
    AgmSessionClose | AgmSessionPrepare | AgmSessionStart | AgmSessionStop | AgmSessionPause | AgmSessionResume
  | AgmSessionRead | AgmSessionWrite | AgmSessionSetConfig | AgmSessionEos | AgmSessionGetTime | AgmGetHwProcessedBufCount

fun agm_dbus_module_methods :: "dbus_env \<Rightarrow> module_method \<Rightarrow> handler" where
  "agm_dbus_module_methods D AgmAifSetMediaConfig = ipc_agm_audio_intf_set_media_config_db D"
| "agm_dbus_module_methods D AgmAifSetMetadata = ipc_agm_audio_intf_set_metadata_db D"
| "agm_dbus_module_methods D AgmSessionAifSetMetadata = ipc_agm_session_audio_inf_set_metadata_db D"
| "agm_dbus_module_methods D AgmSessionSetMetadata = ipc_agm_session_set_metadata_db D"
| "agm_dbus_module_methods D AgmSessionSetLoopback = ipc_agm_session_set_loopback_db D"
| "agm_dbus_module_methods D AgmSetParamsWithTag = ipc_agm_set_params_with_tag_db D"
| "agm_dbus_module_methods D AgmGetAifInfoListSize = ipc_agm_get_aif_info_list_size_db"
| "agm_dbus_module_methods D AgmGetAifInfoList = ipc_agm_get_aif_info_list_db D"
| "agm_dbus_module_methods D AgmSessionSetParams = ipc_agm_session_set_params_db D"
| "agm_dbus_module_methods D AgmSessionRegisterForEvents = ipc_agm_session_register_for_events_db D"
| "agm_dbus_module_methods D AgmSessionRegisterCb = ipc_agm_session_register_cb_db D"
| "agm_dbus_module_methods D AgmSessionDeRegisterCb = ipc_agm_session_deregister_cb_db D"
| "agm_dbus_module_methods D AgmSessionSetEcRef = ipc_agm_session_set_ec_ref_db D"
| "agm_dbus_module_methods D AgmSessionAifConnect = ipc_agm_session_audio_inf_connect_db D"
| "agm_dbus_module_methods D AgmSessionAifGetTagModuleInfo = ipc_agm_session_aif_get_tag_module_info_db D"
| "agm_dbus_module_methods D AgmSessionAifGetTagModuleInfoSize = ipc_agm_session_aif_get_tag_module_info_size_db D"
| "agm_dbus_module_methods D AgmSessionAifSetParams = ipc_agm_session_aif_set_params_db D"
| "agm_dbus_module_methods D AgmSessionAifSetCal = ipc_agm_session_aif_set_cal_db D"
| "agm_dbus_module_methods D AgmSessionGetParams = ipc_agm_session_get_params_db D"
| "agm_dbus_module_methods D AgmGetBufferTimestamp = ipc_agm_get_buffer_timestamp_db D"
| "agm_dbus_module_methods D AgmSessionOpen = ipc_agm_session_open_db D"

fun agm_dbus_session_methods :: "dbus_env \<Rightarrow> session_method \<Rightarrow> nat \<Rightarrow> handler" where
  "agm_dbus_session_methods D AgmSessionClose d = ipc_agm_session_close_db D d"
| "agm_dbus_session_methods D AgmSessionPrepare d = ipc_agm_session_prepare_db D d"
| "agm_dbus_session_methods D AgmSessionStart d = ipc_agm_session_start_db D d"
| "agm_dbus_session_methods D AgmSessionStop d = ipc_agm_session_stop_db D d"
| "agm_dbus_session_methods D AgmSessionPause d = ipc_agm_session_pause_db D d"
| "agm_dbus_session_methods D AgmSessionResume d = ipc_agm_session_resume_db D d"
| "agm_dbus_session_methods D AgmSessionRead d = ipc_agm_session_read_db D d"
| "agm_dbus_session_methods D AgmSessionWrite d = ipc_agm_session_write_db D d"
| "agm_dbus_session_methods D AgmSessionSetConfig d = ipc_agm_session_set_config_db D d"
| "agm_dbus_session_methods D AgmSessionEos d = ipc_agm_session_eos_db D d"
| "agm_dbus_session_methods D AgmSessionGetTime d = ipc_agm_get_session_time_db D d"
| "agm_dbus_session_methods D AgmGetHwProcessedBufCount d = ipc_agm_get_hw_processed_buff_cnt_db D d"

datatype call_method = Module module_method | Session session_method

text \<open>
  A message for an unknown object, interface or method is not handled, and libdbus answers with an
  error. The function does not return a value after a method was called; what libdbus takes for the
  result can add a second, late reply, which the client does not see.
\<close>

definition server_message_handler :: "dbus_env \<Rightarrow> obj_path \<Rightarrow> call_method \<Rightarrow> handler" where
  "server_message_handler D path m args s =
     (case d_objects s path of None \<Rightarrow> Some (Failed, s)
      | Some ifs \<Rightarrow> (case m of
          Module m \<Rightarrow> if ifs AGM_MODULE_IFACE = None then Some (Failed, s) else agm_dbus_module_methods D m args s
        | Session m \<Rightarrow> (case ifs AGM_SESSION_IFACE of None \<Rightarrow> Some (Failed, s)
            | Some d \<Rightarrow> agm_dbus_session_methods D m d args s)))"

section \<open>Start and end of the server\<close>

text \<open>\<open>False\<close> for NULL; the objects of a new connection are none.\<close>

definition agm_dbus_new_connection :: "dbus_env \<Rightarrow> bool dbusm" where
  "agm_dbus_new_connection D s = do {
     (_, s) \<leftarrow> d_malloc D s;
     let (ok, s) = d_ask (dbus D) s;
     Some (ok, if ok then s\<lparr>d_objects := (\<lambda>_. None)\<rparr> else s)
   }"

definition agm_dbus_connection_free :: "dbus_state \<Rightarrow> dbus_state" where
  "agm_dbus_connection_free s = s\<lparr>d_objects := (\<lambda>_. None)\<rparr>"

text \<open>The functions for the watches, then those for the timeouts.\<close>

definition agm_setup_dbus_with_main_loop :: "dbus_env \<Rightarrow> dbus_state \<Rightarrow> int \<times> dbus_state" where
  "agm_setup_dbus_with_main_loop D s =
     (let (ok, s) = d_ask (dbus D) s in
      if \<not> ok then (- 1, s)
      else let (ok, s) = d_ask (dbus D) s in (if ok then 0 else - 1, s))"

text \<open>
  A connection that is NULL is dereferenced. After an error the connection with its objects is freed
  and the daemon ends. The user data of the module's interface is the module data.
\<close>

definition ipc_agm_init_db :: "dbus_env \<Rightarrow> string \<Rightarrow> string \<Rightarrow> int dbusm" where
  "ipc_agm_init_db D acdb delta s = do {
     (_, s) \<leftarrow> d_malloc D s;
     (conn, s) \<leftarrow> agm_dbus_new_connection D s;
     if \<not> conn then None
     else
       let (named, s) = d_ask (dbus D) s in
       if \<not> named then Some (- EINVAL, agm_dbus_connection_free s)
       else let (r, s) = agm_setup_dbus_with_main_loop D s in
         if r \<noteq> 0 then Some (- EINVAL, agm_dbus_connection_free s)
         else do {
           (r, s) \<leftarrow> agm_dbus_add_interface D AGM_OBJECT_PATH AGM_MODULE_IFACE 0 s;
           if r \<noteq> 0 then Some (- EINVAL, agm_dbus_connection_free s)
           else do {
             (r, s) \<leftarrow> d_agm (agm_init (denv D) acdb delta) (s\<lparr>d_sessions := (\<lambda>_. None)\<rparr>);
             Some (r, if r \<noteq> 0 then agm_dbus_connection_free s else s)
           }
         }
   }"

text \<open>With module data the interface is removed; without it the code dereferences NULL.\<close>

definition ipc_agm_deinit_db :: "dbus_env \<Rightarrow> bool \<Rightarrow> unit dbusm" where
  "ipc_agm_deinit_db D mdata s =
     (if \<not> mdata then None
      else do {
        (_, s) \<leftarrow> agm_dbus_remove_interface AGM_OBJECT_PATH AGM_MODULE_IFACE s;
        (_, s) \<leftarrow> d_agm (agm_deinit (denv D)) s;
        Some ((), s)
      })"

end
