(* ===== verification/Agm_Dbus_Client.thy ===== *)
theory Agm_Dbus_Client
  imports Agm_Dbus_Server
begin

text \<open>
  The client side of \<open>ipc/DBus\<close>, \<open>agm_client_wrapper_dbus.cpp\<close> (names end in \<open>_dc\<close>), and the events.
  \<open>pid\<close> is the process of the client. A handle of a session is the address of its session data. GLib
  ends the process when memory is missing, and an assertion that fails does (\<open>None\<close>).
\<close>

section \<open>The connection\<close>

definition upd_dproc :: "nat \<Rightarrow> (dc_proc \<Rightarrow> dc_proc) \<Rightarrow> dbus_state \<Rightarrow> dbus_state" where
  "upd_dproc pid f s = s\<lparr>dprocs := (dprocs s)(pid := f (dprocs s pid))\<rparr>"

definition initialize_module_data :: "dbus_env \<Rightarrow> nat \<Rightarrow> dbus_state \<Rightarrow> int \<times> dbus_state" where
  "initialize_module_data D pid s =
     (let (ok, s) = d_ask (dbus D) s in
      if \<not> ok then (- EINVAL, s)
      else let (ok, s) = d_ask (dbus D) s in
        if \<not> ok then (- EINVAL, s)
        else (0, upd_dproc pid (\<lambda>c. c\<lparr>dc_mdata := True, ses_hash_table := (\<lambda>_. None)\<rparr>) s))"

definition need_module_data :: "dbus_env \<Rightarrow> nat \<Rightarrow> dbus_state \<Rightarrow> int \<times> dbus_state" where
  "need_module_data D pid s = (if dc_mdata (dprocs s pid) then (0, s) else initialize_module_data D pid s)"

text \<open>
  \<open>g_dbus_proxy_call_sync\<close>: NULL for an error, which the code turns into \<open>-EINVAL\<close>. A call of a path
  that the server has not registered is answered with an error.
\<close>

definition proxy_call :: "dbus_env \<Rightarrow> obj_path \<Rightarrow> call_method \<Rightarrow> dval list \<Rightarrow> (int \<times> dval list) dbusm" where
  "proxy_call D path m args s = do {
     (rep, s) \<leftarrow> (if path \<in> d_paths s then server_message_handler D path m args s else Some (Failed, s));
     Some (case rep of Failed \<Rightarrow> (- EINVAL, []) | Reply vs \<Rightarrow> (0, vs), s)
   }"

definition module_call :: "dbus_env \<Rightarrow> nat \<Rightarrow> module_method \<Rightarrow> dval list \<Rightarrow> (int \<times> dval list) dbusm" where
  "module_call D pid m args s =
     (let (ret, s) = need_module_data D pid s in
      if ret \<noteq> 0 then Some ((ret, []), s) else proxy_call D AGM_OBJECT_PATH (Module m) args s)"

definition module_code :: "dbus_env \<Rightarrow> nat \<Rightarrow> module_method \<Rightarrow> dval list \<Rightarrow> int dbusm" where
  "module_code D pid m args s = do { ((ret, _), s) \<leftarrow> module_call D pid m args s; Some (ret, s) }"

definition session_call ::
    "dbus_env \<Rightarrow> nat \<Rightarrow> nat option \<Rightarrow> session_method \<Rightarrow> dval list \<Rightarrow> (int \<times> dval list) dbusm" where
  "session_call D pid handle m args s = do {
     c \<leftarrow> handle;
     proxy_call D (cs_obj_path (dc_sessions (dprocs s pid) ! c)) (Session m) args s
   }"

definition session_code ::
    "dbus_env \<Rightarrow> nat \<Rightarrow> nat option \<Rightarrow> session_method \<Rightarrow> dval list \<Rightarrow> int dbusm" where
  "session_code D pid handle m args s = do { ((ret, _), s) \<leftarrow> session_call D pid handle m args s; Some (ret, s) }"

text \<open>A size, and an array of as many bytes.\<close>

definition size_bytes :: "u8 list \<Rightarrow> dval list" where
  "size_bytes bs = [U32 (word_of_nat (length bs)), Ay (Raw bs)]"

section \<open>Events\<close>

text \<open>
  \<open>agmevent_cb\<close> sends a signal from the object of the session; every process that has subscribed to the
  object, and in which a main loop runs, calls its functions.
\<close>

definition on_emit_signal_callback :: "nat \<Rightarrow> dc_callback \<Rightarrow> handler" where
  "on_emit_signal_callback pid k i s = do {
     (mid, i) \<leftarrow> get_u32 i;
     (eid, i) \<leftarrow> get_u32 i;
     (size, i) \<leftarrow> get_u32 i;
     (img, i) \<leftarrow> get_ay i;
     case img of
       Raw bs \<Rightarrow>
         if length bs > unat size then None
         else Some (Reply [], s\<lparr>dcalls := (pid, ck_cb k, ck_session_id k, \<lparr>source_module_id = mid, event_id = eid,
           event_payload = bs @ replicate (unat size - length bs) 0\<rparr>, ck_client_data k) # dcalls s\<rparr>)
     | _ \<Rightarrow> None
   }"

definition loop_runs :: "dbus_state \<Rightarrow> nat \<Rightarrow> bool" where
  "loop_runs s pid \<longleftrightarrow> (\<exists>c \<in> set (dc_sessions (dprocs s pid)). cs_thread_loop c)"

fun emit_signal :: "obj_path \<Rightarrow> dval list \<Rightarrow> (nat \<times> nat \<times> obj_path \<times> dc_callback) list \<Rightarrow> unit dbusm" where
  "emit_signal path args [] s = Some ((), s)"
| "emit_signal path args ((sid, pid, p, k) # subs) s =
     (if p = path \<and> loop_runs s pid then do {
        (_, s) \<leftarrow> on_emit_signal_callback pid k args s;
        emit_signal path args subs s
      } else emit_signal path args subs s)"

definition agmevent_cb :: "dbus_env \<Rightarrow> u32 \<Rightarrow> agm_event_cb_params \<Rightarrow> nat \<Rightarrow> unit dbusm" where
  "agmevent_cb D session_id params client_data s = do {
     (_, s) \<leftarrow> d_malloc D s;
     emit_signal (Session_path (sd_session_id (d_data s ! client_data)))
       [U32 (source_module_id params), U32 (event_id params), U32 (word_of_nat (length (event_payload params))),
        Ay (Raw (event_payload params))] (dsubs s) s
   }"

section \<open>Callbacks\<close>

definition upd_cs :: "nat \<Rightarrow> nat \<Rightarrow> (dc_session \<Rightarrow> dc_session) \<Rightarrow> dbus_state \<Rightarrow> dbus_state" where
  "upd_cs pid c f = upd_dproc pid (\<lambda>p. p\<lparr>dc_sessions := (dc_sessions p)[c := f (dc_sessions p ! c)]\<rparr>)"

definition unsubscribe :: "nat \<Rightarrow> dbus_state \<Rightarrow> dbus_state" where
  "unsubscribe sid s = s\<lparr>dsubs := filter (\<lambda>x. fst x \<noteq> sid) (dsubs s)\<rparr>"

definition subscribe_callback_event :: "nat \<Rightarrow> nat \<Rightarrow> bool \<Rightarrow> dc_callback \<Rightarrow> dbus_state \<Rightarrow> dbus_state" where
  "subscribe_callback_event pid c subscribe k s =
     (if subscribe then
        let k = k\<lparr>ck_sub_id := dtick s\<rparr>; s = s\<lparr>dtick := Suc (dtick s)\<rparr>;
            s = s\<lparr>dsubs := dsubs s @ [(ck_sub_id k, pid, cs_obj_path (dc_sessions (dprocs s pid) ! c), k)]\<rparr> in
        upd_cs pid c (\<lambda>x. x\<lparr>cs_callbacks := k # cs_callbacks x\<rparr>) s
      else
        case List.find (\<lambda>n. ck_session_id n = ck_session_id k \<and> ck_evt_type n = ck_evt_type k \<and> ck_sub_id n = ck_sub_id k)
            (cs_callbacks (dc_sessions (dprocs s pid) ! c)) of
          None \<Rightarrow> s
        | Some n \<Rightarrow> upd_cs pid c (\<lambda>x. x\<lparr>cs_callbacks := remove1 n (cs_callbacks x)\<rparr>) (unsubscribe (ck_sub_id k) s))"

text \<open>The session data of a path: those of the hash table, or new ones with a proxy.\<close>

definition new_client_session :: "dbus_env \<Rightarrow> nat \<Rightarrow> u32 \<Rightarrow> obj_path \<Rightarrow> bool \<Rightarrow> nat option \<times> dbus_state \<Rightarrow> nat option \<times> dbus_state" where
  "new_client_session D pid session_id path thread r =
     (case ses_hash_table (dprocs (snd r) pid) session_id of
        Some c \<Rightarrow> (Some c, snd r)
      | None \<Rightarrow>
          let (ok, s) = d_ask (dbus D) (snd r) in
          if \<not> ok then (None, s)
          else let (ok, s) = (if thread then d_ask (dthread D) s else (True, s)) in
            if \<not> ok then (None, s)
            else let c = length (dc_sessions (dprocs s pid)) in
              (Some c, upd_dproc pid (\<lambda>p. p\<lparr>dc_sessions := dc_sessions p @ [\<lparr>cs_obj_path = path, cs_session_id = session_id,
                 cs_thread_loop = thread, cs_callbacks = []\<rparr>], ses_hash_table := (ses_hash_table p)(session_id := Some c)\<rparr>) s))"

definition reply_path :: "dval list \<Rightarrow> obj_path option" where
  "reply_path vs = (case vs of Obj p # _ \<Rightarrow> Some p | _ \<Rightarrow> None)"

text \<open>The event type and the subscription of the record are not set.\<close>

definition agm_session_deregister_cb_dc :: "dbus_env \<Rightarrow> nat \<Rightarrow> u32 \<Rightarrow> event_type \<Rightarrow> nat \<Rightarrow> int dbusm" where
  "agm_session_deregister_cb_dc D pid session_id ev client_data s = do {
     ((ret, vs), s) \<leftarrow> module_call D pid AgmSessionDeRegisterCb [U32 session_id, Evt ev, Ptr client_data] s;
     if ret \<noteq> 0 then Some (ret, s)
     else do {
       path \<leftarrow> reply_path vs;
       let (c, s) = new_client_session D pid session_id path False (None, s);
       case c of None \<Rightarrow> Some (- EINVAL, s)
       | Some c \<Rightarrow> Some (0, subscribe_callback_event pid c False
           \<lparr>ck_session_id = session_id, ck_client_data = client_data, ck_cb = 0, ck_evt_type = junk_evt D, ck_sub_id = junk_sub D\<rparr> s)
     }
   }"

definition agm_session_register_cb_dc ::
    "dbus_env \<Rightarrow> nat \<Rightarrow> u32 \<Rightarrow> nat option \<Rightarrow> event_type \<Rightarrow> nat \<Rightarrow> int dbusm" where
  "agm_session_register_cb_dc D pid session_id cb ev client_data s =
     (case cb of None \<Rightarrow> agm_session_deregister_cb_dc D pid session_id ev client_data s
      | Some f \<Rightarrow> do {
          ((ret, vs), s) \<leftarrow> module_call D pid AgmSessionRegisterCb [U32 session_id, Evt ev, Ptr client_data] s;
          if ret \<noteq> 0 then Some (ret, s)
          else do {
            path \<leftarrow> reply_path vs;
            let (c, s) = new_client_session D pid session_id path True (None, s);
            case c of None \<Rightarrow> Some (- EINVAL, s)
            | Some c \<Rightarrow> Some (0, subscribe_callback_event pid c True
                \<lparr>ck_session_id = session_id, ck_client_data = client_data, ck_cb = f, ck_evt_type = ev, ck_sub_id = 0\<rparr> s)
          }
        })"

section \<open>The functions of the module\<close>

definition agm_session_register_for_events_dc :: "dbus_env \<Rightarrow> nat \<Rightarrow> u32 \<Rightarrow> agm_event_reg_cfg \<Rightarrow> int dbusm" where
  "agm_session_register_for_events_dc D pid x cfg = module_code D pid AgmSessionRegisterForEvents
     [U32 x, Struct [U32 (er_miid cfg), U32 (er_event_id cfg), U32 (word_of_nat (length (er_payload cfg))),
        Byte (er_is_register cfg), Ay (Raw (er_payload cfg))]]"

definition agm_session_aif_set_cal_dc :: "dbus_env \<Rightarrow> nat \<Rightarrow> u32 \<Rightarrow> u32 \<Rightarrow> agm_key_value list \<Rightarrow> int dbusm" where
  "agm_session_aif_set_cal_dc D pid x a es = module_code D pid AgmSessionAifSetCal
     [U32 x, U32 a, U32 (word_of_nat (length es)), Ay (Kv_image es)]"

definition agm_session_aif_set_params_dc :: "dbus_env \<Rightarrow> nat \<Rightarrow> u32 \<Rightarrow> u32 \<Rightarrow> u8 list \<Rightarrow> int dbusm" where
  "agm_session_aif_set_params_dc D pid x a bs = module_code D pid AgmSessionAifSetParams (U32 x # U32 a # size_bytes bs)"

definition agm_session_aif_get_tag_module_info_size_dc ::
    "dbus_env \<Rightarrow> nat \<Rightarrow> u32 \<Rightarrow> u32 \<Rightarrow> u32 \<Rightarrow> (int \<times> u32) dbusm" where
  "agm_session_aif_get_tag_module_info_size_dc D pid x a sz s = do {
     ((ret, vs), s) \<leftarrow> module_call D pid AgmSessionAifGetTagModuleInfoSize [U32 x, U32 a, U32 sz] s;
     if ret \<noteq> 0 then Some ((ret, sz), s)
     else do { (sz, _) \<leftarrow> get_u32 vs; Some ((0, sz), s) }
   }"

text \<open>\<open>payload\<close> tells whether the client passed a buffer.\<close>

definition agm_session_aif_get_tag_module_info_dc ::
    "dbus_env \<Rightarrow> nat \<Rightarrow> u32 \<Rightarrow> u32 \<Rightarrow> bool \<Rightarrow> u32 \<Rightarrow> (int \<times> tag_entry list option \<times> u32) dbusm" where
  "agm_session_aif_get_tag_module_info_dc D pid x a payload sz s =
     (if \<not> payload then do {
        ((ret, sz), s) \<leftarrow> agm_session_aif_get_tag_module_info_size_dc D pid x a sz s;
        Some ((ret, None, sz), s)
      } else do {
        ((ret, vs), s) \<leftarrow> module_call D pid AgmSessionAifGetTagModuleInfo [U32 x, U32 a, U32 sz] s;
        if ret \<noteq> 0 then Some ((ret, None, sz), s)
        else do {
          (n, vs) \<leftarrow> get_u32 vs;
          (img, vs) \<leftarrow> get_ay vs;
          case img of Tag_image tags k \<Rightarrow> if k > unat sz then None else Some ((0, Some tags, n), s) | _ \<Rightarrow> None
        }
      })"

definition agm_session_aif_connect_dc :: "dbus_env \<Rightarrow> nat \<Rightarrow> u32 \<Rightarrow> u32 \<Rightarrow> bool \<Rightarrow> int dbusm" where
  "agm_session_aif_connect_dc D pid x y st = module_code D pid AgmSessionAifConnect [U32 x, U32 y, Bool st]"

definition agm_session_set_ec_ref_dc :: "dbus_env \<Rightarrow> nat \<Rightarrow> u32 \<Rightarrow> u32 \<Rightarrow> bool \<Rightarrow> int dbusm" where
  "agm_session_set_ec_ref_dc D pid x y st = module_code D pid AgmSessionSetEcRef [U32 x, U32 y, Bool st]"

definition agm_session_get_params_dc :: "dbus_env \<Rightarrow> nat \<Rightarrow> u32 \<Rightarrow> u8 list \<Rightarrow> (int \<times> u8 list) dbusm" where
  "agm_session_get_params_dc D pid x bs s = do {
     ((ret, vs), s) \<leftarrow> module_call D pid AgmSessionGetParams (U32 x # size_bytes bs) s;
     if ret \<noteq> 0 then Some ((ret, bs), s)
     else do {
       (img, vs) \<leftarrow> get_ay vs;
       case img of
         Raw rs \<Rightarrow> Some (if length rs \<le> length bs then (0, rs @ drop (length rs) bs) else (- ENOMEM, bs), s)
       | _ \<Rightarrow> None
     }
   }"

definition agm_session_set_params_dc :: "dbus_env \<Rightarrow> nat \<Rightarrow> u32 \<Rightarrow> u8 list \<Rightarrow> int dbusm" where
  "agm_session_set_params_dc D pid x bs = module_code D pid AgmSessionSetParams (U32 x # size_bytes bs)"

definition agm_get_aif_info_list_size_dc :: "dbus_env \<Rightarrow> nat \<Rightarrow> u32 \<Rightarrow> (int \<times> u32) dbusm" where
  "agm_get_aif_info_list_size_dc D pid num s = do {
     ((ret, vs), s) \<leftarrow> module_call D pid AgmGetAifInfoListSize [] s;
     if ret \<noteq> 0 then Some ((ret, num), s)
     else do { (num, _) \<leftarrow> get_u32 vs; Some ((0, num), s) }
   }"

text \<open>The client reads as many entries as it asked for, whatever came; the number is not written back.\<close>

definition agm_get_aif_info_list_dc ::
    "dbus_env \<Rightarrow> nat \<Rightarrow> aif_info list option \<Rightarrow> u32 \<Rightarrow> (int \<times> aif_info list option \<times> u32) dbusm" where
  "agm_get_aif_info_list_dc D pid l num s =
     (if num = 0 then do {
        ((ret, num), s) \<leftarrow> agm_get_aif_info_list_size_dc D pid num s;
        Some ((ret, l, num), s)
      } else do {
        _ \<leftarrow> l;
        ((ret, vs), s) \<leftarrow> module_call D pid AgmGetAifInfoList [U32 num] s;
        if ret \<noteq> 0 then Some ((ret, l, num), s)
        else case vs of
          [Aus xs] \<Rightarrow> if unat num > length xs then None else Some ((0, Some (take (unat num) xs), num), s)
        | _ \<Rightarrow> None
      })"

definition agm_set_params_with_tag_dc :: "dbus_env \<Rightarrow> nat \<Rightarrow> u32 \<Rightarrow> u32 \<Rightarrow> agm_tag_config \<Rightarrow> int dbusm" where
  "agm_set_params_with_tag_dc D pid x a tc = module_code D pid AgmSetParamsWithTag
     [U32 x, U32 a, Struct [U32 (tc_tag tc), U32 (word_of_nat (length (tc_kv tc))), Auu (tc_kv tc)]]"

definition agm_session_set_loopback_dc :: "dbus_env \<Rightarrow> nat \<Rightarrow> u32 \<Rightarrow> u32 \<Rightarrow> bool \<Rightarrow> int dbusm" where
  "agm_session_set_loopback_dc D pid x y st = module_code D pid AgmSessionSetLoopback [U32 x, U32 y, Bool st]"

definition agm_session_set_metadata_dc :: "dbus_env \<Rightarrow> nat \<Rightarrow> u32 \<Rightarrow> u8 list \<Rightarrow> int dbusm" where
  "agm_session_set_metadata_dc D pid x bs = module_code D pid AgmSessionSetMetadata (U32 x # size_bytes bs)"

definition agm_session_aif_set_metadata_dc :: "dbus_env \<Rightarrow> nat \<Rightarrow> u32 \<Rightarrow> u32 \<Rightarrow> u8 list \<Rightarrow> int dbusm" where
  "agm_session_aif_set_metadata_dc D pid x a bs = module_code D pid AgmSessionAifSetMetadata (U32 x # U32 a # size_bytes bs)"

definition agm_aif_set_metadata_dc :: "dbus_env \<Rightarrow> nat \<Rightarrow> u32 \<Rightarrow> u8 list \<Rightarrow> int dbusm" where
  "agm_aif_set_metadata_dc D pid a bs = module_code D pid AgmAifSetMetadata (U32 a # size_bytes bs)"

definition agm_aif_set_media_config_dc :: "dbus_env \<Rightarrow> nat \<Rightarrow> u32 \<Rightarrow> agm_media_config \<Rightarrow> int dbusm" where
  "agm_aif_set_media_config_dc D pid a mc = module_code D pid AgmAifSetMediaConfig
     [U32 a, Struct [U32 (rate mc), U32 (channels mc), Fmt_i (format mc)]]"

definition agm_get_buffer_timestamp_dc :: "dbus_env \<Rightarrow> nat \<Rightarrow> u32 \<Rightarrow> u64 \<Rightarrow> (int \<times> u64) dbusm" where
  "agm_get_buffer_timestamp_dc D pid x ts s = do {
     ((ret, vs), s) \<leftarrow> module_call D pid AgmGetBufferTimestamp [U32 x] s;
     if ret \<noteq> 0 then Some ((ret, ts), s)
     else case vs of [U64 t] \<Rightarrow> Some ((0, t), s) | _ \<Rightarrow> None
   }"

section \<open>The functions of a session\<close>

definition agm_get_hw_processed_buff_cnt_dc :: "dbus_env \<Rightarrow> nat \<Rightarrow> nat option \<Rightarrow> u32 \<Rightarrow> u32 dbusm" where
  "agm_get_hw_processed_buff_cnt_dc D pid h dirn s = do {
     ((ret, vs), s) \<leftarrow> session_call D pid h AgmGetHwProcessedBufCount [U32 dirn] s;
     if ret \<noteq> 0 then Some (word_of_int (- EINVAL), s)
     else case vs of [I32 n] \<Rightarrow> Some (n, s) | _ \<Rightarrow> None
   }"

definition agm_get_session_time_dc :: "dbus_env \<Rightarrow> nat \<Rightarrow> nat option \<Rightarrow> u64 \<Rightarrow> (int \<times> u64) dbusm" where
  "agm_get_session_time_dc D pid h ts s = do {
     ((ret, vs), s) \<leftarrow> session_call D pid h AgmSessionGetTime [] s;
     if ret \<noteq> 0 then Some ((ret, ts), s)
     else case vs of [U64 t] \<Rightarrow> Some ((0, t), s) | _ \<Rightarrow> None
   }"

definition agm_session_eos_dc :: "dbus_env \<Rightarrow> nat \<Rightarrow> nat option \<Rightarrow> int dbusm" where
  "agm_session_eos_dc D pid h = session_code D pid h AgmSessionEos []"

definition agm_session_set_config_dc ::
    "dbus_env \<Rightarrow> nat \<Rightarrow> nat option \<Rightarrow> agm_session_config \<Rightarrow> agm_media_config \<Rightarrow> agm_buffer_config \<Rightarrow> int dbusm" where
  "agm_session_set_config_dc D pid h sc mc bc = session_code D pid h AgmSessionSetConfig
     [Struct [U32 (rate mc), U32 (channels mc), Fmt_u (format mc)], Struct [U32 (bcount bc), U32 (ucast (bsize bc))],
      Ay (Session_image sc)]"

definition agm_session_write_dc :: "dbus_env \<Rightarrow> nat \<Rightarrow> nat option \<Rightarrow> u8 list \<Rightarrow> (int \<times> u32) dbusm" where
  "agm_session_write_dc D pid h bs s = do {
     ((ret, vs), s) \<leftarrow> session_call D pid h AgmSessionWrite (size_bytes bs) s;
     if ret \<noteq> 0 then Some ((ret, word_of_nat (length bs)), s)
     else do { (n, _) \<leftarrow> get_u32 vs; Some ((0, n), s) }
   }"

definition agm_session_read_dc :: "dbus_env \<Rightarrow> nat \<Rightarrow> nat option \<Rightarrow> u32 \<Rightarrow> (int \<times> u8 list \<times> u32) dbusm" where
  "agm_session_read_dc D pid h cnt s = do {
     ((ret, vs), s) \<leftarrow> session_call D pid h AgmSessionRead [U32 cnt] s;
     if ret \<noteq> 0 then Some ((ret, [], cnt), s)
     else do {
       (img, vs) \<leftarrow> get_ay vs;
       case img of
         Raw bs \<Rightarrow> Some (if length bs \<le> unat cnt then (0, bs, word_of_nat (length bs)) else (- ENOMEM, [], cnt), s)
       | _ \<Rightarrow> None
     }
   }"

definition agm_session_resume_dc :: "dbus_env \<Rightarrow> nat \<Rightarrow> nat option \<Rightarrow> int dbusm" where
  "agm_session_resume_dc D pid h = session_code D pid h AgmSessionResume []"

definition agm_session_pause_dc :: "dbus_env \<Rightarrow> nat \<Rightarrow> nat option \<Rightarrow> int dbusm" where
  "agm_session_pause_dc D pid h = session_code D pid h AgmSessionPause []"

definition agm_session_stop_dc :: "dbus_env \<Rightarrow> nat \<Rightarrow> nat option \<Rightarrow> int dbusm" where
  "agm_session_stop_dc D pid h = session_code D pid h AgmSessionStop []"

definition agm_session_start_dc :: "dbus_env \<Rightarrow> nat \<Rightarrow> nat option \<Rightarrow> int dbusm" where
  "agm_session_start_dc D pid h = session_code D pid h AgmSessionStart []"

definition agm_session_prepare_dc :: "dbus_env \<Rightarrow> nat \<Rightarrow> nat option \<Rightarrow> int dbusm" where
  "agm_session_prepare_dc D pid h = session_code D pid h AgmSessionPrepare []"

text \<open>After a close the session data are freed and then read, for the proxy.\<close>

definition agm_session_close_dc :: "dbus_env \<Rightarrow> nat \<Rightarrow> nat option \<Rightarrow> int dbusm" where
  "agm_session_close_dc D pid h s = do {
     ((ret, _), s) \<leftarrow> session_call D pid h AgmSessionClose [] s;
     if ret \<noteq> 0 then Some (ret, s) else None
   }"

text \<open>The second result is what is stored through \<open>handle\<close>.\<close>

definition agm_session_open_dc :: "dbus_env \<Rightarrow> nat \<Rightarrow> u32 \<Rightarrow> (int \<times> nat option) dbusm" where
  "agm_session_open_dc D pid x s = do {
     ((ret, vs), s) \<leftarrow> module_call D pid AgmSessionOpen [U32 x] s;
     if ret \<noteq> 0 then Some ((ret, None), s)
     else do {
       path \<leftarrow> reply_path vs;
       let (c, s) = new_client_session D pid x path False (None, s);
       Some (case c of None \<Rightarrow> (- EINVAL, None) | Some c \<Rightarrow> (0, Some c), s)
     }
   }"

definition agm_init_dc :: "dbus_env \<Rightarrow> nat \<Rightarrow> dbus_state \<Rightarrow> int \<times> dbus_state" where
  "agm_init_dc = need_module_data"

end
