(* ===== verification/Agm_Dbus_Props.thy ===== *)
theory Agm_Dbus_Props
  imports Agm_Dbus_Client Agm_Swb_Props
begin

text \<open>
  The D-Bus transport. A request of a client has the effect on the service of the same request made
  directly, with the service's handle of the session; every error arrives as \<open>-EINVAL\<close>. A close that the
  service accepts, a deinitialisation and the death of the bus never return.
\<close>

section \<open>A working server\<close>

definition dbus_env_ok :: "dbus_env \<Rightarrow> bool" where
  "dbus_env_ok D \<longleftrightarrow> (\<forall>n. dalloc D n \<and> dregister D n \<and> dbus D n \<and> dthread D n) \<and> junk_free_null D"

text \<open>The module is registered, and the objects of the sessions are those of the hash table.\<close>

definition server_up :: "dbus_state \<Rightarrow> bool" where
  "server_up s \<longleftrightarrow> (\<exists>ifs. d_objects s AGM_OBJECT_PATH = Some ifs \<and> ifs AGM_MODULE_IFACE \<noteq> None)
     \<and> AGM_OBJECT_PATH \<in> d_paths s \<and> (\<forall>x d. d_sessions s x = Some d \<longrightarrow> d < length (d_data s))"

definition d_reach :: "dbus_env \<Rightarrow> nat \<Rightarrow> dbus_state \<Rightarrow> dbus_state" where
  "d_reach D pid s = snd (need_module_data D pid s)"

lemma need_module_data_ok: "dbus_env_ok D \<Longrightarrow> need_module_data D pid s = (0, d_reach D pid s)"
  by (auto simp: d_reach_def need_module_data_def initialize_module_data_def d_ask_def dbus_env_ok_def Let_def)

lemma d_reach_frame [simp]:
  "dsvc (d_reach D pid s) = dsvc s" "d_sessions (d_reach D pid s) = d_sessions s" "d_data (d_reach D pid s) = d_data s"
  "d_objects (d_reach D pid s) = d_objects s" "d_paths (d_reach D pid s) = d_paths s" "server_up (d_reach D pid s) = server_up s"
  by (auto simp: d_reach_def need_module_data_def initialize_module_data_def d_ask_def upd_dproc_def server_up_def Let_def)

lemma d_malloc_ok: "dbus_env_ok D \<Longrightarrow> d_malloc D s = Some ((), s\<lparr>dtick := Suc (dtick s)\<rparr>)"
  by (simp add: d_malloc_def d_ask_def dbus_env_ok_def)

interpretation dbus: transport dsvc "\<lambda>t s. s\<lparr>dsvc := t\<rparr>"
  by unfold_locales simp

definition dcode :: "int \<Rightarrow> int" where
  "dcode r = (if r = 0 then 0 else - EINVAL)"

definition dcoded :: "(int, agm_state) result \<Rightarrow> (int, agm_state) result" where
  "dcoded = map_option (\<lambda>(r, t). (dcode r, t))"

lemma dcoded_simps [simp]: "dcoded None = None" "dcoded (Some (r, t)) = Some (dcode r, t)"
  by (simp_all add: dcoded_def)

definition reply_code :: "d_reply \<Rightarrow> int" where
  "reply_code rep = (case rep of Failed \<Rightarrow> - EINVAL | Reply vs \<Rightarrow> 0)"

lemma reply_code_simps [simp]: "reply_code Failed = - EINVAL" "reply_code (Reply vs) = 0"
  by (simp_all add: reply_code_def)

lemma view_plain_reply:
  "view dsvc (do { (rep, s) \<leftarrow> plain_reply m s; Some (reply_code rep, s) }) = dcoded (m (dsvc s))"
  by (cases "m (dsvc s)") (auto simp: plain_reply_def d_agm_def dcode_def)

lemma module_call_up:
  assumes "dbus_env_ok D" "server_up s"
  shows "module_call D pid m args s = do {
    (rep, s) \<leftarrow> agm_dbus_module_methods D m args (d_reach D pid s);
    Some (case rep of Failed \<Rightarrow> (- EINVAL, []) | Reply vs \<Rightarrow> (0, vs), s) }"
proof -
  obtain ifs u where "d_objects s AGM_OBJECT_PATH = Some ifs" "ifs AGM_MODULE_IFACE = Some u" "AGM_OBJECT_PATH \<in> d_paths s"
    using assms(2) by (auto simp: server_up_def)
  with assms(1) show ?thesis
    by (simp add: module_call_def need_module_data_ok proxy_call_def server_message_handler_def)
qed

lemma module_code_up:
  assumes "dbus_env_ok D" "server_up s"
  shows "module_code D pid m args s = do {
    (rep, s) \<leftarrow> agm_dbus_module_methods D m args (d_reach D pid s); Some (reply_code rep, s) }"
  by (cases "agm_dbus_module_methods D m args (d_reach D pid s)")
    (auto simp: module_code_def module_call_up [OF assms] split: d_reply.splits)

text \<open>The session data that a handle of a client leads to, and the service's handle in them.\<close>

definition data_of :: "nat \<Rightarrow> dbus_state \<Rightarrow> nat option \<Rightarrow> nat option" where
  "data_of pid s h = do {
     c \<leftarrow> h;
     let path = cs_obj_path (dc_sessions (dprocs s pid) ! c);
     ifs \<leftarrow> d_objects s path;
     if path \<in> d_paths s then ifs AGM_SESSION_IFACE else None
   }"

definition service_handle :: "nat \<Rightarrow> dbus_state \<Rightarrow> nat option \<Rightarrow> nat option" where
  "service_handle pid s h = do { d \<leftarrow> data_of pid s h; sd_h d s }"

lemma session_call_data:
  assumes "data_of pid s h = Some d"
  shows "session_call D pid h m args s = do {
    (rep, s) \<leftarrow> agm_dbus_session_methods D m d args s;
    Some (case rep of Failed \<Rightarrow> (- EINVAL, []) | Reply vs \<Rightarrow> (0, vs), s) }"
  using assms by (auto simp: data_of_def session_call_def proxy_call_def server_message_handler_def Let_def
      split: bind_splits if_splits)

lemma session_code_data:
  assumes "data_of pid s h = Some d"
  shows "session_code D pid h m args s = do {
    (rep, s) \<leftarrow> agm_dbus_session_methods D m d args s; Some (reply_code rep, s) }"
  by (cases "agm_dbus_session_methods D m d args s")
    (auto simp: session_code_def session_call_data [OF assms] split: d_reply.splits)

section \<open>A request through the transport\<close>

definition d_code :: "('a \<Rightarrow> int) \<Rightarrow> 'a dbusm \<Rightarrow> int dbusm" where
  "d_code f m s = do { (r, s) \<leftarrow> m s; Some (f r, s) }"

fun dbus_serve :: "dbus_env \<Rightarrow> nat \<Rightarrow> request \<Rightarrow> int dbusm" where
  "dbus_serve D pid (Aif_set_metadata a m) = agm_aif_set_metadata_dc D pid a m"
| "dbus_serve D pid (Aif_set_media_config a c) =
     (case c of None \<Rightarrow> (\<lambda>s. None) | Some mc \<Rightarrow> agm_aif_set_media_config_dc D pid a mc)"
| "dbus_serve D pid (Aif_set_params a m) = (\<lambda>s. None)"
| "dbus_serve D pid (Session_set_metadata x m) = agm_session_set_metadata_dc D pid x m"
| "dbus_serve D pid (Session_aif_set_metadata x a m) = agm_session_aif_set_metadata_dc D pid x a m"
| "dbus_serve D pid (Session_aif_get_tag_module_info x a b) =
     d_code fst (agm_session_aif_get_tag_module_info_dc D pid x a b 0)"
| "dbus_serve D pid (Session_aif_set_cal x a c) = agm_session_aif_set_cal_dc D pid x a c"
| "dbus_serve D pid (Session_aif_set_params x a m) = agm_session_aif_set_params_dc D pid x a m"
| "dbus_serve D pid (Session_get_params x m) = d_code fst (agm_session_get_params_dc D pid x m)"
| "dbus_serve D pid (Session_set_params x m) = agm_session_set_params_dc D pid x m"
| "dbus_serve D pid (Set_params_with_tag x a c) = agm_set_params_with_tag_dc D pid x a c"
| "dbus_serve D pid (Session_register_cb x cb t d) = agm_session_register_cb_dc D pid x cb t d"
| "dbus_serve D pid (Session_register_for_events x c) =
     (case c of None \<Rightarrow> (\<lambda>s. None) | Some cfg \<Rightarrow> agm_session_register_for_events_dc D pid x cfg)"
| "dbus_serve D pid (Session_aif_connect x a b) = agm_session_aif_connect_dc D pid x a b"
| "dbus_serve D pid (Session_set_loopback x y b) = agm_session_set_loopback_dc D pid x y b"
| "dbus_serve D pid (Session_set_ec_ref x a b) = agm_session_set_ec_ref_dc D pid x a b"
| "dbus_serve D pid (Session_get_buf_info x i f) = (\<lambda>s. None)"
| "dbus_serve D pid (Get_buffer_timestamp x b) =
     (if b then d_code fst (agm_get_buffer_timestamp_dc D pid x 0) else (\<lambda>s. None))"
| "dbus_serve D pid (Session_open x b) = (if b then d_code fst (agm_session_open_dc D pid x) else (\<lambda>s. None))"
| "dbus_serve D pid (Session_set_config h sc mc bc) = agm_session_set_config_dc D pid h sc mc bc"
| "dbus_serve D pid (Session_prepare h) = agm_session_prepare_dc D pid h"
| "dbus_serve D pid (Session_start h) = agm_session_start_dc D pid h"
| "dbus_serve D pid (Session_stop h) = agm_session_stop_dc D pid h"
| "dbus_serve D pid (Session_close h) = agm_session_close_dc D pid h"
| "dbus_serve D pid (Session_pause h) = agm_session_pause_dc D pid h"
| "dbus_serve D pid (Session_resume h) = agm_session_resume_dc D pid h"
| "dbus_serve D pid (Session_write h bs) = d_code fst (agm_session_write_dc D pid h bs)"
| "dbus_serve D pid (Session_read h n) = d_code fst (agm_session_read_dc D pid h (word_of_nat n))"
| "dbus_serve D pid (Session_eos h) = agm_session_eos_dc D pid h"
| "dbus_serve D pid (Get_session_time h b) =
     (if b then d_code fst (agm_get_session_time_dc D pid h 0) else (\<lambda>s. None))"
| "dbus_serve D pid (Graph_event ev c) = (\<lambda>s. None)"

text \<open>
  What the transport carries; a tag configuration has to fit into 32 bits. A close is left to a
  property of its own.
\<close>

definition dbus_fits :: "nat \<Rightarrow> dbus_state \<Rightarrow> request \<Rightarrow> bool" where
  "dbus_fits pid s q \<longleftrightarrow> (let ok = (\<lambda>h. data_of pid s h \<noteq> None) in case q of
       Aif_set_metadata a m \<Rightarrow> length m < 2 ^ 32
     | Aif_set_media_config a c \<Rightarrow> c \<noteq> None
     | Aif_set_params a m \<Rightarrow> False
     | Session_set_metadata x m \<Rightarrow> length m < 2 ^ 32
     | Session_aif_set_metadata x a m \<Rightarrow> length m < 2 ^ 32
     | Session_aif_get_tag_module_info x a b \<Rightarrow> \<not> b
     | Session_aif_set_cal x a c \<Rightarrow> length c < 2 ^ 29
     | Session_aif_set_params x a m \<Rightarrow> length m < 2 ^ 32
     | Session_get_params x m \<Rightarrow> length m < 2 ^ 32
     | Session_set_params x m \<Rightarrow> length m < 2 ^ 32
     | Set_params_with_tag x a c \<Rightarrow> 8 + 8 * length (tc_kv c) < 2 ^ 32
     | Session_register_for_events x c \<Rightarrow> (case c of None \<Rightarrow> False | Some cfg \<Rightarrow> length (er_payload cfg) < 2 ^ 32)
     | Session_get_buf_info x i f \<Rightarrow> False
     | Get_buffer_timestamp x b \<Rightarrow> b
     | Session_open x b \<Rightarrow> b
     | Session_set_config h sc mc bc \<Rightarrow> ok h \<and> unat (bsize bc) < 2 ^ 32
     | Session_prepare h \<Rightarrow> ok h
     | Session_start h \<Rightarrow> ok h
     | Session_stop h \<Rightarrow> ok h
     | Session_close h \<Rightarrow> False
     | Session_pause h \<Rightarrow> ok h
     | Session_resume h \<Rightarrow> ok h
     | Session_write h bs \<Rightarrow> ok h \<and> length bs < 2 ^ 32
     | Session_read h n \<Rightarrow> ok h \<and> n < 2 ^ 32
     | Session_eos h \<Rightarrow> ok h
     | Get_session_time h b \<Rightarrow> ok h \<and> b
     | Graph_event ev c \<Rightarrow> False
     | _ \<Rightarrow> True)"

text \<open>
  The request that the service gets: its own handle, a data format from the server's stack, and for a
  callback the server's function with the address of the session data.
\<close>

definition dbus_request :: "dbus_env \<Rightarrow> nat \<Rightarrow> dbus_state \<Rightarrow> request \<Rightarrow> request" where
  "dbus_request D pid s q = (let f = service_handle pid s; junk = (\<lambda>mc. mc\<lparr>data_format := junk_format D\<rparr>) in case q of
       Aif_set_media_config a c \<Rightarrow> Aif_set_media_config a (map_option junk c)
     | Session_register_cb x cb t d \<Rightarrow> Session_register_cb x (map_option (\<lambda>_. dcb D) cb) t
         (case d_sessions s x of None \<Rightarrow> length (d_data s) | Some d \<Rightarrow> d)
     | Session_set_config h sc mc bc \<Rightarrow> Session_set_config (f h) sc (junk mc) bc
     | Session_prepare h \<Rightarrow> Session_prepare (f h)
     | Session_start h \<Rightarrow> Session_start (f h)
     | Session_stop h \<Rightarrow> Session_stop (f h)
     | Session_pause h \<Rightarrow> Session_pause (f h)
     | Session_resume h \<Rightarrow> Session_resume (f h)
     | Session_write h bs \<Rightarrow> Session_write (f h) bs
     | Session_read h n \<Rightarrow> Session_read (f h) n
     | Session_eos h \<Rightarrow> Session_eos (f h)
     | Get_session_time h b \<Rightarrow> Get_session_time (f h) b
     | _ \<Rightarrow> q)"

text \<open>GSL reports the number of bytes that it has written.\<close>

definition gsl_exact :: "env \<Rightarrow> bool" where
  "gsl_exact E \<longleftrightarrow> gsl_fills E \<and> (\<forall>h g ep n. rsize (ext E h (Gsl_read g ep n)) = length (rbytes (ext E h (Gsl_read g ep n))))"

lemmas dc_calls = agm_aif_set_metadata_dc_def agm_aif_set_media_config_dc_def agm_session_set_metadata_dc_def
  agm_session_aif_set_metadata_dc_def agm_session_aif_set_cal_dc_def agm_session_aif_set_params_dc_def
  agm_session_set_params_dc_def agm_set_params_with_tag_dc_def agm_session_register_for_events_dc_def
  agm_session_aif_connect_dc_def agm_session_set_loopback_dc_def agm_session_set_ec_ref_dc_def
  agm_session_set_config_dc_def agm_session_prepare_dc_def agm_session_start_dc_def agm_session_stop_dc_def
  agm_session_pause_dc_def agm_session_resume_dc_def agm_session_eos_dc_def

lemmas db_handlers = ipc_agm_audio_intf_set_metadata_db_def ipc_agm_audio_intf_set_media_config_db_def
  ipc_agm_session_set_metadata_db_def ipc_agm_session_audio_inf_set_metadata_db_def ipc_agm_session_aif_set_cal_db_def
  ipc_agm_session_aif_set_params_db_def ipc_agm_session_set_params_db_def ipc_agm_set_params_with_tag_db_def
  ipc_agm_session_register_for_events_db_def ipc_agm_session_audio_inf_connect_db_def ipc_agm_session_set_loopback_db_def
  ipc_agm_session_set_ec_ref_db_def ipc_agm_session_set_config_db_def ipc_agm_session_prepare_db_def
  ipc_agm_session_start_db_def ipc_agm_session_stop_db_def ipc_agm_session_pause_db_def ipc_agm_session_resume_db_def
  ipc_agm_session_eos_db_def

lemma agm_aif_media_junk: "\<lparr>rate = rate mc, channels = channels mc, format = format mc, data_format = j\<rparr> = mc\<lparr>data_format := j\<rparr>"
  by (cases mc) simp

lemma service_handle_data: "data_of pid s h = Some d \<Longrightarrow> service_handle pid s h = sd_h d s"
  by (simp add: service_handle_def)

lemma sd_h_frame [simp]: "sd_h d (s\<lparr>dtick := n\<rparr>) = sd_h d s" "sd_h d (s\<lparr>dsvc := t\<rparr>) = sd_h d s"
  by (simp_all add: sd_h_def)

lemmas plain_dbus = dc_calls db_handlers with_args_def dbus_message_get_signature_def size_bytes_def with_bytes_def
  view_plain_reply unat_len32 agm_aif_media_junk config_eta

lemma view_dc_plain:
  assumes "dbus_env_ok D" "server_up s"
  shows "length c < 2 ^ 29 \<Longrightarrow> view dsvc (agm_session_aif_set_cal_dc D pid x a c s)
      = dcoded (agm_session_aif_set_cal (denv D) x a c (dsvc s))"
    and "length m < 2 ^ 32 \<Longrightarrow> view dsvc (agm_aif_set_metadata_dc D pid a m s)
      = dcoded (agm_aif_set_metadata (denv D) a m (dsvc s))"
    and "8 + 8 * length (tc_kv tc) < 2 ^ 32 \<Longrightarrow> view dsvc (agm_set_params_with_tag_dc D pid x a tc s)
      = dcoded (agm_set_params_with_tag (denv D) x a tc (dsvc s))"
    and "length (er_payload cfg) < 2 ^ 32 \<Longrightarrow> view dsvc (agm_session_register_for_events_dc D pid x cfg s)
      = dcoded (agm_session_register_for_events (denv D) x (Some cfg) (dsvc s))"
    and "data_of pid s h = Some d \<Longrightarrow> unat (bsize bc) < 2 ^ 32 \<Longrightarrow> view dsvc (agm_session_set_config_dc D pid h sc mc bc s)
      = dcoded (agm_session_set_config (sd_h d s) sc (mc\<lparr>data_format := junk_format D\<rparr>) bc (dsvc s))"
  by (simp_all add: plain_dbus module_code_up [OF assms] session_code_data d_malloc_ok [OF assms(1)] config_exact)

lemma d_code_module:
  "d_code f (\<lambda>s. module_call D pid m args s \<bind> k) s = module_call D pid m args s \<bind> (\<lambda>x. k x \<bind> (\<lambda>(r, s). Some (f r, s)))"
  by (cases "module_call D pid m args s") (auto simp: d_code_def)

lemma view_dc_results:
  assumes "dbus_env_ok D" "server_up s"
  shows "view dsvc (dbus_serve D pid (Session_aif_get_tag_module_info x a False) s)
      = dcoded (serve (denv D) (Session_aif_get_tag_module_info x a False) (dsvc s))"
    and "view dsvc (dbus_serve D pid (Get_buffer_timestamp x True) s)
      = dcoded (serve (denv D) (Get_buffer_timestamp x True) (dsvc s))"
    and "data_of pid s h = Some d \<Longrightarrow> view dsvc (dbus_serve D pid (Get_session_time h True) s)
      = dcoded (serve (denv D) (Get_session_time (sd_h d s) True) (dsvc s))"
    and "data_of pid s h = Some d \<Longrightarrow> length bs < 2 ^ 32 \<Longrightarrow> view dsvc (dbus_serve D pid (Session_write h bs) s)
      = dcoded (serve (denv D) (Session_write (sd_h d s) bs) (dsvc s))"
  by (auto simp: d_code_def agm_session_aif_get_tag_module_info_dc_def agm_session_aif_get_tag_module_info_size_dc_def
      agm_get_buffer_timestamp_dc_def agm_get_session_time_dc_def agm_session_write_dc_def module_call_up [OF assms]
      session_call_data ipc_agm_session_aif_get_tag_module_info_size_db_def ipc_agm_get_buffer_timestamp_db_def
      ipc_agm_get_session_time_db_def ipc_agm_session_write_db_def with_args_def dbus_message_get_signature_def
      size_bytes_def unat_len32 d_malloc_ok [OF assms(1)] d_agm_def code_of_def dcoded_def dcode_def split: bind_splits)

lemma agm_session_read_exact:
  assumes "gsl_exact E" "agm_session_read E h n t = Some ((ret, cnt, bs), t')"
  shows "length bs \<le> n \<and> (ret = 0 \<longrightarrow> cnt = length bs)"
proof -
  have "gsl_fills E" using assms(1) by (simp add: gsl_exact_def)
  from read_length [OF this assms(2)] show ?thesis
    using assms by (auto simp: gsl_exact_def agm_session_read_def with_handle_def session_obj_read_def graph_read_def
        xcall_def split: if_splits option.splits bind_splits)
qed

lemma view_dc_buffers:
  assumes "dbus_env_ok D" "server_up s" "gsl_exact (denv D)"
  shows "length m < 2 ^ 32 \<Longrightarrow> view dsvc (dbus_serve D pid (Session_get_params x m) s)
      = dcoded (serve (denv D) (Session_get_params x m) (dsvc s))"
    and "data_of pid s h = Some d \<Longrightarrow> n < 2 ^ 32 \<Longrightarrow> view dsvc (dbus_serve D pid (Session_read h n) s)
      = dcoded (serve (denv D) (Session_read (sd_h d s) n) (dsvc s))"
proof -
  have fills: "gsl_fills (denv D)" using assms(3) by (simp add: gsl_exact_def)
  show "length m < 2 ^ 32 \<Longrightarrow> view dsvc (dbus_serve D pid (Session_get_params x m) s)
      = dcoded (serve (denv D) (Session_get_params x m) (dsvc s))"
    using get_params_length [OF fills]
    by (auto simp: d_code_def agm_session_get_params_dc_def module_call_up [OF assms(1,2)] ipc_agm_session_get_params_db_def
        with_args_def dbus_message_get_signature_def size_bytes_def unat_len32 d_malloc_ok [OF assms(1)] d_agm_def code_of_def
        dcoded_def dcode_def split: bind_splits)
  show "data_of pid s h = Some d \<Longrightarrow> n < 2 ^ 32 \<Longrightarrow> view dsvc (dbus_serve D pid (Session_read h n) s)
      = dcoded (serve (denv D) (Session_read (sd_h d s) n) (dsvc s))"
    by (auto dest: agm_session_read_exact [OF assms(3)] simp: d_code_def agm_session_read_dc_def session_call_data
        ipc_agm_session_read_db_def with_args_def dbus_message_get_signature_def unat_len32 d_malloc_ok [OF assms(1)]
        d_agm_def code_of_def dcoded_def dcode_def split: bind_splits)
qed

definition data_address :: "dbus_state \<Rightarrow> u32 \<Rightarrow> nat" where
  "data_address s x = (case d_sessions s x of None \<Rightarrow> length (d_data s) | Some d \<Rightarrow> d)"

lemma add_interface_ok:
  assumes "dbus_env_ok D"
  shows "\<exists>s'. agm_dbus_add_interface D path i u s = Some (0, s') \<and> dsvc s' = dsvc s \<and> d_sessions s' = d_sessions s
    \<and> d_data s' = d_data s \<and> dprocs s' = dprocs s \<and> dsubs s' = dsubs s \<and> (server_up s \<longrightarrow> server_up s')"
  using assms
  by (auto simp: agm_dbus_add_interface_def d_malloc_ok d_ask_def dbus_env_ok_def server_up_def d_malloc_def
      split: option.split)

lemma get_session_data_ok:
  assumes "dbus_env_ok D" "server_up s"
  shows "\<exists>s'. get_session_data D x s = Some (Some (data_address s x), s') \<and> dsvc s' = dsvc s \<and> server_up s'
    \<and> data_address s x < length (d_data s') \<and> dprocs s' = dprocs s \<and> dsubs s' = dsubs s"
proof (cases "d_sessions s x")
  case None
  let ?d = "length (d_data s)"
  let ?s = "s\<lparr>dtick := Suc (dtick s), d_data := d_data s @ [\<lparr>sd_session_id = x, sd_handle = junk_handle D, sd_callbacks = []\<rparr>]\<rparr>"
  obtain s' where "agm_dbus_add_interface D (Session_path x) AGM_SESSION_IFACE ?d ?s = Some (0, s')" "dsvc s' = dsvc s"
      "d_sessions s' = d_sessions s" "d_data s' = d_data ?s" "dprocs s' = dprocs s" "dsubs s' = dsubs s"
      "server_up ?s \<longrightarrow> server_up s'"
    using add_interface_ok [OF assms(1), of "Session_path x" AGM_SESSION_IFACE ?d ?s] by auto
  with None assms show ?thesis
    by (auto simp: get_session_data_def d_malloc_ok data_address_def server_up_def less_Suc_eq Let_def)
next
  case (Some d)
  with assms show ?thesis by (auto simp: get_session_data_def data_address_def server_up_def)
qed

lemma new_client_session_ok:
  assumes "dbus_env_ok D"
  shows "fst (new_client_session D pid x path th (z, s)) \<noteq> None" "dsvc (snd (new_client_session D pid x path th (z, s))) = dsvc s"
  using assms
  by (cases "ses_hash_table (dprocs s pid) x"; cases th;
      simp add: new_client_session_def dbus_env_ok_def d_ask_def upd_dproc_def Let_def)+

lemma dsvc_upd [simp]: "dsvc (upd_data d f s) = dsvc s" "dsvc (upd_cs pid c g s) = dsvc s" "dsvc (unsubscribe sid s) = dsvc s"
  "dsvc (subscribe_callback_event pid c b k s) = dsvc s"
  by (auto simp: upd_data_def upd_cs_def upd_dproc_def unsubscribe_def subscribe_callback_event_def Let_def split: option.split)

lemma view_dc_open:
  assumes "dbus_env_ok D" "server_up s"
  shows "view dsvc (dbus_serve D pid (Session_open x True) s) = dcoded (serve (denv D) (Session_open x True) (dsvc s))"
proof -
  let ?s = "d_reach D pid s"
  obtain s1 where s1: "get_session_data D x ?s = Some (Some (data_address ?s x), s1)" "dsvc s1 = dsvc s"
    using get_session_data_ok [OF assms(1), of ?s x] assms(2) by auto
  have junk: "junk_free_null D" using assms(1) by (simp add: dbus_env_ok_def)
  show ?thesis
  proof (cases "agm_session_open (denv D) x True (dsvc s)")
    case None
    with s1 show ?thesis
      by (simp add: d_code_def agm_session_open_dc_def module_call_up [OF assms] ipc_agm_session_open_db_def with_args_def
          dbus_message_get_signature_def d_agm_def code_of_def)
  next
    case (Some p)
    obtain r h t where p: "p = ((r, h), t)" by (cases p) auto
    show ?thesis
    proof (cases "r = 0")
      case True
      have "dregister D n" for n using assms(1) by (simp add: dbus_env_ok_def)
      with True Some p s1 show ?thesis
        by (auto simp: new_client_session_ok [OF assms(1)] d_code_def agm_session_open_dc_def module_call_up [OF assms] ipc_agm_session_open_db_def with_args_def
            dbus_message_get_signature_def d_agm_def code_of_def d_ask_def reply_path_def dcode_def Let_def case_prod_beta
            split: option.split)
    next
      case False
      with Some p s1 junk show ?thesis
        by (simp add: d_code_def agm_session_open_dc_def module_call_up [OF assms] ipc_agm_session_open_db_def with_args_def
            dbus_message_get_signature_def d_agm_def code_of_def agm_free_session_def dcode_def)
    qed
  qed
qed

lemma view_dc_register:
  assumes "dbus_env_ok D" "server_up s"
  shows "view dsvc (agm_session_register_cb_dc D pid x cb ev d s)
    = dcoded (agm_session_register_cb (denv D) x (map_option (\<lambda>_. dcb D) cb) ev (data_address s x) (dsvc s))"
proof -
  let ?s = "d_reach D pid s"
  have addr: "data_address ?s x = data_address s x" by (simp add: data_address_def cong: option.case_cong)
  obtain s1 where s1: "get_session_data D x ?s = Some (Some (data_address s x), s1)" "dsvc s1 = dsvc s"
    using get_session_data_ok [OF assms(1), of ?s x] assms(2) addr by auto
  have junk: "junk_free_null D" using assms(1) by (simp add: dbus_env_ok_def)
  note unfold = agm_session_register_cb_dc_def agm_session_deregister_cb_dc_def module_call_up [OF assms]
    ipc_agm_session_register_cb_db_def ipc_agm_session_deregister_cb_db_def with_args_def dbus_message_get_signature_def
    d_agm_def reply_path_def dcode_def Let_def case_prod_beta agm_free_session_def d_malloc_ok [OF assms(1)]
    new_client_session_ok [OF assms(1)]
  show ?thesis
  proof (cases cb)
    case None
    then show ?thesis
      using s1 junk
      by (cases "agm_session_register_cb (denv D) x None ev (data_address s x) (dsvc s)") (auto simp: unfold split: option.split)
  next
    case (Some f)
    then show ?thesis
      using s1 junk
      by (cases "agm_session_register_cb (denv D) x (Some (dcb D)) ev (data_address s x) (dsvc s)")
        (auto simp: unfold split: option.split)
  qed
qed


text \<open>A server whose session 5 is open and known to process 7.\<close>

definition sample_dbus_env :: dbus_env where
  "sample_dbus_env = \<lparr>denv = small_env\<lparr>ext := (\<lambda>h c. (ext small_env h c)\<lparr>rbytes :=
       (case c of Gsl_get_custom_config g p n \<Rightarrow> replicate n 0 | _ \<Rightarrow> [])\<rparr>)\<rparr>,
     dalloc = (\<lambda>n. True), dregister = (\<lambda>n. True), dbus = (\<lambda>n. True), dthread = (\<lambda>n. True), dcb = 5, junk_handle = None,
     junk_time = 0, junk_format = 0, junk_free_null = True, junk_evt = AGM_EVENT_MODULE, junk_sub = 0\<rparr>"

definition sample_dbus :: "agm_state \<Rightarrow> dbus_state" where
  "sample_dbus t = \<lparr>dsvc = t, d_sessions = [5 \<mapsto> 0], d_data = [\<lparr>sd_session_id = 5, sd_handle = Some 0, sd_callbacks = []\<rparr>],
     d_objects = [AGM_OBJECT_PATH \<mapsto> [AGM_MODULE_IFACE \<mapsto> 0], Session_path 5 \<mapsto> [AGM_SESSION_IFACE \<mapsto> 0]],
     d_paths = {AGM_OBJECT_PATH, Session_path 5}, d_filters = [0],
     dprocs = (\<lambda>pid. \<lparr>dc_mdata = True, ses_hash_table = [5 \<mapsto> 0],
       dc_sessions = [\<lparr>cs_obj_path = Session_path 5, cs_session_id = 5, cs_thread_loop = False, cs_callbacks = []\<rparr>]\<rparr>),
     dsubs = [], dcalls = [], dtick = 0\<rparr>"

lemma sample_dbus_simps [simp]:
  "dbus_env_ok sample_dbus_env" "server_up (sample_dbus t)" "gsl_exact (denv sample_dbus_env)" "dsvc (sample_dbus t) = t"
  "data_of pid (sample_dbus t) (Some 0) = Some 0" "sd_h 0 (sample_dbus t) = Some 0"
  "rc (ext (denv sample_dbus_env) h c) = (case c of Pcm_is_ready p \<Rightarrow> 1 | _ \<Rightarrow> 0)" "rptr (ext (denv sample_dbus_env) h c) = Some 1"
  "konst (denv sample_dbus_env) k = konst sample_env k"
  by (simp_all add: sample_dbus_env_def dbus_env_ok_def sample_dbus_def server_up_def data_of_def sd_h_def)
    (simp add: gsl_exact_def gsl_fills_def small_env_def)


section \<open>Closing\<close>

definition has_iface :: "dbus_state \<Rightarrow> obj_path \<Rightarrow> iface \<Rightarrow> bool" where
  "has_iface s path i \<longleftrightarrow> (\<exists>ifs. d_objects s path = Some ifs \<and> ifs i \<noteq> None)"

lemma remove_interface_crashes: "has_iface s path i \<Longrightarrow> agm_dbus_remove_interface path i s = None"
  by (auto simp: has_iface_def agm_dbus_remove_interface_def)

lemma deregister_all_frame:
  "deregister_all D d ks s = Some ((), s') \<Longrightarrow> d_objects s' = d_objects s \<and> d_data s' = d_data s"
  by (induction ks arbitrary: s) (fastforce simp: d_agm_def split: bind_splits)+



section \<open>Events\<close>

definition subscribed :: "obj_path \<Rightarrow> dbus_state \<Rightarrow> (nat \<times> nat \<times> obj_path \<times> dc_callback) list" where
  "subscribed path s = filter (\<lambda>(sid, pid, p, k). p = path \<and> loop_runs s pid) (dsubs s)"

lemma loop_runs_frame [simp]: "loop_runs (s\<lparr>dcalls := cs\<rparr>) pid = loop_runs s pid" "loop_runs (s\<lparr>dtick := n\<rparr>) pid = loop_runs s pid"
  by (simp_all add: loop_runs_def)

lemma emit_signal_calls:
  assumes "length (event_payload params) < 2 ^ 32"
  shows "emit_signal path [U32 (source_module_id params), U32 (event_id params), U32 (word_of_nat (length (event_payload params))),
      Ay (Raw (event_payload params))] subs s = Some ((), s\<lparr>dcalls := rev (map (\<lambda>(sid, pid, p, k).
        (pid, ck_cb k, ck_session_id k, params, ck_client_data k)) (filter (\<lambda>(sid, pid, p, k). p = path \<and> loop_runs s pid) subs)) @ dcalls s\<rparr>)"
  using assms
proof (induction subs arbitrary: s)
  case (Cons a subs)
  obtain sid pid p k where a: "a = (sid, pid, p, k)" by (cases a)
  have "\<lparr>source_module_id = source_module_id params, event_id = event_id params, event_payload = event_payload params\<rparr> = params"
    by simp
  with Cons show ?case by (simp add: a on_emit_signal_callback_def unat_len32)
qed simp


text \<open>Two functions for two kinds of event: one event calls both.\<close>

definition sample_subs :: dbus_state where
  "sample_subs = (sample_dbus (sample_run SESSION_STOPPED AIF_STOPPED DEV_STOPPED STOPPED))\<lparr>
     dprocs := (\<lambda>pid. \<lparr>dc_mdata = True, ses_hash_table = [5 \<mapsto> 0],
       dc_sessions = [\<lparr>cs_obj_path = Session_path 5, cs_session_id = 5, cs_thread_loop = True, cs_callbacks = []\<rparr>]\<rparr>),
     dsubs := [(1, 7, Session_path 5, \<lparr>ck_session_id = 5, ck_client_data = 8, ck_cb = 3, ck_evt_type = AGM_EVENT_MODULE, ck_sub_id = 1\<rparr>),
       (2, 7, Session_path 5, \<lparr>ck_session_id = 5, ck_client_data = 9, ck_cb = 4, ck_evt_type = AGM_EVENT_DATA_PATH, ck_sub_id = 2\<rparr>)]\<rparr>"


end
