(* ===== verification/Agm_Dbus_Inv.thy ===== *)
theory Agm_Dbus_Inv
  imports Agm_Dbus_Props Agm_Sample_Init
begin

text \<open>
  The tables of the D-Bus server and of its clients over all runs: the hash table, the objects and the
  session data of the server agree, and every handle of a client leads to the data of its session.
\<close>

section \<open>The invariant\<close>

text \<open>Of the server: a session of the hash table has data, and an object registered with them.\<close>

definition session_entry :: "dbus_state \<Rightarrow> u32 \<Rightarrow> bool" where
  "session_entry s x \<longleftrightarrow> (case d_sessions s x of
       None \<Rightarrow> d_objects s (Session_path x) = None
     | Some d \<Rightarrow> d < length (d_data s) \<and> sd_session_id (d_data s ! d) = x
         \<and> d_objects s (Session_path x) = Some [AGM_SESSION_IFACE \<mapsto> d] \<and> Session_path x \<in> d_paths s)"

text \<open>Of a client: one record for a session, with the path of an object of the server.\<close>

definition record_ok :: "(u32 \<Rightarrow> nat option) \<Rightarrow> dc_proc \<Rightarrow> nat \<Rightarrow> bool" where
  "record_ok known p c \<longleftrightarrow> (let e = dc_sessions p ! c in ses_hash_table p (cs_session_id e) = Some c
     \<and> cs_obj_path e = Session_path (cs_session_id e) \<and> known (cs_session_id e) \<noteq> None)"

definition proc_ok :: "(u32 \<Rightarrow> nat option) \<Rightarrow> dc_proc \<Rightarrow> bool" where
  "proc_ok known p \<longleftrightarrow> (\<not> dc_mdata p \<longrightarrow> dc_sessions p = [])
     \<and> (\<forall>x c. dc_mdata p \<longrightarrow> ses_hash_table p x = Some c \<longrightarrow> c < length (dc_sessions p) \<and> cs_session_id (dc_sessions p ! c) = x)
     \<and> (\<forall>c < length (dc_sessions p). record_ok known p c)"

definition dbus_inv :: "dbus_state \<Rightarrow> bool" where
  "dbus_inv s \<longleftrightarrow> (\<exists>ifs. d_objects s AGM_OBJECT_PATH = Some ifs \<and> ifs AGM_MODULE_IFACE \<noteq> None)
     \<and> AGM_OBJECT_PATH \<in> d_paths s \<and> (\<forall>x. session_entry s x) \<and> (\<forall>pid. proc_ok (d_sessions s) (dprocs s pid))"

text \<open>What the invariant is about, and steps that do not touch it.\<close>

definition same_tables :: "dbus_state \<Rightarrow> dbus_state \<Rightarrow> bool" where
  "same_tables s s' \<longleftrightarrow> d_objects s' = d_objects s \<and> d_paths s' = d_paths s \<and> d_sessions s' = d_sessions s
     \<and> map sd_session_id (d_data s') = map sd_session_id (d_data s) \<and> dprocs s' = dprocs s"

definition quiet :: "'a dbusm \<Rightarrow> bool" where
  "quiet m \<longleftrightarrow> (\<forall>s r s'. m s = Some (r, s') \<longrightarrow> same_tables s s')"

lemma same_tables_refl [simp]: "same_tables s s"
  by (simp add: same_tables_def)

lemma same_tables_trans: "same_tables s t \<Longrightarrow> same_tables t u \<Longrightarrow> same_tables s u"
  by (simp add: same_tables_def)

lemma same_tables_entry:
  assumes "same_tables s s'"
  shows "session_entry s' x = session_entry s x"
proof -
  have ids: "map sd_session_id (d_data s') = map sd_session_id (d_data s)" using assms by (simp add: same_tables_def)
  then have len: "length (d_data s') = length (d_data s)" by (metis length_map)
  with ids have "d < length (d_data s) \<Longrightarrow> sd_session_id (d_data s' ! d) = sd_session_id (d_data s ! d)" for d
    by (metis nth_map)
  with assms len show ?thesis by (cases "d_sessions s x") (auto simp: session_entry_def same_tables_def)
qed

lemma same_tables_inv:
  assumes "same_tables s s'" "dbus_inv s"
  shows "dbus_inv s'"
proof -
  have "session_entry s' x" for x using same_tables_entry [OF assms(1)] assms(2) by (simp add: dbus_inv_def)
  with assms show ?thesis by (simp add: dbus_inv_def same_tables_def)
qed

lemma quiet_inv: "quiet m \<Longrightarrow> m s = Some (r, s') \<Longrightarrow> dbus_inv s \<Longrightarrow> dbus_inv s'"
  by (auto simp: quiet_def intro: same_tables_inv)

section \<open>The methods of the server\<close>

lemmas unfold_quiet = quiet_def with_args_def plain_reply_def with_bytes_def d_agm_def d_malloc_def d_ask_def same_tables_def
  Let_def

lemma quiet_session_method: "quiet (agm_dbus_session_methods D m d args)"
  by (cases m; simp; auto simp: unfold_quiet ipc_agm_session_prepare_db_def ipc_agm_session_start_db_def
      ipc_agm_session_stop_db_def ipc_agm_session_pause_db_def ipc_agm_session_resume_db_def ipc_agm_session_read_db_def
      ipc_agm_session_write_db_def ipc_agm_session_set_config_db_def ipc_agm_session_eos_db_def ipc_agm_get_session_time_db_def
      ipc_agm_get_hw_processed_buff_cnt_db_def ipc_agm_session_close_db_def agm_dbus_remove_interface_def
      split: bind_splits if_splits image.splits option.splits)

lemma quiet_module_method:
  assumes "m \<notin> {AgmSessionOpen, AgmSessionRegisterCb, AgmSessionDeRegisterCb}"
  shows "quiet (agm_dbus_module_methods D m args)"
  using assms
  by (cases m; simp; auto simp: unfold_quiet ipc_agm_audio_intf_set_media_config_db_def ipc_agm_audio_intf_set_metadata_db_def
      ipc_agm_session_audio_inf_set_metadata_db_def ipc_agm_session_set_metadata_db_def ipc_agm_session_set_loopback_db_def
      ipc_agm_set_params_with_tag_db_def ipc_agm_get_aif_info_list_size_db_def ipc_agm_get_aif_info_list_db_def
      ipc_agm_session_set_params_db_def ipc_agm_session_register_for_events_db_def ipc_agm_session_set_ec_ref_db_def
      ipc_agm_session_audio_inf_connect_db_def ipc_agm_session_aif_get_tag_module_info_db_def
      ipc_agm_session_aif_get_tag_module_info_size_db_def ipc_agm_session_aif_set_params_db_def
      ipc_agm_session_aif_set_cal_db_def ipc_agm_session_get_params_db_def ipc_agm_get_buffer_timestamp_db_def
      split: bind_splits if_splits image.splits option.splits)

lemma proc_ok_mono: "proc_ok known p \<Longrightarrow> (\<And>x. known x \<noteq> None \<Longrightarrow> known' x \<noteq> None) \<Longrightarrow> proc_ok known' p"
  unfolding proc_ok_def record_ok_def Let_def by blast

text \<open>New session data take the next address; the object of the session is new as well.\<close>

lemma get_session_data_inv:
  assumes "dbus_env_ok D" "dbus_inv s" "get_session_data D x s = Some (r, s')"
  shows "dbus_inv s' \<and> (\<exists>d. r = Some d \<and> d_sessions s' x = Some d) \<and> dprocs s' = dprocs s"
proof (cases "d_sessions s x")
  case None
  let ?d = "length (d_data s)"
  have entry: "session_entry s y" for y using assms(2) by (simp add: dbus_inv_def)
  from entry [of x] None have "d_objects s (Session_path x) = None" by (simp add: session_entry_def)
  with None assms(1,3) have s': "r = Some ?d" "d_objects s' = (d_objects s)(Session_path x := Some [AGM_SESSION_IFACE \<mapsto> ?d])"
      "d_paths s' = insert (Session_path x) (d_paths s)" "d_sessions s' = (d_sessions s)(x := Some ?d)" "dprocs s' = dprocs s"
      "d_data s' = d_data s @ [\<lparr>sd_session_id = x, sd_handle = junk_handle D, sd_callbacks = []\<rparr>]"
    by (auto simp: get_session_data_def agm_dbus_add_interface_def d_malloc_def d_ask_def dbus_env_ok_def Let_def)
  have "session_entry s' y" for y
    using entry [of y] by (cases "y = x") (auto simp: session_entry_def s' nth_append split: option.splits)
  moreover have "proc_ok (d_sessions s') (dprocs s' pid)" for pid
    using assms(2) by (auto simp: s' dbus_inv_def intro: proc_ok_mono)
  ultimately show ?thesis using assms(2) s' by (auto simp: dbus_inv_def)
next
  case (Some d)
  with assms(3) have "r = Some d" "s' = s" by (auto simp: get_session_data_def)
  with assms(2) Some show ?thesis by simp
qed

text \<open>The three methods that make session data answer with the path of the object.\<close>

definition path_reply :: "u32 \<Rightarrow> d_reply \<Rightarrow> dbus_state \<Rightarrow> bool" where
  "path_reply x rep s \<longleftrightarrow> (case rep of Failed \<Rightarrow> True | Reply vs \<Rightarrow> vs = [Obj (Session_path x)] \<and> d_sessions s x \<noteq> None)"

lemma inv_session_id: "dbus_inv s \<Longrightarrow> d_sessions s x = Some d \<Longrightarrow> sd_session_id (d_data s ! d) = x \<and> d < length (d_data s)"
  by (auto simp: dbus_inv_def session_entry_def dest: spec [of _ x])

lemma ids_update [simp]: "(map f xs)[d := f (xs ! d)] = map f xs"
  using map_update [of f xs d "xs ! d"] by simp

lemma quiet_entry:
  assumes "same_tables s s'" "dbus_inv s" "d_sessions s x = Some d"
  shows "dbus_inv s'" "d_sessions s' x = Some d" "sd_session_id (d_data s' ! d) = x" "dprocs s' = dprocs s"
  using same_tables_inv [OF assms(1,2)] assms by (auto simp: same_tables_def dest: inv_session_id)

lemma register_inv:
  assumes "dbus_env_ok D" "dbus_inv s" "m \<in> {AgmSessionRegisterCb, AgmSessionDeRegisterCb}"
    and "agm_dbus_module_methods D m [U32 x, Evt ev, Ptr c] s = Some (rep, s')"
  shows "dbus_inv s' \<and> path_reply x rep s' \<and> dprocs s' = dprocs s"
proof -
  from assms(3,4) obtain r t where t: "get_session_data D x s = Some (r, t)"
    by (auto simp: ipc_agm_session_register_cb_db_def ipc_agm_session_deregister_cb_db_def with_args_def
        dbus_message_get_signature_def split: bind_splits)
  from get_session_data_inv [OF assms(1,2) t] obtain d where d: "r = Some d" "d_sessions t x = Some d" "dbus_inv t"
      "dprocs t = dprocs s" by auto
  have "same_tables t s'" "case rep of Failed \<Rightarrow> True | Reply vs \<Rightarrow> vs = [Obj (Session_path (sd_session_id (d_data s' ! d)))]"
    using assms(3,4) t d inv_session_id [OF d(3,2)]
    by (auto simp: ipc_agm_session_register_cb_db_def ipc_agm_session_deregister_cb_db_def with_args_def
        dbus_message_get_signature_def d_agm_def agm_free_session_def d_malloc_def d_ask_def same_tables_def upd_data_def
        Let_def map_update nth_list_update split: bind_splits if_splits d_reply.splits)
  with quiet_entry [OF this(1) d(3,2)] d show ?thesis by (auto simp: path_reply_def split: d_reply.splits)
qed

lemma open_inv:
  assumes "dbus_env_ok D" "dbus_inv s" "agm_dbus_module_methods D AgmSessionOpen [U32 x] s = Some (rep, s')"
  shows "dbus_inv s' \<and> path_reply x rep s' \<and> dprocs s' = dprocs s"
proof -
  from assms(3) obtain r t where t: "get_session_data D x s = Some (r, t)"
    by (auto simp: ipc_agm_session_open_db_def with_args_def dbus_message_get_signature_def split: bind_splits)
  from get_session_data_inv [OF assms(1,2) t] obtain d where d: "r = Some d" "d_sessions t x = Some d" "dbus_inv t"
      "dprocs t = dprocs s" by auto
  have "same_tables t s'" "case rep of Failed \<Rightarrow> True | Reply vs \<Rightarrow> vs = [Obj (Session_path (sd_session_id (d_data s' ! d)))]"
    using assms(3) t d inv_session_id [OF d(3,2)]
    by (auto simp: ipc_agm_session_open_db_def with_args_def dbus_message_get_signature_def d_agm_def agm_free_session_def
        d_ask_def same_tables_def upd_data_def Let_def map_update nth_list_update
        split: bind_splits if_splits d_reply.splits)
  with quiet_entry [OF this(1) d(3,2)] d show ?thesis by (auto simp: path_reply_def split: d_reply.splits)
qed

section \<open>The calls of a client\<close>

lemma inv_server_up: "dbus_inv s \<Longrightarrow> server_up s"
  by (auto simp: dbus_inv_def server_up_def session_entry_def dest: spec split: option.splits)

lemma inv_proc:
  assumes "dbus_inv s" "proc_ok (d_sessions s) (f (dprocs s pid))"
  shows "dbus_inv (upd_dproc pid f s)"
  using assms by (auto simp: dbus_inv_def upd_dproc_def session_entry_def cong: option.case_cong)

lemma inv_tick [simp]: "dbus_inv (s\<lparr>dtick := n\<rparr>) = dbus_inv s" "dbus_inv (s\<lparr>dsubs := xs\<rparr>) = dbus_inv s"
    "dbus_inv (s\<lparr>dcalls := cs\<rparr>) = dbus_inv s"
  by (simp_all add: dbus_inv_def session_entry_def cong: option.case_cong)

lemma inv_reach:
  assumes "dbus_env_ok D" "dbus_inv s"
  shows "dbus_inv (d_reach D pid s)" "dc_mdata (dprocs (d_reach D pid s) pid)"
proof -
  have "proc_ok (d_sessions s) (dprocs s pid)" using assms(2) by (simp add: dbus_inv_def)
  with assms show "dbus_inv (d_reach D pid s)"
    by (auto simp: d_reach_def need_module_data_def initialize_module_data_def d_ask_def dbus_env_ok_def Let_def proc_ok_def
        intro!: inv_proc)
  show "dc_mdata (dprocs (d_reach D pid s) pid)"
    using assms(1) by (auto simp: d_reach_def need_module_data_def initialize_module_data_def d_ask_def dbus_env_ok_def
        upd_dproc_def Let_def)
qed

lemma module_call_inv:
  assumes "dbus_env_ok D" "m \<notin> {AgmSessionOpen, AgmSessionRegisterCb, AgmSessionDeRegisterCb}" "dbus_inv s"
    and "module_call D pid m args s = Some (r, s')"
  shows "dbus_inv s'"
proof -
  obtain rep where "agm_dbus_module_methods D m args (d_reach D pid s) = Some (rep, s')"
    using assms(4) by (auto simp: module_call_up [OF assms(1) inv_server_up [OF assms(3)]] split: bind_splits)
  from quiet_inv [OF quiet_module_method [OF assms(2)] this inv_reach(1) [OF assms(1,3)]] show ?thesis .
qed

lemma session_call_inv:
  assumes "dbus_inv s" "session_call D pid h m args s = Some (r, s')"
  shows "dbus_inv s'"
proof -
  have "quiet (\<lambda>s. server_message_handler D path (Session m) args s)" for path
    using quiet_session_method by (auto simp: quiet_def server_message_handler_def split: option.splits)
  from quiet_inv [OF this] assms show ?thesis
    by (auto simp: session_call_def proxy_call_def split: bind_splits if_splits)
qed

text \<open>A reply with the path of an object, and what the client makes of it.\<close>

definition got_path :: "nat \<Rightarrow> u32 \<Rightarrow> dval list \<Rightarrow> dbus_state \<Rightarrow> bool" where
  "got_path pid x vs s \<longleftrightarrow> vs = [Obj (Session_path x)] \<and> d_sessions s x \<noteq> None \<and> dc_mdata (dprocs s pid)"

lemma path_call_inv:
  assumes "dbus_env_ok D" "dbus_inv s" "module_call D pid m args s = Some ((ret, vs), s')"
    and "m = AgmSessionOpen \<and> args = [U32 x] \<or> m \<in> {AgmSessionRegisterCb, AgmSessionDeRegisterCb} \<and> args = [U32 x, Evt ev, Ptr c]"
  shows "dbus_inv s' \<and> (ret = 0 \<longrightarrow> got_path pid x vs s')"
proof -
  let ?s = "d_reach D pid s"
  obtain rep where rep: "agm_dbus_module_methods D m args ?s = Some (rep, s')"
      "(ret, vs) = (case rep of Failed \<Rightarrow> (- EINVAL, []) | Reply vs \<Rightarrow> (0, vs))"
    using assms(3) by (auto simp: module_call_up [OF assms(1) inv_server_up [OF assms(2)]] split: bind_splits)
  have "dbus_inv s' \<and> path_reply x rep s' \<and> dprocs s' = dprocs ?s"
    using assms(4)
  proof
    assume "m = AgmSessionOpen \<and> args = [U32 x]"
    with open_inv [OF assms(1) inv_reach(1) [OF assms(1,2)]] rep(1) show ?thesis by blast
  next
    assume "m \<in> {AgmSessionRegisterCb, AgmSessionDeRegisterCb} \<and> args = [U32 x, Evt ev, Ptr c]"
    with register_inv [OF assms(1) inv_reach(1) [OF assms(1,2)]] rep(1) show ?thesis by blast
  qed
  with rep(2) inv_reach(2) [OF assms(1,2)] show ?thesis by (auto simp: path_reply_def got_path_def split: d_reply.splits)
qed

lemma distinct_map_by_table:
  assumes "\<And>c. c < length xs \<Longrightarrow> t (f (xs ! c)) = Some c"
  shows "distinct (map f xs)"
  unfolding distinct_conv_nth
proof (intro allI impI)
  fix i j assume "i < length (map f xs)" "j < length (map f xs)" "i \<noteq> j"
  with assms [of i] assms [of j] show "map f xs ! i \<noteq> map f xs ! j" by auto
qed

lemma proc_ok_entry:
  "proc_ok known p \<Longrightarrow> dc_mdata p \<Longrightarrow> ses_hash_table p x = Some c \<Longrightarrow>
    c < length (dc_sessions p) \<and> cs_session_id (dc_sessions p ! c) = x"
  unfolding proc_ok_def by blast

lemma new_client_session_inv:
  assumes "dbus_env_ok D" "dbus_inv s" "got_path pid x vs s"
    and "new_client_session D pid x (Session_path x) th (z, s) = (c, s')"
  shows "dbus_inv s' \<and> (\<exists>i. c = Some i \<and> i < length (dc_sessions (dprocs s' pid)) \<and> cs_session_id (dc_sessions (dprocs s' pid) ! i) = x)"
proof -
  let ?p = "dprocs s pid"
  have p: "proc_ok (d_sessions s) ?p" "dc_mdata ?p" "d_sessions s x \<noteq> None"
    using assms(2,3) by (auto simp: dbus_inv_def got_path_def)
  show ?thesis
  proof (cases "ses_hash_table ?p x")
    case None
    let ?e = "\<lparr>cs_obj_path = Session_path x, cs_session_id = x, cs_thread_loop = th, cs_callbacks = []\<rparr>"
    let ?f = "\<lambda>p. p\<lparr>dc_sessions := dc_sessions p @ [?e],
      ses_hash_table := (ses_hash_table p)(x \<mapsto> length (dc_sessions ?p))\<rparr>"
    have "record_ok (d_sessions s) (?f ?p) i" if "i < length (dc_sessions (?f ?p))" for i
    proof (cases "i < length (dc_sessions ?p)")
      case True
      with p(1) have i: "record_ok (d_sessions s) ?p i" by (simp add: proc_ok_def)
      then have "cs_session_id (dc_sessions ?p ! i) \<noteq> x" using None by (auto simp: record_ok_def Let_def)
      with i True show ?thesis by (simp add: record_ok_def Let_def nth_append)
    next
      case False
      with that have "i = length (dc_sessions ?p)" by simp
      with p(3) show ?thesis by (simp add: record_ok_def Let_def)
    qed
    moreover have "i < length (dc_sessions (?f ?p)) \<and> cs_session_id (dc_sessions (?f ?p) ! i) = y"
      if "ses_hash_table (?f ?p) y = Some i" for y i
    proof (cases "y = x")
      case False
      with that have "ses_hash_table ?p y = Some i" by simp
      from proc_ok_entry [OF p(1,2) this] show ?thesis by (simp add: nth_append)
    next
      case True
      with that have "i = length (dc_sessions ?p)" by simp
      with True show ?thesis by simp
    qed
    ultimately have "proc_ok (d_sessions s) (?f ?p)" using p(2) by (simp add: proc_ok_def)
    then have inv: "dbus_inv (upd_dproc pid ?f s)" by (rule inv_proc [OF assms(2)])
    have "dbus D n" "dthread D n" for n using assms(1) by (simp_all add: dbus_env_ok_def)
    then have "s' = (upd_dproc pid ?f s)\<lparr>dtick := (if th then dtick s + 2 else dtick s + 1)\<rparr>"
        "c = Some (length (dc_sessions ?p))"
      using assms(4) None by (cases th; auto simp: new_client_session_def d_ask_def upd_dproc_def Let_def)+
    with inv show ?thesis by (simp add: upd_dproc_def)
  next
    case (Some i)
    with assms(4) have "c = Some i" "s' = s" by (auto simp: new_client_session_def)
    with proc_ok_entry [OF p(1,2) Some] assms(2) show ?thesis by simp
  qed
qed

lemma upd_cs_inv:
  assumes "dbus_inv s" "\<And>e. cs_session_id (f e) = cs_session_id e" "\<And>e. cs_obj_path (f e) = cs_obj_path e"
  shows "dbus_inv (upd_cs pid c f s)"
proof -
  let ?g = "\<lambda>p. p\<lparr>dc_sessions := (dc_sessions p)[c := f (dc_sessions p ! c)]\<rparr>"
  have nth: "cs_session_id ((dc_sessions p)[c := f (dc_sessions p ! c)] ! i) = cs_session_id (dc_sessions p ! i)
    \<and> cs_obj_path ((dc_sessions p)[c := f (dc_sessions p ! c)] ! i) = cs_obj_path (dc_sessions p ! i)"
    if "i < length (dc_sessions p)" for p i
    using that assms(2,3) by (cases "c = i") simp_all
  have "proc_ok known (?g p)" if "proc_ok known p" for known p
    using that nth [of _ p] by (auto simp: proc_ok_def record_ok_def Let_def)
  with assms(1) show ?thesis
    unfolding upd_cs_def by (intro inv_proc) (simp_all add: dbus_inv_def)
qed

lemma subscribe_ids:
  "map cs_session_id (dc_sessions (dprocs (subscribe_callback_event pid c b k s) p)) = map cs_session_id (dc_sessions (dprocs s p))"
  by (auto simp: subscribe_callback_event_def unsubscribe_def upd_cs_def upd_dproc_def map_update Let_def split: option.split)

lemma subscribe_inv: "dbus_inv s \<Longrightarrow> dbus_inv (subscribe_callback_event pid c b k s)"
  by (auto simp: subscribe_callback_event_def unsubscribe_def Let_def split: option.split intro!: upd_cs_inv)

section \<open>Runs\<close>

text \<open>
  Requests of any clients, with any result that is delivered, and events of the service: the server's
  function is called with session data. Between them the state of the service may change in any way.
\<close>

inductive dbus_run :: "dbus_env \<Rightarrow> dbus_state \<Rightarrow> dbus_state \<Rightarrow> bool" for D s where
  dbus_none: "dbus_run D s s"
| dbus_request: "dbus_run D s t \<Longrightarrow> dbus_serve D pid q t = Some (r, u) \<Longrightarrow> dbus_run D s u"
| dbus_event: "dbus_run D s t \<Longrightarrow> agmevent_cb D x params d t = Some ((), u) \<Longrightarrow> dbus_run D s u"
| dbus_service: "dbus_run D s t \<Longrightarrow> dbus_run D s (t\<lparr>dsvc := v\<rparr>)"

lemma emit_signal_inv: "emit_signal path args subs s = Some ((), s') \<Longrightarrow> dbus_inv s' = dbus_inv s"
proof (induction subs arbitrary: s)
  case (Cons a subs)
  then show ?case
    by (cases a) (auto simp: on_emit_signal_callback_def split: if_splits bind_splits image.splits; fastforce)
qed simp

lemma event_inv: "dbus_inv s \<Longrightarrow> agmevent_cb D x params d s = Some ((), s') \<Longrightarrow> dbus_inv s'"
  by (auto simp: agmevent_cb_def d_malloc_def d_ask_def dest!: emit_signal_inv split: if_splits bind_splits)

lemma open_call_inv:
  assumes "dbus_env_ok D" "dbus_inv s" "agm_session_open_dc D pid x s = Some ((ret, h), s')"
  shows "dbus_inv s'"
  using assms(3) path_call_inv [OF assms(1,2), of pid AgmSessionOpen "[U32 x]" _ _ _ x]
    new_client_session_inv [OF assms(1)]
  by (auto simp: agm_session_open_dc_def reply_path_def got_path_def split: if_splits bind_splits prod.splits; blast)

definition holds :: "dbus_state \<Rightarrow> nat \<Rightarrow> u32 \<Rightarrow> bool" where
  "holds s pid x \<longleftrightarrow> x \<in> set (map cs_session_id (dc_sessions (dprocs s pid)))"

text \<open>What registration and deregistration do with the reply.\<close>

lemma register_reply_inv:
  assumes "dbus_env_ok D" "dbus_inv s" "module_call D pid m [U32 x, Evt ev, Ptr d] s = Some ((ret', vs), t)"
    and "m \<in> {AgmSessionRegisterCb, AgmSessionDeRegisterCb}"
    and "(if ret' \<noteq> 0 then Some (ret', t) else do {
        path \<leftarrow> reply_path vs;
        let (c, u) = new_client_session D pid x path th (None, t);
        case c of None \<Rightarrow> Some (- EINVAL, u) | Some c \<Rightarrow> Some (0, subscribe_callback_event pid c b k u) }) = Some (ret, s')"
  shows "dbus_inv s' \<and> (ret = 0 \<longrightarrow> holds s' pid x)"
proof (cases "ret' = 0")
  case True
  from path_call_inv [OF assms(1-3), of x ev d] assms(4) True have t: "dbus_inv t" "got_path pid x vs t" by auto
  obtain c u where u: "new_client_session D pid x (Session_path x) th (None, t) = (c, u)" by (metis surj_pair)
  from new_client_session_inv [OF assms(1) t u] obtain i where
    i: "dbus_inv u" "c = Some i" "i < length (dc_sessions (dprocs u pid))" "cs_session_id (dc_sessions (dprocs u pid) ! i) = x"
    by auto
  then have "holds u pid x" by (simp add: holds_def) (metis image_eqI nth_mem)
  with assms(5) True t(2) u i(1,2) show ?thesis
    by (auto simp: got_path_def reply_path_def subscribe_inv holds_def subscribe_ids simp del: set_map)
next
  case False
  from path_call_inv [OF assms(1-3), of x ev d] assms(4,5) False show ?thesis by auto
qed

lemma register_call_inv:
  assumes "dbus_env_ok D" "dbus_inv s" "agm_session_register_cb_dc D pid x cb ev d s = Some (ret, s')"
  shows "dbus_inv s' \<and> (ret = 0 \<longrightarrow> holds s' pid x)"
proof (cases cb)
  case None
  with assms(3) show ?thesis
    by (auto simp: agm_session_register_cb_dc_def agm_session_deregister_cb_dc_def split: bind_splits
        dest: register_reply_inv [OF assms(1,2), where m = AgmSessionDeRegisterCb, simplified])
next
  case (Some f)
  with assms(3) show ?thesis
    by (auto simp: agm_session_register_cb_dc_def split: bind_splits
        dest: register_reply_inv [OF assms(1,2), where m = AgmSessionRegisterCb, simplified])
qed

lemma dbus_serve_inv:
  assumes "dbus_env_ok D" "dbus_inv s" "dbus_serve D pid q s = Some (r, s')"
  shows "dbus_inv s'"
proof -
  have module: "dbus_inv t" if "module_call D pid m args s = Some (v, t)"
      "m \<notin> {AgmSessionOpen, AgmSessionRegisterCb, AgmSessionDeRegisterCb}" for m args v t
    using module_call_inv [OF assms(1) that(2) assms(2) that(1)] .
  note session = session_call_inv [OF assms(2)]
  have plain: "dbus_inv s'" if "module_code D pid m args s = Some (r, s')"
      "m \<notin> {AgmSessionOpen, AgmSessionRegisterCb, AgmSessionDeRegisterCb}" for m args
    using that by (auto dest: module simp: module_code_def split: bind_splits)
  have sess: "dbus_inv s'" if "session_code D pid h m args s = Some (r, s')" for h m args
    using that session by (auto simp: session_code_def split: bind_splits)
  show ?thesis
    using assms(3)
  proof (cases q)
    case (Session_open x b)
    with assms(3) open_call_inv [OF assms(1,2)] show ?thesis by (auto simp: d_code_def split: if_splits bind_splits)
  next
    case (Session_register_cb x cb ev d)
    with assms(3) register_call_inv [OF assms(1,2)] show ?thesis by simp
  qed (auto simp: dc_calls d_code_def agm_session_aif_get_tag_module_info_dc_def agm_session_aif_get_tag_module_info_size_dc_def
      agm_session_get_params_dc_def agm_get_buffer_timestamp_dc_def agm_session_close_dc_def agm_session_write_dc_def
      agm_session_read_dc_def agm_get_session_time_dc_def split: if_splits bind_splits option.splits image.splits list.splits
      dval.splits dest: plain sess;
      (erule session | erule module, simp))+
qed

lemma dbus_run_inv: "dbus_run D s t \<Longrightarrow> dbus_env_ok D \<Longrightarrow> dbus_inv s \<Longrightarrow> dbus_inv t"
proof (induction rule: dbus_run.induct)
  case (dbus_service t v)
  then show ?case by (simp add: dbus_inv_def session_entry_def cong: option.case_cong)
qed (blast intro: dbus_serve_inv event_inv)+

text \<open>No process knows the server yet.\<close>

definition no_clients :: "dbus_state \<Rightarrow> bool" where
  "no_clients s \<longleftrightarrow> (\<forall>pid. \<not> dc_mdata (dprocs s pid) \<and> dc_sessions (dprocs s pid) = [])"

lemma init_inv:
  assumes "dbus_env_ok D" "no_clients s" "ipc_agm_init_db D acdb delta s = Some (0, s')"
  shows "dbus_inv s'"
proof -
  have ok: "dalloc D n" "dbus D n" "dregister D n" for n using assms(1) by (simp_all add: dbus_env_ok_def)
  have s': "d_objects s' = [AGM_OBJECT_PATH \<mapsto> [AGM_MODULE_IFACE \<mapsto> 0]]" "AGM_OBJECT_PATH \<in> d_paths s'"
      "d_sessions s' = (\<lambda>_. None)" "dprocs s' = dprocs s"
    using assms(3)
    by (auto simp: ipc_agm_init_db_def agm_dbus_new_connection_def agm_setup_dbus_with_main_loop_def agm_dbus_add_interface_def
        agm_dbus_connection_free_def d_malloc_def d_ask_def d_agm_def ok Let_def split: bind_splits if_splits)
  with assms(2) show ?thesis by (auto simp: dbus_inv_def session_entry_def proc_ok_def no_clients_def)
qed

text \<open>A handle of a process leads to the data of the session.\<close>

definition leads_to :: "dbus_state \<Rightarrow> nat \<Rightarrow> nat \<Rightarrow> u32 \<Rightarrow> bool" where
  "leads_to s pid c x \<longleftrightarrow> (\<exists>d. data_of pid s (Some c) = Some d \<and> d_sessions s x = Some d
     \<and> d < length (d_data s) \<and> sd_session_id (d_data s ! d) = x)"

lemma inv_leads_to:
  assumes "dbus_inv s" "c < length (dc_sessions (dprocs s pid))"
  shows "leads_to s pid c (cs_session_id (dc_sessions (dprocs s pid) ! c))"
proof -
  let ?e = "dc_sessions (dprocs s pid) ! c"
  have "record_ok (d_sessions s) (dprocs s pid) c" using assms by (simp add: dbus_inv_def proc_ok_def)
  then obtain d where d: "cs_obj_path ?e = Session_path (cs_session_id ?e)" "d_sessions s (cs_session_id ?e) = Some d"
    by (auto simp: record_ok_def Let_def)
  moreover have "session_entry s (cs_session_id ?e)" using assms(1) by (simp add: dbus_inv_def)
  ultimately show ?thesis by (simp add: leads_to_def data_of_def session_entry_def)
qed

lemma open_delivers:
  assumes "dbus_env_ok D" "dbus_inv s" "agm_session_open_dc D pid x s = Some ((0, h), s')"
  shows "\<exists>c. h = Some c \<and> leads_to s' pid c x"
proof -
  have inv: "dbus_inv s'" by (rule open_call_inv [OF assms])
  obtain vs t where t: "module_call D pid AgmSessionOpen [U32 x] s = Some ((0, vs), t)"
    using assms(3) by (auto simp: agm_session_open_dc_def split: if_splits bind_splits)
  from path_call_inv [OF assms(1,2) t, of x] have g: "dbus_inv t" "got_path pid x vs t" by auto
  obtain c u where u: "new_client_session D pid x (Session_path x) False (None, t) = (c, u)" by (metis surj_pair)
  from new_client_session_inv [OF assms(1) g u] assms(3) t u g(2) obtain i where
    "h = Some i" "s' = u" "i < length (dc_sessions (dprocs u pid))" "cs_session_id (dc_sessions (dprocs u pid) ! i) = x"
    by (auto simp: agm_session_open_dc_def got_path_def reply_path_def)
  with inv_leads_to [OF inv] show ?thesis by metis
qed


text \<open>Process 7 registers a function for the session 5 with a server that has just started.\<close>

definition start_dbus :: dbus_state where
  "start_dbus = (sample_dbus start_state)\<lparr>d_sessions := (\<lambda>_. None), d_data := [], d_objects := (\<lambda>_. None), d_paths := {},
     dprocs := (\<lambda>pid. \<lparr>dc_mdata = False, ses_hash_table = (\<lambda>_. None), dc_sessions = []\<rparr>)\<rparr>"

definition start_dbus_env :: dbus_env where
  "start_dbus_env = sample_dbus_env\<lparr>denv := sample_env\<rparr>"

lemma start_dbus_ok [simp]: "dbus_env_ok start_dbus_env" "no_clients start_dbus" "denv start_dbus_env = sample_env"
    "dalloc start_dbus_env n" "dbus start_dbus_env n" "dregister start_dbus_env n" "dthread start_dbus_env n"
  by (simp_all add: start_dbus_env_def sample_dbus_env_def dbus_env_ok_def no_clients_def start_dbus_def)

lemma start_dbus_init:
  obtains s1 where "ipc_agm_init_db start_dbus_env ''/acdb'' ''/delta'' start_dbus = Some (0, s1)" "sess_pool (dsvc s1) = Some []"
    "dprocs s1 = dprocs start_dbus"
proof -
  obtain t where "agm_init sample_env ''/acdb'' ''/delta'' start_state = Some (0, t)" "sess_pool t = Some []"
    by (rule sample_init)
  moreover have "dsvc start_dbus = start_state" "d_objects start_dbus = (\<lambda>_. None)" by (simp_all add: start_dbus_def)
  ultimately have "\<exists>s1. ipc_agm_init_db start_dbus_env ''/acdb'' ''/delta'' start_dbus = Some (0, s1)
      \<and> sess_pool (dsvc s1) = Some [] \<and> dprocs s1 = dprocs start_dbus"
    by (simp add: ipc_agm_init_db_def agm_dbus_new_connection_def agm_setup_dbus_with_main_loop_def agm_dbus_add_interface_def
        d_malloc_def d_ask_def d_agm_def Let_def)
  then show thesis using that by blast
qed

lemma start_dbus_request:
  assumes "dbus_inv s1" "sess_pool (dsvc s1) = Some []" "dprocs s1 = dprocs start_dbus"
  obtains s2 where "dbus_run start_dbus_env s1 s2" "holds s2 7 5"
proof -
  let ?q = "Session_register_cb 5 (Some 3) AGM_EVENT_MODULE 9"
  have "\<exists>t. agm_session_register_cb sample_env 5 (Some k) AGM_EVENT_MODULE d (dsvc s1) = Some (0, t)" for k d
    using assms(2) by (simp add: agm_session_register_cb_def with_session_def session_obj_get_def session_obj_get_from_pool_def
        session_obj_create_def calloc_def session_obj_register_cb_def sess_at_def)
  then obtain t where "agm_session_register_cb sample_env 5 (Some (dcb start_dbus_env)) AGM_EVENT_MODULE (data_address s1 5) (dsvc s1)
      = Some (0, t)" by blast
  then have "view dsvc (agm_session_register_cb_dc start_dbus_env 7 5 (Some 3) AGM_EVENT_MODULE 9 s1) = Some (0, t)"
    using view_dc_register [OF start_dbus_ok(1) inv_server_up [OF assms(1)], of 7 5 "Some 3" AGM_EVENT_MODULE 9]
    by (simp add: dcode_def)
  then obtain s2 where s2: "agm_session_register_cb_dc start_dbus_env 7 5 (Some 3) AGM_EVENT_MODULE 9 s1 = Some (0, s2)"
    by (cases "agm_session_register_cb_dc start_dbus_env 7 5 (Some 3) AGM_EVENT_MODULE 9 s1") auto
  then have "dbus_serve start_dbus_env 7 ?q s1 = Some (0, s2)" by simp
  then have "dbus_run start_dbus_env s1 s2" by (rule dbus_request [OF dbus_none])
  with register_call_inv [OF start_dbus_ok(1) assms(1) s2] that show thesis by simp
qed


end
