(* ===== verification/Spec2Isabelle.thy ===== *)
theory Spec2Isabelle
  imports Agm_Service_Props Agm_Props_Session Agm_Sample_Init Agm_Props_Graph
    Agm_List Agm_Card_Props Agm_Pcm_Heap Agm_Compress_Life Agm_Mixer_Use Agm_Hidl_Death Agm_Swb_Props
    Agm_Dbus_Inv
begin

text \<open>
  The Audio Graph Manager (AGM): a verification development.

  The program. AGM runs audio streams on a DSP. Clients address a \<^emph>\<open>session\<close> (a stream) and
  \<^emph>\<open>audio interfaces\<close> (AIFs, the backends: PCM devices of the machine). A session owns a graph
  that GSL runs on the DSP, and references to the devices that it is connected to. Metadata (key
  vectors) of the session, of the AIF and of the pair select the graph. On top of the service,
  three tinyalsa plugins let ordinary ALSA clients use it: a PCM plugin, a compress plugin and a
  mixer plugin, which find their devices in a card definition file. The service can run in a
  process of its own; a client library then offers the same functions and forwards the calls.

  Parts and theories, with the files under \<open>src/\<close> that they model.
  \<^item> \<open>Agm_Prelude\<close>: words, errno values, the judgements \<open>runs\<close> and \<open>posts\<close>, the locale \<open>store\<close>.
  \<^item> \<open>Agm_Types\<close>, \<open>Agm_Env\<close>: the structs and enums of \<open>service/inc\<close>, the state, and the outside
    (GSL, tinyalsa, allocator, sysfs, platform constants) as the parameter \<open>E\<close>.
  \<^item> \<open>Agm_Utils\<close> (\<open>service/src/utils.c\<close>), \<open>Agm_Metadata\<close> (\<open>metadata.c\<close>), \<open>Agm_Hw_Ep\<close>
    (\<open>device_hw_ep.c\<close>), \<open>Agm_Device\<close> (\<open>device.c\<close>), \<open>Agm_Graph_Module\<close> (\<open>graph_module.c\<close>),
    \<open>Agm_Graph\<close> (\<open>graph.c\<close>), \<open>Agm_Session\<close> (\<open>session_obj.c\<close>, the state machine),
    \<open>Agm_Session_Api\<close> (the entry points of \<open>session_obj.c\<close> and \<open>agm.c\<close>).
  \<^item> \<open>Agm_List\<close> (\<open>service/inc/agm_list.h\<close>): the intrusive list on a heap of nodes.
  \<^item> \<open>Agm_Card_Def\<close> (\<open>snd_parser/src/snd-card-parser.c\<close>): the expat handlers, the counted card
    definitions and their getters.
  \<^item> \<open>Agm_Plugin_Env\<close>: what the plugins share: a state made of the service, the card definitions
    and the heap blocks of the plugins, and the outside \<open>X\<close>. \<open>Agm_Pcm_Plugin\<close>,
    \<open>Agm_Compress_Plugin\<close>, \<open>Agm_Mixer_Plugin\<close> and \<open>Agm_Mixer_Ctls\<close> model
    \<open>plugins/tinyalsa/src/agm_pcm_plugin.c\<close>, \<open>agm_compress_plugin.c\<close> and \<open>agm_mixer_plugin.c\<close>. They
    call the models of the service and of the card definitions directly.
  \<^item> \<open>Agm_Hidl_Server\<close>, \<open>Agm_Hidl_Client\<close> (\<open>ipc/HwBinders/agm_ipc_service/src/agm_server_wrapper.cpp\<close>,
    \<open>ipc/HwBinders/agm_ipc_client/src\<close>): the HwBinder server with its records of clients and callbacks,
    and the client library in every client process. The handlers call the model of the service.
  \<^item> \<open>Agm_Swb_Server\<close>, \<open>Agm_Swb_Dispatch\<close>, \<open>Agm_Swb_Client\<close> (\<open>ipc/SwBinders/agm_server/src\<close>,
    \<open>ipc/SwBinders/agm_client/src\<close>): the same for SwBinder, where the code itself writes and reads the
    parcels: \<open>agm_death_notifier.cpp\<close>, \<open>agm_callback.cpp\<close> and \<open>agm_server_wrapper.cpp\<close>; the switch of
    \<open>ipc_proxy_server.cpp\<close>, a definition for every case; the proxy and the client library. What the
    read functions of libbinder deliver is the parameter \<open>B\<close>.
  \<^item> \<open>Agm_Dbus_Server\<close>, \<open>Agm_Dbus_Client\<close> (\<open>ipc/DBus/agm_server/src/agm_server_wrapper_dbus.cpp\<close>,
    \<open>agm-dbus-utils.cpp\<close>, \<open>ipc/DBus/agm_client/src/agm_client_wrapper_dbus.cpp\<close>): the same for D-Bus,
    where the server has an object for every session and the client library a table of them.

  State and operations. Every C function is one definition of the same name; a part of a long
  function that is a loop or a group of labels has a definition of its own. A function takes the
  state and returns its result and the new state, or \<open>None\<close> for undefined behaviour (NULL or freed
  pointers, accesses outside an array) and for a call that blocks for ever. Errors of the code are
  ordinary negative results. Pointers into the stores are keys: devices by index, sessions by
  index, graphs by address. Words have the width of the C type wherever a value can wrap around.
  Nothing is assumed of the outside unless a theorem names it (\<open>alloc_ok\<close>: allocations succeed;
  \<open>gsl_write_ok\<close>: GSL takes at most the bytes it is given).

  What is shown.
  \<^item> Service (this theory, \<open>Agm_Device_Inv\<close>, \<open>Agm_Resources\<close>, \<open>Agm_Lifecycle\<close>, \<open>Agm_Service\<close>,
    \<open>Agm_Service_Props\<close>): over all sequences of requests the reference counts of the devices are
    the open AIFs, and from \<open>agm_init\<close> to \<open>agm_deinit\<close> no PCM handle leaks, whatever GSL and the
    devices answer. The requests are \<open>careful\<close>: an opened AIF is not connected again, one that was
    never opened is not disconnected, and a connect to a running session succeeds; without these
    conditions the code does lose references.
  \<^item> Session state machine (\<open>Agm_Session_Props\<close>, \<open>Agm_Props_Session\<close>): the exact outcome of prepare,
    start, stop and close on every branch, the order of graph and device calls, lookup in the
    pool, dispatch of events.
  \<^item> Data (\<open>Agm_Props_Data\<close>, \<open>Agm_Props_Graph\<close>): deduplication equals a reference definition, the
    metadata round trip, PCM names, error codes, payload sizes, the outcome of \<open>graph_open\<close>.
  \<^item> \<open>Agm_List\<close>: every operation refines the one on sequences; this justifies HOL lists elsewhere.
  \<^item> \<open>Agm_Card_Parse\<close>, \<open>Agm_Card_Props\<close>: a document of the documented layout is parsed to what it
    says, in whatever chunks it arrives; references; bounds; the lock that one path keeps.
  \<^item> \<open>Agm_Pcm_Props\<close>, \<open>Agm_Plugin_Heap\<close>, \<open>Agm_Pcm_Heap\<close>: the hardware pointer refines the stream
    position, the boundary loop ends exactly for sensible buffers, heap balance of open and close.
  \<^item> \<open>Agm_Compress_Props\<close>, \<open>Agm_Compress_Life\<close>: \<open>bytes_avail\<close> refines a ring of fragments, the sample
    width goes from the client through the plugin and the service to the graph code, a drain ends
    at the end of the stream, heap balance.
  \<^item> \<open>Agm_Mixer_Props\<close>, \<open>Agm_Mixer_Life\<close>, \<open>Agm_Mixer_Use\<close>: the table of controls is complete and
    without a gap, metadata goes to the selected backend, events are queues per session.
  \<^item> \<open>Agm_Hidl_Props\<close>, \<open>Agm_Hidl_Death\<close>: a request over HwBinder does to the service what the same
    request does directly, as far as the transport can carry it (\<open>travels\<close>); the list of clients
    refines a ledger; the death of a client closes its sessions and removes its callbacks, and
    nothing of the others; an event reaches the function that registered for it.
  \<^item> \<open>Agm_Swb_Props\<close>: the same transparency for SwBinder (\<open>fits\<close>), but for the callbacks; the death of
    a client; which of the registered functions an event calls; which requests report success
    although the server had no memory for them. \<open>parcel_ok\<close> states what libbinder promises.
  \<^item> \<open>Agm_Dbus_Props\<close>: the same transparency for D-Bus (\<open>dbus_fits\<close>), with one code for all errors;
    the closes that crash the server; the functions that an event calls. \<open>Agm_Dbus_Inv\<close>: from the
    start of the server on, every handle of a client leads to the data of its session.

  Interfaces are locales, interpreted on the model: \<open>store\<close> (the device list, the session pool, the
  graph heap, the device tables of the mixer plugin), \<open>frame_logic\<close> (what an operation leaves
  alone), \<open>device_op\<close> and \<open>counted_device_op\<close> (the five device operations), \<open>item_list\<close> (the
  intrusive list), \<open>mailbox\<close> (the waiting events), \<open>transport\<close> (a state that contains that of the
  service). \<open>Agm_Sample\<close> and \<open>Agm_Sample_Init\<close> hold concrete inputs.

  Loops and bounds. Loops over lists are structural. Three loops need not end and are partial
  functions with \<open>None\<close> for not ending: the two iterators of the list, shown to end on every list,
  and the boundary loop of the PCM plugin, shown to end exactly for 1 to \<open>0x7fffffff\<close> frames. The
  retries of \<open>device_init\<close> (20) and of the shared position (10) are those of the code.

  Not modelled. The generated HIDL stubs, libbinder, libdbus and GLib are not part of the repository;
  they are taken to hand over the arguments. The functions of \<open>agm-dbus-utils.cpp\<close> that connect
  libdbus with the main loop of GLib only pass the calls of one library to the other. The main
  functions of the server processes. Mutexes: every entry point is one atomic step
  (the read-write lock of the card definitions is modelled, since a path keeps it). Condition
  variables have no spurious wake-ups. The ATS thread of \<open>agm_init\<close>, logging, the constraints table
  \<open>agm_pcm_constrs\<close> that is handed to tinyalsa, and the stubs of \<open>agm_dummy_impl.c\<close>.
\<close>

section \<open>The service as a whole\<close>


text \<open>One request: the AIF 0 is connected to the session 5, which is created.\<close>

lemma sample_request:
  assumes "sess_pool s1 = Some []" "device_list s1 = [Some sample_device]" "num_audio_intfs s1 = 1"
  obtains s2 where "svc_run sample_env s1 s2" "s2 \<noteq> s1"
    "\<exists>so. sess_at s2 0 = Some so \<and> s_state so = SESSION_CLOSED \<and> map a_state (aif_pool so) = [AIF_OPEN]"
proof -
  have "\<exists>s2. serve sample_env (Session_aif_connect 5 0 True) s1 = Some (0, s2)
      \<and> (\<exists>so. sess_at s2 0 = Some so \<and> s_state so = SESSION_CLOSED \<and> map a_state (aif_pool so) = [AIF_OPEN])"
    using assms
    by (simp add: agm_session_aif_connect_def with_session_def session_obj_get_def session_obj_get_from_pool_def
        session_obj_create_def calloc_def session_obj_sess_aif_connect_def aif_obj_get_def aif_obj_get_from_pool_def
        aif_obj_create_def device_get_obj_def sess_at_def new_session_def zero_aif_def put_sess_def set_aif_state_def
        aif_at_def put_aif_def)
  then obtain s2 where s2: "serve sample_env (Session_aif_connect 5 0 True) s1 = Some (0, s2)"
      "\<exists>so. sess_at s2 0 = Some so \<and> s_state so = SESSION_CLOSED \<and> map a_state (aif_pool so) = [AIF_OPEN]"
    by (elim exE conjE) (rule that, assumption, intro exI conjI)
  have "careful s1 (Session_aif_connect 5 0 True) 0"
    using assms(1) by (simp add: careful_def by_id_def sess_at_def)
  with s2(1) have "svc_run sample_env s1 s2" by (intro run_request [OF run_none])
  moreover have "s2 \<noteq> s1" using s2(2) assms(1) by (auto simp: sess_at_def)
  ultimately show thesis using s2(2) by (rule that)
qed




end
